(* ===== verification/Prelude.thy ===== *)
theory Prelude
  imports Main "HOL-Library.Word"
begin

text \<open>
  Shared vocabulary of the development: the types that stand for the scalar types of the
  code (\<open>Uuid\<close>, \<open>DateTime<Utc>\<close>, \<open>i32\<close>, \<open>i16\<close>), the database error values, the monad in
  which every query function runs, and the generic list lemmas about counting rows that the
  component theories use.
\<close>

named_theorems db_run "equations that run a database computation"
named_theorems db_frame "facts about parts of the database that an operation leaves alone"

section \<open>Scalar types\<close>

text \<open>
  A \<open>Uuid\<close> is a 128 bit value; PostgreSQL orders it bytewise, which is the unsigned order of
  the word. Timestamps are counted in microseconds, the resolution of the database column. SQL
  \<open>INTEGER\<close> columns are \<open>i32\<close> in Rust: they are kept as integers and every statement that
  computes a new value checks the range, since PostgreSQL raises an error instead of wrapping.
\<close>

type_synonym uuid = "128 word"
type_synonym datetime = int
type_synonym i16 = int
type_synonym i32 = int

definition i32_in_range :: "int \<Rightarrow> bool" where
  "i32_in_range n \<longleftrightarrow> - (2 ^ 31) \<le> n \<and> n < 2 ^ 31"

section \<open>Database errors\<close>

text \<open>
  What PostgreSQL can answer to one statement, as far as the schema makes it possible, and the
  error type of the query functions (\<open>DatabaseError\<close> in
  \<open>fedimovies-models/src/database/mod.rs\<close>).
\<close>

datatype pg_error =
    Unique_violation
  | Foreign_key_violation
  | Check_violation
  | Numeric_value_out_of_range
  | Unexpected_row_count

datatype db_error =
    DatabasePoolError
  | DatabaseQueryError
  | DatabaseClientError pg_error
  | DatabaseTypeError
  | NotFound string
  | AlreadyExists string

definition catch_unique_violation :: "string \<Rightarrow> pg_error \<Rightarrow> db_error" where
  "catch_unique_violation object_type err =
     (if err = Unique_violation then AlreadyExists object_type else DatabaseClientError err)"

section \<open>The monad of query functions\<close>

text \<open>
  A query function maps the database to a result and the database after it. An error keeps the
  changes made before it, unless the function runs in a transaction: dropping a transaction
  without \<open>commit\<close> rolls it back, so \<open>transaction\<close> restores the database it started from.
  The query functions fail with \<open>DatabaseError\<close>; the functions that call them have error types of
  their own, so the error type is a parameter.
\<close>

type_synonym ('s, 'e, 'a) result_m = "'s \<Rightarrow> ('e + 'a) \<times> 's"
type_synonym ('s, 'a) db_m = "('s, db_error, 'a) result_m"

definition ret :: "'a \<Rightarrow> ('s, 'e, 'a) result_m" where
  "ret x s = (Inr x, s)"

definition throw :: "'e \<Rightarrow> ('s, 'e, 'a) result_m" where
  "throw e s = (Inl e, s)"

definition bind :: "('s, 'e, 'a) result_m \<Rightarrow> ('a \<Rightarrow> ('s, 'e, 'b) result_m) \<Rightarrow> ('s, 'e, 'b) result_m" where
  "bind m f s = (case m s of (Inl e, s') \<Rightarrow> (Inl e, s') | (Inr x, s') \<Rightarrow> f x s')"

abbreviation andthen :: "('s, 'e, 'a) result_m \<Rightarrow> ('s, 'e, 'b) result_m \<Rightarrow> ('s, 'e, 'b) result_m" where
  "andthen m n \<equiv> bind m (\<lambda>_. n)"

definition query :: "('s \<Rightarrow> 'a) \<Rightarrow> ('s, 'e, 'a) result_m" where
  "query f s = (Inr (f s), s)"

definition update :: "('s \<Rightarrow> 's) \<Rightarrow> ('s, 'e, unit) result_m" where
  "update f s = (Inr (), f s)"

text \<open>One SQL statement that may fail: a failing statement changes nothing.\<close>

definition exec :: "(pg_error \<Rightarrow> 'e) \<Rightarrow> ('s \<Rightarrow> pg_error + 'a \<times> 's) \<Rightarrow> ('s, 'e, 'a) result_m" where
  "exec wrap stmt s = (case stmt s of Inl e \<Rightarrow> (Inl (wrap e), s) | Inr (x, s') \<Rightarrow> (Inr x, s'))"

definition transaction :: "('s, 'e, 'a) result_m \<Rightarrow> ('s, 'e, 'a) result_m" where
  "transaction m s = (case m s of (Inl e, _) \<Rightarrow> (Inl e, s) | (Inr x, s') \<Rightarrow> (Inr x, s'))"

definition ok_or :: "'a option \<Rightarrow> 'e \<Rightarrow> ('s, 'e, 'a) result_m" where
  "ok_or x e = (case x of None \<Rightarrow> throw e | Some y \<Rightarrow> ret y)"

definition ensure :: "bool \<Rightarrow> 'e \<Rightarrow> ('s, 'e, unit) result_m" where
  "ensure b e = (if b then ret () else throw e)"

definition when_do :: "bool \<Rightarrow> ('s, 'e, unit) result_m \<Rightarrow> ('s, 'e, unit) result_m" where
  "when_do b m = (if b then m else ret ())"

text \<open>
  \<open>query_opt\<close> and \<open>query_one\<close> of the database client fail when the statement returns more rows
  than they allow.
\<close>

definition opt_row :: "'a list \<Rightarrow> ('s, 'a option) db_m" where
  "opt_row rows =
     (case rows of
        [] \<Rightarrow> ret None
      | [r] \<Rightarrow> ret (Some r)
      | _ \<Rightarrow> throw (DatabaseClientError Unexpected_row_count))"

definition one_row :: "'a list \<Rightarrow> ('s, 'a) db_m" where
  "one_row rows =
     (case rows of [r] \<Rightarrow> ret r | _ \<Rightarrow> throw (DatabaseClientError Unexpected_row_count))"

definition query_opt :: "('s \<Rightarrow> 'a list) \<Rightarrow> ('s, 'a option) db_m" where
  "query_opt f = bind (query f) opt_row"

definition query_one :: "('s \<Rightarrow> 'a list) \<Rightarrow> ('s, 'a) db_m" where
  "query_one f = bind (query f) one_row"

text \<open>A \<open>for\<close> loop whose body may fail with \<open>?\<close>, and one that collects results.\<close>

primrec for_each :: "'a list \<Rightarrow> ('a \<Rightarrow> ('s, 'e, unit) result_m) \<Rightarrow> ('s, 'e, unit) result_m" where
  "for_each [] f = ret ()"
| "for_each (x # xs) f = bind (f x) (\<lambda>_. for_each xs f)"

primrec collect :: "'a list \<Rightarrow> ('a \<Rightarrow> ('s, 'e, 'b) result_m) \<Rightarrow> ('s, 'e, 'b list) result_m" where
  "collect [] f = ret []"
| "collect (x # xs) f = bind (f x) (\<lambda>y. bind (collect xs f) (\<lambda>ys. ret (y # ys)))"

text \<open>A loop that builds up a value.\<close>

primrec fold_m :: "('a \<Rightarrow> 'b \<Rightarrow> ('s, 'e, 'b) result_m) \<Rightarrow> 'a list \<Rightarrow> 'b \<Rightarrow> ('s, 'e, 'b) result_m" where
  "fold_m f [] acc = ret acc"
| "fold_m f (x # xs) acc = bind (f x acc) (fold_m f xs)"

text \<open>
  Results that are there already, \<open>map_err\<close>, and a \<open>match\<close> on the result of a call: the branch
  decides what an error means.
\<close>

definition lift_result :: "'e + 'a \<Rightarrow> ('s, 'e, 'a) result_m" where
  "lift_result r = (case r of Inl e \<Rightarrow> throw e | Inr x \<Rightarrow> ret x)"

definition map_err :: "('e \<Rightarrow> 'f) \<Rightarrow> ('s, 'e, 'a) result_m \<Rightarrow> ('s, 'f, 'a) result_m" where
  "map_err g m s = (case m s of (Inl e, s') \<Rightarrow> (Inl (g e), s') | (Inr x, s') \<Rightarrow> (Inr x, s'))"

definition attempt ::
    "('s, 'e, 'a) result_m \<Rightarrow> ('e \<Rightarrow> ('s, 'f, 'b) result_m) \<Rightarrow> ('a \<Rightarrow> ('s, 'f, 'b) result_m) \<Rightarrow>
     ('s, 'f, 'b) result_m" where
  "attempt m g f s = (case m s of (Inl e, s') \<Rightarrow> g e s' | (Inr x, s') \<Rightarrow> f x s')"

subsection \<open>Running computations\<close>

lemma ret_run [db_run]: "ret x s = (Inr x, s)"
  by (simp add: ret_def)

lemma throw_run [db_run]: "throw e s = (Inl e, s)"
  by (simp add: throw_def)

lemma query_run [db_run]: "query f s = (Inr (f s), s)"
  by (simp add: query_def)

lemma update_run [db_run]: "update f s = (Inr (), f s)"
  by (simp add: update_def)

lemma bind_Inr [db_run]: "m s = (Inr x, s') \<Longrightarrow> bind m f s = f x s'"
  by (simp add: bind_def)

lemma bind_Inl [db_run]: "m s = (Inl e, s') \<Longrightarrow> bind m f s = (Inl e, s')"
  by (simp add: bind_def)

lemma bind_step: "m s = (Inr x, t) \<Longrightarrow> f x t = res \<Longrightarrow> bind m f s = res"
  by (simp add: bind_def)

lemma bind_ret_left [simp]: "bind (ret x) f = f x"
  by (simp add: fun_eq_iff bind_def ret_def)

lemma bind_ret_right [simp]: "bind m ret = m"
  by (auto simp: fun_eq_iff bind_def ret_def split: prod.splits sum.splits)

lemma bind_assoc: "bind (bind m f) g = bind m (\<lambda>x. bind (f x) g)"
  by (auto simp: fun_eq_iff bind_def split: prod.splits sum.splits)

lemma bind_throw [simp]: "bind (throw e) f = throw e"
  by (simp add: fun_eq_iff bind_def throw_def)

text \<open>Which runs succeed. These turn a successful run of a function into facts about its steps.\<close>

named_theorems db_ok "when a database computation succeeds"

lemma ret_ok [db_ok]: "ret x s = (Inr y, s') \<longleftrightarrow> y = x \<and> s' = s"
  by (auto simp: ret_def)

lemma throw_ok [db_ok]: "throw e s = (Inr y, s') \<longleftrightarrow> False"
  by (simp add: throw_def)

lemma query_ok [db_ok]: "query f s = (Inr y, s') \<longleftrightarrow> y = f s \<and> s' = s"
  by (auto simp: query_def)

lemma update_ok [db_ok]: "update f s = (Inr y, s') \<longleftrightarrow> s' = f s"
  by (auto simp: update_def)

lemma bind_ok [db_ok]:
  "bind m f s = (Inr y, s') \<longleftrightarrow> (\<exists>x t. m s = (Inr x, t) \<and> f x t = (Inr y, s'))"
  by (auto simp: bind_def split: prod.splits sum.splits)

lemma bind_okE:
  assumes "bind m f s = (Inr y, s')"
  obtains x t where "m s = (Inr x, t)" and "f x t = (Inr y, s')"
  using assms by (auto simp: bind_ok)

lemma map_err_ok [db_ok]: "map_err g m s = (Inr y, s') \<longleftrightarrow> m s = (Inr y, s')"
  by (auto simp: map_err_def split: prod.splits sum.splits)

lemma lift_result_ok [db_ok]: "lift_result r s = (Inr y, s') \<longleftrightarrow> r = Inr y \<and> s' = s"
  by (auto simp: lift_result_def ret_def throw_def split: sum.splits)

lemma exec_ok [db_ok]: "exec w stmt s = (Inr x, s') \<longleftrightarrow> stmt s = Inr (x, s')"
  by (auto simp: exec_def split: prod.splits sum.splits)

lemma transaction_ok [db_ok]: "transaction m s = (Inr x, s') \<longleftrightarrow> m s = (Inr x, s')"
  by (auto simp: transaction_def split: prod.splits sum.splits)

lemma ok_or_ok [db_ok]: "ok_or x e s = (Inr y, s') \<longleftrightarrow> x = Some y \<and> s' = s"
  by (auto simp: ok_or_def ret_def throw_def split: option.splits)

lemma ensure_ok [db_ok]: "ensure b e s = (Inr u, s') \<longleftrightarrow> b \<and> s' = s"
  by (auto simp: ensure_def ret_def throw_def)

lemma when_ok [db_ok]: "when_do b m s = (Inr u, s') \<longleftrightarrow> (if b then m s = (Inr (), s') else s' = s)"
  by (auto simp: when_do_def ret_def)

lemma opt_row_ok [db_ok]:
  "opt_row rows s = (Inr y, s') \<longleftrightarrow>
     s' = s \<and> (rows = [] \<and> y = None \<or> (\<exists>r. rows = [r] \<and> y = Some r))"
  by (auto simp: opt_row_def ret_def throw_def split: list.splits)

lemma one_row_ok [db_ok]: "one_row rows s = (Inr y, s') \<longleftrightarrow> s' = s \<and> rows = [y]"
  by (auto simp: one_row_def ret_def throw_def split: list.splits)

lemma query_opt_ok [db_ok]:
  "query_opt f s = (Inr y, s') \<longleftrightarrow>
     s' = s \<and> (f s = [] \<and> y = None \<or> (\<exists>r. f s = [r] \<and> y = Some r))"
  by (auto simp: query_opt_def db_ok)

lemma query_one_ok [db_ok]: "query_one f s = (Inr y, s') \<longleftrightarrow> s' = s \<and> f s = [y]"
  by (auto simp: query_one_def db_ok)

lemma opt_row_run [db_run]:
  "opt_row [] s = (Inr None, s)" "opt_row [r] s = (Inr (Some r), s)"
  by (simp_all add: opt_row_def ret_def)

lemma one_row_run [db_run]: "one_row [r] s = (Inr r, s)"
  by (simp add: one_row_def ret_def)

lemma query_opt_run [db_run]:
  "f s = [] \<Longrightarrow> query_opt f s = (Inr None, s)"
  "f s = [r] \<Longrightarrow> query_opt f s = (Inr (Some r), s)"
  by (simp_all add: query_opt_def bind_def query_def opt_row_run)

lemma query_one_run [db_run]: "f s = [r] \<Longrightarrow> query_one f s = (Inr r, s)"
  by (simp add: query_one_def bind_def query_def one_row_run)

lemma ok_or_run [db_run]:
  "ok_or (Some x) e s = (Inr x, s)" "ok_or None e s = (Inl e, s)"
  by (simp_all add: ok_or_def ret_def throw_def)

lemma ensure_run [db_run]:
  "b \<Longrightarrow> ensure b e s = (Inr (), s)" "\<not> b \<Longrightarrow> ensure b e s = (Inl e, s)"
  by (simp_all add: ensure_def ret_def throw_def)

lemma when_do_run [db_run]:
  "b \<Longrightarrow> when_do b m s = m s" "\<not> b \<Longrightarrow> when_do b m s = (Inr (), s)"
  by (simp_all add: when_do_def ret_def)

lemma exec_run [db_run]: "stmt s = Inr (x, s') \<Longrightarrow> exec w stmt s = (Inr x, s')"
  by (simp add: exec_def)

lemma exec_fail [db_run]: "stmt s = Inl e \<Longrightarrow> exec w stmt s = (Inl (w e), s)"
  by (simp add: exec_def)

lemma transaction_run [db_run]: "m s = (Inr x, s') \<Longrightarrow> transaction m s = (Inr x, s')"
  by (simp add: transaction_def)

lemma transaction_fail [db_run]: "m s = (Inl e, s') \<Longrightarrow> transaction m s = (Inl e, s)"
  by (simp add: transaction_def)

text \<open>Atomicity: a transaction that returns an error leaves the database as it was.\<close>

lemma transaction_error: "transaction m s = (Inl e, s') \<Longrightarrow> s' = s"
  by (auto simp: transaction_def split: prod.splits sum.splits)

lemma exec_error: "exec w stmt s = (Inl e, s') \<Longrightarrow> s' = s"
  by (auto simp: exec_def split: prod.splits sum.splits)

lemma for_each_append:
  "for_each (xs @ ys) f = bind (for_each xs f) (\<lambda>_. for_each ys f)"
  by (induction xs) (simp_all add: bind_assoc)

subsection \<open>Preserved properties\<close>

text \<open>
  \<open>keeps P m\<close>: whatever \<open>m\<close> returns, it takes a database with \<open>P\<close> to one with \<open>P\<close>. For a
  transaction only the successful runs count.
\<close>

definition keeps :: "('s \<Rightarrow> bool) \<Rightarrow> ('s, 'e, 'a) result_m \<Rightarrow> bool" where
  "keeps P m \<longleftrightarrow> (\<forall>s. P s \<longrightarrow> P (snd (m s)))"

named_theorems keeps_intro "rules that build up keeps"

lemma keepsI: "(\<And>s r s'. P s \<Longrightarrow> m s = (r, s') \<Longrightarrow> P s') \<Longrightarrow> keeps P m"
  unfolding keeps_def by (metis prod.collapse)

lemma keepsD: "keeps P m \<Longrightarrow> P s \<Longrightarrow> m s = (r, s') \<Longrightarrow> P s'"
  unfolding keeps_def by (metis snd_conv)

lemma keeps_ret [keeps_intro]: "keeps P (ret x)"
  by (simp add: keeps_def ret_def)

lemma keeps_throw [keeps_intro]: "keeps P (throw e)"
  by (simp add: keeps_def throw_def)

lemma keeps_query [keeps_intro]: "keeps P (query f)"
  by (simp add: keeps_def query_def)

lemma keeps_update [keeps_intro]: "(\<And>s. P s \<Longrightarrow> P (f s)) \<Longrightarrow> keeps P (update f)"
  by (simp add: keeps_def update_def)

lemma keeps_ok_or [keeps_intro]: "keeps P (ok_or x e)"
  by (simp add: keeps_def ok_or_def ret_def throw_def split: option.splits)

lemma keeps_ensure [keeps_intro]: "keeps P (ensure b e)"
  by (simp add: keeps_def ensure_def ret_def throw_def)

lemma keeps_when [keeps_intro]: "keeps P m \<Longrightarrow> keeps P (when_do b m)"
  by (simp add: keeps_def when_do_def ret_def)

lemma keeps_bind [keeps_intro]:
  assumes "keeps P m" and "\<And>x. keeps P (f x)"
  shows "keeps P (bind m f)"
  using assms by (auto simp: keeps_def bind_def split: prod.splits sum.splits)

lemma keeps_opt_row [keeps_intro]: "keeps P (opt_row rows)"
  by (simp add: opt_row_def keeps_ret keeps_throw split: list.split)

lemma keeps_one_row [keeps_intro]: "keeps P (one_row rows)"
  by (simp add: one_row_def keeps_ret keeps_throw split: list.split)

lemma keeps_query_opt [keeps_intro]: "keeps P (query_opt f)"
  unfolding query_opt_def by (intro keeps_bind keeps_query keeps_opt_row)

lemma keeps_query_one [keeps_intro]: "keeps P (query_one f)"
  unfolding query_one_def by (intro keeps_bind keeps_query keeps_one_row)

lemma keeps_exec [keeps_intro]:
  "(\<And>s x s'. P s \<Longrightarrow> stmt s = Inr (x, s') \<Longrightarrow> P s') \<Longrightarrow> keeps P (exec w stmt)"
  by (auto simp: keeps_def exec_def split: prod.splits sum.splits)

lemma keeps_transaction:
  "(\<And>s x s'. P s \<Longrightarrow> m s = (Inr x, s') \<Longrightarrow> P s') \<Longrightarrow> keeps P (transaction m)"
  by (auto simp: keeps_def transaction_def split: prod.splits sum.splits)

lemma keeps_transaction_body [keeps_intro]: "keeps P m \<Longrightarrow> keeps P (transaction m)"
  by (rule keeps_transaction) (rule keepsD)

lemma keeps_for_each [keeps_intro]: "(\<And>x. keeps P (f x)) \<Longrightarrow> keeps P (for_each xs f)"
  by (induction xs) (auto intro!: keeps_intro)

lemma keeps_collect [keeps_intro]: "(\<And>x. keeps P (f x)) \<Longrightarrow> keeps P (collect xs f)"
  by (induction xs) (auto intro!: keeps_intro)

lemma keeps_fold_m [keeps_intro]: "(\<And>x acc. keeps P (f x acc)) \<Longrightarrow> keeps P (fold_m f xs acc)"
  by (induction xs arbitrary: acc) (auto intro!: keeps_intro)

lemma keeps_lift_result [keeps_intro]: "keeps P (lift_result r)"
  by (simp add: lift_result_def keeps_ret keeps_throw split: sum.split)

lemma keeps_map_err [keeps_intro]: "keeps P m \<Longrightarrow> keeps P (map_err g m)"
  by (auto simp: keeps_def map_err_def split: prod.splits sum.splits)

lemma keeps_attempt [keeps_intro]:
  assumes "keeps P m" and "\<And>e. keeps P (g e)" and "\<And>x. keeps P (f x)"
  shows "keeps P (attempt m g f)"
  using assms by (auto simp: keeps_def attempt_def split: prod.splits sum.splits)

lemma keeps_if [keeps_intro]:
  "(b \<Longrightarrow> keeps P m) \<Longrightarrow> (\<not> b \<Longrightarrow> keeps P n) \<Longrightarrow> keeps P (if b then m else n)"
  by simp

lemma keeps_case_option [keeps_intro]:
  "keeps P m \<Longrightarrow> (\<And>x. keeps P (f x)) \<Longrightarrow> keeps P (case v of None \<Rightarrow> m | Some x \<Rightarrow> f x)"
  by (simp split: option.split)

section \<open>Tables as lists of rows\<close>

text \<open>
  A table is the list of its rows. \<open>SELECT\<close> is \<open>filter\<close>, \<open>DELETE\<close> is \<open>filter\<close> with the
  negated condition, \<open>UPDATE\<close> maps the rows that satisfy the condition.
\<close>

definition update_where :: "('r \<Rightarrow> bool) \<Rightarrow> ('r \<Rightarrow> 'r) \<Rightarrow> 'r list \<Rightarrow> 'r list" where
  "update_where p f = map (\<lambda>r. if p r then f r else r)"

definition delete_where :: "('r \<Rightarrow> bool) \<Rightarrow> 'r list \<Rightarrow> 'r list" where
  "delete_where p = filter (\<lambda>r. \<not> p r)"

definition count_where :: "('r \<Rightarrow> bool) \<Rightarrow> 'r list \<Rightarrow> int" where
  "count_where p rs = int (length (filter p rs))"

definition exists_where :: "('r \<Rightarrow> bool) \<Rightarrow> 'r list \<Rightarrow> bool" where
  "exists_where p rs = list_ex p rs"

lemma set_update_where: "set (update_where p f rs) = (\<lambda>r. if p r then f r else r) ` set rs"
  by (simp add: update_where_def)

lemma ball_update_where:
  "(\<forall>r \<in> set (update_where p f rs). Q r) \<longleftrightarrow> (\<forall>r \<in> set rs. Q (if p r then f r else r))"
  by (auto simp: update_where_def)

lemma in_update_where:
  "x \<in> set (update_where p f rs) \<longleftrightarrow> (\<exists>r \<in> set rs. x = (if p r then f r else r))"
  by (auto simp: update_where_def)

lemma set_delete_where [simp]: "set (delete_where p rs) = {r \<in> set rs. \<not> p r}"
  by (simp add: delete_where_def)

lemma exists_where_iff [simp]: "exists_where p rs \<longleftrightarrow> (\<exists>r \<in> set rs. p r)"
  by (simp add: exists_where_def list_ex_iff)

lemma map_update_where:
  "(\<And>r. p r \<Longrightarrow> k (f r) = k r) \<Longrightarrow> map k (update_where p f rs) = map k rs"
  by (simp add: update_where_def)

lemma image_update_where:
  "(\<And>r. p r \<Longrightarrow> k (f r) = k r) \<Longrightarrow> k ` set (update_where p f rs) = k ` set rs"
  by (metis list.set_map map_update_where)

lemma count_where_nonneg [simp]: "0 \<le> count_where p rs"
  by (simp add: count_where_def)

lemma count_where_Nil [simp]: "count_where p [] = 0"
  by (simp add: count_where_def)

lemma count_where_Cons [simp]:
  "count_where p (r # rs) = (if p r then 1 else 0) + count_where p rs"
  by (simp add: count_where_def)

lemma count_where_append [simp]:
  "count_where p (rs @ ss) = count_where p rs + count_where p ss"
  by (simp add: count_where_def)

lemma count_where_cong:
  "(\<And>r. r \<in> set rs \<Longrightarrow> p r = q r) \<Longrightarrow> count_where p rs = count_where q rs"
  by (induction rs) auto

lemma count_where_update:
  "(\<And>r. q r \<Longrightarrow> p (f r) = p r) \<Longrightarrow> count_where p (update_where q f rs) = count_where p rs"
  by (induction rs) (simp_all add: update_where_def)

lemma count_where_delete:
  "count_where p (delete_where q rs) = count_where p rs - count_where (\<lambda>r. p r \<and> q r) rs"
  by (induction rs) (auto simp: delete_where_def)

lemma count_where_False: "(\<And>r. r \<in> set rs \<Longrightarrow> \<not> p r) \<Longrightarrow> count_where p rs = 0"
  by (simp add: count_where_def)

lemma count_where_0_iff: "count_where p rs = 0 \<longleftrightarrow> (\<forall>r \<in> set rs. \<not> p r)"
  by (simp add: count_where_def filter_empty_conv)

lemma count_where_mono:
  "(\<And>r. r \<in> set rs \<Longrightarrow> p r \<Longrightarrow> q r) \<Longrightarrow> count_where p rs \<le> count_where q rs"
  by (induction rs) auto

lemma count_where_unique:
  assumes "distinct (map k rs)" and "r \<in> set rs" and "p r"
    and "\<And>x. x \<in> set rs \<Longrightarrow> p x \<Longrightarrow> k x = k r"
  shows "count_where p rs = 1"
  using assms
proof (induction rs)
  case Nil
  then show ?case by simp
next
  case (Cons a rs)
  show ?case
  proof (cases "a = r")
    case True
    have "\<not> p x" if "x \<in> set rs" for x
    proof
      assume "p x"
      with that Cons.prems(4) have "k x = k a" by (simp add: True)
      moreover from that have "k x \<in> k ` set rs" by (rule imageI)
      ultimately show False using Cons.prems(1) by simp
    qed
    then have "count_where p rs = 0" by (rule count_where_False)
    with True Cons.prems(3) show ?thesis by simp
  next
    case False
    with Cons.prems(2) have r: "r \<in> set rs" by simp
    then have "k a \<noteq> k r" using Cons.prems(1) by auto
    then have "\<not> p a" using Cons.prems(4) [of a] by auto
    moreover have "count_where p rs = 1"
    proof (rule Cons.IH)
      show "distinct (map k rs)" using Cons.prems(1) by simp
      show "r \<in> set rs" by (rule r)
      show "p r" by (rule Cons.prems(3))
      show "k x = k r" if "x \<in> set rs" and "p x" for x
        by (rule Cons.prems(4)) (simp_all add: that)
    qed
    ultimately show ?thesis by simp
  qed
qed

lemma distinct_map_unique:
  "distinct (map k rs) \<Longrightarrow> r \<in> set rs \<Longrightarrow> r' \<in> set rs \<Longrightarrow> k r = k r' \<Longrightarrow> r = r'"
  by (simp add: distinct_map inj_on_def)

text \<open>
  A \<open>UNIQUE\<close> constraint over a nullable key: rows whose key is \<open>NULL\<close> do not count.
\<close>

definition unique_by :: "('r \<Rightarrow> 'k option) \<Rightarrow> 'r list \<Rightarrow> bool" where
  "unique_by k rs = distinct (filter (\<lambda>x. x \<noteq> None) (map k rs))"

lemma unique_by_Nil [simp]: "unique_by k []"
  by (simp add: unique_by_def)

lemma unique_by_Cons [simp]:
  "unique_by k (r # rs) \<longleftrightarrow> unique_by k rs \<and> (k r = None \<or> k r \<notin> k ` set rs)"
  by (auto simp: unique_by_def)

lemma unique_by_append [simp]:
  "unique_by k (rs @ ss) \<longleftrightarrow>
     unique_by k rs \<and> unique_by k ss \<and> (\<forall>r \<in> set rs. k r = None \<or> k r \<notin> k ` set ss)"
  by (induction rs) auto

lemma unique_by_filter: "unique_by k rs \<Longrightarrow> unique_by k (filter p rs)"
  by (induction rs) auto

lemma unique_by_delete: "unique_by k rs \<Longrightarrow> unique_by k (delete_where p rs)"
  by (simp add: delete_where_def unique_by_filter)

lemma unique_by_update:
  "(\<And>r. p r \<Longrightarrow> k (f r) = k r) \<Longrightarrow> unique_by k (update_where p f rs) = unique_by k rs"
  by (simp add: unique_by_def map_update_where)

lemma unique_byD:
  "unique_by k rs \<Longrightarrow> r \<in> set rs \<Longrightarrow> r' \<in> set rs \<Longrightarrow> k r = Some x \<Longrightarrow> k r' = Some x \<Longrightarrow> r = r'"
  by (induction rs) (auto simp: image_iff)

lemma distinct_map_delete: "distinct (map k rs) \<Longrightarrow> distinct (map k (delete_where p rs))"
  by (simp add: delete_where_def distinct_map_filter)

lemma filter_unique_key:
  assumes "distinct (map k rs)" and "r \<in> set rs"
  shows "filter (\<lambda>x. k x = k r) rs = [r]"
  using assms by (induction rs) (auto simp: filter_empty_conv dest: sym)

lemma filter_key_cases:
  assumes "distinct (map k rs)"
  obtains (none) "filter (\<lambda>x. k x = v) rs = []" and "v \<notin> k ` set rs"
    | (some) r where "filter (\<lambda>x. k x = v) rs = [r]" and "r \<in> set rs" and "k r = v"
proof (cases "v \<in> k ` set rs")
  case True
  then obtain r where "r \<in> set rs" and "v = k r" by auto
  with filter_unique_key [OF assms] some show ?thesis by auto
next
  case False
  then have "filter (\<lambda>x. k x = v) rs = []" by (auto simp: filter_empty_conv)
  with False none show ?thesis by blast
qed

lemma find_unique:
  "distinct (map k rs) \<Longrightarrow> r \<in> set rs \<Longrightarrow> find (\<lambda>x. k x = k r) rs = Some r"
proof (induction rs)
  case (Cons a rs)
  then show ?case
    by (cases "a = r") (auto dest: sym)
qed simp

lemma find_Some_in: "find p rs = Some r \<Longrightarrow> r \<in> set rs \<and> p r"
  by (auto simp: find_Some_iff)

lemma find_None_all: "find p rs = None \<longleftrightarrow> (\<forall>r \<in> set rs. \<not> p r)"
  by (auto simp: find_None_iff)

end
