(* ===== verification/Identifiers.thy ===== *)
theory Identifiers
  imports Prelude
begin

text \<open>
  Chain identifiers (CAIP-2), currencies and decentralized identifiers:
  \<open>fedimovies-utils/src/caip2.rs\<close>, \<open>currencies.rs\<close>, \<open>did.rs\<close>, \<open>did_pkh.rs\<close>,
  \<open>did_key.rs\<close> and \<open>multibase.rs\<close>. Strings are lists of bytes; the parsers are the leftmost
  match, with greedy repetitions, of the regular expressions in the code, over ASCII text. None
  of these expressions is anchored. The base58 codec is a third-party crate and a parameter.
\<close>

section \<open>Character classes\<close>

definition is_lower :: "char \<Rightarrow> bool" where
  "is_lower c \<longleftrightarrow> 97 \<le> (of_char c :: nat) \<and> (of_char c :: nat) \<le> 122"

definition is_upper :: "char \<Rightarrow> bool" where
  "is_upper c \<longleftrightarrow> 65 \<le> (of_char c :: nat) \<and> (of_char c :: nat) \<le> 90"

definition is_digit :: "char \<Rightarrow> bool" where
  "is_digit c \<longleftrightarrow> 48 \<le> (of_char c :: nat) \<and> (of_char c :: nat) \<le> 57"

definition is_word :: "char \<Rightarrow> bool" where
  "is_word c \<longleftrightarrow> is_lower c \<or> is_upper c \<or> is_digit c \<or> c = CHR ''_''"

definition to_lower :: "char \<Rightarrow> char" where
  "to_lower c = (if is_upper c then char_of ((of_char c :: nat) + 32) else c)"

definition to_lowercase :: "string \<Rightarrow> string" where
  "to_lowercase = map to_lower"

definition is_namespace_char :: "char \<Rightarrow> bool" where
  "is_namespace_char c \<longleftrightarrow> c = CHR ''-'' \<or> is_lower c \<or> is_digit c"

definition is_reference_char :: "char \<Rightarrow> bool" where
  "is_reference_char c \<longleftrightarrow> c = CHR ''-'' \<or> is_lower c \<or> is_upper c \<or> is_digit c"

definition is_address_char :: "char \<Rightarrow> bool" where
  "is_address_char c \<longleftrightarrow> is_lower c \<or> is_upper c \<or> is_digit c"

lemmas char_class_defs =
  is_lower_def is_upper_def is_digit_def is_word_def is_namespace_char_def
  is_reference_char_def is_address_char_def

lemma colon_not_in_class [simp]:
  "\<not> is_namespace_char (CHR '':'')" "\<not> is_reference_char (CHR '':'')"
  "\<not> is_address_char (CHR '':'')" "\<not> is_word (CHR '':'')"
  by (simp_all add: char_class_defs)

text \<open>The part of \<open>s\<close> after a literal prefix, and the leftmost position where a matcher applies.\<close>

fun strip_prefix :: "string \<Rightarrow> string \<Rightarrow> string option" where
  "strip_prefix [] s = Some s"
| "strip_prefix (p # ps) [] = None"
| "strip_prefix (p # ps) (c # cs) = (if p = c then strip_prefix ps cs else None)"

fun leftmost :: "(string \<Rightarrow> 'a option) \<Rightarrow> string \<Rightarrow> 'a option" where
  "leftmost f [] = f []"
| "leftmost f (c # cs) = (case f (c # cs) of Some m \<Rightarrow> Some m | None \<Rightarrow> leftmost f cs)"

lemma strip_prefix_append [simp]: "strip_prefix p (p @ s) = Some s"
  by (induction p) auto

lemma strip_prefix_Some: "strip_prefix p s = Some r \<longleftrightarrow> s = p @ r"
  by (induction p s rule: strip_prefix.induct) auto

lemma leftmost_here: "f s = Some m \<Longrightarrow> leftmost f s = Some m"
  by (cases s) auto

lemma leftmost_Some: "leftmost f s = Some m \<Longrightarrow> \<exists>pre t. s = pre @ t \<and> f t = Some m"
proof (induction s)
  case Nil
  then show ?case by simp
next
  case (Cons c cs)
  show ?case
  proof (cases "f (c # cs)")
    case None
    with Cons.prems have "leftmost f cs = Some m" by simp
    then obtain pre t where "cs = pre @ t" and "f t = Some m" using Cons.IH by blast
    then have "c # cs = (c # pre) @ t \<and> f t = Some m" by simp
    then show ?thesis by blast
  next
    case (Some m')
    with Cons.prems have "c # cs = [] @ (c # cs) \<and> f (c # cs) = Some m" by simp
    then show ?thesis by blast
  qed
qed

text \<open>A run of class characters that is followed by a character outside the class.\<close>

lemma takeWhile_stop: "list_all p xs \<Longrightarrow> \<not> p c \<Longrightarrow> takeWhile p (xs @ c # ys) = xs"
  by (induction xs) auto

lemma dropWhile_stop: "list_all p xs \<Longrightarrow> \<not> p c \<Longrightarrow> dropWhile p (xs @ c # ys) = c # ys"
  by (induction xs) auto

lemma takeWhile_all: "list_all p xs \<Longrightarrow> takeWhile p xs = xs"
  by (induction xs) auto

lemma list_all_takeWhile: "list_all p (takeWhile p xs)"
  by (induction xs) auto

lemma list_all_take: "list_all p xs \<Longrightarrow> list_all p (take n xs)"
  by (auto simp: list_all_iff dest: in_set_takeD)

section \<open>Currencies\<close>

datatype currency = Ethereum | Monero

fun currency_code :: "currency \<Rightarrow> string" where
  "currency_code Ethereum = ''ETH''"
| "currency_code Monero = ''XMR''"

definition currency_field_name :: "currency \<Rightarrow> string" where
  "currency_field_name c = CHR ''$'' # currency_code c"

fun normalize_address :: "currency \<Rightarrow> string \<Rightarrow> string" where
  "normalize_address Ethereum address = to_lowercase address"
| "normalize_address Monero address = address"

section \<open>Chain identifiers\<close>

record chain_id =
  ci_namespace :: string
  ci_reference :: string

datatype chain_id_error = ChainIdError string

definition caip2_ethereum_namespace :: string where
  "caip2_ethereum_namespace = ''eip155''"

definition caip2_monero_namespace :: string where
  "caip2_monero_namespace = ''monero''"

definition ethereum_mainnet :: chain_id where
  "ethereum_mainnet = \<lparr>ci_namespace = caip2_ethereum_namespace, ci_reference = ''1''\<rparr>"

definition ethereum_devnet :: chain_id where
  "ethereum_devnet = \<lparr>ci_namespace = caip2_ethereum_namespace, ci_reference = ''31337''\<rparr>"

definition is_ethereum :: "chain_id \<Rightarrow> bool" where
  "is_ethereum c \<longleftrightarrow> ci_namespace c = caip2_ethereum_namespace"

definition is_monero :: "chain_id \<Rightarrow> bool" where
  "is_monero c \<longleftrightarrow> ci_namespace c = caip2_monero_namespace"

text \<open>Rust's \<open>str::parse::<u32>\<close>: an optional plus sign, at least one digit, no overflow.\<close>

fun digits_value :: "nat \<Rightarrow> string \<Rightarrow> nat option" where
  "digits_value acc [] = Some acc"
| "digits_value acc (c # cs) =
     (if is_digit c then digits_value (10 * acc + (of_char c - 48)) cs else None)"

definition parse_u32 :: "string \<Rightarrow> nat option" where
  "parse_u32 s =
     (let ds = (case s of CHR ''+'' # r \<Rightarrow> r | _ \<Rightarrow> s)
      in if ds = [] then None
         else case digits_value 0 ds of
                None \<Rightarrow> None
              | Some n \<Rightarrow> if n < 2 ^ 32 then Some n else None)"

definition ethereum_chain_id :: "chain_id \<Rightarrow> chain_id_error + nat" where
  "ethereum_chain_id c =
     (if \<not> is_ethereum c then Inl (ChainIdError ''namespace is not eip155'')
      else case parse_u32 (ci_reference c) of
             None \<Rightarrow> Inl (ChainIdError ''invalid EIP-155 chain ID'')
           | Some n \<Rightarrow> Inr n)"

definition chain_currency :: "chain_id \<Rightarrow> currency option" where
  "chain_currency c =
     (if ci_namespace c = caip2_ethereum_namespace then Some Ethereum
      else if ci_namespace c = caip2_monero_namespace then Some Monero
      else None)"

text \<open>
  \<open>CAIP2_RE\<close>: the namespace run ends at the colon, because the colon is outside its class, so a
  match at a position takes the whole run; the reference takes at most 32 characters.
\<close>

definition caip2_match :: "string \<Rightarrow> chain_id option" where
  "caip2_match s =
     (let ns = takeWhile is_namespace_char s
      in if 3 \<le> length ns \<and> length ns \<le> 8
         then case dropWhile is_namespace_char s of
                CHR '':'' # r \<Rightarrow>
                  (let ref = take 32 (takeWhile is_reference_char r)
                   in if ref = [] then None else Some \<lparr>ci_namespace = ns, ci_reference = ref\<rparr>)
              | _ \<Rightarrow> None
         else None)"

definition chain_id_from_str :: "string \<Rightarrow> chain_id_error + chain_id" where
  "chain_id_from_str v =
     (case leftmost caip2_match v of
        None \<Rightarrow> Inl (ChainIdError ''invalid chain ID'')
      | Some c \<Rightarrow> Inr c)"

definition chain_id_to_string :: "chain_id \<Rightarrow> string" where
  "chain_id_to_string c = ci_namespace c @ '':'' @ ci_reference c"

definition valid_chain_id :: "chain_id \<Rightarrow> bool" where
  "valid_chain_id c \<longleftrightarrow>
     list_all is_namespace_char (ci_namespace c) \<and>
     3 \<le> length (ci_namespace c) \<and> length (ci_namespace c) \<le> 8 \<and>
     list_all is_reference_char (ci_reference c) \<and>
     ci_reference c \<noteq> [] \<and> length (ci_reference c) \<le> 32"

lemma caip2_match_print:
  assumes "valid_chain_id c"
  shows "caip2_match (chain_id_to_string c) = Some c"
  using assms
  by (simp add: caip2_match_def chain_id_to_string_def valid_chain_id_def takeWhile_stop
      dropWhile_stop takeWhile_all)

lemma colon_case_Some:
  "(case xs of CHR '':'' # r \<Rightarrow> f r | _ \<Rightarrow> None) = Some y \<longleftrightarrow> (\<exists>r. xs = CHR '':'' # r \<and> f r = Some y)"
  by (auto split: list.splits char.splits bool.splits)

lemma caip2_match_valid:
  assumes "caip2_match s = Some c"
  shows "valid_chain_id c \<and> (\<exists>rest. s = chain_id_to_string c @ rest)"
proof -
  let ?ns = "takeWhile is_namespace_char s"
  from assms obtain r where r: "dropWhile is_namespace_char s = CHR '':'' # r"
    and len: "3 \<le> length ?ns" "length ?ns \<le> 8"
    and ref: "take 32 (takeWhile is_reference_char r) \<noteq> []"
    and c: "c = \<lparr>ci_namespace = ?ns, ci_reference = take 32 (takeWhile is_reference_char r)\<rparr>"
    by (auto simp: caip2_match_def Let_def colon_case_Some split: if_splits)
  obtain rest where "r = take 32 (takeWhile is_reference_char r) @ rest"
    by (metis append.assoc append_take_drop_id takeWhile_dropWhile_id)
  then have "s = chain_id_to_string c @ rest"
    using takeWhile_dropWhile_id [of is_namespace_char s] r
    by (simp add: c chain_id_to_string_def)
  moreover have "valid_chain_id c"
    using len ref by (simp add: c valid_chain_id_def list_all_takeWhile list_all_take)
  ultimately show ?thesis by blast
qed

text \<open>
  Parsing a chain identifier (\<open>FromStr for ChainId\<close>) inverts printing it (\<open>Display\<close>) on
  every identifier whose parts match the CAIP-2 grammar; a chain identifier that was stored as
  text in the \<open>invoice\<close> and \<open>subscription\<close> tables is read back unchanged.
\<close>

theorem chain_id_roundtrip:
  "valid_chain_id c \<Longrightarrow> chain_id_from_str (chain_id_to_string c) = Inr c"
  by (simp add: chain_id_from_str_def leftmost_here caip2_match_print)

theorem chain_id_roundtrip_witness:
  "chain_id_from_str ''eip155:31337'' = Inr ethereum_devnet"
proof -
  have v: "valid_chain_id ethereum_devnet"
    by (simp add: valid_chain_id_def ethereum_devnet_def caip2_ethereum_namespace_def
        char_class_defs)
  have p: "chain_id_to_string ethereum_devnet = ''eip155:31337''"
    by (simp add: chain_id_to_string_def ethereum_devnet_def caip2_ethereum_namespace_def)
  show ?thesis using chain_id_roundtrip [OF v] unfolding p .
qed

text \<open>
  What the parser accepts: every accepted text contains a printed chain identifier that
  matches the grammar, and that identifier is the result. The expression is not anchored, so
  text around it is ignored.
\<close>

theorem chain_id_from_str_sound:
  assumes "chain_id_from_str v = Inr c"
  shows "valid_chain_id c \<and> (\<exists>pre post. v = pre @ chain_id_to_string c @ post)"
proof -
  from assms have "leftmost caip2_match v = Some c"
    by (simp add: chain_id_from_str_def split: option.splits)
  then obtain pre t where v: "v = pre @ t" and m: "caip2_match t = Some c"
    using leftmost_Some by metis
  from caip2_match_valid [OF m] obtain post
    where "valid_chain_id c" and "t = chain_id_to_string c @ post" by auto
  with v show ?thesis by auto
qed

lemma chain_id_from_str_unanchored:
  "chain_id_from_str ''https://eip155:1/x'' = Inr ethereum_mainnet"
  by (simp add: chain_id_from_str_def caip2_match_def ethereum_mainnet_def
      caip2_ethereum_namespace_def char_class_defs)

theorem chain_id_from_str_sound_witness:
  "valid_chain_id ethereum_mainnet \<and>
   (\<exists>pre post. ''https://eip155:1/x'' = pre @ chain_id_to_string ethereum_mainnet @ post)"
  by (rule chain_id_from_str_sound [OF chain_id_from_str_unanchored])

section \<open>Decentralized identifiers\<close>

record did_pkh =
  dp_chain_id :: chain_id
  dp_address :: string

record did_key =
  dk_key :: "8 word list"

datatype did = Did_Key did_key | Did_Pkh did_pkh

datatype did_parse_error = DidParseError

text \<open>
  \<open>from_address\<close> is \<open>unimplemented!\<close> for Monero: \<open>None\<close> is the panic.
\<close>

fun did_pkh_from_address :: "currency \<Rightarrow> string \<Rightarrow> did_pkh option" where
  "did_pkh_from_address Ethereum address =
     Some \<lparr>dp_chain_id = ethereum_mainnet, dp_address = normalize_address Ethereum address\<rparr>"
| "did_pkh_from_address Monero address = None"

definition did_pkh_currency :: "did_pkh \<Rightarrow> currency option" where
  "did_pkh_currency d = chain_currency (dp_chain_id d)"

definition did_pkh_to_string :: "did_pkh \<Rightarrow> string" where
  "did_pkh_to_string d =
     ''did:pkh:'' @ ci_namespace (dp_chain_id d) @ '':'' @ ci_reference (dp_chain_id d) @ '':'' @
     dp_address d"

definition did_pkh_match :: "string \<Rightarrow> did_pkh option" where
  "did_pkh_match s =
     (case strip_prefix ''did:pkh:'' s of
        None \<Rightarrow> None
      | Some r \<Rightarrow>
          (let network = takeWhile is_namespace_char r
           in if 3 \<le> length network \<and> length network \<le> 8
              then case dropWhile is_namespace_char r of
                     CHR '':'' # r1 \<Rightarrow>
                       (let chain = takeWhile is_reference_char r1
                        in if chain \<noteq> [] \<and> length chain \<le> 32
                           then case dropWhile is_reference_char r1 of
                                  CHR '':'' # r2 \<Rightarrow>
                                    (let address = take 64 (takeWhile is_address_char r2)
                                     in if address = [] then None
                                        else Some \<lparr>dp_chain_id = \<lparr>ci_namespace = network,
                                                                  ci_reference = chain\<rparr>,
                                                   dp_address = address\<rparr>)
                                | _ \<Rightarrow> None
                           else None)
                   | _ \<Rightarrow> None
              else None))"

definition did_pkh_from_str :: "string \<Rightarrow> did_parse_error + did_pkh" where
  "did_pkh_from_str v =
     (case leftmost did_pkh_match v of None \<Rightarrow> Inl DidParseError | Some d \<Rightarrow> Inr d)"

definition valid_did_pkh :: "did_pkh \<Rightarrow> bool" where
  "valid_did_pkh d \<longleftrightarrow>
     valid_chain_id (dp_chain_id d) \<and> list_all is_address_char (dp_address d) \<and>
     dp_address d \<noteq> [] \<and> length (dp_address d) \<le> 64"

lemma did_pkh_match_print:
  assumes "valid_did_pkh d"
  shows "did_pkh_match (did_pkh_to_string d) = Some d"
proof -
  have "strip_prefix ''did:pkh:'' (did_pkh_to_string d) =
      Some (ci_namespace (dp_chain_id d) @ '':'' @ ci_reference (dp_chain_id d) @ '':'' @
        dp_address d)"
    unfolding did_pkh_to_string_def by (rule strip_prefix_append)
  with assms show ?thesis
    by (simp add: did_pkh_match_def valid_did_pkh_def valid_chain_id_def takeWhile_stop
        dropWhile_stop takeWhile_all)
qed

lemma did_pkh_from_str_print:
  "valid_did_pkh d \<Longrightarrow> did_pkh_from_str (did_pkh_to_string d) = Inr d"
  by (simp add: did_pkh_from_str_def leftmost_here did_pkh_match_print)

subsection \<open>did:key\<close>

text \<open>
  \<open>bs58\<close> is the codec of the \<open>bs58\<close> crate with the Bitcoin alphabet. A byte slice is indexed
  only after its length was checked, so the reads below are in range.
\<close>

datatype multibase_error = InvalidBaseString | UnknownBase | DecodeError

definition decode_multibase_base58btc ::
    "(string \<Rightarrow> 8 word list option) \<Rightarrow> string \<Rightarrow> multibase_error + 8 word list" where
  "decode_multibase_base58btc bs58_decode v =
     (case v of
        [] \<Rightarrow> Inl InvalidBaseString
      | base # encoded_data \<Rightarrow>
          if base \<noteq> CHR ''z'' then Inl UnknownBase
          else case bs58_decode encoded_data of None \<Rightarrow> Inl DecodeError | Some data \<Rightarrow> Inr data)"

definition encode_multibase_base58btc :: "(8 word list \<Rightarrow> string) \<Rightarrow> 8 word list \<Rightarrow> string" where
  "encode_multibase_base58btc bs58_encode v = CHR ''z'' # bs58_encode v"

definition is_base58_char :: "char \<Rightarrow> bool" where
  "is_base58_char c \<longleftrightarrow>
     (is_lower c \<and> c \<noteq> CHR ''l'') \<or> (is_upper c \<and> c \<noteq> CHR ''I'' \<and> c \<noteq> CHR ''O'') \<or>
     (is_digit c \<and> c \<noteq> CHR ''0'')"

definition multicodec_ed25519_prefix :: "8 word list" where
  "multicodec_ed25519_prefix = [0xed, 0x01]"

definition from_ed25519_key :: "8 word list \<Rightarrow> did_key" where
  "from_ed25519_key key = \<lparr>dk_key = multicodec_ed25519_prefix @ key\<rparr>"

definition try_ed25519_key :: "did_key \<Rightarrow> 8 word list option" where
  "try_ed25519_key d =
     (if length (dk_key d) \<noteq> 34 then None
      else if take 2 (dk_key d) \<noteq> multicodec_ed25519_prefix then None
      else Some (drop 2 (dk_key d)))"

definition did_key_match :: "string \<Rightarrow> string option" where
  "did_key_match s =
     (case strip_prefix ''did:key:z'' s of
        None \<Rightarrow> None
      | Some r \<Rightarrow>
          (let k = takeWhile is_base58_char r in if k = [] then None else Some (CHR ''z'' # k)))"

definition did_key_from_str ::
    "(string \<Rightarrow> 8 word list option) \<Rightarrow> string \<Rightarrow> did_parse_error + did_key" where
  "did_key_from_str bs58_decode v =
     (case leftmost did_key_match v of
        None \<Rightarrow> Inl DidParseError
      | Some k \<Rightarrow>
          (case decode_multibase_base58btc bs58_decode k of
             Inl _ \<Rightarrow> Inl DidParseError
           | Inr key \<Rightarrow> Inr \<lparr>dk_key = key\<rparr>))"

definition did_key_to_string :: "(8 word list \<Rightarrow> string) \<Rightarrow> did_key \<Rightarrow> string" where
  "did_key_to_string bs58_encode d =
     ''did:key:'' @ encode_multibase_base58btc bs58_encode (dk_key d)"

lemma did_key_from_str_print:
  assumes "bs58_decode (bs58_encode (dk_key d)) = Some (dk_key d)"
    and "list_all is_base58_char (bs58_encode (dk_key d))"
    and "bs58_encode (dk_key d) \<noteq> []"
  shows "did_key_from_str bs58_decode (did_key_to_string bs58_encode d) = Inr d"
proof -
  have "did_key_match (did_key_to_string bs58_encode d) =
      Some (CHR ''z'' # bs58_encode (dk_key d))"
    using assms(2,3)
    by (simp add: did_key_match_def did_key_to_string_def encode_multibase_base58btc_def
        takeWhile_all)
  then show ?thesis
    using assms(1)
    by (simp add: did_key_from_str_def leftmost_here decode_multibase_base58btc_def)
qed

lemma ed25519_key_roundtrip:
  "length key = 32 \<Longrightarrow> try_ed25519_key (from_ed25519_key key) = Some key"
  by (simp add: try_ed25519_key_def from_ed25519_key_def multicodec_ed25519_prefix_def)

subsection \<open>Any DID\<close>

definition did_method_match :: "string \<Rightarrow> string option" where
  "did_method_match s =
     (case strip_prefix ''did:'' s of
        None \<Rightarrow> None
      | Some r \<Rightarrow>
          (let method = takeWhile is_word r
           in if method = [] then None
              else case dropWhile is_word r of
                     CHR '':'' # c # _ \<Rightarrow>
                       if of_char c \<noteq> (10 :: nat) then Some method else None
                   | _ \<Rightarrow> None))"

definition did_from_str ::
    "(string \<Rightarrow> 8 word list option) \<Rightarrow> string \<Rightarrow> did_parse_error + did" where
  "did_from_str bs58_decode v =
     (case leftmost did_method_match v of
        None \<Rightarrow> Inl DidParseError
      | Some method \<Rightarrow>
          if method = ''key'' then map_sum id Did_Key (did_key_from_str bs58_decode v)
          else if method = ''pkh'' then map_sum id Did_Pkh (did_pkh_from_str v)
          else Inl DidParseError)"

definition did_to_string :: "(8 word list \<Rightarrow> string) \<Rightarrow> did \<Rightarrow> string" where
  "did_to_string bs58_encode d =
     (case d of
        Did_Key k \<Rightarrow> did_key_to_string bs58_encode k
      | Did_Pkh p \<Rightarrow> did_pkh_to_string p)"

fun valid_did :: "(string \<Rightarrow> 8 word list option) \<Rightarrow> (8 word list \<Rightarrow> string) \<Rightarrow> did \<Rightarrow> bool" where
  "valid_did bs58_decode bs58_encode (Did_Pkh p) = valid_did_pkh p"
| "valid_did bs58_decode bs58_encode (Did_Key k) =
     (bs58_decode (bs58_encode (dk_key k)) = Some (dk_key k) \<and>
      list_all is_base58_char (bs58_encode (dk_key k)) \<and> bs58_encode (dk_key k) \<noteq> [])"

lemma namespace_char_not_newline: "is_namespace_char c \<Longrightarrow> of_char c \<noteq> (10 :: nat)"
  by (auto simp: char_class_defs)

lemma did_method_pkh: "valid_did_pkh p \<Longrightarrow> leftmost did_method_match (did_pkh_to_string p) = Some ''pkh''"
  by (rule leftmost_here)
    (cases "ci_namespace (dp_chain_id p)",
     auto simp: did_method_match_def did_pkh_to_string_def valid_did_pkh_def valid_chain_id_def
       char_class_defs)

lemma did_method_key: "leftmost did_method_match (did_key_to_string enc k) = Some ''key''"
  by (rule leftmost_here)
    (simp add: did_method_match_def did_key_to_string_def encode_multibase_base58btc_def
      char_class_defs)

text \<open>
  A DID survives printing and parsing (\<open>FromStr\<close> and \<open>Display\<close> for \<open>Did\<close>, used by the JSON
  columns and the identity-proof lookups): a \<open>did:pkh\<close> whose parts match the CAIP-10 grammar
  always does, a \<open>did:key\<close> does when the base58 codec inverts its own encoding of that key.
\<close>

theorem did_roundtrip:
  assumes "valid_did bs58_decode bs58_encode d"
  shows "did_from_str bs58_decode (did_to_string bs58_encode d) = Inr d"
proof (cases d)
  case (Did_Key k)
  with assms show ?thesis
    by (simp add: did_from_str_def did_to_string_def did_method_key did_key_from_str_print)
next
  case (Did_Pkh p)
  with assms show ?thesis
    by (simp add: did_from_str_def did_to_string_def did_method_pkh did_pkh_from_str_print)
qed

theorem did_roundtrip_witness:
  "did_from_str (\<lambda>s. if s = ''6M'' then Some [7] else None) ''did:key:z6M'' =
     Inr (Did_Key \<lparr>dk_key = [7]\<rparr>)"
proof -
  have v: "valid_did (\<lambda>s. if s = ''6M'' then Some [7] else None) (\<lambda>_. ''6M'')
      (Did_Key \<lparr>dk_key = [7]\<rparr>)"
    by (simp add: is_base58_char_def char_class_defs)
  show ?thesis
    using did_roundtrip [OF v]
    by (simp add: did_to_string_def did_key_to_string_def encode_multibase_base58btc_def)
qed

end
