(* ===== verification/Int_Enums.thy ===== *)
theory Int_Enums
  imports Prelude
begin

text \<open>
  The enumerations that the model types store in \<open>SMALLINT\<close> columns
  (\<open>fedimovies-models/src/*/types.rs\<close>) and their conversions \<open>From<&T> for i16\<close> and
  \<open>TryFrom<i16> for T\<close>. The locale states what makes a column of such a type faithful: decoding
  an encoded value gives it back, and only the encodings decode. Because of this, the tables of
  the model hold the enumeration values themselves.
\<close>

section \<open>The interface of an integer enumeration\<close>

text \<open>
  \<open>to_i16\<close> is optional because one conversion of the code panics on one value; \<open>try_from\<close>
  returns \<open>DatabaseTypeError\<close> for unknown integers.
\<close>

locale int_enum =
  fixes to_i16 :: "'e \<Rightarrow> i16 option"
    and try_from :: "i16 \<Rightarrow> db_error + 'e"
  assumes try_from_to: "to_i16 e = Some i \<Longrightarrow> try_from i = Inr e"
    and to_try_from: "try_from i = Inr e \<Longrightarrow> to_i16 e \<in> {Some i, None}"
    and try_from_error: "try_from i = Inl err \<Longrightarrow> err = DatabaseTypeError"
begin

lemma to_i16_inj: "to_i16 e = Some i \<Longrightarrow> to_i16 e' = Some i \<Longrightarrow> e = e'"
  by (metis sum.inject(2) try_from_to)

lemma column_comparison:
  "to_i16 e \<noteq> None \<Longrightarrow> to_i16 e = to_i16 e' \<longleftrightarrow> e = e'"
  using to_i16_inj by auto

end

locale total_int_enum = int_enum +
  assumes to_i16_total: "\<exists>i. to_i16 e = Some i"
begin

lemma try_from_iff: "try_from i = Inr e \<longleftrightarrow> to_i16 e = Some i"
  by (metis insertE option.distinct(1) singletonD to_i16_total to_try_from try_from_to)

end

section \<open>The enumerations\<close>

datatype relationship_type = Follow | FollowRequest | Subscription | HideReposts | HideReplies | Mute

fun relationship_type_to_i16 :: "relationship_type \<Rightarrow> i16" where
  "relationship_type_to_i16 Follow = 1"
| "relationship_type_to_i16 FollowRequest = 2"
| "relationship_type_to_i16 Subscription = 3"
| "relationship_type_to_i16 HideReposts = 4"
| "relationship_type_to_i16 HideReplies = 5"
| "relationship_type_to_i16 Mute = 6"

definition relationship_type_try_from :: "i16 \<Rightarrow> db_error + relationship_type" where
  "relationship_type_try_from v =
     (if v = 1 then Inr Follow else if v = 2 then Inr FollowRequest
      else if v = 3 then Inr Subscription else if v = 4 then Inr HideReposts
      else if v = 5 then Inr HideReplies else if v = 6 then Inr Mute
      else Inl DatabaseTypeError)"

datatype follow_request_status = Pending | Accepted | Rejected

fun follow_request_status_to_i16 :: "follow_request_status \<Rightarrow> i16" where
  "follow_request_status_to_i16 Pending = 1"
| "follow_request_status_to_i16 Accepted = 2"
| "follow_request_status_to_i16 Rejected = 3"

definition follow_request_status_try_from :: "i16 \<Rightarrow> db_error + follow_request_status" where
  "follow_request_status_try_from v =
     (if v = 1 then Inr Pending else if v = 2 then Inr Accepted else if v = 3 then Inr Rejected
      else Inl DatabaseTypeError)"

datatype visibility = Public | Direct | Followers | Subscribers

fun visibility_to_i16 :: "visibility \<Rightarrow> i16" where
  "visibility_to_i16 Public = 1"
| "visibility_to_i16 Direct = 2"
| "visibility_to_i16 Followers = 3"
| "visibility_to_i16 Subscribers = 4"

definition visibility_try_from :: "i16 \<Rightarrow> db_error + visibility" where
  "visibility_try_from v =
     (if v = 1 then Inr Public else if v = 2 then Inr Direct else if v = 3 then Inr Followers
      else if v = 4 then Inr Subscribers else Inl DatabaseTypeError)"

datatype event_type =
    Event_Follow | Event_FollowRequest | Event_Reply | Event_Reaction | Event_Mention
  | Event_Repost | Event_Subscription | Event_SubscriptionStart | Event_SubscriptionExpiration
  | Event_Move

text \<open>\<open>SubscriptionStart\<close> is \<open>unimplemented!\<close> in the code: writing it panics.\<close>

fun event_type_to_i16 :: "event_type \<Rightarrow> i16 option" where
  "event_type_to_i16 Event_Follow = Some 1"
| "event_type_to_i16 Event_FollowRequest = Some 2"
| "event_type_to_i16 Event_Reply = Some 3"
| "event_type_to_i16 Event_Reaction = Some 4"
| "event_type_to_i16 Event_Mention = Some 5"
| "event_type_to_i16 Event_Repost = Some 6"
| "event_type_to_i16 Event_Subscription = Some 7"
| "event_type_to_i16 Event_SubscriptionStart = None"
| "event_type_to_i16 Event_SubscriptionExpiration = Some 9"
| "event_type_to_i16 Event_Move = Some 10"

definition event_type_try_from :: "i16 \<Rightarrow> db_error + event_type" where
  "event_type_try_from v =
     (if v = 1 then Inr Event_Follow else if v = 2 then Inr Event_FollowRequest
      else if v = 3 then Inr Event_Reply else if v = 4 then Inr Event_Reaction
      else if v = 5 then Inr Event_Mention else if v = 6 then Inr Event_Repost
      else if v = 7 then Inr Event_Subscription else if v = 8 then Inr Event_SubscriptionStart
      else if v = 9 then Inr Event_SubscriptionExpiration else if v = 10 then Inr Event_Move
      else Inl DatabaseTypeError)"

datatype job_type = IncomingActivity | OutgoingActivity

fun job_type_to_i16 :: "job_type \<Rightarrow> i16" where
  "job_type_to_i16 IncomingActivity = 1"
| "job_type_to_i16 OutgoingActivity = 2"

definition job_type_try_from :: "i16 \<Rightarrow> db_error + job_type" where
  "job_type_try_from v =
     (if v = 1 then Inr IncomingActivity else if v = 2 then Inr OutgoingActivity
      else Inl DatabaseTypeError)"

datatype job_status = Queued | Running

fun job_status_to_i16 :: "job_status \<Rightarrow> i16" where
  "job_status_to_i16 Queued = 1"
| "job_status_to_i16 Running = 2"

definition job_status_try_from :: "i16 \<Rightarrow> db_error + job_status" where
  "job_status_try_from v =
     (if v = 1 then Inr Queued else if v = 2 then Inr Running else Inl DatabaseTypeError)"

datatype invoice_status = Open | Paid | Forwarded | Timeout

fun invoice_status_to_i16 :: "invoice_status \<Rightarrow> i16" where
  "invoice_status_to_i16 Open = 1"
| "invoice_status_to_i16 Paid = 2"
| "invoice_status_to_i16 Forwarded = 3"
| "invoice_status_to_i16 Timeout = 4"

definition invoice_status_try_from :: "i16 \<Rightarrow> db_error + invoice_status" where
  "invoice_status_try_from v =
     (if v = 1 then Inr Open else if v = 2 then Inr Paid else if v = 3 then Inr Forwarded
      else if v = 4 then Inr Timeout else Inl DatabaseTypeError)"

datatype timeline = Home | Notifications

fun timeline_to_i16 :: "timeline \<Rightarrow> i16" where
  "timeline_to_i16 Home = 1"
| "timeline_to_i16 Notifications = 2"

definition timeline_try_from :: "i16 \<Rightarrow> db_error + timeline" where
  "timeline_try_from v =
     (if v = 1 then Inr Home else if v = 2 then Inr Notifications else Inl DatabaseTypeError)"

datatype role = Guest | NormalUser | Admin | ReadOnlyUser

fun role_to_i16 :: "role \<Rightarrow> i16" where
  "role_to_i16 Guest = 0"
| "role_to_i16 NormalUser = 1"
| "role_to_i16 Admin = 2"
| "role_to_i16 ReadOnlyUser = 3"

definition role_try_from :: "i16 \<Rightarrow> db_error + role" where
  "role_try_from v =
     (if v = 0 then Inr Guest else if v = 1 then Inr NormalUser else if v = 2 then Inr Admin
      else if v = 3 then Inr ReadOnlyUser else Inl DatabaseTypeError)"

datatype identity_proof_type = LegacyEip191IdentityProof | LegacyMinisignIdentityProof

fun identity_proof_type_to_i16 :: "identity_proof_type \<Rightarrow> i16" where
  "identity_proof_type_to_i16 LegacyEip191IdentityProof = 1"
| "identity_proof_type_to_i16 LegacyMinisignIdentityProof = 2"

definition identity_proof_type_try_from :: "i16 \<Rightarrow> db_error + identity_proof_type" where
  "identity_proof_type_try_from v =
     (if v = 1 then Inr LegacyEip191IdentityProof
      else if v = 2 then Inr LegacyMinisignIdentityProof else Inl DatabaseTypeError)"

datatype payment_type =
  PaymentType_Link | PaymentType_EthereumSubscription | PaymentType_MoneroSubscription

fun payment_type_to_i16 :: "payment_type \<Rightarrow> i16" where
  "payment_type_to_i16 PaymentType_Link = 1"
| "payment_type_to_i16 PaymentType_EthereumSubscription = 2"
| "payment_type_to_i16 PaymentType_MoneroSubscription = 3"

definition payment_type_try_from :: "i16 \<Rightarrow> db_error + payment_type" where
  "payment_type_try_from v =
     (if v = 1 then Inr PaymentType_Link
      else if v = 2 then Inr PaymentType_EthereumSubscription
      else if v = 3 then Inr PaymentType_MoneroSubscription else Inl DatabaseTypeError)"

lemmas try_from_defs =
  relationship_type_try_from_def follow_request_status_try_from_def visibility_try_from_def
  event_type_try_from_def job_type_try_from_def job_status_try_from_def
  invoice_status_try_from_def timeline_try_from_def role_try_from_def
  identity_proof_type_try_from_def payment_type_try_from_def

section \<open>Every enumeration meets the interface\<close>

interpretation relationship_enum:
  total_int_enum "\<lambda>e. Some (relationship_type_to_i16 e)" relationship_type_try_from
proof unfold_locales
  fix e and i :: i16
  show "Some (relationship_type_to_i16 e) = Some i \<Longrightarrow> relationship_type_try_from i = Inr e"
    by (cases e) (auto simp: try_from_defs)
qed (auto simp: try_from_defs split: if_splits)

interpretation follow_request_status_enum:
  total_int_enum "\<lambda>e. Some (follow_request_status_to_i16 e)" follow_request_status_try_from
proof unfold_locales
  fix e and i :: i16
  show "Some (follow_request_status_to_i16 e) = Some i \<Longrightarrow> follow_request_status_try_from i = Inr e"
    by (cases e) (auto simp: try_from_defs)
qed (auto simp: try_from_defs split: if_splits)

interpretation visibility_enum:
  total_int_enum "\<lambda>e. Some (visibility_to_i16 e)" visibility_try_from
proof unfold_locales
  fix e and i :: i16
  show "Some (visibility_to_i16 e) = Some i \<Longrightarrow> visibility_try_from i = Inr e"
    by (cases e) (auto simp: try_from_defs)
qed (auto simp: try_from_defs split: if_splits)

interpretation event_type_enum: int_enum event_type_to_i16 event_type_try_from
proof unfold_locales
  fix e i
  show "event_type_to_i16 e = Some i \<Longrightarrow> event_type_try_from i = Inr e"
    by (cases e) (auto simp: try_from_defs)
qed (auto simp: try_from_defs split: if_splits)

interpretation job_type_enum: total_int_enum "\<lambda>e. Some (job_type_to_i16 e)" job_type_try_from
proof unfold_locales
  fix e and i :: i16
  show "Some (job_type_to_i16 e) = Some i \<Longrightarrow> job_type_try_from i = Inr e"
    by (cases e) (auto simp: try_from_defs)
qed (auto simp: try_from_defs split: if_splits)

interpretation job_status_enum:
  total_int_enum "\<lambda>e. Some (job_status_to_i16 e)" job_status_try_from
proof unfold_locales
  fix e and i :: i16
  show "Some (job_status_to_i16 e) = Some i \<Longrightarrow> job_status_try_from i = Inr e"
    by (cases e) (auto simp: try_from_defs)
qed (auto simp: try_from_defs split: if_splits)

interpretation invoice_status_enum:
  total_int_enum "\<lambda>e. Some (invoice_status_to_i16 e)" invoice_status_try_from
proof unfold_locales
  fix e and i :: i16
  show "Some (invoice_status_to_i16 e) = Some i \<Longrightarrow> invoice_status_try_from i = Inr e"
    by (cases e) (auto simp: try_from_defs)
qed (auto simp: try_from_defs split: if_splits)

interpretation timeline_enum: total_int_enum "\<lambda>e. Some (timeline_to_i16 e)" timeline_try_from
proof unfold_locales
  fix e and i :: i16
  show "Some (timeline_to_i16 e) = Some i \<Longrightarrow> timeline_try_from i = Inr e"
    by (cases e) (auto simp: try_from_defs)
qed (auto simp: try_from_defs split: if_splits)

interpretation role_enum: total_int_enum "\<lambda>e. Some (role_to_i16 e)" role_try_from
proof unfold_locales
  fix e and i :: i16
  show "Some (role_to_i16 e) = Some i \<Longrightarrow> role_try_from i = Inr e"
    by (cases e) (auto simp: try_from_defs)
qed (auto simp: try_from_defs split: if_splits)

interpretation identity_proof_type_enum:
  total_int_enum "\<lambda>e. Some (identity_proof_type_to_i16 e)" identity_proof_type_try_from
proof unfold_locales
  fix e and i :: i16
  show "Some (identity_proof_type_to_i16 e) = Some i \<Longrightarrow> identity_proof_type_try_from i = Inr e"
    by (cases e) (auto simp: try_from_defs)
qed (auto simp: try_from_defs split: if_splits)

interpretation payment_type_enum:
  total_int_enum "\<lambda>e. Some (payment_type_to_i16 e)" payment_type_try_from
proof unfold_locales
  fix e and i :: i16
  show "Some (payment_type_to_i16 e) = Some i \<Longrightarrow> payment_type_try_from i = Inr e"
    by (cases e) (auto simp: try_from_defs)
qed (auto simp: try_from_defs split: if_splits)

end
