(* ===== verification/Profile_Types.thy ===== *)
theory Profile_Types
  imports Int_Enums Identifiers
begin

text \<open>
  The row and value types of emojis and actor profiles
  (\<open>fedimovies-models/src/emojis/types.rs\<close>, \<open>fedimovies-models/src/profiles/types.rs\<close>) and
  their methods. Columns of type \<open>JSONB\<close> hold the values that the code serializes into them.
\<close>

section \<open>Emojis\<close>

record emoji_image =
  ei_file_name :: string
  ei_file_size :: nat
  ei_media_type :: string

record db_emoji =
  em_id :: uuid
  em_emoji_name :: string
  em_hostname :: "string option"
  em_image :: emoji_image
  em_object_id :: "string option"
  em_updated_at :: datetime

section \<open>Parts of a profile\<close>

record profile_image =
  pi_file_name :: string
  pi_file_size :: "nat option"
  pi_media_type :: "string option"

definition profile_image_new :: "string \<Rightarrow> nat \<Rightarrow> string option \<Rightarrow> profile_image" where
  "profile_image_new file_name file_size media_type =
     \<lparr>pi_file_name = file_name, pi_file_size = Some file_size, pi_media_type = media_type\<rparr>"

record identity_proof =
  ip_issuer :: did
  ip_proof_type :: identity_proof_type
  ip_value :: string

definition identity_proofs_any :: "identity_proof list \<Rightarrow> did \<Rightarrow> bool" where
  "identity_proofs_any proofs issuer \<longleftrightarrow> list_ex (\<lambda>proof. ip_issuer proof = issuer) proofs"

record payment_link =
  pl_name :: string
  pl_href :: string

record ethereum_subscription =
  es_chain_id :: chain_id

record monero_subscription =
  ms_chain_id :: chain_id
  ms_price :: nat
  ms_payout_address :: string

datatype payment_option =
    Option_Link payment_link
  | Option_EthereumSubscription ethereum_subscription
  | Option_MoneroSubscription monero_subscription

definition ethereum_subscription_option :: "chain_id \<Rightarrow> payment_option" where
  "ethereum_subscription_option c = Option_EthereumSubscription \<lparr>es_chain_id = c\<rparr>"

fun option_payment_type :: "payment_option \<Rightarrow> payment_type" where
  "option_payment_type (Option_Link _) = PaymentType_Link"
| "option_payment_type (Option_EthereumSubscription _) = PaymentType_EthereumSubscription"
| "option_payment_type (Option_MoneroSubscription _) = PaymentType_MoneroSubscription"

definition payment_options_any :: "payment_option list \<Rightarrow> payment_type \<Rightarrow> bool" where
  "payment_options_any options t \<longleftrightarrow> list_ex (\<lambda>opt. option_payment_type opt = t) options"

record extra_field =
  ef_name :: string
  ef_value :: string
  ef_value_source :: "string option"

record actor_alias =
  al_id :: string

definition aliases_new :: "string list \<Rightarrow> actor_alias list" where
  "aliases_new actor_ids = map (\<lambda>actor_id. \<lparr>al_id = actor_id\<rparr>) actor_ids"

definition into_actor_ids :: "actor_alias list \<Rightarrow> string list" where
  "into_actor_ids aliases = map al_id aliases"

lemma into_actor_ids_new [simp]: "into_actor_ids (aliases_new ids) = ids"
  by (simp add: into_actor_ids_def aliases_new_def o_def)

lemma aliases_new_into [simp]: "aliases_new (into_actor_ids xs) = xs"
  by (induction xs) (auto simp: into_actor_ids_def aliases_new_def)

record db_actor_public_key =
  pk_id :: string
  pk_owner :: string
  pk_public_key_pem :: string

record db_actor =
  da_object_type :: string
  da_id :: string
  da_inbox :: string
  da_outbox :: string
  da_followers :: "string option"
  da_subscribers :: "string option"
  da_url :: "string option"
  da_public_key :: db_actor_public_key

section \<open>Profiles\<close>

text \<open>
  \<open>acct\<close> and \<open>actor_id\<close> are generated columns of the table, hence functions of the row.
\<close>

record db_actor_profile =
  ap_id :: uuid
  ap_username :: string
  ap_hostname :: "string option"
  ap_display_name :: "string option"
  ap_bio :: "string option"
  ap_bio_source :: "string option"
  ap_avatar :: "profile_image option"
  ap_banner :: "profile_image option"
  ap_manually_approves_followers :: bool
  ap_identity_proofs :: "identity_proof list"
  ap_payment_options :: "payment_option list"
  ap_extra_fields :: "extra_field list"
  ap_aliases :: "actor_alias list"
  ap_follower_count :: i32
  ap_following_count :: i32
  ap_subscriber_count :: i32
  ap_post_count :: i32
  ap_emojis :: "db_emoji list"
  ap_actor_json :: "db_actor option"
  ap_created_at :: datetime
  ap_updated_at :: datetime
  ap_unreachable_since :: "datetime option"

definition ap_acct :: "db_actor_profile \<Rightarrow> string" where
  "ap_acct ap = (case ap_hostname ap of
     None \<Rightarrow> ap_username ap
   | Some h \<Rightarrow> ap_username ap @ ''@'' @ h)"

definition ap_actor_id :: "db_actor_profile \<Rightarrow> string option" where
  "ap_actor_id ap = map_option da_id (ap_actor_json ap)"

definition check_remote :: "db_actor_profile \<Rightarrow> db_error + unit" where
  "check_remote ap =
     (if ap_hostname ap = None \<or> ap_actor_json ap = None then Inl DatabaseTypeError else Inr ())"

definition is_local :: "db_actor_profile \<Rightarrow> bool" where
  "is_local ap \<longleftrightarrow> ap_actor_json ap = None"

definition one_day :: datetime where
  "one_day = 24 * 60 * 60 * 1000000"

definition possibly_outdated :: "datetime \<Rightarrow> db_actor_profile \<Rightarrow> bool" where
  "possibly_outdated now ap = (if is_local ap then False else ap_updated_at ap < now - one_day)"

record profile_create_data =
  pc_username :: string
  pc_hostname :: "string option"
  pc_display_name :: "string option"
  pc_bio :: "string option"
  pc_avatar :: "profile_image option"
  pc_banner :: "profile_image option"
  pc_manually_approves_followers :: bool
  pc_identity_proofs :: "identity_proof list"
  pc_payment_options :: "payment_option list"
  pc_extra_fields :: "extra_field list"
  pc_aliases :: "string list"
  pc_emojis :: "uuid list"
  pc_actor_json :: "db_actor option"

record profile_update_data =
  pu_display_name :: "string option"
  pu_bio :: "string option"
  pu_bio_source :: "string option"
  pu_avatar :: "profile_image option"
  pu_banner :: "profile_image option"
  pu_manually_approves_followers :: bool
  pu_identity_proofs :: "identity_proof list"
  pu_payment_options :: "payment_option list"
  pu_extra_fields :: "extra_field list"
  pu_aliases :: "string list"
  pu_emojis :: "uuid list"
  pu_actor_json :: "db_actor option"

definition add_identity_proof :: "profile_update_data \<Rightarrow> identity_proof \<Rightarrow> profile_update_data" where
  "add_identity_proof d proof =
     d\<lparr>pu_identity_proofs :=
         filter (\<lambda>item. ip_issuer item \<noteq> ip_issuer proof) (pu_identity_proofs d) @ [proof]\<rparr>"

definition add_payment_option :: "profile_update_data \<Rightarrow> payment_option \<Rightarrow> profile_update_data" where
  "add_payment_option d opt =
     d\<lparr>pu_payment_options :=
         filter (\<lambda>item. option_payment_type item \<noteq> option_payment_type opt)
           (pu_payment_options d) @ [opt]\<rparr>"

definition profile_update_data_from :: "db_actor_profile \<Rightarrow> profile_update_data" where
  "profile_update_data_from ap =
     \<lparr>pu_display_name = ap_display_name ap,
      pu_bio = ap_bio ap,
      pu_bio_source = ap_bio_source ap,
      pu_avatar = ap_avatar ap,
      pu_banner = ap_banner ap,
      pu_manually_approves_followers = ap_manually_approves_followers ap,
      pu_identity_proofs = ap_identity_proofs ap,
      pu_payment_options = ap_payment_options ap,
      pu_extra_fields = ap_extra_fields ap,
      pu_aliases = into_actor_ids (ap_aliases ap),
      pu_emojis = map em_id (ap_emojis ap),
      pu_actor_json = ap_actor_json ap\<rparr>"

text \<open>
  \<open>retain\<close> followed by \<open>push\<close> replaces by key. This is the contract of both \<open>add_\<close> methods:
  keyed by \<open>k\<close>, the list stays free of duplicates, the new item is found under its key and
  the items with other keys are untouched and stay in order.
\<close>

locale keyed_replace =
  fixes k :: "'a \<Rightarrow> 'b"
    and put :: "'a list \<Rightarrow> 'a \<Rightarrow> 'a list"
  assumes put_eq: "put xs x = filter (\<lambda>y. k y \<noteq> k x) xs @ [x]"
begin

lemma put_distinct: "distinct (map k xs) \<Longrightarrow> distinct (map k (put xs x))"
  by (auto simp: put_eq distinct_map_filter)

lemma put_lookup: "filter (\<lambda>y. k y = k x) (put xs x) = [x]"
  by (simp add: put_eq filter_empty_conv)

lemma put_other: "v \<noteq> k x \<Longrightarrow> filter (\<lambda>y. k y = v) (put xs x) = filter (\<lambda>y. k y = v) xs"
  by (auto simp: put_eq intro: filter_cong)

lemma put_distinct_fold: "distinct (map k (fold (\<lambda>x ys. put ys x) xs []))"
proof -
  have "distinct (map k ys) \<Longrightarrow> distinct (map k (fold (\<lambda>x ys. put ys x) xs ys))" for ys
    by (induction xs arbitrary: ys) (simp_all add: put_distinct)
  then show ?thesis by simp
qed

end

interpretation proof_list: keyed_replace ip_issuer
  "\<lambda>xs x. filter (\<lambda>y. ip_issuer y \<noteq> ip_issuer x) xs @ [x]"
  by unfold_locales simp

interpretation payment_list: keyed_replace option_payment_type
  "\<lambda>xs x. filter (\<lambda>y. option_payment_type y \<noteq> option_payment_type x) xs @ [x]"
  by unfold_locales simp

lemma updated_proofs:
  "pu_identity_proofs (add_identity_proof d p) =
     filter (\<lambda>y. ip_issuer y \<noteq> ip_issuer p) (pu_identity_proofs d) @ [p]"
  by (simp add: add_identity_proof_def)

lemma updated_options:
  "pu_payment_options (add_payment_option d opt) =
     filter (\<lambda>y. option_payment_type y \<noteq> option_payment_type opt) (pu_payment_options d) @ [opt]"
  by (simp add: add_payment_option_def)

lemma add_identity_proof_any:
  "identity_proofs_any (pu_identity_proofs (add_identity_proof d p)) issuer \<longleftrightarrow>
     issuer = ip_issuer p \<or> identity_proofs_any (pu_identity_proofs d) issuer"
  by (auto simp: identity_proofs_any_def add_identity_proof_def list_ex_iff)

text \<open>
  \<open>ProfileUpdateData::add_identity_proof\<close> and \<open>add_payment_option\<close> keep at most one proof
  per issuer and one option per payment type: the new item replaces the old one under its key,
  is the only one there, and every other entry survives.
\<close>

theorem add_keeps_one_per_key:
  assumes "distinct (map ip_issuer (pu_identity_proofs d))"
    and "distinct (map option_payment_type (pu_payment_options d))"
  shows "distinct (map ip_issuer (pu_identity_proofs (add_identity_proof d p))) \<and>
    filter (\<lambda>x. ip_issuer x = ip_issuer p) (pu_identity_proofs (add_identity_proof d p)) = [p] \<and>
    (\<forall>i. i \<noteq> ip_issuer p \<longrightarrow>
      filter (\<lambda>x. ip_issuer x = i) (pu_identity_proofs (add_identity_proof d p)) =
      filter (\<lambda>x. ip_issuer x = i) (pu_identity_proofs d)) \<and>
    distinct (map option_payment_type (pu_payment_options (add_payment_option d opt))) \<and>
    filter (\<lambda>x. option_payment_type x = option_payment_type opt)
      (pu_payment_options (add_payment_option d opt)) = [opt] \<and>
    (\<forall>t. t \<noteq> option_payment_type opt \<longrightarrow>
      filter (\<lambda>x. option_payment_type x = t) (pu_payment_options (add_payment_option d opt)) =
      filter (\<lambda>x. option_payment_type x = t) (pu_payment_options d))"
  unfolding updated_proofs updated_options
  using proof_list.put_distinct [OF assms(1)] proof_list.put_lookup proof_list.put_other
    payment_list.put_distinct [OF assms(2)] payment_list.put_lookup payment_list.put_other
  by blast

theorem add_keeps_one_per_key_witness:
  "\<exists>d. distinct (map option_payment_type (pu_payment_options d)) \<and>
     pu_payment_options d \<noteq> [] \<and>
     pu_payment_options (add_payment_option d (ethereum_subscription_option ethereum_devnet)) =
       [ethereum_subscription_option ethereum_devnet] \<and>
     distinct (map option_payment_type (pu_payment_options
       (add_payment_option d (ethereum_subscription_option ethereum_devnet))))"
proof -
  define d :: profile_update_data where
    "d = \<lparr>pu_display_name = None, pu_bio = None, pu_bio_source = None, pu_avatar = None,
      pu_banner = None, pu_manually_approves_followers = False, pu_identity_proofs = [],
      pu_payment_options = [ethereum_subscription_option ethereum_mainnet],
      pu_extra_fields = [], pu_aliases = [], pu_emojis = [], pu_actor_json = None\<rparr>"
  have "distinct (map ip_issuer (pu_identity_proofs d))"
    and p: "distinct (map option_payment_type (pu_payment_options d))"
    by (simp_all add: d_def)
  from add_keeps_one_per_key [OF this, of undefined "ethereum_subscription_option ethereum_devnet"]
  have "distinct (map option_payment_type (pu_payment_options
      (add_payment_option d (ethereum_subscription_option ethereum_devnet))))" by blast
  with p show ?thesis
    by (intro exI [of _ d]) (simp add: d_def add_payment_option_def ethereum_subscription_option_def)
qed

end
