(* ===== verification/Schema.thy ===== *)
theory Schema
  imports Profile_Types
begin

text \<open>
  The relational schema (\<open>fedimovies-models/migrations/schema.sql\<close> and the row structs of
  \<open>fedimovies-models/src/*/types.rs\<close>): one record per row type, the database as a record of
  tables, the constraints as executable predicates, and \<open>ON DELETE CASCADE\<close>. An SQL statement
  is a function on the database; it succeeds exactly when its result satisfies every constraint.
  Column widths and the upper limit of identity columns are not modelled.
\<close>

section \<open>Rows\<close>

datatype json =
  JNull | JBool bool | JNumber int | JString string | JArray "json list"
| JObject "(string \<times> json) list"

record db_background_job =
  bj_id :: uuid
  bj_job_type :: job_type
  bj_job_data :: json
  bj_job_status :: job_status
  bj_scheduled_for :: datetime
  bj_updated_at :: datetime

record db_invite_code =
  ic_code :: string
  ic_used :: bool
  ic_note :: "string option"
  ic_created_at :: datetime

record db_user =
  ua_id :: uuid
  ua_wallet_address :: "string option"
  ua_password_hash :: "string option"
  ua_private_key :: string
  ua_invite_code :: "string option"
  ua_user_role :: role
  ua_client_config :: "(string \<times> json) list"
  ua_created_at :: datetime

record db_oauth_app =
  oa_id :: int
  oa_app_name :: string
  oa_website :: "string option"
  oa_scopes :: string
  oa_redirect_uri :: string
  oa_client_id :: uuid
  oa_client_secret :: string
  oa_created_at :: datetime

record db_oauth_authorization =
  oz_id :: int
  oz_code :: string
  oz_user_id :: uuid
  oz_application_id :: int
  oz_scopes :: string
  oz_created_at :: datetime
  oz_expires_at :: datetime

record db_oauth_token =
  ot_id :: int
  ot_owner_id :: uuid
  ot_token :: string
  ot_created_at :: datetime
  ot_expires_at :: datetime

record db_relationship_row =
  rl_id :: int
  rl_source_id :: uuid
  rl_target_id :: uuid
  rl_relationship_type :: relationship_type

record db_follow_request =
  fr_id :: uuid
  fr_source_id :: uuid
  fr_target_id :: uuid
  fr_activity_id :: "string option"
  fr_request_status :: follow_request_status

record db_post =
  po_id :: uuid
  po_author_id :: uuid
  po_content :: string
  po_in_reply_to_id :: "uuid option"
  po_repost_of_id :: "uuid option"
  po_visibility :: visibility
  po_is_sensitive :: bool
  po_reply_count :: i32
  po_reaction_count :: i32
  po_repost_count :: i32
  po_object_id :: "string option"
  po_ipfs_cid :: "string option"
  po_token_id :: "i32 option"
  po_token_tx_id :: "string option"
  po_created_at :: datetime
  po_updated_at :: "datetime option"

record db_reaction =
  pr_id :: uuid
  pr_author_id :: uuid
  pr_post_id :: uuid
  pr_activity_id :: "string option"
  pr_created_at :: datetime

record db_media_attachment =
  ma_id :: uuid
  ma_owner_id :: uuid
  ma_file_name :: string
  ma_file_size :: "i32 option"
  ma_media_type :: "string option"
  ma_ipfs_cid :: "string option"
  ma_post_id :: "uuid option"
  ma_created_at :: datetime

record db_tag =
  tg_id :: int
  tg_name :: string

record db_notification =
  nt_id :: int
  nt_sender_id :: uuid
  nt_recipient_id :: uuid
  nt_post_id :: "uuid option"
  nt_event_type :: event_type
  nt_created_at :: datetime

record db_timeline_marker =
  tm_id :: int
  tm_user_id :: uuid
  tm_timeline :: timeline
  tm_last_read_id :: string
  tm_updated_at :: datetime

record db_invoice =
  iv_id :: uuid
  iv_sender_id :: uuid
  iv_recipient_id :: uuid
  iv_chain_id :: chain_id
  iv_payment_address :: string
  iv_amount :: int
  iv_invoice_status :: invoice_status
  iv_created_at :: datetime

record db_subscription =
  sb_id :: int
  sb_sender_id :: uuid
  sb_sender_address :: "string option"
  sb_recipient_id :: uuid
  sb_chain_id :: chain_id
  sb_expires_at :: datetime
  sb_updated_at :: datetime

section \<open>The database\<close>

record database =
  t_internal_property :: "(string \<times> json) list"
  t_background_job :: "db_background_job list"
  t_instance :: "string list"
  t_actor_profile :: "db_actor_profile list"
  t_user_invite_code :: "db_invite_code list"
  t_user_account :: "db_user list"
  t_oauth_application :: "db_oauth_app list"
  t_oauth_authorization :: "db_oauth_authorization list"
  t_oauth_token :: "db_oauth_token list"
  t_relationship :: "db_relationship_row list"
  t_follow_request :: "db_follow_request list"
  t_post :: "db_post list"
  t_post_reaction :: "db_reaction list"
  t_media_attachment :: "db_media_attachment list"
  t_mention :: "(uuid \<times> uuid) list"
  t_tag :: "db_tag list"
  t_post_tag :: "(uuid \<times> int) list"
  t_post_link :: "(uuid \<times> uuid) list"
  t_emoji :: "db_emoji list"
  t_post_emoji :: "(uuid \<times> uuid) list"
  t_profile_emoji :: "(uuid \<times> uuid) list"
  t_notification :: "db_notification list"
  t_timeline_marker :: "db_timeline_marker list"
  t_invoice :: "db_invoice list"
  t_subscription :: "db_subscription list"
  next_id :: int

text \<open>
  \<open>next_id\<close> is the sequence behind the identity columns. One sequence serves all of them: the
  code only compares identifiers of one table.
\<close>

definition empty_database :: database where
  "empty_database =
     \<lparr>t_internal_property = [], t_background_job = [], t_instance = [], t_actor_profile = [],
      t_user_invite_code = [], t_user_account = [], t_oauth_application = [],
      t_oauth_authorization = [], t_oauth_token = [], t_relationship = [],
      t_follow_request = [], t_post = [], t_post_reaction = [], t_media_attachment = [],
      t_mention = [], t_tag = [], t_post_tag = [], t_post_link = [], t_emoji = [],
      t_post_emoji = [], t_profile_emoji = [], t_notification = [], t_timeline_marker = [],
      t_invoice = [], t_subscription = [], next_id = 1\<rparr>"

abbreviation profile_ids :: "database \<Rightarrow> uuid set" where
  "profile_ids db \<equiv> ap_id ` set (t_actor_profile db)"

abbreviation post_ids :: "database \<Rightarrow> uuid set" where
  "post_ids db \<equiv> po_id ` set (t_post db)"

abbreviation user_ids :: "database \<Rightarrow> uuid set" where
  "user_ids db \<equiv> ua_id ` set (t_user_account db)"

abbreviation emoji_ids :: "database \<Rightarrow> uuid set" where
  "emoji_ids db \<equiv> em_id ` set (t_emoji db)"

abbreviation tag_ids :: "database \<Rightarrow> int set" where
  "tag_ids db \<equiv> tg_id ` set (t_tag db)"

section \<open>Constraints\<close>

subsection \<open>Value ranges and checks\<close>

definition ranges_ok :: "database \<Rightarrow> bool" where
  "ranges_ok db \<longleftrightarrow>
     (\<forall>ap \<in> set (t_actor_profile db).
        i32_in_range (ap_follower_count ap) \<and> i32_in_range (ap_following_count ap) \<and>
        i32_in_range (ap_subscriber_count ap) \<and> i32_in_range (ap_post_count ap)) \<and>
     (\<forall>po \<in> set (t_post db).
        i32_in_range (po_reply_count po) \<and> i32_in_range (po_reaction_count po) \<and>
        i32_in_range (po_repost_count po))"

definition profile_check :: "db_actor_profile \<Rightarrow> bool" where
  "profile_check ap \<longleftrightarrow>
     0 \<le> ap_follower_count ap \<and> 0 \<le> ap_following_count ap \<and> 0 \<le> ap_subscriber_count ap \<and>
     0 \<le> ap_post_count ap \<and> (ap_hostname ap = None) = (ap_actor_json ap = None)"

definition post_check :: "db_post \<Rightarrow> bool" where
  "post_check po \<longleftrightarrow>
     0 \<le> po_reply_count po \<and> 0 \<le> po_reaction_count po \<and> 0 \<le> po_repost_count po"

definition checks_ok :: "database \<Rightarrow> bool" where
  "checks_ok db \<longleftrightarrow>
     (\<forall>ap \<in> set (t_actor_profile db). profile_check ap) \<and>
     (\<forall>po \<in> set (t_post db). post_check po) \<and>
     (\<forall>r \<in> set (t_relationship db). rl_source_id r \<noteq> rl_target_id r) \<and>
     (\<forall>r \<in> set (t_follow_request db). fr_source_id r \<noteq> fr_target_id r) \<and>
     (\<forall>(s, t) \<in> set (t_post_link db). s \<noteq> t) \<and>
     (\<forall>e \<in> set (t_emoji db). (em_hostname e = None) = (em_object_id e = None)) \<and>
     (\<forall>i \<in> set (t_invoice db). 0 \<le> iv_amount i \<and> iv_sender_id i \<noteq> iv_recipient_id i) \<and>
     (\<forall>s \<in> set (t_subscription db). sb_sender_id s \<noteq> sb_recipient_id s)"

subsection \<open>Unique keys\<close>

definition relationship_key :: "db_relationship_row \<Rightarrow> uuid \<times> uuid \<times> relationship_type" where
  "relationship_key r = (rl_source_id r, rl_target_id r, rl_relationship_type r)"

definition follow_request_key :: "db_follow_request \<Rightarrow> uuid \<times> uuid" where
  "follow_request_key r = (fr_source_id r, fr_target_id r)"

definition repost_key :: "db_post \<Rightarrow> (uuid \<times> uuid) option" where
  "repost_key po = map_option (\<lambda>r. (po_author_id po, r)) (po_repost_of_id po)"

definition reaction_key :: "db_reaction \<Rightarrow> uuid \<times> uuid" where
  "reaction_key r = (pr_author_id r, pr_post_id r)"

definition emoji_key :: "db_emoji \<Rightarrow> (string \<times> string) option" where
  "emoji_key e = map_option (\<lambda>h. (em_emoji_name e, h)) (em_hostname e)"

definition profile_keys_ok :: "db_actor_profile list \<Rightarrow> bool" where
  "profile_keys_ok aps \<longleftrightarrow>
     distinct (map ap_id aps) \<and> distinct (map ap_acct aps) \<and> unique_by ap_actor_id aps"

definition user_keys_ok :: "db_user list \<Rightarrow> bool" where
  "user_keys_ok uas \<longleftrightarrow>
     distinct (map ua_id uas) \<and> unique_by ua_wallet_address uas \<and> unique_by ua_invite_code uas"

definition relationship_keys_ok :: "db_relationship_row list \<Rightarrow> bool" where
  "relationship_keys_ok rs \<longleftrightarrow> distinct (map rl_id rs) \<and> distinct (map relationship_key rs)"

definition follow_request_keys_ok :: "db_follow_request list \<Rightarrow> bool" where
  "follow_request_keys_ok rs \<longleftrightarrow>
     distinct (map fr_id rs) \<and> distinct (map follow_request_key rs) \<and> unique_by fr_activity_id rs"

definition post_keys_ok :: "db_post list \<Rightarrow> bool" where
  "post_keys_ok pos \<longleftrightarrow>
     distinct (map po_id pos) \<and> unique_by po_object_id pos \<and> unique_by repost_key pos"

definition reaction_keys_ok :: "db_reaction list \<Rightarrow> bool" where
  "reaction_keys_ok rs \<longleftrightarrow>
     distinct (map pr_id rs) \<and> distinct (map reaction_key rs) \<and> unique_by pr_activity_id rs"

definition emoji_keys_ok :: "db_emoji list \<Rightarrow> bool" where
  "emoji_keys_ok es \<longleftrightarrow>
     distinct (map em_id es) \<and> unique_by em_object_id es \<and> unique_by emoji_key es"

definition token_keys_ok :: "database \<Rightarrow> bool" where
  "token_keys_ok db \<longleftrightarrow>
     distinct (map oa_id (t_oauth_application db)) \<and>
     distinct (map oa_client_id (t_oauth_application db)) \<and>
     distinct (map oz_code (t_oauth_authorization db)) \<and>
     distinct (map ot_token (t_oauth_token db))"

definition misc_keys_ok :: "database \<Rightarrow> bool" where
  "misc_keys_ok db \<longleftrightarrow>
     distinct (map fst (t_internal_property db)) \<and>
     distinct (map bj_id (t_background_job db)) \<and>
     distinct (t_instance db) \<and>
     distinct (map ic_code (t_user_invite_code db)) \<and>
     distinct (map ma_id (t_media_attachment db)) \<and>
     distinct (t_mention db) \<and>
     distinct (map tg_id (t_tag db)) \<and> distinct (map tg_name (t_tag db)) \<and>
     distinct (t_post_tag db) \<and> distinct (t_post_link db) \<and>
     distinct (t_post_emoji db) \<and> distinct (t_profile_emoji db) \<and>
     distinct (map nt_id (t_notification db)) \<and>
     distinct (map (\<lambda>m. (tm_user_id m, tm_timeline m)) (t_timeline_marker db)) \<and>
     distinct (map iv_id (t_invoice db)) \<and>
     distinct (map (\<lambda>i. (iv_chain_id i, iv_payment_address i)) (t_invoice db)) \<and>
     distinct (map sb_id (t_subscription db)) \<and>
     distinct (map (\<lambda>s. (sb_sender_id s, sb_recipient_id s)) (t_subscription db))"

definition unique_ok :: "database \<Rightarrow> bool" where
  "unique_ok db \<longleftrightarrow>
     profile_keys_ok (t_actor_profile db) \<and> user_keys_ok (t_user_account db) \<and>
     relationship_keys_ok (t_relationship db) \<and>
     follow_request_keys_ok (t_follow_request db) \<and> post_keys_ok (t_post db) \<and>
     reaction_keys_ok (t_post_reaction db) \<and> emoji_keys_ok (t_emoji db) \<and>
     token_keys_ok db \<and> misc_keys_ok db"

subsection \<open>Foreign keys\<close>

definition opt_in :: "'a option \<Rightarrow> 'a set \<Rightarrow> bool" where
  "opt_in x A \<longleftrightarrow> (case x of None \<Rightarrow> True | Some y \<Rightarrow> y \<in> A)"

lemma opt_in_simps [simp]: "opt_in None A" "opt_in (Some y) A \<longleftrightarrow> y \<in> A"
  by (simp_all add: opt_in_def)

lemma opt_in_mono: "opt_in x A \<Longrightarrow> A \<subseteq> B \<Longrightarrow> opt_in x B"
  by (auto simp: opt_in_def split: option.splits)

definition profile_refs_ok :: "database \<Rightarrow> bool" where
  "profile_refs_ok db \<longleftrightarrow>
     (\<forall>ap \<in> set (t_actor_profile db). opt_in (ap_hostname ap) (set (t_instance db))) \<and>
     (\<forall>e \<in> set (t_emoji db). opt_in (em_hostname e) (set (t_instance db))) \<and>
     user_ids db \<subseteq> profile_ids db \<and>
     (\<forall>r \<in> set (t_relationship db).
        rl_source_id r \<in> profile_ids db \<and> rl_target_id r \<in> profile_ids db) \<and>
     (\<forall>r \<in> set (t_follow_request db).
        fr_source_id r \<in> profile_ids db \<and> fr_target_id r \<in> profile_ids db) \<and>
     (\<forall>(p, e) \<in> set (t_profile_emoji db). p \<in> profile_ids db \<and> e \<in> emoji_ids db)"

definition user_refs_ok :: "database \<Rightarrow> bool" where
  "user_refs_ok db \<longleftrightarrow>
     (\<forall>u \<in> set (t_user_account db).
        opt_in (ua_invite_code u) (ic_code ` set (t_user_invite_code db))) \<and>
     (\<forall>z \<in> set (t_oauth_authorization db).
        oz_user_id z \<in> user_ids db \<and> oz_application_id z \<in> oa_id ` set (t_oauth_application db)) \<and>
     (\<forall>t \<in> set (t_oauth_token db). ot_owner_id t \<in> user_ids db) \<and>
     (\<forall>m \<in> set (t_timeline_marker db). tm_user_id m \<in> user_ids db) \<and>
     (\<forall>i \<in> set (t_invoice db).
        iv_sender_id i \<in> profile_ids db \<and> iv_recipient_id i \<in> user_ids db) \<and>
     (\<forall>s \<in> set (t_subscription db).
        sb_sender_id s \<in> profile_ids db \<and> sb_recipient_id s \<in> user_ids db)"

definition post_refs_ok :: "database \<Rightarrow> bool" where
  "post_refs_ok db \<longleftrightarrow>
     (\<forall>po \<in> set (t_post db).
        po_author_id po \<in> profile_ids db \<and> opt_in (po_in_reply_to_id po) (post_ids db) \<and>
        opt_in (po_repost_of_id po) (post_ids db)) \<and>
     (\<forall>r \<in> set (t_post_reaction db).
        pr_author_id r \<in> profile_ids db \<and> pr_post_id r \<in> post_ids db) \<and>
     (\<forall>a \<in> set (t_media_attachment db).
        ma_owner_id a \<in> profile_ids db \<and> opt_in (ma_post_id a) (post_ids db)) \<and>
     (\<forall>(p, i) \<in> set (t_mention db). p \<in> post_ids db \<and> i \<in> profile_ids db) \<and>
     (\<forall>(p, t) \<in> set (t_post_tag db). p \<in> post_ids db \<and> t \<in> tag_ids db) \<and>
     (\<forall>(s, t) \<in> set (t_post_link db). s \<in> post_ids db \<and> t \<in> post_ids db) \<and>
     (\<forall>(p, e) \<in> set (t_post_emoji db). p \<in> post_ids db \<and> e \<in> emoji_ids db) \<and>
     (\<forall>n \<in> set (t_notification db).
        nt_sender_id n \<in> profile_ids db \<and> nt_recipient_id n \<in> user_ids db \<and>
        opt_in (nt_post_id n) (post_ids db))"

definition foreign_keys_ok :: "database \<Rightarrow> bool" where
  "foreign_keys_ok db \<longleftrightarrow> profile_refs_ok db \<and> user_refs_ok db \<and> post_refs_ok db"

definition wf_db :: "database \<Rightarrow> bool" where
  "wf_db db \<longleftrightarrow> ranges_ok db \<and> checks_ok db \<and> unique_ok db \<and> foreign_keys_ok db"

section \<open>Statements\<close>

definition violated :: "database \<Rightarrow> pg_error option" where
  "violated db =
     (if \<not> ranges_ok db then Some Numeric_value_out_of_range
      else if \<not> checks_ok db then Some Check_violation
      else if \<not> unique_ok db then Some Unique_violation
      else if \<not> foreign_keys_ok db then Some Foreign_key_violation
      else None)"

definition stmt :: "(database \<Rightarrow> 'a \<times> database) \<Rightarrow> database \<Rightarrow> pg_error + 'a \<times> database" where
  "stmt f db = (case violated (snd (f db)) of None \<Rightarrow> Inr (f db) | Some e \<Rightarrow> Inl e)"

lemma violated_None [simp]: "violated db = None \<longleftrightarrow> wf_db db"
  by (auto simp: violated_def wf_db_def)

lemma stmt_ok [db_ok]: "stmt f db = Inr (x, db') \<longleftrightarrow> f db = (x, db') \<and> wf_db db'"
  by (auto simp: stmt_def split: option.splits)
    (metis not_None_eq snd_conv violated_None)+

text \<open>
  \<open>execute\<close>: run a statement whose errors are converted with \<open>?\<close>; \<open>execute_catching\<close>: run it
  with \<open>map_err(catch_unique_violation(..))\<close>.
\<close>

type_synonym 'a dbm = "(database, 'a) db_m"

definition execute :: "(database \<Rightarrow> 'a \<times> database) \<Rightarrow> 'a dbm" where
  "execute f = exec DatabaseClientError (stmt f)"

definition execute_catching :: "string \<Rightarrow> (database \<Rightarrow> 'a \<times> database) \<Rightarrow> 'a dbm" where
  "execute_catching object_type f = exec (catch_unique_violation object_type) (stmt f)"

lemma execute_ok [db_ok]: "execute f db = (Inr x, db') \<longleftrightarrow> f db = (x, db') \<and> wf_db db'"
  by (simp add: execute_def db_ok)

lemma execute_catching_ok [db_ok]:
  "execute_catching t f db = (Inr x, db') \<longleftrightarrow> f db = (x, db') \<and> wf_db db'"
  by (simp add: execute_catching_def db_ok)

lemma execute_run [db_run]: "wf_db (snd (f db)) \<Longrightarrow> execute f db = (Inr (fst (f db)), snd (f db))"
  by (simp add: db_ok)

lemma execute_catching_run [db_run]:
  "wf_db (snd (f db)) \<Longrightarrow> execute_catching t f db = (Inr (fst (f db)), snd (f db))"
  by (simp add: db_ok)

lemma execute_fail: "violated (snd (f db)) = Some e \<Longrightarrow> execute f db = (Inl (DatabaseClientError e), db)"
  by (simp add: execute_def exec_def stmt_def)

lemma execute_catching_fail:
  "violated (snd (f db)) = Some e \<Longrightarrow>
   execute_catching t f db = (Inl (catch_unique_violation t e), db)"
  by (simp add: execute_catching_def exec_def stmt_def)

lemma keeps_wf_execute [keeps_intro]: "keeps wf_db (execute f)"
  unfolding execute_def by (rule keeps_exec) (simp add: db_ok)

lemma keeps_wf_execute_catching [keeps_intro]: "keeps wf_db (execute_catching t f)"
  unfolding execute_catching_def by (rule keeps_exec) (simp add: db_ok)

lemma keeps_execute:
  "(\<And>db. P db \<Longrightarrow> wf_db (snd (f db)) \<Longrightarrow> P (snd (f db))) \<Longrightarrow> keeps P (execute f)"
  unfolding execute_def by (rule keeps_exec) (metis snd_conv stmt_ok)

lemma keeps_execute_catching:
  "(\<And>db. P db \<Longrightarrow> wf_db (snd (f db)) \<Longrightarrow> P (snd (f db))) \<Longrightarrow> keeps P (execute_catching t f)"
  unfolding execute_catching_def by (rule keeps_exec) (metis snd_conv stmt_ok)

lemmas wf_db_unfold =
  wf_db_def ranges_ok_def checks_ok_def unique_ok_def foreign_keys_ok_def profile_refs_ok_def
  user_refs_ok_def post_refs_ok_def token_keys_ok_def misc_keys_ok_def

lemma wf_empty_database: "wf_db empty_database"
  by (simp add: wf_db_unfold empty_database_def profile_keys_ok_def user_keys_ok_def
      relationship_keys_ok_def follow_request_keys_ok_def post_keys_ok_def reaction_keys_ok_def
      emoji_keys_ok_def)

end
