(* ===== verification/Sql.thy ===== *)
theory Sql
  imports Schema "HOL-Library.Multiset" "HOL-Library.List_Lexorder" "HOL-Library.Char_ord" "HOL-Library.Product_Lexorder"
begin

text \<open>
  The parts of SQL the queries share: pattern matching with \<open>LIKE\<close> and \<open>ILIKE\<close>, ordering, \<open>LIMIT\<close>,
  keyset pagination, and the clean-up queries of \<open>fedimovies-models/src/cleanup.rs\<close>.
\<close>

section \<open>LIKE\<close>

text \<open>
  \<open>%\<close> matches any text, \<open>_\<close> any character, a backslash quotes the next pattern character.
\<close>

function sql_like :: "string \<Rightarrow> string \<Rightarrow> bool" where
  "sql_like pat [] = list_all (\<lambda>p. p = CHR ''%'') pat"
| "sql_like [] (c # cs) = False"
| "sql_like (p # ps) (c # cs) =
     (if p = CHR ''%'' then sql_like ps (c # cs) \<or> sql_like (p # ps) cs
      else if p = CHR ''_'' then sql_like ps cs
      else if p = char_of (92 :: nat) then
        (case ps of [] \<Rightarrow> False | q # qs \<Rightarrow> q = c \<and> sql_like qs cs)
      else p = c \<and> sql_like ps cs)"
  by pat_completeness auto
termination
  by (relation "measure (\<lambda>(p, s). length p + length s)") auto

definition sql_ilike :: "string \<Rightarrow> string \<Rightarrow> bool" where
  "sql_ilike pat s = sql_like (to_lowercase pat) (to_lowercase s)"

definition plain_pattern :: "string \<Rightarrow> bool" where
  "plain_pattern = list_all (\<lambda>c. c \<noteq> CHR ''%'' \<and> c \<noteq> char_of (92 :: nat))"

text \<open>A pattern without \<open>%\<close> and backslash matches at least the text it spells.\<close>

lemma sql_like_self: "plain_pattern s \<Longrightarrow> sql_like s s"
  by (induction s) (auto simp: plain_pattern_def)

lemma sql_like_self_percent: "sql_like (CHR ''%'' # ps) s \<longleftrightarrow> (\<exists>pre post. s = pre @ post \<and> sql_like ps post)"
proof (induction s)
  case Nil
  then show ?case by auto
next
  case (Cons c cs)
  have "(\<exists>pre post. c # cs = pre @ post \<and> sql_like ps post) \<longleftrightarrow>
      sql_like ps (c # cs) \<or> (\<exists>pre post. cs = pre @ post \<and> sql_like ps post)"
    by (auto simp: Cons_eq_append_conv)
  with Cons.IH show ?case by simp
qed

section \<open>ORDER BY and LIMIT\<close>

definition sort_desc :: "('r \<Rightarrow> 'k::linorder) \<Rightarrow> 'r list \<Rightarrow> 'r list" where
  "sort_desc k rs = rev (sort_key k rs)"

lemma set_sort_desc [simp]: "set (sort_desc k rs) = set rs"
  by (simp add: sort_desc_def)

lemma sorted_desc: "sorted_wrt (\<lambda>x y. k y \<le> k x) (sort_desc k rs)"
  using sorted_sort_key [of k rs] by (simp add: sort_desc_def sorted_wrt_rev sorted_map)

lemma distinct_sort_desc [simp]: "distinct (map k (sort_desc j rs)) = distinct (map k rs)"
proof -
  have "mset (map k (sort_desc j rs)) = mset (map k rs)"
    by (simp add: sort_desc_def)
  then show ?thesis by (rule mset_eq_imp_distinct_iff)
qed

text \<open>
  Keyset pagination: \<open>WHERE p AND (max IS NULL OR key < max) ORDER BY key DESC LIMIT n\<close>. A page
  is followed by the page below its last key.
\<close>

definition below :: "'k::linorder option \<Rightarrow> 'k \<Rightarrow> bool" where
  "below max_key k \<longleftrightarrow> (case max_key of None \<Rightarrow> True | Some m \<Rightarrow> k < m)"

definition page :: "('r \<Rightarrow> 'k::linorder) \<Rightarrow> ('r \<Rightarrow> bool) \<Rightarrow> 'k option \<Rightarrow> nat \<Rightarrow> 'r list \<Rightarrow> 'r list" where
  "page k p max_key limit rs =
     take limit (sort_desc k (filter (\<lambda>r. p r \<and> below max_key (k r)) rs))"

lemma page_sound: "r \<in> set (page k p m n rs) \<Longrightarrow> r \<in> set rs \<and> p r \<and> below m (k r)"
  by (auto simp: page_def dest!: in_set_takeD)

lemma page_length: "length (page k p m n rs) \<le> n"
  by (simp add: page_def)

lemma page_sorted: "sorted_wrt (\<lambda>x y. k y \<le> k x) (page k p m n rs)"
  by (simp add: page_def sorted_wrt_take sorted_desc)

text \<open>
  Completeness: a row that qualifies is on the page, or below its last row, and then the next
  page, taken at that row's key, starts from it.
\<close>

lemma page_complete:
  assumes "r \<in> set rs" and "p r" and "below m (k r)" and "r \<notin> set (page k p m n rs)" and "0 < n"
  shows "page k p m n rs \<noteq> [] \<and> k r \<le> k (last (page k p m n rs))"
proof -
  define xs where "xs = sort_desc k (filter (\<lambda>r. p r \<and> below m (k r)) rs)"
  have r: "r \<in> set xs" using assms(1-3) by (simp add: xs_def)
  have pg: "page k p m n rs = take n xs" by (simp add: page_def xs_def)
  have "set xs = set (take n xs) \<union> set (drop n xs)"
    by (metis append_take_drop_id set_append)
  with r assms(4) have d: "r \<in> set (drop n xs)" by (auto simp: pg)
  have "sorted_wrt (\<lambda>x y. k y \<le> k x) (take n xs @ drop n xs)"
    using sorted_desc [of k] by (simp add: xs_def)
  then have le: "\<forall>x \<in> set (take n xs). \<forall>y \<in> set (drop n xs). k y \<le> k x"
    unfolding sorted_wrt_append by blast
  from d have "xs \<noteq> []" by auto
  with assms(5) have "take n xs \<noteq> []" by simp
  with le d show ?thesis by (auto simp: pg)
qed

lemma page_next:
  assumes "distinct (map k rs)" and "r \<in> set rs" and "p r" and "below m (k r)"
    and "r \<notin> set (page k p m n rs)" and "0 < n"
  shows "below (Some (k (last (page k p m n rs)))) (k r)"
proof -
  from page_complete [OF assms(2-6)] have ne: "page k p m n rs \<noteq> []"
    and le: "k r \<le> k (last (page k p m n rs))" by auto
  have "last (page k p m n rs) \<in> set rs"
    using page_sound last_in_set [OF ne] by fast
  moreover have "last (page k p m n rs) \<noteq> r"
    using assms(5) last_in_set [OF ne] by auto
  ultimately have "k (last (page k p m n rs)) \<noteq> k r"
    using distinct_map_unique [OF assms(1) _ assms(2)] by auto
  with le show ?thesis by (simp add: below_def)
qed

section \<open>Clean-up queries\<close>

record deletion_queue =
  dq_files :: "string list"
  dq_ipfs_objects :: "string list"

definition image_file :: "profile_image option \<Rightarrow> string option" where
  "image_file img = map_option pi_file_name img"

definition file_in_use :: "database \<Rightarrow> string \<Rightarrow> bool" where
  "file_in_use db fname \<longleftrightarrow>
     exists_where (\<lambda>a. ma_file_name a = fname) (t_media_attachment db) \<or>
     exists_where (\<lambda>ap. image_file (ap_avatar ap) = Some fname \<or>
       image_file (ap_banner ap) = Some fname) (t_actor_profile db) \<or>
     exists_where (\<lambda>e. ei_file_name (em_image e) = fname) (t_emoji db)"

definition find_orphaned_files :: "string list \<Rightarrow> string list dbm" where
  "find_orphaned_files files =
     query (\<lambda>db. remdups (filter (\<lambda>fname. \<not> file_in_use db fname) files))"

definition ipfs_in_use :: "database \<Rightarrow> string \<Rightarrow> bool" where
  "ipfs_in_use db cid \<longleftrightarrow>
     exists_where (\<lambda>a. ma_ipfs_cid a = Some cid) (t_media_attachment db) \<or>
     exists_where (\<lambda>po. po_ipfs_cid po = Some cid) (t_post db)"

definition find_orphaned_ipfs_objects :: "string list \<Rightarrow> string list dbm" where
  "find_orphaned_ipfs_objects cids =
     query (\<lambda>db. remdups (filter (\<lambda>cid. \<not> ipfs_in_use db cid) cids))"

text \<open>What is safe to delete from disk after a database operation ended in \<open>db\<close>.\<close>

definition queue_unused :: "database \<Rightarrow> deletion_queue \<Rightarrow> bool" where
  "queue_unused db q \<longleftrightarrow>
     (\<forall>f \<in> set (dq_files q). \<not> file_in_use db f) \<and>
     (\<forall>c \<in> set (dq_ipfs_objects q). \<not> ipfs_in_use db c) \<and>
     distinct (dq_files q) \<and> distinct (dq_ipfs_objects q)"

lemma find_orphaned_files_ok [db_ok]:
  "find_orphaned_files files db = (Inr r, db') \<longleftrightarrow>
     db' = db \<and> r = remdups (filter (\<lambda>f. \<not> file_in_use db f) files)"
  by (auto simp: find_orphaned_files_def db_ok)

lemma find_orphaned_ipfs_objects_ok [db_ok]:
  "find_orphaned_ipfs_objects cids db = (Inr r, db') \<longleftrightarrow>
     db' = db \<and> r = remdups (filter (\<lambda>f. \<not> ipfs_in_use db f) cids)"
  by (auto simp: find_orphaned_ipfs_objects_def db_ok)

lemma find_orphaned_run [db_run]:
  "find_orphaned_files files db = (Inr (remdups (filter (\<lambda>f. \<not> file_in_use db f) files)), db)"
  "find_orphaned_ipfs_objects cids db = (Inr (remdups (filter (\<lambda>f. \<not> ipfs_in_use db f) cids)), db)"
  by (simp_all add: find_orphaned_files_def find_orphaned_ipfs_objects_def query_def)

lemma keeps_find_orphaned [keeps_intro]:
  "keeps P (find_orphaned_files files)" "keeps P (find_orphaned_ipfs_objects cids)"
  by (simp_all add: find_orphaned_files_def find_orphaned_ipfs_objects_def keeps_query)

lemma queue_unused_found:
  "queue_unused db
     \<lparr>dq_files = remdups (filter (\<lambda>f. \<not> file_in_use db f) files),
      dq_ipfs_objects = remdups (filter (\<lambda>c. \<not> ipfs_in_use db c) cids)\<rparr>"
  by (simp add: queue_unused_def)

section \<open>Rows by key\<close>

text \<open>\<open>UPDATE .. WHERE p RETURNING row\<close> on the profile and post tables: the updated rows.\<close>

definition update_profiles ::
    "(db_actor_profile \<Rightarrow> bool) \<Rightarrow> (db_actor_profile \<Rightarrow> db_actor_profile) \<Rightarrow>
     database \<Rightarrow> db_actor_profile list \<times> database" where
  "update_profiles p f db =
     (map f (filter p (t_actor_profile db)),
      db\<lparr>t_actor_profile := update_where p f (t_actor_profile db)\<rparr>)"

definition update_posts ::
    "(db_post \<Rightarrow> bool) \<Rightarrow> (db_post \<Rightarrow> db_post) \<Rightarrow> database \<Rightarrow> db_post list \<times> database" where
  "update_posts p f db =
     (map f (filter p (t_post db)), db\<lparr>t_post := update_where p f (t_post db)\<rparr>)"

lemma update_profiles_simps [simp]:
  "fst (update_profiles p f db) = map f (filter p (t_actor_profile db))"
  "snd (update_profiles p f db) = db\<lparr>t_actor_profile := update_where p f (t_actor_profile db)\<rparr>"
  by (simp_all add: update_profiles_def)

lemma update_posts_simps [simp]:
  "fst (update_posts p f db) = map f (filter p (t_post db))"
  "snd (update_posts p f db) = db\<lparr>t_post := update_where p f (t_post db)\<rparr>"
  by (simp_all add: update_posts_def)

definition row_count :: "'a list \<times> database \<Rightarrow> nat \<times> database" where
  "row_count r = (length (fst r), snd r)"

lemma row_count_simps [simp]: "fst (row_count r) = length (fst r)" "snd (row_count r) = snd r"
  by (simp_all add: row_count_def)

end
