(* ===== verification/Cascade.thy ===== *)
theory Cascade
  imports Sql
begin

text \<open>
  The recursive query \<open>context\<close> of \<open>delete_post\<close> and \<open>delete_profile\<close>, and \<open>ON DELETE CASCADE\<close>
  on posts and profiles. Both collect the same set: the least set of posts that holds the given
  ones and, with a post, its replies and its reposts.
\<close>

section \<open>The recursive query\<close>

definition is_child :: "uuid list \<Rightarrow> db_post \<Rightarrow> bool" where
  "is_child ids po \<longleftrightarrow>
     (case po_in_reply_to_id po of None \<Rightarrow> False | Some x \<Rightarrow> x \<in> set ids) \<or>
     (case po_repost_of_id po of None \<Rightarrow> False | Some x \<Rightarrow> x \<in> set ids)"

definition new_children :: "db_post list \<Rightarrow> uuid list \<Rightarrow> uuid list" where
  "new_children pos ids =
     remdups (filter (\<lambda>i. i \<notin> set ids) (map po_id (filter (is_child ids) pos)))"

lemma set_new_children:
  "set (new_children pos ids) = {po_id po | po. po \<in> set pos \<and> is_child ids po} - set ids"
  by (auto simp: new_children_def)

text \<open>\<open>WITH RECURSIVE context .. UNION ..\<close>: repeat until a round adds no row.\<close>

function post_context :: "db_post list \<Rightarrow> uuid list \<Rightarrow> uuid list" where
  "post_context pos ids =
     (if new_children pos ids = [] then ids
      else post_context pos (ids @ new_children pos ids))"
  by pat_completeness auto
termination
proof (relation "measure (\<lambda>(pos, ids). card (po_id ` set pos - set ids))")
  fix pos :: "db_post list" and ids
  assume ne: "new_children pos ids \<noteq> []"
  then obtain x where x: "x \<in> set (new_children pos ids)"
    by (cases "new_children pos ids") auto
  then have "x \<in> po_id ` set pos - set ids"
    by (auto simp: set_new_children)
  moreover have "x \<notin> po_id ` set pos - set (ids @ new_children pos ids)"
    using x by simp
  ultimately have "po_id ` set pos - set (ids @ new_children pos ids) \<subset> po_id ` set pos - set ids"
    by auto
  then show "((pos, ids @ new_children pos ids), (pos, ids))
      \<in> measure (\<lambda>(pos, ids). card (po_id ` set pos - set ids))"
    by (simp add: psubset_card_mono)
qed simp

declare post_context.simps [simp del]

text \<open>The specification: descendants of a set of posts.\<close>

inductive descendant :: "db_post list \<Rightarrow> uuid set \<Rightarrow> uuid \<Rightarrow> bool" for pos roots where
  root: "i \<in> roots \<Longrightarrow> descendant pos roots i"
| reply: "descendant pos roots i \<Longrightarrow> po \<in> set pos \<Longrightarrow> po_in_reply_to_id po = Some i \<Longrightarrow>
    descendant pos roots (po_id po)"
| repost: "descendant pos roots i \<Longrightarrow> po \<in> set pos \<Longrightarrow> po_repost_of_id po = Some i \<Longrightarrow>
    descendant pos roots (po_id po)"

lemma is_child_iff:
  "is_child ids po \<longleftrightarrow>
     (\<exists>x \<in> set ids. po_in_reply_to_id po = Some x \<or> po_repost_of_id po = Some x)"
  by (auto simp: is_child_def split: option.splits)

lemma post_context_mono: "set ids \<subseteq> set (post_context pos ids)"
proof (induction pos ids rule: post_context.induct)
  case (1 pos ids)
  then show ?case by (subst post_context.simps) auto
qed

lemma post_context_closed:
  "po \<in> set pos \<Longrightarrow> is_child (post_context pos ids) po \<Longrightarrow> po_id po \<in> set (post_context pos ids)"
proof (induction pos ids rule: post_context.induct)
  case (1 pos ids)
  show ?case
  proof (cases "new_children pos ids = []")
    case True
    then have "{po_id po | po. po \<in> set pos \<and> is_child ids po} - set ids = {}"
      using set_new_children [of pos ids] by simp
    with 1(2,3) True show ?thesis
      by (simp add: post_context.simps [of pos ids]) blast
  next
    case False
    with 1 show ?thesis by (simp add: post_context.simps [of pos ids])
  qed
qed

lemma post_context_descendant:
  "(\<And>i. i \<in> set ids \<Longrightarrow> descendant pos roots i) \<Longrightarrow> i \<in> set (post_context pos ids) \<Longrightarrow>
   descendant pos roots i"
proof (induction pos ids rule: post_context.induct)
  case (1 pos ids)
  show ?case
  proof (cases "new_children pos ids = []")
    case True
    with 1(2,3) show ?thesis by (simp add: post_context.simps [of pos ids])
  next
    case False
    have "descendant pos roots j" if "j \<in> set (ids @ new_children pos ids)" for j
      using that 1(2) by (auto simp: set_new_children is_child_iff intro: descendant.intros)
    with False 1(1,3) show ?thesis by (simp add: post_context.simps [of pos ids])
  qed
qed

lemma set_post_context: "set (post_context pos ids) = {i. descendant pos (set ids) i}"
proof (intro subset_antisym subsetI)
  fix i assume "i \<in> set (post_context pos ids)"
  then show "i \<in> {i. descendant pos (set ids) i}"
    using post_context_descendant [of ids pos "set ids" i] by (auto intro: descendant.root)
next
  fix i assume "i \<in> {i. descendant pos (set ids) i}"
  then have "descendant pos (set ids) i" by simp
  then show "i \<in> set (post_context pos ids)"
  proof induction
    case (root i)
    then show ?case using post_context_mono [of ids pos] by blast
  next
    case (reply i po)
    then show ?case by (intro post_context_closed) (auto simp: is_child_iff)
  next
    case (repost i po)
    then show ?case by (intro post_context_closed) (auto simp: is_child_iff)
  qed
qed

lemma descendant_least:
  assumes "descendant pos roots i" and "roots \<subseteq> D"
    and "\<And>po. po \<in> set pos \<Longrightarrow> opt_in (po_in_reply_to_id po) (- D) \<and> opt_in (po_repost_of_id po) (- D)
      \<or> po_id po \<in> D"
  shows "i \<in> D"
  using assms(1)
proof induction
  case (root i)
  with assms(2) show ?case by blast
next
  case (reply i po)
  with assms(3) [of po] show ?case by auto
next
  case (repost i po)
  with assms(3) [of po] show ?case by auto
qed

lemma descendant_cases:
  assumes "descendant pos roots i"
  obtains "i \<in> roots"
    | po j where "po \<in> set pos" and "po_id po = i" and "descendant pos roots j"
      and "po_in_reply_to_id po = Some j \<or> po_repost_of_id po = Some j"
  using assms by (cases rule: descendant.cases) auto

section \<open>Cascading deletion\<close>

definition opt_mem :: "'a option \<Rightarrow> 'a list \<Rightarrow> bool" where
  "opt_mem x xs \<longleftrightarrow> (case x of None \<Rightarrow> False | Some y \<Rightarrow> y \<in> set xs)"

lemma opt_mem_simps [simp]: "\<not> opt_mem None xs" "opt_mem (Some y) xs \<longleftrightarrow> y \<in> set xs"
  by (simp_all add: opt_mem_def)

lemma opt_in_minus: "opt_in x A \<Longrightarrow> \<not> opt_mem x D \<Longrightarrow> opt_in x (A - set D)"
  by (cases x) auto

text \<open>Deleting the posts with the given identifiers and every row that refers to them.\<close>

definition delete_posts_cascade :: "uuid list \<Rightarrow> database \<Rightarrow> database" where
  "delete_posts_cascade D db =
     db\<lparr>t_post := delete_where (\<lambda>po. po_id po \<in> set D) (t_post db),
        t_post_reaction := delete_where (\<lambda>r. pr_post_id r \<in> set D) (t_post_reaction db),
        t_media_attachment := delete_where (\<lambda>a. opt_mem (ma_post_id a) D) (t_media_attachment db),
        t_mention := delete_where (\<lambda>m. fst m \<in> set D) (t_mention db),
        t_post_tag := delete_where (\<lambda>m. fst m \<in> set D) (t_post_tag db),
        t_post_link := delete_where (\<lambda>l. fst l \<in> set D \<or> snd l \<in> set D) (t_post_link db),
        t_post_emoji := delete_where (\<lambda>m. fst m \<in> set D) (t_post_emoji db),
        t_notification := delete_where (\<lambda>n. opt_mem (nt_post_id n) D) (t_notification db)\<rparr>"

definition delete_post_row :: "uuid \<Rightarrow> database \<Rightarrow> database" where
  "delete_post_row i db = delete_posts_cascade (post_context (t_post db) [i]) db"

text \<open>Deleting an actor profile: its posts with their descendants, its account, and all else.\<close>

definition posts_by :: "uuid \<Rightarrow> database \<Rightarrow> uuid list" where
  "posts_by i db = map po_id (filter (\<lambda>po. po_author_id po = i) (t_post db))"

definition delete_user_rows :: "uuid \<Rightarrow> database \<Rightarrow> database" where
  "delete_user_rows i db =
     db\<lparr>t_user_account := delete_where (\<lambda>u. ua_id u = i) (t_user_account db),
        t_oauth_authorization := delete_where (\<lambda>z. oz_user_id z = i) (t_oauth_authorization db),
        t_oauth_token := delete_where (\<lambda>t. ot_owner_id t = i) (t_oauth_token db),
        t_notification :=
          delete_where (\<lambda>n. nt_sender_id n = i \<or> nt_recipient_id n = i) (t_notification db),
        t_timeline_marker := delete_where (\<lambda>m. tm_user_id m = i) (t_timeline_marker db),
        t_invoice := delete_where (\<lambda>v. iv_sender_id v = i \<or> iv_recipient_id v = i) (t_invoice db),
        t_subscription :=
          delete_where (\<lambda>s. sb_sender_id s = i \<or> sb_recipient_id s = i) (t_subscription db)\<rparr>"

definition delete_profile_rows :: "uuid \<Rightarrow> database \<Rightarrow> database" where
  "delete_profile_rows i db =
     db\<lparr>t_actor_profile := delete_where (\<lambda>ap. ap_id ap = i) (t_actor_profile db),
        t_relationship :=
          delete_where (\<lambda>r. rl_source_id r = i \<or> rl_target_id r = i) (t_relationship db),
        t_follow_request :=
          delete_where (\<lambda>r. fr_source_id r = i \<or> fr_target_id r = i) (t_follow_request db),
        t_post_reaction := delete_where (\<lambda>r. pr_author_id r = i) (t_post_reaction db),
        t_media_attachment := delete_where (\<lambda>a. ma_owner_id a = i) (t_media_attachment db),
        t_mention := delete_where (\<lambda>m. snd m = i) (t_mention db),
        t_profile_emoji := delete_where (\<lambda>m. fst m = i) (t_profile_emoji db)\<rparr>"

definition delete_profile_row :: "uuid \<Rightarrow> database \<Rightarrow> database" where
  "delete_profile_row i db =
     delete_profile_rows i (delete_user_rows i
       (delete_posts_cascade (post_context (t_post db) (posts_by i db)) db))"

subsection \<open>Deletion keeps the constraints\<close>

definition closed_posts :: "uuid list \<Rightarrow> database \<Rightarrow> bool" where
  "closed_posts D db \<longleftrightarrow>
     (\<forall>po \<in> set (t_post db). is_child D po \<longrightarrow> po_id po \<in> set D)"

lemma closed_post_context: "closed_posts (post_context (t_post db) ids) db"
  using post_context_closed by (auto simp: closed_posts_def)

lemma is_child_opt_mem:
  "is_child D po \<longleftrightarrow> opt_mem (po_in_reply_to_id po) D \<or> opt_mem (po_repost_of_id po) D"
  by (auto simp: is_child_iff opt_mem_def split: option.splits)

lemma keys_delete [simp]:
  "profile_keys_ok xs1 \<Longrightarrow> profile_keys_ok (delete_where p1 xs1)"
  "user_keys_ok xs2 \<Longrightarrow> user_keys_ok (delete_where p2 xs2)"
  "relationship_keys_ok xs3 \<Longrightarrow> relationship_keys_ok (delete_where p3 xs3)"
  "follow_request_keys_ok xs4 \<Longrightarrow> follow_request_keys_ok (delete_where p4 xs4)"
  "post_keys_ok xs5 \<Longrightarrow> post_keys_ok (delete_where p5 xs5)"
  "reaction_keys_ok xs6 \<Longrightarrow> reaction_keys_ok (delete_where p6 xs6)"
  "emoji_keys_ok xs7 \<Longrightarrow> emoji_keys_ok (delete_where p7 xs7)"
  by (simp_all add: profile_keys_ok_def user_keys_ok_def relationship_keys_ok_def
      follow_request_keys_ok_def post_keys_ok_def reaction_keys_ok_def emoji_keys_ok_def
      distinct_map_delete unique_by_delete)

lemma distinct_delete: "distinct xs \<Longrightarrow> distinct (delete_where p xs)"
  by (simp add: delete_where_def)

lemma image_delete_key:
  "k ` {x \<in> A. k x \<notin> D} = k ` A - D" "k ` {x \<in> A. k x \<noteq> i} = k ` A - {i}"
  by auto

lemma wf_delete_posts_cascade:
  assumes wf: "wf_db db" and closed: "closed_posts D db"
  shows "wf_db (delete_posts_cascade D db)"
proof -
  have keep: "opt_in (po_in_reply_to_id po) (post_ids db - set D) \<and>
      opt_in (po_repost_of_id po) (post_ids db - set D)"
    if "po \<in> set (t_post db)" and "po_id po \<notin> set D" for po
  proof -
    from that closed have "\<not> opt_mem (po_in_reply_to_id po) D" and "\<not> opt_mem (po_repost_of_id po) D"
      by (auto simp: closed_posts_def is_child_opt_mem)
    with that(1) wf show ?thesis
      by (auto simp: wf_db_def foreign_keys_ok_def post_refs_ok_def intro!: opt_in_minus)
  qed
  have "ranges_ok (delete_posts_cascade D db)" "checks_ok (delete_posts_cascade D db)"
    using wf by (auto simp: wf_db_def ranges_ok_def checks_ok_def delete_posts_cascade_def)
  moreover have "unique_ok (delete_posts_cascade D db)"
    using wf by (simp add: wf_db_def unique_ok_def token_keys_ok_def misc_keys_ok_def
        delete_posts_cascade_def distinct_map_delete distinct_delete)
  moreover have "profile_refs_ok (delete_posts_cascade D db)"
    "user_refs_ok (delete_posts_cascade D db)"
    using wf by (simp_all add: wf_db_def foreign_keys_ok_def profile_refs_ok_def user_refs_ok_def
        delete_posts_cascade_def)
  moreover have "post_refs_ok (delete_posts_cascade D db)"
    using wf keep
    by (auto simp: wf_db_def foreign_keys_ok_def post_refs_ok_def delete_posts_cascade_def
        image_delete_key opt_in_minus split: prod.splits)
  ultimately show ?thesis by (simp add: wf_db_def foreign_keys_ok_def)
qed

lemma wf_delete_post_row: "wf_db db \<Longrightarrow> wf_db (delete_post_row i db)"
  by (simp add: delete_post_row_def wf_delete_posts_cascade closed_post_context)

lemma wf_delete_profile_rows:
  assumes wf: "wf_db db" and "\<And>po. po \<in> set (t_post db) \<Longrightarrow> po_author_id po \<noteq> i"
  shows "wf_db (delete_profile_rows i (delete_user_rows i db))"
proof -
  let ?db = "delete_profile_rows i (delete_user_rows i db)"
  note defs = delete_profile_rows_def delete_user_rows_def
  have "ranges_ok ?db" "checks_ok ?db"
    using wf by (auto simp: wf_db_def ranges_ok_def checks_ok_def defs)
  moreover have "unique_ok ?db"
    using wf by (simp add: wf_db_def unique_ok_def token_keys_ok_def misc_keys_ok_def defs
        distinct_map_delete distinct_delete)
  moreover have "profile_refs_ok ?db"
    using wf by (auto simp: wf_db_def foreign_keys_ok_def profile_refs_ok_def defs)
  moreover have "user_refs_ok ?db"
    using wf by (auto simp: wf_db_def foreign_keys_ok_def user_refs_ok_def defs)
  moreover have "post_refs_ok ?db"
    using wf assms(2)
    by (auto simp: wf_db_def foreign_keys_ok_def post_refs_ok_def defs image_delete_key)
  ultimately show ?thesis by (simp add: wf_db_def foreign_keys_ok_def)
qed

lemma posts_of_author_deleted:
  "po \<in> set (t_post (delete_posts_cascade (post_context (t_post db) (posts_by i db)) db)) \<Longrightarrow>
   po_author_id po \<noteq> i"
  using post_context_mono [of "posts_by i db" "t_post db"]
  by (auto simp: delete_posts_cascade_def posts_by_def)

lemma wf_delete_profile_row: "wf_db db \<Longrightarrow> wf_db (delete_profile_row i db)"
  unfolding delete_profile_row_def
  by (intro wf_delete_profile_rows wf_delete_posts_cascade closed_post_context)
    (auto dest: posts_of_author_deleted)

end
