(* ===== verification/Invariants.thy ===== *)
theory Invariants
  imports Cascade
begin

text \<open>
  What the code keeps true between the tables, beyond the constraints that PostgreSQL enforces:
  the cached counters, the shape of threads, the link between local profiles and accounts, and
  the emoji cache of profiles. Each predicate takes the tables it is about, so an operation on
  other tables keeps it by simplification.
\<close>

definition followers_of :: "uuid \<Rightarrow> db_relationship_row list \<Rightarrow> int" where
  "followers_of i rs = count_where (\<lambda>r. rl_target_id r = i \<and> rl_relationship_type r = Follow) rs"

definition following_of :: "uuid \<Rightarrow> db_relationship_row list \<Rightarrow> int" where
  "following_of i rs = count_where (\<lambda>r. rl_source_id r = i \<and> rl_relationship_type r = Follow) rs"

definition subscribers_of :: "uuid \<Rightarrow> db_relationship_row list \<Rightarrow> int" where
  "subscribers_of i rs =
     count_where (\<lambda>r. rl_target_id r = i \<and> rl_relationship_type r = Subscription) rs"

definition posts_of :: "uuid \<Rightarrow> db_post list \<Rightarrow> int" where
  "posts_of i pos = count_where (\<lambda>po. po_author_id po = i) pos"

definition replies_to :: "uuid \<Rightarrow> db_post list \<Rightarrow> int" where
  "replies_to i pos = count_where (\<lambda>po. po_in_reply_to_id po = Some i) pos"

definition reposts_of :: "uuid \<Rightarrow> db_post list \<Rightarrow> int" where
  "reposts_of i pos = count_where (\<lambda>po. po_repost_of_id po = Some i) pos"

definition reactions_to :: "uuid \<Rightarrow> db_reaction list \<Rightarrow> int" where
  "reactions_to i rs = count_where (\<lambda>r. pr_post_id r = i) rs"

lemmas row_counts =
  followers_of_def following_of_def subscribers_of_def posts_of_def replies_to_def reposts_of_def
  reactions_to_def

definition relationship_counters_ok :: "db_actor_profile list \<Rightarrow> db_relationship_row list \<Rightarrow> bool" where
  "relationship_counters_ok aps rs \<longleftrightarrow>
     (\<forall>ap \<in> set aps. ap_follower_count ap = followers_of (ap_id ap) rs \<and>
        ap_following_count ap = following_of (ap_id ap) rs \<and>
        ap_subscriber_count ap = subscribers_of (ap_id ap) rs)"

definition author_counters_ok :: "db_actor_profile list \<Rightarrow> db_post list \<Rightarrow> bool" where
  "author_counters_ok aps pos \<longleftrightarrow> (\<forall>ap \<in> set aps. ap_post_count ap = posts_of (ap_id ap) pos)"

definition post_counters_ok :: "db_post list \<Rightarrow> db_reaction list \<Rightarrow> bool" where
  "post_counters_ok pos rs \<longleftrightarrow>
     (\<forall>po \<in> set pos. po_reply_count po = replies_to (po_id po) pos \<and>
        po_repost_count po = reposts_of (po_id po) pos \<and>
        po_reaction_count po = reactions_to (po_id po) rs)"

text \<open>
  Threads: a parent comes before its replies and reposts in the table (rows are appended), a
  repost is no reply, and nothing replies to a repost or reposts it; only public posts are
  reposted.
\<close>

fun parents_first :: "uuid list \<Rightarrow> db_post list \<Rightarrow> bool" where
  "parents_first seen [] = True"
| "parents_first seen (po # pos) =
     (opt_in (po_in_reply_to_id po) (set seen) \<and> opt_in (po_repost_of_id po) (set seen) \<and>
      parents_first (po_id po # seen) pos)"

definition thread_row_ok :: "db_post list \<Rightarrow> db_post \<Rightarrow> bool" where
  "thread_row_ok pos po \<longleftrightarrow>
     (po_repost_of_id po = None \<or> po_in_reply_to_id po = None) \<and>
     (\<forall>q \<in> set pos. po_in_reply_to_id po = Some (po_id q) \<longrightarrow> po_repost_of_id q = None) \<and>
     (\<forall>q \<in> set pos. po_repost_of_id po = Some (po_id q) \<longrightarrow>
        po_repost_of_id q = None \<and> po_visibility q = Public)"

definition threads_ok :: "db_post list \<Rightarrow> bool" where
  "threads_ok pos \<longleftrightarrow> parents_first [] pos \<and> (\<forall>po \<in> set pos. thread_row_ok pos po)"

definition reactions_ok :: "db_post list \<Rightarrow> db_reaction list \<Rightarrow> bool" where
  "reactions_ok pos rs \<longleftrightarrow>
     (\<forall>r \<in> set rs. \<forall>po \<in> set pos. pr_post_id r = po_id po \<longrightarrow> po_repost_of_id po = None)"

text \<open>
  Local profiles are the ones with an account, no two of them have the same name up to case, and
  no notification goes to its own sender.
\<close>

definition accounts_ok :: "uuid set \<Rightarrow> db_actor_profile list \<Rightarrow> db_user list \<Rightarrow> bool" where
  "accounts_ok A aps uas \<longleftrightarrow>
     (\<forall>ap \<in> set aps. ap_id ap \<notin> A \<longrightarrow> is_local ap = (ap_id ap \<in> ua_id ` set uas))"

definition local_names_ok :: "db_actor_profile list \<Rightarrow> bool" where
  "local_names_ok aps \<longleftrightarrow>
     distinct (map (\<lambda>ap. to_lowercase (ap_username ap)) (filter is_local aps))"

definition notifications_ok :: "db_notification list \<Rightarrow> bool" where
  "notifications_ok ns \<longleftrightarrow> (\<forall>n \<in> set ns. nt_sender_id n \<noteq> nt_recipient_id n)"

text \<open>The emojis of a profile, by the join of \<open>profile_emoji\<close> and \<open>emoji\<close>, and their cache.\<close>

definition joined_emojis :: "uuid \<Rightarrow> (uuid \<times> uuid) list \<Rightarrow> db_emoji list \<Rightarrow> db_emoji list" where
  "joined_emojis i pes es =
     concat (map (\<lambda>(p, e). if p = i then filter (\<lambda>em. em_id em = e) es else []) pes)"

definition caches_ok ::
    "uuid set \<Rightarrow> db_actor_profile list \<Rightarrow> (uuid \<times> uuid) list \<Rightarrow> db_emoji list \<Rightarrow> bool" where
  "caches_ok C aps pes es \<longleftrightarrow>
     (\<forall>ap \<in> set aps. ap_id ap \<notin> C \<longrightarrow> ap_emojis ap = joined_emojis (ap_id ap) pes es)"

definition next_id_ok :: "database \<Rightarrow> bool" where
  "next_id_ok db \<longleftrightarrow>
     (\<forall>r \<in> set (t_relationship db). rl_id r < next_id db) \<and>
     (\<forall>n \<in> set (t_notification db). nt_id n < next_id db)"

text \<open>
  Inside a transaction a new local profile has no account yet, and a profile whose emojis were
  rewritten has a stale cache: \<open>A\<close> and \<open>C\<close> are the profiles exempt from the two conditions.
\<close>

definition app_inv :: "uuid set \<Rightarrow> uuid set \<Rightarrow> database \<Rightarrow> bool" where
  "app_inv A C db \<longleftrightarrow>
     relationship_counters_ok (t_actor_profile db) (t_relationship db) \<and>
     author_counters_ok (t_actor_profile db) (t_post db) \<and>
     post_counters_ok (t_post db) (t_post_reaction db) \<and>
     threads_ok (t_post db) \<and>
     reactions_ok (t_post db) (t_post_reaction db) \<and>
     accounts_ok A (t_actor_profile db) (t_user_account db) \<and>
     local_names_ok (t_actor_profile db) \<and>
     notifications_ok (t_notification db) \<and>
     caches_ok C (t_actor_profile db) (t_profile_emoji db) (t_emoji db) \<and>
     next_id_ok db"

definition db_inv_except :: "uuid set \<Rightarrow> uuid set \<Rightarrow> database \<Rightarrow> bool" where
  "db_inv_except A C db \<longleftrightarrow> wf_db db \<and> app_inv A C db"

definition db_inv :: "database \<Rightarrow> bool" where
  "db_inv db \<longleftrightarrow> wf_db db \<and> app_inv {} {} db"

lemma db_inv_wf: "db_inv db \<Longrightarrow> wf_db db"
  by (simp add: db_inv_def)

lemma db_inv_except_empty [simp]: "db_inv_except {} {} db = db_inv db"
  by (simp add: db_inv_except_def db_inv_def)

lemma db_inv_empty: "db_inv empty_database"
  unfolding db_inv_def app_inv_def using wf_empty_database
  by (simp add: relationship_counters_ok_def author_counters_ok_def post_counters_ok_def
      threads_ok_def reactions_ok_def accounts_ok_def local_names_ok_def notifications_ok_def
      caches_ok_def next_id_ok_def empty_database_def)

text \<open>One statement keeps the invariant when it keeps the part PostgreSQL does not check.\<close>

lemma keeps_inv_execute:
  "(\<And>db. db_inv db \<Longrightarrow> wf_db (snd (f db)) \<Longrightarrow> app_inv {} {} (snd (f db))) \<Longrightarrow>
   keeps db_inv (execute f)"
  by (rule keeps_execute) (simp add: db_inv_def)

lemma keeps_inv_execute_catching:
  "(\<And>db. db_inv db \<Longrightarrow> wf_db (snd (f db)) \<Longrightarrow> app_inv {} {} (snd (f db))) \<Longrightarrow>
   keeps db_inv (execute_catching t f)"
  by (rule keeps_execute_catching) (simp add: db_inv_def)

section \<open>What a column update leaves alone\<close>

text \<open>
  An update of profile columns other than the keys and the cached values, and an update of post
  columns other than the keys, the thread and the counters.
\<close>

definition profile_frame :: "(db_actor_profile \<Rightarrow> db_actor_profile) \<Rightarrow> bool" where
  "profile_frame f \<longleftrightarrow>
     (\<forall>ap. ap_id (f ap) = ap_id ap \<and> ap_username (f ap) = ap_username ap \<and>
        ap_hostname (f ap) = ap_hostname ap \<and>
        ap_follower_count (f ap) = ap_follower_count ap \<and>
        ap_following_count (f ap) = ap_following_count ap \<and>
        ap_subscriber_count (f ap) = ap_subscriber_count ap \<and>
        ap_post_count (f ap) = ap_post_count ap)"

definition post_frame :: "(db_post \<Rightarrow> db_post) \<Rightarrow> bool" where
  "post_frame f \<longleftrightarrow>
     (\<forall>po. po_id (f po) = po_id po \<and> po_author_id (f po) = po_author_id po \<and>
        po_in_reply_to_id (f po) = po_in_reply_to_id po \<and>
        po_repost_of_id (f po) = po_repost_of_id po \<and>
        po_visibility (f po) = po_visibility po)"

lemma post_frameD:
  assumes "post_frame f"
  shows "po_id (f po) = po_id po" "po_author_id (f po) = po_author_id po"
    "po_in_reply_to_id (f po) = po_in_reply_to_id po"
    "po_repost_of_id (f po) = po_repost_of_id po" "po_visibility (f po) = po_visibility po"
  using assms by (simp_all add: post_frame_def)

lemma profile_frameD:
  assumes "profile_frame f"
  shows "ap_id (f ap) = ap_id ap" "ap_username (f ap) = ap_username ap"
    "ap_hostname (f ap) = ap_hostname ap"
    "ap_follower_count (f ap) = ap_follower_count ap"
    "ap_following_count (f ap) = ap_following_count ap"
    "ap_subscriber_count (f ap) = ap_subscriber_count ap" "ap_post_count (f ap) = ap_post_count ap"
  using assms by (simp_all add: profile_frame_def)

lemma counts_update_posts [simp]:
  assumes "post_frame f"
  shows "posts_of i (update_where p f pos) = posts_of i pos"
    "replies_to i (update_where p f pos) = replies_to i pos"
    "reposts_of i (update_where p f pos) = reposts_of i pos"
  using post_frameD [OF assms] by (simp_all add: row_counts count_where_update)

lemma parents_first_update:
  "post_frame f \<Longrightarrow> parents_first seen (update_where p f pos) = parents_first seen pos"
  by (induction pos arbitrary: seen) (auto simp: update_where_def post_frameD)

lemma thread_row_ok_update:
  assumes "post_frame f" and "thread_row_ok pos po"
  shows "thread_row_ok (update_where p f pos) (if p po then f po else po)"
  using assms by (auto simp: thread_row_ok_def ball_update_where post_frameD)

lemma threads_ok_update: "post_frame f \<Longrightarrow> threads_ok pos \<Longrightarrow> threads_ok (update_where p f pos)"
  unfolding threads_ok_def ball_update_where
  by (blast intro: thread_row_ok_update parents_first_update [THEN iffD2])

lemma reactions_ok_update:
  "post_frame f \<Longrightarrow> reactions_ok pos rs \<Longrightarrow> reactions_ok (update_where p f pos) rs"
  by (auto simp: reactions_ok_def ball_update_where post_frameD)

lemma relationship_counters_ok_update:
  "profile_frame f \<Longrightarrow> relationship_counters_ok aps rs \<Longrightarrow>
   relationship_counters_ok (update_where p f aps) rs"
  by (auto simp: relationship_counters_ok_def ball_update_where profile_frameD)

lemma author_counters_ok_update:
  "profile_frame f \<Longrightarrow> author_counters_ok aps pos \<Longrightarrow> author_counters_ok (update_where p f aps) pos"
  by (auto simp: author_counters_ok_def ball_update_where profile_frameD)

lemma accounts_ok_update:
  "(\<And>ap. p ap \<Longrightarrow> ap_id (f ap) = ap_id ap \<and> ap_actor_json (f ap) = ap_actor_json ap) \<Longrightarrow>
   accounts_ok A (update_where p f aps) uas = accounts_ok A aps uas"
  unfolding accounts_ok_def ball_update_where by (intro ball_cong refl) (auto simp: is_local_def)

lemma filter_local_update:
  "(\<And>ap. p ap \<Longrightarrow> ap_actor_json (f ap) = ap_actor_json ap) \<Longrightarrow>
   filter is_local (update_where p f aps) = update_where p f (filter is_local aps)"
  by (induction aps) (simp_all add: update_where_def is_local_def)

lemma local_names_ok_update:
  "(\<And>ap. p ap \<Longrightarrow> ap_username (f ap) = ap_username ap \<and> ap_actor_json (f ap) = ap_actor_json ap) \<Longrightarrow>
   local_names_ok (update_where p f aps) = local_names_ok aps"
  by (simp add: local_names_ok_def filter_local_update map_update_where)

lemma caches_ok_update:
  "(\<And>ap. p ap \<Longrightarrow> ap_id (f ap) = ap_id ap \<and> ap_emojis (f ap) = ap_emojis ap) \<Longrightarrow>
   caches_ok C (update_where p f aps) pes es = caches_ok C aps pes es"
  unfolding caches_ok_def ball_update_where by (intro ball_cong refl) auto

lemma post_context_cong:
  assumes "\<And>ids. new_children pos' ids = new_children pos ids"
  shows "post_context pos' ids = post_context pos ids"
proof (induction "card (po_id ` set pos - set ids)" arbitrary: ids rule: less_induct)
  case less
  show ?case
  proof (cases "new_children pos ids = []")
    case True
    then show ?thesis
      using assms by (simp add: post_context.simps [of pos'] post_context.simps [of pos])
  next
    case False
    then obtain x where x: "x \<in> set (new_children pos ids)"
      by (cases "new_children pos ids") auto
    then have "x \<in> po_id ` set pos - set ids" by (auto simp: set_new_children)
    with x have "po_id ` set pos - set (ids @ new_children pos ids) \<subset> po_id ` set pos - set ids"
      by auto
    then have "card (po_id ` set pos - set (ids @ new_children pos ids)) <
        card (po_id ` set pos - set ids)"
      by (simp add: psubset_card_mono)
    from less [OF this] False assms show ?thesis
      by (simp add: post_context.simps [of pos' ids] post_context.simps [of pos ids])
  qed
qed

lemma new_children_update:
  assumes "post_frame f"
  shows "new_children (update_where p f pos) ids = new_children pos ids"
proof -
  have "is_child ids (f po) = is_child ids po" for po
    by (simp add: is_child_def post_frameD [OF assms])
  then have "map po_id (filter (is_child ids) (update_where p f pos)) =
      map po_id (filter (is_child ids) pos)"
    by (induction pos) (auto simp: update_where_def post_frameD [OF assms])
  then show ?thesis by (simp add: new_children_def)
qed

lemma post_context_update [simp]:
  "post_frame f \<Longrightarrow> post_context (update_where p f pos) ids = post_context pos ids"
  by (rule post_context_cong) (rule new_children_update)

lemma threads_ok_delete_parents:
  "parents_first seen pos \<Longrightarrow>
   (\<And>po. po \<in> set pos \<Longrightarrow> po_id po \<notin> D \<Longrightarrow>
      opt_in (po_in_reply_to_id po) (- D) \<and> opt_in (po_repost_of_id po) (- D)) \<Longrightarrow>
   set seen - D \<subseteq> set seen' \<Longrightarrow>
   parents_first seen' (delete_where (\<lambda>po. po_id po \<in> D) pos)"
proof (induction pos arbitrary: seen seen')
  case Nil
  then show ?case by (simp add: delete_where_def)
next
  case (Cons po pos)
  show ?case
  proof (cases "po_id po \<in> D")
    case True
    have "parents_first seen' (delete_where (\<lambda>po. po_id po \<in> D) pos)"
      using Cons.prems True by (intro Cons.IH [of "po_id po # seen"]) auto
    with True show ?thesis by (simp add: delete_where_def)
  next
    case False
    have par: "opt_in (po_in_reply_to_id po) (set seen')" "opt_in (po_repost_of_id po) (set seen')"
      using Cons.prems(1,3) Cons.prems(2) [of po] False
      by (auto simp: opt_in_def split: option.splits)
    have "parents_first (po_id po # seen') (delete_where (\<lambda>po. po_id po \<in> D) pos)"
      using Cons.prems False by (intro Cons.IH [of "po_id po # seen"]) auto
    with False par show ?thesis by (simp add: delete_where_def)
  qed
qed

section \<open>Frame rules\<close>

text \<open>The tables no condition is about.\<close>

lemma app_inv_frame [simp]:
  "app_inv A C (db\<lparr>t_internal_property := x1\<rparr>) = app_inv A C db"
  "app_inv A C (db\<lparr>t_background_job := x2\<rparr>) = app_inv A C db"
  "app_inv A C (db\<lparr>t_instance := x3\<rparr>) = app_inv A C db"
  "app_inv A C (db\<lparr>t_user_invite_code := x4\<rparr>) = app_inv A C db"
  "app_inv A C (db\<lparr>t_oauth_application := x5\<rparr>) = app_inv A C db"
  "app_inv A C (db\<lparr>t_oauth_authorization := x6\<rparr>) = app_inv A C db"
  "app_inv A C (db\<lparr>t_oauth_token := x7\<rparr>) = app_inv A C db"
  "app_inv A C (db\<lparr>t_follow_request := x8\<rparr>) = app_inv A C db"
  "app_inv A C (db\<lparr>t_media_attachment := x9\<rparr>) = app_inv A C db"
  "app_inv A C (db\<lparr>t_mention := x10\<rparr>) = app_inv A C db"
  "app_inv A C (db\<lparr>t_tag := x11\<rparr>) = app_inv A C db"
  "app_inv A C (db\<lparr>t_post_tag := x12\<rparr>) = app_inv A C db"
  "app_inv A C (db\<lparr>t_post_link := x13\<rparr>) = app_inv A C db"
  "app_inv A C (db\<lparr>t_post_emoji := x14\<rparr>) = app_inv A C db"
  "app_inv A C (db\<lparr>t_timeline_marker := x15\<rparr>) = app_inv A C db"
  "app_inv A C (db\<lparr>t_invoice := x16\<rparr>) = app_inv A C db"
  "app_inv A C (db\<lparr>t_subscription := x17\<rparr>) = app_inv A C db"
  by (simp_all add: app_inv_def next_id_ok_def)

lemma app_inv_next_id: "next_id db \<le> n \<Longrightarrow> app_inv A C db \<Longrightarrow> app_inv A C (db\<lparr>next_id := n\<rparr>)"
  by (force simp: app_inv_def next_id_ok_def)

text \<open>Updates that keep the keys keep the constraints, when the new values are in range.\<close>

definition profile_counts_in_range :: "db_actor_profile \<Rightarrow> bool" where
  "profile_counts_in_range ap \<longleftrightarrow>
     i32_in_range (ap_follower_count ap) \<and> i32_in_range (ap_following_count ap) \<and>
     i32_in_range (ap_subscriber_count ap) \<and> i32_in_range (ap_post_count ap)"

definition post_counts_in_range :: "db_post \<Rightarrow> bool" where
  "post_counts_in_range po \<longleftrightarrow>
     i32_in_range (po_reply_count po) \<and> i32_in_range (po_reaction_count po) \<and>
     i32_in_range (po_repost_count po)"

lemma wf_profile_row:
  "wf_db db \<Longrightarrow> ap \<in> set (t_actor_profile db) \<Longrightarrow> profile_check ap \<and> profile_counts_in_range ap"
  by (simp add: wf_db_def checks_ok_def ranges_ok_def profile_counts_in_range_def)

lemma wf_post_row:
  "wf_db db \<Longrightarrow> po \<in> set (t_post db) \<Longrightarrow> post_check po \<and> post_counts_in_range po"
  by (simp add: wf_db_def checks_ok_def ranges_ok_def post_counts_in_range_def)

lemma wf_update_profiles:
  assumes wf: "wf_db db"
    and keys: "\<And>ap. p ap \<Longrightarrow> ap_id (f ap) = ap_id ap \<and> ap_username (f ap) = ap_username ap \<and>
      ap_hostname (f ap) = ap_hostname ap \<and> ap_actor_json (f ap) = ap_actor_json ap"
    and row: "\<And>ap. ap \<in> set (t_actor_profile db) \<Longrightarrow> p ap \<Longrightarrow>
      profile_check (f ap) \<and> profile_counts_in_range (f ap)"
  shows "wf_db (db\<lparr>t_actor_profile := update_where p f (t_actor_profile db)\<rparr>)"
proof -
  let ?db = "db\<lparr>t_actor_profile := update_where p f (t_actor_profile db)\<rparr>"
  have acct: "p ap \<Longrightarrow> ap_acct (f ap) = ap_acct ap" and actor: "p ap \<Longrightarrow> ap_actor_id (f ap) = ap_actor_id ap" for ap
    using keys [of ap] by (simp_all add: ap_acct_def ap_actor_id_def split: option.split)
  have ids: "ap_id ` set (update_where p f (t_actor_profile db)) = profile_ids db"
    using keys by (intro image_update_where) simp
  have "ranges_ok ?db" "checks_ok ?db"
    using wf row by (simp_all add: wf_db_def ranges_ok_def checks_ok_def ball_update_where
        profile_counts_in_range_def)
  moreover have "unique_ok ?db"
    using wf keys acct actor
    by (simp add: wf_db_def unique_ok_def profile_keys_ok_def token_keys_ok_def misc_keys_ok_def
        map_update_where unique_by_update)
  moreover have "foreign_keys_ok ?db"
    using wf keys by (simp add: wf_db_def foreign_keys_ok_def profile_refs_ok_def user_refs_ok_def
        post_refs_ok_def ids ball_update_where)
  ultimately show ?thesis by (simp add: wf_db_def)
qed

lemma wf_update_posts:
  assumes wf: "wf_db db"
    and keys: "\<And>po. p po \<Longrightarrow> po_id (f po) = po_id po \<and> po_author_id (f po) = po_author_id po \<and>
      po_in_reply_to_id (f po) = po_in_reply_to_id po \<and> po_repost_of_id (f po) = po_repost_of_id po \<and>
      po_object_id (f po) = po_object_id po"
    and row: "\<And>po. po \<in> set (t_post db) \<Longrightarrow> p po \<Longrightarrow> post_check (f po) \<and> post_counts_in_range (f po)"
  shows "wf_db (db\<lparr>t_post := update_where p f (t_post db)\<rparr>)"
proof -
  let ?db = "db\<lparr>t_post := update_where p f (t_post db)\<rparr>"
  have rk: "p po \<Longrightarrow> repost_key (f po) = repost_key po" for po
    using keys by (simp add: repost_key_def)
  have ids: "po_id ` set (update_where p f (t_post db)) = post_ids db"
    using keys by (intro image_update_where) simp
  have "ranges_ok ?db" "checks_ok ?db"
    using wf row by (simp_all add: wf_db_def ranges_ok_def checks_ok_def ball_update_where
        post_counts_in_range_def)
  moreover have "unique_ok ?db"
    using wf keys rk
    by (simp add: wf_db_def unique_ok_def post_keys_ok_def token_keys_ok_def misc_keys_ok_def
        map_update_where unique_by_update)
  moreover have "foreign_keys_ok ?db"
    using wf keys by (simp add: wf_db_def foreign_keys_ok_def profile_refs_ok_def user_refs_ok_def
        post_refs_ok_def ids ball_update_where)
  ultimately show ?thesis by (simp add: wf_db_def)
qed

end
