(* ===== verification/Profiles.thy ===== *)
theory Profiles
  imports Invariants
begin

text \<open>
  Instances, emojis and actor profiles: the query functions of
  \<open>fedimovies-models/src/instances/queries.rs\<close>, \<open>emojis/queries.rs\<close>, \<open>emojis/helpers.rs\<close>,
  \<open>profiles/queries.rs\<close> and \<open>profiles/helpers.rs\<close>. New identifiers (\<open>generate_ulid\<close>) and the
  current time are arguments. The order of rows that SQL leaves open is the order of the table.
\<close>

section \<open>Instances\<close>

definition create_instance :: "string \<Rightarrow> unit dbm" where
  "create_instance hostname =
     execute (\<lambda>db. ((),
       if hostname \<in> set (t_instance db) then db
       else db\<lparr>t_instance := t_instance db @ [hostname]\<rparr>))"

definition get_peers :: "string list dbm" where
  "get_peers = query t_instance"

definition get_peer_count :: "int dbm" where
  "get_peer_count = query (\<lambda>db. int (length (t_instance db)))"

section \<open>Emoji caches of profiles\<close>

definition create_profile_emojis :: "uuid \<Rightarrow> uuid list \<Rightarrow> db_emoji list dbm" where
  "create_profile_emojis profile_id emojis =
     bind (execute (\<lambda>db.
       let rows = filter (\<lambda>e. em_id e \<in> set emojis) (t_emoji db)
       in (rows, db\<lparr>t_profile_emoji :=
             t_profile_emoji db @ map (\<lambda>e. (profile_id, em_id e)) rows\<rparr>))) (\<lambda>emojis_rows.
     if length emojis_rows \<noteq> length emojis then throw (NotFound ''emoji'')
     else ret emojis_rows)"

definition update_emoji_cache :: "uuid \<Rightarrow> db_actor_profile dbm" where
  "update_emoji_cache profile_id =
     bind (execute (\<lambda>db. update_profiles (\<lambda>ap. ap_id ap = profile_id)
       (\<lambda>ap. ap\<lparr>ap_emojis := joined_emojis (ap_id ap) (t_profile_emoji db) (t_emoji db)\<rparr>) db))
     (\<lambda>rows. bind (opt_row rows) (\<lambda>maybe_row. ok_or maybe_row (NotFound ''profile'')))"

text \<open>
  The second cache query joins each profile with the elements of its cache that have the given
  identifier, so the aggregated list is repeated once per such element.
\<close>

definition cached_copies :: "uuid \<Rightarrow> db_actor_profile \<Rightarrow> nat" where
  "cached_copies emoji_id ap = length (filter (\<lambda>e. em_id e = emoji_id) (ap_emojis ap))"

definition update_emoji_caches :: "uuid \<Rightarrow> unit dbm" where
  "update_emoji_caches emoji_id =
     execute (\<lambda>db. ((), snd (update_profiles (\<lambda>ap. 0 < cached_copies emoji_id ap)
       (\<lambda>ap. ap\<lparr>ap_emojis := concat (replicate (cached_copies emoji_id ap)
          (joined_emojis (ap_id ap) (t_profile_emoji db) (t_emoji db)))\<rparr>) db)))"

section \<open>Emojis\<close>

definition create_emoji ::
    "uuid \<Rightarrow> string \<Rightarrow> string option \<Rightarrow> emoji_image \<Rightarrow> string option \<Rightarrow> datetime \<Rightarrow> db_emoji dbm" where
  "create_emoji emoji_id emoji_name hostname img object_id updated_at =
     andthen (case hostname of Some h \<Rightarrow> create_instance h | None \<Rightarrow> ret ())
     (let row = \<lparr>em_id = emoji_id, em_emoji_name = emoji_name, em_hostname = hostname,
        em_image = img, em_object_id = object_id, em_updated_at = updated_at\<rparr>
      in execute_catching ''emoji'' (\<lambda>db. (row, db\<lparr>t_emoji := t_emoji db @ [row]\<rparr>)))"

definition update_emoji :: "uuid \<Rightarrow> emoji_image \<Rightarrow> datetime \<Rightarrow> db_emoji dbm" where
  "update_emoji emoji_id img updated_at =
     bind (execute (\<lambda>db.
       let f = (\<lambda>e. e\<lparr>em_image := img, em_updated_at := updated_at\<rparr>); p = (\<lambda>e. em_id e = emoji_id)
       in (map f (filter p (t_emoji db)), db\<lparr>t_emoji := update_where p f (t_emoji db)\<rparr>)))
     (\<lambda>rows. bind (one_row rows) (\<lambda>emoji.
     andthen (update_emoji_caches (em_id emoji)) (ret emoji)))"

definition get_local_emoji_by_name :: "string \<Rightarrow> db_emoji dbm" where
  "get_local_emoji_by_name emoji_name =
     bind (query_opt (\<lambda>db. filter (\<lambda>e. em_hostname e = None \<and> em_emoji_name e = emoji_name) (t_emoji db)))
     (\<lambda>maybe_row. ok_or maybe_row (NotFound ''emoji''))"

definition get_local_emojis_by_names :: "string list \<Rightarrow> db_emoji list dbm" where
  "get_local_emojis_by_names names =
     query (\<lambda>db. filter (\<lambda>e. em_hostname e = None \<and> em_emoji_name e \<in> set names) (t_emoji db))"

definition get_local_emojis :: "db_emoji list dbm" where
  "get_local_emojis = query (\<lambda>db. filter (\<lambda>e. em_hostname e = None) (t_emoji db))"

definition get_emoji_by_name_and_hostname :: "string \<Rightarrow> string \<Rightarrow> db_emoji dbm" where
  "get_emoji_by_name_and_hostname emoji_name hostname =
     bind (query_opt (\<lambda>db.
       filter (\<lambda>e. em_emoji_name e = emoji_name \<and> em_hostname e = Some hostname) (t_emoji db)))
     (\<lambda>maybe_row. ok_or maybe_row (NotFound ''emoji''))"

definition get_emoji_by_remote_object_id :: "string \<Rightarrow> db_emoji dbm" where
  "get_emoji_by_remote_object_id object_id =
     bind (query_opt (\<lambda>db. filter (\<lambda>e. em_object_id e = Some object_id) (t_emoji db)))
     (\<lambda>maybe_row. ok_or maybe_row (NotFound ''emoji''))"

definition get_emoji_by_name :: "string \<Rightarrow> string option \<Rightarrow> db_emoji dbm" where
  "get_emoji_by_name emoji_name maybe_hostname =
     (case maybe_hostname of
        Some hostname \<Rightarrow> get_emoji_by_name_and_hostname emoji_name hostname
      | None \<Rightarrow> get_local_emoji_by_name emoji_name)"

definition delete_emoji_row :: "uuid \<Rightarrow> database \<Rightarrow> database" where
  "delete_emoji_row i db =
     db\<lparr>t_emoji := delete_where (\<lambda>e. em_id e = i) (t_emoji db),
        t_post_emoji := delete_where (\<lambda>m. snd m = i) (t_post_emoji db),
        t_profile_emoji := delete_where (\<lambda>m. snd m = i) (t_profile_emoji db)\<rparr>"

definition delete_emoji :: "uuid \<Rightarrow> deletion_queue dbm" where
  "delete_emoji emoji_id =
     bind (execute (\<lambda>db. (filter (\<lambda>e. em_id e = emoji_id) (t_emoji db), delete_emoji_row emoji_id db)))
     (\<lambda>rows. bind (opt_row rows) (\<lambda>maybe_row.
     bind (ok_or maybe_row (NotFound ''emoji'')) (\<lambda>emoji.
     andthen (update_emoji_caches (em_id emoji))
     (bind (find_orphaned_files [ei_file_name (em_image emoji)]) (\<lambda>orphaned_files.
     ret \<lparr>dq_files = orphaned_files, dq_ipfs_objects = []\<rparr>)))))"

definition find_unused_remote_emojis :: "uuid list dbm" where
  "find_unused_remote_emojis =
     query (\<lambda>db. map em_id (filter (\<lambda>e.
        em_object_id e \<noteq> None \<and>
        \<not> exists_where (\<lambda>m. snd m = em_id e) (t_post_emoji db) \<and>
        \<not> exists_where (\<lambda>m. snd m = em_id e) (t_profile_emoji db)) (t_emoji db)))"

section \<open>Profiles\<close>

definition new_profile_row :: "uuid \<Rightarrow> datetime \<Rightarrow> profile_create_data \<Rightarrow> db_actor_profile" where
  "new_profile_row profile_id now d =
     \<lparr>ap_id = profile_id, ap_username = pc_username d, ap_hostname = pc_hostname d,
      ap_display_name = pc_display_name d, ap_bio = pc_bio d, ap_bio_source = pc_bio d,
      ap_avatar = pc_avatar d, ap_banner = pc_banner d,
      ap_manually_approves_followers = pc_manually_approves_followers d,
      ap_identity_proofs = pc_identity_proofs d, ap_payment_options = pc_payment_options d,
      ap_extra_fields = pc_extra_fields d, ap_aliases = aliases_new (pc_aliases d),
      ap_follower_count = 0, ap_following_count = 0, ap_subscriber_count = 0, ap_post_count = 0,
      ap_emojis = [], ap_actor_json = pc_actor_json d, ap_created_at = now, ap_updated_at = now,
      ap_unreachable_since = None\<rparr>"

definition create_profile :: "uuid \<Rightarrow> datetime \<Rightarrow> profile_create_data \<Rightarrow> db_actor_profile dbm" where
  "create_profile profile_id now d = transaction (
     andthen (case pc_hostname d of Some hostname \<Rightarrow> create_instance hostname | None \<Rightarrow> ret ())
     (andthen (execute_catching ''profile'' (\<lambda>db. ((),
        db\<lparr>t_actor_profile := t_actor_profile db @ [new_profile_row profile_id now d]\<rparr>)))
     (andthen (bind (create_profile_emojis profile_id (pc_emojis d)) (\<lambda>_. ret ()))
     (update_emoji_cache profile_id))))"

definition updated_profile_row ::
    "datetime \<Rightarrow> profile_update_data \<Rightarrow> db_actor_profile \<Rightarrow> db_actor_profile" where
  "updated_profile_row now d ap =
     ap\<lparr>ap_display_name := pu_display_name d, ap_bio := pu_bio d, ap_bio_source := pu_bio_source d,
        ap_avatar := pu_avatar d, ap_banner := pu_banner d,
        ap_manually_approves_followers := pu_manually_approves_followers d,
        ap_identity_proofs := pu_identity_proofs d, ap_payment_options := pu_payment_options d,
        ap_extra_fields := pu_extra_fields d, ap_aliases := aliases_new (pu_aliases d),
        ap_actor_json := pu_actor_json d, ap_updated_at := now\<rparr>"

definition update_profile :: "datetime \<Rightarrow> uuid \<Rightarrow> profile_update_data \<Rightarrow> db_actor_profile dbm" where
  "update_profile now profile_id d = transaction (
     andthen (execute (\<lambda>db. ((), snd (update_profiles (\<lambda>ap. ap_id ap = profile_id)
       (updated_profile_row now d) db))))
     (andthen (execute (\<lambda>db. ((), db\<lparr>t_profile_emoji :=
        delete_where (\<lambda>m. fst m = profile_id) (t_profile_emoji db)\<rparr>)))
     (andthen (bind (create_profile_emojis profile_id (pu_emojis d)) (\<lambda>_. ret ()))
     (update_emoji_cache profile_id))))"

definition get_profile_by_id :: "uuid \<Rightarrow> db_actor_profile dbm" where
  "get_profile_by_id profile_id =
     bind (query_opt (\<lambda>db. filter (\<lambda>ap. ap_id ap = profile_id) (t_actor_profile db)))
     (\<lambda>maybe_row. ok_or maybe_row (NotFound ''profile''))"

definition get_profile_by_remote_actor_id :: "string \<Rightarrow> db_actor_profile dbm" where
  "get_profile_by_remote_actor_id actor_id =
     bind (query_opt (\<lambda>db. filter (\<lambda>ap. ap_actor_id ap = Some actor_id) (t_actor_profile db)))
     (\<lambda>maybe_row. bind (ok_or maybe_row (NotFound ''profile'')) (\<lambda>profile.
     case check_remote profile of Inl e \<Rightarrow> throw e | Inr _ \<Rightarrow> ret profile))"

definition get_profile_by_acct :: "string \<Rightarrow> db_actor_profile dbm" where
  "get_profile_by_acct acct =
     bind (query_opt (\<lambda>db. filter (\<lambda>ap. ap_acct ap = acct) (t_actor_profile db)))
     (\<lambda>maybe_row. ok_or maybe_row (NotFound ''profile''))"

definition get_profiles :: "bool \<Rightarrow> nat \<Rightarrow> nat \<Rightarrow> db_actor_profile list dbm" where
  "get_profiles only_local offset limit =
     query (\<lambda>db. take limit (drop offset (sort_key ap_username
       (filter (\<lambda>ap. only_local \<longrightarrow> ap_actor_id ap = None) (t_actor_profile db)))))"

definition get_profiles_by_accts :: "string list \<Rightarrow> db_actor_profile list dbm" where
  "get_profiles_by_accts accts =
     query (\<lambda>db. filter (\<lambda>ap. ap_acct ap \<in> set accts) (t_actor_profile db))"

subsection \<open>Counters\<close>

definition change_profile ::
    "uuid \<Rightarrow> (db_actor_profile \<Rightarrow> db_actor_profile) \<Rightarrow> db_actor_profile dbm" where
  "change_profile profile_id f =
     bind (execute (update_profiles (\<lambda>ap. ap_id ap = profile_id) f))
     (\<lambda>rows. bind (opt_row rows) (\<lambda>maybe_row. ok_or maybe_row (NotFound ''profile'')))"

definition update_follower_count :: "uuid \<Rightarrow> i32 \<Rightarrow> db_actor_profile dbm" where
  "update_follower_count profile_id change =
     change_profile profile_id (\<lambda>ap. ap\<lparr>ap_follower_count := ap_follower_count ap + change\<rparr>)"

definition update_following_count :: "uuid \<Rightarrow> i32 \<Rightarrow> db_actor_profile dbm" where
  "update_following_count profile_id change =
     change_profile profile_id (\<lambda>ap. ap\<lparr>ap_following_count := ap_following_count ap + change\<rparr>)"

definition update_subscriber_count :: "uuid \<Rightarrow> i32 \<Rightarrow> db_actor_profile dbm" where
  "update_subscriber_count profile_id change =
     change_profile profile_id (\<lambda>ap. ap\<lparr>ap_subscriber_count := ap_subscriber_count ap + change\<rparr>)"

definition update_post_count :: "uuid \<Rightarrow> i32 \<Rightarrow> db_actor_profile dbm" where
  "update_post_count profile_id change =
     change_profile profile_id (\<lambda>ap. ap\<lparr>ap_post_count := ap_post_count ap + change\<rparr>)"

subsection \<open>Reachability and retention\<close>

definition set_reachability_status :: "datetime \<Rightarrow> string \<Rightarrow> bool \<Rightarrow> unit dbm" where
  "set_reachability_status now actor_id is_reachable =
     (if \<not> is_reachable
      then execute (\<lambda>db. ((), snd (update_profiles
             (\<lambda>ap. ap_actor_id ap = Some actor_id \<and> ap_unreachable_since ap = None)
             (\<lambda>ap. ap\<lparr>ap_unreachable_since := Some now\<rparr>) db)))
      else execute (\<lambda>db. ((), snd (update_profiles (\<lambda>ap. ap_actor_id ap = Some actor_id)
             (\<lambda>ap. ap\<lparr>ap_unreachable_since := None\<rparr>) db))))"

definition before :: "datetime option \<Rightarrow> datetime \<Rightarrow> bool" where
  "before t limit \<longleftrightarrow> (case t of None \<Rightarrow> False | Some x \<Rightarrow> x < limit)"

text \<open>\<open>ORDER BY hostname, username\<close>: rows without a host name come last.\<close>

definition host_order :: "db_actor_profile \<Rightarrow> bool \<times> string \<times> string" where
  "host_order ap = (ap_hostname ap = None,
     (case ap_hostname ap of None \<Rightarrow> [] | Some h \<Rightarrow> h), ap_username ap)"

definition find_unreachable :: "datetime \<Rightarrow> db_actor_profile list dbm" where
  "find_unreachable unreachable_since =
     query (\<lambda>db. sort_key host_order
       (filter (\<lambda>ap. before (ap_unreachable_since ap) unreachable_since) (t_actor_profile db)))"

definition is_empty_profile :: "database \<Rightarrow> datetime \<Rightarrow> db_actor_profile \<Rightarrow> bool" where
  "is_empty_profile db updated_before ap \<longleftrightarrow>
     ap_hostname ap \<noteq> None \<and>
     ap_updated_at ap < updated_before \<and>
     \<not> exists_where (\<lambda>r. rl_source_id r = ap_id ap \<or> rl_target_id r = ap_id ap) (t_relationship db) \<and>
     \<not> exists_where (\<lambda>r. fr_source_id r = ap_id ap \<or> fr_target_id r = ap_id ap) (t_follow_request db) \<and>
     \<not> exists_where (\<lambda>po. po_author_id po = ap_id ap) (t_post db) \<and>
     \<not> exists_where (\<lambda>r. pr_author_id r = ap_id ap) (t_post_reaction db) \<and>
     \<not> exists_where (\<lambda>a. ma_owner_id a = ap_id ap) (t_media_attachment db) \<and>
     \<not> exists_where (\<lambda>m. snd m = ap_id ap) (t_mention db) \<and>
     \<not> exists_where (\<lambda>n. nt_sender_id n = ap_id ap) (t_notification db) \<and>
     \<not> exists_where (\<lambda>i. iv_sender_id i = ap_id ap) (t_invoice db) \<and>
     \<not> exists_where (\<lambda>s. sb_sender_id s = ap_id ap) (t_subscription db)"

definition find_empty_profiles :: "datetime \<Rightarrow> uuid list dbm" where
  "find_empty_profiles updated_before =
     query (\<lambda>db. map ap_id (filter (is_empty_profile db updated_before) (t_actor_profile db)))"

subsection \<open>Search\<close>

definition search_profiles :: "string \<Rightarrow> string option \<Rightarrow> nat \<Rightarrow> db_actor_profile list dbm" where
  "search_profiles username maybe_hostname limit =
     (let db_search_query = (case maybe_hostname of
            Some hostname \<Rightarrow> username @ ''@'' @ hostname
          | None \<Rightarrow> ''%'' @ username @ ''%'')
      in query (\<lambda>db. take limit
           (filter (\<lambda>ap. sql_ilike db_search_query (ap_acct ap)) (t_actor_profile db))))"

text \<open>The stored proofs hold the printed issuer; \<open>enc\<close> prints the keys of \<open>did:key\<close>.\<close>

definition has_proof_by :: "(8 word list \<Rightarrow> string) \<Rightarrow> did \<Rightarrow> db_actor_profile \<Rightarrow> bool" where
  "has_proof_by enc d ap \<longleftrightarrow>
     list_ex (\<lambda>proof. did_to_string enc (ip_issuer proof) = did_to_string enc d) (ap_identity_proofs ap)"

definition search_profiles_by_did_only ::
    "(8 word list \<Rightarrow> string) \<Rightarrow> did \<Rightarrow> db_actor_profile list dbm" where
  "search_profiles_by_did_only enc d = query (\<lambda>db. filter (has_proof_by enc d) (t_actor_profile db))"

definition has_wallet_field :: "currency \<Rightarrow> string \<Rightarrow> db_actor_profile \<Rightarrow> bool" where
  "has_wallet_field c address ap \<longleftrightarrow>
     list_ex (\<lambda>field. sql_ilike (currency_field_name c) (ef_name field) \<and>
       (case c of
          Ethereum \<Rightarrow> sql_ilike address (ef_value field)
        | Monero \<Rightarrow> sql_like address (ef_value field))) (ap_extra_fields ap)"

definition did_currency_address :: "did \<Rightarrow> (currency \<times> string) option" where
  "did_currency_address d =
     (case d of
        Did_Pkh p \<Rightarrow> map_option (\<lambda>c. (c, dp_address p)) (did_pkh_currency p)
      | _ \<Rightarrow> None)"

definition search_profiles_by_did ::
    "(8 word list \<Rightarrow> string) \<Rightarrow> did \<Rightarrow> bool \<Rightarrow> db_actor_profile list dbm" where
  "search_profiles_by_did enc d prefer_verified =
     bind (search_profiles_by_did_only enc d) (\<lambda>verified.
     bind (case did_currency_address d of
             Some (c, address) \<Rightarrow>
               query (\<lambda>db. filter (\<lambda>profile. \<not> list_ex (\<lambda>item. ap_id item = ap_id profile) verified)
                 (filter (has_wallet_field c address) (t_actor_profile db)))
           | None \<Rightarrow> ret []) (\<lambda>unverified.
     ret (if prefer_verified \<and> verified \<noteq> [] then verified else verified @ unverified)))"

text \<open>\<open>None\<close> is the panic of \<open>DidPkh::from_address\<close> on a Monero address.\<close>

definition search_profiles_by_wallet_address ::
    "(8 word list \<Rightarrow> string) \<Rightarrow> currency \<Rightarrow> string \<Rightarrow> bool \<Rightarrow> db_actor_profile list dbm option" where
  "search_profiles_by_wallet_address enc c wallet_address prefer_verified =
     map_option (\<lambda>did_pkh. search_profiles_by_did enc (Did_Pkh did_pkh) prefer_verified)
       (did_pkh_from_address c wallet_address)"

subsection \<open>Aliases\<close>

primrec find_aliases_by_ids :: "string list \<Rightarrow> db_actor_profile list dbm" where
  "find_aliases_by_ids [] = ret []"
| "find_aliases_by_ids (actor_id # ids) = (\<lambda>db.
     case get_profile_by_remote_actor_id actor_id db of
       (Inr profile, db') \<Rightarrow> bind (find_aliases_by_ids ids) (\<lambda>rest. ret (profile # rest)) db'
     | (Inl (NotFound _), db') \<Rightarrow> find_aliases_by_ids ids db'
     | (Inl other_error, db') \<Rightarrow> (Inl other_error, db'))"

definition find_declared_aliases :: "db_actor_profile \<Rightarrow> db_actor_profile list dbm" where
  "find_declared_aliases profile = find_aliases_by_ids (into_actor_ids (ap_aliases profile))"

definition find_verified_aliases ::
    "(8 word list \<Rightarrow> string) \<Rightarrow> db_actor_profile \<Rightarrow> db_actor_profile list dbm" where
  "find_verified_aliases enc profile =
     bind (collect (ap_identity_proofs profile) (\<lambda>identity_proof.
       bind (search_profiles_by_did_only enc (ip_issuer identity_proof)) (\<lambda>aliases.
       ret (filter (\<lambda>a. ap_id a \<noteq> ap_id profile) aliases))))
     (\<lambda>results. ret (concat results))"

subsection \<open>Deletion\<close>

definition opt_list :: "'a option \<Rightarrow> 'a list" where
  "opt_list x = (case x of None \<Rightarrow> [] | Some y \<Rightarrow> [y])"

definition attachment_files :: "uuid list \<Rightarrow> database \<Rightarrow> string list" where
  "attachment_files posts db =
     map ma_file_name (filter (\<lambda>a. opt_mem (ma_post_id a) posts) (t_media_attachment db))"

definition profile_files :: "uuid \<Rightarrow> uuid list \<Rightarrow> database \<Rightarrow> string list" where
  "profile_files profile_id posts db =
     concat (map (\<lambda>ap. opt_list (image_file (ap_avatar ap)) @ opt_list (image_file (ap_banner ap)))
       (filter (\<lambda>ap. ap_id ap = profile_id) (t_actor_profile db))) @
     attachment_files posts db"

definition ipfs_objects_of :: "uuid list \<Rightarrow> database \<Rightarrow> string list" where
  "ipfs_objects_of posts db =
     concat (map (\<lambda>a. opt_list (ma_ipfs_cid a))
       (filter (\<lambda>a. opt_mem (ma_post_id a) posts) (t_media_attachment db))) @
     concat (map (\<lambda>po. opt_list (po_ipfs_cid po))
       (filter (\<lambda>po. po_id po \<in> set posts) (t_post db)))"

text \<open>The counter updates of a deletion, one \<open>UPDATE .. FROM\<close> each.\<close>

definition subtract_post_counts :: "uuid list \<Rightarrow> database \<Rightarrow> unit \<times> database" where
  "subtract_post_counts posts db = ((),
     snd (update_profiles
       (\<lambda>ap. exists_where (\<lambda>po. po_id po \<in> set posts \<and> po_author_id po = ap_id ap) (t_post db))
       (\<lambda>ap. ap\<lparr>ap_post_count := ap_post_count ap -
          count_where (\<lambda>po. po_id po \<in> set posts \<and> po_author_id po = ap_id ap) (t_post db)\<rparr>) db))"

definition subtract_follower_counts :: "uuid \<Rightarrow> database \<Rightarrow> unit \<times> database" where
  "subtract_follower_counts profile_id db = ((),
     snd (update_profiles
       (\<lambda>ap. exists_where (\<lambda>r. rl_source_id r = profile_id \<and> rl_target_id r = ap_id ap \<and>
          rl_relationship_type r = Follow) (t_relationship db))
       (\<lambda>ap. ap\<lparr>ap_follower_count := ap_follower_count ap - 1\<rparr>) db))"

definition subtract_following_counts :: "uuid \<Rightarrow> database \<Rightarrow> unit \<times> database" where
  "subtract_following_counts profile_id db = ((),
     snd (update_profiles
       (\<lambda>ap. exists_where (\<lambda>r. rl_source_id r = ap_id ap \<and> rl_target_id r = profile_id \<and>
          rl_relationship_type r = Follow) (t_relationship db))
       (\<lambda>ap. ap\<lparr>ap_following_count := ap_following_count ap - 1\<rparr>) db))"

definition subtract_subscriber_counts :: "uuid \<Rightarrow> database \<Rightarrow> unit \<times> database" where
  "subtract_subscriber_counts profile_id db = ((),
     snd (update_profiles
       (\<lambda>ap. exists_where (\<lambda>r. rl_source_id r = profile_id \<and> rl_target_id r = ap_id ap \<and>
          rl_relationship_type r = Subscription) (t_relationship db))
       (\<lambda>ap. ap\<lparr>ap_subscriber_count := ap_subscriber_count ap - 1\<rparr>) db))"

definition subtract_reply_counts :: "uuid \<Rightarrow> database \<Rightarrow> unit \<times> database" where
  "subtract_reply_counts profile_id db = ((),
     snd (update_posts
       (\<lambda>po. exists_where (\<lambda>q. po_author_id q = profile_id \<and> po_in_reply_to_id q = Some (po_id po)) (t_post db))
       (\<lambda>po. po\<lparr>po_reply_count := po_reply_count po -
          count_where (\<lambda>q. po_author_id q = profile_id \<and> po_in_reply_to_id q = Some (po_id po))
            (t_post db)\<rparr>) db))"

definition subtract_reaction_counts :: "uuid \<Rightarrow> database \<Rightarrow> unit \<times> database" where
  "subtract_reaction_counts profile_id db = ((),
     snd (update_posts
       (\<lambda>po. exists_where (\<lambda>r. pr_post_id r = po_id po \<and> pr_author_id r = profile_id) (t_post_reaction db))
       (\<lambda>po. po\<lparr>po_reaction_count := po_reaction_count po - 1\<rparr>) db))"

definition subtract_repost_counts :: "uuid \<Rightarrow> database \<Rightarrow> unit \<times> database" where
  "subtract_repost_counts profile_id db = ((),
     snd (update_posts
       (\<lambda>po. exists_where (\<lambda>q. po_repost_of_id q = Some (po_id po) \<and> po_author_id q = profile_id) (t_post db))
       (\<lambda>po. po\<lparr>po_repost_count := po_repost_count po - 1\<rparr>) db))"

definition delete_profile :: "uuid \<Rightarrow> deletion_queue dbm" where
  "delete_profile profile_id = transaction (
     bind (query (\<lambda>db. post_context (t_post db) (posts_by profile_id db))) (\<lambda>posts.
     bind (query (profile_files profile_id posts)) (\<lambda>files.
     bind (query (ipfs_objects_of posts)) (\<lambda>ipfs_objects.
     andthen (execute (subtract_post_counts posts))
     (andthen (execute (subtract_follower_counts profile_id))
     (andthen (execute (subtract_following_counts profile_id))
     (andthen (execute (subtract_subscriber_counts profile_id))
     (andthen (execute (subtract_reply_counts profile_id))
     (andthen (execute (subtract_reaction_counts profile_id))
     (andthen (execute (subtract_repost_counts profile_id))
     (bind (execute (\<lambda>db.
        (length (filter (\<lambda>ap. ap_id ap = profile_id) (t_actor_profile db)),
         delete_profile_row profile_id db))) (\<lambda>deleted_count.
     if deleted_count = 0 then throw (NotFound ''profile'')
     else
       bind (find_orphaned_files files) (\<lambda>orphaned_files.
       bind (find_orphaned_ipfs_objects ipfs_objects) (\<lambda>orphaned_ipfs_objects.
       ret \<lparr>dq_files = orphaned_files, dq_ipfs_objects = orphaned_ipfs_objects\<rparr>))))))))))))))"

end
