(* ===== verification/Deletion.thy ===== *)
theory Deletion
  imports Invariants
begin

text \<open>
  Lemmas shared by the deletion of a post and of a profile: counters that only go down keep the
  constraints, and what remains of threads, reactions and counters once a set of posts that is
  closed under replies and reposts is gone.
\<close>

lemma wf_relationship_keys: "wf_db db \<Longrightarrow> distinct (map relationship_key (t_relationship db))"
  and wf_reaction_keys: "wf_db db \<Longrightarrow> distinct (map reaction_key (t_post_reaction db))"
  and wf_repost_keys: "wf_db db \<Longrightarrow> unique_by repost_key (t_post db)"
  and wf_post_ids: "wf_db db \<Longrightarrow> distinct (map po_id (t_post db))"
  and wf_profile_ids: "wf_db db \<Longrightarrow> distinct (map ap_id (t_actor_profile db))"
  by (simp_all add: wf_db_def unique_ok_def relationship_keys_ok_def reaction_keys_ok_def
      post_keys_ok_def profile_keys_ok_def)

section \<open>Lowering counters\<close>

definition lower_profile :: "db_actor_profile \<Rightarrow> db_actor_profile \<Rightarrow> bool" where
  "lower_profile ap' ap \<longleftrightarrow>
     0 \<le> ap_follower_count ap' \<and> ap_follower_count ap' \<le> ap_follower_count ap \<and>
     0 \<le> ap_following_count ap' \<and> ap_following_count ap' \<le> ap_following_count ap \<and>
     0 \<le> ap_subscriber_count ap' \<and> ap_subscriber_count ap' \<le> ap_subscriber_count ap \<and>
     0 \<le> ap_post_count ap' \<and> ap_post_count ap' \<le> ap_post_count ap"

definition lower_post :: "db_post \<Rightarrow> db_post \<Rightarrow> bool" where
  "lower_post po' po \<longleftrightarrow>
     0 \<le> po_reply_count po' \<and> po_reply_count po' \<le> po_reply_count po \<and>
     0 \<le> po_reaction_count po' \<and> po_reaction_count po' \<le> po_reaction_count po \<and>
     0 \<le> po_repost_count po' \<and> po_repost_count po' \<le> po_repost_count po"

definition keeps_profile_keys :: "(db_actor_profile \<Rightarrow> db_actor_profile) \<Rightarrow> bool" where
  "keeps_profile_keys g \<longleftrightarrow>
     (\<forall>ap. ap_id (g ap) = ap_id ap \<and> ap_username (g ap) = ap_username ap \<and>
        ap_hostname (g ap) = ap_hostname ap \<and> ap_actor_json (g ap) = ap_actor_json ap \<and>
        ap_emojis (g ap) = ap_emojis ap)"

definition keeps_post_keys :: "(db_post \<Rightarrow> db_post) \<Rightarrow> bool" where
  "keeps_post_keys h \<longleftrightarrow> post_frame h \<and> (\<forall>po. po_object_id (h po) = po_object_id po)"

lemma update_where_True: "update_where (\<lambda>_. True) f rs = map f rs"
  by (simp add: update_where_def)

lemma i32_lower: "i32_in_range n \<Longrightarrow> 0 \<le> m \<Longrightarrow> m \<le> n \<Longrightarrow> i32_in_range m"
  by (simp add: i32_in_range_def)

lemma wf_map_profiles:
  assumes wf: "wf_db db" and keys: "keeps_profile_keys g"
    and low: "\<And>ap. ap \<in> set (t_actor_profile db) \<Longrightarrow> lower_profile (g ap) ap"
  shows "wf_db (db\<lparr>t_actor_profile := map g (t_actor_profile db)\<rparr>)"
  unfolding update_where_True [symmetric]
proof (rule wf_update_profiles [OF wf])
  show "ap_id (g ap) = ap_id ap \<and> ap_username (g ap) = ap_username ap \<and>
      ap_hostname (g ap) = ap_hostname ap \<and> ap_actor_json (g ap) = ap_actor_json ap" for ap
    using keys by (simp add: keeps_profile_keys_def)
  fix ap assume "ap \<in> set (t_actor_profile db)"
  with wf_profile_row [OF wf this] low keys
  show "profile_check (g ap) \<and> profile_counts_in_range (g ap)"
    by (auto simp: profile_check_def profile_counts_in_range_def lower_profile_def
        keeps_profile_keys_def intro: i32_lower)
qed

lemma wf_map_posts:
  assumes wf: "wf_db db" and keys: "keeps_post_keys h"
    and low: "\<And>po. po \<in> set (t_post db) \<Longrightarrow> lower_post (h po) po"
  shows "wf_db (db\<lparr>t_post := map h (t_post db)\<rparr>)"
  unfolding update_where_True [symmetric]
proof (rule wf_update_posts [OF wf])
  show "po_id (h po) = po_id po \<and> po_author_id (h po) = po_author_id po \<and>
      po_in_reply_to_id (h po) = po_in_reply_to_id po \<and> po_repost_of_id (h po) = po_repost_of_id po \<and>
      po_object_id (h po) = po_object_id po" for po
    using keys by (simp add: keeps_post_keys_def post_frame_def)
  fix po assume "po \<in> set (t_post db)"
  with wf_post_row [OF wf this] low
  show "post_check (h po) \<and> post_counts_in_range (h po)"
    by (auto simp: post_check_def post_counts_in_range_def lower_post_def intro: i32_lower)
qed

text \<open>An \<open>UPDATE\<close> of the rows that some row refers to, as an update of all rows.\<close>

lemma update_where_map:
  "(\<And>r. r \<in> set rs \<Longrightarrow> (if p r then f r else r) = g r) \<Longrightarrow> update_where p f rs = map g rs"
  by (simp add: update_where_def)

lemma count_unique_key:
  assumes "distinct (map k rs)" and "\<And>x. p x \<Longrightarrow> k x = v"
  shows "count_where p rs = (if \<exists>x \<in> set rs. p x then 1 else 0)"
proof (cases "\<exists>x \<in> set rs. p x")
  case True
  then obtain x where "x \<in> set rs" "p x" by blast
  with count_where_unique [OF assms(1), of x p] assms(2) True show ?thesis by auto
next
  case False
  then show ?thesis by (auto simp: count_where_0_iff)
qed

lemma count_unique_opt_key:
  assumes "unique_by k rs" and "\<And>x. p x \<Longrightarrow> k x = Some v"
  shows "count_where p rs = (if \<exists>x \<in> set rs. p x then 1 else 0)"
  using assms(1)
proof (induction rs)
  case (Cons a rs)
  show ?case
  proof (cases "p a")
    case True
    have "\<not> p x" if "x \<in> set rs" for x
    proof
      assume "p x"
      with True assms(2) have "k a = k x" "k a = Some v" by simp_all
      with Cons.prems that show False by auto
    qed
    with True show ?thesis by (simp add: count_where_False)
  next
    case False
    with Cons show ?thesis by auto
  qed
qed simp

section \<open>What remains when posts go\<close>

lemma context_member:
  assumes keys: "distinct (map po_id pos)" and threads: "threads_ok pos"
    and po: "po \<in> set pos" and D: "D = set (post_context pos roots)"
    and parent: "po_in_reply_to_id po = Some p \<or> po_repost_of_id po = Some p" "p \<notin> D"
  shows "po_id po \<in> D \<longleftrightarrow> po_id po \<in> set roots"
proof
  assume "po_id po \<in> D"
  then have "descendant pos (set roots) (po_id po)" by (simp add: D set_post_context)
  then show "po_id po \<in> set roots"
  proof (cases rule: descendant_cases)
    case (2 po' j)
    with keys po have "po' = po" by (auto dest: distinct_map_unique)
    with 2 have "po_in_reply_to_id po = Some j \<or> po_repost_of_id po = Some j" by simp
    moreover from 2(3) have "j \<in> D" by (simp add: D set_post_context)
    moreover from threads po have "po_repost_of_id po = None \<or> po_in_reply_to_id po = None"
      by (simp add: threads_ok_def thread_row_ok_def)
    ultimately show ?thesis using parent by auto
  qed simp
next
  assume "po_id po \<in> set roots"
  then show "po_id po \<in> D" using post_context_mono [of roots pos] by (auto simp: D)
qed

lemma opt_in_closed:
  assumes "closed_posts D db" and "po \<in> set (t_post db)" and "po_id po \<notin> set D"
  shows "opt_in (po_in_reply_to_id po) (- set D) \<and> opt_in (po_repost_of_id po) (- set D)"
  using assms by (auto simp: closed_posts_def is_child_opt_mem opt_in_def opt_mem_def split: option.splits)

lemma threads_ok_delete:
  assumes ok: "threads_ok (t_post db)" and closed: "closed_posts D db"
  shows "threads_ok (delete_where (\<lambda>po. po_id po \<in> set D) (t_post db))"
proof -
  have "parents_first [] (delete_where (\<lambda>po. po_id po \<in> set D) (t_post db))"
    using ok opt_in_closed [OF closed]
    by (intro threads_ok_delete_parents [of "[]"]) (auto simp: threads_ok_def)
  then show ?thesis using ok by (auto simp: threads_ok_def thread_row_ok_def)
qed

lemma reactions_ok_subset:
  "reactions_ok pos rs \<Longrightarrow> set pos' \<subseteq> set pos \<Longrightarrow> set rs' \<subseteq> set rs \<Longrightarrow> reactions_ok pos' rs'"
  by (auto simp: reactions_ok_def)

lemma local_names_delete: "local_names_ok aps \<Longrightarrow> local_names_ok (delete_where p aps)"
proof -
  have "filter is_local (delete_where p aps) = delete_where p (filter is_local aps)"
    by (simp add: delete_where_def conj_commute)
  then show "local_names_ok aps \<Longrightarrow> ?thesis"
    by (simp add: local_names_ok_def distinct_map_delete)
qed

lemma count_where_map: "count_where p (map f rs) = count_where (\<lambda>r. p (f r)) rs"
  by (induction rs) auto

lemma delete_where_map: "delete_where p (map f rs) = map f (delete_where (\<lambda>r. p (f r)) rs)"
  by (simp add: delete_where_def filter_map o_def)

lemma image_delete_map:
  assumes "\<And>r. k (f r) = k r"
  shows "k ` set (delete_where (\<lambda>r. q (k r)) (map f rs)) = {x \<in> k ` set rs. \<not> q x}"
  using assms by (force simp: image_iff)

end
