(* ===== verification/Profile_Laws.thy ===== *)
theory Profile_Laws
  imports Profiles Deletion
begin

text \<open>
  What the operations of \<open>Profiles\<close> keep: every one of them preserves the invariant, also the
  operations on emojis that run outside a transaction, and the deletion of a profile succeeds
  and returns only files and objects that nothing uses any more.
\<close>

section \<open>Emoji caches\<close>

lemma joined_emojis_simps [simp]:
  "joined_emojis i [] es = []"
  "joined_emojis i (pe # pes) es =
     (if fst pe = i then filter (\<lambda>em. em_id em = snd pe) es else []) @ joined_emojis i pes es"
  "joined_emojis i (pes @ pes') es = joined_emojis i pes es @ joined_emojis i pes' es"
  by (simp_all add: joined_emojis_def split: prod.split)

lemma joined_emojis_cong:
  "(\<And>e. (i, e) \<in> set pes \<Longrightarrow> filter (\<lambda>em. em_id em = e) es = filter (\<lambda>em. em_id em = e) es') \<Longrightarrow>
   joined_emojis i pes es = joined_emojis i pes es'"
  by (induction pes) auto

lemma joined_emojis_other: "(\<And>e. (i, e) \<notin> set pes) \<Longrightarrow> joined_emojis i pes es = []"
proof (induction pes)
  case (Cons a pes)
  have "fst a \<noteq> i" using Cons.prems [of "snd a"] by (cases a) auto
  moreover have "joined_emojis i pes es = []" using Cons.prems by (intro Cons.IH) auto
  ultimately show ?case by simp
qed simp

lemma joined_emojis_delete:
  "(\<And>e. (i, e) \<in> set pes \<Longrightarrow> \<not> p (i, e)) \<Longrightarrow>
   joined_emojis i (delete_where p pes) es = joined_emojis i pes es"
  by (induction pes) (auto simp: delete_where_def)

lemma set_joined_emojis:
  "em \<in> set (joined_emojis i pes es) \<longleftrightarrow> (i, em_id em) \<in> set pes \<and> em \<in> set es"
  by (induction pes) auto

text \<open>How often an emoji occurs in a cache that is up to date: once, if the profile has it.\<close>

lemma copies_joined:
  assumes "distinct pes" and "distinct (map em_id es)" and "e \<in> em_id ` set es"
  shows "length (filter (\<lambda>em. em_id em = e) (joined_emojis i pes es)) = (if (i, e) \<in> set pes then 1 else 0)"
  using assms(1)
proof (induction pes)
  case (Cons a pes)
  obtain r where r: "r \<in> set es" "em_id r = e" using assms(3) by auto
  have one: "filter (\<lambda>em. em_id em = e \<and> em_id em = snd a) es = (if snd a = e then [r] else [])"
    using filter_unique_key [OF assms(2) r(1)] r(2)
    by (auto simp: filter_empty_conv intro: filter_cong)
  then show ?case
    using Cons by (cases a) (auto simp: conj_commute)
qed simp

lemma concat_replicate_1 [simp]: "concat (replicate (Suc 0) xs) = xs"
  by simp

definition cache_update :: "(uuid \<times> uuid) list \<Rightarrow> db_emoji list \<Rightarrow> uuid \<Rightarrow> db_actor_profile \<Rightarrow> db_actor_profile" where
  "cache_update pes es e = (\<lambda>ap.
     ap\<lparr>ap_emojis := concat (replicate (cached_copies e ap) (joined_emojis (ap_id ap) pes es))\<rparr>)"

lemma update_emoji_caches_eq:
  "update_emoji_caches e =
     execute (\<lambda>db. ((), snd (update_profiles (\<lambda>ap. 0 < cached_copies e ap)
       (cache_update (t_profile_emoji db) (t_emoji db) e) db)))"
  by (simp add: update_emoji_caches_def cache_update_def)

lemma cache_update_frame [simp]:
  "ap_id (cache_update pes es e ap) = ap_id ap" "ap_username (cache_update pes es e ap) = ap_username ap"
  "ap_hostname (cache_update pes es e ap) = ap_hostname ap"
  "ap_actor_json (cache_update pes es e ap) = ap_actor_json ap"
  "profile_check (cache_update pes es e ap) = profile_check ap"
  "profile_counts_in_range (cache_update pes es e ap) = profile_counts_in_range ap"
  "profile_frame (cache_update pes es e)"
  by (simp_all add: cache_update_def profile_check_def profile_counts_in_range_def profile_frame_def)

lemma update_emoji_caches_run:
  assumes "wf_db db"
  shows "update_emoji_caches e db = (Inr (), db\<lparr>t_actor_profile :=
     update_where (\<lambda>ap. 0 < cached_copies e ap) (cache_update (t_profile_emoji db) (t_emoji db) e)
       (t_actor_profile db)\<rparr>)"
proof -
  have "wf_db (db\<lparr>t_actor_profile :=
     update_where (\<lambda>ap. 0 < cached_copies e ap) (cache_update (t_profile_emoji db) (t_emoji db) e)
       (t_actor_profile db)\<rparr>)"
    using assms by (intro wf_update_profiles) (auto dest: wf_profile_row)
  then show ?thesis by (simp add: update_emoji_caches_eq db_run)
qed

text \<open>
  The cache update after a change of one emoji: the other columns stay, and the caches are up to
  date when before the change they were.
\<close>

lemma app_inv_caches_updated:
  assumes inv: "app_inv A UNIV db"
    and old: "caches_ok {} (t_actor_profile db) pes es"
    and keys: "distinct pes" "distinct (map em_id es)" "e \<in> em_id ` set es"
    and other: "\<And>i. (i, e) \<notin> set pes \<Longrightarrow>
      joined_emojis i (t_profile_emoji db) (t_emoji db) = joined_emojis i pes es"
  shows "app_inv A {} (db\<lparr>t_actor_profile :=
     update_where (\<lambda>ap. 0 < cached_copies e ap) (cache_update (t_profile_emoji db) (t_emoji db) e)
       (t_actor_profile db)\<rparr>)"
proof -
  have copies: "cached_copies e ap = (if (ap_id ap, e) \<in> set pes then 1 else 0)"
    if "ap \<in> set (t_actor_profile db)" for ap
    using that old copies_joined [OF keys, of "ap_id ap"] by (simp add: caches_ok_def cached_copies_def)
  have "caches_ok {} (update_where (\<lambda>ap. 0 < cached_copies e ap)
      (cache_update (t_profile_emoji db) (t_emoji db) e) (t_actor_profile db))
      (t_profile_emoji db) (t_emoji db)"
    using old copies other by (auto simp: caches_ok_def ball_update_where cache_update_def)
  with inv show ?thesis
    by (simp add: app_inv_def relationship_counters_ok_update author_counters_ok_update
        accounts_ok_update local_names_ok_update next_id_ok_def)
qed

section \<open>Operations on instances and emojis\<close>

lemma db_invD: "db_inv db \<Longrightarrow> wf_db db" "db_inv db \<Longrightarrow> app_inv {} {} db"
  by (simp_all add: db_inv_def)

lemma inv_create_instance: "keeps db_inv (create_instance h)"
  unfolding create_instance_def by (intro keeps_inv_execute) (simp add: db_inv_def)

lemma wf_emoji_keys:
  assumes "wf_db db"
  shows "distinct (t_profile_emoji db)" "distinct (map em_id (t_emoji db))"
    "(i, e) \<in> set (t_profile_emoji db) \<Longrightarrow> e \<in> emoji_ids db \<and> i \<in> profile_ids db"
    "(i, e) \<in> set (t_post_emoji db) \<Longrightarrow> e \<in> emoji_ids db \<and> i \<in> post_ids db"
  using assms by (auto simp: wf_db_def unique_ok_def misc_keys_ok_def emoji_keys_ok_def
      foreign_keys_ok_def profile_refs_ok_def post_refs_ok_def)

lemma app_invD:
  assumes "app_inv A C db"
  shows "relationship_counters_ok (t_actor_profile db) (t_relationship db)"
    "author_counters_ok (t_actor_profile db) (t_post db)"
    "post_counters_ok (t_post db) (t_post_reaction db)" "threads_ok (t_post db)"
    "reactions_ok (t_post db) (t_post_reaction db)"
    "accounts_ok A (t_actor_profile db) (t_user_account db)"
    "local_names_ok (t_actor_profile db)" "notifications_ok (t_notification db)"
    "caches_ok C (t_actor_profile db) (t_profile_emoji db) (t_emoji db)" "next_id_ok db"
  using assms by (simp_all add: app_inv_def)

lemma caches_ok_UNIV [simp]: "caches_ok UNIV aps pes es"
  by (simp add: caches_ok_def)

lemma app_inv_emojis:
  assumes "app_inv A C db" and "caches_ok D (t_actor_profile db) pes es"
  shows "app_inv A D (db\<lparr>t_profile_emoji := pes, t_emoji := es\<rparr>)"
  using assms by (simp add: app_inv_def next_id_ok_def)

lemma inv_create_emoji: "keeps db_inv (create_emoji e n h img oid t)"
  unfolding create_emoji_def Let_def
proof (intro keeps_bind keeps_case_option keeps_ret inv_create_instance keeps_inv_execute_catching)
  fix db
  let ?row = "\<lparr>em_id = e, em_emoji_name = n, em_hostname = h, em_image = img, em_object_id = oid,
    em_updated_at = t\<rparr>"
  assume inv: "db_inv db" and wf: "wf_db (snd (?row, db\<lparr>t_emoji := t_emoji db @ [?row]\<rparr>))"
  from wf have "e \<notin> emoji_ids db"
    by (auto simp: wf_db_def unique_ok_def emoji_keys_ok_def)
  then have "joined_emojis i (t_profile_emoji db) (t_emoji db @ [?row]) =
      joined_emojis i (t_profile_emoji db) (t_emoji db)" for i
    using wf_emoji_keys(3) [OF db_inv_wf [OF inv]] by (intro joined_emojis_cong) auto
  then have "caches_ok {} (t_actor_profile db) (t_profile_emoji db) (t_emoji db @ [?row])"
    using app_invD(9) [OF db_invD(2) [OF inv]] by (simp add: caches_ok_def)
  from app_inv_emojis [OF db_invD(2) [OF inv] this]
  show "app_inv {} {} (snd (?row, db\<lparr>t_emoji := t_emoji db @ [?row]\<rparr>))" by simp
qed

lemma update_where_none: "(\<And>r. r \<in> set rs \<Longrightarrow> \<not> p r) \<Longrightarrow> update_where p f rs = rs"
  by (induction rs) (auto simp: update_where_def)

lemma filter_update_where:
  "(\<And>r. q r \<Longrightarrow> p (f r) = p r) \<Longrightarrow> filter p (update_where q f rs) = update_where q f (filter p rs)"
  by (induction rs) (auto simp: update_where_def)

definition emoji_image_update :: "emoji_image \<Rightarrow> datetime \<Rightarrow> db_emoji \<Rightarrow> db_emoji" where
  "emoji_image_update img t = (\<lambda>e. e\<lparr>em_image := img, em_updated_at := t\<rparr>)"

lemma emoji_image_update_simps [simp]:
  "em_id (emoji_image_update img t em) = em_id em"
  "em_hostname (emoji_image_update img t em) = em_hostname em"
  "em_object_id (emoji_image_update img t em) = em_object_id em"
  "emoji_key (emoji_image_update img t em) = emoji_key em"
  by (simp_all add: emoji_image_update_def emoji_key_def)

lemma wf_emoji_image_update:
  assumes wf: "wf_db db"
  shows "wf_db (db\<lparr>t_emoji := update_where p (emoji_image_update img t) (t_emoji db)\<rparr>)"
proof -
  let ?db = "db\<lparr>t_emoji := update_where p (emoji_image_update img t) (t_emoji db)\<rparr>"
  have ids: "em_id ` set (update_where p (emoji_image_update img t) (t_emoji db)) = emoji_ids db"
    by (rule image_update_where) simp
  have "ranges_ok ?db" "checks_ok ?db"
    using wf by (simp_all add: wf_db_def ranges_ok_def checks_ok_def ball_update_where)
  moreover have "unique_ok ?db"
    using wf by (simp add: wf_db_def unique_ok_def emoji_keys_ok_def token_keys_ok_def misc_keys_ok_def
        map_update_where unique_by_update)
  moreover have "foreign_keys_ok ?db"
    using wf by (simp add: wf_db_def foreign_keys_ok_def profile_refs_ok_def user_refs_ok_def
        post_refs_ok_def ids ball_update_where)
  ultimately show ?thesis by (simp add: wf_db_def)
qed

text \<open>
  \<open>update_emoji\<close> succeeds on an existing emoji, although its two statements do not run in a
  transaction, and brings every cache that shows the emoji up to date.
\<close>

lemma update_emoji_run:
  assumes inv: "db_inv db" and e: "e \<in> emoji_ids db"
  obtains em db' where "update_emoji e img t db = (Inr em, db')" and "db_inv db'"
    and "t_emoji db' = update_where (\<lambda>em. em_id em = e) (emoji_image_update img t) (t_emoji db)"
proof -
  let ?f = "emoji_image_update img t" and ?p = "\<lambda>em. em_id em = e"
  let ?es = "update_where ?p ?f (t_emoji db)"
  let ?db1 = "db\<lparr>t_emoji := ?es\<rparr>"
  note wf = db_inv_wf [OF inv]
  from e obtain em where em: "em \<in> set (t_emoji db)" "e = em_id em" by auto
  have rows: "filter ?p (t_emoji db) = [em]"
    using filter_unique_key [OF wf_emoji_keys(2) [OF wf] em(1)] em(2) by simp
  have wf1: "wf_db ?db1" by (rule wf_emoji_image_update [OF wf])
  let ?db2 = "?db1\<lparr>t_actor_profile := update_where (\<lambda>ap. 0 < cached_copies e ap)
      (cache_update (t_profile_emoji ?db1) (t_emoji ?db1) e) (t_actor_profile ?db1)\<rparr>"
  have run2: "update_emoji_caches e ?db1 = (Inr (), ?db2)"
    by (rule update_emoji_caches_run [OF wf1])
  have "update_emoji e img t db = (Inr (?f em), ?db2)"
    using wf1 run2 rows em(2)
    by (simp add: update_emoji_def Let_def emoji_image_update_def db_run bind_def execute_run)
  moreover have "db_inv ?db2"
  proof -
    have "joined_emojis i (t_profile_emoji db) ?es = joined_emojis i (t_profile_emoji db) (t_emoji db)"
      if "(i, e) \<notin> set (t_profile_emoji db)" for i
      using that by (intro joined_emojis_cong, subst filter_update_where)
        (auto intro!: update_where_none)
    moreover have "app_inv {} UNIV ?db1"
      using app_inv_emojis [OF db_invD(2) [OF inv], of UNIV "t_profile_emoji db" ?es] by simp
    ultimately have "app_inv {} {} ?db2"
      using app_invD(9) [OF db_invD(2) [OF inv]] wf_emoji_keys(1,2) [OF wf] e
      by (intro app_inv_caches_updated [of _ ?db1 "t_profile_emoji db" "t_emoji db"]) auto
    moreover have "wf_db ?db2"
      using wf1 by (intro wf_update_profiles) (auto dest: wf_profile_row)
    ultimately show ?thesis by (simp add: db_inv_def)
  qed
  moreover have "t_emoji ?db2 = ?es" by simp
  ultimately show thesis by (rule that)
qed

lemma inv_update_emoji: "keeps db_inv (update_emoji e img t)"
proof (rule keepsI)
  fix db r db'
  assume inv: "db_inv db" and run: "update_emoji e img t db = (r, db')"
  show "db_inv db'"
  proof (cases "e \<in> emoji_ids db")
    case True
    from update_emoji_run [OF inv this, of img t] run show ?thesis by auto
  next
    case False
    then have "filter (\<lambda>em. em_id em = e) (t_emoji db) = []"
      and "update_where (\<lambda>em. em_id em = e) (\<lambda>e. e\<lparr>em_image := img, em_updated_at := t\<rparr>) (t_emoji db) = t_emoji db"
      by (auto simp: filter_empty_conv intro: update_where_none)
    with run inv show ?thesis
      by (simp add: update_emoji_def Let_def bind_def execute_run db_inv_wf one_row_def throw_def)
  qed
qed

lemma wf_delete_emoji_row:
  assumes wf: "wf_db db"
  shows "wf_db (delete_emoji_row e db)"
proof -
  let ?db = "delete_emoji_row e db"
  have "ranges_ok ?db" "checks_ok ?db"
    using wf by (auto simp: wf_db_def ranges_ok_def checks_ok_def delete_emoji_row_def)
  moreover have "unique_ok ?db"
    using wf by (simp add: wf_db_def unique_ok_def token_keys_ok_def misc_keys_ok_def
        delete_emoji_row_def distinct_delete)
  moreover have "profile_refs_ok ?db" "user_refs_ok ?db" "post_refs_ok ?db"
    using wf by (auto simp: wf_db_def foreign_keys_ok_def profile_refs_ok_def user_refs_ok_def
        post_refs_ok_def delete_emoji_row_def image_delete_key split: prod.splits)
  ultimately show ?thesis by (simp add: wf_db_def foreign_keys_ok_def)
qed

lemma joined_emojis_deleted:
  assumes "(i, e) \<notin> set pes"
  shows "joined_emojis i (delete_where (\<lambda>m. snd m = e) pes) (delete_where (\<lambda>em. em_id em = e) es) =
    joined_emojis i pes es"
  using assms by (subst joined_emojis_delete)
    (auto intro!: joined_emojis_cong simp: delete_where_def intro: filter_cong)

lemma app_inv_emoji_tables:
  "app_inv A C db \<Longrightarrow> app_inv A UNIV (db\<lparr>t_emoji := es, t_post_emoji := pes', t_profile_emoji := pes\<rparr>)"
  by (simp add: app_inv_def next_id_ok_def)

text \<open>\<open>delete_emoji\<close> removes an existing emoji, its uses and its cached copies.\<close>

lemma delete_emoji_run:
  assumes inv: "db_inv db" and e: "e \<in> emoji_ids db"
  obtains q db' where "delete_emoji e db = (Inr q, db')" and "db_inv db'" and "queue_unused db' q"
    and "emoji_ids db' = emoji_ids db - {e}"
proof -
  let ?db1 = "delete_emoji_row e db"
  note wf = db_inv_wf [OF inv]
  from e obtain em where em: "em \<in> set (t_emoji db)" "e = em_id em" by auto
  have rows: "filter (\<lambda>em. em_id em = e) (t_emoji db) = [em]"
    using filter_unique_key [OF wf_emoji_keys(2) [OF wf] em(1)] em(2) by simp
  have wf1: "wf_db ?db1" by (rule wf_delete_emoji_row [OF wf])
  let ?db2 = "?db1\<lparr>t_actor_profile := update_where (\<lambda>ap. 0 < cached_copies e ap)
      (cache_update (t_profile_emoji ?db1) (t_emoji ?db1) e) (t_actor_profile ?db1)\<rparr>"
  have run2: "update_emoji_caches e ?db1 = (Inr (), ?db2)"
    by (rule update_emoji_caches_run [OF wf1])
  let ?q = "\<lparr>dq_files = remdups (filter (\<lambda>f. \<not> file_in_use ?db2 f) [ei_file_name (em_image em)]),
    dq_ipfs_objects = []\<rparr>"
  have "delete_emoji e db = (Inr ?q, ?db2)"
    using wf1 run2 rows em(2)
    by (simp add: delete_emoji_def bind_def execute_run opt_row_def ok_or_def ret_def
        find_orphaned_files_def query_def)
  moreover have "db_inv ?db2"
  proof -
    have "app_inv {} UNIV ?db1"
      unfolding delete_emoji_row_def by (rule app_inv_emoji_tables [OF db_invD(2) [OF inv]])
    then have "app_inv {} {} ?db2"
      using app_invD(9) [OF db_invD(2) [OF inv]] wf_emoji_keys(1,2) [OF wf] e
      by (intro app_inv_caches_updated [of _ ?db1 "t_profile_emoji db" "t_emoji db"])
        (auto simp: delete_emoji_row_def joined_emojis_deleted)
    moreover have "wf_db ?db2"
      using wf1 by (intro wf_update_profiles) (auto dest: wf_profile_row)
    ultimately show ?thesis by (simp add: db_inv_def)
  qed
  moreover have "queue_unused ?db2 ?q" by (simp add: queue_unused_def)
  moreover have "emoji_ids ?db2 = emoji_ids db - {e}" by (auto simp: delete_emoji_row_def)
  ultimately show thesis by (rule that)
qed

lemma inv_delete_emoji: "keeps db_inv (delete_emoji e)"
proof (rule keepsI)
  fix db r db'
  assume inv: "db_inv db" and run: "delete_emoji e db = (r, db')"
  show "db_inv db'"
  proof (cases "e \<in> emoji_ids db")
    case True
    from delete_emoji_run [OF inv this] run show ?thesis by auto
  next
    case False
    have none: "(i, e) \<notin> set (t_profile_emoji db)" "(i, e) \<notin> set (t_post_emoji db)" for i
      using wf_emoji_keys(3,4) [OF db_inv_wf [OF inv]] False by auto
    then have "delete_where (\<lambda>m. snd m = e) (t_profile_emoji db) = t_profile_emoji db"
      "delete_where (\<lambda>m. snd m = e) (t_post_emoji db) = t_post_emoji db"
      "delete_where (\<lambda>em. em_id em = e) (t_emoji db) = t_emoji db"
      using False by (auto simp: delete_where_def filter_id_conv)
    then have "delete_emoji_row e db = db" by (simp add: delete_emoji_row_def)
    moreover have "filter (\<lambda>em. em_id em = e) (t_emoji db) = []"
      using False by (auto simp: filter_empty_conv)
    ultimately show ?thesis
      using run inv
      by (simp add: delete_emoji_def bind_def execute_run db_inv_wf opt_row_def ok_or_def ret_def throw_def)
  qed
qed

section \<open>Creating and updating profiles\<close>

lemma filter_updated: "(\<And>r. p r \<Longrightarrow> p (f r)) \<Longrightarrow> filter p (update_where p f rs) = map f (filter p rs)"
  by (induction rs) (auto simp: update_where_def)

lemma update_emoji_cache_ok:
  "update_emoji_cache i db = (Inr ap, db') \<longleftrightarrow>
     filter (\<lambda>ap. ap_id ap = i) (t_actor_profile db') = [ap] \<and> wf_db db' \<and>
     db' = db\<lparr>t_actor_profile := update_where (\<lambda>ap. ap_id ap = i)
       (\<lambda>ap. ap\<lparr>ap_emojis := joined_emojis (ap_id ap) (t_profile_emoji db) (t_emoji db)\<rparr>)
       (t_actor_profile db)\<rparr>"
  unfolding update_emoji_cache_def
  by (auto simp: db_ok update_profiles_def filter_updated)

definition own_emoji_rows :: "uuid \<Rightarrow> uuid list \<Rightarrow> db_emoji list \<Rightarrow> (uuid \<times> uuid) list" where
  "own_emoji_rows i emojis es = map (\<lambda>e. (i, em_id e)) (filter (\<lambda>e. em_id e \<in> set emojis) es)"

lemma create_profile_emojis_ok:
  "create_profile_emojis i emojis db = (Inr rows, db') \<longleftrightarrow>
     rows = filter (\<lambda>e. em_id e \<in> set emojis) (t_emoji db) \<and> length rows = length emojis \<and>
     db' = db\<lparr>t_profile_emoji := t_profile_emoji db @ own_emoji_rows i emojis (t_emoji db)\<rparr> \<and> wf_db db'"
  unfolding create_profile_emojis_def own_emoji_rows_def
  by (auto simp: db_ok Let_def)

lemma joined_own_rows [simp]: "i' \<noteq> i \<Longrightarrow> joined_emojis i' (own_emoji_rows i emojis es) es' = []"
  by (rule joined_emojis_other) (auto simp: own_emoji_rows_def)

text \<open>A successful \<open>create_profile\<close> appends one row, with the emojis that were asked for.\<close>

lemma create_instance_ok:
  "(case h of Some x \<Rightarrow> create_instance x | None \<Rightarrow> ret ()) db = (Inr u, db') \<Longrightarrow>
   \<exists>ins. db' = db\<lparr>t_instance := ins\<rparr>"
proof (cases h)
  case None
  assume "(case h of Some x \<Rightarrow> create_instance x | None \<Rightarrow> ret ()) db = (Inr u, db')"
  with None have "db' = db\<lparr>t_instance := t_instance db\<rparr>" by (simp add: db_ok)
  then show ?thesis by blast
next
  case (Some x)
  assume "(case h of Some x \<Rightarrow> create_instance x | None \<Rightarrow> ret ()) db = (Inr u, db')"
  with Some have "db' = db\<lparr>t_instance :=
      if x \<in> set (t_instance db) then t_instance db else t_instance db @ [x]\<rparr>"
    by (auto simp: create_instance_def db_ok)
  then show ?thesis by blast
qed

lemma create_profile_ok:
  assumes run: "create_profile i now d db = (Inr ap, db')"
  shows "\<exists>ins. db' = db\<lparr>t_instance := ins, t_actor_profile := t_actor_profile db @ [ap],
      t_profile_emoji := t_profile_emoji db @ own_emoji_rows i (pc_emojis d) (t_emoji db)\<rparr>"
    and "ap = (new_profile_row i now d)\<lparr>ap_emojis :=
      joined_emojis i (t_profile_emoji db @ own_emoji_rows i (pc_emojis d) (t_emoji db)) (t_emoji db)\<rparr>"
    and "i \<notin> profile_ids db" and "wf_db db'"
proof -
  let ?pes = "t_profile_emoji db @ own_emoji_rows i (pc_emojis d) (t_emoji db)"
  let ?row = "new_profile_row i now d"
  let ?f = "\<lambda>ap. ap\<lparr>ap_emojis := joined_emojis (ap_id ap) ?pes (t_emoji db)\<rparr>"
  from run obtain db1 where
    ins: "(case pc_hostname d of Some x \<Rightarrow> create_instance x | None \<Rightarrow> ret ()) db = (Inr (), db1)"
    and wf2: "wf_db (db1\<lparr>t_actor_profile := t_actor_profile db1 @ [?row]\<rparr>)"
    and one: "filter (\<lambda>ap. ap_id ap = i) (t_actor_profile db') = [ap]" and wf: "wf_db db'"
    and db': "db' = db1\<lparr>
      t_profile_emoji := t_profile_emoji db1 @ own_emoji_rows i (pc_emojis d) (t_emoji db1),
      t_actor_profile := update_where (\<lambda>ap. ap_id ap = i) (\<lambda>ap. ap\<lparr>ap_emojis :=
        joined_emojis (ap_id ap) (t_profile_emoji db1 @ own_emoji_rows i (pc_emojis d) (t_emoji db1)) (t_emoji db1)\<rparr>)
        (t_actor_profile db1 @ [?row])\<rparr>"
    by (auto simp: create_profile_def db_ok update_emoji_cache_ok create_profile_emojis_ok)
  from create_instance_ok [OF ins] obtain ins where db1: "db1 = db\<lparr>t_instance := ins\<rparr>" by blast
  from wf2 show fresh: "i \<notin> profile_ids db"
    by (auto simp: wf_db_def unique_ok_def profile_keys_ok_def new_profile_row_def db1)
  then have aps: "update_where (\<lambda>ap. ap_id ap = i) ?f (t_actor_profile db @ [?row]) =
      t_actor_profile db @ [?f ?row]"
    by (auto simp: update_where_def new_profile_row_def intro!: map_idI)
  have none: "filter (\<lambda>ap. ap_id ap = i) (t_actor_profile db) = []"
    using fresh by (auto simp: filter_empty_conv)
  have "db' = db\<lparr>t_instance := ins, t_actor_profile := t_actor_profile db @ [?f ?row],
      t_profile_emoji := ?pes\<rparr>"
    using db' aps by (simp add: db1)
  moreover from this one none have "ap = ?f ?row" by (simp add: new_profile_row_def)
  ultimately show "\<exists>ins. db' = db\<lparr>t_instance := ins, t_actor_profile := t_actor_profile db @ [ap],
      t_profile_emoji := ?pes\<rparr>"
    and "ap = ?row\<lparr>ap_emojis := joined_emojis i ?pes (t_emoji db)\<rparr>"
    by (auto simp: new_profile_row_def)
  show "wf_db db'" by (rule wf)
qed

lemma wf_no_profile:
  assumes "wf_db db" and "i \<notin> profile_ids db"
  shows "followers_of i (t_relationship db) = 0" "following_of i (t_relationship db) = 0"
    "subscribers_of i (t_relationship db) = 0" "posts_of i (t_post db) = 0" "i \<notin> user_ids db"
    "(i, e) \<notin> set (t_profile_emoji db)"
  using assms by (auto simp: wf_db_def foreign_keys_ok_def profile_refs_ok_def user_refs_ok_def
      post_refs_ok_def row_counts count_where_0_iff)

lemma create_profile_inv:
  assumes inv: "db_inv db" and run: "create_profile i now d db = (Inr ap, db')"
    and name: "pc_actor_json d = None \<Longrightarrow>
      to_lowercase (pc_username d) \<notin>
        (\<lambda>ap. to_lowercase (ap_username ap)) ` set (filter is_local (t_actor_profile db))"
  shows "db_inv_except (if pc_actor_json d = None then {i} else {}) {} db'"
proof -
  note ok = create_profile_ok [OF run]
  note wf = db_inv_wf [OF inv]
  note old = app_invD [OF db_invD(2) [OF inv]]
  note none = wf_no_profile [OF wf ok(3)]
  from ok(1) obtain ins where db': "db' = db\<lparr>t_instance := ins,
      t_actor_profile := t_actor_profile db @ [ap],
      t_profile_emoji := t_profile_emoji db @ own_emoji_rows i (pc_emojis d) (t_emoji db)\<rparr>" by blast
  have ap: "ap_id ap = i" "ap_username ap = pc_username d" "ap_follower_count ap = 0"
    "ap_following_count ap = 0" "ap_subscriber_count ap = 0" "ap_post_count ap = 0"
    "is_local ap = (pc_actor_json d = None)"
    "ap_emojis ap = joined_emojis i (t_profile_emoji db @ own_emoji_rows i (pc_emojis d) (t_emoji db)) (t_emoji db)"
    by (simp_all add: ok(2) new_profile_row_def is_local_def)
  have others: "ap_id q \<noteq> i" if "q \<in> set (t_actor_profile db)" for q
    using that ok(3) by auto
  have "relationship_counters_ok (t_actor_profile db') (t_relationship db')"
    "author_counters_ok (t_actor_profile db') (t_post db')"
    using old(1,2) none ap by (simp_all add: db' relationship_counters_ok_def author_counters_ok_def)
  moreover have "accounts_ok (if pc_actor_json d = None then {i} else {}) (t_actor_profile db') (t_user_account db')"
    using old(6) none(5) ap by (auto simp: db' accounts_ok_def)
  moreover have "local_names_ok (t_actor_profile db')"
    using old(7) name ap by (auto simp: db' local_names_ok_def)
  moreover have "caches_ok {} (t_actor_profile db') (t_profile_emoji db') (t_emoji db')"
    using old(9) ap others by (simp add: db' caches_ok_def)
  ultimately have "app_inv (if pc_actor_json d = None then {i} else {}) {} db'"
    using old by (simp add: app_inv_def db' next_id_ok_def)
  with ok(4) show ?thesis by (simp add: db_inv_except_def)
qed

lemma inv_create_profile: "pc_actor_json d \<noteq> None \<Longrightarrow> keeps db_inv (create_profile i now d)"
proof (rule keepsI)
  fix db r db'
  assume remote: "pc_actor_json d \<noteq> None" and inv: "db_inv db" and run: "create_profile i now d db = (r, db')"
  show "db_inv db'"
  proof (cases r)
    case (Inl e)
    with run inv show ?thesis by (auto simp: create_profile_def dest: transaction_error)
  next
    case (Inr ap)
    with create_profile_inv [OF inv] run remote show ?thesis by fastforce
  qed
qed

text \<open>
  \<open>update_profile\<close>: the \<open>CHECK\<close> on host name and actor keeps local profiles local and remote
  ones remote.
\<close>

lemma update_profile_ok:
  assumes "update_profile now i d db = (Inr ap, db')"
  shows "db' = db\<lparr>t_actor_profile := update_where (\<lambda>ap. ap_id ap = i)
      (\<lambda>ap. (updated_profile_row now d ap)\<lparr>ap_emojis := joined_emojis i (t_profile_emoji db') (t_emoji db)\<rparr>)
      (t_actor_profile db),
    t_profile_emoji := delete_where (\<lambda>m. fst m = i) (t_profile_emoji db) @ own_emoji_rows i (pu_emojis d) (t_emoji db)\<rparr>"
    and "wf_db db'" and "filter (\<lambda>ap. ap_id ap = i) (t_actor_profile db') = [ap]"
proof -
  have comp: "update_where (\<lambda>ap. ap_id ap = i) g (update_where (\<lambda>ap. ap_id ap = i) f aps) =
      update_where (\<lambda>ap. ap_id ap = i) (\<lambda>ap. g (f ap)) aps"
    if "\<And>ap. ap_id (f ap) = ap_id ap" for f g aps
    using that by (simp add: update_where_def)
  have cong: "update_where (\<lambda>ap. ap_id ap = i) f aps = update_where (\<lambda>ap. ap_id ap = i) g aps"
    if "\<And>ap. ap_id ap = i \<Longrightarrow> f ap = g ap" for f g :: "db_actor_profile \<Rightarrow> db_actor_profile" and aps
    using that by (simp add: update_where_def)
  from assms have db': "db' = db\<lparr>t_actor_profile := update_where (\<lambda>ap. ap_id ap = i)
      (\<lambda>ap. ap\<lparr>ap_emojis := joined_emojis (ap_id ap) (t_profile_emoji db') (t_emoji db)\<rparr>)
        (update_where (\<lambda>ap. ap_id ap = i) (updated_profile_row now d) (t_actor_profile db)),
    t_profile_emoji := delete_where (\<lambda>m. fst m = i) (t_profile_emoji db) @ own_emoji_rows i (pu_emojis d) (t_emoji db)\<rparr>"
    and rest: "wf_db db'" "filter (\<lambda>ap. ap_id ap = i) (t_actor_profile db') = [ap]"
    by (auto simp: update_profile_def db_ok update_emoji_cache_ok create_profile_emojis_ok)
  have id: "ap_id (updated_profile_row now d ap) = ap_id ap" for ap
    by (simp add: updated_profile_row_def)
  show "db' = db\<lparr>t_actor_profile := update_where (\<lambda>ap. ap_id ap = i)
      (\<lambda>ap. (updated_profile_row now d ap)\<lparr>ap_emojis := joined_emojis i (t_profile_emoji db') (t_emoji db)\<rparr>)
      (t_actor_profile db),
    t_profile_emoji := delete_where (\<lambda>m. fst m = i) (t_profile_emoji db) @ own_emoji_rows i (pu_emojis d) (t_emoji db)\<rparr>"
    by (rule trans [OF db']) (simp add: comp id cong: if_cong, rule arg_cong [where f = "\<lambda>x. db\<lparr>t_actor_profile := x, t_profile_emoji := _\<rparr>"], rule cong, simp add: id)
  show "wf_db db'" and "filter (\<lambda>ap. ap_id ap = i) (t_actor_profile db') = [ap]" by (fact rest)+
qed

lemma local_names_update:
  assumes "\<And>ap. ap \<in> set aps \<Longrightarrow> p ap \<Longrightarrow> ap_username (f ap) = ap_username ap \<and> is_local (f ap) = is_local ap"
  shows "local_names_ok (update_where p f aps) = local_names_ok aps"
proof -
  have "map (\<lambda>ap. to_lowercase (ap_username ap)) (filter is_local (update_where p f aps)) =
      map (\<lambda>ap. to_lowercase (ap_username ap)) (filter is_local aps)"
    using assms by (induction aps) (auto simp: update_where_def)
  then show ?thesis by (simp add: local_names_ok_def)
qed

lemma inv_update_profile: "keeps db_inv (update_profile now i d)"
proof (rule keepsI)
  fix db r db'
  assume inv: "db_inv db" and run: "update_profile now i d db = (r, db')"
  note old = app_invD [OF db_invD(2) [OF inv]]
  show "db_inv db'"
  proof (cases r)
    case (Inl e)
    with run inv show ?thesis by (auto simp: update_profile_def dest: transaction_error)
  next
    case (Inr ap)
    let ?f = "\<lambda>ap. (updated_profile_row now d ap)\<lparr>ap_emojis := joined_emojis i (t_profile_emoji db') (t_emoji db)\<rparr>"
    let ?p = "\<lambda>ap. ap_id ap = i"
    note ok = update_profile_ok [OF run [unfolded Inr]]
    have aps: "t_actor_profile db' = update_where ?p ?f (t_actor_profile db)"
      and pes: "t_profile_emoji db' =
        delete_where (\<lambda>m. fst m = i) (t_profile_emoji db) @ own_emoji_rows i (pu_emojis d) (t_emoji db)"
      using arg_cong [OF ok(1), of t_actor_profile] arg_cong [OF ok(1), of t_profile_emoji] by simp_all
    have same: "t_relationship db' = t_relationship db" "t_post db' = t_post db"
      "t_post_reaction db' = t_post_reaction db" "t_user_account db' = t_user_account db"
      "t_notification db' = t_notification db" "t_emoji db' = t_emoji db" "next_id db' = next_id db"
      using arg_cong [OF ok(1), of t_relationship] arg_cong [OF ok(1), of t_post]
        arg_cong [OF ok(1), of t_post_reaction] arg_cong [OF ok(1), of t_user_account]
        arg_cong [OF ok(1), of t_notification] arg_cong [OF ok(1), of t_emoji]
        arg_cong [OF ok(1), of next_id] by simp_all
    have frame: "profile_frame ?f"
      by (simp add: profile_frame_def updated_profile_row_def)
    have loc: "is_local (?f q) = is_local q" if "q \<in> set (t_actor_profile db)" and "ap_id q = i" for q
    proof -
      have "?f q \<in> set (t_actor_profile db')" using that by (auto simp: aps in_update_where)
      from wf_profile_row [OF ok(2) this] wf_profile_row [OF db_inv_wf [OF inv] that(1)]
      show ?thesis by (simp add: profile_check_def is_local_def updated_profile_row_def)
    qed
    have "relationship_counters_ok (t_actor_profile db') (t_relationship db')"
      "author_counters_ok (t_actor_profile db') (t_post db')"
      using old(1,2) frame
      by (simp_all add: aps same relationship_counters_ok_update author_counters_ok_update)
    moreover have "accounts_ok {} (t_actor_profile db') (t_user_account db')"
      using old(6) loc by (auto simp: aps same accounts_ok_def ball_update_where updated_profile_row_def is_local_def)
    moreover have "local_names_ok (t_actor_profile db')"
      unfolding aps using old(7) loc
      by (subst local_names_update) (auto simp: updated_profile_row_def)
    moreover have "caches_ok {} (t_actor_profile db') (t_profile_emoji db') (t_emoji db')"
      using old(9) by (auto simp: aps same caches_ok_def ball_update_where updated_profile_row_def
          pes joined_emojis_delete)
    ultimately have "app_inv {} {} db'"
      using old by (simp add: app_inv_def same next_id_ok_def)
    with ok(2) show ?thesis by (simp add: db_inv_def)
  qed
qed

text \<open>Columns no condition is about.\<close>

lemma inv_profile_columns:
  assumes "\<And>now. profile_frame (f now)"
    and "\<And>now ap. ap_actor_json (f now ap) = ap_actor_json ap \<and> ap_emojis (f now ap) = ap_emojis ap"
  shows "app_inv A C db \<Longrightarrow> app_inv A C (db\<lparr>t_actor_profile := update_where p (f now) (t_actor_profile db)\<rparr>)"
  using assms by (simp add: app_inv_def relationship_counters_ok_update author_counters_ok_update
      accounts_ok_update local_names_ok_update caches_ok_update profile_frameD next_id_ok_def)

lemma inv_set_reachability_status: "keeps db_inv (set_reachability_status now actor_id b)"
proof -
  have frame: "profile_frame (\<lambda>ap. ap\<lparr>ap_unreachable_since := x\<rparr>)" for x
    by (simp add: profile_frame_def)
  show ?thesis
    unfolding set_reachability_status_def
    by (intro keeps_if keeps_inv_execute)
      (auto simp: db_inv_def frame intro!: inv_profile_columns [of "\<lambda>x ap. ap\<lparr>ap_unreachable_since := x\<rparr>"])
qed

text \<open>The counter updates: one row changes, and the call fails when there is none.\<close>

lemma change_profile_ok:
  "change_profile i f db = (Inr ap', db') \<longleftrightarrow>
     (\<exists>ap. filter (\<lambda>ap. ap_id ap = i) (t_actor_profile db) = [ap] \<and> ap' = f ap) \<and> wf_db db' \<and>
     db' = db\<lparr>t_actor_profile := update_where (\<lambda>ap. ap_id ap = i) f (t_actor_profile db)\<rparr>"
  unfolding change_profile_def by (auto simp: db_ok update_profiles_def Cons_eq_map_conv)

lemmas update_count_ok [db_ok] =
  change_profile_ok [where f = "\<lambda>ap. ap\<lparr>ap_follower_count := ap_follower_count ap + change\<rparr>" for change,
    folded update_follower_count_def]
  change_profile_ok [where f = "\<lambda>ap. ap\<lparr>ap_following_count := ap_following_count ap + change\<rparr>" for change,
    folded update_following_count_def]
  change_profile_ok [where f = "\<lambda>ap. ap\<lparr>ap_subscriber_count := ap_subscriber_count ap + change\<rparr>" for change,
    folded update_subscriber_count_def]
  change_profile_ok [where f = "\<lambda>ap. ap\<lparr>ap_post_count := ap_post_count ap + change\<rparr>" for change,
    folded update_post_count_def]

end
