(* ===== verification/Sample.thy ===== *)
theory Sample
  imports Invariants
begin

text \<open>
  A small database that satisfies the invariant: two local accounts, one follows the other, a
  public post with a reply, a direct reply to that and a reaction. The witnesses of the properties use it.
\<close>

definition sample_profile :: "uuid \<Rightarrow> string \<Rightarrow> int \<Rightarrow> int \<Rightarrow> int \<Rightarrow> db_actor_profile" where
  "sample_profile i name followers following posts =
     \<lparr>ap_id = i, ap_username = name, ap_hostname = None, ap_display_name = None, ap_bio = None,
      ap_bio_source = None, ap_avatar = None, ap_banner = None,
      ap_manually_approves_followers = False, ap_identity_proofs = [], ap_payment_options = [],
      ap_extra_fields = [], ap_aliases = [], ap_follower_count = followers,
      ap_following_count = following, ap_subscriber_count = 0, ap_post_count = posts,
      ap_emojis = [], ap_actor_json = None, ap_created_at = 0, ap_updated_at = 0,
      ap_unreachable_since = None\<rparr>"

definition sample_user :: "uuid \<Rightarrow> db_user" where
  "sample_user i =
     \<lparr>ua_id = i, ua_wallet_address = None, ua_password_hash = None, ua_private_key = '''',
      ua_invite_code = None, ua_user_role = NormalUser, ua_client_config = [], ua_created_at = 0\<rparr>"

definition sample_post :: "uuid \<Rightarrow> uuid \<Rightarrow> uuid option \<Rightarrow> visibility \<Rightarrow> int \<Rightarrow> int \<Rightarrow> db_post" where
  "sample_post i a parent v replies reactions =
     \<lparr>po_id = i, po_author_id = a, po_content = ''post'', po_in_reply_to_id = parent,
      po_repost_of_id = None, po_visibility = v, po_is_sensitive = False,
      po_reply_count = replies, po_reaction_count = reactions, po_repost_count = 0,
      po_object_id = None, po_ipfs_cid = None, po_token_id = None, po_token_tx_id = None,
      po_created_at = 0, po_updated_at = None\<rparr>"

definition sample_db :: database where
  "sample_db = empty_database
     \<lparr>t_actor_profile := [sample_profile 1 ''alice'' 1 0 2, sample_profile 2 ''bob'' 0 1 1],
      t_user_account := [sample_user 1, sample_user 2],
      t_relationship := [\<lparr>rl_id = 1, rl_source_id = 2, rl_target_id = 1, rl_relationship_type = Follow\<rparr>],
      t_post := [sample_post 10 1 None Public 1 1, sample_post 11 2 (Some 10) Public 1 0,
        sample_post 12 1 (Some 11) Direct 0 0],
      t_post_reaction := [\<lparr>pr_id = 20, pr_author_id = 2, pr_post_id = 10, pr_activity_id = None,
        pr_created_at = 0\<rparr>],
      t_mention := [(12, 2)],
      next_id := 2\<rparr>"

lemmas sample_defs = sample_db_def sample_profile_def sample_user_def sample_post_def empty_database_def

lemma sample_wf: "wf_db sample_db"
  unfolding wf_db_unfold sample_defs
  by (simp add: profile_keys_ok_def user_keys_ok_def relationship_keys_ok_def
      follow_request_keys_ok_def post_keys_ok_def reaction_keys_ok_def emoji_keys_ok_def
      i32_in_range_def profile_check_def post_check_def ap_acct_def ap_actor_id_def repost_key_def)

lemma sample_inv: "db_inv sample_db"
  using sample_wf unfolding db_inv_def app_inv_def
  by (simp add: sample_defs relationship_counters_ok_def author_counters_ok_def post_counters_ok_def
      threads_ok_def thread_row_ok_def reactions_ok_def accounts_ok_def is_local_def local_names_ok_def to_lowercase_def
      to_lower_def is_upper_def notifications_ok_def caches_ok_def joined_emojis_def next_id_ok_def row_counts)

lemma sample_tables:
  "t_actor_profile sample_db = [sample_profile 1 ''alice'' 1 0 2, sample_profile 2 ''bob'' 0 1 1]"
  "t_user_account sample_db = [sample_user 1, sample_user 2]"
  "t_post sample_db = [sample_post 10 1 None Public 1 1, sample_post 11 2 (Some 10) Public 1 0,
     sample_post 12 1 (Some 11) Direct 0 0]"
  "t_follow_request sample_db = []" "t_notification sample_db = []" "next_id sample_db = 2"
  "t_mention sample_db = [(12, 2)]"
  by (simp_all add: sample_db_def empty_database_def)

text \<open>
  A second database: a local account and a remote profile with two posts, of which the one that
  was written first was fetched last and so has the higher identifier.
\<close>

definition remote_actor :: db_actor where
  "remote_actor = \<lparr>da_object_type = ''Person'', da_id = ''https://r.example/u'', da_inbox = ''https://r.example/u/inbox'',
     da_outbox = ''https://r.example/u/outbox'', da_followers = None, da_subscribers = None, da_url = None,
     da_public_key = \<lparr>pk_id = ''k'', pk_owner = ''o'', pk_public_key_pem = ''p''\<rparr>\<rparr>"

definition remote_post :: "uuid \<Rightarrow> string \<Rightarrow> datetime \<Rightarrow> db_post" where
  "remote_post i object_id t = (sample_post i 3 None Public 0 0)\<lparr>po_object_id := Some object_id, po_created_at := t\<rparr>"

definition remote_profile :: db_actor_profile where
  "remote_profile = (sample_profile 3 ''carol'' 0 0 2)\<lparr>ap_hostname := Some ''r.example'', ap_actor_json := Some remote_actor\<rparr>"

definition remote_db :: database where
  "remote_db = empty_database
     \<lparr>t_instance := [''r.example''],
      t_actor_profile := [sample_profile 1 ''alice'' 0 0 0, remote_profile],
      t_user_account := [sample_user 1],
      t_post := [remote_post 30 ''https://r.example/b'' 5, remote_post 31 ''https://r.example/a'' 0]\<rparr>"

lemma remote_tables:
  "t_actor_profile remote_db = [sample_profile 1 ''alice'' 0 0 0, remote_profile]"
  "t_post remote_db = [remote_post 30 ''https://r.example/b'' 5, remote_post 31 ''https://r.example/a'' 0]"
  "t_user_account remote_db = [sample_user 1]" "t_mention remote_db = []" "t_relationship remote_db = []"
  "t_post_reaction remote_db = []" "t_post_link remote_db = []" "t_media_attachment remote_db = []"
  "t_post_tag remote_db = []" "t_post_emoji remote_db = []"
  by (simp_all add: remote_db_def empty_database_def)

lemmas remote_rows = remote_post_def remote_profile_def remote_actor_def sample_post_def sample_profile_def sample_user_def

lemma remote_wf: "wf_db remote_db"
  unfolding wf_db_unfold remote_db_def empty_database_def remote_rows
  by (simp add: profile_keys_ok_def user_keys_ok_def relationship_keys_ok_def
      follow_request_keys_ok_def post_keys_ok_def reaction_keys_ok_def emoji_keys_ok_def
      i32_in_range_def profile_check_def post_check_def ap_acct_def ap_actor_id_def repost_key_def)

lemma remote_inv: "db_inv remote_db"
  using remote_wf unfolding db_inv_def app_inv_def
  by (simp add: remote_db_def empty_database_def remote_rows relationship_counters_ok_def author_counters_ok_def post_counters_ok_def
      threads_ok_def thread_row_ok_def reactions_ok_def accounts_ok_def is_local_def local_names_ok_def to_lowercase_def
      to_lower_def is_upper_def notifications_ok_def caches_ok_def joined_emojis_def next_id_ok_def row_counts)

end
