(* ===== verification/Profile_Deletion.thy ===== *)
theory Profile_Deletion
  imports Profile_Laws Deletion Sample
begin

text \<open>
  \<open>delete_profile\<close> on an existing profile: it succeeds, keeps the invariant and returns only
  files and objects that nothing uses. The seven counter updates are written as updates of all
  rows, so that the state before the \<open>DELETE\<close> is one map over the profiles and one over the posts.
\<close>

definition sub_posts :: "uuid list \<Rightarrow> database \<Rightarrow> db_actor_profile \<Rightarrow> db_actor_profile" where
  "sub_posts D db = (\<lambda>ap. ap\<lparr>ap_post_count := ap_post_count ap -
     count_where (\<lambda>po. po_id po \<in> set D \<and> po_author_id po = ap_id ap) (t_post db)\<rparr>)"

definition sub_followers :: "uuid \<Rightarrow> database \<Rightarrow> db_actor_profile \<Rightarrow> db_actor_profile" where
  "sub_followers i db = (\<lambda>ap. ap\<lparr>ap_follower_count := ap_follower_count ap -
     count_where (\<lambda>r. rl_source_id r = i \<and> rl_target_id r = ap_id ap \<and> rl_relationship_type r = Follow)
       (t_relationship db)\<rparr>)"

definition sub_following :: "uuid \<Rightarrow> database \<Rightarrow> db_actor_profile \<Rightarrow> db_actor_profile" where
  "sub_following i db = (\<lambda>ap. ap\<lparr>ap_following_count := ap_following_count ap -
     count_where (\<lambda>r. rl_source_id r = ap_id ap \<and> rl_target_id r = i \<and> rl_relationship_type r = Follow)
       (t_relationship db)\<rparr>)"

definition sub_subscribers :: "uuid \<Rightarrow> database \<Rightarrow> db_actor_profile \<Rightarrow> db_actor_profile" where
  "sub_subscribers i db = (\<lambda>ap. ap\<lparr>ap_subscriber_count := ap_subscriber_count ap -
     count_where (\<lambda>r. rl_source_id r = i \<and> rl_target_id r = ap_id ap \<and>
       rl_relationship_type r = Subscription) (t_relationship db)\<rparr>)"

definition sub_replies :: "uuid \<Rightarrow> database \<Rightarrow> db_post \<Rightarrow> db_post" where
  "sub_replies i db = (\<lambda>po. po\<lparr>po_reply_count := po_reply_count po -
     count_where (\<lambda>q. po_author_id q = i \<and> po_in_reply_to_id q = Some (po_id po)) (t_post db)\<rparr>)"

definition sub_reactions :: "uuid \<Rightarrow> database \<Rightarrow> db_post \<Rightarrow> db_post" where
  "sub_reactions i db = (\<lambda>po. po\<lparr>po_reaction_count := po_reaction_count po -
     count_where (\<lambda>r. pr_post_id r = po_id po \<and> pr_author_id r = i) (t_post_reaction db)\<rparr>)"

definition sub_reposts :: "uuid \<Rightarrow> database \<Rightarrow> db_post \<Rightarrow> db_post" where
  "sub_reposts i db = (\<lambda>po. po\<lparr>po_repost_count := po_repost_count po -
     count_where (\<lambda>q. po_repost_of_id q = Some (po_id po) \<and> po_author_id q = i) (t_post db)\<rparr>)"

lemmas sub_defs = sub_posts_def sub_followers_def sub_following_def sub_subscribers_def
  sub_replies_def sub_reactions_def sub_reposts_def

text \<open>The statements as maps: an update of the referenced rows only is an update of all rows.\<close>

lemma subtract_profile_maps:
  "subtract_post_counts D db =
     ((), db\<lparr>t_actor_profile := map (sub_posts D db) (t_actor_profile db)\<rparr>)"
  "wf_db db \<Longrightarrow> subtract_follower_counts i db =
     ((), db\<lparr>t_actor_profile := map (sub_followers i db) (t_actor_profile db)\<rparr>)"
  "wf_db db \<Longrightarrow> subtract_following_counts i db =
     ((), db\<lparr>t_actor_profile := map (sub_following i db) (t_actor_profile db)\<rparr>)"
  "wf_db db \<Longrightarrow> subtract_subscriber_counts i db =
     ((), db\<lparr>t_actor_profile := map (sub_subscribers i db) (t_actor_profile db)\<rparr>)"
proof -
  have zero: "\<not> exists_where p rs \<Longrightarrow> count_where p rs = 0" for p :: "'a \<Rightarrow> bool" and rs
    by (simp add: count_where_False)
  show "subtract_post_counts D db =
     ((), db\<lparr>t_actor_profile := map (sub_posts D db) (t_actor_profile db)\<rparr>)"
    unfolding subtract_post_counts_def update_profiles_simps sub_posts_def
    by (subst update_where_map [of _ _ _ "\<lambda>ap. ap\<lparr>ap_post_count := ap_post_count ap -
     count_where (\<lambda>po. po_id po \<in> set D \<and> po_author_id po = ap_id ap) (t_post db)\<rparr>"])
      (auto simp: count_where_False)
  assume wf: "wf_db db"
  note one = count_unique_key [OF wf_relationship_keys [OF wf]]
  have "count_where (\<lambda>r. rl_source_id r = i \<and> rl_target_id r = a \<and> rl_relationship_type r = t) (t_relationship db) =
      (if \<exists>r \<in> set (t_relationship db). rl_source_id r = i \<and> rl_target_id r = a \<and> rl_relationship_type r = t then 1 else 0)"
    for a t by (rule one [where v = "(i, a, t)"]) (simp add: relationship_key_def)
  then show "subtract_follower_counts i db =
     ((), db\<lparr>t_actor_profile := map (sub_followers i db) (t_actor_profile db)\<rparr>)"
    and "subtract_subscriber_counts i db =
     ((), db\<lparr>t_actor_profile := map (sub_subscribers i db) (t_actor_profile db)\<rparr>)"
    unfolding subtract_follower_counts_def subtract_subscriber_counts_def update_profiles_simps
      sub_followers_def sub_subscribers_def
    by (simp_all add: update_where_def)
  have "count_where (\<lambda>r. rl_source_id r = a \<and> rl_target_id r = i \<and> rl_relationship_type r = t) (t_relationship db) =
      (if \<exists>r \<in> set (t_relationship db). rl_source_id r = a \<and> rl_target_id r = i \<and> rl_relationship_type r = t then 1 else 0)"
    for a t by (rule one [where v = "(a, i, t)"]) (simp add: relationship_key_def)
  then show "subtract_following_counts i db =
     ((), db\<lparr>t_actor_profile := map (sub_following i db) (t_actor_profile db)\<rparr>)"
    unfolding subtract_following_counts_def update_profiles_simps sub_following_def
    by (simp add: update_where_def)
qed

lemma subtract_post_maps:
  "subtract_reply_counts i db = ((), db\<lparr>t_post := map (sub_replies i db) (t_post db)\<rparr>)"
  "wf_db db \<Longrightarrow> subtract_reaction_counts i db = ((), db\<lparr>t_post := map (sub_reactions i db) (t_post db)\<rparr>)"
  "wf_db db \<Longrightarrow> subtract_repost_counts i db = ((), db\<lparr>t_post := map (sub_reposts i db) (t_post db)\<rparr>)"
proof -
  show "subtract_reply_counts i db = ((), db\<lparr>t_post := map (sub_replies i db) (t_post db)\<rparr>)"
    unfolding subtract_reply_counts_def update_posts_simps sub_replies_def
    by (subst update_where_map [of _ _ _ "\<lambda>po. po\<lparr>po_reply_count := po_reply_count po -
     count_where (\<lambda>q. po_author_id q = i \<and> po_in_reply_to_id q = Some (po_id po)) (t_post db)\<rparr>"])
      (auto simp: count_where_False)
  assume wf: "wf_db db"
  have "count_where (\<lambda>r. pr_post_id r = p \<and> pr_author_id r = i) (t_post_reaction db) =
      (if \<exists>r \<in> set (t_post_reaction db). pr_post_id r = p \<and> pr_author_id r = i then 1 else 0)" for p
    by (rule count_unique_key [OF wf_reaction_keys [OF wf], where v = "(i, p)"]) (simp add: reaction_key_def)
  then show "subtract_reaction_counts i db = ((), db\<lparr>t_post := map (sub_reactions i db) (t_post db)\<rparr>)"
    unfolding subtract_reaction_counts_def update_posts_simps sub_reactions_def
    by (simp add: update_where_def)
  have "count_where (\<lambda>q. po_repost_of_id q = Some p \<and> po_author_id q = i) (t_post db) =
      (if \<exists>q \<in> set (t_post db). po_repost_of_id q = Some p \<and> po_author_id q = i then 1 else 0)" for p
    by (rule count_unique_opt_key [OF wf_repost_keys [OF wf], where v = "(i, p)"]) (simp add: repost_key_def)
  then show "subtract_repost_counts i db = ((), db\<lparr>t_post := map (sub_reposts i db) (t_post db)\<rparr>)"
    unfolding subtract_repost_counts_def update_posts_simps sub_reposts_def
    by (simp add: update_where_def)
qed

lemma profile_counts_bound:
  assumes inv: "db_inv db" and ap: "ap \<in> set (t_actor_profile db)"
  shows "count_where (\<lambda>po. po_id po \<in> set D \<and> po_author_id po = ap_id ap) (t_post db) \<le> ap_post_count ap"
    and "count_where (\<lambda>r. rl_source_id r = i \<and> rl_target_id r = ap_id ap \<and> rl_relationship_type r = Follow)
       (t_relationship db) \<le> ap_follower_count ap"
    and "count_where (\<lambda>r. rl_source_id r = ap_id ap \<and> rl_target_id r = i \<and> rl_relationship_type r = Follow)
       (t_relationship db) \<le> ap_following_count ap"
    and "count_where (\<lambda>r. rl_source_id r = i \<and> rl_target_id r = ap_id ap \<and> rl_relationship_type r = Subscription)
       (t_relationship db) \<le> ap_subscriber_count ap"
  using app_invD(1,2) [OF db_invD(2) [OF inv]] ap
  by (auto simp: relationship_counters_ok_def author_counters_ok_def row_counts intro!: count_where_mono)

lemma post_counts_bound:
  assumes inv: "db_inv db" and po: "po \<in> set (t_post db)"
  shows "count_where (\<lambda>q. po_author_id q = i \<and> po_in_reply_to_id q = Some (po_id po)) (t_post db) \<le> po_reply_count po"
    and "count_where (\<lambda>r. pr_post_id r = po_id po \<and> pr_author_id r = i) (t_post_reaction db) \<le> po_reaction_count po"
    and "count_where (\<lambda>q. po_repost_of_id q = Some (po_id po) \<and> po_author_id q = i) (t_post db) \<le> po_repost_count po"
  using app_invD(3) [OF db_invD(2) [OF inv]] po
  by (auto simp: post_counters_ok_def row_counts intro!: count_where_mono)

definition all_profile_subs :: "uuid \<Rightarrow> uuid list \<Rightarrow> database \<Rightarrow> db_actor_profile \<Rightarrow> db_actor_profile" where
  "all_profile_subs i D db = (\<lambda>ap. sub_subscribers i db (sub_following i db (sub_followers i db (sub_posts D db ap))))"

definition all_post_subs :: "uuid \<Rightarrow> database \<Rightarrow> db_post \<Rightarrow> db_post" where
  "all_post_subs i db = (\<lambda>po. sub_reposts i db (sub_reactions i db (sub_replies i db po)))"

definition before_delete :: "uuid \<Rightarrow> uuid list \<Rightarrow> database \<Rightarrow> database" where
  "before_delete i D db = db\<lparr>t_actor_profile := map (all_profile_subs i D db) (t_actor_profile db),
     t_post := map (all_post_subs i db) (t_post db)\<rparr>"

lemma sub_keys:
  "keeps_profile_keys (\<lambda>ap. ap\<lparr>ap_post_count := ap_post_count ap - n1 (ap_id ap)\<rparr>)"
  "keeps_profile_keys (\<lambda>ap. ap\<lparr>ap_follower_count := ap_follower_count ap - n1 (ap_id ap)\<rparr>)"
  "keeps_profile_keys (\<lambda>ap. ap\<lparr>ap_following_count := ap_following_count ap - n1 (ap_id ap)\<rparr>)"
  "keeps_profile_keys (\<lambda>ap. ap\<lparr>ap_subscriber_count := ap_subscriber_count ap - n1 (ap_id ap)\<rparr>)"
  "keeps_post_keys (\<lambda>po. po\<lparr>po_reply_count := po_reply_count po - n1 (po_id po)\<rparr>)"
  "keeps_post_keys (\<lambda>po. po\<lparr>po_reaction_count := po_reaction_count po - n1 (po_id po)\<rparr>)"
  "keeps_post_keys (\<lambda>po. po\<lparr>po_repost_count := po_repost_count po - n1 (po_id po)\<rparr>)"
  by (simp_all add: keeps_profile_keys_def keeps_post_keys_def post_frame_def)

lemma keeps_keys_comp:
  "keeps_profile_keys g \<Longrightarrow> keeps_profile_keys g' \<Longrightarrow> keeps_profile_keys (\<lambda>ap. g (g' ap))"
  "keeps_post_keys h \<Longrightarrow> keeps_post_keys h' \<Longrightarrow> keeps_post_keys (\<lambda>po. h (h' po))"
  by (simp_all add: keeps_profile_keys_def keeps_post_keys_def post_frame_def)

text \<open>The seven statements succeed one after the other.\<close>

lemma wf_profile_subs:
  assumes inv: "db_inv db"
  shows "wf_db (db\<lparr>t_actor_profile := map (sub_posts D db) (t_actor_profile db)\<rparr>)"
    "wf_db (db\<lparr>t_actor_profile := map (\<lambda>ap. sub_followers i db (sub_posts D db ap)) (t_actor_profile db)\<rparr>)"
    "wf_db (db\<lparr>t_actor_profile := map (\<lambda>ap. sub_following i db (sub_followers i db (sub_posts D db ap))) (t_actor_profile db)\<rparr>)"
    "wf_db (db\<lparr>t_actor_profile := map (all_profile_subs i D db) (t_actor_profile db)\<rparr>)"
  unfolding all_profile_subs_def sub_defs
  using profile_counts_bound [OF inv] wf_profile_row [OF db_inv_wf [OF inv]]
  by (auto intro!: wf_map_profiles db_inv_wf [OF inv] simp: lower_profile_def profile_check_def keeps_profile_keys_def)

lemma wf_post_subs:
  assumes inv: "db_inv db" and wf: "wf_db (db\<lparr>t_actor_profile := aps\<rparr>)"
  shows "wf_db (db\<lparr>t_actor_profile := aps, t_post := map (sub_replies i db) (t_post db)\<rparr>)"
    "wf_db (db\<lparr>t_actor_profile := aps, t_post := map (\<lambda>po. sub_reactions i db (sub_replies i db po)) (t_post db)\<rparr>)"
    "wf_db (db\<lparr>t_actor_profile := aps, t_post := map (all_post_subs i db) (t_post db)\<rparr>)"
proof -
  note bounds = post_counts_bound [OF inv] wf_post_row [OF db_inv_wf [OF inv]]
  note w = wf_map_posts [OF wf, simplified]
  show "wf_db (db\<lparr>t_actor_profile := aps, t_post := map (sub_replies i db) (t_post db)\<rparr>)"
    "wf_db (db\<lparr>t_actor_profile := aps, t_post := map (\<lambda>po. sub_reactions i db (sub_replies i db po)) (t_post db)\<rparr>)"
    "wf_db (db\<lparr>t_actor_profile := aps, t_post := map (all_post_subs i db) (t_post db)\<rparr>)"
    unfolding all_post_subs_def sub_defs using bounds
    by (auto intro!: w simp: lower_post_def post_check_def keeps_post_keys_def post_frame_def)
qed

lemma sub_cong:
  "sub_posts D (db\<lparr>t_actor_profile := x\<rparr>) = sub_posts D db"
  "sub_followers i (db\<lparr>t_actor_profile := x\<rparr>) = sub_followers i db"
  "sub_following i (db\<lparr>t_actor_profile := x\<rparr>) = sub_following i db"
  "sub_subscribers i (db\<lparr>t_actor_profile := x\<rparr>) = sub_subscribers i db"
  "sub_replies i (db\<lparr>t_actor_profile := x\<rparr>) = sub_replies i db"
  "sub_reactions i (db\<lparr>t_actor_profile := x, t_post := y\<rparr>) = sub_reactions i db"
  by (simp_all add: sub_defs)

lemma sub_reposts_cong:
  "keeps_post_keys h \<Longrightarrow> sub_reposts i (db\<lparr>t_actor_profile := x, t_post := map h (t_post db)\<rparr>) = sub_reposts i db"
  by (simp add: sub_defs count_where_map keeps_post_keys_def post_frame_def)

lemma subtract_runs:
  fixes i :: uuid and D :: "uuid list"
  assumes inv: "db_inv db"
  defines "s1 \<equiv> db\<lparr>t_actor_profile := map (sub_posts D db) (t_actor_profile db)\<rparr>"
  defines "s2 \<equiv> db\<lparr>t_actor_profile := map (\<lambda>ap. sub_followers i db (sub_posts D db ap)) (t_actor_profile db)\<rparr>"
  defines "s3 \<equiv> db\<lparr>t_actor_profile := map (\<lambda>ap. sub_following i db (sub_followers i db (sub_posts D db ap))) (t_actor_profile db)\<rparr>"
  defines "s4 \<equiv> db\<lparr>t_actor_profile := map (all_profile_subs i D db) (t_actor_profile db)\<rparr>"
  defines "s5 \<equiv> s4\<lparr>t_post := map (sub_replies i db) (t_post db)\<rparr>"
  defines "s6 \<equiv> s4\<lparr>t_post := map (\<lambda>po. sub_reactions i db (sub_replies i db po)) (t_post db)\<rparr>"
  shows "execute (subtract_post_counts D) db = (Inr (), s1)"
    "execute (subtract_follower_counts i) s1 = (Inr (), s2)"
    "execute (subtract_following_counts i) s2 = (Inr (), s3)"
    "execute (subtract_subscriber_counts i) s3 = (Inr (), s4)"
    "execute (subtract_reply_counts i) s4 = (Inr (), s5)"
    "execute (subtract_reaction_counts i) s5 = (Inr (), s6)"
    "execute (subtract_repost_counts i) s6 = (Inr (), before_delete i D db)"
    "wf_db (before_delete i D db)"
proof -
  have wf: "wf_db s1" "wf_db s2" "wf_db s3" "wf_db s4"
    using wf_profile_subs [OF inv] by (simp_all add: s1_def s2_def s3_def s4_def)
  have wf': "wf_db s5" "wf_db s6" "wf_db (before_delete i D db)"
    using wf_post_subs [OF inv wf(4) [unfolded s4_def]] by (simp_all add: s4_def s5_def s6_def before_delete_def)
  have h: "keeps_post_keys (\<lambda>po. sub_reactions i db (sub_replies i db po))"
    by (simp add: sub_defs keeps_post_keys_def post_frame_def)
  show "execute (subtract_post_counts D) db = (Inr (), s1)"
    using wf by (simp add: execute_run subtract_profile_maps s1_def)
  show "execute (subtract_follower_counts i) s1 = (Inr (), s2)"
    using wf by (simp add: execute_run subtract_profile_maps s1_def s2_def sub_cong o_def)
  show "execute (subtract_following_counts i) s2 = (Inr (), s3)"
    using wf by (simp add: execute_run subtract_profile_maps s2_def s3_def sub_cong o_def)
  show "execute (subtract_subscriber_counts i) s3 = (Inr (), s4)"
    using wf by (simp add: execute_run subtract_profile_maps s3_def s4_def sub_cong o_def all_profile_subs_def)
  show "execute (subtract_reply_counts i) s4 = (Inr (), s5)"
    using wf wf' by (simp add: execute_run subtract_post_maps s4_def s5_def sub_cong)
  show "execute (subtract_reaction_counts i) s5 = (Inr (), s6)"
    using wf wf' by (simp add: execute_run subtract_post_maps s4_def s5_def s6_def sub_cong o_def)
  show "execute (subtract_repost_counts i) s6 = (Inr (), before_delete i D db)"
    using wf wf' h by (simp add: execute_run subtract_post_maps s4_def s6_def before_delete_def sub_reposts_cong
        o_def all_post_subs_def)
  show "wf_db (before_delete i D db)" by (rule wf'(3))
qed

lemma all_subs_keys:
  "ap_id (all_profile_subs i D db ap) = ap_id ap" "ap_username (all_profile_subs i D db ap) = ap_username ap"
  "ap_hostname (all_profile_subs i D db ap) = ap_hostname ap"
  "ap_actor_json (all_profile_subs i D db ap) = ap_actor_json ap" "ap_emojis (all_profile_subs i D db ap) = ap_emojis ap"
  "is_local (all_profile_subs i D db ap) = is_local ap"
  "po_id (all_post_subs i db po) = po_id po" "po_author_id (all_post_subs i db po) = po_author_id po"
  "po_in_reply_to_id (all_post_subs i db po) = po_in_reply_to_id po"
  "po_repost_of_id (all_post_subs i db po) = po_repost_of_id po" "po_visibility (all_post_subs i db po) = po_visibility po"
  "post_frame (all_post_subs i db)"
  by (simp_all add: all_profile_subs_def all_post_subs_def sub_defs is_local_def post_frame_def)

lemma all_subs_counts:
  "ap_post_count (all_profile_subs i D db ap) = ap_post_count ap -
     count_where (\<lambda>po. po_id po \<in> set D \<and> po_author_id po = ap_id ap) (t_post db)"
  "ap_follower_count (all_profile_subs i D db ap) = ap_follower_count ap -
     count_where (\<lambda>r. rl_source_id r = i \<and> rl_target_id r = ap_id ap \<and> rl_relationship_type r = Follow) (t_relationship db)"
  "ap_following_count (all_profile_subs i D db ap) = ap_following_count ap -
     count_where (\<lambda>r. rl_source_id r = ap_id ap \<and> rl_target_id r = i \<and> rl_relationship_type r = Follow) (t_relationship db)"
  "ap_subscriber_count (all_profile_subs i D db ap) = ap_subscriber_count ap -
     count_where (\<lambda>r. rl_source_id r = i \<and> rl_target_id r = ap_id ap \<and> rl_relationship_type r = Subscription) (t_relationship db)"
  "po_reply_count (all_post_subs i db po) = po_reply_count po -
     count_where (\<lambda>q. po_author_id q = i \<and> po_in_reply_to_id q = Some (po_id po)) (t_post db)"
  "po_reaction_count (all_post_subs i db po) = po_reaction_count po -
     count_where (\<lambda>r. pr_post_id r = po_id po \<and> pr_author_id r = i) (t_post_reaction db)"
  "po_repost_count (all_post_subs i db po) = po_repost_count po -
     count_where (\<lambda>q. po_repost_of_id q = Some (po_id po) \<and> po_author_id q = i) (t_post db)"
  by (simp_all add: all_profile_subs_def all_post_subs_def sub_defs)

text \<open>The state after the \<open>DELETE\<close>.\<close>

abbreviation doomed_posts :: "uuid \<Rightarrow> database \<Rightarrow> uuid list" where
  "doomed_posts i db \<equiv> post_context (t_post db) (posts_by i db)"

definition after_delete :: "uuid \<Rightarrow> database \<Rightarrow> database" where
  "after_delete i db = delete_profile_row i (before_delete i (doomed_posts i db) db)"

lemma after_delete_tables:
  fixes i :: uuid and db :: database
  defines "D \<equiv> doomed_posts i db"
  shows "t_actor_profile (after_delete i db) =
      delete_where (\<lambda>ap. ap_id ap = i) (map (all_profile_subs i D db) (t_actor_profile db))"
    "t_post (after_delete i db) = delete_where (\<lambda>po. po_id po \<in> set D) (map (all_post_subs i db) (t_post db))"
    "t_relationship (after_delete i db) =
      delete_where (\<lambda>r. rl_source_id r = i \<or> rl_target_id r = i) (t_relationship db)"
    "t_post_reaction (after_delete i db) =
      delete_where (\<lambda>r. pr_author_id r = i) (delete_where (\<lambda>r. pr_post_id r \<in> set D) (t_post_reaction db))"
    "t_user_account (after_delete i db) = delete_where (\<lambda>u. ua_id u = i) (t_user_account db)"
    "set (t_notification (after_delete i db)) \<subseteq> set (t_notification db)"
    "t_profile_emoji (after_delete i db) = delete_where (\<lambda>m. fst m = i) (t_profile_emoji db)"
    "t_emoji (after_delete i db) = t_emoji db" "next_id (after_delete i db) = next_id db"
proof -
  have "posts_by i (before_delete i D db) = posts_by i db"
    by (simp add: posts_by_def before_delete_def filter_map o_def all_subs_keys)
  moreover have "post_context (t_post (before_delete i D db)) ids = post_context (t_post db) ids" for ids
    by (simp add: before_delete_def update_where_True [symmetric] all_subs_keys)
  ultimately have D: "doomed_posts i (before_delete i D db) = D" by (simp add: D_def)
  note defs = after_delete_def delete_profile_row_def delete_profile_rows_def delete_user_rows_def
    delete_posts_cascade_def
  show "t_actor_profile (after_delete i db) =
      delete_where (\<lambda>ap. ap_id ap = i) (map (all_profile_subs i D db) (t_actor_profile db))"
    "t_post (after_delete i db) = delete_where (\<lambda>po. po_id po \<in> set D) (map (all_post_subs i db) (t_post db))"
    "t_relationship (after_delete i db) =
      delete_where (\<lambda>r. rl_source_id r = i \<or> rl_target_id r = i) (t_relationship db)"
    "t_post_reaction (after_delete i db) =
      delete_where (\<lambda>r. pr_author_id r = i) (delete_where (\<lambda>r. pr_post_id r \<in> set D) (t_post_reaction db))"
    "t_user_account (after_delete i db) = delete_where (\<lambda>u. ua_id u = i) (t_user_account db)"
    "set (t_notification (after_delete i db)) \<subseteq> set (t_notification db)"
    "t_profile_emoji (after_delete i db) = delete_where (\<lambda>m. fst m = i) (t_profile_emoji db)"
    "t_emoji (after_delete i db) = t_emoji db" "next_id (after_delete i db) = next_id db"
    using D by (auto simp add: defs D_def [symmetric] before_delete_def)
qed

lemma after_delete_inv:
  assumes inv: "db_inv db"
  shows "db_inv (after_delete i db)"
proof -
  let ?D = "doomed_posts i db"
  note t = after_delete_tables [of i db]
  note old = app_invD [OF db_invD(2) [OF inv]]
  note wf = db_inv_wf [OF inv]
  have own: "po_author_id po = i \<longleftrightarrow> po_id po \<in> set ?D"
    if "po \<in> set (t_post db)" and "po_in_reply_to_id po = Some p \<or> po_repost_of_id po = Some p"
      and "p \<notin> set ?D" for po p
  proof -
    have "po_id po \<in> set ?D \<longleftrightarrow> po_id po \<in> set (posts_by i db)"
      by (rule context_member [OF wf_post_ids [OF wf] old(4) that(1) refl that(2,3)])
    also have "\<dots> \<longleftrightarrow> po_author_id po = i"
      using that(1) distinct_map_unique [OF wf_post_ids [OF wf]] by (auto simp: posts_by_def)
    finally show ?thesis by simp
  qed
  have wf': "wf_db (after_delete i db)"
    unfolding after_delete_def by (intro wf_delete_profile_row subtract_runs(8) inv)
  have "relationship_counters_ok (t_actor_profile (after_delete i db)) (t_relationship (after_delete i db))"
    using old(1) unfolding t relationship_counters_ok_def
    by (auto simp: all_subs_keys all_subs_counts row_counts count_where_delete intro!: count_where_cong)
  moreover have "author_counters_ok (t_actor_profile (after_delete i db)) (t_post (after_delete i db))"
    using old(2) unfolding t author_counters_ok_def
    by (auto simp: all_subs_keys all_subs_counts row_counts count_where_delete count_where_map
        delete_where_map intro!: count_where_cong)
  moreover have "post_counters_ok (t_post (after_delete i db)) (t_post_reaction (after_delete i db))"
  proof -
    have "po_reply_count (all_post_subs i db po) = replies_to (po_id po) (t_post (after_delete i db)) \<and>
        po_repost_count (all_post_subs i db po) = reposts_of (po_id po) (t_post (after_delete i db)) \<and>
        po_reaction_count (all_post_subs i db po) = reactions_to (po_id po) (t_post_reaction (after_delete i db))"
      if po: "po \<in> set (t_post db)" and p: "po_id po \<notin> set ?D" for po
    proof (intro conjI)
      from old(3) po have c: "po_reply_count po = replies_to (po_id po) (t_post db)"
        "po_repost_count po = reposts_of (po_id po) (t_post db)"
        "po_reaction_count po = reactions_to (po_id po) (t_post_reaction db)"
        by (auto simp: post_counters_ok_def)
      show "po_reply_count (all_post_subs i db po) = replies_to (po_id po) (t_post (after_delete i db))"
        "po_repost_count (all_post_subs i db po) = reposts_of (po_id po) (t_post (after_delete i db))"
        using own p unfolding t
        by (auto simp: all_subs_keys all_subs_counts row_counts count_where_delete count_where_map
            delete_where_map c intro!: count_where_cong)
      have "count_where (\<lambda>r. pr_post_id r = po_id po \<and> pr_author_id r = i) (t_post_reaction db) =
          count_where (\<lambda>r. pr_post_id r = po_id po \<and> pr_author_id r = i)
            (delete_where (\<lambda>r. pr_post_id r \<in> set ?D) (t_post_reaction db))"
        "reactions_to (po_id po) (delete_where (\<lambda>r. pr_post_id r \<in> set ?D) (t_post_reaction db)) =
          reactions_to (po_id po) (t_post_reaction db)"
        using p by (auto simp: count_where_delete row_counts count_where_0_iff)
      then show "po_reaction_count (all_post_subs i db po) = reactions_to (po_id po) (t_post_reaction (after_delete i db))"
        unfolding t by (simp add: all_subs_counts c row_counts count_where_delete [of _ "\<lambda>r. pr_author_id r = i"])
    qed
    then show ?thesis unfolding t by (auto simp: post_counters_ok_def all_subs_keys)
  qed
  moreover have "threads_ok (t_post (after_delete i db))"
    using threads_ok_delete [OF old(4) closed_post_context, of "posts_by i db"] unfolding t
    by (simp add: delete_where_map all_subs_keys)
      (simp add: update_where_True [symmetric] threads_ok_update all_subs_keys)
  moreover have "reactions_ok (t_post (after_delete i db)) (t_post_reaction (after_delete i db))"
    using old(5) unfolding t by (auto simp: reactions_ok_def all_subs_keys)
  moreover have "accounts_ok {} (t_actor_profile (after_delete i db)) (t_user_account (after_delete i db))"
    using old(6) unfolding t by (auto simp: accounts_ok_def all_subs_keys)
  moreover have "local_names_ok (t_actor_profile (after_delete i db))"
    unfolding t by (intro local_names_delete)
      (simp add: update_where_True [symmetric] local_names_update all_subs_keys old(7))
  moreover have "notifications_ok (t_notification (after_delete i db))"
    using old(8) t(6) by (auto simp: notifications_ok_def)
  moreover have "caches_ok {} (t_actor_profile (after_delete i db)) (t_profile_emoji (after_delete i db)) (t_emoji (after_delete i db))"
    using old(9) unfolding t by (auto simp: caches_ok_def all_subs_keys joined_emojis_delete)
  moreover have "next_id_ok (after_delete i db)"
    using old(10) t(6) by (auto simp: next_id_ok_def t(3,9))
  ultimately show ?thesis using wf' by (simp add: db_inv_def app_inv_def)
qed

lemma delete_profile_run:
  assumes inv: "db_inv db" and i: "i \<in> profile_ids db"
  obtains q where "delete_profile i db = (Inr q, after_delete i db)" and "queue_unused (after_delete i db) q"
proof -
  let ?D = "doomed_posts i db"
  from i obtain ap where ap: "ap \<in> set (t_actor_profile db)" "i = ap_id ap" by auto
  have one: "length (filter (\<lambda>ap. ap_id ap = i) (t_actor_profile (before_delete i ?D db))) = 1"
    using filter_unique_key [OF wf_profile_ids [OF db_inv_wf [OF inv]] ap(1)] ap(2)
    by (simp add: before_delete_def filter_map o_def all_subs_keys)
  have wf': "wf_db (delete_profile_row i (before_delete i ?D db))"
    by (intro wf_delete_profile_row subtract_runs(8) inv)
  note runs = subtract_runs(1) [OF inv, where D = ?D] subtract_runs(2-7) [OF inv, where D = ?D and i = i]
  let ?q = "\<lparr>dq_files = remdups (filter (\<lambda>f. \<not> file_in_use (after_delete i db) f) (profile_files i ?D db)),
    dq_ipfs_objects = remdups (filter (\<lambda>c. \<not> ipfs_in_use (after_delete i db) c) (ipfs_objects_of ?D db))\<rparr>"
  have "delete_profile i db = (Inr ?q, after_delete i db)"
    unfolding delete_profile_def
    by (intro transaction_run bind_step [OF query_run] bind_step [where m = "execute _", OF runs(1)]
        bind_step [where m = "execute _", OF runs(2)] bind_step [where m = "execute _", OF runs(3)]
        bind_step [where m = "execute _", OF runs(4)] bind_step [where m = "execute _", OF runs(5)]
        bind_step [where m = "execute _", OF runs(6)] bind_step [where m = "execute _", OF runs(7)]
        bind_step [OF execute_run])
      (simp_all add: wf' [folded after_delete_def] one after_delete_def [symmetric] db_run)
  moreover have "queue_unused (after_delete i db) ?q" by (rule queue_unused_found)
  ultimately show thesis by (rule that)
qed

lemma delete_profile_absent:
  assumes "db_inv db" and "i \<notin> profile_ids db"
  shows "delete_profile i db = (Inl (NotFound ''profile''), db)"
proof -
  let ?D = "doomed_posts i db"
  note inv = assms(1)
  have none: "filter (\<lambda>ap. ap_id ap = i) (t_actor_profile (before_delete i ?D db)) = []"
    using assms(2) by (auto simp: before_delete_def filter_empty_conv all_subs_keys)
  have wf': "wf_db (delete_profile_row i (before_delete i ?D db))"
    by (intro wf_delete_profile_row subtract_runs(8) inv)
  note runs = subtract_runs(1) [OF inv, where D = ?D] subtract_runs(2-7) [OF inv, where D = ?D and i = i]
  show ?thesis
    unfolding delete_profile_def
    by (intro transaction_fail bind_step [OF query_run] bind_step [where m = "execute _", OF runs(1)]
        bind_step [where m = "execute _", OF runs(2)] bind_step [where m = "execute _", OF runs(3)]
        bind_step [where m = "execute _", OF runs(4)] bind_step [where m = "execute _", OF runs(5)]
        bind_step [where m = "execute _", OF runs(6)] bind_step [where m = "execute _", OF runs(7)]
        bind_step [OF execute_run])
      (simp_all add: wf' none throw_def)
qed

section \<open>Properties\<close>

lemma after_delete_posts:
  "wf_db db \<Longrightarrow> post_ids (after_delete i db) =
     {p \<in> post_ids db. \<not> descendant (t_post db) (po_id ` {po \<in> set (t_post db). po_author_id po = i}) p}"
  unfolding after_delete_tables
  by (subst image_delete_map) (auto simp: all_subs_keys set_post_context posts_by_def)

text \<open>
  C7: \<open>delete_profile\<close> of an existing profile always succeeds: no counter update in front of the
  \<open>DELETE\<close> can violate a \<open>CHECK\<close>. Afterwards the profile is gone with its posts, their replies and
  reposts at any depth, and its relationships, all cached counters of the remaining profiles and
  posts are exact, and the deletion queue holds only files and objects that no row uses.
\<close>

theorem delete_profile_correct:
  assumes "db_inv db" and "i \<in> profile_ids db"
  shows "\<exists>q db'. delete_profile i db = (Inr q, db') \<and> db_inv db' \<and> queue_unused db' q \<and>
    profile_ids db' = profile_ids db - {i} \<and> user_ids db' = user_ids db - {i} \<and>
    post_ids db' =
      {p \<in> post_ids db. \<not> descendant (t_post db) (po_id ` {po \<in> set (t_post db). po_author_id po = i}) p} \<and>
    t_relationship db' = filter (\<lambda>r. rl_source_id r \<noteq> i \<and> rl_target_id r \<noteq> i) (t_relationship db)"
proof -
  from delete_profile_run [OF assms] obtain q where
    q: "delete_profile i db = (Inr q, after_delete i db)" "queue_unused (after_delete i db) q" .
  have ids: "profile_ids (after_delete i db) = profile_ids db - {i}"
    "user_ids (after_delete i db) = user_ids db - {i}"
    unfolding after_delete_tables
    by (subst image_delete_map [where k = ap_id and q = "\<lambda>x. x = i"]) (auto simp: all_subs_keys)
  have rels: "t_relationship (after_delete i db) =
      filter (\<lambda>r. rl_source_id r \<noteq> i \<and> rl_target_id r \<noteq> i) (t_relationship db)"
    unfolding after_delete_tables by (simp add: delete_where_def)
  show ?thesis
    by (rule exI [of _ q], rule exI [of _ "after_delete i db"])
      (intro conjI q ids rels after_delete_inv after_delete_posts db_inv_wf assms(1))
qed

theorem delete_profile_correct_witness:
  "\<exists>q db'. delete_profile 2 sample_db = (Inr q, db') \<and> db_inv db' \<and> queue_unused db' q \<and>
     profile_ids db' = {1}"
proof -
  have "2 \<in> profile_ids sample_db" and "profile_ids sample_db - {2} = {1}"
    by (auto simp: sample_defs)
  with delete_profile_correct [OF sample_inv, of 2] show ?thesis by auto
qed

text \<open>
  \<open>delete_profile\<close> of an unknown profile returns \<open>NotFound\<close> and, since the transaction is
  dropped, changes nothing.
\<close>

theorem delete_profile_unknown:
  assumes "db_inv db" and "i \<notin> profile_ids db"
  shows "delete_profile i db = (Inl (NotFound ''profile''), db)"
  using assms by (rule delete_profile_absent)

theorem delete_profile_unknown_witness:
  "delete_profile 3 sample_db = (Inl (NotFound ''profile''), sample_db)"
  by (rule delete_profile_unknown [OF sample_inv]) (auto simp: sample_defs)

end
