(* ===== verification/Users.thy ===== *)
theory Users
  imports Profile_Laws "HOL-Library.AList"
begin

text \<open>
  Local accounts: roles and permissions, the account rows and invite codes
  (\<open>fedimovies-models/src/users/types.rs\<close>, \<open>users/queries.rs\<close>). The random invite code, the
  new identifier and the current time are arguments.
\<close>

section \<open>Roles\<close>

datatype permission =
    CreateFollowRequest
  | CreatePost
  | DeleteAnyPost
  | DeleteAnyProfile
  | ManageSubscriptionOptions

fun get_permissions :: "role \<Rightarrow> permission list" where
  "get_permissions Guest = []"
| "get_permissions NormalUser = [CreateFollowRequest, CreatePost, ManageSubscriptionOptions]"
| "get_permissions Admin =
     [CreateFollowRequest, CreatePost, DeleteAnyPost, DeleteAnyProfile, ManageSubscriptionOptions]"
| "get_permissions ReadOnlyUser = [CreateFollowRequest]"

definition has_permission :: "role \<Rightarrow> permission \<Rightarrow> bool" where
  "has_permission r p \<longleftrightarrow> p \<in> set (get_permissions r)"

section \<open>Users\<close>

record user =
  us_id :: uuid
  us_wallet_address :: "string option"
  us_password_hash :: "string option"
  us_private_key :: string
  us_role :: role
  us_client_config :: "(string \<times> json) list"
  us_profile :: db_actor_profile

record user_create_data =
  uc_username :: string
  uc_password_hash :: "string option"
  uc_private_key_pem :: string
  uc_wallet_address :: "string option"
  uc_invite_code :: "string option"
  uc_role :: role

definition user_of :: "db_user \<Rightarrow> db_actor_profile \<Rightarrow> user" where
  "user_of u ap =
     \<lparr>us_id = ua_id u, us_wallet_address = ua_wallet_address u,
      us_password_hash = ua_password_hash u, us_private_key = ua_private_key u,
      us_role = ua_user_role u, us_client_config = ua_client_config u, us_profile = ap\<rparr>"

text \<open>\<open>User::new\<close> asserts that the rows belong together; \<open>None\<close> is the panic.\<close>

definition user_new :: "db_user \<Rightarrow> db_actor_profile \<Rightarrow> user option" where
  "user_new u ap = (if ua_id u = ap_id ap then Some (user_of u ap) else None)"

definition can_create_post :: "user \<Rightarrow> bool" where
  "can_create_post u = has_permission (us_role u) CreatePost"

fun pkh_address :: "currency \<Rightarrow> identity_proof list \<Rightarrow> string option" where
  "pkh_address c [] = None"
| "pkh_address c (proof # proofs) =
     (case ip_issuer proof of
        Did_Pkh p \<Rightarrow>
          (case did_pkh_currency p of
             Some address_currency \<Rightarrow>
               if address_currency = c then Some (dp_address p) else pkh_address c proofs
           | None \<Rightarrow> pkh_address c proofs)
      | _ \<Rightarrow> pkh_address c proofs)"

definition public_wallet_address :: "user \<Rightarrow> currency \<Rightarrow> string option" where
  "public_wallet_address u c = pkh_address c (ap_identity_proofs (us_profile u))"

section \<open>Invite codes\<close>

definition create_invite_code :: "string \<Rightarrow> datetime \<Rightarrow> string option \<Rightarrow> string dbm" where
  "create_invite_code invite_code now note =
     andthen (execute (\<lambda>db. ((), db\<lparr>t_user_invite_code := t_user_invite_code db @
       [\<lparr>ic_code = invite_code, ic_used = False, ic_note = note, ic_created_at = now\<rparr>]\<rparr>)))
     (ret invite_code)"

definition get_invite_codes :: "db_invite_code list dbm" where
  "get_invite_codes = query (\<lambda>db. filter (\<lambda>c. \<not> ic_used c) (t_user_invite_code db))"

definition is_valid_invite_code :: "string \<Rightarrow> bool dbm" where
  "is_valid_invite_code invite_code =
     bind (query_opt (\<lambda>db. filter (\<lambda>c. ic_code c = invite_code \<and> \<not> ic_used c) (t_user_invite_code db)))
     (\<lambda>maybe_row. ret (maybe_row \<noteq> None))"

section \<open>Accounts\<close>

text \<open>\<open>user_account JOIN actor_profile USING (id)\<close>\<close>

definition account_rows :: "database \<Rightarrow> (db_user \<times> db_actor_profile) list" where
  "account_rows db =
     concat (map (\<lambda>u. map (Pair u) (filter (\<lambda>ap. ap_id ap = ua_id u) (t_actor_profile db)))
       (t_user_account db))"

lemma set_account_rows:
  "(u, ap) \<in> set (account_rows db) \<longleftrightarrow>
     u \<in> set (t_user_account db) \<and> ap \<in> set (t_actor_profile db) \<and> ap_id ap = ua_id u"
  by (auto simp: account_rows_def)

text \<open>The assertion of \<open>User::new\<close> holds for the rows of the join, so its callers cannot panic.\<close>

lemma user_new_joined: "(u, ap) \<in> set (account_rows db) \<Longrightarrow> user_new u ap = Some (user_of u ap)"
  by (simp add: set_account_rows user_new_def)

definition name_matches :: "string \<Rightarrow> db_user \<times> db_actor_profile \<Rightarrow> bool" where
  "name_matches username row \<longleftrightarrow> sql_ilike username (ap_username (snd row))"

definition take_invite_code :: "string option \<Rightarrow> unit dbm" where
  "take_invite_code maybe_code =
     (case maybe_code of
        Some invite_code \<Rightarrow>
          bind (execute (\<lambda>db.
            let p = (\<lambda>c. ic_code c = invite_code \<and> \<not> ic_used c)
            in (length (filter p (t_user_invite_code db)),
                db\<lparr>t_user_invite_code :=
                  update_where p (\<lambda>c. c\<lparr>ic_used := True\<rparr>) (t_user_invite_code db)\<rparr>)))
          (\<lambda>updated_count. if updated_count = 0 then throw (NotFound ''invite code'') else ret ())
      | None \<Rightarrow> ret ())"

definition new_user_profile :: "string \<Rightarrow> profile_create_data" where
  "new_user_profile username =
     \<lparr>pc_username = username, pc_hostname = None, pc_display_name = None, pc_bio = None,
      pc_avatar = None, pc_banner = None, pc_manually_approves_followers = False,
      pc_identity_proofs = [], pc_payment_options = [], pc_extra_fields = [], pc_aliases = [],
      pc_emojis = [], pc_actor_json = None\<rparr>"

definition new_account_row :: "uuid \<Rightarrow> datetime \<Rightarrow> user_create_data \<Rightarrow> db_user" where
  "new_account_row profile_id now d =
     \<lparr>ua_id = profile_id, ua_wallet_address = uc_wallet_address d,
      ua_password_hash = uc_password_hash d, ua_private_key = uc_private_key_pem d,
      ua_invite_code = uc_invite_code d, ua_user_role = uc_role d, ua_client_config = [],
      ua_created_at = now\<rparr>"

definition create_user_body :: "uuid \<Rightarrow> datetime \<Rightarrow> user_create_data \<Rightarrow> user dbm" where
  "create_user_body i now d = transaction (
     bind (query_opt (\<lambda>db. take 1 (filter (name_matches (uc_username d)) (account_rows db)))) (\<lambda>maybe_row.
     if maybe_row \<noteq> None then throw (AlreadyExists ''user'')
     else
       andthen (take_invite_code (uc_invite_code d))
       (bind (create_profile i now (new_user_profile (uc_username d))) (\<lambda>profile.
       bind (execute_catching ''user'' (\<lambda>db.
         let row = new_account_row (ap_id profile) now d
         in (row, db\<lparr>t_user_account := t_user_account db @ [row]\<rparr>))) (\<lambda>db_user.
       ret (user_of db_user profile))))))"

text \<open>The function asserts that a password or a wallet is given; \<open>None\<close> is the panic.\<close>

definition create_user :: "uuid \<Rightarrow> datetime \<Rightarrow> user_create_data \<Rightarrow> user dbm option" where
  "create_user i now d =
     (if uc_password_hash d \<noteq> None \<or> uc_wallet_address d \<noteq> None
      then Some (create_user_body i now d) else None)"

definition change_account :: "uuid \<Rightarrow> (db_user \<Rightarrow> db_user) \<Rightarrow> db_user list dbm" where
  "change_account user_id f =
     execute (\<lambda>db. (map f (filter (\<lambda>u. ua_id u = user_id) (t_user_account db)),
       db\<lparr>t_user_account := update_where (\<lambda>u. ua_id u = user_id) f (t_user_account db)\<rparr>))"

definition set_user_password :: "uuid \<Rightarrow> string \<Rightarrow> unit dbm" where
  "set_user_password user_id password_hash =
     bind (change_account user_id (\<lambda>u. u\<lparr>ua_password_hash := Some password_hash\<rparr>)) (\<lambda>rows.
     if length rows = 0 then throw (NotFound ''user'') else ret ())"

definition set_user_role :: "uuid \<Rightarrow> role \<Rightarrow> unit dbm" where
  "set_user_role user_id new_role =
     bind (change_account user_id (\<lambda>u. u\<lparr>ua_user_role := new_role\<rparr>)) (\<lambda>rows.
     if length rows = 0 then throw (NotFound ''user'') else ret ())"

text \<open>\<open>jsonb_set(client_config, ARRAY[name], value, true)\<close> on an object.\<close>

definition update_client_config :: "uuid \<Rightarrow> string \<Rightarrow> json \<Rightarrow> (string \<times> json) list dbm" where
  "update_client_config user_id client_name client_config_value =
     bind (change_account user_id (\<lambda>u. u\<lparr>ua_client_config :=
       AList.update client_name client_config_value (ua_client_config u)\<rparr>)) (\<lambda>rows.
     bind (opt_row rows) (\<lambda>maybe_row.
     bind (ok_or maybe_row (NotFound ''user'')) (\<lambda>row.
     ret (ua_client_config row))))"

section \<open>Lookups\<close>

definition find_user :: "(db_user \<times> db_actor_profile \<Rightarrow> bool) \<Rightarrow> user dbm" where
  "find_user p =
     bind (query_opt (\<lambda>db. filter p (account_rows db))) (\<lambda>maybe_row.
     bind (ok_or maybe_row (NotFound ''user'')) (\<lambda>row.
     ret (user_of (fst row) (snd row))))"

definition get_user_by_id :: "uuid \<Rightarrow> user dbm" where
  "get_user_by_id user_id = find_user (\<lambda>(u, ap). ua_id u = user_id)"

definition get_user_by_name :: "string \<Rightarrow> user dbm" where
  "get_user_by_name username =
     find_user (\<lambda>(u, ap). to_lowercase (ap_username ap) = to_lowercase username)"

definition is_registered_user :: "string \<Rightarrow> bool dbm" where
  "is_registered_user username =
     bind (query_opt (\<lambda>db. filter (\<lambda>(u, ap). ap_username ap = username) (account_rows db))) (\<lambda>maybe_row.
     ret (maybe_row \<noteq> None))"

definition get_user_by_login_address :: "string \<Rightarrow> user dbm" where
  "get_user_by_login_address wallet_address =
     find_user (\<lambda>(u, ap). ua_wallet_address u = Some wallet_address)"

definition get_user_by_did :: "(8 word list \<Rightarrow> string) \<Rightarrow> did \<Rightarrow> user dbm" where
  "get_user_by_did enc d = find_user (\<lambda>(u, ap). has_proof_by enc d ap)"

text \<open>\<open>None\<close> is the panic of \<open>DidPkh::from_address\<close> on a Monero address.\<close>

definition get_user_by_public_wallet_address ::
    "(8 word list \<Rightarrow> string) \<Rightarrow> currency \<Rightarrow> string \<Rightarrow> user dbm option" where
  "get_user_by_public_wallet_address enc c wallet_address =
     map_option (\<lambda>did_pkh. get_user_by_did enc (Did_Pkh did_pkh))
       (did_pkh_from_address c wallet_address)"

definition get_user_count :: "int dbm" where
  "get_user_count = query (\<lambda>db. int (length (t_user_account db)))"

end
