(* ===== verification/User_Laws.thy ===== *)
theory User_Laws
  imports Users Sample
begin

text \<open>
  The laws of accounts: which user a lookup finds, when an account can be created, that an invite
  code works once, and that every operation keeps the database invariant.
\<close>

section \<open>Appending one row\<close>

lemma unique_by_snoc:
  "unique_by k (rs @ [r]) \<longleftrightarrow> unique_by k rs \<and> (k r = None \<or> k r \<notin> k ` set rs)"
  by (induction rs) auto

lemma wf_append_profile:
  assumes wf: "wf_db db" and fresh: "ap_id ap \<notin> profile_ids db" "ap_acct ap \<notin> ap_acct ` set (t_actor_profile db)"
    and actor: "ap_actor_id ap = None" and host: "ap_hostname ap = None"
    and row: "profile_check ap" "profile_counts_in_range ap"
  shows "wf_db (db\<lparr>t_actor_profile := t_actor_profile db @ [ap]\<rparr>)"
proof -
  let ?db = "db\<lparr>t_actor_profile := t_actor_profile db @ [ap]\<rparr>"
  have "ranges_ok ?db" "checks_ok ?db"
    using wf row by (auto simp: wf_db_def ranges_ok_def checks_ok_def profile_counts_in_range_def)
  moreover have "profile_keys_ok (t_actor_profile db @ [ap])"
    using wf fresh actor by (simp add: wf_db_def unique_ok_def profile_keys_ok_def unique_by_snoc del: unique_by_append)
  then have "unique_ok ?db"
    using wf by (simp add: wf_db_def unique_ok_def token_keys_ok_def misc_keys_ok_def)
  moreover have "foreign_keys_ok ?db"
    using wf host by (auto simp: wf_db_def foreign_keys_ok_def profile_refs_ok_def user_refs_ok_def
        post_refs_ok_def split: prod.splits)
  ultimately show ?thesis by (simp add: wf_db_def)
qed

lemma wf_append_account:
  assumes wf: "wf_db db" and u: "ua_id u \<in> profile_ids db" "ua_id u \<notin> user_ids db"
    and wallet: "ua_wallet_address u = None \<or> ua_wallet_address u \<notin> ua_wallet_address ` set (t_user_account db)"
    and code: "ua_invite_code u = None \<or> ua_invite_code u \<notin> ua_invite_code ` set (t_user_account db)"
      "opt_in (ua_invite_code u) (ic_code ` set (t_user_invite_code db))"
  shows "wf_db (db\<lparr>t_user_account := t_user_account db @ [u]\<rparr>)"
proof -
  let ?db = "db\<lparr>t_user_account := t_user_account db @ [u]\<rparr>"
  have "ranges_ok ?db" "checks_ok ?db"
    using wf by (simp_all add: wf_db_def ranges_ok_def checks_ok_def)
  moreover have "user_keys_ok (t_user_account db @ [u])"
    using wf u(2) wallet code(1) by (simp add: wf_db_def unique_ok_def user_keys_ok_def unique_by_snoc del: unique_by_append)
  then have "unique_ok ?db"
    using wf by (simp add: wf_db_def unique_ok_def token_keys_ok_def misc_keys_ok_def)
  moreover have "foreign_keys_ok ?db"
    using wf u(1) code(2) by (auto simp: wf_db_def foreign_keys_ok_def profile_refs_ok_def user_refs_ok_def
        post_refs_ok_def)
  ultimately show ?thesis by (simp add: wf_db_def)
qed

lemma wf_invite_codes:
  assumes "wf_db db" and "map ic_code codes = map ic_code (t_user_invite_code db)"
  shows "wf_db (db\<lparr>t_user_invite_code := codes\<rparr>)"
proof -
  have "ic_code ` set codes = ic_code ` set (t_user_invite_code db)"
    using assms(2) by (metis list.set_map)
  with assms show ?thesis by (simp add: wf_db_unfold)
qed

section \<open>Finding accounts\<close>

lemma wf_profile_keys: "wf_db db \<Longrightarrow> distinct (map ap_id (t_actor_profile db))"
  by (simp add: wf_db_def unique_ok_def profile_keys_ok_def)

lemma wf_user_keys:
  "wf_db db \<Longrightarrow> distinct (map ua_id (t_user_account db))"
  "wf_db db \<Longrightarrow> unique_by ua_wallet_address (t_user_account db)"
  "wf_db db \<Longrightarrow> unique_by ua_invite_code (t_user_account db)"
  by (simp_all add: wf_db_def unique_ok_def user_keys_ok_def)

text \<open>Every account has its profile, so the join has one row per account.\<close>

lemma account_profile:
  assumes "wf_db db" and "u \<in> set (t_user_account db)"
  obtains ap where "ap \<in> set (t_actor_profile db)" and "ap_id ap = ua_id u"
    and "filter (\<lambda>ap. ap_id ap = ua_id u) (t_actor_profile db) = [ap]"
proof -
  from assms have "ua_id u \<in> profile_ids db"
    by (auto simp: wf_db_def foreign_keys_ok_def profile_refs_ok_def)
  then obtain ap where ap: "ap \<in> set (t_actor_profile db)" "ua_id u = ap_id ap" by auto
  with filter_unique_key [OF wf_profile_keys [OF assms(1)] ap(1)] that show thesis by auto
qed

lemma concat_map_single: "(\<And>x. x \<in> set xs \<Longrightarrow> f x = [x]) \<Longrightarrow> concat (map f xs) = xs"
  by (induction xs) auto

lemma map_fst_account_rows:
  assumes wf: "wf_db db"
  shows "map fst (account_rows db) = t_user_account db"
proof -
  have "map fst (account_rows db) = concat (map (\<lambda>u. map fst (map (Pair u)
      (filter (\<lambda>ap. ap_id ap = ua_id u) (t_actor_profile db)))) (t_user_account db))"
    by (simp add: account_rows_def map_concat o_def)
  also have "\<dots> = t_user_account db"
  proof (rule concat_map_single)
    fix u assume "u \<in> set (t_user_account db)"
    from account_profile [OF wf this]
    show "map fst (map (Pair u) (filter (\<lambda>ap. ap_id ap = ua_id u) (t_actor_profile db))) = [u]"
      by (metis list.simps(8,9) fst_conv)
  qed
  finally show ?thesis .
qed

lemma distinct_account_rows:
  assumes "wf_db db"
  shows "distinct (map (\<lambda>row. ua_id (fst row)) (account_rows db))" "distinct (account_rows db)"
proof -
  have "map (\<lambda>row. ua_id (fst row)) (account_rows db) = map ua_id (t_user_account db)"
    by (metis (no_types, lifting) map_fst_account_rows [OF assms] map_eq_conv map_map o_apply)
  with wf_user_keys(1) [OF assms]
  show dist: "distinct (map (\<lambda>row. ua_id (fst row)) (account_rows db))" by simp
  then show "distinct (account_rows db)" by (simp add: distinct_map)
qed

text \<open>A condition that at most one account meets makes the lookup return that account.\<close>

lemma distinct_filter_cases:
  assumes "distinct xs" and "\<forall>x \<in> set xs. \<forall>y \<in> set xs. p x \<longrightarrow> p y \<longrightarrow> x = y"
  shows "(filter p xs = [] \<and> (\<forall>x \<in> set xs. \<not> p x)) \<or> (\<exists>x \<in> set xs. p x \<and> filter p xs = [x])"
proof (cases "filter p xs")
  case Nil
  then show ?thesis by (simp add: filter_empty_conv)
next
  case (Cons x ys)
  then have x: "x \<in> set xs" "p x" by (auto dest: filter_eq_ConsD)
  have "ys = []"
  proof (rule ccontr)
    assume "ys \<noteq> []"
    then obtain y where "y \<in> set ys" by (cases ys) auto
    moreover have "distinct (x # ys)" using assms(1) by (metis Cons distinct_filter)
    ultimately have "y \<noteq> x" "y \<in> set (filter p xs)" using Cons by auto
    with x assms(2) show False by auto
  qed
  with Cons x show ?thesis by auto
qed

lemma find_user_cases:
  assumes "wf_db db"
    and "\<forall>x \<in> set (account_rows db). \<forall>y \<in> set (account_rows db). p x \<longrightarrow> p y \<longrightarrow> x = y"
  shows "((\<forall>row \<in> set (account_rows db). \<not> p row) \<and> find_user p db = (Inl (NotFound ''user''), db)) \<or>
    (\<exists>u ap. (u, ap) \<in> set (account_rows db) \<and> p (u, ap) \<and> find_user p db = (Inr (user_of u ap), db))"
  using distinct_filter_cases [OF distinct_account_rows(2) [OF assms(1)] assms(2)]
proof (elim disjE bexE conjE)
  assume "filter p (account_rows db) = []" and "\<forall>row \<in> set (account_rows db). \<not> p row"
  then show ?thesis by (simp add: find_user_def bind_def query_opt_run ok_or_run)
next
  fix row assume row: "row \<in> set (account_rows db)" "p row" "filter p (account_rows db) = [row]"
  then have "find_user p db = (Inr (user_of (fst row) (snd row)), db)"
    by (simp add: find_user_def bind_def query_opt_run ok_or_run ret_run)
  with row(1,2) show ?thesis by (intro disjI2 exI [of _ "fst row"] exI [of _ "snd row"]) simp
qed

lemma account_row_by_id:
  assumes "wf_db db" and "(u, ap) \<in> set (account_rows db)" and "(u', ap') \<in> set (account_rows db)"
    and "ua_id u = ua_id u'"
  shows "(u, ap) = (u', ap')"
proof -
  have "(\<lambda>row. ua_id (fst row)) (u, ap) = (\<lambda>row. ua_id (fst row)) (u', ap')" using assms(4) by simp
  from distinct_map_unique [OF distinct_account_rows(1) [OF assms(1)] assms(2,3) this] show ?thesis .
qed

lemma account_local:
  assumes "db_inv db" and "(u, ap) \<in> set (account_rows db)"
  shows "is_local ap"
  using app_invD(6) [OF db_invD(2) [OF assms(1)]] assms(2)
  by (force simp: accounts_ok_def set_account_rows)

lemma account_row_by_name:
  assumes inv: "db_inv db" and rows: "(u, ap) \<in> set (account_rows db)" "(u', ap') \<in> set (account_rows db)"
    and name: "to_lowercase (ap_username ap) = to_lowercase (ap_username ap')"
  shows "(u, ap) = (u', ap')"
proof -
  have "ap \<in> set (filter is_local (t_actor_profile db))" "ap' \<in> set (filter is_local (t_actor_profile db))"
    using rows account_local [OF inv] by (auto simp: set_account_rows)
  from distinct_map_unique [OF app_invD(7) [OF db_invD(2) [OF inv], unfolded local_names_ok_def] this] name
  have "ap = ap'" by simp
  with rows show ?thesis
    by (intro account_row_by_id [OF db_inv_wf [OF inv]]) (auto simp: set_account_rows)
qed

section \<open>Creating an account\<close>

lemma name_matches_self:
  assumes "plain_pattern (to_lowercase name)" and "to_lowercase (ap_username ap) = to_lowercase name"
  shows "name_matches name (u, ap)"
  using sql_like_self [OF assms(1)] assms(2) by (simp add: name_matches_def sql_ilike_def)

text \<open>Every code that an account was created with is marked as used.\<close>

definition invites_ok :: "database \<Rightarrow> bool" where
  "invites_ok db \<longleftrightarrow>
     (\<forall>u \<in> set (t_user_account db). \<forall>c \<in> set (t_user_invite_code db).
        ua_invite_code u = Some (ic_code c) \<longrightarrow> ic_used c)"

abbreviation use_code :: "string \<Rightarrow> db_invite_code list \<Rightarrow> db_invite_code list" where
  "use_code code \<equiv> update_where (\<lambda>c. ic_code c = code \<and> \<not> ic_used c) (\<lambda>c. c\<lparr>ic_used := True\<rparr>)"

definition codes_after :: "string option \<Rightarrow> db_invite_code list \<Rightarrow> db_invite_code list" where
  "codes_after maybe_code codes =
     (case maybe_code of Some code \<Rightarrow> use_code code codes | None \<Rightarrow> codes)"

definition code_available :: "string option \<Rightarrow> database \<Rightarrow> bool" where
  "code_available maybe_code db \<longleftrightarrow>
     (case maybe_code of
        Some code \<Rightarrow> \<exists>c \<in> set (t_user_invite_code db). ic_code c = code \<and> \<not> ic_used c
      | None \<Rightarrow> True)"

lemma codes_after_keys: "map ic_code (codes_after code codes) = map ic_code codes"
  by (simp add: codes_after_def map_update_where split: option.split)

lemma take_invite_code_run:
  assumes wf: "wf_db db"
  shows "take_invite_code code db =
    (if code_available code db
     then (Inr (), db\<lparr>t_user_invite_code := codes_after code (t_user_invite_code db)\<rparr>)
     else (Inl (NotFound ''invite code''), db))"
proof (cases code)
  case None
  then show ?thesis by (simp add: take_invite_code_def code_available_def codes_after_def ret_run)
next
  case (Some c)
  let ?p = "\<lambda>x. ic_code x = c \<and> \<not> ic_used x"
  let ?db = "db\<lparr>t_user_invite_code := use_code c (t_user_invite_code db)\<rparr>"
  have wf': "wf_db ?db"
    using wf_invite_codes [OF wf, of "codes_after code (t_user_invite_code db)"] Some
    by (simp add: codes_after_keys) (simp add: codes_after_def)
  show ?thesis
  proof (cases "filter ?p (t_user_invite_code db) = []")
    case True
    then have "\<not> code_available code db" by (auto simp: filter_empty_conv code_available_def Some)
    moreover have "use_code c (t_user_invite_code db) = t_user_invite_code db"
      using True by (intro update_where_none) (auto simp: filter_empty_conv)
    ultimately show ?thesis using True wf
      by (simp add: take_invite_code_def Some Let_def bind_def execute_run throw_run)
  next
    case False
    then have "code_available code db" by (auto simp: filter_empty_conv code_available_def Some)
    with False wf' show ?thesis
      by (simp add: take_invite_code_def Some Let_def bind_def execute_run ret_run codes_after_def)
  qed
qed

text \<open>
  The names of local accounts: no \<open>%\<close>, backslash or \<open>@\<close> (the API accepts letters, digits, \<open>_\<close>).
\<close>

definition username_ok :: "string \<Rightarrow> bool" where
  "username_ok name \<longleftrightarrow> plain_pattern (to_lowercase name) \<and> CHR ''@'' \<notin> set name"

definition name_free :: "string \<Rightarrow> database \<Rightarrow> bool" where
  "name_free name db \<longleftrightarrow> (\<forall>row \<in> set (account_rows db). \<not> name_matches name row)"

lemma local_account:
  assumes "db_inv db" and "ap \<in> set (t_actor_profile db)" and "is_local ap"
  obtains u where "(u, ap) \<in> set (account_rows db)"
proof -
  have "ap_id ap \<in> user_ids db"
    using app_invD(6) [OF db_invD(2) [OF assms(1)]] assms(2,3) by (auto simp: accounts_ok_def)
  with assms(2) that show thesis by (auto simp: set_account_rows)
qed

lemma name_free_local:
  assumes inv: "db_inv db" and name: "username_ok name" "name_free name db"
  shows "to_lowercase name \<notin>
    (\<lambda>ap. to_lowercase (ap_username ap)) ` set (filter is_local (t_actor_profile db))"
proof
  assume "to_lowercase name \<in>
    (\<lambda>ap. to_lowercase (ap_username ap)) ` set (filter is_local (t_actor_profile db))"
  then obtain ap where ap: "ap \<in> set (t_actor_profile db)" "is_local ap"
    and eq: "to_lowercase (ap_username ap) = to_lowercase name" by auto
  from local_account [OF inv ap] obtain u where "(u, ap) \<in> set (account_rows db)" .
  with name_matches_self [OF _ eq] name show False by (auto simp: username_ok_def name_free_def)
qed

lemma name_free_acct:
  assumes inv: "db_inv db" and name: "username_ok name" "name_free name db"
  shows "name \<notin> ap_acct ` set (t_actor_profile db)"
proof
  assume "name \<in> ap_acct ` set (t_actor_profile db)"
  then obtain ap where ap: "ap \<in> set (t_actor_profile db)" "name = ap_acct ap" by auto
  show False
  proof (cases "ap_hostname ap")
    case None
    with wf_profile_row [OF db_inv_wf [OF inv] ap(1)] have "is_local ap"
      by (simp add: profile_check_def is_local_def)
    with ap None name_free_local [OF inv name] show False by (auto simp: ap_acct_def)
  next
    case (Some h)
    with ap(2) name(1) show False by (simp add: ap_acct_def username_ok_def)
  qed
qed

lemma create_local_profile_run:
  assumes wf: "wf_db db" and fresh: "i \<notin> profile_ids db" "name \<notin> ap_acct ` set (t_actor_profile db)"
  shows "create_profile i now (new_user_profile name) db =
    (Inr (new_profile_row i now (new_user_profile name)),
     db\<lparr>t_actor_profile := t_actor_profile db @ [new_profile_row i now (new_user_profile name)]\<rparr>)"
    and "wf_db (db\<lparr>t_actor_profile := t_actor_profile db @ [new_profile_row i now (new_user_profile name)]\<rparr>)"
proof -
  let ?row = "new_profile_row i now (new_user_profile name)"
  let ?db = "db\<lparr>t_actor_profile := t_actor_profile db @ [?row]\<rparr>"
  show wf': "wf_db ?db"
    using fresh by (intro wf_append_profile wf)
      (simp_all add: new_profile_row_def new_user_profile_def ap_acct_def ap_actor_id_def
        profile_check_def profile_counts_in_range_def i32_in_range_def)
  have joined: "joined_emojis i (t_profile_emoji db) (t_emoji db) = []"
    using wf_no_profile(6) [OF wf fresh(1)] by (intro joined_emojis_other) auto
  have upd: "update_where (\<lambda>ap. ap_id ap = i)
      (\<lambda>ap. ap\<lparr>ap_emojis := joined_emojis (ap_id ap) (t_profile_emoji db) (t_emoji db)\<rparr>)
      (t_actor_profile db @ [?row]) = t_actor_profile db @ [?row]"
    using fresh(1) joined
    by (auto simp: update_where_def new_profile_row_def intro!: map_idI)
  have "filter (\<lambda>ap. ap_id ap = i) (t_actor_profile db @ [?row]) = [?row]"
    using fresh(1) by (auto simp: filter_empty_conv new_profile_row_def)
  then have "update_emoji_cache i ?db = (Inr ?row, ?db)"
    using wf' upd by (simp add: update_emoji_cache_ok)
  moreover have "create_profile_emojis i [] ?db = (Inr [], ?db)"
    using wf' by (simp add: create_profile_emojis_ok own_emoji_rows_def)
  ultimately show "create_profile i now (new_user_profile name) db = (Inr ?row, ?db)"
    using wf' unfolding create_profile_def
    by (intro transaction_run) (simp add: new_user_profile_def bind_def ret_run execute_catching_run)
qed

definition created_db :: "uuid \<Rightarrow> datetime \<Rightarrow> user_create_data \<Rightarrow> database \<Rightarrow> database" where
  "created_db i now d db =
     db\<lparr>t_user_invite_code := codes_after (uc_invite_code d) (t_user_invite_code db),
        t_actor_profile := t_actor_profile db @ [new_profile_row i now (new_user_profile (uc_username d))],
        t_user_account := t_user_account db @ [new_account_row i now d]\<rparr>"

lemma take_1_filter: "take 1 (filter p xs) = (case find p xs of None \<Rightarrow> [] | Some x \<Rightarrow> [x])"
  by (induction xs) auto

lemma query_take_1: "query_opt (\<lambda>db. take 1 (filter p (f db))) db = (Inr (find p (f db)), db)"
  unfolding take_1_filter query_opt_def
  by (simp add: bind_def query_def opt_row_def ret_def split: option.split)

lemma create_user_run:
  assumes inv: "db_inv db" and name: "username_ok (uc_username d)" "name_free (uc_username d) db"
    and code: "code_available (uc_invite_code d) db"
      "uc_invite_code d = None \<or> uc_invite_code d \<notin> ua_invite_code ` set (t_user_account db)"
    and fresh: "i \<notin> profile_ids db"
      "uc_wallet_address d = None \<or> uc_wallet_address d \<notin> ua_wallet_address ` set (t_user_account db)"
  shows "create_user_body i now d db =
      (Inr (user_of (new_account_row i now d) (new_profile_row i now (new_user_profile (uc_username d)))),
       created_db i now d db)"
    and "wf_db (created_db i now d db)"
proof -
  let ?row = "new_profile_row i now (new_user_profile (uc_username d))"
  let ?db1 = "db\<lparr>t_user_invite_code := codes_after (uc_invite_code d) (t_user_invite_code db)\<rparr>"
  let ?db2 = "?db1\<lparr>t_actor_profile := t_actor_profile ?db1 @ [?row]\<rparr>"
  have wf1: "wf_db ?db1" by (rule wf_invite_codes [OF db_inv_wf [OF inv] codes_after_keys])
  have acct: "uc_username d \<notin> ap_acct ` set (t_actor_profile ?db1)"
    using name_free_acct [OF inv name] by simp
  have i: "i \<notin> profile_ids ?db1" using fresh(1) by simp
  note prof = create_local_profile_run [OF wf1 i acct, of now]
  have codes: "ic_code ` set (t_user_invite_code ?db2) = ic_code ` set (t_user_invite_code db)"
    using codes_after_keys [of "uc_invite_code d" "t_user_invite_code db"]
    by (metis (no_types, lifting) database.select_convs(5) database.surjective database.update_convs(4,5) list.set_map)
  have avail: "opt_in (uc_invite_code d) (ic_code ` set (t_user_invite_code db))"
    using code(1) by (auto simp: code_available_def opt_in_def split: option.splits)
  have db3: "?db2\<lparr>t_user_account := t_user_account ?db2 @ [new_account_row i now d]\<rparr> = created_db i now d db"
    by (simp add: created_db_def)
  have "wf_db (?db2\<lparr>t_user_account := t_user_account ?db2 @ [new_account_row i now d]\<rparr>)"
  proof (rule wf_append_account [OF prof(2)])
    show "ua_id (new_account_row i now d) \<in> profile_ids ?db2"
      by (simp add: new_account_row_def new_profile_row_def)
    show "ua_id (new_account_row i now d) \<notin> user_ids ?db2"
      using wf_no_profile(5) [OF db_inv_wf [OF inv] fresh(1)] by (simp add: new_account_row_def)
    show "opt_in (ua_invite_code (new_account_row i now d)) (ic_code ` set (t_user_invite_code ?db2))"
      using avail unfolding codes by (simp add: new_account_row_def)
  qed (use code(2) fresh(2) in \<open>simp_all add: new_account_row_def\<close>)
  then show wf3: "wf_db (created_db i now d db)" unfolding db3 .
  have find: "find (name_matches (uc_username d)) (account_rows db) = None"
    using name(2) by (simp add: find_None_all name_free_def)
  have q: "query_opt (\<lambda>db. take 1 (filter (name_matches (uc_username d)) (account_rows db))) db = (Inr None, db)"
    unfolding query_take_1 by (simp only: find)
  have take: "take_invite_code (uc_invite_code d) db = (Inr (), ?db1)"
    by (simp add: take_invite_code_run [OF db_inv_wf [OF inv]] code(1))
  have row_id: "ap_id ?row = i" by (simp add: new_profile_row_def)
  have "execute_catching ''user'' (\<lambda>db. let row = new_account_row (ap_id ?row) now d
      in (row, db\<lparr>t_user_account := t_user_account db @ [row]\<rparr>)) ?db2 =
      (Inr (new_account_row i now d), created_db i now d db)"
    using wf3 unfolding created_db_def by (simp add: Let_def execute_catching_run row_id)
  then show "create_user_body i now d db = (Inr (user_of (new_account_row i now d) ?row), created_db i now d db)"
    unfolding create_user_body_def
    using q take prof(1) by (simp add: transaction_def bind_def ret_run)
qed

lemma inv_invite_codes:
  assumes "db_inv db" and "map ic_code codes = map ic_code (t_user_invite_code db)"
  shows "db_inv (db\<lparr>t_user_invite_code := codes\<rparr>)"
  using assms wf_invite_codes [of db codes] by (simp add: db_inv_def)

lemma created_db_inv:
  assumes inv: "db_inv db" and name: "username_ok (uc_username d)" "name_free (uc_username d) db"
    and fresh: "i \<notin> profile_ids db" and wf: "wf_db (created_db i now d db)"
  shows "db_inv (created_db i now d db)"
proof -
  let ?row = "new_profile_row i now (new_user_profile (uc_username d))"
  let ?db1 = "db\<lparr>t_user_invite_code := codes_after (uc_invite_code d) (t_user_invite_code db)\<rparr>"
  let ?db2 = "?db1\<lparr>t_actor_profile := t_actor_profile ?db1 @ [?row]\<rparr>"
  have inv1: "db_inv ?db1" by (rule inv_invite_codes [OF inv codes_after_keys])
  have acct: "uc_username d \<notin> ap_acct ` set (t_actor_profile ?db1)"
    using name_free_acct [OF inv name] by simp
  have i: "i \<notin> profile_ids ?db1" using fresh by simp
  have data: "pc_actor_json (new_user_profile (uc_username d)) = None"
    "pc_username (new_user_profile (uc_username d)) = uc_username d"
    by (simp_all add: new_user_profile_def)
  have "db_inv_except {i} {} ?db2"
    using create_profile_inv [OF inv1 create_local_profile_run(1) [OF db_inv_wf [OF inv1] i acct, of now]]
      name_free_local [OF inv name] by (simp add: data)
  then have app: "app_inv {i} {} ?db2" by (simp add: db_inv_except_def)
  have "is_local ap = (ap_id ap \<in> user_ids (created_db i now d db))" if "ap \<in> set (t_actor_profile ?db2)" for ap
  proof (cases "ap_id ap = i")
    case True
    with that fresh have "ap = ?row" by auto
    then show ?thesis
      by (simp add: created_db_def new_account_row_def new_profile_row_def is_local_def data(1))
  next
    case False
    have "accounts_ok {i} (t_actor_profile ?db2) (t_user_account ?db2)" by (rule app_invD(6) [OF app])
    with that False show ?thesis by (auto simp: accounts_ok_def created_db_def new_account_row_def)
  qed
  then have "accounts_ok {} (t_actor_profile (created_db i now d db)) (t_user_account (created_db i now d db))"
    by (simp add: accounts_ok_def created_db_def)
  with app have "app_inv {} {} (created_db i now d db)"
    by (simp add: app_inv_def created_db_def next_id_ok_def)
  with wf show ?thesis by (simp add: db_inv_def)
qed

lemma create_user_ok:
  assumes inv: "db_inv db" and name: "username_ok (uc_username d)"
    and run: "create_user_body i now d db = (Inr u, db')"
  shows "name_free (uc_username d) db" and "code_available (uc_invite_code d) db" and "i \<notin> profile_ids db"
    and "db' = created_db i now d db" and "db_inv db'"
    and "u = user_of (new_account_row i now d) (new_profile_row i now (new_user_profile (uc_username d)))"
proof -
  let ?db1 = "db\<lparr>t_user_invite_code := codes_after (uc_invite_code d) (t_user_invite_code db)\<rparr>"
  from run [unfolded create_user_body_def transaction_ok] obtain m db0 where
    q: "query_opt (\<lambda>db. take 1 (filter (name_matches (uc_username d)) (account_rows db))) db = (Inr m, db0)"
    and rest: "(if m \<noteq> None then throw (AlreadyExists ''user'')
       else andthen (take_invite_code (uc_invite_code d))
        (bind (create_profile i now (new_user_profile (uc_username d))) (\<lambda>profile.
         bind (execute_catching ''user'' (\<lambda>db. let row = new_account_row (ap_id profile) now d
            in (row, db\<lparr>t_user_account := t_user_account db @ [row]\<rparr>))) (\<lambda>db_user.
         ret (user_of db_user profile))))) db0 = (Inr u, db')"
    by (elim bind_okE)
  from q have m: "m = find (name_matches (uc_username d)) (account_rows db)" and db0: "db0 = db"
    unfolding query_take_1 by auto
  from rest have none: "m = None" by (cases "m = None") (simp_all add: throw_def)
  then show free: "name_free (uc_username d) db"
    unfolding m find_None_all name_free_def .
  from rest none obtain un db1 profile db2 where
    t: "take_invite_code (uc_invite_code d) db = (Inr un, db1)"
    and p: "create_profile i now (new_user_profile (uc_username d)) db1 = (Inr profile, db2)"
    and a: "wf_db db'" "db' = db2\<lparr>t_user_account := t_user_account db2 @ [new_account_row (ap_id profile) now d]\<rparr>"
    unfolding db0 by (auto simp: db_ok Let_def)
  from t take_invite_code_run [OF db_inv_wf [OF inv]] show code: "code_available (uc_invite_code d) db"
    by (auto split: if_splits)
  with t take_invite_code_run [OF db_inv_wf [OF inv]] have db1: "db1 = ?db1" by simp
  from create_profile_ok(3) [OF p] show fresh: "i \<notin> profile_ids db" by (simp add: db1)
  from create_profile_ok(1) [OF p] have uas: "t_user_account db2 = t_user_account db" by (auto simp: db1)
  from wf_user_keys(2,3) [OF a(1)]
  have "uc_invite_code d = None \<or> uc_invite_code d \<notin> ua_invite_code ` set (t_user_account db)"
    and "uc_wallet_address d = None \<or> uc_wallet_address d \<notin> ua_wallet_address ` set (t_user_account db)"
    unfolding a(2) by (simp_all add: uas unique_by_snoc new_account_row_def del: unique_by_append)
  from create_user_run [OF inv name free code this(1) fresh this(2), of now] run
  show db': "db' = created_db i now d db"
    and "u = user_of (new_account_row i now d) (new_profile_row i now (new_user_profile (uc_username d)))"
    by simp_all
  from created_db_inv [OF inv name free fresh, of now] a(1) show "db_inv db'" by (simp add: db')
qed

lemma inv_create_user_body: "username_ok (uc_username d) \<Longrightarrow> keeps db_inv (create_user_body i now d)"
proof (rule keepsI)
  fix db r db'
  assume name: "username_ok (uc_username d)" and inv: "db_inv db" and run: "create_user_body i now d db = (r, db')"
  show "db_inv db'"
  proof (cases r)
    case (Inl e)
    with run inv show ?thesis by (auto simp: create_user_body_def dest: transaction_error)
  next
    case (Inr u)
    with create_user_ok(5) [OF inv name] run show ?thesis by simp
  qed
qed

text \<open>The two refusals.\<close>

lemma create_user_name_taken:
  assumes "\<not> name_free (uc_username d) db"
  shows "create_user_body i now d db = (Inl (AlreadyExists ''user''), db)"
proof -
  from assms obtain row where "find (name_matches (uc_username d)) (account_rows db) = Some row"
    by (cases "find (name_matches (uc_username d)) (account_rows db)")
      (auto simp: find_None_all name_free_def)
  with query_take_1 [of "name_matches (uc_username d)" account_rows db]
  have "query_opt (\<lambda>db. take 1 (filter (name_matches (uc_username d)) (account_rows db))) db = (Inr (Some row), db)"
    by simp
  then show ?thesis by (simp add: create_user_body_def transaction_def bind_def throw_def)
qed

lemma create_user_code_refused:
  assumes "wf_db db" and "name_free (uc_username d) db" and "\<not> code_available (uc_invite_code d) db"
  shows "create_user_body i now d db = (Inl (NotFound ''invite code''), db)"
proof -
  have "find (name_matches (uc_username d)) (account_rows db) = None"
    using assms(2) by (simp add: find_None_all name_free_def)
  with query_take_1 [of "name_matches (uc_username d)" account_rows db]
  have "query_opt (\<lambda>db. take 1 (filter (name_matches (uc_username d)) (account_rows db))) db = (Inr None, db)"
    by simp
  with assms(3) show ?thesis
    by (simp add: create_user_body_def transaction_def bind_def take_invite_code_run [OF assms(1)])
qed

lemma used_after_use:
  assumes "c \<in> set (use_code code codes)" and "ic_code c = code"
  shows "ic_used c"
proof -
  from assms(1) obtain c0 where "c = (if ic_code c0 = code \<and> \<not> ic_used c0 then c0\<lparr>ic_used := True\<rparr> else c0)"
    unfolding in_update_where by (elim bexE)
  with assms(2) show ?thesis by (cases "ic_code c0 = code \<and> \<not> ic_used c0") auto
qed

lemma used_stays: "c \<in> set (codes_after m codes) \<Longrightarrow> \<exists>c0 \<in> set codes. ic_code c0 = ic_code c \<and> (ic_used c0 \<longrightarrow> ic_used c)"
proof (cases m)
  case (Some code)
  assume "c \<in> set (codes_after m codes)"
  with Some show ?thesis by (induction codes) (auto simp: codes_after_def update_where_def)
qed (auto simp: codes_after_def)

lemma code_used_up: "\<not> code_available (Some code) (created_db i now d db)" if "uc_invite_code d = Some code"
  using that used_after_use [of _ code "t_user_invite_code db"]
  by (auto simp: code_available_def created_db_def codes_after_def)

lemma invites_ok_created:
  assumes "invites_ok db"
  shows "invites_ok (created_db i now d db)"
  unfolding invites_ok_def
proof (intro ballI impI)
  fix u c assume u: "u \<in> set (t_user_account (created_db i now d db))"
    and c: "c \<in> set (t_user_invite_code (created_db i now d db))" and code: "ua_invite_code u = Some (ic_code c)"
  from u consider "u \<in> set (t_user_account db)" | "u = new_account_row i now d"
    by (auto simp: created_db_def)
  then show "ic_used c"
  proof cases
    case 1
    from c have "c \<in> set (codes_after (uc_invite_code d) (t_user_invite_code db))" by (simp add: created_db_def)
    from used_stays [OF this] assms 1 code show ?thesis by (auto simp: invites_ok_def)
  next
    case 2
    with c code used_after_use [of c "ic_code c" "t_user_invite_code db"] show ?thesis
      by (auto simp: created_db_def codes_after_def new_account_row_def)
  qed
qed

lemma invites_ok_fresh:
  assumes "invites_ok db" and "code_available m db" and "wf_db db"
  shows "m = None \<or> m \<notin> ua_invite_code ` set (t_user_account db)"
proof (cases m)
  case (Some code)
  with assms(2) obtain c where c: "c \<in> set (t_user_invite_code db)" "ic_code c = code" "\<not> ic_used c"
    by (auto simp: code_available_def)
  have "ua_invite_code u \<noteq> Some code" if "u \<in> set (t_user_account db)" for u
    using assms(1) c that by (auto simp: invites_ok_def)
  then have "Some code \<notin> ua_invite_code ` set (t_user_account db)" by (metis imageE)
  with Some show ?thesis by simp
qed simp

section \<open>Changing an account\<close>

definition account_frame :: "(db_user \<Rightarrow> db_user) \<Rightarrow> bool" where
  "account_frame f \<longleftrightarrow>
     (\<forall>u. ua_id (f u) = ua_id u \<and> ua_wallet_address (f u) = ua_wallet_address u \<and>
        ua_invite_code (f u) = ua_invite_code u)"

lemma wf_update_accounts:
  assumes wf: "wf_db db" and f: "account_frame f"
  shows "wf_db (db\<lparr>t_user_account := update_where p f (t_user_account db)\<rparr>)"
proof -
  let ?db = "db\<lparr>t_user_account := update_where p f (t_user_account db)\<rparr>"
  note fr = f [unfolded account_frame_def, rule_format]
  have ids: "ua_id ` set (update_where p f (t_user_account db)) = user_ids db"
    using fr by (intro image_update_where) simp
  have "ranges_ok ?db" "checks_ok ?db" using wf by (simp_all add: wf_db_def ranges_ok_def checks_ok_def)
  moreover have "unique_ok ?db"
    using wf fr by (simp add: wf_db_def unique_ok_def user_keys_ok_def token_keys_ok_def misc_keys_ok_def
        map_update_where unique_by_update)
  moreover have "foreign_keys_ok ?db"
    using wf fr by (simp add: wf_db_def foreign_keys_ok_def profile_refs_ok_def user_refs_ok_def
        post_refs_ok_def ids ball_update_where)
  ultimately show ?thesis by (simp add: wf_db_def)
qed

lemma inv_update_accounts:
  assumes inv: "db_inv db" and f: "account_frame f"
  shows "db_inv (db\<lparr>t_user_account := update_where p f (t_user_account db)\<rparr>)"
proof -
  have "ua_id ` set (update_where p f (t_user_account db)) = user_ids db"
    using f by (intro image_update_where) (simp add: account_frame_def)
  then have "app_inv {} {} (db\<lparr>t_user_account := update_where p f (t_user_account db)\<rparr>)"
    using db_invD(2) [OF inv] by (simp add: app_inv_def accounts_ok_def next_id_ok_def)
  with wf_update_accounts [OF db_inv_wf [OF inv] f] show ?thesis by (simp add: db_inv_def)
qed

lemma change_account_run:
  assumes "wf_db db" and "account_frame f"
  shows "change_account i f db = (Inr (map f (filter (\<lambda>u. ua_id u = i) (t_user_account db))),
    db\<lparr>t_user_account := update_where (\<lambda>u. ua_id u = i) f (t_user_account db)\<rparr>)"
  using wf_update_accounts [OF assms] by (simp add: change_account_def execute_run)

lemma account_frames [simp]:
  "account_frame (\<lambda>u. u\<lparr>ua_password_hash := x\<rparr>)" "account_frame (\<lambda>u. u\<lparr>ua_user_role := r\<rparr>)"
  "account_frame (\<lambda>u. u\<lparr>ua_client_config := g u\<rparr>)"
  by (simp_all add: account_frame_def)

lemma inv_change_account: "account_frame f \<Longrightarrow> keeps db_inv (change_account i f)"
  by (rule keepsI) (auto simp: change_account_run db_inv_wf intro: inv_update_accounts)

lemma inv_user_changes:
  "keeps db_inv (set_user_password i h)" "keeps db_inv (set_user_role i r)"
  "keeps db_inv (update_client_config i n v)"
  unfolding set_user_password_def set_user_role_def update_client_config_def
  by (intro keeps_intro inv_change_account account_frames)+

lemma inv_create_invite_code: "keeps db_inv (create_invite_code code now note)"
  unfolding create_invite_code_def
  by (intro keeps_bind keeps_ret keeps_inv_execute) (simp add: db_inv_def)

lemma account_rows_changed:
  assumes "account_frame f"
  shows "account_rows (db\<lparr>t_user_account := update_where p f (t_user_account db)\<rparr>) =
    map (\<lambda>(u, ap). (if p u then f u else u, ap)) (account_rows db)"
proof -
  have "ua_id (if p u then f u else u) = ua_id u" for u
    using assms by (simp add: account_frame_def)
  then show ?thesis
    by (simp add: account_rows_def update_where_def map_concat o_def)
qed

section \<open>Properties\<close>

lemma get_user_by_id_row:
  assumes wf: "wf_db db" and row: "(u, ap) \<in> set (account_rows db)"
  shows "get_user_by_id (ua_id u) db = (Inr (user_of u ap), db)"
proof -
  have "\<forall>x \<in> set (account_rows db). \<forall>y \<in> set (account_rows db).
      (case x of (v, q) \<Rightarrow> ua_id v = ua_id u) \<longrightarrow> (case y of (v, q) \<Rightarrow> ua_id v = ua_id u) \<longrightarrow> x = y"
    using account_row_by_id [OF wf] by auto
  from find_user_cases [OF wf this] show ?thesis
  proof (elim disjE exE conjE)
    assume "\<forall>row \<in> set (account_rows db). \<not> (case row of (v, q) \<Rightarrow> ua_id v = ua_id u)"
    with row show ?thesis by auto
  next
    fix v q assume "(v, q) \<in> set (account_rows db)" "case (v, q) of (v, q) \<Rightarrow> ua_id v = ua_id u"
      and f: "find_user (\<lambda>(v, q). ua_id v = ua_id u) db = (Inr (user_of v q), db)"
    with account_row_by_id [OF wf _ row, of v q] have "v = u" "q = ap" by auto
    with f show ?thesis by (simp add: get_user_by_id_def)
  qed
qed

lemma get_user_by_name_row:
  assumes inv: "db_inv db" and row: "(u, ap) \<in> set (account_rows db)"
    and name: "to_lowercase name = to_lowercase (ap_username ap)"
  shows "get_user_by_name name db = (Inr (user_of u ap), db)"
proof -
  let ?p = "\<lambda>(v, q). to_lowercase (ap_username q) = to_lowercase name"
  have "\<forall>x \<in> set (account_rows db). \<forall>y \<in> set (account_rows db). ?p x \<longrightarrow> ?p y \<longrightarrow> x = y"
    using account_row_by_name [OF inv] by auto
  from find_user_cases [OF db_inv_wf [OF inv] this] show ?thesis
  proof (elim disjE exE conjE)
    assume "\<forall>row \<in> set (account_rows db). \<not> ?p row"
    with row name show ?thesis by auto
  next
    fix v q assume "(v, q) \<in> set (account_rows db)" "?p (v, q)" and f: "find_user ?p db = (Inr (user_of v q), db)"
    with account_row_by_name [OF inv _ row, of v q] name have "v = u" "q = ap" by auto
    with f show ?thesis by (simp add: get_user_by_name_def)
  qed
qed

text \<open>
  C13: \<open>create_user\<close> of a name of letters, digits and underscores, on a fresh identifier and
  wallet: it is refused when a local account has a name that matches, then when the invite code is
  unknown or used, both times with the database unchanged; otherwise it returns a user that both
  lookups find under every spelling of the name, the invite code is used up, and the database
  invariant and the condition on invite codes hold again.
\<close>

theorem create_user_correct:
  assumes inv: "db_inv db" and invites: "invites_ok db"
    and auth: "uc_password_hash d \<noteq> None \<or> uc_wallet_address d \<noteq> None"
    and name: "username_ok (uc_username d)" and fresh: "i \<notin> profile_ids db"
      "uc_wallet_address d = None \<or> uc_wallet_address d \<notin> ua_wallet_address ` set (t_user_account db)"
  shows "\<exists>m r db'. create_user i now d = Some m \<and> m db = (r, db') \<and>
    (if \<exists>row \<in> set (account_rows db). name_matches (uc_username d) row
     then r = Inl (AlreadyExists ''user'') \<and> db' = db
     else if \<not> code_available (uc_invite_code d) db then r = Inl (NotFound ''invite code'') \<and> db' = db
     else db_inv db' \<and> invites_ok db' \<and> user_ids db' = insert i (user_ids db) \<and>
       (\<forall>code. uc_invite_code d = Some code \<longrightarrow> is_valid_invite_code code db' = (Inr False, db')) \<and>
       (\<exists>u. r = Inr u \<and> us_id u = i \<and> us_role u = uc_role d \<and> get_user_by_id i db' = (Inr u, db') \<and>
          (\<forall>n. to_lowercase n = to_lowercase (uc_username d) \<longrightarrow> get_user_by_name n db' = (Inr u, db'))))"
proof -
  let ?ua = "new_account_row i now d" and ?ap = "new_profile_row i now (new_user_profile (uc_username d))"
  let ?db = "created_db i now d db"
  have m: "create_user i now d = Some (create_user_body i now d)" using auth by (simp add: create_user_def)
  show ?thesis
  proof (cases "name_free (uc_username d) db")
    case False
    then have c: "\<exists>row \<in> set (account_rows db). name_matches (uc_username d) row" by (simp add: name_free_def)
    show ?thesis unfolding if_P [OF c] using m create_user_name_taken [OF False] by blast
  next
    case free: True
    then have c: "\<not> (\<exists>row \<in> set (account_rows db). name_matches (uc_username d) row)" by (simp add: name_free_def)
    show ?thesis
    proof (cases "code_available (uc_invite_code d) db")
      case False
      show ?thesis unfolding if_not_P [OF c] if_P [OF False]
        using m create_user_code_refused [OF db_inv_wf [OF inv] free False] by blast
    next
      case code: True
      then have c2: "\<not> \<not> code_available (uc_invite_code d) db" by simp
      note run = create_user_run [OF inv name free code invites_ok_fresh [OF invites code db_inv_wf [OF inv]] fresh, of now]
      note inv' = created_db_inv [OF inv name free fresh(1) run(2)]
      have row: "(?ua, ?ap) \<in> set (account_rows ?db)"
        by (simp add: set_account_rows created_db_def new_account_row_def new_profile_row_def)
      have ids: "user_ids ?db = insert i (user_ids db)" by (simp add: created_db_def new_account_row_def)
      have u: "us_id (user_of ?ua ?ap) = i" "us_role (user_of ?ua ?ap) = uc_role d" "ua_id ?ua = i"
        by (simp_all add: user_of_def new_account_row_def)
      have used: "is_valid_invite_code k ?db = (Inr False, ?db)" if "uc_invite_code d = Some k" for k
      proof -
        have "filter (\<lambda>c. ic_code c = k \<and> \<not> ic_used c) (t_user_invite_code ?db) = []"
          using code_used_up [OF that, of i now db] by (auto simp: code_available_def filter_empty_conv)
        then show ?thesis by (simp add: is_valid_invite_code_def bind_def query_opt_run ret_run)
      qed
      have by_id: "get_user_by_id i ?db = (Inr (user_of ?ua ?ap), ?db)"
        using get_user_by_id_row [OF run(2) row] by (simp add: u(3))
      have by_name: "get_user_by_name n ?db = (Inr (user_of ?ua ?ap), ?db)"
        if "to_lowercase n = to_lowercase (uc_username d)" for n
        using that by (intro get_user_by_name_row [OF inv' row]) (simp add: new_profile_row_def new_user_profile_def)
      show ?thesis unfolding if_not_P [OF c] if_not_P [OF c2]
        using m run(1) inv' invites_ok_created [OF invites] ids used u(1,2) by_id by_name
        by (intro exI [of _ "create_user_body i now d"] exI [of _ "Inr (user_of ?ua ?ap)"] exI [of _ ?db]
            exI [of _ "user_of ?ua ?ap"] conjI allI impI refl)
    qed
  qed
qed

definition sample_account :: user_create_data where
  "sample_account = \<lparr>uc_username = ''carol'', uc_password_hash = Some ''hash'', uc_private_key_pem = ''key'',
     uc_wallet_address = None, uc_invite_code = None, uc_role = NormalUser\<rparr>"

lemma sample_names:
  "username_ok ''carol''" "username_ok ''dave''"
  "\<not> sql_ilike ''carol'' ''alice''" "\<not> sql_ilike ''carol'' ''bob''"
  "to_lowercase ''Carol'' = to_lowercase ''carol''"
  by code_simp+

theorem create_user_correct_witness:
  "\<exists>m u db'. create_user 5 0 sample_account = Some m \<and> m sample_db = (Inr u, db') \<and> db_inv db' \<and>
     get_user_by_name ''Carol'' db' = (Inr u, db')"
proof -
  have "invites_ok sample_db" "5 \<notin> profile_ids sample_db"
    by (simp_all add: invites_ok_def sample_defs)
  moreover have "username_ok (uc_username sample_account)" by (simp add: sample_account_def sample_names)
  moreover have "\<not> (\<exists>row \<in> set (account_rows sample_db). name_matches (uc_username sample_account) row)"
    "\<not> \<not> code_available (uc_invite_code sample_account) sample_db"
    by (simp_all add: account_rows_def name_matches_def sample_account_def sample_names sample_defs code_available_def)
  moreover have "to_lowercase ''Carol'' = to_lowercase (uc_username sample_account)"
    by (simp add: sample_account_def sample_names)
  ultimately show ?thesis
    using create_user_correct [OF sample_inv, of sample_account 5 0]
    by (simp only: if_not_P) (auto simp: sample_account_def)
qed

text \<open>
  C39: an invite code creates one account: after a successful \<open>create_user\<close> with a code, every
  further attempt with the same code is refused and changes nothing.
\<close>

theorem invite_code_once:
  assumes inv: "db_inv db" and name: "username_ok (uc_username d)"
    and run: "create_user_body i now d db = (Inr u, db')"
    and code: "uc_invite_code d = Some code" "uc_invite_code d2 = Some code"
  shows "create_user_body i2 now2 d2 db' =
    (Inl (if \<exists>row \<in> set (account_rows db'). name_matches (uc_username d2) row
          then AlreadyExists ''user'' else NotFound ''invite code''), db')"
proof -
  note ok = create_user_ok [OF inv name run]
  have none: "\<not> code_available (uc_invite_code d2) db'"
    using code_used_up [OF code(1)] by (simp add: code(2) ok(4))
  show ?thesis
  proof (cases "name_free (uc_username d2) db'")
    case True
    with create_user_code_refused [OF db_inv_wf [OF ok(5)] True none] show ?thesis
      by (auto simp: name_free_def)
  next
    case False
    with create_user_name_taken [OF False] show ?thesis by (auto simp: name_free_def)
  qed
qed

text \<open>The sample database with one unused invite code.\<close>

definition invited_db :: database where
  "invited_db = sample_db\<lparr>t_user_invite_code :=
     [\<lparr>ic_code = ''c0de'', ic_used = False, ic_note = None, ic_created_at = 0\<rparr>]\<rparr>"

lemma invited_inv: "db_inv invited_db"
proof -
  have "wf_db invited_db"
    using sample_wf unfolding wf_db_unfold invited_db_def sample_defs by simp
  with sample_inv show ?thesis by (simp add: db_inv_def invited_db_def)
qed

theorem invite_code_once_witness:
  "\<exists>u db'. create_user_body 5 0 (sample_account\<lparr>uc_invite_code := Some ''c0de''\<rparr>) invited_db = (Inr u, db') \<and>
     fst (create_user_body 6 0 (sample_account\<lparr>uc_invite_code := Some ''c0de'', uc_username := ''dave''\<rparr>) db') \<in> range Inl"
proof -
  let ?d = "sample_account\<lparr>uc_invite_code := Some ''c0de''\<rparr>"
  have name: "username_ok (uc_username ?d)" by (simp add: sample_account_def sample_names)
  have c: "name_free (uc_username ?d) invited_db"
      "code_available (uc_invite_code ?d) invited_db"
      "uc_invite_code ?d = None \<or> uc_invite_code ?d \<notin> ua_invite_code ` set (t_user_account invited_db)"
      "5 \<notin> profile_ids invited_db"
      "uc_wallet_address ?d = None \<or> uc_wallet_address ?d \<notin> ua_wallet_address ` set (t_user_account invited_db)"
    by (simp_all add: name_free_def account_rows_def name_matches_def sample_account_def sample_names
        invited_db_def sample_defs code_available_def)
  from create_user_run(1) [OF invited_inv name c]
  have run: "create_user_body 5 0 ?d invited_db =
      (Inr (user_of (new_account_row 5 0 ?d) (new_profile_row 5 0 (new_user_profile (uc_username ?d)))),
       created_db 5 0 ?d invited_db)" .
  from invite_code_once [OF invited_inv name run, of "''c0de''"] run show ?thesis by simp
qed

end
