(* ===== verification/Oauth.thy ===== *)
theory Oauth
  imports User_Laws
begin

text \<open>
  OAuth applications, authorization codes and access tokens
  (\<open>fedimovies-models/src/oauth/queries.rs\<close>). \<open>CURRENT_TIMESTAMP\<close> is the argument \<open>now\<close>.
\<close>

record db_oauth_app_data =
  od_app_name :: string
  od_website :: "string option"
  od_scopes :: string
  od_redirect_uri :: string
  od_client_id :: uuid
  od_client_secret :: string

definition new_oauth_app :: "datetime \<Rightarrow> db_oauth_app_data \<Rightarrow> database \<Rightarrow> db_oauth_app" where
  "new_oauth_app now d db =
     \<lparr>oa_id = next_id db, oa_app_name = od_app_name d, oa_website = od_website d,
      oa_scopes = od_scopes d, oa_redirect_uri = od_redirect_uri d, oa_client_id = od_client_id d,
      oa_client_secret = od_client_secret d, oa_created_at = now\<rparr>"

definition create_oauth_app :: "datetime \<Rightarrow> db_oauth_app_data \<Rightarrow> db_oauth_app dbm" where
  "create_oauth_app now app_data =
     execute_catching ''oauth_application'' (\<lambda>db.
       let row = new_oauth_app now app_data db
       in (row, db\<lparr>t_oauth_application := t_oauth_application db @ [row], next_id := next_id db + 1\<rparr>))"

definition get_oauth_app_by_client_id :: "uuid \<Rightarrow> db_oauth_app dbm" where
  "get_oauth_app_by_client_id client_id =
     bind (query_opt (\<lambda>db. filter (\<lambda>a. oa_client_id a = client_id) (t_oauth_application db)))
     (\<lambda>maybe_row. ok_or maybe_row (NotFound ''oauth application''))"

definition create_oauth_authorization ::
    "string \<Rightarrow> uuid \<Rightarrow> int \<Rightarrow> string \<Rightarrow> datetime \<Rightarrow> datetime \<Rightarrow> unit dbm" where
  "create_oauth_authorization authorization_code user_id application_id scopes created_at expires_at =
     execute (\<lambda>db. ((), db\<lparr>t_oauth_authorization := t_oauth_authorization db @
       [\<lparr>oz_id = next_id db, oz_code = authorization_code, oz_user_id = user_id,
         oz_application_id = application_id, oz_scopes = scopes, oz_created_at = created_at,
         oz_expires_at = expires_at\<rparr>], next_id := next_id db + 1\<rparr>))"

text \<open>The join of a table that refers to an account with \<open>user_account\<close> and \<open>actor_profile\<close>.\<close>

definition join_accounts ::
    "('r \<Rightarrow> uuid) \<Rightarrow> 'r list \<Rightarrow> database \<Rightarrow> (db_user \<times> db_actor_profile) list" where
  "join_accounts k rows db =
     concat (map (\<lambda>r. filter (\<lambda>(u, ap). ua_id u = k r) (account_rows db)) rows)"

definition get_user_by_authorization_code :: "datetime \<Rightarrow> string \<Rightarrow> user dbm" where
  "get_user_by_authorization_code now authorization_code =
     bind (query_opt (\<lambda>db. join_accounts oz_user_id
       (filter (\<lambda>z. oz_code z = authorization_code \<and> oz_expires_at z > now) (t_oauth_authorization db)) db))
     (\<lambda>maybe_row. bind (ok_or maybe_row (NotFound ''authorization'')) (\<lambda>(u, ap).
     ret (user_of u ap)))"

definition save_oauth_token :: "uuid \<Rightarrow> string \<Rightarrow> datetime \<Rightarrow> datetime \<Rightarrow> unit dbm" where
  "save_oauth_token owner_id token created_at expires_at =
     execute (\<lambda>db. ((), db\<lparr>t_oauth_token := t_oauth_token db @
       [\<lparr>ot_id = next_id db, ot_owner_id = owner_id, ot_token = token, ot_created_at = created_at,
         ot_expires_at = expires_at\<rparr>], next_id := next_id db + 1\<rparr>))"

definition delete_oauth_token :: "uuid \<Rightarrow> string \<Rightarrow> unit dbm" where
  "delete_oauth_token current_user_id token = transaction (
     bind (query_opt (\<lambda>db. map ot_owner_id (filter (\<lambda>t. ot_token t = token) (t_oauth_token db)))) (\<lambda>maybe_row.
     case maybe_row of
       Some owner_id \<Rightarrow>
         if owner_id \<noteq> current_user_id then throw (NotFound ''token'')
         else execute (\<lambda>db. ((), db\<lparr>t_oauth_token :=
           delete_where (\<lambda>t. ot_token t = token) (t_oauth_token db)\<rparr>))
     | None \<Rightarrow> ret ()))"

definition delete_oauth_tokens :: "uuid \<Rightarrow> unit dbm" where
  "delete_oauth_tokens owner_id =
     execute (\<lambda>db. ((), db\<lparr>t_oauth_token := delete_where (\<lambda>t. ot_owner_id t = owner_id) (t_oauth_token db)\<rparr>))"

definition get_user_by_oauth_token :: "datetime \<Rightarrow> string \<Rightarrow> user dbm" where
  "get_user_by_oauth_token now access_token =
     bind (query_opt (\<lambda>db. join_accounts ot_owner_id
       (filter (\<lambda>t. ot_token t = access_token \<and> ot_expires_at t > now) (t_oauth_token db)) db))
     (\<lambda>maybe_row. bind (ok_or maybe_row (NotFound ''user'')) (\<lambda>(u, ap).
     ret (user_of u ap)))"

section \<open>Invariants\<close>

lemma app_inv_bump: "app_inv A C db \<Longrightarrow> app_inv A C (db\<lparr>next_id := next_id db + 1\<rparr>)"
  by (rule app_inv_next_id) simp_all

lemma inv_oauth:
  "keeps db_inv (create_oauth_app now d)"
  "keeps db_inv (create_oauth_authorization c u a s t e)"
  "keeps db_inv (save_oauth_token u tok t e)"
  unfolding create_oauth_app_def create_oauth_authorization_def save_oauth_token_def Let_def
  by (rule keeps_inv_execute_catching keeps_inv_execute, simp add: app_inv_next_id db_inv_def)+

lemma inv_oauth_delete:
  "keeps db_inv (delete_oauth_token u tok)" "keeps db_inv (delete_oauth_tokens u)"
  unfolding delete_oauth_token_def delete_oauth_tokens_def
  by (intro keeps_intro keeps_inv_execute; simp add: db_inv_def)+

section \<open>Access tokens\<close>

lemma wf_token_keys:
  "wf_db db \<Longrightarrow> distinct (map ot_token (t_oauth_token db))"
  "wf_db db \<Longrightarrow> distinct (map oz_code (t_oauth_authorization db))"
  "wf_db db \<Longrightarrow> t \<in> set (t_oauth_token db) \<Longrightarrow> ot_owner_id t \<in> user_ids db"
  by (simp_all add: wf_db_def unique_ok_def token_keys_ok_def foreign_keys_ok_def user_refs_ok_def)

lemma account_row_of:
  assumes "wf_db db" and "i \<in> user_ids db"
  obtains u ap where "(u, ap) \<in> set (account_rows db)" and "ua_id u = i"
    and "filter (\<lambda>(u, ap). ua_id u = i) (account_rows db) = [(u, ap)]"
proof -
  from assms(2) obtain u where u: "u \<in> set (t_user_account db)" "i = ua_id u" by auto
  from account_profile [OF assms(1) u(1)] obtain ap where "(u, ap) \<in> set (account_rows db)"
    using u(1) by (auto simp: set_account_rows)
  moreover from filter_unique_key [OF distinct_account_rows(1) [OF assms(1)] this] u(2)
  have "filter (\<lambda>(u, ap). ua_id u = i) (account_rows db) = [(u, ap)]"
    by (simp add: case_prod_unfold)
  ultimately show thesis using that u(2) by blast
qed

lemma delete_token_wf:
  "wf_db db \<Longrightarrow> wf_db (db\<lparr>t_oauth_token := delete_where p (t_oauth_token db)\<rparr>)"
  unfolding wf_db_unfold by (simp add: distinct_map_delete)

text \<open>Who holds a token at a time: the specification of the lookup.\<close>

definition token_owner :: "datetime \<Rightarrow> string \<Rightarrow> database \<Rightarrow> uuid option" where
  "token_owner now token db =
     map_option ot_owner_id (find (\<lambda>t. ot_token t = token \<and> ot_expires_at t > now) (t_oauth_token db))"

lemma filter_key_and:
  assumes "distinct (map k rs)"
  shows "filter (\<lambda>r. k r = v \<and> p r) rs = (case find (\<lambda>r. k r = v \<and> p r) rs of None \<Rightarrow> [] | Some r \<Rightarrow> [r])"
  using assms
proof (induction rs)
  case (Cons a rs)
  show ?case
  proof (cases "k a = v \<and> p a")
    case True
    with Cons.prems have "\<forall>r \<in> set rs. k r \<noteq> v" by (metis distinct.simps(2) image_eqI list.set_map list.simps(9))
    then have "filter (\<lambda>r. k r = v \<and> p r) rs = []" by (simp add: filter_empty_conv)
    with True show ?thesis by simp
  qed (use Cons in auto)
qed simp

lemma get_user_by_oauth_token_run:
  assumes wf: "wf_db db"
  shows "get_user_by_oauth_token now token db =
    (case token_owner now token db of
       None \<Rightarrow> (Inl (NotFound ''user''), db)
     | Some i \<Rightarrow> get_user_by_id i db)"
proof -
  let ?p = "\<lambda>t. ot_token t = token \<and> ot_expires_at t > now"
  show ?thesis
  proof (cases "find ?p (t_oauth_token db)")
    case None
    then have "filter ?p (t_oauth_token db) = []" using filter_key_and [OF wf_token_keys(1) [OF wf]] by simp
    with None show ?thesis
      by (simp add: get_user_by_oauth_token_def token_owner_def join_accounts_def bind_def query_opt_run ok_or_run)
  next
    case (Some t)
    then have rows: "filter ?p (t_oauth_token db) = [t]"
      using filter_key_and [OF wf_token_keys(1) [OF wf], of token "\<lambda>t. ot_expires_at t > now"] by simp
    from find_Some_in [OF Some] wf_token_keys(3) [OF wf] have "ot_owner_id t \<in> user_ids db" by blast
    then obtain u ap where row: "(u, ap) \<in> set (account_rows db)" "ua_id u = ot_owner_id t"
      and acc: "filter (\<lambda>(u, ap). ua_id u = ot_owner_id t) (account_rows db) = [(u, ap)]"
      by (rule account_row_of [OF wf])
    have "get_user_by_oauth_token now token db = (Inr (user_of u ap), db)"
      using rows acc
      by (simp add: get_user_by_oauth_token_def join_accounts_def bind_def query_opt_run ok_or_run ret_run)
    moreover have "token_owner now token db = Some (ot_owner_id t)" using Some by (simp add: token_owner_def)
    ultimately show ?thesis using get_user_by_id_row [OF wf row(1)] by (simp add: row(2))
  qed
qed

lemma find_deleted: "(\<And>r. q r \<Longrightarrow> p r) \<Longrightarrow> find q (delete_where p rs) = None"
  by (auto simp: find_None_all)

lemma delete_oauth_token_run:
  assumes wf: "wf_db db"
  shows "delete_oauth_token i token db =
    (case find (\<lambda>t. ot_token t = token) (t_oauth_token db) of
       None \<Rightarrow> (Inr (), db)
     | Some t \<Rightarrow> if ot_owner_id t \<noteq> i then (Inl (NotFound ''token''), db)
         else (Inr (), db\<lparr>t_oauth_token := delete_where (\<lambda>t. ot_token t = token) (t_oauth_token db)\<rparr>))"
proof (cases "find (\<lambda>t. ot_token t = token) (t_oauth_token db)")
  case None
  then have "filter (\<lambda>t. ot_token t = token) (t_oauth_token db) = []"
    by (simp add: find_None_all filter_empty_conv)
  with None show ?thesis
    by (simp add: delete_oauth_token_def transaction_def bind_def query_opt_run ret_run)
next
  case (Some t)
  then have "filter (\<lambda>t. ot_token t = token) (t_oauth_token db) = [t]"
    using filter_key_and [OF wf_token_keys(1) [OF wf], of token "\<lambda>_. True"] by simp
  with Some delete_token_wf [OF wf] show ?thesis
    by (simp add: delete_oauth_token_def transaction_def bind_def query_opt_run throw_run execute_run)
qed

text \<open>
  C30: the life of an access token. Once \<open>save_oauth_token\<close> has stored a token for an account, the
  token identifies that account until it expires and nobody from then on. A request by another
  user to delete it is refused and changes nothing; after its owner has deleted it, or all of
  their tokens, it identifies nobody at any time, and deleting it once more succeeds.
\<close>

theorem oauth_token_lifecycle:
  assumes inv: "db_inv db" and saved: "save_oauth_token owner token created expires db = (Inr (), db')"
    and other: "thief \<noteq> owner"
  shows "(get_user_by_oauth_token now token db' =
      (if now < expires then get_user_by_id owner db' else (Inl (NotFound ''user''), db'))) \<and>
    (\<exists>u. get_user_by_id owner db' = (Inr u, db') \<and> us_id u = owner) \<and>
    (delete_oauth_token thief token db' = (Inl (NotFound ''token''), db')) \<and>
    (\<exists>db2. delete_oauth_token owner token db' = (Inr (), db2) \<and> db_inv db2 \<and>
      get_user_by_oauth_token now token db2 = (Inl (NotFound ''user''), db2) \<and>
      delete_oauth_token owner token db2 = (Inr (), db2)) \<and>
    (\<exists>db2. delete_oauth_tokens owner db' = (Inr (), db2) \<and> db_inv db2 \<and>
      get_user_by_oauth_token now token db2 = (Inl (NotFound ''user''), db2))"
proof (intro conjI)
  let ?t = "\<lparr>ot_id = next_id db, ot_owner_id = owner, ot_token = token, ot_created_at = created, ot_expires_at = expires\<rparr>"
  from saved have wf': "wf_db db'"
    and db': "db' = db\<lparr>t_oauth_token := t_oauth_token db @ [?t], next_id := next_id db + 1\<rparr>"
    by (auto simp: save_oauth_token_def execute_ok)
  have inv': "db_inv db'" using keepsD [OF inv_oauth(3) inv saved] .
  have fresh: "\<forall>t \<in> set (t_oauth_token db). ot_token t \<noteq> token"
    using wf_token_keys(1) [OF wf'] by (force simp: db')
  have none: "find (\<lambda>t. ot_token t = token \<and> p t) (t_oauth_token db) = None" for p
    using fresh by (auto simp: find_None_all)
  have append: "find q (xs @ [x]) = (case find q xs of None \<Rightarrow> if q x then Some x else None | Some y \<Rightarrow> Some y)"
    for q and xs :: "db_oauth_token list" and x by (induction xs) auto
  have "token_owner now token db' = (if now < expires then Some owner else None)"
    using none [of "\<lambda>t. now < ot_expires_at t"] by (simp add: token_owner_def db' append)
  then show "get_user_by_oauth_token now token db' =
      (if now < expires then get_user_by_id owner db' else (Inl (NotFound ''user''), db'))"
    by (simp add: get_user_by_oauth_token_run [OF wf'])
  have "owner \<in> user_ids db'" using wf_token_keys(3) [OF wf', of ?t] by (simp add: db')
  from account_row_of [OF wf' this] obtain u ap where row: "(u, ap) \<in> set (account_rows db')" "ua_id u = owner" by metis
  from get_user_by_id_row [OF wf' row(1)] row(2)
  show "\<exists>u. get_user_by_id owner db' = (Inr u, db') \<and> us_id u = owner" by (auto simp: user_of_def)
  have found: "find (\<lambda>t. ot_token t = token) (t_oauth_token db') = Some ?t"
    using none [of "\<lambda>_. True"] by (simp add: db' append)
  with other show "delete_oauth_token thief token db' = (Inl (NotFound ''token''), db')"
    by (simp add: delete_oauth_token_run [OF wf'])
  let ?db2 = "db'\<lparr>t_oauth_token := delete_where (\<lambda>t. ot_token t = token) (t_oauth_token db')\<rparr>"
  have del: "delete_oauth_token owner token db' = (Inr (), ?db2)"
    using found by (simp add: delete_oauth_token_run [OF wf'])
  have inv2: "db_inv ?db2" using keepsD [OF inv_oauth_delete(1) inv' del] .
  have "token_owner now token ?db2 = None" by (auto simp: token_owner_def intro!: find_deleted)
  then have gone: "get_user_by_oauth_token now token ?db2 = (Inl (NotFound ''user''), ?db2)"
    by (simp add: get_user_by_oauth_token_run [OF db_inv_wf [OF inv2]])
  have "delete_oauth_token owner token ?db2 = (Inr (), ?db2)"
    by (simp add: delete_oauth_token_run [OF db_inv_wf [OF inv2]] find_deleted)
  with del inv2 gone show "\<exists>db2. delete_oauth_token owner token db' = (Inr (), db2) \<and> db_inv db2 \<and>
      get_user_by_oauth_token now token db2 = (Inl (NotFound ''user''), db2) \<and>
      delete_oauth_token owner token db2 = (Inr (), db2)" by blast
  let ?db3 = "db'\<lparr>t_oauth_token := delete_where (\<lambda>t. ot_owner_id t = owner) (t_oauth_token db')\<rparr>"
  have all: "delete_oauth_tokens owner db' = (Inr (), ?db3)"
    using delete_token_wf [OF wf'] by (simp add: delete_oauth_tokens_def execute_run)
  have inv3: "db_inv ?db3" using keepsD [OF inv_oauth_delete(2) inv' all] .
  have "\<forall>t \<in> set (t_oauth_token db'). ot_token t = token \<longrightarrow> ot_owner_id t = owner"
    using fresh by (simp add: db')
  then have "token_owner now token ?db3 = None" by (auto simp: token_owner_def find_None_all)
  then have "get_user_by_oauth_token now token ?db3 = (Inl (NotFound ''user''), ?db3)"
    by (simp add: get_user_by_oauth_token_run [OF db_inv_wf [OF inv3]])
  with all inv3 show "\<exists>db2. delete_oauth_tokens owner db' = (Inr (), db2) \<and> db_inv db2 \<and>
      get_user_by_oauth_token now token db2 = (Inl (NotFound ''user''), db2)" by blast
qed

text \<open>An account can hold a token in the sample database.\<close>

lemma sample_token_saved:
  "\<exists>db'. save_oauth_token 1 ''t0ken'' 0 100 sample_db = (Inr (), db')"
proof -
  have "wf_db (snd ((), sample_db\<lparr>t_oauth_token := t_oauth_token sample_db @
      [\<lparr>ot_id = next_id sample_db, ot_owner_id = 1, ot_token = ''t0ken'', ot_created_at = 0, ot_expires_at = 100\<rparr>],
      next_id := next_id sample_db + 1\<rparr>))"
    using sample_wf unfolding wf_db_unfold sample_defs by simp
  then show ?thesis by (simp add: save_oauth_token_def execute_run)
qed

theorem oauth_token_lifecycle_witness:
  "\<exists>u db'. save_oauth_token 1 ''t0ken'' 0 100 sample_db = (Inr (), db') \<and>
     get_user_by_oauth_token 99 ''t0ken'' db' = (Inr u, db') \<and> us_id u = 1 \<and>
     get_user_by_oauth_token 100 ''t0ken'' db' = (Inl (NotFound ''user''), db')"
proof -
  from sample_token_saved obtain db' where s: "save_oauth_token 1 ''t0ken'' 0 100 sample_db = (Inr (), db')" ..
  have ne: "(2 :: uuid) \<noteq> 1" by simp
  note law = oauth_token_lifecycle [OF sample_inv s ne]
  from law [of 0] have user: "\<exists>u. get_user_by_id 1 db' = (Inr u, db') \<and> us_id u = 1" by (elim conjE)
  from law [of 99] have 99: "get_user_by_oauth_token 99 ''t0ken'' db' = get_user_by_id 1 db'"
    by (elim conjE) simp
  from law [of 100] have 100: "get_user_by_oauth_token 100 ''t0ken'' db' = (Inl (NotFound ''user''), db')"
    by (elim conjE) simp
  from user obtain u where "get_user_by_id 1 db' = (Inr u, db')" "us_id u = 1" by blast
  with 99 100 s show ?thesis by auto
qed

end
