(* ===== verification/Notifications.thy ===== *)
theory Notifications
  imports Profile_Laws Deletion
begin

text \<open>
  Creating and deleting notifications (\<open>fedimovies-models/src/notifications/queries.rs\<close>). The
  identity column is taken from the sequence, \<open>created_at\<close> is the time of the statement.
\<close>

definition new_notification ::
    "datetime \<Rightarrow> uuid \<Rightarrow> uuid \<Rightarrow> uuid option \<Rightarrow> event_type \<Rightarrow> database \<Rightarrow> db_notification" where
  "new_notification now sender_id recipient_id post_id ty db =
     \<lparr>nt_id = next_id db, nt_sender_id = sender_id, nt_recipient_id = recipient_id,
      nt_post_id = post_id, nt_event_type = ty, nt_created_at = now\<rparr>"

definition create_notification ::
    "datetime \<Rightarrow> uuid \<Rightarrow> uuid \<Rightarrow> uuid option \<Rightarrow> event_type \<Rightarrow> unit dbm" where
  "create_notification now sender_id recipient_id post_id ty =
     execute (\<lambda>db. ((), db\<lparr>
       t_notification := t_notification db @ [new_notification now sender_id recipient_id post_id ty db],
       next_id := next_id db + 1\<rparr>))"

definition delete_notification :: "int \<Rightarrow> unit dbm" where
  "delete_notification notification_id =
     execute (\<lambda>db. ((), db\<lparr>t_notification :=
       delete_where (\<lambda>n. nt_id n = notification_id) (t_notification db)\<rparr>))"

definition create_follow_notification :: "datetime \<Rightarrow> uuid \<Rightarrow> uuid \<Rightarrow> unit dbm" where
  "create_follow_notification now sender_id recipient_id =
     create_notification now sender_id recipient_id None Event_Follow"

definition create_reply_notification :: "datetime \<Rightarrow> uuid \<Rightarrow> uuid \<Rightarrow> uuid \<Rightarrow> unit dbm" where
  "create_reply_notification now sender_id recipient_id post_id =
     create_notification now sender_id recipient_id (Some post_id) Event_Reply"

definition create_reaction_notification :: "datetime \<Rightarrow> uuid \<Rightarrow> uuid \<Rightarrow> uuid \<Rightarrow> unit dbm" where
  "create_reaction_notification now sender_id recipient_id post_id =
     create_notification now sender_id recipient_id (Some post_id) Event_Reaction"

definition create_mention_notification :: "datetime \<Rightarrow> uuid \<Rightarrow> uuid \<Rightarrow> uuid \<Rightarrow> unit dbm" where
  "create_mention_notification now sender_id recipient_id post_id =
     create_notification now sender_id recipient_id (Some post_id) Event_Mention"

definition create_repost_notification :: "datetime \<Rightarrow> uuid \<Rightarrow> uuid \<Rightarrow> uuid \<Rightarrow> unit dbm" where
  "create_repost_notification now sender_id recipient_id post_id =
     create_notification now sender_id recipient_id (Some post_id) Event_Repost"

definition create_subscription_notification :: "datetime \<Rightarrow> uuid \<Rightarrow> uuid \<Rightarrow> unit dbm" where
  "create_subscription_notification now sender_id recipient_id =
     create_notification now sender_id recipient_id None Event_Subscription"

definition create_subscription_expiration_notification :: "datetime \<Rightarrow> uuid \<Rightarrow> uuid \<Rightarrow> unit dbm" where
  "create_subscription_expiration_notification now sender_id recipient_id =
     create_notification now sender_id recipient_id None Event_SubscriptionExpiration"

definition create_move_notification :: "datetime \<Rightarrow> uuid \<Rightarrow> uuid \<Rightarrow> unit dbm" where
  "create_move_notification now sender_id recipient_id =
     create_notification now sender_id recipient_id None Event_Move"

lemmas create_notification_defs =
  create_follow_notification_def create_reply_notification_def create_reaction_notification_def
  create_mention_notification_def create_repost_notification_def
  create_subscription_notification_def create_subscription_expiration_notification_def
  create_move_notification_def

section \<open>What they keep\<close>

definition add_notification :: "db_notification \<Rightarrow> database \<Rightarrow> database" where
  "add_notification n db =
     db\<lparr>t_notification := t_notification db @ [n], next_id := next_id db + 1\<rparr>"

lemma create_notification_ok [db_ok]:
  "create_notification now s r p ty db = (Inr u, db') \<longleftrightarrow>
     db' = add_notification (new_notification now s r p ty db) db \<and> wf_db db'"
  unfolding create_notification_def by (auto simp: db_ok add_notification_def)

lemma app_inv_add_notification:
  assumes "app_inv A C db" and "s \<noteq> r"
  shows "app_inv A C (add_notification (new_notification now s r p ty db) db)"
  using assms by (force simp: app_inv_def add_notification_def new_notification_def notifications_ok_def next_id_ok_def)

lemma inv_create_notification: "s \<noteq> r \<Longrightarrow> keeps db_inv (create_notification now s r p ty)"
  unfolding create_notification_def
  using app_inv_add_notification [of "{}" "{}" _ s r now p ty]
  by (intro keeps_inv_execute) (auto simp: add_notification_def db_inv_def)

lemma inv_delete_notification: "keeps db_inv (delete_notification n)"
  unfolding delete_notification_def
  by (intro keeps_inv_execute) (auto simp: db_inv_def app_inv_def notifications_ok_def next_id_ok_def)

end
