(* ===== verification/Relationships.thy ===== *)
theory Relationships
  imports Notifications
begin

text \<open>
  Relationships and follow requests (\<open>fedimovies-models/src/relationships/queries.rs\<close> and
  \<open>types.rs\<close>).
\<close>

section \<open>Values\<close>

record db_relationship =
  rel_source_id :: uuid
  rel_target_id :: uuid
  rel_type :: relationship_type

definition is_direct :: "db_relationship \<Rightarrow> uuid \<Rightarrow> uuid \<Rightarrow> db_error + bool" where
  "is_direct r source_id target_id =
     (if rel_source_id r = source_id \<and> rel_target_id r = target_id then Inr True
      else if rel_source_id r = target_id \<and> rel_target_id r = source_id then Inr False
      else Inl DatabaseTypeError)"

record related_actor_profile =
  rap_relationship_id :: int
  rap_profile :: db_actor_profile

section \<open>Relationships\<close>

definition get_relationships :: "uuid \<Rightarrow> uuid \<Rightarrow> db_relationship list dbm" where
  "get_relationships source_id target_id =
     query (\<lambda>db.
       map (\<lambda>r. \<lparr>rel_source_id = rl_source_id r, rel_target_id = rl_target_id r,
           rel_type = rl_relationship_type r\<rparr>)
         (filter (\<lambda>r. rl_source_id r = source_id \<and> rl_target_id r = target_id \<or>
            rl_source_id r = target_id \<and> rl_target_id r = source_id) (t_relationship db)) @
       map (\<lambda>r. \<lparr>rel_source_id = fr_source_id r, rel_target_id = fr_target_id r,
           rel_type = FollowRequest\<rparr>)
         (filter (\<lambda>r. fr_source_id r = source_id \<and> fr_target_id r = target_id \<and>
            fr_request_status r = Pending) (t_follow_request db)))"

definition relationship_row :: "uuid \<Rightarrow> uuid \<Rightarrow> relationship_type \<Rightarrow> db_relationship_row \<Rightarrow> bool" where
  "relationship_row source_id target_id ty r \<longleftrightarrow>
     rl_source_id r = source_id \<and> rl_target_id r = target_id \<and> rl_relationship_type r = ty"

definition related :: "uuid \<Rightarrow> uuid \<Rightarrow> relationship_type \<Rightarrow> database \<Rightarrow> bool" where
  "related source_id target_id ty db \<longleftrightarrow>
     exists_where (relationship_row source_id target_id ty) (t_relationship db)"

definition has_relationship :: "uuid \<Rightarrow> uuid \<Rightarrow> relationship_type \<Rightarrow> bool dbm" where
  "has_relationship source_id target_id ty =
     bind (query_opt (\<lambda>db. filter (relationship_row source_id target_id ty) (t_relationship db)))
     (\<lambda>maybe_row. ret (maybe_row \<noteq> None))"

text \<open>\<open>INSERT INTO relationship\<close>, plain and with \<open>ON CONFLICT DO NOTHING\<close>, and \<open>DELETE\<close>.\<close>

definition new_relationship :: "uuid \<Rightarrow> uuid \<Rightarrow> relationship_type \<Rightarrow> database \<Rightarrow> db_relationship_row" where
  "new_relationship source_id target_id ty db =
     \<lparr>rl_id = next_id db, rl_source_id = source_id, rl_target_id = target_id,
      rl_relationship_type = ty\<rparr>"

definition insert_relationship :: "uuid \<Rightarrow> uuid \<Rightarrow> relationship_type \<Rightarrow> database \<Rightarrow> nat \<times> database" where
  "insert_relationship source_id target_id ty db =
     (1, db\<lparr>t_relationship := t_relationship db @ [new_relationship source_id target_id ty db],
        next_id := next_id db + 1\<rparr>)"

definition insert_relationship_opt ::
    "uuid \<Rightarrow> uuid \<Rightarrow> relationship_type \<Rightarrow> database \<Rightarrow> nat \<times> database" where
  "insert_relationship_opt source_id target_id ty db =
     (if related source_id target_id ty db then (0, db)
      else insert_relationship source_id target_id ty db)"

definition delete_relationship :: "uuid \<Rightarrow> uuid \<Rightarrow> relationship_type \<Rightarrow> database \<Rightarrow> nat \<times> database" where
  "delete_relationship source_id target_id ty db =
     (length (filter (relationship_row source_id target_id ty) (t_relationship db)),
      db\<lparr>t_relationship := delete_where (relationship_row source_id target_id ty) (t_relationship db)\<rparr>)"

definition hide_reposts :: "uuid \<Rightarrow> uuid \<Rightarrow> unit dbm" where
  "hide_reposts source_id target_id =
     bind (execute (insert_relationship_opt source_id target_id HideReposts)) (\<lambda>_. ret ())"

definition show_reposts :: "uuid \<Rightarrow> uuid \<Rightarrow> unit dbm" where
  "show_reposts source_id target_id =
     bind (execute (delete_relationship source_id target_id HideReposts)) (\<lambda>_. ret ())"

definition hide_replies :: "uuid \<Rightarrow> uuid \<Rightarrow> unit dbm" where
  "hide_replies source_id target_id =
     bind (execute (insert_relationship_opt source_id target_id HideReplies)) (\<lambda>_. ret ())"

definition show_replies :: "uuid \<Rightarrow> uuid \<Rightarrow> unit dbm" where
  "show_replies source_id target_id =
     bind (execute (delete_relationship source_id target_id HideReplies)) (\<lambda>_. ret ())"

definition mute_posts :: "uuid \<Rightarrow> uuid \<Rightarrow> unit dbm" where
  "mute_posts source_id target_id =
     bind (execute (insert_relationship_opt source_id target_id Mute)) (\<lambda>_. ret ())"

definition unmute_posts :: "uuid \<Rightarrow> uuid \<Rightarrow> unit dbm" where
  "unmute_posts source_id target_id =
     bind (execute (delete_relationship source_id target_id Mute)) (\<lambda>_. ret ())"

definition is_muted :: "uuid \<Rightarrow> uuid \<Rightarrow> bool dbm" where
  "is_muted source_id target_id =
     query (\<lambda>db. 0 < length (filter (relationship_row source_id target_id Mute) (t_relationship db)))"

section \<open>Following\<close>

definition follow :: "datetime \<Rightarrow> uuid \<Rightarrow> uuid \<Rightarrow> unit dbm" where
  "follow now source_id target_id = transaction (
     bind (execute_catching ''relationship'' (insert_relationship source_id target_id Follow)) (\<lambda>_.
     bind (update_follower_count target_id 1) (\<lambda>target_profile.
     bind (update_following_count source_id 1) (\<lambda>_.
     when_do (is_local target_profile) (create_follow_notification now source_id target_id)))))"

definition follow_request_row :: "uuid \<Rightarrow> uuid \<Rightarrow> db_follow_request \<Rightarrow> bool" where
  "follow_request_row source_id target_id r \<longleftrightarrow>
     fr_source_id r = source_id \<and> fr_target_id r = target_id"

definition delete_follow_request_opt :: "uuid \<Rightarrow> uuid \<Rightarrow> uuid option dbm" where
  "delete_follow_request_opt source_id target_id =
     bind (execute (\<lambda>db.
       (map fr_id (filter (follow_request_row source_id target_id) (t_follow_request db)),
        db\<lparr>t_follow_request := delete_where (follow_request_row source_id target_id) (t_follow_request db)\<rparr>)))
     opt_row"

definition unfollow :: "uuid \<Rightarrow> uuid \<Rightarrow> uuid option dbm" where
  "unfollow source_id target_id = transaction (
     bind (execute (delete_relationship source_id target_id Follow)) (\<lambda>deleted_count.
     bind (delete_follow_request_opt source_id target_id) (\<lambda>follow_request_deleted.
     let relationship_deleted = 0 < deleted_count in
     if \<not> relationship_deleted \<and> follow_request_deleted = None then throw (NotFound ''relationship'')
     else
       andthen (when_do relationship_deleted (
         bind (show_reposts source_id target_id) (\<lambda>_.
         bind (show_replies source_id target_id) (\<lambda>_.
         bind (update_follower_count target_id (- 1)) (\<lambda>_.
         bind (update_following_count source_id (- 1)) (\<lambda>_. ret ()))))))
       (ret follow_request_deleted))))"

definition create_follow_request :: "uuid \<Rightarrow> uuid \<Rightarrow> uuid \<Rightarrow> db_follow_request dbm" where
  "create_follow_request request_id source_id target_id =
     (let row = \<lparr>fr_id = request_id, fr_source_id = source_id, fr_target_id = target_id,
        fr_activity_id = None, fr_request_status = Pending\<rparr>
      in execute_catching ''follow request'' (\<lambda>db.
        (row, db\<lparr>t_follow_request := t_follow_request db @ [row]\<rparr>)))"

text \<open>\<open>ON CONFLICT (source_id, target_id) DO UPDATE SET activity_id\<close>: the status stays as it is.\<close>

definition upsert_follow_request ::
    "uuid \<Rightarrow> uuid \<Rightarrow> uuid \<Rightarrow> string \<Rightarrow> database \<Rightarrow> db_follow_request list \<times> database" where
  "upsert_follow_request request_id source_id target_id activity_id db =
     (let p = follow_request_row source_id target_id; f = (\<lambda>r. r\<lparr>fr_activity_id := Some activity_id\<rparr>);
        row = \<lparr>fr_id = request_id, fr_source_id = source_id, fr_target_id = target_id,
          fr_activity_id = Some activity_id, fr_request_status = Pending\<rparr>
      in if exists_where p (t_follow_request db)
         then (map f (filter p (t_follow_request db)),
           db\<lparr>t_follow_request := update_where p f (t_follow_request db)\<rparr>)
         else ([row], db\<lparr>t_follow_request := t_follow_request db @ [row]\<rparr>))"

definition create_remote_follow_request_opt ::
    "uuid \<Rightarrow> uuid \<Rightarrow> uuid \<Rightarrow> string \<Rightarrow> db_follow_request dbm" where
  "create_remote_follow_request_opt request_id source_id target_id activity_id =
     bind (execute (upsert_follow_request request_id source_id target_id activity_id)) one_row"

definition set_request_status ::
    "uuid \<Rightarrow> follow_request_status \<Rightarrow> database \<Rightarrow> db_follow_request list \<times> database" where
  "set_request_status request_id status db =
     (filter (\<lambda>r. fr_id r = request_id) (t_follow_request db),
      db\<lparr>t_follow_request := update_where (\<lambda>r. fr_id r = request_id)
        (\<lambda>r. r\<lparr>fr_request_status := status\<rparr>) (t_follow_request db)\<rparr>)"

definition follow_request_accepted :: "datetime \<Rightarrow> uuid \<Rightarrow> unit dbm" where
  "follow_request_accepted now request_id = transaction (
     bind (execute (set_request_status request_id Accepted)) (\<lambda>rows.
     bind (opt_row rows) (\<lambda>maybe_row.
     bind (ok_or maybe_row (NotFound ''follow request'')) (\<lambda>row.
     follow now (fr_source_id row) (fr_target_id row)))))"

definition follow_request_rejected :: "uuid \<Rightarrow> unit dbm" where
  "follow_request_rejected request_id =
     bind (execute (\<lambda>db. row_count (set_request_status request_id Rejected db))) (\<lambda>updated_count.
     if updated_count = 0 then throw (NotFound ''follow request'') else ret ())"

definition get_follow_request_by_id :: "uuid \<Rightarrow> db_follow_request dbm" where
  "get_follow_request_by_id request_id =
     bind (query_opt (\<lambda>db. filter (\<lambda>r. fr_id r = request_id) (t_follow_request db)))
     (\<lambda>maybe_row. ok_or maybe_row (NotFound ''follow request''))"

definition get_follow_request_by_activity_id :: "string \<Rightarrow> db_follow_request dbm" where
  "get_follow_request_by_activity_id activity_id =
     bind (query_opt (\<lambda>db. filter (\<lambda>r. fr_activity_id r = Some activity_id) (t_follow_request db)))
     (\<lambda>maybe_row. ok_or maybe_row (NotFound ''follow request''))"

subsection \<open>Lists of profiles\<close>

text \<open>\<open>JOIN\<close> of relationships with profiles: the rows of the pairs that match.\<close>

definition join_profiles ::
    "(db_relationship_row \<Rightarrow> uuid) \<Rightarrow> db_relationship_row list \<Rightarrow> database \<Rightarrow> related_actor_profile list" where
  "join_profiles key rs db =
     concat (map (\<lambda>r. map (\<lambda>ap. \<lparr>rap_relationship_id = rl_id r, rap_profile = ap\<rparr>)
       (filter (\<lambda>ap. ap_id ap = key r) (t_actor_profile db))) rs)"

definition get_followers :: "uuid \<Rightarrow> db_actor_profile list dbm" where
  "get_followers profile_id =
     query (\<lambda>db. map rap_profile (join_profiles rl_source_id
       (filter (\<lambda>r. rl_target_id r = profile_id \<and> rl_relationship_type r = Follow) (t_relationship db)) db))"

definition get_followers_paginated :: "uuid \<Rightarrow> int option \<Rightarrow> nat \<Rightarrow> related_actor_profile list dbm" where
  "get_followers_paginated profile_id max_relationship_id limit =
     query (\<lambda>db. page rap_relationship_id (\<lambda>_. True) max_relationship_id limit
       (join_profiles rl_source_id
         (filter (\<lambda>r. rl_target_id r = profile_id \<and> rl_relationship_type r = Follow) (t_relationship db)) db))"

definition has_local_followers :: "string \<Rightarrow> bool dbm" where
  "has_local_followers actor_id =
     bind (query_opt (\<lambda>db. take 1 (filter (\<lambda>r. rl_relationship_type r = Follow \<and>
        exists_where (\<lambda>ap. ap_id ap = rl_target_id r \<and> ap_actor_id ap = Some actor_id) (t_actor_profile db))
        (t_relationship db))))
     (\<lambda>maybe_row. ret (maybe_row \<noteq> None))"

definition get_following :: "uuid \<Rightarrow> db_actor_profile list dbm" where
  "get_following profile_id =
     query (\<lambda>db. map rap_profile (join_profiles rl_target_id
       (filter (\<lambda>r. rl_source_id r = profile_id \<and> rl_relationship_type r = Follow) (t_relationship db)) db))"

definition get_following_paginated :: "uuid \<Rightarrow> int option \<Rightarrow> nat \<Rightarrow> related_actor_profile list dbm" where
  "get_following_paginated profile_id max_relationship_id limit =
     query (\<lambda>db. page rap_relationship_id (\<lambda>_. True) max_relationship_id limit
       (join_profiles rl_target_id
         (filter (\<lambda>r. rl_source_id r = profile_id \<and> rl_relationship_type r = Follow) (t_relationship db)) db))"

section \<open>Subscriptions between profiles\<close>

definition subscribe :: "uuid \<Rightarrow> uuid \<Rightarrow> unit dbm" where
  "subscribe source_id target_id = transaction (
     bind (execute_catching ''relationship'' (insert_relationship source_id target_id Subscription)) (\<lambda>_.
     bind (update_subscriber_count target_id 1) (\<lambda>_. ret ())))"

definition subscribe_opt :: "uuid \<Rightarrow> uuid \<Rightarrow> unit dbm" where
  "subscribe_opt source_id target_id = transaction (
     bind (execute (insert_relationship_opt source_id target_id Subscription)) (\<lambda>inserted_count.
     when_do (0 < inserted_count) (bind (update_subscriber_count target_id 1) (\<lambda>_. ret ()))))"

definition unsubscribe :: "uuid \<Rightarrow> uuid \<Rightarrow> unit dbm" where
  "unsubscribe source_id target_id = transaction (
     bind (execute (delete_relationship source_id target_id Subscription)) (\<lambda>deleted_count.
     if deleted_count = 0 then throw (NotFound ''relationship'')
     else bind (update_subscriber_count target_id (- 1)) (\<lambda>_. ret ())))"

definition get_subscribers :: "uuid \<Rightarrow> db_actor_profile list dbm" where
  "get_subscribers profile_id =
     query (\<lambda>db. map rap_profile (join_profiles rl_source_id (sort_desc rl_id
       (filter (\<lambda>r. rl_target_id r = profile_id \<and> rl_relationship_type r = Subscription)
         (t_relationship db))) db))"

section \<open>What the statements keep\<close>

lemma insert_relationship_simps [simp]:
  "fst (insert_relationship s t ty db) = 1"
  "snd (insert_relationship s t ty db) =
     db\<lparr>t_relationship := t_relationship db @ [new_relationship s t ty db], next_id := next_id db + 1\<rparr>"
  by (simp_all add: insert_relationship_def)

lemma new_relationship_simps [simp]:
  "rl_source_id (new_relationship s t ty db) = s" "rl_target_id (new_relationship s t ty db) = t"
  "rl_relationship_type (new_relationship s t ty db) = ty" "rl_id (new_relationship s t ty db) = next_id db"
  by (simp_all add: new_relationship_def)

lemma delete_relationship_simps [simp]:
  "fst (delete_relationship s t ty db) = length (filter (relationship_row s t ty) (t_relationship db))"
  "snd (delete_relationship s t ty db) =
     db\<lparr>t_relationship := delete_where (relationship_row s t ty) (t_relationship db)\<rparr>"
  by (simp_all add: delete_relationship_def)

lemma wf_not_self: "wf_db db \<Longrightarrow> r \<in> set (t_relationship db) \<Longrightarrow> rl_source_id r \<noteq> rl_target_id r"
  by (simp add: wf_db_def checks_ok_def)

lemma wf_new_relationship:
  "wf_db (db\<lparr>t_relationship := rs @ [new_relationship s t ty db0], next_id := n\<rparr>) \<Longrightarrow> s \<noteq> t"
  using wf_not_self [of _ "new_relationship s t ty db0"] by force

text \<open>Relationships of the other types do not count.\<close>

lemma relationship_counters_other:
  "ty \<noteq> Follow \<Longrightarrow> ty \<noteq> Subscription \<Longrightarrow> relationship_counters_ok aps rs \<Longrightarrow>
   relationship_counters_ok aps (rs @ [new_relationship s t ty db])"
  "ty \<noteq> Follow \<Longrightarrow> ty \<noteq> Subscription \<Longrightarrow> relationship_counters_ok aps rs \<Longrightarrow>
   relationship_counters_ok aps (delete_where (relationship_row s t ty) rs)"
proof -
  show "ty \<noteq> Follow \<Longrightarrow> ty \<noteq> Subscription \<Longrightarrow> relationship_counters_ok aps rs \<Longrightarrow>
   relationship_counters_ok aps (rs @ [new_relationship s t ty db])"
    by (simp add: relationship_counters_ok_def row_counts)
  assume ty: "ty \<noteq> Follow" "ty \<noteq> Subscription"
  have "count_where (\<lambda>r. q r \<and> rl_relationship_type r = x) (delete_where (relationship_row s t ty) rs) =
      count_where (\<lambda>r. q r \<and> rl_relationship_type r = x) rs" if "x \<noteq> ty" for q x
    using that by (auto simp: count_where_delete relationship_row_def count_where_0_iff)
  with ty show "relationship_counters_ok aps rs \<Longrightarrow>
      relationship_counters_ok aps (delete_where (relationship_row s t ty) rs)"
    by (simp add: relationship_counters_ok_def row_counts)
qed

text \<open>A change of the relationship table and of the counters together.\<close>

lemma app_inv_relationships:
  assumes inv: "app_inv A C db" and rel: "relationship_counters_ok (map g (t_actor_profile db)) rs"
    and g: "keeps_profile_keys g" "\<And>ap. ap_post_count (g ap) = ap_post_count ap"
    and ids: "\<And>r. r \<in> set rs \<Longrightarrow> rl_id r < n" "next_id db \<le> n"
  shows "app_inv A C (db\<lparr>t_relationship := rs, next_id := n, t_actor_profile := map g (t_actor_profile db)\<rparr>)"
proof -
  have "author_counters_ok (map g (t_actor_profile db)) (t_post db)"
    "accounts_ok A (map g (t_actor_profile db)) (t_user_account db)"
    "caches_ok C (map g (t_actor_profile db)) (t_profile_emoji db) (t_emoji db)"
    using app_invD(2,6,9) [OF inv] g
    by (auto simp: author_counters_ok_def accounts_ok_def caches_ok_def keeps_profile_keys_def is_local_def)
  moreover have "local_names_ok (map g (t_actor_profile db))"
    unfolding update_where_True [symmetric] using app_invD(7) [OF inv] g(1)
    by (subst local_names_update) (auto simp: keeps_profile_keys_def is_local_def)
  moreover have "next_id_ok (db\<lparr>t_relationship := rs, next_id := n, t_actor_profile := map g (t_actor_profile db)\<rparr>)"
    using app_invD(10) [OF inv] ids by (force simp: next_id_ok_def)
  ultimately show ?thesis using inv rel by (simp add: app_inv_def)
qed

lemma app_inv_relationships_same:
  assumes inv: "app_inv A C db" and rel: "relationship_counters_ok (t_actor_profile db) rs"
    and ids: "\<And>r. r \<in> set rs \<Longrightarrow> rl_id r < n" "next_id db \<le> n"
  shows "app_inv A C (db\<lparr>t_relationship := rs, next_id := n\<rparr>)"
  using app_inv_relationships [where g = id, OF inv _ _ _ ids] rel by (simp add: keeps_profile_keys_def)

lemma relationship_ids: "app_inv A C db \<Longrightarrow> r \<in> set (t_relationship db) \<Longrightarrow> rl_id r < next_id db"
  by (simp add: app_inv_def next_id_ok_def)

lemma inv_insert_other:
  "ty \<noteq> Follow \<Longrightarrow> ty \<noteq> Subscription \<Longrightarrow> keeps db_inv (execute (insert_relationship_opt s t ty))"
proof (rule keeps_inv_execute)
  fix db assume ty: "ty \<noteq> Follow" "ty \<noteq> Subscription" and inv: "db_inv db"
  note old = db_invD(2) [OF inv]
  have "app_inv {} {} (db\<lparr>t_relationship := t_relationship db @ [new_relationship s t ty db], next_id := next_id db + 1\<rparr>)"
    using relationship_counters_other(1) [OF ty app_invD(1) [OF old]] relationship_ids [OF old]
    by (intro app_inv_relationships_same [OF old]) force+
  with old show "app_inv {} {} (snd (insert_relationship_opt s t ty db))"
    by (simp add: insert_relationship_opt_def)
qed

lemma app_inv_delete_other:
  assumes "ty \<noteq> Follow" "ty \<noteq> Subscription" and old: "app_inv A C db"
  shows "app_inv A C (snd (delete_relationship s t ty db))"
  using app_inv_relationships_same [OF old relationship_counters_other(2) [OF assms(1,2) app_invD(1) [OF old]],
      where n = "next_id db"] relationship_ids [OF old] by simp

lemma inv_delete_other:
  "ty \<noteq> Follow \<Longrightarrow> ty \<noteq> Subscription \<Longrightarrow> keeps db_inv (execute (delete_relationship s t ty))"
  by (rule keeps_inv_execute) (blast intro: app_inv_delete_other db_invD)

lemma inv_hide_show:
  "keeps db_inv (hide_reposts s t)" "keeps db_inv (show_reposts s t)"
  "keeps db_inv (hide_replies s t)" "keeps db_inv (show_replies s t)"
  "keeps db_inv (mute_posts s t)" "keeps db_inv (unmute_posts s t)"
  unfolding hide_reposts_def show_reposts_def hide_replies_def show_replies_def mute_posts_def unmute_posts_def
  by (intro keeps_bind keeps_ret inv_insert_other inv_delete_other; simp)+

subsection \<open>Follow and unfollow\<close>

definition bump_follow :: "uuid \<Rightarrow> uuid \<Rightarrow> int \<Rightarrow> db_actor_profile \<Rightarrow> db_actor_profile" where
  "bump_follow s t d ap =
     ap\<lparr>ap_follower_count := ap_follower_count ap + (if ap_id ap = t then d else 0),
        ap_following_count := ap_following_count ap + (if ap_id ap = s then d else 0)\<rparr>"

lemma bump_follow_keys:
  "keeps_profile_keys (bump_follow s t d)" "ap_post_count (bump_follow s t d ap) = ap_post_count ap"
  "ap_id (bump_follow s t d ap) = ap_id ap" "is_local (bump_follow s t d ap) = is_local ap"
  by (simp_all add: keeps_profile_keys_def bump_follow_def is_local_def)

lemma bump_follow_update:
  "update_where (\<lambda>ap. ap_id ap = s) (\<lambda>ap. ap\<lparr>ap_following_count := ap_following_count ap + d\<rparr>)
     (update_where (\<lambda>ap. ap_id ap = t) (\<lambda>ap. ap\<lparr>ap_follower_count := ap_follower_count ap + d\<rparr>) aps) =
   map (bump_follow s t d) aps"
  by (auto simp: update_where_def bump_follow_def)

definition followed :: "uuid \<Rightarrow> uuid \<Rightarrow> database \<Rightarrow> database" where
  "followed s t db = db\<lparr>t_relationship := t_relationship db @ [new_relationship s t Follow db],
     next_id := next_id db + 1, t_actor_profile := map (bump_follow s t 1) (t_actor_profile db)\<rparr>"

lemma relationship_counters_follow:
  "relationship_counters_ok aps rs \<Longrightarrow>
   relationship_counters_ok (map (bump_follow s t 1) aps) (rs @ [new_relationship s t Follow db])"
  by (auto simp: relationship_counters_ok_def row_counts bump_follow_def)

lemma app_inv_followed: "app_inv A C db \<Longrightarrow> app_inv A C (followed s t db)"
  unfolding followed_def
  by (intro app_inv_relationships relationship_counters_follow bump_follow_keys app_invD(1))
    (auto dest: relationship_ids)

lemma filter_update_key:
  "(\<And>r. k (f r) = k r) \<Longrightarrow> filter (\<lambda>r. k r = v) (update_where p f rs) = update_where p f (filter (\<lambda>r. k r = v) rs)"
  by (induction rs) (auto simp: update_where_def)

lemma update_where_single: "update_where p f [r] = [if p r then f r else r]"
  by (simp add: update_where_def)

lemma update_where_eq_single:
  "update_where p f rs = [r'] \<longleftrightarrow> (\<exists>r. rs = [r] \<and> r' = (if p r then f r else r))"
  by (cases rs) (auto simp: update_where_def)

lemma filter_id_bumped:
  "filter (\<lambda>ap. ap_id ap = i) (update_where p f aps) = [ap'] \<Longrightarrow> (\<And>ap. ap_id (f ap) = ap_id ap) \<Longrightarrow>
   i \<in> ap_id ` set aps"
proof -
  assume "filter (\<lambda>ap. ap_id ap = i) (update_where p f aps) = [ap']" and f: "\<And>ap. ap_id (f ap) = ap_id ap"
  then have "ap' \<in> set (update_where p f aps)" "ap_id ap' = i"
    by (auto dest!: filter_eq_ConsD)
  with f show ?thesis by (auto simp: in_update_where split: if_splits)
qed

lemma is_local_counts [simp]:
  "is_local (ap\<lparr>ap_follower_count := n\<rparr>) = is_local ap"
  "is_local (ap\<lparr>ap_following_count := n\<rparr>) = is_local ap"
  by (simp_all add: is_local_def)

lemma follow_okD:
  assumes "follow now s t db = (Inr u, db')"
  obtains target where "filter (\<lambda>ap. ap_id ap = t) (t_actor_profile db) = [target]"
    and "s \<in> profile_ids db" and "s \<noteq> t" and "\<not> related s t Follow db" and "wf_db db'"
    and "db' = (if is_local target
          then add_notification (new_notification now s t None Event_Follow (followed s t db)) (followed s t db)
          else followed s t db)"
proof -
  from assms [unfolded follow_def] obtain x1 d1 tp d2 ap d3 where
    1: "execute_catching ''relationship'' (insert_relationship s t Follow) db = (Inr x1, d1)" and
    2: "update_follower_count t 1 d1 = (Inr tp, d2)" and
    3: "update_following_count s 1 d2 = (Inr ap, d3)" and
    4: "when_do (is_local tp) (create_follow_notification now s t) d3 = (Inr u, db')"
    by (auto simp: transaction_ok bind_ok)
  from 1 have d1: "d1 = db\<lparr>t_relationship := t_relationship db @ [new_relationship s t Follow db], next_id := next_id db + 1\<rparr>"
    and ins: "wf_db d1"
    by (auto simp: db_ok insert_relationship_def)
  from 2 obtain target where target: "filter (\<lambda>ap. ap_id ap = t) (t_actor_profile db) = [target]"
    and tp: "is_local tp = is_local target"
    and d2: "d2 = d1\<lparr>t_actor_profile := update_where (\<lambda>ap. ap_id ap = t)
        (\<lambda>ap. ap\<lparr>ap_follower_count := ap_follower_count ap + 1\<rparr>) (t_actor_profile db)\<rparr>"
    by (auto simp: db_ok d1)
  from 3 obtain ap0 where s: "filter (\<lambda>ap. ap_id ap = s) (update_where (\<lambda>ap. ap_id ap = t)
        (\<lambda>ap. ap\<lparr>ap_follower_count := ap_follower_count ap + 1\<rparr>) (t_actor_profile db)) = [ap0]"
    and d3: "d3 = followed s t db" and wf: "wf_db d3"
    by (auto simp: db_ok d2 d1 bump_follow_update followed_def)
  note ins = ins [unfolded d1] and wf = wf [unfolded d3]
  from 4 have rest: "is_local target \<Longrightarrow> create_follow_notification now s t (followed s t db) = (Inr (), db')"
      "\<not> is_local target \<Longrightarrow> db' = followed s t db"
    by (simp_all add: db_ok tp d3)
  have "s \<in> profile_ids db" using filter_id_bumped [OF s] by simp
  moreover have "s \<noteq> t" by (rule wf_new_relationship [OF ins])
  moreover have "\<not> related s t Follow db"
    using wf_relationship_keys [OF ins] by (auto simp: related_def relationship_row_def relationship_key_def)
  moreover have "wf_db db'" and "db' = (if is_local target
          then add_notification (new_notification now s t None Event_Follow (followed s t db)) (followed s t db)
          else followed s t db)"
    using rest wf by (auto simp: create_notification_defs db_ok split: if_splits)
  ultimately show thesis using target that by blast
qed

lemma follow_inv:
  assumes inv: "db_inv db" and run: "follow now s t db = (Inr u, db')"
  shows "db_inv db'"
proof -
  from run obtain target where "s \<noteq> t" "wf_db db'" "db' = (if is_local target
          then add_notification (new_notification now s t None Event_Follow (followed s t db)) (followed s t db)
          else followed s t db)"
    by (rule follow_okD)
  then show ?thesis
    using app_inv_followed [OF db_invD(2) [OF inv], of s t] by (simp add: db_inv_def app_inv_add_notification)
qed

lemma keeps_from_ok:
  "(\<And>s e s'. m s = (Inl e, s') \<Longrightarrow> s' = s) \<Longrightarrow> (\<And>s x s'. P s \<Longrightarrow> m s = (Inr x, s') \<Longrightarrow> P s') \<Longrightarrow> keeps P m"
  unfolding keeps_def by (metis prod.collapse sum.exhaust)

lemma inv_follow: "keeps db_inv (follow now s t)"
  by (rule keeps_from_ok) (auto simp: follow_def dest: transaction_error intro: follow_inv [unfolded follow_def])

lemma count_delete_row:
  assumes "distinct (map relationship_key rs)" and "r \<in> set rs" and "relationship_row s t ty r"
  shows "count_where (\<lambda>r. q r \<and> rl_relationship_type r = x) (delete_where (relationship_row s t ty) rs) =
    count_where (\<lambda>r. q r \<and> rl_relationship_type r = x) rs - (if q r \<and> x = ty then 1 else 0)"
proof -
  have "count_where (\<lambda>r. (q r \<and> rl_relationship_type r = x) \<and> relationship_row s t ty r) rs =
      (if \<exists>y \<in> set rs. (q y \<and> rl_relationship_type y = x) \<and> relationship_row s t ty y then 1 else 0)"
    by (rule count_unique_key [OF assms(1), where v = "(s, t, ty)"])
      (auto simp: relationship_key_def relationship_row_def)
  moreover have "(\<exists>y \<in> set rs. (q y \<and> rl_relationship_type y = x) \<and> relationship_row s t ty y) \<longleftrightarrow> q r \<and> x = ty"
  proof
    assume "\<exists>y \<in> set rs. (q y \<and> rl_relationship_type y = x) \<and> relationship_row s t ty y"
    then obtain y where y: "y \<in> set rs" "q y" "rl_relationship_type y = x" "relationship_row s t ty y" by blast
    with assms(3) have "relationship_key y = relationship_key r"
      by (simp add: relationship_key_def relationship_row_def)
    with distinct_map_unique [OF assms(1) y(1) assms(2)] have "y = r" .
    with y assms(3) show "q r \<and> x = ty" by (simp add: relationship_row_def)
  qed (use assms in \<open>auto simp: relationship_row_def\<close>)
  ultimately show ?thesis by (simp add: count_where_delete)
qed

lemma relationship_counters_unfollow:
  assumes "relationship_counters_ok aps rs" and "distinct (map relationship_key rs)"
    and "r \<in> set rs" and "relationship_row s t Follow r"
  shows "relationship_counters_ok (map (bump_follow s t (- 1)) aps) (delete_where (relationship_row s t Follow) rs)"
  using assms(1,4) count_delete_row [OF assms(2-4)]
  by (auto simp: relationship_counters_ok_def row_counts bump_follow_def relationship_row_def)

definition unfollowed :: "uuid \<Rightarrow> uuid \<Rightarrow> database \<Rightarrow> database" where
  "unfollowed s t db = db\<lparr>
     t_relationship := delete_where (relationship_row s t HideReplies) (delete_where (relationship_row s t HideReposts)
       (delete_where (relationship_row s t Follow) (t_relationship db))),
     t_actor_profile := map (bump_follow s t (- 1)) (t_actor_profile db)\<rparr>"

definition drop_follow_request :: "uuid \<Rightarrow> uuid \<Rightarrow> database \<Rightarrow> database" where
  "drop_follow_request s t db =
     db\<lparr>t_follow_request := delete_where (follow_request_row s t) (t_follow_request db)\<rparr>"

lemma related_iff: "related s t ty db \<longleftrightarrow> filter (relationship_row s t ty) (t_relationship db) \<noteq> []"
  by (auto simp: related_def filter_empty_conv)

lemma delete_where_none: "filter p rs = [] \<Longrightarrow> delete_where p rs = rs"
  by (auto simp: delete_where_def filter_id_conv filter_empty_conv)

lemma delete_follow_request_ok:
  "delete_follow_request_opt s t db = (Inr r, db') \<Longrightarrow>
   db' = drop_follow_request s t db \<and> wf_db db' \<and>
   r = (case filter (follow_request_row s t) (t_follow_request db) of [] \<Rightarrow> None | q # _ \<Rightarrow> Some (fr_id q))"
  by (auto simp: delete_follow_request_opt_def db_ok drop_follow_request_def split: list.splits)

lemma find_first_row:
  "map_option f (find p rs) = (case filter p rs of [] \<Rightarrow> None | q # _ \<Rightarrow> Some (f q))"
  by (induction rs) auto

lemma unfollow_okD:
  assumes run: "unfollow s t db = (Inr r, db')"
  shows "db' = drop_follow_request s t (if related s t Follow db then unfollowed s t db else db)"
    and "wf_db db'" and "related s t Follow db \<or> (\<exists>q \<in> set (t_follow_request db). follow_request_row s t q)"
    and "r = map_option fr_id (find (follow_request_row s t) (t_follow_request db))"
proof -
  from assms [unfolded unfollow_def] obtain n d1 d2 where
    1: "execute (delete_relationship s t Follow) db = (Inr n, d1)" and
    2: "delete_follow_request_opt s t d1 = (Inr r, d2)" and
    some: "0 < n \<or> r \<noteq> None" and
    3: "when_do (0 < n) (
         bind (show_reposts s t) (\<lambda>_. bind (show_replies s t) (\<lambda>_.
         bind (update_follower_count t (- 1)) (\<lambda>_. bind (update_following_count s (- 1)) (\<lambda>_. ret ())))))
         d2 = (Inr (), db')"
    by (auto simp: transaction_ok bind_ok Let_def ret_ok throw_ok split: if_splits)
  from 1 have d1: "d1 = db\<lparr>t_relationship := delete_where (relationship_row s t Follow) (t_relationship db)\<rparr>"
    and n: "0 < n \<longleftrightarrow> related s t Follow db"
    by (auto simp: db_ok delete_relationship_def related_iff)
  from delete_follow_request_ok [OF 2] have d2: "d2 = drop_follow_request s t d1" "wf_db d2"
    and r: "r = (case filter (follow_request_row s t) (t_follow_request db) of [] \<Rightarrow> None | q # _ \<Rightarrow> Some (fr_id q))"
    by (auto simp: d1)
  show "r = map_option fr_id (find (follow_request_row s t) (t_follow_request db))"
    by (simp add: r find_first_row)
  show "related s t Follow db \<or> (\<exists>q \<in> set (t_follow_request db). follow_request_row s t q)"
    using some n r by (auto simp: filter_eq_Cons_iff split: list.splits)
  have "db' = drop_follow_request s t (if related s t Follow db then unfollowed s t db else db) \<and> wf_db db'"
  proof (cases "related s t Follow db")
    case True
    with 3 n show ?thesis
      by (auto simp: db_ok show_reposts_def show_replies_def delete_relationship_def d2 d1 drop_follow_request_def
          unfollowed_def bump_follow_update [where d = "- 1", simplified])
  next
    case False
    with 3 n d2 show ?thesis by (simp add: db_ok d1 related_iff delete_where_none)
  qed
  then show "db' = drop_follow_request s t (if related s t Follow db then unfollowed s t db else db)"
    and "wf_db db'" by blast+
qed

lemma app_inv_drop_request [simp]: "app_inv A C (drop_follow_request s t db) = app_inv A C db"
  by (simp add: drop_follow_request_def)

lemma app_inv_unfollowed:
  assumes inv: "app_inv A C db" and wf: "wf_db db" and rel: "related s t Follow db"
  shows "app_inv A C (unfollowed s t db)"
proof -
  from rel obtain r where r: "r \<in> set (t_relationship db)" "relationship_row s t Follow r"
    by (auto simp: related_def)
  have "app_inv A C (db\<lparr>
      t_relationship := delete_where (relationship_row s t HideReplies) (delete_where (relationship_row s t HideReposts)
        (delete_where (relationship_row s t Follow) (t_relationship db))),
      next_id := next_id db, t_actor_profile := map (bump_follow s t (- 1)) (t_actor_profile db)\<rparr>)"
    using app_invD(1) [OF inv] wf_relationship_keys [OF wf] r relationship_ids [OF inv]
    by (intro app_inv_relationships inv bump_follow_keys relationship_counters_other relationship_counters_unfollow)
      auto
  then show ?thesis by (simp add: unfollowed_def)
qed

lemma inv_unfollow: "keeps db_inv (unfollow s t)"
proof (rule keeps_from_ok)
  fix db e db' assume "unfollow s t db = (Inl e, db')"
  then show "db' = db" by (auto simp: unfollow_def dest: transaction_error)
next
  fix db r db' assume "db_inv db" and "unfollow s t db = (Inr r, db')"
  then show "db_inv db'"
    using unfollow_okD [of s t db r db'] by (simp add: db_inv_def app_inv_unfollowed)
qed

subsection \<open>Follow requests\<close>

lemma inv_follow_request_table:
  "(\<And>db. \<exists>rs. snd (f db) = db\<lparr>t_follow_request := rs\<rparr>) \<Longrightarrow> keeps db_inv (execute f)"
  "(\<And>db. \<exists>rs. snd (f db) = db\<lparr>t_follow_request := rs\<rparr>) \<Longrightarrow> keeps db_inv (execute_catching ty f)"
proof -
  assume *: "\<And>db. \<exists>rs. snd (f db) = db\<lparr>t_follow_request := rs\<rparr>"
  have "app_inv {} {} (snd (f db))" if "db_inv db" for db
    using * [of db] db_invD(2) [OF that] by auto
  then show "keeps db_inv (execute f)" "keeps db_inv (execute_catching ty f)"
    by (blast intro: keeps_inv_execute keeps_inv_execute_catching)+
qed

lemma inv_create_follow_request: "keeps db_inv (create_follow_request i s t)"
  unfolding create_follow_request_def Let_def by (intro inv_follow_request_table) auto

lemma inv_create_remote_follow_request: "keeps db_inv (create_remote_follow_request_opt i s t a)"
proof -
  have "\<exists>rs. snd (upsert_follow_request i s t a db) = db\<lparr>t_follow_request := rs\<rparr>" for db
    by (auto simp: upsert_follow_request_def Let_def)
  then show ?thesis
    unfolding create_remote_follow_request_opt_def by (intro keeps_bind keeps_one_row inv_follow_request_table)
qed

lemma inv_set_request_status:
  "keeps db_inv (execute (set_request_status i st))"
  "keeps db_inv (execute (\<lambda>db. row_count (set_request_status i st db)))"
  by (intro inv_follow_request_table; auto simp: set_request_status_def)+

lemma inv_follow_request_accepted: "keeps db_inv (follow_request_accepted now i)"
  unfolding follow_request_accepted_def
  by (intro keeps_transaction_body keeps_bind inv_set_request_status inv_follow keeps_intro)

lemma inv_follow_request_rejected: "keeps db_inv (follow_request_rejected i)"
  unfolding follow_request_rejected_def
  by (intro keeps_bind keeps_if keeps_throw keeps_ret inv_set_request_status)

subsection \<open>Subscriptions\<close>

definition bump_subscriber :: "uuid \<Rightarrow> int \<Rightarrow> db_actor_profile \<Rightarrow> db_actor_profile" where
  "bump_subscriber t d ap =
     ap\<lparr>ap_subscriber_count := ap_subscriber_count ap + (if ap_id ap = t then d else 0)\<rparr>"

lemma bump_subscriber_keys:
  "keeps_profile_keys (bump_subscriber t d)" "ap_post_count (bump_subscriber t d ap) = ap_post_count ap"
  by (simp_all add: keeps_profile_keys_def bump_subscriber_def)

lemma bump_subscriber_update:
  "update_where (\<lambda>ap. ap_id ap = t) (\<lambda>ap. ap\<lparr>ap_subscriber_count := ap_subscriber_count ap + d\<rparr>) aps =
   map (bump_subscriber t d) aps"
  by (auto simp: update_where_def bump_subscriber_def)

definition subscribed :: "uuid \<Rightarrow> uuid \<Rightarrow> database \<Rightarrow> database" where
  "subscribed s t db = db\<lparr>t_relationship := t_relationship db @ [new_relationship s t Subscription db],
     next_id := next_id db + 1, t_actor_profile := map (bump_subscriber t 1) (t_actor_profile db)\<rparr>"

definition unsubscribed :: "uuid \<Rightarrow> uuid \<Rightarrow> database \<Rightarrow> database" where
  "unsubscribed s t db = db\<lparr>t_relationship := delete_where (relationship_row s t Subscription) (t_relationship db),
     t_actor_profile := map (bump_subscriber t (- 1)) (t_actor_profile db)\<rparr>"

lemma app_inv_subscribed: "app_inv A C db \<Longrightarrow> app_inv A C (subscribed s t db)"
  unfolding subscribed_def
  by (intro app_inv_relationships bump_subscriber_keys)
    (auto simp: relationship_counters_ok_def row_counts bump_subscriber_def dest: relationship_ids app_invD(1))

lemma app_inv_unsubscribed:
  assumes inv: "app_inv A C db" and wf: "wf_db db" and rel: "related s t Subscription db"
  shows "app_inv A C (unsubscribed s t db)"
proof -
  from rel obtain r where r: "r \<in> set (t_relationship db)" "relationship_row s t Subscription r"
    by (auto simp: related_def)
  have "relationship_counters_ok (map (bump_subscriber t (- 1)) (t_actor_profile db))
      (delete_where (relationship_row s t Subscription) (t_relationship db))"
    using app_invD(1) [OF inv] count_delete_row [OF wf_relationship_keys [OF wf] r] r(2)
    by (auto simp: relationship_counters_ok_def row_counts bump_subscriber_def relationship_row_def)
  then have "app_inv A C (db\<lparr>t_relationship := delete_where (relationship_row s t Subscription) (t_relationship db),
      next_id := next_id db, t_actor_profile := map (bump_subscriber t (- 1)) (t_actor_profile db)\<rparr>)"
    using relationship_ids [OF inv] by (intro app_inv_relationships inv bump_subscriber_keys) auto
  then show ?thesis by (simp add: unsubscribed_def)
qed

lemma subscribe_okD:
  "subscribe s t db = (Inr u, db') \<Longrightarrow> db' = subscribed s t db \<and> wf_db db'"
  by (auto simp: subscribe_def db_ok insert_relationship_def bump_subscriber_update subscribed_def)

lemma subscribe_opt_okD:
  "subscribe_opt s t db = (Inr u, db') \<Longrightarrow>
   wf_db db' \<and> db' = (if related s t Subscription db then db else subscribed s t db)"
  by (auto simp: subscribe_opt_def db_ok insert_relationship_opt_def insert_relationship_def
      bump_subscriber_update subscribed_def split: if_splits)

lemma unsubscribe_okD:
  "unsubscribe s t db = (Inr u, db') \<Longrightarrow>
   db' = unsubscribed s t db \<and> wf_db db' \<and> related s t Subscription db"
  by (auto simp: unsubscribe_def db_ok delete_relationship_def related_iff
      bump_subscriber_update [where d = "- 1", simplified] unsubscribed_def split: if_splits)

lemma inv_subscribe: "keeps db_inv (subscribe s t)"
  by (rule keeps_from_ok)
    (auto simp: subscribe_def dest: transaction_error
      dest!: subscribe_okD [unfolded subscribe_def] simp: db_inv_def app_inv_subscribed)

lemma inv_subscribe_opt: "keeps db_inv (subscribe_opt s t)"
  by (rule keeps_from_ok)
    (auto simp: subscribe_opt_def dest: transaction_error
      dest!: subscribe_opt_okD [unfolded subscribe_opt_def] simp: db_inv_def app_inv_subscribed)

lemma inv_unsubscribe: "keeps db_inv (unsubscribe s t)"
  by (rule keeps_from_ok)
    (auto simp: unsubscribe_def dest: transaction_error
      dest!: unsubscribe_okD [unfolded unsubscribe_def] simp: db_inv_def app_inv_unsubscribed)

end
