(* ===== verification/Relationship_Laws.thy ===== *)
theory Relationship_Laws
  imports Relationships Sample
begin

text \<open>
  When following succeeds, what it does, its errors, and how unfollowing undoes it; the life of a
  follow request; subscriptions.
\<close>

section \<open>Statements that succeed\<close>

lemma wf_insert_relationship:
  assumes wf: "wf_db db" and "s \<in> profile_ids db" "t \<in> profile_ids db" and "s \<noteq> t"
    and "\<not> related s t ty db" and "next_id_ok db"
  shows "wf_db (db\<lparr>t_relationship := t_relationship db @ [new_relationship s t ty db], next_id := n\<rparr>)"
proof -
  let ?db = "db\<lparr>t_relationship := t_relationship db @ [new_relationship s t ty db], next_id := n\<rparr>"
  have "ranges_ok ?db" "checks_ok ?db"
    using wf assms(4) by (simp_all add: wf_db_def ranges_ok_def checks_ok_def)
  moreover have "unique_ok ?db"
    using wf assms(5,6)
    by (auto simp: wf_db_def unique_ok_def relationship_keys_ok_def token_keys_ok_def misc_keys_ok_def
        related_def relationship_row_def relationship_key_def next_id_ok_def)
  moreover have "foreign_keys_ok ?db"
    using wf assms(2,3)
    by (simp add: wf_db_def foreign_keys_ok_def profile_refs_ok_def user_refs_ok_def post_refs_ok_def)
  ultimately show ?thesis by (simp add: wf_db_def)
qed

lemma wf_add_notification:
  assumes wf: "wf_db db" and "s \<in> profile_ids db" "r \<in> user_ids db" "opt_in p (post_ids db)"
    and "next_id_ok db"
  shows "wf_db (add_notification (new_notification now s r p ty db) db)"
proof -
  let ?db = "add_notification (new_notification now s r p ty db) db"
  have "ranges_ok ?db" "checks_ok ?db"
    using wf by (simp_all add: wf_db_def ranges_ok_def checks_ok_def add_notification_def)
  moreover have "unique_ok ?db"
    using wf assms(5)
    by (auto simp: wf_db_def unique_ok_def token_keys_ok_def misc_keys_ok_def add_notification_def
        new_notification_def next_id_ok_def)
  moreover have "foreign_keys_ok ?db"
    using wf assms(2-4)
    by (simp add: wf_db_def foreign_keys_ok_def profile_refs_ok_def user_refs_ok_def post_refs_ok_def
        add_notification_def new_notification_def)
  ultimately show ?thesis by (simp add: wf_db_def)
qed

lemma wf_delete_relationship: "wf_db db \<Longrightarrow> wf_db (db\<lparr>t_relationship := delete_where p (t_relationship db)\<rparr>)"
  by (simp add: wf_db_def ranges_ok_def checks_ok_def unique_ok_def token_keys_ok_def misc_keys_ok_def
      foreign_keys_ok_def profile_refs_ok_def user_refs_ok_def post_refs_ok_def)

lemma wf_drop_follow_request: "wf_db db \<Longrightarrow> wf_db (drop_follow_request s t db)"
  by (simp add: drop_follow_request_def wf_db_def ranges_ok_def checks_ok_def unique_ok_def token_keys_ok_def
      misc_keys_ok_def foreign_keys_ok_def profile_refs_ok_def user_refs_ok_def post_refs_ok_def)

text \<open>Room for one more: the counters of the two profiles are below the limit of the column.\<close>

definition room_to_follow :: "uuid \<Rightarrow> uuid \<Rightarrow> database \<Rightarrow> bool" where
  "room_to_follow s t db \<longleftrightarrow>
     (\<forall>ap \<in> set (t_actor_profile db).
        (ap_id ap = t \<longrightarrow> ap_follower_count ap < 2 ^ 31 - 1) \<and>
        (ap_id ap = s \<longrightarrow> ap_following_count ap < 2 ^ 31 - 1))"

lemma wf_bumped:
  assumes wf: "wf_db db" and room: "room_to_follow s t db"
  shows "wf_db (db\<lparr>t_actor_profile := update_where (\<lambda>ap. ap_id ap = t)
      (\<lambda>ap. ap\<lparr>ap_follower_count := ap_follower_count ap + 1\<rparr>) (t_actor_profile db)\<rparr>)"
    and "wf_db (db\<lparr>t_actor_profile := map (bump_follow s t 1) (t_actor_profile db)\<rparr>)"
proof -
  show "wf_db (db\<lparr>t_actor_profile := update_where (\<lambda>ap. ap_id ap = t)
      (\<lambda>ap. ap\<lparr>ap_follower_count := ap_follower_count ap + 1\<rparr>) (t_actor_profile db)\<rparr>)"
  proof (rule wf_update_profiles [OF wf])
    fix ap assume "ap \<in> set (t_actor_profile db)" and "ap_id ap = t"
    with room wf_profile_row [OF wf this(1)]
    show "profile_check (ap\<lparr>ap_follower_count := ap_follower_count ap + 1\<rparr>) \<and>
        profile_counts_in_range (ap\<lparr>ap_follower_count := ap_follower_count ap + 1\<rparr>)"
      by (auto simp: room_to_follow_def profile_check_def profile_counts_in_range_def i32_in_range_def)
  qed simp
  show "wf_db (db\<lparr>t_actor_profile := map (bump_follow s t 1) (t_actor_profile db)\<rparr>)"
    unfolding update_where_True [symmetric]
  proof (rule wf_update_profiles [OF wf])
    fix ap assume "ap \<in> set (t_actor_profile db)"
    with room wf_profile_row [OF wf this(1)]
    show "profile_check (bump_follow s t 1 ap) \<and> profile_counts_in_range (bump_follow s t 1 ap)"
      by (auto simp: room_to_follow_def profile_check_def profile_counts_in_range_def i32_in_range_def bump_follow_def)
  qed (simp add: bump_follow_def)
qed

lemma profile_row_exists:
  assumes "wf_db db" and "i \<in> profile_ids db"
  obtains ap where "filter (\<lambda>ap. ap_id ap = i) (t_actor_profile db) = [ap]" and "ap \<in> set (t_actor_profile db)"
    and "ap_id ap = i"
proof -
  from assms(2) obtain ap where "ap \<in> set (t_actor_profile db)" "i = ap_id ap" by auto
  with filter_unique_key [OF wf_profile_ids [OF assms(1)]] that show thesis by blast
qed

lemma follow_run:
  assumes inv: "db_inv db" and s: "s \<in> profile_ids db" and t: "t \<in> profile_ids db" and ne: "s \<noteq> t"
    and new: "\<not> related s t Follow db" and room: "room_to_follow s t db"
  obtains db' where "follow now s t db = (Inr (), db')"
proof -
  note wf = db_inv_wf [OF inv] and app = db_invD(2) [OF inv]
  let ?d1 = "db\<lparr>t_relationship := t_relationship db @ [new_relationship s t Follow db], next_id := next_id db + 1\<rparr>"
  obtain target where target: "filter (\<lambda>ap. ap_id ap = t) (t_actor_profile db) = [target]"
    "target \<in> set (t_actor_profile db)" "ap_id target = t"
    by (rule profile_row_exists [OF wf t])
  obtain source where source: "filter (\<lambda>ap. ap_id ap = s) (t_actor_profile db) = [source]"
    by (rule profile_row_exists [OF wf s])
  have wf1: "wf_db ?d1" by (rule wf_insert_relationship [OF wf s t ne new app_invD(10) [OF app]])
  have room1: "room_to_follow s t ?d1" using room by (simp add: room_to_follow_def)
  note wf2 = wf_bumped [OF wf1 room1]
  let ?f = "\<lambda>ap. ap\<lparr>ap_follower_count := ap_follower_count ap + 1\<rparr>"
  let ?g = "\<lambda>ap. ap\<lparr>ap_following_count := ap_following_count ap + 1\<rparr>"
  let ?d2 = "?d1\<lparr>t_actor_profile := update_where (\<lambda>ap. ap_id ap = t) ?f (t_actor_profile db)\<rparr>"
  have 1: "execute_catching ''relationship'' (insert_relationship s t Follow) db = (Inr 1, ?d1)"
    using wf1 by (simp add: db_ok insert_relationship_def)
  have 2: "update_follower_count t 1 ?d1 = (Inr (?f target), ?d2)"
    using wf2(1) target by (simp add: db_ok)
  have 3: "update_following_count s 1 ?d2 = (Inr (?g source), followed s t db)"
    using wf2(2) source ne by (simp add: db_ok bump_follow_update followed_def filter_update_key update_where_single)
      (auto dest!: filter_eq_ConsD)
  have "wf_db (add_notification (new_notification now s t None Event_Follow (followed s t db)) (followed s t db))"
    if "is_local target"
  proof (rule wf_add_notification)
    show "wf_db (followed s t db)" using wf2(2) by (simp add: followed_def)
    show "s \<in> profile_ids (followed s t db)" using s by (auto simp: followed_def bump_follow_keys image_iff)
    show "t \<in> user_ids (followed s t db)"
      using app_invD(6) [OF app] target(2,3) that by (auto simp: accounts_ok_def followed_def)
    show "next_id_ok (followed s t db)" by (rule app_invD(10) [OF app_inv_followed [OF app]])
  qed simp
  then obtain db' where 4: "when_do (is_local target) (create_follow_notification now s t) (followed s t db) = (Inr (), db')"
    by (cases "is_local target") (simp_all add: db_run create_follow_notification_def create_notification_ok)
  have "follow now s t db = (Inr (), db')"
    unfolding follow_def
    by (rule transaction_run, rule bind_step, rule 1, rule bind_step, rule 2, rule bind_step, rule 3)
      (simp add: 4)
  then show thesis by (rule that)
qed

lemma related_append:
  "related s t ty (db\<lparr>t_relationship := rs @ [new_relationship s' t' ty' db0], next_id := n, t_actor_profile := aps\<rparr>) \<longleftrightarrow>
     related s t ty (db\<lparr>t_relationship := rs\<rparr>) \<or> (s = s' \<and> t = t' \<and> ty = ty')"
  by (auto simp: related_def relationship_row_def)

lemma follow_again:
  assumes inv: "db_inv db" and ne: "s \<noteq> t" and old: "related s t ty db"
  shows "violated (snd (insert_relationship s t ty db)) = Some Unique_violation"
proof -
  let ?db = "snd (insert_relationship s t ty db)"
  have "ranges_ok ?db" "checks_ok ?db"
    using db_inv_wf [OF inv] ne by (simp_all add: wf_db_def ranges_ok_def checks_ok_def)
  moreover have "\<not> unique_ok ?db"
    using old by (auto simp: unique_ok_def relationship_keys_ok_def related_def relationship_row_def
        relationship_key_def image_iff)
  ultimately show ?thesis by (simp add: violated_def)
qed

lemma related_user:
  assumes "db_inv db" and "filter (\<lambda>ap. ap_id ap = t) (t_actor_profile db) = [target]"
  shows "is_local target \<longleftrightarrow> t \<in> user_ids db"
proof -
  from assms(2) have "target \<in> set (t_actor_profile db)" "ap_id target = t"
    by (auto dest!: filter_eq_ConsD)
  with app_invD(6) [OF db_invD(2) [OF assms(1)]] show ?thesis by (auto simp: accounts_ok_def)
qed

lemma follow_cases:
  assumes "db_inv db" and "s \<in> profile_ids db" and "t \<in> profile_ids db" and "room_to_follow s t db"
  shows "if s = t then follow now s t db = (Inl (DatabaseClientError Check_violation), db)
    else if related s t Follow db then follow now s t db = (Inl (AlreadyExists ''relationship''), db)
    else \<exists>db'. follow now s t db = (Inr (), db') \<and> db_inv db' \<and>
        t_relationship db' = t_relationship db @ [new_relationship s t Follow db] \<and>
        map nt_recipient_id (t_notification db') =
          map nt_recipient_id (t_notification db) @ (if t \<in> user_ids db then [t] else [])"
proof -
  note fail = execute_catching_fail [where f = "insert_relationship s t Follow" and t = "''relationship''"]
  consider "s = t" | "s \<noteq> t" "related s t Follow db" | "s \<noteq> t" "\<not> related s t Follow db" by blast
  then show ?thesis
  proof cases
    case 1
    then have "violated (snd (insert_relationship s t Follow db)) = Some Check_violation"
      using db_inv_wf [OF assms(1)] by (simp add: violated_def wf_db_def ranges_ok_def checks_ok_def)
    from fail [OF this] 1 show ?thesis
      by (simp add: follow_def bind_def transaction_def catch_unique_violation_def)
  next
    case 2
    from fail [OF follow_again [OF assms(1) 2]] 2 show ?thesis
      by (simp add: follow_def bind_def transaction_def catch_unique_violation_def)
  next
    case 3
    then obtain db' where run: "follow now s t db = (Inr (), db')"
      using follow_run [OF assms(1-3) _ _ assms(4)] by blast
    moreover from run obtain target where
      target: "filter (\<lambda>ap. ap_id ap = t) (t_actor_profile db) = [target]" and
      db': "db' = (if is_local target
          then add_notification (new_notification now s t None Event_Follow (followed s t db)) (followed s t db)
          else followed s t db)"
      by (rule follow_okD)
    moreover have "is_local target \<longleftrightarrow> t \<in> user_ids db" by (rule related_user [OF assms(1) target])
    ultimately have "\<exists>db'. follow now s t db = (Inr (), db') \<and> db_inv db' \<and>
        t_relationship db' = t_relationship db @ [new_relationship s t Follow db] \<and>
        map nt_recipient_id (t_notification db') =
          map nt_recipient_id (t_notification db) @ (if t \<in> user_ids db then [t] else [])"
      using follow_inv [OF assms(1) run]
      by (intro exI [of _ db']) (auto simp: followed_def add_notification_def new_notification_def)
    with 3 show ?thesis by simp
  qed
qed

text \<open>
  C33: \<open>follow\<close> between two profiles. When the relationship is new (and the counters are below the
  column limit) it succeeds, adds exactly that relationship, keeps all counters exact and notifies
  the target when it is a local account; when the relationship exists it fails with
  \<open>AlreadyExists\<close>, and to follow oneself violates a \<open>CHECK\<close>; the errors change nothing.
\<close>

theorem follow_correct:
  assumes "db_inv db" and "s \<in> profile_ids db" and "t \<in> profile_ids db" and "room_to_follow s t db"
  shows "if s = t then follow now s t db = (Inl (DatabaseClientError Check_violation), db)
    else if related s t Follow db then follow now s t db = (Inl (AlreadyExists ''relationship''), db)
    else \<exists>db'. follow now s t db = (Inr (), db') \<and> db_inv db' \<and>
        t_relationship db' = t_relationship db @ [new_relationship s t Follow db] \<and>
        map nt_recipient_id (t_notification db') =
          map nt_recipient_id (t_notification db) @ (if t \<in> user_ids db then [t] else [])"
  by (rule follow_cases [OF assms])

theorem follow_correct_witness:
  "(\<exists>db'. follow 0 1 2 sample_db = (Inr (), db') \<and> db_inv db' \<and> map nt_recipient_id (t_notification db') = [2]) \<and>
   follow 0 2 1 sample_db = (Inl (AlreadyExists ''relationship''), sample_db) \<and>
   follow 0 1 1 sample_db = (Inl (DatabaseClientError Check_violation), sample_db)"
proof -
  have ids: "1 \<in> profile_ids sample_db" "2 \<in> profile_ids sample_db" "2 \<in> user_ids sample_db"
    "t_notification sample_db = []"
    by (auto simp: sample_defs)
  have room: "room_to_follow s t sample_db" for s t
    by (simp add: room_to_follow_def sample_defs)
  have rel: "\<not> related 1 2 Follow sample_db" "related 2 1 Follow sample_db"
    by (simp_all add: related_def relationship_row_def sample_defs)
  show ?thesis
    using follow_correct [OF sample_inv ids(1,2) room, of 0] follow_correct [OF sample_inv ids(2,1) room, of 0]
      follow_correct [OF sample_inv ids(1,1) room, of 0] rel ids(3,4)
    by auto
qed

section \<open>Unfollowing\<close>

lemma filter_delete_row: "filter p (delete_where q rs) = filter (\<lambda>r. p r \<and> \<not> q r) rs"
  by (simp add: delete_where_def conj_commute)

lemma wf_request_row:
  assumes "wf_db db"
  obtains "filter (follow_request_row s t) (t_follow_request db) = []"
    | q where "filter (follow_request_row s t) (t_follow_request db) = [q]"
proof -
  have keys: "distinct (map follow_request_key (t_follow_request db))"
    using assms by (simp add: wf_db_def unique_ok_def follow_request_keys_ok_def)
  have eq: "follow_request_row s t = (\<lambda>r. follow_request_key r = (s, t))"
    by (auto simp: follow_request_row_def follow_request_key_def)
  show thesis
    by (rule filter_key_cases [OF keys, of "(s, t)"]) (use that in \<open>auto simp: eq\<close>)
qed

lemma delete_follow_request_run:
  assumes "wf_db db"
  shows "delete_follow_request_opt s t db =
    (Inr (map_option fr_id (find (follow_request_row s t) (t_follow_request db))), drop_follow_request s t db)"
proof -
  have wf': "wf_db (db\<lparr>t_follow_request := delete_where (follow_request_row s t) (t_follow_request db)\<rparr>)"
    using wf_drop_follow_request [OF assms, of s t] by (simp add: drop_follow_request_def)
  show ?thesis
    by (rule wf_request_row [OF assms, of s t])
      (simp_all add: delete_follow_request_opt_def bind_def execute_run wf' opt_row_def ret_def find_first_row
        drop_follow_request_def)
qed

lemma related_counts:
  assumes inv: "app_inv A C db" and rel: "related s t Follow db" and ap: "ap \<in> set (t_actor_profile db)"
  shows "ap_id ap = t \<Longrightarrow> 1 \<le> ap_follower_count ap" "ap_id ap = s \<Longrightarrow> 1 \<le> ap_following_count ap"
proof -
  from rel obtain r where r: "r \<in> set (t_relationship db)" "relationship_row s t Follow r"
    by (auto simp: related_def)
  have pos: "0 < count_where p (t_relationship db)" if "p r" for p
  proof -
    from that r(1) have "count_where p (t_relationship db) \<noteq> 0" by (auto simp: count_where_0_iff)
    with count_where_nonneg [of p "t_relationship db"] show ?thesis by linarith
  qed
  have c: "ap_follower_count ap = followers_of (ap_id ap) (t_relationship db)"
    "ap_following_count ap = following_of (ap_id ap) (t_relationship db)"
    using app_invD(1) [OF inv] ap by (simp_all add: relationship_counters_ok_def)
  show "ap_id ap = t \<Longrightarrow> 1 \<le> ap_follower_count ap"
    using pos [of "\<lambda>r. rl_target_id r = t \<and> rl_relationship_type r = Follow"] r(2)
    by (simp add: c followers_of_def relationship_row_def)
  show "ap_id ap = s \<Longrightarrow> 1 \<le> ap_following_count ap"
    using pos [of "\<lambda>r. rl_source_id r = s \<and> rl_relationship_type r = Follow"] r(2)
    by (simp add: c following_of_def relationship_row_def)
qed

lemma wf_unbumped:
  assumes wf: "wf_db db" and f: "\<And>ap. ap \<in> set (t_actor_profile db) \<Longrightarrow> ap_id ap = t \<Longrightarrow> 1 \<le> ap_follower_count ap"
    and g: "\<And>ap. ap \<in> set (t_actor_profile db) \<Longrightarrow> ap_id ap = s \<Longrightarrow> 1 \<le> ap_following_count ap"
  shows "wf_db (db\<lparr>t_actor_profile := update_where (\<lambda>ap. ap_id ap = t)
      (\<lambda>ap. ap\<lparr>ap_follower_count := ap_follower_count ap - 1\<rparr>) (t_actor_profile db)\<rparr>)"
    and "wf_db (db\<lparr>t_actor_profile := map (bump_follow s t (- 1)) (t_actor_profile db)\<rparr>)"
proof -
  show "wf_db (db\<lparr>t_actor_profile := update_where (\<lambda>ap. ap_id ap = t)
      (\<lambda>ap. ap\<lparr>ap_follower_count := ap_follower_count ap - 1\<rparr>) (t_actor_profile db)\<rparr>)"
  proof (rule wf_update_profiles [OF wf])
    fix ap assume "ap \<in> set (t_actor_profile db)" and "ap_id ap = t"
    with f [OF this] wf_profile_row [OF wf this(1)]
    show "profile_check (ap\<lparr>ap_follower_count := ap_follower_count ap - 1\<rparr>) \<and>
        profile_counts_in_range (ap\<lparr>ap_follower_count := ap_follower_count ap - 1\<rparr>)"
      by (auto simp: profile_check_def profile_counts_in_range_def i32_in_range_def)
  qed simp
  show "wf_db (db\<lparr>t_actor_profile := map (bump_follow s t (- 1)) (t_actor_profile db)\<rparr>)"
  proof (rule wf_map_profiles [OF wf bump_follow_keys(1)])
    fix ap assume ap: "ap \<in> set (t_actor_profile db)"
    from f [OF ap] g [OF ap] wf_profile_row [OF wf ap]
    show "lower_profile (bump_follow s t (- 1) ap) ap"
      by (auto simp: lower_profile_def bump_follow_def profile_check_def)
  qed
qed

lemma unfollow_run:
  assumes inv: "db_inv db" and rel: "related s t Follow db"
  obtains db' where "unfollow s t db =
    (Inr (map_option fr_id (find (follow_request_row s t) (t_follow_request db))), db')"
proof -
  note wf = db_inv_wf [OF inv] and app = db_invD(2) [OF inv]
  let ?del = "\<lambda>ty. delete_where (relationship_row s t ty)"
  let ?d1 = "db\<lparr>t_relationship := ?del Follow (t_relationship db)\<rparr>"
  let ?d2 = "drop_follow_request s t ?d1"
  let ?d3 = "?d2\<lparr>t_relationship := ?del HideReposts (t_relationship ?d2)\<rparr>"
  define d4 where "d4 = ?d3\<lparr>t_relationship := ?del HideReplies (t_relationship ?d3)\<rparr>"
  have wf1: "wf_db ?d1" by (rule wf_delete_relationship [OF wf])
  have wf2: "wf_db ?d2" by (rule wf_drop_follow_request [OF wf1])
  have wf3: "wf_db ?d3" by (rule wf_delete_relationship [OF wf2])
  have wf4: "wf_db d4" unfolding d4_def by (rule wf_delete_relationship [OF wf3])
  have aps: "t_actor_profile d4 = t_actor_profile db" by (simp add: drop_follow_request_def d4_def)
  note counts = related_counts [OF app rel, folded aps]
  note wf5 = wf_unbumped [OF wf4 counts, simplified]
  have st: "s \<in> profile_ids db" "t \<in> profile_ids db" "s \<noteq> t"
    using rel wf by (auto simp: related_def relationship_row_def wf_db_def foreign_keys_ok_def
        profile_refs_ok_def checks_ok_def)
  obtain target where target: "filter (\<lambda>ap. ap_id ap = t) (t_actor_profile db) = [target]"
    by (rule profile_row_exists [OF wf st(2)])
  obtain source where source: "filter (\<lambda>ap. ap_id ap = s) (t_actor_profile db) = [source]"
    by (rule profile_row_exists [OF wf st(1)])
  let ?f = "\<lambda>ap. ap\<lparr>ap_follower_count := ap_follower_count ap - 1\<rparr>"
  let ?d5 = "d4\<lparr>t_actor_profile := update_where (\<lambda>ap. ap_id ap = t) ?f (t_actor_profile d4)\<rparr>"
  have n: "0 < length (filter (relationship_row s t Follow) (t_relationship db))"
    using rel by (simp add: related_iff)
  have 1: "execute (delete_relationship s t Follow) db =
      (Inr (length (filter (relationship_row s t Follow) (t_relationship db))), ?d1)"
    using wf1 by (simp add: execute_run)
  have 2: "delete_follow_request_opt s t ?d1 =
      (Inr (map_option fr_id (find (follow_request_row s t) (t_follow_request db))), ?d2)"
    using delete_follow_request_run [OF wf1] by simp
  have 3: "show_reposts s t ?d2 = (Inr (), ?d3)"
    using wf3 by (simp add: show_reposts_def bind_def execute_run ret_def)
  have 4: "show_replies s t ?d3 = (Inr (), d4)"
    using wf4 [unfolded d4_def] by (simp add: d4_def show_replies_def bind_def execute_run ret_def)
  have 5: "update_follower_count t (- 1) d4 = (Inr (?f target), ?d5)"
    using wf5(1) target by (simp add: db_ok aps)
  have 6: "\<exists>x d6. update_following_count s (- 1) ?d5 = (Inr x, d6)"
    using wf5(2) source st(3)
    by (simp add: db_ok aps bump_follow_update [where d = "- 1", simplified] filter_update_key update_where_single)
  then obtain x d6 where 6: "update_following_count s (- 1) ?d5 = (Inr x, d6)" by blast
  have 7: "when_do (0 < length (filter (relationship_row s t Follow) (t_relationship db))) (
         bind (show_reposts s t) (\<lambda>_. bind (show_replies s t) (\<lambda>_.
         bind (update_follower_count t (- 1)) (\<lambda>_. bind (update_following_count s (- 1)) (\<lambda>_. ret ()))))) ?d2
      = (Inr (), d6)"
    using 3 4 5 6 n by (simp add: when_do_def bind_def ret_def)
  have "unfollow s t db =
    (Inr (map_option fr_id (find (follow_request_row s t) (t_follow_request db))), d6)"
    unfolding unfollow_def Let_def
    by (rule transaction_run, rule bind_step, rule 1, rule bind_step, rule 2, subst if_not_P, simp add: n [simplified],
      rule bind_step, rule 7, rule ret_run)
  then show thesis by (rule that)
qed

text \<open>
  After a successful \<open>unfollow\<close> neither the relationship nor a follow request between the two
  profiles is left, and when there was a relationship the repost and reply settings are reset;
  doing it again returns \<open>NotFound\<close> and changes nothing.
\<close>

theorem unfollow_clears:
  assumes "db_inv db" and "unfollow s t db = (Inr r, db')"
  shows "db_inv db' \<and> \<not> related s t Follow db' \<and>
    \<not> exists_where (follow_request_row s t) (t_follow_request db') \<and>
    (related s t Follow db \<longrightarrow> \<not> related s t HideReposts db' \<and> \<not> related s t HideReplies db') \<and>
    unfollow s t db' = (Inl (NotFound ''relationship''), db')"
proof -
  note ok = unfollow_okD [OF assms(2)]
  have inv: "db_inv db'" by (rule keepsD [OF inv_unfollow assms])
  have f: "\<not> related s t Follow db'" "\<not> exists_where (follow_request_row s t) (t_follow_request db')"
    "related s t Follow db \<longrightarrow> \<not> related s t HideReposts db' \<and> \<not> related s t HideReplies db'"
    using ok(1) by (auto simp: related_def drop_follow_request_def unfollowed_def)
  have "delete_relationship s t Follow db' = (0, db')"
    using f(1) by (auto simp: delete_relationship_def related_def delete_where_def filter_id_conv filter_empty_conv)
  moreover have "drop_follow_request s t db' = db'"
    using f(2) by (auto simp: drop_follow_request_def delete_where_def filter_id_conv)
  ultimately have "unfollow s t db' = (Inl (NotFound ''relationship''), db')"
    using f(2) db_inv_wf [OF inv]
    by (simp add: unfollow_def transaction_def bind_def execute_run delete_follow_request_opt_def Let_def
        drop_follow_request_def filter_empty_conv opt_row_def ret_def throw_def)
  with inv f show ?thesis by blast
qed

theorem unfollow_clears_witness:
  "\<exists>r db'. unfollow 2 1 sample_db = (Inr r, db') \<and> \<not> related 2 1 Follow db' \<and>
     unfollow 2 1 db' = (Inl (NotFound ''relationship''), db')"
proof -
  have "related 2 1 Follow sample_db" by (simp add: related_def relationship_row_def sample_defs)
  from unfollow_run [OF sample_inv this] obtain r db' where "unfollow 2 1 sample_db = (Inr r, db')" by blast
  with unfollow_clears [OF sample_inv this] show ?thesis by blast
qed

text \<open>
  \<open>unfollow\<close> undoes \<open>follow\<close>: right after a successful \<open>follow\<close> it succeeds, returns the follow
  request if there was one, and all profiles (with their counters) and all relationships, save the
  repost and reply settings towards the target, are as before.
\<close>

theorem unfollow_undoes_follow:
  assumes "db_inv db" and "follow now s t db = (Inr (), db1)"
  shows "\<exists>db2. unfollow s t db1 =
      (Inr (map_option fr_id (find (follow_request_row s t) (t_follow_request db))), db2) \<and>
    t_actor_profile db2 = t_actor_profile db \<and>
    t_relationship db2 = delete_where (relationship_row s t HideReplies)
      (delete_where (relationship_row s t HideReposts) (t_relationship db))"
proof -
  from assms(2) obtain target where new: "\<not> related s t Follow db" and
    db1: "db1 = (if is_local target
          then add_notification (new_notification now s t None Event_Follow (followed s t db)) (followed s t db)
          else followed s t db)"
    by (rule follow_okD)
  have tables: "t_actor_profile db1 = map (bump_follow s t 1) (t_actor_profile db)"
    "t_relationship db1 = t_relationship db @ [new_relationship s t Follow db]"
    "t_follow_request db1 = t_follow_request db"
    by (simp_all add: db1 add_notification_def followed_def)
  have rel: "related s t Follow db1" by (simp add: related_def tables relationship_row_def)
  from unfollow_run [OF follow_inv [OF assms] rel] obtain db2 where
    run: "unfollow s t db1 = (Inr (map_option fr_id (find (follow_request_row s t) (t_follow_request db))), db2)"
    by (auto simp: tables)
  have db2: "db2 = drop_follow_request s t (unfollowed s t db1)"
    using unfollow_okD(1) [OF run] rel by simp
  have "delete_where (relationship_row s t Follow) (t_relationship db1) = t_relationship db"
    using new by (auto simp: tables related_def delete_where_def relationship_row_def filter_id_conv)
  moreover have "bump_follow s t (- 1) (bump_follow s t 1 ap) = ap" for ap
    by (simp add: bump_follow_def)
  ultimately show ?thesis
    using run by (intro exI [of _ db2]) (simp add: db2 drop_follow_request_def unfollowed_def tables o_def)
qed

theorem unfollow_undoes_follow_witness:
  "\<exists>db1 db2. follow 0 1 2 sample_db = (Inr (), db1) \<and> unfollow 1 2 db1 = (Inr None, db2) \<and>
     t_actor_profile db2 = t_actor_profile sample_db \<and> t_relationship db2 = t_relationship sample_db"
proof -
  have "1 \<in> profile_ids sample_db" "2 \<in> profile_ids sample_db" "\<not> related 1 2 Follow sample_db"
    "room_to_follow 1 2 sample_db"
    by (auto simp: sample_defs related_def relationship_row_def room_to_follow_def)
  from follow_run [OF sample_inv this(1,2) _ this(3,4), of 0] obtain db1 where
    run: "follow 0 1 2 sample_db = (Inr (), db1)" by auto
  from unfollow_undoes_follow [OF sample_inv run] obtain db2 where
    "unfollow 1 2 db1 = (Inr (map_option fr_id (find (follow_request_row 1 2) (t_follow_request sample_db))), db2)"
    "t_actor_profile db2 = t_actor_profile sample_db"
    "t_relationship db2 = delete_where (relationship_row 1 2 HideReplies)
      (delete_where (relationship_row 1 2 HideReposts) (t_relationship sample_db))" by blast
  moreover have "t_follow_request sample_db = []" "delete_where (relationship_row 1 2 HideReplies)
      (delete_where (relationship_row 1 2 HideReposts) (t_relationship sample_db)) = t_relationship sample_db"
    by (simp_all add: sample_defs delete_where_def relationship_row_def)
  ultimately show ?thesis using run by auto
qed

section \<open>Follow requests\<close>

lemma wf_set_request_status:
  assumes wf: "wf_db db"
  shows "wf_db (snd (set_request_status i st db))"
proof -
  let ?f = "\<lambda>r. r\<lparr>fr_request_status := st\<rparr>"
  have keys: "follow_request_key (?f r) = follow_request_key r" for r
    by (simp add: follow_request_key_def)
  show ?thesis
    using wf by (simp add: set_request_status_def wf_db_def ranges_ok_def checks_ok_def unique_ok_def
        follow_request_keys_ok_def token_keys_ok_def misc_keys_ok_def foreign_keys_ok_def profile_refs_ok_def
        user_refs_ok_def post_refs_ok_def ball_update_where map_update_where unique_by_update keys)
qed

lemma wf_request_key:
  assumes "wf_db db" and "r \<in> set (t_follow_request db)"
  shows "filter (\<lambda>q. fr_id q = fr_id r) (t_follow_request db) = [r]" "fr_source_id r \<noteq> fr_target_id r"
    "fr_source_id r \<in> profile_ids db" "fr_target_id r \<in> profile_ids db"
proof -
  have "distinct (map fr_id (t_follow_request db))"
    using assms(1) by (simp add: wf_db_def unique_ok_def follow_request_keys_ok_def)
  then show "filter (\<lambda>q. fr_id q = fr_id r) (t_follow_request db) = [r]"
    by (rule filter_unique_key [OF _ assms(2)])
  show "fr_source_id r \<noteq> fr_target_id r" "fr_source_id r \<in> profile_ids db" "fr_target_id r \<in> profile_ids db"
    using assms by (auto simp: wf_db_def checks_ok_def foreign_keys_ok_def profile_refs_ok_def)
qed

text \<open>
  Accepting a follow request. If the source does not follow the target yet, the request
  becomes \<open>Accepted\<close> and the relationship is created in the same transaction; if it does, the call
  fails with \<open>AlreadyExists\<close> and the status of the request is rolled back with everything else.
\<close>

theorem follow_request_accepted_correct:
  assumes "db_inv db" and "r \<in> set (t_follow_request db)"
    and "room_to_follow (fr_source_id r) (fr_target_id r) db"
  shows "if related (fr_source_id r) (fr_target_id r) Follow db
    then follow_request_accepted now (fr_id r) db = (Inl (AlreadyExists ''relationship''), db)
    else \<exists>db'. follow_request_accepted now (fr_id r) db = (Inr (), db') \<and> db_inv db' \<and>
      r\<lparr>fr_request_status := Accepted\<rparr> \<in> set (t_follow_request db') \<and>
      related (fr_source_id r) (fr_target_id r) Follow db'"
proof -
  let ?s = "fr_source_id r" and ?t = "fr_target_id r"
  note wf = db_inv_wf [OF assms(1)]
  note key = wf_request_key [OF wf assms(2)]
  let ?d1 = "snd (set_request_status (fr_id r) Accepted db)"
  have wf1: "wf_db ?d1" by (rule wf_set_request_status [OF wf])
  have inv1: "db_inv ?d1"
    using wf1 db_invD(2) [OF assms(1)] by (simp add: db_inv_def set_request_status_def)
  have rel1: "related ?s ?t Follow ?d1 = related ?s ?t Follow db" and room1: "room_to_follow ?s ?t ?d1"
    using assms(3) by (simp_all add: related_def room_to_follow_def set_request_status_def)
  have "profile_ids ?d1 = profile_ids db" by (simp add: set_request_status_def)
  then have cases: "if related ?s ?t Follow db then follow now ?s ?t ?d1 = (Inl (AlreadyExists ''relationship''), ?d1)
    else \<exists>db'. follow now ?s ?t ?d1 = (Inr (), db') \<and> db_inv db' \<and>
        t_relationship db' = t_relationship ?d1 @ [new_relationship ?s ?t Follow ?d1]"
    using follow_cases [OF inv1 _ _ room1, of now] key(2-4) rel1 by auto
  have 1: "execute (set_request_status (fr_id r) Accepted) db = (Inr [r], ?d1)"
    using wf1 key(1) by (simp add: execute_run) (simp add: set_request_status_def)
  have run: "follow_request_accepted now (fr_id r) db = transaction (\<lambda>_. follow now ?s ?t ?d1) db"
    using 1 by (simp add: follow_request_accepted_def transaction_def bind_def opt_row_def ret_def ok_or_def)
  show ?thesis
  proof (cases "related ?s ?t Follow db")
    case True
    with cases show ?thesis by (simp add: run transaction_def)
  next
    case False
    with cases obtain db' where f: "follow now ?s ?t ?d1 = (Inr (), db')" "db_inv db'"
      "t_relationship db' = t_relationship ?d1 @ [new_relationship ?s ?t Follow ?d1]" by auto
    have "r\<lparr>fr_request_status := Accepted\<rparr> \<in> set (t_follow_request ?d1)"
      using assms(2) by (auto simp: set_request_status_def in_update_where)
    moreover from f(1) obtain target where "db' = (if is_local target
        then add_notification (new_notification now ?s ?t None Event_Follow (followed ?s ?t ?d1)) (followed ?s ?t ?d1)
        else followed ?s ?t ?d1)" by (rule follow_okD)
    then have "t_follow_request db' = t_follow_request ?d1"
      by (simp add: add_notification_def followed_def)
    moreover have "related ?s ?t Follow db'" by (simp add: related_def f(3) relationship_row_def)
    ultimately show ?thesis using False f(1,2) by (simp add: run transaction_def)
  qed
qed

theorem follow_request_accepted_correct_witness:
  "\<exists>db r db'. db_inv db \<and> fr_request_status r = Pending \<and> r \<in> set (t_follow_request db) \<and>
     follow_request_accepted 0 (fr_id r) db = (Inr (), db') \<and>
     r\<lparr>fr_request_status := Accepted\<rparr> \<in> set (t_follow_request db')"
proof -
  define r where "r = \<lparr>fr_id = (30 :: uuid), fr_source_id = (1 :: uuid), fr_target_id = (2 :: uuid),
    fr_activity_id = None, fr_request_status = Pending\<rparr>"
  define db where "db = sample_db\<lparr>t_follow_request := [r]\<rparr>"
  have "wf_db db"
    using sample_wf by (simp add: db_def r_def wf_db_def ranges_ok_def checks_ok_def unique_ok_def
        follow_request_keys_ok_def token_keys_ok_def misc_keys_ok_def foreign_keys_ok_def profile_refs_ok_def
        user_refs_ok_def post_refs_ok_def follow_request_key_def sample_db_def sample_profile_def)
  then have inv: "db_inv db" using db_invD(2) [OF sample_inv] by (simp add: db_inv_def db_def)
  have "r \<in> set (t_follow_request db)" "room_to_follow (fr_source_id r) (fr_target_id r) db"
    "\<not> related (fr_source_id r) (fr_target_id r) Follow db"
    by (simp_all add: db_def r_def room_to_follow_def related_def relationship_row_def sample_defs)
  with follow_request_accepted_correct [OF inv this(1,2), of 0] obtain db' where
    "follow_request_accepted 0 (fr_id r) db = (Inr (), db')"
    "r\<lparr>fr_request_status := Accepted\<rparr> \<in> set (t_follow_request db')" by auto
  moreover have "fr_request_status r = Pending" "r \<in> set (t_follow_request db)"
    by (simp_all add: r_def db_def)
  ultimately show ?thesis using inv by blast
qed

section \<open>Subscriptions\<close>

text \<open>
  \<open>subscribe_opt\<close> is idempotent and counts once: whatever it returns, an existing subscription
  stays a single row and the counter moves only with the table; a second call changes nothing.
\<close>

theorem subscribe_opt_idempotent:
  assumes "db_inv db" and "subscribe_opt s t db = (Inr (), db1)"
  shows "db_inv db1 \<and> related s t Subscription db1 \<and>
    subscribers_of t (t_relationship db1) =
      subscribers_of t (t_relationship db) + (if related s t Subscription db then 0 else 1) \<and>
    subscribe_opt s t db1 = (Inr (), db1)"
proof -
  note ok = subscribe_opt_okD [OF assms(2)]
  have inv: "db_inv db1" by (rule keepsD [OF inv_subscribe_opt assms])
  have rel: "related s t Subscription db1"
    using ok by (auto simp: subscribed_def related_def relationship_row_def)
  moreover have "subscribe_opt s t db1 = (Inr (), db1)"
    using rel db_inv_wf [OF inv]
    by (simp add: subscribe_opt_def transaction_def bind_def execute_run insert_relationship_opt_def
        when_do_def ret_def)
  ultimately show ?thesis using ok inv by (auto simp: subscribed_def row_counts)
qed

theorem subscribe_opt_idempotent_witness:
  "\<exists>db1. subscribe_opt 2 1 sample_db = (Inr (), db1) \<and> subscribers_of 1 (t_relationship db1) = 1 \<and>
     subscribe_opt 2 1 db1 = (Inr (), db1)"
proof -
  let ?d1 = "sample_db\<lparr>t_relationship := t_relationship sample_db @ [new_relationship 2 1 Subscription sample_db],
    next_id := next_id sample_db + 1\<rparr>"
  have new: "\<not> related 2 1 Subscription sample_db" and ids: "2 \<in> profile_ids sample_db" "1 \<in> profile_ids sample_db"
    by (auto simp: sample_defs related_def relationship_row_def)
  have wf1: "wf_db ?d1"
    using wf_insert_relationship [OF sample_wf ids _ new app_invD(10) [OF db_invD(2) [OF sample_inv]]] by simp
  have "wf_db (?d1\<lparr>t_actor_profile := update_where (\<lambda>_. True) (bump_subscriber 1 1) (t_actor_profile ?d1)\<rparr>)"
  proof (rule wf_update_profiles [OF wf1])
    fix ap assume "ap \<in> set (t_actor_profile ?d1)"
    then show "profile_check (bump_subscriber 1 1 ap) \<and> profile_counts_in_range (bump_subscriber 1 1 ap)"
      by (auto simp: sample_tables sample_profile_def bump_subscriber_def profile_check_def
          profile_counts_in_range_def i32_in_range_def)
  qed (simp add: bump_subscriber_def)
  then have wf2: "wf_db (subscribed 2 1 sample_db)"
    by (simp add: subscribed_def update_where_True)
  have one: "filter (\<lambda>ap. ap_id ap = 1) (t_actor_profile sample_db) = [sample_profile 1 ''alice'' 1 0 2]"
    by (simp add: sample_db_def sample_profile_def)
  have "subscribe_opt 2 1 sample_db = (Inr (), subscribed 2 1 sample_db)"
    unfolding subscribe_opt_def
    by (rule transaction_run, rule bind_step [where x = 1 and t = ?d1])
      (use wf1 wf2 one in \<open>simp_all add: db_ok insert_relationship_opt_def insert_relationship_def new
        bump_subscriber_update subscribed_def\<close>)
  from subscribe_opt_idempotent [OF sample_inv this] this new
  show ?thesis by (intro exI [of _ "subscribed 2 1 sample_db"]) (simp add: sample_defs row_counts)
qed

end
