(* ===== verification/Payments.thy ===== *)
theory Payments
  imports Relationship_Laws Users Sample
begin

text \<open>
  Invoices and paid subscriptions (\<open>fedimovies-models/src/invoices/queries.rs\<close>,
  \<open>subscriptions/queries.rs\<close>, \<open>subscriptions/types.rs\<close>).
\<close>

section \<open>Invoices\<close>

definition create_invoice ::
    "uuid \<Rightarrow> datetime \<Rightarrow> uuid \<Rightarrow> uuid \<Rightarrow> chain_id \<Rightarrow> string \<Rightarrow> int \<Rightarrow> db_invoice dbm" where
  "create_invoice invoice_id now sender_id recipient_id c payment_address amount =
     (let row = \<lparr>iv_id = invoice_id, iv_sender_id = sender_id, iv_recipient_id = recipient_id,
        iv_chain_id = c, iv_payment_address = payment_address, iv_amount = amount,
        iv_invoice_status = Open, iv_created_at = now\<rparr>
      in execute_catching ''invoice'' (\<lambda>db. (row, db\<lparr>t_invoice := t_invoice db @ [row]\<rparr>)))"

definition get_invoice_by_id :: "uuid \<Rightarrow> db_invoice dbm" where
  "get_invoice_by_id invoice_id =
     bind (query_opt (\<lambda>db. filter (\<lambda>i. iv_id i = invoice_id) (t_invoice db)))
     (\<lambda>maybe_row. ok_or maybe_row (NotFound ''invoice''))"

definition get_invoice_by_address :: "chain_id \<Rightarrow> string \<Rightarrow> db_invoice dbm" where
  "get_invoice_by_address c payment_address =
     bind (query_opt (\<lambda>db.
       filter (\<lambda>i. iv_chain_id i = c \<and> iv_payment_address i = payment_address) (t_invoice db)))
     (\<lambda>maybe_row. ok_or maybe_row (NotFound ''invoice''))"

definition get_invoices_by_status :: "chain_id \<Rightarrow> invoice_status \<Rightarrow> db_invoice list dbm" where
  "get_invoices_by_status c status =
     query (\<lambda>db. filter (\<lambda>i. iv_chain_id i = c \<and> iv_invoice_status i = status) (t_invoice db))"

definition set_invoice_status :: "uuid \<Rightarrow> invoice_status \<Rightarrow> unit dbm" where
  "set_invoice_status invoice_id status =
     bind (execute (\<lambda>db.
       (length (filter (\<lambda>i. iv_id i = invoice_id) (t_invoice db)),
        db\<lparr>t_invoice := update_where (\<lambda>i. iv_id i = invoice_id)
          (\<lambda>i. i\<lparr>iv_invoice_status := status\<rparr>) (t_invoice db)\<rparr>)))
     (\<lambda>updated_count. if updated_count = 0 then throw (NotFound ''invoice'') else ret ())"

section \<open>Subscriptions\<close>

record subscription =
  su_id :: int
  su_sender :: db_actor_profile
  su_sender_address :: "string option"
  su_expires_at :: datetime

definition insert_subscription ::
    "uuid \<Rightarrow> string option \<Rightarrow> uuid \<Rightarrow> chain_id \<Rightarrow> datetime \<Rightarrow> datetime \<Rightarrow> database \<Rightarrow> unit \<times> database" where
  "insert_subscription sender_id sender_address recipient_id c expires_at updated_at db =
     ((), db\<lparr>t_subscription := t_subscription db @
       [\<lparr>sb_id = next_id db, sb_sender_id = sender_id, sb_sender_address = sender_address,
         sb_recipient_id = recipient_id, sb_chain_id = c, sb_expires_at = expires_at,
         sb_updated_at = updated_at\<rparr>], next_id := next_id db + 1\<rparr>)"

definition create_subscription_body ::
    "uuid \<Rightarrow> string option \<Rightarrow> uuid \<Rightarrow> chain_id \<Rightarrow> datetime \<Rightarrow> datetime \<Rightarrow> unit dbm" where
  "create_subscription_body sender_id sender_address recipient_id c expires_at updated_at = transaction (
     andthen (execute_catching ''subscription''
       (insert_subscription sender_id sender_address recipient_id c expires_at updated_at))
     (subscribe sender_id recipient_id))"

text \<open>Exactly the payments on an Ethereum chain have a sender address; \<open>None\<close> is the panic.\<close>

definition create_subscription ::
    "uuid \<Rightarrow> string option \<Rightarrow> uuid \<Rightarrow> chain_id \<Rightarrow> datetime \<Rightarrow> datetime \<Rightarrow> unit dbm option" where
  "create_subscription sender_id sender_address recipient_id c expires_at updated_at =
     (if is_ethereum c = (sender_address \<noteq> None)
      then Some (create_subscription_body sender_id sender_address recipient_id c expires_at updated_at)
      else None)"

definition update_subscription :: "datetime \<Rightarrow> int \<Rightarrow> datetime \<Rightarrow> datetime \<Rightarrow> unit dbm" where
  "update_subscription now subscription_id expires_at updated_at = transaction (
     bind (execute (\<lambda>db.
       (map (\<lambda>s. (sb_sender_id s, sb_recipient_id s)) (filter (\<lambda>s. sb_id s = subscription_id) (t_subscription db)),
        db\<lparr>t_subscription := update_where (\<lambda>s. sb_id s = subscription_id)
          (\<lambda>s. s\<lparr>sb_expires_at := expires_at, sb_updated_at := updated_at\<rparr>) (t_subscription db)\<rparr>)))
     (\<lambda>rows. bind (opt_row rows) (\<lambda>maybe_row.
     bind (ok_or maybe_row (NotFound ''subscription'')) (\<lambda>(sender_id, recipient_id).
     when_do (expires_at > now) (subscribe_opt sender_id recipient_id)))))"

definition get_subscription_by_participants :: "uuid \<Rightarrow> uuid \<Rightarrow> db_subscription dbm" where
  "get_subscription_by_participants sender_id recipient_id =
     bind (query_opt (\<lambda>db.
       filter (\<lambda>s. sb_sender_id s = sender_id \<and> sb_recipient_id s = recipient_id) (t_subscription db)))
     (\<lambda>maybe_row. ok_or maybe_row (NotFound ''subscription''))"

definition get_expired_subscriptions :: "datetime \<Rightarrow> db_subscription list dbm" where
  "get_expired_subscriptions now =
     query (\<lambda>db. concat (map (\<lambda>s. map (\<lambda>_. s)
         (filter (relationship_row (sb_sender_id s) (sb_recipient_id s) Subscription) (t_relationship db)))
       (filter (\<lambda>s. sb_expires_at s \<le> now) (t_subscription db))))"

definition get_incoming_subscriptions :: "uuid \<Rightarrow> int option \<Rightarrow> nat \<Rightarrow> subscription list dbm" where
  "get_incoming_subscriptions recipient_id max_subscription_id limit =
     query (\<lambda>db. take limit (concat (map (\<lambda>s. map (\<lambda>ap.
           \<lparr>su_id = sb_id s, su_sender = ap, su_sender_address = sb_sender_address s,
            su_expires_at = sb_expires_at s\<rparr>)
         (filter (\<lambda>ap. ap_id ap = sb_sender_id s) (t_actor_profile db)))
       (sort_desc sb_id (filter (\<lambda>s. sb_recipient_id s = recipient_id \<and> below max_subscription_id (sb_id s))
          (t_subscription db))))))"

definition reset_subscriptions :: "bool \<Rightarrow> unit dbm" where
  "reset_subscriptions ethereum_contract_replaced = transaction (
     andthen (when_do ethereum_contract_replaced
       (execute (\<lambda>db. ((), snd (update_profiles
          (\<lambda>ap. ap_actor_json ap = None \<and>
             list_ex (\<lambda>opt. option_payment_type opt = PaymentType_EthereumSubscription) (ap_payment_options ap))
          (\<lambda>ap. ap\<lparr>ap_payment_options := []\<rparr>) db)))))
     (andthen (execute (\<lambda>db. ((), db\<lparr>t_relationship :=
        delete_where (\<lambda>r. rl_relationship_type r = Subscription) (t_relationship db)\<rparr>)))
     (andthen (execute (\<lambda>db. ((), snd (update_profiles (\<lambda>_. True) (\<lambda>ap. ap\<lparr>ap_subscriber_count := 0\<rparr>) db))))
     (execute (\<lambda>db. ((), db\<lparr>t_subscription := []\<rparr>))))))"

section \<open>Invariants\<close>

lemma inv_invoices:
  "keeps db_inv (create_invoice i now s r c a n)" "keeps db_inv (set_invoice_status i st)"
  unfolding create_invoice_def set_invoice_status_def Let_def
  by (intro keeps_intro keeps_inv_execute keeps_inv_execute_catching; simp add: db_inv_def)+

lemma app_inv_bump_subscriptions:
  "app_inv A C db \<Longrightarrow> app_inv A C (db\<lparr>t_subscription := ss, next_id := next_id db + 1\<rparr>)"
  using app_inv_next_id [of "db\<lparr>t_subscription := ss\<rparr>" "next_id db + 1" A C] by simp

lemma inv_create_subscription_body: "keeps db_inv (create_subscription_body s a r c e u)"
  unfolding create_subscription_body_def insert_subscription_def
  by (intro keeps_transaction_body keeps_bind inv_subscribe keeps_inv_execute_catching)
    (simp add: app_inv_bump_subscriptions db_inv_def)

lemma inv_update_subscription: "keeps db_inv (update_subscription now i e u)"
proof -
  have "keeps db_inv (case x of (a, b) \<Rightarrow> when_do p (subscribe_opt a b))" for x p
    by (cases x) (simp add: keeps_when inv_subscribe_opt)
  then show ?thesis
    unfolding update_subscription_def
    by (intro keeps_transaction_body keeps_bind keeps_opt_row keeps_ok_or keeps_inv_execute)
      (simp_all add: db_inv_def)
qed

text \<open>What \<open>reset_subscriptions\<close> makes of the tables.\<close>

definition reset_profile :: "bool \<Rightarrow> db_actor_profile \<Rightarrow> db_actor_profile" where
  "reset_profile replaced ap =
     (if replaced \<and> ap_actor_json ap = None \<and>
         list_ex (\<lambda>opt. option_payment_type opt = PaymentType_EthereumSubscription) (ap_payment_options ap)
      then ap\<lparr>ap_payment_options := [], ap_subscriber_count := 0\<rparr> else ap\<lparr>ap_subscriber_count := 0\<rparr>)"

definition reset_db :: "bool \<Rightarrow> database \<Rightarrow> database" where
  "reset_db replaced db =
     db\<lparr>t_actor_profile := map (reset_profile replaced) (t_actor_profile db),
        t_relationship := delete_where (\<lambda>r. rl_relationship_type r = Subscription) (t_relationship db),
        t_subscription := []\<rparr>"

lemma reset_profile_keeps:
  "ap_id (reset_profile b ap) = ap_id ap" "ap_subscriber_count (reset_profile b ap) = 0"
  "ap_username (reset_profile b ap) = ap_username ap" "ap_hostname (reset_profile b ap) = ap_hostname ap"
  "ap_actor_json (reset_profile b ap) = ap_actor_json ap" "ap_follower_count (reset_profile b ap) = ap_follower_count ap"
  "ap_following_count (reset_profile b ap) = ap_following_count ap" "ap_post_count (reset_profile b ap) = ap_post_count ap"
  "ap_emojis (reset_profile b ap) = ap_emojis ap" "is_local (reset_profile b ap) = is_local ap"
  by (simp_all add: reset_profile_def is_local_def)

lemma wf_delete_relationships: "wf_db db \<Longrightarrow> wf_db (db\<lparr>t_relationship := delete_where p (t_relationship db)\<rparr>)"
  unfolding wf_db_unfold by (simp add: relationship_keys_ok_def distinct_map_delete)

lemma wf_no_subscriptions: "wf_db db \<Longrightarrow> wf_db (db\<lparr>t_subscription := []\<rparr>)"
  unfolding wf_db_unfold by simp

lemma reset_subscriptions_run:
  assumes wf: "wf_db db"
  shows "reset_subscriptions replaced db = (Inr (), reset_db replaced db)" and "wf_db (reset_db replaced db)"
proof -
  let ?p = "\<lambda>ap. ap_actor_json ap = None \<and>
     list_ex (\<lambda>opt. option_payment_type opt = PaymentType_EthereumSubscription) (ap_payment_options ap)"
  let ?aps = "if replaced then update_where ?p (\<lambda>ap. ap\<lparr>ap_payment_options := []\<rparr>) (t_actor_profile db)
    else t_actor_profile db"
  let ?db1 = "db\<lparr>t_actor_profile := ?aps\<rparr>"
  let ?db2 = "?db1\<lparr>t_relationship := delete_where (\<lambda>r. rl_relationship_type r = Subscription) (t_relationship ?db1)\<rparr>"
  let ?db3 = "?db2\<lparr>t_actor_profile := update_where (\<lambda>_. True) (\<lambda>ap. ap\<lparr>ap_subscriber_count := 0\<rparr>) (t_actor_profile ?db2)\<rparr>"
  have wf1: "wf_db ?db1"
  proof (cases replaced)
    case True
    have "wf_db (db\<lparr>t_actor_profile := update_where ?p (\<lambda>ap. ap\<lparr>ap_payment_options := []\<rparr>) (t_actor_profile db)\<rparr>)"
      using wf_profile_row [OF wf]
      by (intro wf_update_profiles [OF wf]) (simp_all add: profile_check_def profile_counts_in_range_def)
    with True show ?thesis by simp
  qed (use wf in simp)
  have wf2: "wf_db ?db2" by (rule wf_delete_relationships [OF wf1])
  have wf3: "wf_db ?db3"
    using wf_profile_row [OF wf2]
    by (intro wf_update_profiles [OF wf2]) (simp_all add: profile_check_def profile_counts_in_range_def i32_in_range_def)
  have aps: "update_where (\<lambda>_. True) (\<lambda>ap. ap\<lparr>ap_subscriber_count := 0\<rparr>) ?aps =
      map (reset_profile replaced) (t_actor_profile db)"
    by (simp add: update_where_def reset_profile_def)
  have db4: "?db3\<lparr>t_subscription := []\<rparr> = reset_db replaced db" using aps by (simp add: reset_db_def)
  show wf4: "wf_db (reset_db replaced db)" using wf_no_subscriptions [OF wf3] unfolding db4 .
  have 1: "when_do replaced (execute (\<lambda>db. ((), snd (update_profiles ?p (\<lambda>ap. ap\<lparr>ap_payment_options := []\<rparr>) db)))) db =
      (Inr (), ?db1)"
    using wf1 by (cases replaced) (simp_all add: when_do_run execute_run)
  have 2: "execute (\<lambda>db. ((), db\<lparr>t_relationship :=
      delete_where (\<lambda>r. rl_relationship_type r = Subscription) (t_relationship db)\<rparr>)) ?db1 = (Inr (), ?db2)"
    using wf2 by (simp add: execute_run)
  have 3: "execute (\<lambda>db. ((), snd (update_profiles (\<lambda>_. True) (\<lambda>ap. ap\<lparr>ap_subscriber_count := 0\<rparr>) db))) ?db2 = (Inr (), ?db3)"
    using wf3 by (simp add: execute_run)
  have 4: "execute (\<lambda>db. ((), db\<lparr>t_subscription := []\<rparr>)) ?db3 = (Inr (), reset_db replaced db)"
    using wf4 unfolding db4 [symmetric] by (simp add: execute_run)
  show "reset_subscriptions replaced db = (Inr (), reset_db replaced db)"
    unfolding reset_subscriptions_def
    by (rule transaction_run, rule bind_step, rule 1, rule bind_step, rule 2, rule bind_step, rule 3, rule 4)
qed

lemma inv_reset_subscriptions: "keeps db_inv (reset_subscriptions replaced)"
proof (rule keepsI)
  fix db r db' assume inv: "db_inv db" and run: "reset_subscriptions replaced db = (r, db')"
  note step = reset_subscriptions_run [OF db_inv_wf [OF inv], of replaced]
  from run step(1) have db': "db' = reset_db replaced db" by simp
  note old = app_invD [OF db_invD(2) [OF inv]]
  let ?rs = "delete_where (\<lambda>r. rl_relationship_type r = Subscription) (t_relationship db)"
  have counts: "followers_of i ?rs = followers_of i (t_relationship db)"
    "following_of i ?rs = following_of i (t_relationship db)" "subscribers_of i ?rs = 0" for i
    by (simp_all add: row_counts count_where_delete count_where_0_iff)
  have "relationship_counters_ok (map (reset_profile replaced) (t_actor_profile db)) ?rs"
    using old(1) by (simp add: relationship_counters_ok_def counts reset_profile_keeps)
  moreover have "author_counters_ok (map (reset_profile replaced) (t_actor_profile db)) (t_post db)"
    using old(2) by (simp add: author_counters_ok_def reset_profile_keeps)
  moreover have "accounts_ok {} (map (reset_profile replaced) (t_actor_profile db)) (t_user_account db)"
    using old(6) by (simp add: accounts_ok_def reset_profile_keeps)
  moreover have "local_names_ok (map (reset_profile replaced) (t_actor_profile db))"
    using old(7) by (simp add: local_names_ok_def filter_map o_def reset_profile_keeps)
  moreover have "caches_ok {} (map (reset_profile replaced) (t_actor_profile db)) (t_profile_emoji db) (t_emoji db)"
    using old(9) by (simp add: caches_ok_def reset_profile_keeps)
  ultimately have "app_inv {} {} (reset_db replaced db)"
    using old by (simp add: app_inv_def reset_db_def next_id_ok_def)
  with step(2) show "db_inv db'" by (simp add: db_inv_def db')
qed

section \<open>Renewing a subscription\<close>

lemma wf_subscription_keys: "wf_db db \<Longrightarrow> distinct (map sb_id (t_subscription db))"
  by (simp add: wf_db_def unique_ok_def misc_keys_ok_def)

lemma expired_run:
  "\<exists>ss. get_expired_subscriptions now db = (Inr ss, db) \<and>
     (\<forall>s. s \<in> set ss \<longleftrightarrow> s \<in> set (t_subscription db) \<and> sb_expires_at s \<le> now \<and>
        related (sb_sender_id s) (sb_recipient_id s) Subscription db)"
  by (auto simp: get_expired_subscriptions_def query_def related_def)

text \<open>
  \<open>update_subscription\<close>: an unknown identifier is refused and changes nothing. Otherwise the
  new expiry date is stored; when it lies in the future the sender is a subscriber afterwards,
  and when it does not the relationships stay as they are. Later the subscription is reported as
  expired exactly from that date on, while the sender is still a subscriber.
\<close>

theorem update_subscription_correct:
  assumes inv: "db_inv db" and run: "update_subscription now i expires updated db = (r, db')"
  shows "if i \<notin> sb_id ` set (t_subscription db) then r = Inl (NotFound ''subscription'') \<and> db' = db
    else (\<forall>e. r = Inl e \<longrightarrow> db' = db) \<and>
      (r = Inr () \<longrightarrow> db_inv db' \<and>
        (\<exists>s \<in> set (t_subscription db'). sb_id s = i \<and> sb_expires_at s = expires \<and>
          (now < expires \<longrightarrow> related (sb_sender_id s) (sb_recipient_id s) Subscription db') \<and>
          (expires \<le> now \<longrightarrow> t_relationship db' = t_relationship db) \<and>
          (\<forall>later. \<exists>ss. get_expired_subscriptions later db' = (Inr ss, db') \<and>
             (s \<in> set ss \<longleftrightarrow> expires \<le> later \<and> related (sb_sender_id s) (sb_recipient_id s) Subscription db'))))"
proof (cases "i \<in> sb_id ` set (t_subscription db)")
  case False
  then have none: "filter (\<lambda>s. sb_id s = i) (t_subscription db) = []" by (auto simp: filter_empty_conv)
  have same: "update_where (\<lambda>s. sb_id s = i) f (t_subscription db) = t_subscription db" for f
    using False by (intro update_where_none) auto
  have "update_subscription now i expires updated db = (Inl (NotFound ''subscription''), db)"
    by (simp add: update_subscription_def transaction_def bind_def execute_run none same db_inv_wf [OF inv]
        opt_row_run ok_or_run)
  with run False show ?thesis by simp
next
  case True
  then have c: "\<not> i \<notin> sb_id ` set (t_subscription db)" by simp
  have err: "\<forall>e. r = Inl e \<longrightarrow> db' = db"
    using run by (auto simp: update_subscription_def dest: transaction_error)
  from True obtain s where s: "s \<in> set (t_subscription db)" "i = sb_id s" by auto
  let ?f = "\<lambda>s. s\<lparr>sb_expires_at := expires, sb_updated_at := updated\<rparr>"
  let ?db1 = "db\<lparr>t_subscription := update_where (\<lambda>s. sb_id s = i) ?f (t_subscription db)\<rparr>"
  have rows: "filter (\<lambda>s. sb_id s = i) (t_subscription db) = [s]"
    using filter_unique_key [OF wf_subscription_keys [OF db_inv_wf [OF inv]] s(1)] s(2) by simp
  show ?thesis
    unfolding if_not_P [OF c]
  proof (intro conjI err impI)
    assume r: "r = Inr ()"
    from run inv r show "db_inv db'" using keepsD [OF inv_update_subscription inv] by blast
    from run r have sub: "when_do (now < expires) (subscribe_opt (sb_sender_id s) (sb_recipient_id s)) ?db1 = (Inr (), db')"
      by (auto simp: update_subscription_def db_ok rows)
    let ?s = "?f s"
    have tabs: "t_subscription db' = t_subscription ?db1 \<and>
        (now < expires \<longrightarrow> related (sb_sender_id s) (sb_recipient_id s) Subscription db') \<and>
        (expires \<le> now \<longrightarrow> t_relationship db' = t_relationship db)"
    proof (cases "now < expires")
      case True
      with sub have "db' = (if related (sb_sender_id s) (sb_recipient_id s) Subscription ?db1 then ?db1
          else subscribed (sb_sender_id s) (sb_recipient_id s) ?db1)"
        using subscribe_opt_okD by (simp add: when_do_run)
      with True show ?thesis
        by (auto simp: subscribed_def related_def relationship_row_def)
    next
      case False
      with sub have "db' = ?db1" by (simp add: when_do_def ret_def)
      with False show ?thesis by simp
    qed
    have in_s: "?s \<in> set (t_subscription db')"
      using s tabs by (auto simp: in_update_where)
    have "\<exists>ss. get_expired_subscriptions later db' = (Inr ss, db') \<and>
        (?s \<in> set ss \<longleftrightarrow> expires \<le> later \<and> related (sb_sender_id ?s) (sb_recipient_id ?s) Subscription db')" for later
    proof -
      from expired_run [of later db'] obtain ss where "get_expired_subscriptions later db' = (Inr ss, db')"
        and "?s \<in> set ss \<longleftrightarrow> ?s \<in> set (t_subscription db') \<and> sb_expires_at ?s \<le> later \<and>
          related (sb_sender_id ?s) (sb_recipient_id ?s) Subscription db'" by blast
      with in_s show ?thesis by auto
    qed
    with in_s s(2) tabs show "\<exists>s \<in> set (t_subscription db'). sb_id s = i \<and> sb_expires_at s = expires \<and>
          (now < expires \<longrightarrow> related (sb_sender_id s) (sb_recipient_id s) Subscription db') \<and>
          (expires \<le> now \<longrightarrow> t_relationship db' = t_relationship db) \<and>
          (\<forall>later. \<exists>ss. get_expired_subscriptions later db' = (Inr ss, db') \<and>
             (s \<in> set ss \<longleftrightarrow> expires \<le> later \<and> related (sb_sender_id s) (sb_recipient_id s) Subscription db'))"
      by (intro bexI [of _ ?s]) simp_all
  qed
qed

text \<open>The sample database with a subscription of the second account to the first.\<close>

definition paid_db :: database where
  "paid_db = sample_db\<lparr>t_subscription :=
     [\<lparr>sb_id = 4, sb_sender_id = 2, sb_sender_address = None, sb_recipient_id = 1,
       sb_chain_id = \<lparr>ci_namespace = ''eip155'', ci_reference = ''1''\<rparr>, sb_expires_at = 5, sb_updated_at = 0\<rparr>]\<rparr>"

lemma paid_wf: "wf_db (paid_db\<lparr>t_subscription := map (\<lambda>s. s\<lparr>sb_expires_at := e, sb_updated_at := u\<rparr>) (t_subscription paid_db)\<rparr>)"
  using sample_wf unfolding wf_db_unfold paid_db_def sample_defs by simp

lemma paid_inv: "db_inv paid_db"
  using paid_wf [of 0 5] sample_inv by (simp add: db_inv_def paid_db_def)

theorem update_subscription_correct_witness:
  "\<exists>db'. update_subscription 10 4 9 0 paid_db = (Inr (), db') \<and> db_inv db' \<and>
     t_relationship db' = t_relationship paid_db"
proof -
  have one: "update_where (\<lambda>s. sb_id s = 4) f (t_subscription paid_db) = map f (t_subscription paid_db)" for f
    by (simp add: paid_db_def update_where_def)
  obtain db' where run: "update_subscription 10 4 9 0 paid_db = (Inr (), db')"
    using paid_wf [of 0 9]
    by (simp add: update_subscription_def transaction_def bind_def execute_run one)
      (simp add: paid_db_def opt_row_run ok_or_def when_do_def ret_def)
  have "4 \<in> sb_id ` set (t_subscription paid_db)" by (simp add: paid_db_def)
  with update_subscription_correct [OF paid_inv run] run show ?thesis by auto
qed

end
