(* ===== verification/Markers.thy ===== *)
theory Markers
  imports Profile_Laws Sample
begin

text \<open>
  Timeline markers and internal properties: one value per key, replaced by \<open>ON CONFLICT .. DO
  UPDATE\<close> (\<open>fedimovies-models/src/markers/queries.rs\<close>, \<open>properties/queries.rs\<close>). The new value
  of a property is its JSON form; \<open>of_json\<close> is the deserializer the caller chooses.
\<close>

section \<open>Upserts\<close>

definition upsert :: "('r \<Rightarrow> 'k) \<Rightarrow> ('r \<Rightarrow> 'r) \<Rightarrow> 'r \<Rightarrow> 'r list \<Rightarrow> 'r list" where
  "upsert k f row rs =
     (if exists_where (\<lambda>r. k r = k row) rs then update_where (\<lambda>r. k r = k row) f rs else rs @ [row])"

lemma distinct_upsert:
  "distinct (map k rs) \<Longrightarrow> (\<And>r. k (f r) = k r) \<Longrightarrow> distinct (map k (upsert k f row rs))"
  by (auto simp: upsert_def map_update_where)

lemma filter_upsert:
  assumes dist: "distinct (map k rs)" and f: "\<And>r. k (f r) = k r"
  shows "filter (\<lambda>r. k r = k row) (upsert k f row rs) =
      (case find (\<lambda>r. k r = k row) rs of None \<Rightarrow> [row] | Some r \<Rightarrow> [f r])"
    and "v \<noteq> k row \<Longrightarrow> filter (\<lambda>r. k r = v) (upsert k f row rs) = filter (\<lambda>r. k r = v) rs"
proof -
  show "filter (\<lambda>r. k r = k row) (upsert k f row rs) =
      (case find (\<lambda>r. k r = k row) rs of None \<Rightarrow> [row] | Some r \<Rightarrow> [f r])"
  proof (cases "find (\<lambda>r. k r = k row) rs")
    case None
    then have "\<forall>r \<in> set rs. k r \<noteq> k row" by (simp add: find_None_all)
    with None show ?thesis by (simp add: upsert_def filter_empty_conv)
  next
    case (Some r)
    then have r: "r \<in> set rs" "k r = k row" by (auto dest: find_Some_in)
    then have "filter (\<lambda>r. k r = k row) rs = [r]" using filter_unique_key [OF dist r(1)] by simp
    with r Some f show ?thesis by (auto simp: upsert_def filter_updated)
  qed
  assume v: "v \<noteq> k row"
  have "filter (\<lambda>r. k r = v) (update_where (\<lambda>r. k r = k row) f rs) = filter (\<lambda>r. k r = v) rs"
    using v f by (induction rs) (auto simp: update_where_def)
  with v show "filter (\<lambda>r. k r = v) (upsert k f row rs) = filter (\<lambda>r. k r = v) rs"
    by (simp add: upsert_def)
qed

section \<open>Markers\<close>

definition marker_key :: "db_timeline_marker \<Rightarrow> uuid \<times> timeline" where
  "marker_key m = (tm_user_id m, tm_timeline m)"

definition create_or_update_marker :: "datetime \<Rightarrow> uuid \<Rightarrow> timeline \<Rightarrow> string \<Rightarrow> db_timeline_marker dbm" where
  "create_or_update_marker now user_id tml last_read_id =
     bind (execute (\<lambda>db.
       let row = \<lparr>tm_id = next_id db, tm_user_id = user_id, tm_timeline = tml,
             tm_last_read_id = last_read_id, tm_updated_at = now\<rparr>;
           rows = upsert marker_key (\<lambda>m. m\<lparr>tm_last_read_id := last_read_id, tm_updated_at := now\<rparr>) row
             (t_timeline_marker db)
       in (filter (\<lambda>m. marker_key m = (user_id, tml)) rows,
           db\<lparr>t_timeline_marker := rows, next_id := next_id db + 1\<rparr>)))
     one_row"

definition get_marker_opt :: "uuid \<Rightarrow> timeline \<Rightarrow> db_timeline_marker option dbm" where
  "get_marker_opt user_id tml =
     query_opt (\<lambda>db. filter (\<lambda>m. tm_user_id m = user_id \<and> tm_timeline m = tml) (t_timeline_marker db))"

section \<open>Properties of the instance\<close>

definition set_internal_property :: "string \<Rightarrow> json \<Rightarrow> unit dbm" where
  "set_internal_property name json_value =
     execute (\<lambda>db. ((), db\<lparr>t_internal_property :=
       upsert fst (\<lambda>p. (fst p, json_value)) (name, json_value) (t_internal_property db)\<rparr>))"

definition get_internal_property :: "(json \<Rightarrow> 'a option) \<Rightarrow> string \<Rightarrow> 'a option dbm" where
  "get_internal_property of_json name =
     bind (query_opt (\<lambda>db. map snd (filter (\<lambda>p. fst p = name) (t_internal_property db)))) (\<lambda>maybe_row.
     case maybe_row of
       Some value_json \<Rightarrow>
         (case of_json value_json of Some x \<Rightarrow> ret (Some x) | None \<Rightarrow> throw DatabaseTypeError)
     | None \<Rightarrow> ret None)"

section \<open>Laws\<close>

lemma inv_create_or_update_marker: "keeps db_inv (create_or_update_marker now u tml l)"
  unfolding create_or_update_marker_def Let_def
proof (intro keeps_bind keeps_one_row keeps_inv_execute)
  fix db assume inv: "db_inv db"
  show "app_inv {} {} (snd (filter (\<lambda>m. marker_key m = (u, tml))
      (upsert marker_key (\<lambda>m. m\<lparr>tm_last_read_id := l, tm_updated_at := now\<rparr>)
        \<lparr>tm_id = next_id db, tm_user_id = u, tm_timeline = tml, tm_last_read_id = l, tm_updated_at = now\<rparr>
        (t_timeline_marker db)),
      db\<lparr>t_timeline_marker := upsert marker_key (\<lambda>m. m\<lparr>tm_last_read_id := l, tm_updated_at := now\<rparr>)
        \<lparr>tm_id = next_id db, tm_user_id = u, tm_timeline = tml, tm_last_read_id = l, tm_updated_at = now\<rparr>
        (t_timeline_marker db), next_id := next_id db + 1\<rparr>))"
    using app_inv_next_id [of "db\<lparr>t_timeline_marker := ms\<rparr>" "next_id db + 1" "{}" "{}" for ms] db_invD(2) [OF inv]
    by simp
qed

lemma inv_set_internal_property: "keeps db_inv (set_internal_property n v)"
  unfolding set_internal_property_def by (intro keeps_inv_execute) (simp add: db_inv_def)

lemma wf_marker_keys: "wf_db db \<Longrightarrow> distinct (map marker_key (t_timeline_marker db))"
  by (simp add: wf_db_def unique_ok_def misc_keys_ok_def marker_key_def cong: map_cong)

lemma set_upsert: "x \<in> set (upsert k f row rs) \<Longrightarrow> x = row \<or> (\<exists>r \<in> set rs. x = r \<or> x = f r)"
  by (auto simp: upsert_def in_update_where split: if_splits)

lemma wf_markers:
  assumes "wf_db db" and "distinct (map marker_key ms)" and "\<forall>m \<in> set ms. tm_user_id m \<in> user_ids db"
  shows "wf_db (db\<lparr>t_timeline_marker := ms, next_id := n\<rparr>)"
  using assms unfolding wf_db_unfold marker_key_def by simp

lemma wf_properties:
  "wf_db db \<Longrightarrow> distinct (map fst ps) \<Longrightarrow> wf_db (db\<lparr>t_internal_property := ps\<rparr>)"
  unfolding wf_db_unfold by simp

text \<open>
  \<open>create_or_update_marker\<close> of an account succeeds; afterwards the marker of that timeline is
  the one it returns, with the new position and time, and every other marker is as before. The
  same holds for internal properties, read back with any deserializer.
\<close>

theorem last_write_wins:
  assumes inv: "db_inv db" and user: "u \<in> user_ids db"
  shows "(\<exists>m db'. create_or_update_marker now u tml l db = (Inr m, db') \<and> db_inv db' \<and>
      tm_last_read_id m = l \<and> tm_updated_at m = now \<and>
      get_marker_opt u tml db' = (Inr (Some m), db') \<and>
      (\<forall>u' tml'. (u', tml') \<noteq> (u, tml) \<longrightarrow> fst (get_marker_opt u' tml' db') = fst (get_marker_opt u' tml' db))) \<and>
    (\<exists>db'. set_internal_property n v db = (Inr (), db') \<and> db_inv db' \<and>
      get_internal_property of_json n db' =
        (case of_json v of Some x \<Rightarrow> (Inr (Some x), db') | None \<Rightarrow> (Inl DatabaseTypeError, db')) \<and>
      (\<forall>n'. n' \<noteq> n \<longrightarrow> fst (get_internal_property of_json n' db') = fst (get_internal_property of_json n' db)))"
proof (intro conjI)
  note wf = db_inv_wf [OF inv]
  let ?row = "\<lparr>tm_id = next_id db, tm_user_id = u, tm_timeline = tml, tm_last_read_id = l, tm_updated_at = now\<rparr>"
  let ?f = "\<lambda>m. m\<lparr>tm_last_read_id := l, tm_updated_at := now\<rparr>"
  let ?ms = "upsert marker_key ?f ?row (t_timeline_marker db)"
  let ?db = "db\<lparr>t_timeline_marker := ?ms, next_id := next_id db + 1\<rparr>"
  have key: "marker_key (?f m) = marker_key m" "marker_key ?row = (u, tml)" for m by (simp_all add: marker_key_def)
  note up = filter_upsert [OF wf_marker_keys [OF wf], where f = ?f and row = ?row, OF key(1)]
  define m where "m = (case find (\<lambda>r. marker_key r = (u, tml)) (t_timeline_marker db) of None \<Rightarrow> ?row | Some r \<Rightarrow> ?f r)"
  have one: "filter (\<lambda>m. marker_key m = (u, tml)) ?ms = [m]"
    using up(1) by (simp add: key(2) m_def split: option.split)
  have wf': "wf_db ?db"
  proof (rule wf_markers [OF wf])
    show "distinct (map marker_key ?ms)" by (rule distinct_upsert [OF wf_marker_keys [OF wf] key(1)])
    have old: "\<forall>m \<in> set (t_timeline_marker db). tm_user_id m \<in> user_ids db"
      using wf by (simp add: wf_db_def foreign_keys_ok_def user_refs_ok_def)
    show "\<forall>m \<in> set ?ms. tm_user_id m \<in> user_ids db"
      using old user by (auto dest!: set_upsert)
  qed
  have run: "create_or_update_marker now u tml l db = (Inr m, ?db)"
    using wf' one by (simp add: create_or_update_marker_def Let_def bind_def execute_run one_row_run)
  have inv': "db_inv ?db" using keepsD [OF inv_create_or_update_marker inv run] .
  have m: "tm_last_read_id m = l" "tm_updated_at m = now" by (auto simp: m_def split: option.split)
  have conv: "(\<lambda>m. tm_user_id m = a \<and> tm_timeline m = b) = (\<lambda>m. marker_key m = (a, b))" for a b
    by (simp add: marker_key_def fun_eq_iff)
  have got: "get_marker_opt u tml ?db = (Inr (Some m), ?db)"
    using one by (simp add: get_marker_opt_def conv query_opt_run)
  have others: "fst (get_marker_opt u' tml' ?db) = fst (get_marker_opt u' tml' db)" if "(u', tml') \<noteq> (u, tml)" for u' tml'
    using up(2) [of "(u', tml')"] that
    by (simp add: get_marker_opt_def conv key(2) query_opt_def bind_def query_def opt_row_def ret_def throw_def
        split: list.split)
  show "\<exists>m db'. create_or_update_marker now u tml l db = (Inr m, db') \<and> db_inv db' \<and>
      tm_last_read_id m = l \<and> tm_updated_at m = now \<and>
      get_marker_opt u tml db' = (Inr (Some m), db') \<and>
      (\<forall>u' tml'. (u', tml') \<noteq> (u, tml) \<longrightarrow> fst (get_marker_opt u' tml' db') = fst (get_marker_opt u' tml' db))"
    using run inv' m got others by (intro exI conjI allI impI)
next
  note wf = db_inv_wf [OF inv]
  let ?ps = "upsert fst (\<lambda>p. (fst p, v)) (n, v) (t_internal_property db)"
  let ?db = "db\<lparr>t_internal_property := ?ps\<rparr>"
  have dist: "distinct (map fst (t_internal_property db))" using wf by (simp add: wf_db_def unique_ok_def misc_keys_ok_def)
  have fst: "fst ((\<lambda>p. (fst p, v)) p) = fst p" for p :: "string \<times> json" by simp
  note up = filter_upsert [OF dist, where f = "\<lambda>p. (fst p, v)" and row = "(n, v)", OF fst]
  have wf': "wf_db ?db" by (rule wf_properties [OF wf distinct_upsert [OF dist fst]])
  have run: "set_internal_property n v db = (Inr (), ?db)"
    using wf' by (simp add: set_internal_property_def execute_run)
  have inv': "db_inv ?db" using keepsD [OF inv_set_internal_property inv run] .
  have one: "map snd (filter (\<lambda>p. fst p = n) ?ps) = [v]"
    using up(1) by (simp split: option.split)
  have got: "get_internal_property of_json n ?db =
      (case of_json v of Some x \<Rightarrow> (Inr (Some x), ?db) | None \<Rightarrow> (Inl DatabaseTypeError, ?db))"
    using one by (simp add: get_internal_property_def bind_def query_opt_run ret_run throw_run split: option.split)
  have others: "fst (get_internal_property of_json n' ?db) = fst (get_internal_property of_json n' db)" if "n' \<noteq> n" for n'
    using up(2) [of n'] that
    by (simp add: get_internal_property_def query_opt_def bind_def query_def opt_row_def ret_def throw_def
        split: list.split option.split)
  show "\<exists>db'. set_internal_property n v db = (Inr (), db') \<and> db_inv db' \<and>
      get_internal_property of_json n db' =
        (case of_json v of Some x \<Rightarrow> (Inr (Some x), db') | None \<Rightarrow> (Inl DatabaseTypeError, db')) \<and>
      (\<forall>n'. n' \<noteq> n \<longrightarrow> fst (get_internal_property of_json n' db') = fst (get_internal_property of_json n' db))"
    using run inv' got others by (intro exI conjI allI impI)
qed

theorem last_write_wins_witness:
  "\<exists>m db'. create_or_update_marker 5 1 Home ''42'' sample_db = (Inr m, db') \<and> tm_last_read_id m = ''42''"
proof -
  have "1 \<in> user_ids sample_db" by (simp add: sample_defs)
  from last_write_wins [OF sample_inv this, of 5 Home "''42''", THEN conjunct1] show ?thesis by blast
qed

end
