(* ===== verification/Jobs.thy ===== *)
theory Jobs
  imports Profile_Laws
begin

text \<open>
  The queue of background jobs (\<open>fedimovies-models/src/background_jobs/queries.rs\<close>). The new
  identifier and the current time are arguments; timeouts are in seconds, timestamps in
  microseconds.
\<close>

section \<open>Queries\<close>

definition seconds :: "nat \<Rightarrow> int" where
  "seconds n = int n * 1000000"

definition new_job :: "uuid \<Rightarrow> datetime \<Rightarrow> job_type \<Rightarrow> json \<Rightarrow> datetime \<Rightarrow> db_background_job" where
  "new_job job_id now ty data scheduled_for =
     \<lparr>bj_id = job_id, bj_job_type = ty, bj_job_data = data, bj_job_status = Queued,
      bj_scheduled_for = scheduled_for, bj_updated_at = now\<rparr>"

definition enqueue_job :: "uuid \<Rightarrow> datetime \<Rightarrow> job_type \<Rightarrow> json \<Rightarrow> datetime \<Rightarrow> unit dbm" where
  "enqueue_job job_id now ty data scheduled_for =
     execute (\<lambda>db. ((), db\<lparr>t_background_job :=
       t_background_job db @ [new_job job_id now ty data scheduled_for]\<rparr>))"

definition job_due :: "datetime \<Rightarrow> job_type \<Rightarrow> nat \<Rightarrow> db_background_job \<Rightarrow> bool" where
  "job_due now ty timeout_secs j \<longleftrightarrow>
     bj_job_type j = ty \<and> bj_scheduled_for j < now \<and>
     (bj_job_status j = Queued \<or>
      bj_job_status j = Running \<and> bj_updated_at j < now - seconds timeout_secs)"

definition job_order :: "db_background_job \<Rightarrow> i16 \<times> datetime" where
  "job_order j = (job_status_to_i16 (bj_job_status j), bj_scheduled_for j)"

definition batch_ids :: "datetime \<Rightarrow> job_type \<Rightarrow> nat \<Rightarrow> nat \<Rightarrow> database \<Rightarrow> uuid list" where
  "batch_ids now ty batch_size timeout_secs db =
     map bj_id (take batch_size (sort_key job_order
       (filter (job_due now ty timeout_secs) (t_background_job db))))"

definition start_job :: "datetime \<Rightarrow> db_background_job \<Rightarrow> db_background_job" where
  "start_job now j = j\<lparr>bj_job_status := Running, bj_updated_at := now\<rparr>"

definition get_job_batch :: "datetime \<Rightarrow> job_type \<Rightarrow> nat \<Rightarrow> nat \<Rightarrow> db_background_job list dbm" where
  "get_job_batch now ty batch_size timeout_secs =
     execute (\<lambda>db.
       let p = (\<lambda>j. bj_id j \<in> set (batch_ids now ty batch_size timeout_secs db))
       in (map (start_job now) (filter p (t_background_job db)),
           db\<lparr>t_background_job := update_where p (start_job now) (t_background_job db)\<rparr>))"

definition delete_job_from_queue :: "uuid \<Rightarrow> unit dbm" where
  "delete_job_from_queue job_id =
     bind (execute (\<lambda>db.
       (length (filter (\<lambda>j. bj_id j = job_id) (t_background_job db)),
        db\<lparr>t_background_job := delete_where (\<lambda>j. bj_id j = job_id) (t_background_job db)\<rparr>)))
     (\<lambda>deleted_count.
     if deleted_count = 0 then throw (NotFound ''background job'') else ret ())"

section \<open>Invariants\<close>

lemma wf_jobs:
  assumes "wf_db db" and "distinct (map bj_id jobs)"
  shows "wf_db (db\<lparr>t_background_job := jobs\<rparr>)"
  using assms unfolding wf_db_unfold by simp

lemma wf_job_keys: "wf_db db \<Longrightarrow> distinct (map bj_id (t_background_job db))"
  by (simp add: wf_db_def unique_ok_def misc_keys_ok_def)

lemma inv_jobs:
  "keeps db_inv (enqueue_job i now ty d s)" "keeps db_inv (get_job_batch now ty n t)"
  "keeps db_inv (delete_job_from_queue i)"
  unfolding enqueue_job_def get_job_batch_def delete_job_from_queue_def Let_def
  by (intro keeps_intro keeps_inv_execute; simp add: db_inv_def)+

lemma start_job_id [simp]: "bj_id (start_job now j) = bj_id j"
  by (simp add: start_job_def)

lemma get_job_batch_run:
  assumes wf: "wf_db db"
  shows "get_job_batch now ty n t db =
    (Inr (map (start_job now) (filter (\<lambda>j. bj_id j \<in> set (batch_ids now ty n t db)) (t_background_job db))),
     db\<lparr>t_background_job := update_where (\<lambda>j. bj_id j \<in> set (batch_ids now ty n t db)) (start_job now)
       (t_background_job db)\<rparr>)"
proof -
  let ?p = "\<lambda>j. bj_id j \<in> set (batch_ids now ty n t db)"
  have "wf_db (db\<lparr>t_background_job := update_where ?p (start_job now) (t_background_job db)\<rparr>)"
    by (rule wf_jobs [OF wf]) (simp add: map_update_where wf_job_keys [OF wf])
  then show ?thesis by (simp add: get_job_batch_def Let_def execute_run)
qed

lemma enqueue_job_run:
  assumes wf: "wf_db db" and "i \<notin> bj_id ` set (t_background_job db)"
  shows "enqueue_job i now ty d s db =
    (Inr (), db\<lparr>t_background_job := t_background_job db @ [new_job i now ty d s]\<rparr>)"
proof -
  have "wf_db (db\<lparr>t_background_job := t_background_job db @ [new_job i now ty d s]\<rparr>)"
    using assms(2) by (intro wf_jobs [OF wf]) (simp add: wf_job_keys [OF wf] new_job_def)
  then show ?thesis by (simp add: enqueue_job_def execute_run)
qed

lemma delete_job_run:
  assumes wf: "wf_db db" and "i \<in> bj_id ` set (t_background_job db)"
  shows "delete_job_from_queue i db =
    (Inr (), db\<lparr>t_background_job := delete_where (\<lambda>j. bj_id j = i) (t_background_job db)\<rparr>)"
proof -
  have "wf_db (db\<lparr>t_background_job := delete_where (\<lambda>j. bj_id j = i) (t_background_job db)\<rparr>)"
    by (rule wf_jobs [OF wf]) (simp add: distinct_map_delete wf_job_keys [OF wf])
  moreover have "filter (\<lambda>j. bj_id j = i) (t_background_job db) \<noteq> []"
    using assms(2) by (auto simp: filter_empty_conv)
  ultimately show ?thesis by (simp add: delete_job_from_queue_def bind_def execute_run ret_run)
qed

section \<open>Batches\<close>

definition due_jobs :: "datetime \<Rightarrow> job_type \<Rightarrow> nat \<Rightarrow> database \<Rightarrow> db_background_job list" where
  "due_jobs now ty t db = filter (job_due now ty t) (t_background_job db)"

lemma batch_due:
  assumes wf: "wf_db db" and j: "j \<in> set (t_background_job db)" and "bj_id j \<in> set (batch_ids now ty n t db)"
  shows "job_due now ty t j"
proof -
  from assms(3) obtain j' where "bj_id j' = bj_id j" and j': "j' \<in> set (sort_key job_order (due_jobs now ty t db))"
    by (auto simp: batch_ids_def due_jobs_def dest: in_set_takeD)
  moreover from j' have "j' \<in> set (t_background_job db)" "job_due now ty t j'" by (auto simp: due_jobs_def)
  ultimately show ?thesis using distinct_map_unique [OF wf_job_keys [OF wf] _ j] by metis
qed

lemma distinct_batch_ids: "wf_db db \<Longrightarrow> distinct (batch_ids now ty n t db)"
  unfolding batch_ids_def take_map [symmetric]
  by (intro distinct_take) (metis distinct_map_filter mset_eq_imp_distinct_iff mset_map mset_sort wf_job_keys)

lemma batch_ids_length: "length (batch_ids now ty n t db) = min n (length (due_jobs now ty t db))"
  by (simp add: batch_ids_def due_jobs_def min.commute)

lemma batch_ids_subset: "set (batch_ids now ty n t db) \<subseteq> bj_id ` set (t_background_job db)"
  by (auto simp: batch_ids_def dest: in_set_takeD)

text \<open>The batch has as many jobs as fit, and nothing left out comes before a job in it.\<close>

lemma filter_by_keys_length:
  assumes "distinct (map k xs)" and "distinct ks" and "set ks \<subseteq> k ` set xs"
  shows "length (filter (\<lambda>x. k x \<in> set ks) xs) = length ks"
proof -
  have "distinct (map k (filter (\<lambda>x. k x \<in> set ks) xs))" using assms(1) by (rule distinct_map_filter)
  then have "length (filter (\<lambda>x. k x \<in> set ks) xs) = card (set (map k (filter (\<lambda>x. k x \<in> set ks) xs)))"
    by (metis distinct_card length_map)
  also have "set (map k (filter (\<lambda>x. k x \<in> set ks) xs)) = set ks" using assms(3) by auto
  also have "card (set ks) = length ks" using assms(2) by (rule distinct_card)
  finally show ?thesis .
qed

lemma batch_first:
  assumes wf: "wf_db db" and j: "j \<in> set (due_jobs now ty t db)" "bj_id j \<in> set (batch_ids now ty n t db)"
    and k: "k \<in> set (due_jobs now ty t db)" "bj_id k \<notin> set (batch_ids now ty n t db)"
  shows "job_order j \<le> job_order k"
proof -
  let ?xs = "sort_key job_order (due_jobs now ty t db)"
  have ids: "batch_ids now ty n t db = map bj_id (take n ?xs)" by (simp add: batch_ids_def due_jobs_def)
  have sub: "set ?xs \<subseteq> set (t_background_job db)" by (auto simp: due_jobs_def)
  from j(2) obtain j' where j': "j' \<in> set (take n ?xs)" "bj_id j' = bj_id j" by (auto simp: ids)
  have "j' = j"
    using distinct_map_unique [OF wf_job_keys [OF wf] _ _ j'(2)] j(1) in_set_takeD [OF j'(1)] sub by auto
  with j' have "j \<in> set (take n ?xs)" by simp
  moreover have "k \<in> set (drop n ?xs)"
  proof -
    have "k \<in> set (take n ?xs @ drop n ?xs)" using k(1) by simp
    moreover have "k \<notin> set (take n ?xs)" using k(2) by (auto simp: ids)
    ultimately show ?thesis unfolding set_append by blast
  qed
  moreover have "sorted_wrt (\<lambda>x y. job_order x \<le> job_order y) (take n ?xs @ drop n ?xs)"
    using sorted_sort_key [of job_order "due_jobs now ty t db"] by (simp add: sorted_map)
  ultimately show ?thesis unfolding sorted_wrt_append by blast
qed

text \<open>
  C34: \<open>get_job_batch\<close> takes as many jobs as are due, but no more than the batch size; every job it
  takes was due, is now running since \<open>now\<close>, and comes no later, queued jobs first and then by
  schedule, than a due job that it leaves; every other job is as before.
\<close>

theorem get_job_batch_correct:
  assumes inv: "db_inv db"
  shows "\<exists>jobs db'. get_job_batch now ty n t db = (Inr jobs, db') \<and> db_inv db' \<and>
    length jobs = min n (length (filter (job_due now ty t) (t_background_job db))) \<and>
    distinct (map bj_id jobs) \<and>
    (\<forall>j \<in> set jobs. bj_job_status j = Running \<and> bj_updated_at j = now) \<and>
    t_background_job db' = map (\<lambda>j. if bj_id j \<in> bj_id ` set jobs then start_job now j else j) (t_background_job db) \<and>
    (\<forall>j \<in> set (t_background_job db). bj_id j \<in> bj_id ` set jobs \<longrightarrow> job_due now ty t j \<and>
       (\<forall>k \<in> set (t_background_job db). job_due now ty t k \<and> bj_id k \<notin> bj_id ` set jobs \<longrightarrow>
          job_order j \<le> job_order k))"
proof -
  let ?ids = "batch_ids now ty n t db" and ?jobs = "t_background_job db"
  let ?p = "\<lambda>j. bj_id j \<in> set ?ids"
  let ?batch = "map (start_job now) (filter ?p ?jobs)"
  let ?db' = "db\<lparr>t_background_job := update_where ?p (start_job now) ?jobs\<rparr>"
  note wf = db_inv_wf [OF inv]
  have run: "get_job_batch now ty n t db = (Inr ?batch, ?db')" by (rule get_job_batch_run [OF wf])
  have inv': "db_inv ?db'" using keepsD [OF inv_jobs(2) inv run] .
  have ids: "bj_id ` set ?batch = set ?ids"
    using batch_ids_subset [of now ty n t db] by (auto simp: image_image)
  have len: "length ?batch = min n (length (filter (job_due now ty t) ?jobs))"
    using filter_by_keys_length [OF wf_job_keys [OF wf] distinct_batch_ids [OF wf] batch_ids_subset]
    by (simp add: batch_ids_length due_jobs_def)
  have dist: "distinct (map bj_id ?batch)"
    using distinct_map_filter [OF wf_job_keys [OF wf]] by (simp add: o_def)
  have state: "\<forall>j \<in> set ?batch. bj_job_status j = Running \<and> bj_updated_at j = now"
    by (auto simp: start_job_def)
  have rows: "t_background_job ?db' = map (\<lambda>j. if bj_id j \<in> bj_id ` set ?batch then start_job now j else j) ?jobs"
    unfolding ids by (simp add: update_where_def)
  have due: "\<forall>j \<in> set ?jobs. bj_id j \<in> bj_id ` set ?batch \<longrightarrow> job_due now ty t j \<and>
       (\<forall>k \<in> set ?jobs. job_due now ty t k \<and> bj_id k \<notin> bj_id ` set ?batch \<longrightarrow> job_order j \<le> job_order k)"
    unfolding ids
  proof (intro ballI impI conjI)
    fix j assume j: "j \<in> set ?jobs" "bj_id j \<in> set ?ids"
    show d: "job_due now ty t j" by (rule batch_due [OF wf j])
    fix k assume "k \<in> set ?jobs" "job_due now ty t k \<and> bj_id k \<notin> set ?ids"
    with j d batch_first [OF wf, of j now ty t n k] show "job_order j \<le> job_order k"
      by (simp add: due_jobs_def)
  qed
  show ?thesis using run inv' len dist state rows due by (intro exI conjI)
qed

text \<open>
  No job is taken twice while it may still be running: a batch taken within the timeout
  after another one, by the same or another worker, shares no job with it.
\<close>

theorem batches_disjoint:
  assumes inv: "db_inv db" and first: "get_job_batch now ty n t db = (Inr jobs, db1)"
    and second: "get_job_batch later ty' n' t db1 = (Inr jobs', db2)"
    and time: "later \<le> now + seconds t"
  shows "bj_id ` set jobs \<inter> bj_id ` set jobs' = {}"
proof -
  note wf = db_inv_wf [OF inv]
  note wf1 = db_inv_wf [OF keepsD [OF inv_jobs(2) inv first]]
  from first get_job_batch_run [OF wf, of now ty n t] have
    jobs: "jobs = map (start_job now) (filter (\<lambda>j. bj_id j \<in> set (batch_ids now ty n t db)) (t_background_job db))"
    and db1: "t_background_job db1 = update_where (\<lambda>j. bj_id j \<in> set (batch_ids now ty n t db)) (start_job now) (t_background_job db)"
    by auto
  from second get_job_batch_run [OF wf1, of later ty' n' t] have
    jobs': "jobs' = map (start_job later) (filter (\<lambda>j. bj_id j \<in> set (batch_ids later ty' n' t db1)) (t_background_job db1))"
    by simp
  show ?thesis
  proof (rule ccontr)
    assume "bj_id ` set jobs \<inter> bj_id ` set jobs' \<noteq> {}"
    then obtain j k where j: "j \<in> set (t_background_job db)" "bj_id j \<in> set (batch_ids now ty n t db)"
      and k: "k \<in> set (t_background_job db1)" "bj_id k \<in> set (batch_ids later ty' n' t db1)"
      and same: "bj_id j = bj_id k"
      by (auto simp: jobs jobs')
    have "start_job now j \<in> set (t_background_job db1)"
      using j by (auto simp: db1 in_update_where)
    then have "start_job now j = k"
      using distinct_map_unique [OF wf_job_keys [OF wf1] _ k(1)] same by simp
    with batch_due [OF wf1 k] time show False by (auto simp: job_due_def start_job_def)
  qed
qed

text \<open>A queue with one job that is due and one for later.\<close>

definition queue_db :: database where
  "queue_db = empty_database\<lparr>t_background_job :=
     [new_job 7 0 OutgoingActivity JNull 1, new_job 8 0 OutgoingActivity JNull 500]\<rparr>"

lemma queue_inv: "db_inv queue_db"
proof -
  have "wf_db queue_db"
    unfolding queue_db_def by (rule wf_jobs [OF wf_empty_database]) (simp add: new_job_def)
  with db_inv_empty show ?thesis by (simp add: db_inv_def queue_db_def)
qed

theorem get_job_batch_correct_witness:
  "\<exists>j db'. get_job_batch 100 OutgoingActivity 10 3600 queue_db = (Inr [j], db') \<and> db_inv db' \<and>
     bj_job_status j = Running"
proof -
  have one: "length (filter (job_due 100 OutgoingActivity 3600) (t_background_job queue_db)) = 1"
    by (simp add: queue_db_def job_due_def new_job_def)
  from get_job_batch_correct [OF queue_inv, of 100 OutgoingActivity 10 3600]
  obtain jobs db' where b: "get_job_batch 100 OutgoingActivity 10 3600 queue_db = (Inr jobs, db')" "db_inv db'"
    "length jobs = 1" "\<forall>j \<in> set jobs. bj_job_status j = Running \<and> bj_updated_at j = 100"
    unfolding one by auto
  from b(3) obtain j where "jobs = [j]" by (cases jobs) auto
  with b show ?thesis by auto
qed

theorem batches_disjoint_witness:
  "\<exists>jobs db1 jobs' db2. get_job_batch 100 OutgoingActivity 10 3600 queue_db = (Inr jobs, db1) \<and>
     get_job_batch 600 OutgoingActivity 10 3600 db1 = (Inr jobs', db2) \<and>
     bj_id ` set jobs \<inter> bj_id ` set jobs' = {}"
proof -
  from get_job_batch_run [OF db_inv_wf [OF queue_inv]]
  obtain jobs db1 where 1: "get_job_batch 100 OutgoingActivity 10 3600 queue_db = (Inr jobs, db1)" by blast
  from get_job_batch_run [OF db_inv_wf [OF keepsD [OF inv_jobs(2) queue_inv 1]]]
  obtain jobs' db2 where 2: "get_job_batch 600 OutgoingActivity 10 3600 db1 = (Inr jobs', db2)" by blast
  have "(600 :: int) \<le> 100 + seconds 3600" by (simp add: seconds_def)
  from batches_disjoint [OF queue_inv 1 2 this] 1 2 show ?thesis by blast
qed

end
