(* ===== verification/Queues.thy ===== *)
theory Queues
  imports Jobs User_Laws
begin

text \<open>
  The activity queues on top of the job queue (\<open>src/src/activitypub/queues.rs\<close>) and the delivery
  of an activity to its recipients (\<open>src/src/activitypub/deliverer.rs\<close>).

  The handler of incoming activities and the HTTP request of a delivery reach the network; they
  are arguments, and the theorems hold for all of them. The clock readings of a run are one
  argument \<open>now\<close>, the identifiers of new jobs come from a list. Signing does not change what is
  delivered to whom: whether signing succeeds is an argument too.
\<close>

section \<open>Recipients\<close>

record recipient =
  rc_id :: string
  rc_inbox :: string
  rc_is_delivered :: bool

text \<open>\<open>OutgoingActivity::new\<close>: a \<open>BTreeMap\<close> by actor identifier; the first actor of each wins.\<close>

fun insert_recipient :: "db_actor \<Rightarrow> recipient list \<Rightarrow> recipient list" where
  "insert_recipient a [] = [\<lparr>rc_id = da_id a, rc_inbox = da_inbox a, rc_is_delivered = False\<rparr>]"
| "insert_recipient a (r # rs) =
     (if da_id a = rc_id r then r # rs
      else if da_id a < rc_id r
      then \<lparr>rc_id = da_id a, rc_inbox = da_inbox a, rc_is_delivered = False\<rparr> # r # rs
      else r # insert_recipient a rs)"

definition recipients_new :: "db_actor list \<Rightarrow> recipient list" where
  "recipients_new actors = foldl (\<lambda>rs a. insert_recipient a rs) [] actors"

text \<open>\<open>deliver_activity_worker\<close>: \<open>send\<close> says whether the request to an inbox succeeds.\<close>

definition deliver_one :: "(string \<Rightarrow> bool) \<Rightarrow> recipient \<Rightarrow> recipient" where
  "deliver_one send r =
     (if rc_is_delivered r then r
      else if send (rc_inbox r) then r\<lparr>rc_is_delivered := True\<rparr> else r)"

definition deliver :: "bool \<Rightarrow> (string \<Rightarrow> bool) \<Rightarrow> recipient list \<Rightarrow> recipient list option" where
  "deliver sign_ok send recipients = (if sign_ok then Some (map (deliver_one send) recipients) else None)"

text \<open>The inboxes a run sends a request to, in order.\<close>

definition requests :: "recipient list \<Rightarrow> string list" where
  "requests recipients = map rc_inbox (filter (\<lambda>r. \<not> rc_is_delivered r) recipients)"

section \<open>Job data\<close>

record incoming_job =
  in_activity :: json
  in_is_authenticated :: bool
  in_failure_count :: nat

record outgoing_job =
  ou_activity :: json
  ou_sender_id :: uuid
  ou_recipients :: "recipient list"
  ou_failure_count :: nat

definition incoming_job_new :: "json \<Rightarrow> bool \<Rightarrow> incoming_job" where
  "incoming_job_new activity is_authenticated =
     \<lparr>in_activity = activity, in_is_authenticated = is_authenticated, in_failure_count = 0\<rparr>"

text \<open>
  The derived serializers: objects with the field names of the structs. A missing \<open>is_delivered\<close>
  reads as false, unknown fields are ignored, \<open>u32\<close> is checked. The \<open>uuid\<close> crate prints and
  parses identifiers: arguments of the functions.
\<close>

fun json_field :: "string \<Rightarrow> json \<Rightarrow> json option" where
  "json_field name (JObject fs) = map_of fs name"
| "json_field name _ = None"

fun json_string :: "json \<Rightarrow> string option" where
  "json_string (JString s) = Some s"
| "json_string _ = None"

fun json_bool :: "json \<Rightarrow> bool option" where
  "json_bool (JBool b) = Some b"
| "json_bool _ = None"

fun json_u32 :: "json \<Rightarrow> nat option" where
  "json_u32 (JNumber n) = (if 0 \<le> n \<and> n < 2 ^ 32 then Some (nat n) else None)"
| "json_u32 _ = None"

fun json_array :: "json \<Rightarrow> json list option" where
  "json_array (JArray xs) = Some xs"
| "json_array _ = None"

fun traverse :: "('a \<Rightarrow> 'b option) \<Rightarrow> 'a list \<Rightarrow> 'b list option" where
  "traverse f [] = Some []"
| "traverse f (x # xs) =
     Option.bind (f x) (\<lambda>y. Option.bind (traverse f xs) (\<lambda>ys. Some (y # ys)))"

definition recipient_to_json :: "recipient \<Rightarrow> json" where
  "recipient_to_json r = JObject
     [(''id'', JString (rc_id r)), (''inbox'', JString (rc_inbox r)),
      (''is_delivered'', JBool (rc_is_delivered r))]"

definition recipient_from_json :: "json \<Rightarrow> recipient option" where
  "recipient_from_json v =
     Option.bind (Option.bind (json_field ''id'' v) json_string) (\<lambda>i.
     Option.bind (Option.bind (json_field ''inbox'' v) json_string) (\<lambda>inbox.
     Option.bind (case json_field ''is_delivered'' v of None \<Rightarrow> Some False | Some b \<Rightarrow> json_bool b) (\<lambda>d.
     Some \<lparr>rc_id = i, rc_inbox = inbox, rc_is_delivered = d\<rparr>)))"

definition incoming_to_json :: "incoming_job \<Rightarrow> json" where
  "incoming_to_json d = JObject
     [(''activity'', in_activity d), (''is_authenticated'', JBool (in_is_authenticated d)),
      (''failure_count'', JNumber (int (in_failure_count d)))]"

definition incoming_from_json :: "json \<Rightarrow> incoming_job option" where
  "incoming_from_json v =
     Option.bind (json_field ''activity'' v) (\<lambda>a.
     Option.bind (Option.bind (json_field ''is_authenticated'' v) json_bool) (\<lambda>b.
     Option.bind (Option.bind (json_field ''failure_count'' v) json_u32) (\<lambda>n.
     Some \<lparr>in_activity = a, in_is_authenticated = b, in_failure_count = n\<rparr>)))"

definition outgoing_to_json :: "(uuid \<Rightarrow> string) \<Rightarrow> outgoing_job \<Rightarrow> json" where
  "outgoing_to_json print_uuid d = JObject
     [(''activity'', ou_activity d), (''sender_id'', JString (print_uuid (ou_sender_id d))),
      (''recipients'', JArray (map recipient_to_json (ou_recipients d))),
      (''failure_count'', JNumber (int (ou_failure_count d)))]"

definition outgoing_from_json :: "(string \<Rightarrow> uuid option) \<Rightarrow> json \<Rightarrow> outgoing_job option" where
  "outgoing_from_json parse_uuid v =
     Option.bind (json_field ''activity'' v) (\<lambda>a.
     Option.bind (Option.bind (Option.bind (json_field ''sender_id'' v) json_string) parse_uuid) (\<lambda>i.
     Option.bind (Option.bind (Option.bind (json_field ''recipients'' v) json_array)
       (traverse recipient_from_json)) (\<lambda>rs.
     Option.bind (Option.bind (json_field ''failure_count'' v) json_u32) (\<lambda>n.
     Some \<lparr>ou_activity = a, ou_sender_id = i, ou_recipients = rs, ou_failure_count = n\<rparr>))))"

section \<open>Retries\<close>

definition JOB_TIMEOUT :: nat where "JOB_TIMEOUT = 3600"
definition INCOMING_QUEUE_BATCH_SIZE :: nat where "INCOMING_QUEUE_BATCH_SIZE = 10"
definition INCOMING_QUEUE_RETRIES_MAX :: nat where "INCOMING_QUEUE_RETRIES_MAX = 2"
definition OUTGOING_QUEUE_BATCH_SIZE :: nat where "OUTGOING_QUEUE_BATCH_SIZE = 1"
definition OUTGOING_QUEUE_RETRIES_MAX :: nat where "OUTGOING_QUEUE_RETRIES_MAX = 3"

definition incoming_queue_backoff :: "nat \<Rightarrow> nat" where
  "incoming_queue_backoff failure_count = 60 * 10"

text \<open>Arithmetic on \<open>u32\<close>: \<open>None\<close> where the multiplication or the power overflows.\<close>

definition outgoing_queue_backoff :: "nat \<Rightarrow> nat option" where
  "outgoing_queue_backoff failure_count =
     (let delay = 30 * 10 ^ failure_count in if delay < 2 ^ 32 then Some delay else None)"

text \<open>What became of a handler call.\<close>

datatype handler_outcome = Handled | Handler_Timeout | Recursion_Error | Handler_Error

definition incoming_into_job :: "uuid \<Rightarrow> datetime \<Rightarrow> incoming_job \<Rightarrow> nat \<Rightarrow> unit dbm" where
  "incoming_into_job job_id now d delay =
     enqueue_job job_id now IncomingActivity (incoming_to_json d) (now + seconds delay)"

definition outgoing_into_job :: "(uuid \<Rightarrow> string) \<Rightarrow> uuid \<Rightarrow> datetime \<Rightarrow> outgoing_job \<Rightarrow> nat \<Rightarrow> unit dbm" where
  "outgoing_into_job print_uuid job_id now d delay =
     enqueue_job job_id now OutgoingActivity (outgoing_to_json print_uuid d) (now + seconds delay)"

text \<open>
  One pass of the loop over the batch. The handler may change the database in any way; it returns
  the outcome.
\<close>

type_synonym handler = "json \<Rightarrow> bool \<Rightarrow> database \<Rightarrow> handler_outcome \<times> database"

definition process_incoming_job :: "handler \<Rightarrow> datetime \<Rightarrow> uuid \<Rightarrow> db_background_job \<Rightarrow> unit dbm" where
  "process_incoming_job handle now new_id job =
     (case incoming_from_json (bj_job_data job) of
        None \<Rightarrow> throw DatabaseTypeError
      | Some d \<Rightarrow>
          bind (\<lambda>db. case handle (in_activity d) (in_is_authenticated d) db of (out, db') \<Rightarrow> (Inr out, db'))
          (\<lambda>out.
          andthen
            (case out of
               Handler_Timeout \<Rightarrow> ret ()
             | Handled \<Rightarrow> ret ()
             | _ \<Rightarrow>
                 let d' = d\<lparr>in_failure_count := in_failure_count d + 1\<rparr>
                 in when_do (in_failure_count d' \<le> INCOMING_QUEUE_RETRIES_MAX \<and> out \<noteq> Recursion_Error)
                      (incoming_into_job new_id now d' (incoming_queue_backoff (in_failure_count d'))))
            (delete_job_from_queue (bj_id job))))"

primrec process_incoming_batch ::
    "handler \<Rightarrow> datetime \<Rightarrow> uuid list \<Rightarrow> db_background_job list \<Rightarrow> unit dbm" where
  "process_incoming_batch handle now new_ids [] = ret ()"
| "process_incoming_batch handle now new_ids (job # jobs) =
     andthen (process_incoming_job handle now (hd new_ids) job)
       (process_incoming_batch handle now (tl new_ids) jobs)"

definition process_queued_incoming_activities :: "handler \<Rightarrow> datetime \<Rightarrow> uuid list \<Rightarrow> unit dbm" where
  "process_queued_incoming_activities handle now new_ids =
     bind (get_job_batch now IncomingActivity INCOMING_QUEUE_BATCH_SIZE JOB_TIMEOUT)
       (process_incoming_batch handle now new_ids)"

text \<open>
  The outgoing queue. When \<open>deliver\<close> fails the job is dropped and the run ends (\<open>return Ok(())\<close>):
  the result says whether the loop goes on. The delay of a retry cannot overflow (lemma \<open>backoff_fits\<close>).
\<close>

definition finish_delivery :: "datetime \<Rightarrow> recipient list \<Rightarrow> unit dbm" where
  "finish_delivery now recipients =
     for_each recipients (\<lambda>r. set_reachability_status now (rc_id r) (rc_is_delivered r))"

definition process_outgoing_job ::
    "(uuid \<Rightarrow> string) \<Rightarrow> (string \<Rightarrow> uuid option) \<Rightarrow> (user \<Rightarrow> json \<Rightarrow> bool) \<Rightarrow> (string \<Rightarrow> bool) \<Rightarrow>
     datetime \<Rightarrow> uuid \<Rightarrow> db_background_job \<Rightarrow> bool dbm" where
  "process_outgoing_job print_uuid parse_uuid sign send now new_id job =
     (case outgoing_from_json parse_uuid (bj_job_data job) of
        None \<Rightarrow> throw DatabaseTypeError
      | Some d \<Rightarrow>
          bind (get_user_by_id (ou_sender_id d)) (\<lambda>sender.
          case deliver (sign sender (ou_activity d)) send (ou_recipients d) of
            None \<Rightarrow> andthen (delete_job_from_queue (bj_id job)) (ret False)
          | Some recipients \<Rightarrow>
              andthen
                (if list_ex (\<lambda>r. \<not> rc_is_delivered r) recipients \<and>
                    ou_failure_count d < OUTGOING_QUEUE_RETRIES_MAX
                 then
                   let d' = d\<lparr>ou_failure_count := ou_failure_count d + 1, ou_recipients := recipients\<rparr>
                   in outgoing_into_job print_uuid new_id now d'
                        (the (outgoing_queue_backoff (ou_failure_count d')))
                 else finish_delivery now recipients)
                (andthen (delete_job_from_queue (bj_id job)) (ret True))))"

primrec process_outgoing_batch ::
    "(uuid \<Rightarrow> string) \<Rightarrow> (string \<Rightarrow> uuid option) \<Rightarrow> (user \<Rightarrow> json \<Rightarrow> bool) \<Rightarrow> (string \<Rightarrow> bool) \<Rightarrow>
     datetime \<Rightarrow> uuid list \<Rightarrow> db_background_job list \<Rightarrow> unit dbm" where
  "process_outgoing_batch pr ps sign send now new_ids [] = ret ()"
| "process_outgoing_batch pr ps sign send now new_ids (job # jobs) =
     bind (process_outgoing_job pr ps sign send now (hd new_ids) job) (\<lambda>continue.
     if continue then process_outgoing_batch pr ps sign send now (tl new_ids) jobs else ret ())"

definition process_queued_outgoing_activities ::
    "(uuid \<Rightarrow> string) \<Rightarrow> (string \<Rightarrow> uuid option) \<Rightarrow> (user \<Rightarrow> json \<Rightarrow> bool) \<Rightarrow> (string \<Rightarrow> bool) \<Rightarrow>
     datetime \<Rightarrow> uuid list \<Rightarrow> unit dbm" where
  "process_queued_outgoing_activities pr ps sign send now new_ids =
     bind (get_job_batch now OutgoingActivity OUTGOING_QUEUE_BATCH_SIZE JOB_TIMEOUT)
       (process_outgoing_batch pr ps sign send now new_ids)"

definition enqueue_activity ::
    "(uuid \<Rightarrow> string) \<Rightarrow> uuid \<Rightarrow> datetime \<Rightarrow> json \<Rightarrow> uuid \<Rightarrow> recipient list \<Rightarrow> unit dbm" where
  "enqueue_activity print_uuid job_id now activity sender_id recipients =
     (if recipients = [] then ret ()
      else outgoing_into_job print_uuid job_id now
        \<lparr>ou_activity = activity, ou_sender_id = sender_id, ou_recipients = recipients, ou_failure_count = 0\<rparr> 0)"

end
