(* ===== verification/Queue_Laws.thy ===== *)
theory Queue_Laws
  imports Queues
begin

text \<open>
  The laws of the activity queues: recipients are unique, a delivered recipient is never contacted
  again, job data survives the database, an outgoing activity is attempted at most four times and
  an incoming one at most three times, with the delays of the code.
\<close>

section \<open>Recipients\<close>

lemma insert_recipient_ids:
  "rc_id ` set (insert_recipient a rs) = insert (da_id a) (rc_id ` set rs)"
  by (induction rs) auto

lemma insert_recipient_sorted:
  "sorted_wrt (<) (map rc_id rs) \<Longrightarrow> sorted_wrt (<) (map rc_id (insert_recipient a rs))"
proof (induction rs)
  case (Cons r rs)
  have tail: "\<forall>x \<in> rc_id ` set (insert_recipient a rs). rc_id r < x" if "\<not> da_id a < rc_id r" "da_id a \<noteq> rc_id r"
    using Cons.prems that by (auto simp: insert_recipient_ids)
  have first: "\<forall>x \<in> set rs. da_id a < rc_id x" if "da_id a < rc_id r"
    using Cons.prems that by (auto intro: less_trans)
  from Cons tail first show ?case by auto
qed simp

definition fresh_recipient :: "db_actor \<Rightarrow> recipient" where
  "fresh_recipient a = \<lparr>rc_id = da_id a, rc_inbox = da_inbox a, rc_is_delivered = False\<rparr>"

definition recipient_for :: "recipient list \<Rightarrow> string \<Rightarrow> recipient option" where
  "recipient_for rs i = find (\<lambda>r. rc_id r = i) rs"

text \<open>The map view of the sorted list: an insertion keeps the entry that is there.\<close>

lemma recipient_for_insert:
  assumes "sorted_wrt (<) (map rc_id rs)"
  shows "recipient_for (insert_recipient a rs) i =
    (case recipient_for rs i of Some r \<Rightarrow> Some r
     | None \<Rightarrow> if i = da_id a then Some (fresh_recipient a) else None)"
  using assms
proof (induction rs)
  case (Cons x rs)
  have none: "find (\<lambda>r. rc_id r = da_id a) rs = None" if "da_id a < rc_id x"
    using that Cons.prems by (auto simp: find_None_all)
  from Cons none show ?case
    by (auto simp: recipient_for_def fresh_recipient_def split: option.split)
qed (simp add: recipient_for_def fresh_recipient_def)

lemma recipients_fold:
  "sorted_wrt (<) (map rc_id rs) \<Longrightarrow>
   sorted_wrt (<) (map rc_id (foldl (\<lambda>rs a. insert_recipient a rs) rs actors)) \<and>
   recipient_for (foldl (\<lambda>rs a. insert_recipient a rs) rs actors) i =
      (case recipient_for rs i of Some r \<Rightarrow> Some r
       | None \<Rightarrow> map_option fresh_recipient (find (\<lambda>a. da_id a = i) actors))"
proof (induction actors arbitrary: rs)
  case (Cons a actors)
  from Cons.IH [OF insert_recipient_sorted [OF Cons.prems]] recipient_for_insert [OF Cons.prems, of a i]
  show ?case by (cases "recipient_for rs i"; cases "i = da_id a") auto
qed (simp split: option.split)

text \<open>
  \<open>OutgoingActivity::new\<close> addresses every actor of the list once: the recipients are in
  ascending order of their identifiers, without repetition, and the recipient with an identifier
  is the first actor of the list that has it, not delivered yet.
\<close>

theorem recipients_new_correct:
  "sorted_wrt (<) (map rc_id (recipients_new actors)) \<and>
   find (\<lambda>r. rc_id r = i) (recipients_new actors) =
     map_option (\<lambda>a. \<lparr>rc_id = da_id a, rc_inbox = da_inbox a, rc_is_delivered = False\<rparr>)
       (find (\<lambda>a. da_id a = i) actors)"
  using recipients_fold [of "[]" actors i] unfolding recipients_new_def
  by (simp add: recipient_for_def fresh_recipient_def [abs_def])

section \<open>Job data\<close>

lemma recipient_json [simp]: "recipient_from_json (recipient_to_json r) = Some r"
  by (simp add: recipient_from_json_def recipient_to_json_def)

lemma traverse_recipients [simp]: "traverse recipient_from_json (map recipient_to_json rs) = Some rs"
  by (induction rs) simp_all

text \<open>
  Job data read back from the queue is the data that was written, for failure counts that fit
  \<open>u32\<close> and identifiers that the \<open>uuid\<close> crate reads back.
\<close>

theorem job_data_roundtrip:
  assumes "in_failure_count d < 2 ^ 32" and "ou_failure_count e < 2 ^ 32"
    and "\<forall>i. parse_uuid (print_uuid i) = Some i"
  shows "(incoming_from_json (incoming_to_json d) = Some d) \<and>
    (outgoing_from_json parse_uuid (outgoing_to_json print_uuid e) = Some e)"
  using assms
  by (simp add: incoming_from_json_def incoming_to_json_def outgoing_from_json_def outgoing_to_json_def)

definition sample_incoming :: incoming_job where
  "sample_incoming = \<lparr>in_activity = JNull, in_is_authenticated = True, in_failure_count = 2\<rparr>"

definition sample_outgoing :: outgoing_job where
  "sample_outgoing = \<lparr>ou_activity = JNull, ou_sender_id = 1,
     ou_recipients = [\<lparr>rc_id = ''a'', rc_inbox = ''i'', rc_is_delivered = False\<rparr>], ou_failure_count = 0\<rparr>"

text \<open>A printer of identifiers that can be read back: as many letters as the number says.\<close>

definition unary :: "uuid \<Rightarrow> string" where
  "unary i = replicate (unat i) CHR ''u''"

definition parse_unary :: "string \<Rightarrow> uuid option" where
  "parse_unary s = Some (of_nat (length s))"

lemma unary_roundtrip: "\<forall>i. parse_unary (unary i) = Some i"
  by (simp add: unary_def parse_unary_def)

theorem job_data_roundtrip_witness:
  "incoming_from_json (incoming_to_json sample_incoming) = Some sample_incoming \<and>
   outgoing_from_json parse_unary (outgoing_to_json unary sample_outgoing) = Some sample_outgoing"
  using job_data_roundtrip [OF _ _ unary_roundtrip, of sample_incoming sample_outgoing]
  by (simp add: sample_incoming_def sample_outgoing_def)

section \<open>Delivery\<close>

lemma deliver_one_keys [simp]:
  "rc_id (deliver_one send r) = rc_id r" "rc_inbox (deliver_one send r) = rc_inbox r"
  "rc_is_delivered (deliver_one send r) \<longleftrightarrow> rc_is_delivered r \<or> send (rc_inbox r)"
  by (simp_all add: deliver_one_def)

text \<open>The delays of the outgoing queue in seconds; none overflows.\<close>

lemma backoff_fits:
  "outgoing_queue_backoff 1 = Some 300" "outgoing_queue_backoff 2 = Some 3000"
  "outgoing_queue_backoff 3 = Some 30000"
  by (simp_all add: outgoing_queue_backoff_def Let_def)

lemma backoff_Some: "n \<le> OUTGOING_QUEUE_RETRIES_MAX \<Longrightarrow> outgoing_queue_backoff n = Some (30 * 10 ^ n)"
  by (cases "n = 0 \<or> n = 1 \<or> n = 2 \<or> n = 3")
    (auto simp: outgoing_queue_backoff_def Let_def OUTGOING_QUEUE_RETRIES_MAX_def)

text \<open>What a failed or partial attempt leaves to do: the abstract retry.\<close>

definition retry :: "(string \<Rightarrow> bool) \<Rightarrow> outgoing_job \<Rightarrow> outgoing_job option" where
  "retry send d =
     (if (\<exists>r \<in> set (ou_recipients d). \<not> rc_is_delivered r \<and> \<not> send (rc_inbox r)) \<and> ou_failure_count d < 3
      then Some (d\<lparr>ou_failure_count := ou_failure_count d + 1,
        ou_recipients := map (deliver_one send) (ou_recipients d)\<rparr>)
      else None)"

text \<open>The attempts of one activity, one network per attempt.\<close>

fun attempts :: "(string \<Rightarrow> bool) list \<Rightarrow> outgoing_job \<Rightarrow> outgoing_job list" where
  "attempts [] d = []"
| "attempts (send # sends) d =
     d # (case retry send d of None \<Rightarrow> [] | Some d' \<Rightarrow> attempts sends d')"

lemma attempts_counts:
  "e \<in> set (attempts sends d) \<Longrightarrow> ou_failure_count d \<le> ou_failure_count e \<and>
     ou_failure_count e \<le> max 3 (ou_failure_count d)"
  by (induction sends d rule: attempts.induct) (fastforce simp: retry_def split: if_splits)+

lemma attempts_length: "length (attempts sends d) \<le> max 1 (4 - ou_failure_count d)"
proof (induction sends d rule: attempts.induct)
  case (2 send sends d)
  show ?case
  proof (cases "retry send d")
    case (Some d')
    then have "ou_failure_count d' = ou_failure_count d + 1" "ou_failure_count d < 3"
      by (auto simp: retry_def split: if_splits)
    with 2 [OF Some] Some show ?thesis by (auto simp: max_def split: if_splits)
  qed simp
qed simp

lemma attempts_requests:
  assumes "e \<in> set (attempts sends d)" and "r \<in> set (ou_recipients e)"
  shows "\<exists>q \<in> set (ou_recipients d). rc_id r = rc_id q \<and> rc_inbox r = rc_inbox q \<and>
    (rc_is_delivered q \<longrightarrow> rc_is_delivered r)"
  using assms
proof (induction sends d arbitrary: r rule: attempts.induct)
  case (2 send sends d)
  show ?case
  proof (cases "e = d")
    case False
    with 2(2) obtain d' where d': "retry send d = Some d'" "e \<in> set (attempts sends d')"
      by (cases "retry send d") auto
    from 2(1) [OF d' 2(3)] obtain q where q: "q \<in> set (ou_recipients d')" "rc_id r = rc_id q" "rc_inbox r = rc_inbox q"
      "rc_is_delivered q \<longrightarrow> rc_is_delivered r" by blast
    from q(1) d'(1) obtain p where "p \<in> set (ou_recipients d)" "q = deliver_one send p"
      by (auto simp: retry_def split: if_splits)
    with q show ?thesis by auto
  qed (use 2 in auto)
qed simp



section \<open>The outgoing queue in the database\<close>

definition mark :: "datetime \<Rightarrow> recipient \<Rightarrow> db_actor_profile \<Rightarrow> db_actor_profile" where
  "mark now r ap =
     (if ap_actor_id ap = Some (rc_id r)
      then (if rc_is_delivered r then ap\<lparr>ap_unreachable_since := None\<rparr>
            else if ap_unreachable_since ap = None then ap\<lparr>ap_unreachable_since := Some now\<rparr> else ap)
      else ap)"

lemma mark_keys [simp]:
  "ap_id (mark now r ap) = ap_id ap" "ap_username (mark now r ap) = ap_username ap"
  "ap_hostname (mark now r ap) = ap_hostname ap" "ap_actor_json (mark now r ap) = ap_actor_json ap"
  "ap_actor_id (mark now r ap) = ap_actor_id ap"
  "profile_check (mark now r ap) = profile_check ap"
  "profile_counts_in_range (mark now r ap) = profile_counts_in_range ap"
  by (simp_all add: mark_def profile_check_def profile_counts_in_range_def ap_actor_id_def)

lemma set_reachability_run:
  assumes wf: "wf_db db"
  shows "set_reachability_status now (rc_id r) (rc_is_delivered r) db =
      (Inr (), db\<lparr>t_actor_profile := map (mark now r) (t_actor_profile db)\<rparr>)"
    and "wf_db (db\<lparr>t_actor_profile := map (mark now r) (t_actor_profile db)\<rparr>)"
proof -
  have "wf_db (db\<lparr>t_actor_profile := update_where (\<lambda>_. True) (mark now r) (t_actor_profile db)\<rparr>)"
    using wf_profile_row [OF wf] by (intro wf_update_profiles [OF wf]) simp_all
  then show wf': "wf_db (db\<lparr>t_actor_profile := map (mark now r) (t_actor_profile db)\<rparr>)"
    by (simp add: update_where_def)
  have down: "update_where (\<lambda>ap. ap_actor_id ap = Some (rc_id r) \<and> ap_unreachable_since ap = None)
      (\<lambda>ap. ap\<lparr>ap_unreachable_since := Some now\<rparr>) aps = map (mark now r) aps" if "\<not> rc_is_delivered r" for aps
    using that by (auto simp: update_where_def mark_def)
  have up: "update_where (\<lambda>ap. ap_actor_id ap = Some (rc_id r)) (\<lambda>ap. ap\<lparr>ap_unreachable_since := None\<rparr>) aps =
      map (mark now r) aps" if "rc_is_delivered r" for aps
    using that by (auto simp: update_where_def mark_def)
  show "set_reachability_status now (rc_id r) (rc_is_delivered r) db =
      (Inr (), db\<lparr>t_actor_profile := map (mark now r) (t_actor_profile db)\<rparr>)"
    using wf' by (cases "rc_is_delivered r") (simp_all add: set_reachability_status_def execute_run down up)
qed

lemma finish_delivery_run:
  "wf_db db \<Longrightarrow>
   finish_delivery now rs db = (Inr (), db\<lparr>t_actor_profile := map (fold (mark now) rs) (t_actor_profile db)\<rparr>) \<and>
   wf_db (db\<lparr>t_actor_profile := map (fold (mark now) rs) (t_actor_profile db)\<rparr>)"
proof (induction rs arbitrary: db)
  case Nil
  then show ?case by (simp add: finish_delivery_def ret_run)
next
  case (Cons r rs)
  note step = set_reachability_run [OF Cons.prems, of now r]
  from Cons.IH [OF step(2)] step(1) show ?case
    by (simp add: finish_delivery_def bind_def o_def)
qed

lemma fold_mark_actor [simp]: "ap_actor_id (fold (mark now) rs ap) = ap_actor_id ap"
  by (induction rs arbitrary: ap) simp_all

lemma fold_mark_other: "Some i = ap_actor_id ap \<Longrightarrow> i \<notin> rc_id ` set rs \<Longrightarrow> fold (mark now) rs ap = ap"
  by (induction rs arbitrary: ap) (auto simp: mark_def)

lemma fold_mark_reached:
  assumes "distinct (map rc_id rs)" and "r \<in> set rs" and "ap_actor_id ap = Some (rc_id r)"
  shows "ap_unreachable_since (fold (mark now) rs ap) =
    (if rc_is_delivered r then None
     else case ap_unreachable_since ap of None \<Rightarrow> Some now | Some t \<Rightarrow> Some t)"
  using assms
proof (induction rs arbitrary: ap)
  case (Cons q rs)
  show ?case
  proof (cases "r = q")
    case True
    with Cons.prems have "fold (mark now) rs (mark now q ap) = mark now q ap"
      by (intro fold_mark_other [of "rc_id q"]) simp_all
    moreover have "ap_unreachable_since (mark now q ap) =
        (if rc_is_delivered q then None else case ap_unreachable_since ap of None \<Rightarrow> Some now | Some t \<Rightarrow> Some t)"
      using True Cons.prems(3) by (auto simp: mark_def split: option.split)
    ultimately show ?thesis using True by simp
  next
    case False
    with Cons.prems have "rc_id q \<noteq> rc_id r" by auto
    with Cons.prems(3) have "mark now q ap = ap" by (simp add: mark_def)
    with False Cons show ?thesis by simp
  qed
qed simp

lemma inv_finish_delivery: "keeps db_inv (finish_delivery now rs)"
  unfolding finish_delivery_def by (intro keeps_for_each inv_set_reachability_status)

lemma inv_process_outgoing_job: "keeps db_inv (process_outgoing_job pr ps sign send now i job)"
proof -
  have get: "keeps db_inv (get_user_by_id u)" for u
    by (simp add: get_user_by_id_def find_user_def keeps_bind keeps_query_opt keeps_ok_or keeps_ret)
  show ?thesis
    unfolding process_outgoing_job_def outgoing_into_job_def Let_def
    by (intro keeps_case_option keeps_throw keeps_bind get keeps_if inv_jobs inv_finish_delivery keeps_ret)
qed

lemma get_user_by_id_found:
  assumes wf: "wf_db db" and i: "i \<in> user_ids db"
  obtains u where "get_user_by_id i db = (Inr u, db)"
proof -
  from i obtain ua where ua: "ua \<in> set (t_user_account db)" "i = ua_id ua" by auto
  from account_profile [OF wf ua(1)] obtain ap where "(ua, ap) \<in> set (account_rows db)"
    using ua(1) by (auto simp: set_account_rows)
  from get_user_by_id_row [OF wf this] that show thesis by (simp add: ua(2))
qed

lemma undelivered_iff:
  "list_ex (\<lambda>r. \<not> rc_is_delivered r) (map (deliver_one send) rs) \<longleftrightarrow>
     (\<exists>r \<in> set rs. \<not> rc_is_delivered r \<and> \<not> send (rc_inbox r))"
  by (auto simp: list_ex_iff)

text \<open>
  C18: one delivery job, against the abstract retry: when the retry is due, the job is replaced by
  one with the updated recipients and the next failure count, scheduled after 5 minutes, 50
  minutes or 8.3 hours, and no profile changes; when everything is delivered or the limit is
  reached, the job is gone and exactly the recipients that were not reached are marked unreachable.
\<close>

theorem process_outgoing_refines:
  assumes inv: "db_inv db" and job: "job \<in> set (t_background_job db)"
    and data: "bj_job_data job = outgoing_to_json pr d" and uuids: "\<forall>i. ps (pr i) = Some i"
    and count: "ou_failure_count d \<le> 3" and sender: "ou_sender_id d \<in> user_ids db"
    and sign: "\<forall>u. sign u (ou_activity d)" and fresh: "new_id \<notin> bj_id ` set (t_background_job db)"
  shows "\<exists>db'. process_outgoing_job pr ps sign send now new_id job db = (Inr True, db') \<and> db_inv db' \<and>
    (case retry send d of
       Some d' \<Rightarrow>
         t_background_job db' = delete_where (\<lambda>j. bj_id j = bj_id job) (t_background_job db) @
           [new_job new_id now OutgoingActivity (outgoing_to_json pr d') (now + seconds (30 * 10 ^ ou_failure_count d'))] \<and>
         t_actor_profile db' = t_actor_profile db
     | None \<Rightarrow>
         t_background_job db' = delete_where (\<lambda>j. bj_id j = bj_id job) (t_background_job db) \<and>
         (distinct (map rc_id (ou_recipients d)) \<longrightarrow>
          (\<forall>r \<in> set (ou_recipients d). \<forall>ap \<in> set (t_actor_profile db'). ap_actor_id ap = Some (rc_id r) \<longrightarrow>
             (ap_unreachable_since ap = None \<longleftrightarrow> rc_is_delivered r \<or> send (rc_inbox r)))))"
proof -
  note wf = db_inv_wf [OF inv]
  let ?rs = "map (deliver_one send) (ou_recipients d)"
  have dec: "outgoing_from_json ps (bj_job_data job) = Some d"
    using count uuids by (simp add: data outgoing_from_json_def outgoing_to_json_def)
  from get_user_by_id_found [OF wf sender] obtain u where user: "get_user_by_id (ou_sender_id d) db = (Inr u, db)" by blast
  show ?thesis
  proof (cases "retry send d")
    case (Some d')
    then have c: "list_ex (\<lambda>r. \<not> rc_is_delivered r) ?rs \<and> ou_failure_count d < OUTGOING_QUEUE_RETRIES_MAX"
      and d': "d' = d\<lparr>ou_failure_count := ou_failure_count d + 1, ou_recipients := ?rs\<rparr>"
      unfolding undelivered_iff by (auto simp: retry_def OUTGOING_QUEUE_RETRIES_MAX_def split: if_splits)
    have delay: "outgoing_queue_backoff (ou_failure_count d') = Some (30 * 10 ^ ou_failure_count d')"
      using c by (intro backoff_Some) (simp add: d')
    let ?new = "new_job new_id now OutgoingActivity (outgoing_to_json pr d') (now + seconds (30 * 10 ^ ou_failure_count d'))"
    let ?db1 = "db\<lparr>t_background_job := t_background_job db @ [?new]\<rparr>"
    have enq: "outgoing_into_job pr new_id now d' (30 * 10 ^ ou_failure_count d') db = (Inr (), ?db1)"
      unfolding outgoing_into_job_def by (rule enqueue_job_run [OF wf fresh])
    have wf1: "wf_db ?db1"
      using fresh by (intro wf_jobs [OF wf]) (simp add: wf_job_keys [OF wf] new_job_def)
    have "bj_id job \<noteq> new_id" using fresh job by auto
    then have del: "delete_job_from_queue (bj_id job) ?db1 = (Inr (), db\<lparr>t_background_job :=
        delete_where (\<lambda>j. bj_id j = bj_id job) (t_background_job db) @ [?new]\<rparr>)"
      using delete_job_run [OF wf1, of "bj_id job"] job by (simp add: delete_where_def new_job_def)
    have run: "process_outgoing_job pr ps sign send now new_id job db = (Inr True, db\<lparr>t_background_job :=
        delete_where (\<lambda>j. bj_id j = bj_id job) (t_background_job db) @ [?new]\<rparr>)"
      using c delay enq del sign
      by (simp add: process_outgoing_job_def dec bind_def user deliver_def Let_def d' ret_run)
    show ?thesis
      unfolding Some option.case
      by (rule exI, rule conjI, rule run, rule conjI, rule keepsD [OF inv_process_outgoing_job inv run]) simp
  next
    case None
    then have c: "\<not> (list_ex (\<lambda>r. \<not> rc_is_delivered r) ?rs \<and> ou_failure_count d < OUTGOING_QUEUE_RETRIES_MAX)"
      unfolding undelivered_iff by (auto simp: retry_def OUTGOING_QUEUE_RETRIES_MAX_def split: if_splits)
    let ?db1 = "db\<lparr>t_actor_profile := map (fold (mark now) ?rs) (t_actor_profile db)\<rparr>"
    from finish_delivery_run [OF wf, of now ?rs] have fin: "finish_delivery now ?rs db = (Inr (), ?db1)" and wf1: "wf_db ?db1"
      by simp_all
    let ?db2 = "?db1\<lparr>t_background_job := delete_where (\<lambda>j. bj_id j = bj_id job) (t_background_job ?db1)\<rparr>"
    have del: "delete_job_from_queue (bj_id job) ?db1 = (Inr (), ?db2)"
      using job by (intro delete_job_run [OF wf1]) simp
    have run: "process_outgoing_job pr ps sign send now new_id job db = (Inr True, ?db2)"
      unfolding process_outgoing_job_def dec option.case
      by (rule bind_step, rule user) (use sign in \<open>simp only: deliver_def if_True option.case if_not_P [OF c] bind_def fin del ret_run
        prod.case sum.case\<close>)
    have inv2: "db_inv ?db2" using keepsD [OF inv_process_outgoing_job inv run] .
    have "ap_unreachable_since ap = None \<longleftrightarrow> rc_is_delivered r \<or> send (rc_inbox r)"
      if "distinct (map rc_id (ou_recipients d))" "r \<in> set (ou_recipients d)" "ap \<in> set (t_actor_profile ?db2)"
        "ap_actor_id ap = Some (rc_id r)" for r ap
    proof -
      from that(3) obtain ap0 where ap: "ap = fold (mark now) ?rs ap0" by auto
      have "distinct (map rc_id ?rs)" using that(1) by (simp add: o_def)
      from fold_mark_reached [OF this, of "deliver_one send r" ap0 now] that(2,4) show ?thesis
        by (auto simp: ap split: if_splits option.splits)
    qed
    then show ?thesis
      unfolding None option.case by (intro exI [of _ ?db2] conjI run inv2 impI ballI) simp_all
  qed
qed

definition delivery_db :: database where
  "delivery_db = sample_db\<lparr>t_background_job :=
     [new_job 7 0 OutgoingActivity (outgoing_to_json unary sample_outgoing) 1]\<rparr>"

lemma delivery_inv: "db_inv delivery_db"
proof -
  have "wf_db delivery_db"
    unfolding delivery_db_def by (rule wf_jobs [OF sample_wf]) (simp add: new_job_def)
  with sample_inv show ?thesis by (simp add: db_inv_def delivery_db_def)
qed

theorem process_outgoing_refines_witness:
  "\<exists>db'. process_outgoing_job unary parse_unary (\<lambda>_ _. True) (\<lambda>_. False) 100 8
      (new_job 7 0 OutgoingActivity (outgoing_to_json unary sample_outgoing) 1) delivery_db = (Inr True, db') \<and>
     map bj_id (t_background_job db') = [8] \<and> map bj_scheduled_for (t_background_job db') = [100 + seconds 300]"
proof -
  let ?job = "new_job 7 0 OutgoingActivity (outgoing_to_json unary sample_outgoing) 1"
  have pre: "?job \<in> set (t_background_job delivery_db)" "bj_job_data ?job = outgoing_to_json unary sample_outgoing"
    "ou_failure_count sample_outgoing \<le> 3" "ou_sender_id sample_outgoing \<in> user_ids delivery_db"
    "8 \<notin> bj_id ` set (t_background_job delivery_db)"
    by (simp_all add: delivery_db_def new_job_def sample_outgoing_def sample_defs)
  have r: "retry (\<lambda>_. False) sample_outgoing =
      Some (sample_outgoing\<lparr>ou_failure_count := 1, ou_recipients := map (deliver_one (\<lambda>_. False)) (ou_recipients sample_outgoing)\<rparr>)"
    by (simp add: retry_def sample_outgoing_def)
  have "\<forall>u :: user. (\<lambda>_ _. True) u (ou_activity sample_outgoing)" by simp
  from process_outgoing_refines [OF delivery_inv pre(1,2) unary_roundtrip pre(3,4) this pre(5), where now = 100 and send = "\<lambda>_. False"]
  show ?thesis unfolding r option.case by (auto simp: delivery_db_def new_job_def delete_where_def)
qed

section \<open>The incoming queue in the database\<close>

text \<open>Whether a failed activity is put back.\<close>

definition incoming_retry :: "handler_outcome \<Rightarrow> incoming_job \<Rightarrow> incoming_job option" where
  "incoming_retry out d =
     (if out = Handler_Error \<and> in_failure_count d < 2
      then Some (d\<lparr>in_failure_count := in_failure_count d + 1\<rparr>) else None)"

fun incoming_attempts :: "handler_outcome list \<Rightarrow> incoming_job \<Rightarrow> incoming_job list" where
  "incoming_attempts [] d = []"
| "incoming_attempts (out # outs) d =
     d # (case incoming_retry out d of None \<Rightarrow> [] | Some d' \<Rightarrow> incoming_attempts outs d')"

lemma incoming_attempts_length: "length (incoming_attempts outs d) \<le> max 1 (3 - in_failure_count d)"
proof (induction outs d rule: incoming_attempts.induct)
  case (2 out outs d)
  show ?case
  proof (cases "incoming_retry out d")
    case (Some d')
    then have "in_failure_count d' = in_failure_count d + 1" "in_failure_count d < 2"
      by (auto simp: incoming_retry_def split: if_splits)
    with 2 [OF Some] Some show ?thesis by (auto simp: max_def split: if_splits)
  qed simp
qed simp

lemma append_new_jobs:
  "distinct (map bj_id xs) \<Longrightarrow> distinct (map bj_id ys) \<Longrightarrow> bj_id ` set ys \<subseteq> {i} \<Longrightarrow> i \<notin> bj_id ` set xs \<Longrightarrow>
   distinct (map bj_id (xs @ ys))"
  by auto

text \<open>
  One incoming job, for every handler that leaves the job in the queue: the job is gone
  afterwards; it is put back, ten minutes later and with the next failure count, exactly when the
  handler reported an error other than fetcher recursion and it failed less than twice before; so
  an activity is handled at most three times.
\<close>

theorem process_incoming_correct:
  assumes handler: "handle (in_activity d) (in_is_authenticated d) db = (out, db1)" and inv: "db_inv db1"
    and job: "bj_id job \<in> bj_id ` set (t_background_job db1)" and data: "bj_job_data job = incoming_to_json d"
    and count: "in_failure_count d < 2 ^ 32" and fresh: "new_id \<notin> bj_id ` set (t_background_job db1)"
  shows "(\<exists>db'. process_incoming_job handle now new_id job db = (Inr (), db') \<and> db_inv db' \<and>
      db' = db1\<lparr>t_background_job := delete_where (\<lambda>j. bj_id j = bj_id job) (t_background_job db1) @
        (case incoming_retry out d of None \<Rightarrow> []
         | Some d' \<Rightarrow> [new_job new_id now IncomingActivity (incoming_to_json d') (now + seconds 600)])\<rparr>) \<and>
    (length (incoming_attempts outs (incoming_job_new activity auth)) \<le> 3)"
proof (intro conjI)
  note wf = db_inv_wf [OF inv]
  have dec: "incoming_from_json (bj_job_data job) = Some d"
    using count by (simp add: data incoming_from_json_def incoming_to_json_def)
  let ?d = "d\<lparr>in_failure_count := in_failure_count d + 1\<rparr>"
  have h: "(\<lambda>db. case handle (in_activity d) (in_is_authenticated d) db of (out, db') \<Rightarrow> (Inr out, db')) db = (Inr out, db1)"
    by (simp add: handler)
  let ?again = "case incoming_retry out d of None \<Rightarrow> []
      | Some d' \<Rightarrow> [new_job new_id now IncomingActivity (incoming_to_json d') (now + seconds 600)]"
  let ?db2 = "db1\<lparr>t_background_job := t_background_job db1 @ ?again\<rparr>"
  let ?db3 = "db1\<lparr>t_background_job := delete_where (\<lambda>j. bj_id j = bj_id job) (t_background_job db1) @ ?again\<rparr>"
  have requeue: "(case out of Handler_Timeout \<Rightarrow> ret () | Handled \<Rightarrow> ret ()
       | _ \<Rightarrow> let d' = ?d in when_do (in_failure_count d' \<le> INCOMING_QUEUE_RETRIES_MAX \<and> out \<noteq> Recursion_Error)
            (incoming_into_job new_id now d' (incoming_queue_backoff (in_failure_count d')))) db1 = (Inr (), ?db2)"
    using enqueue_job_run [OF wf fresh]
    by (cases out) (auto simp: incoming_retry_def when_do_def ret_def incoming_into_job_def incoming_queue_backoff_def
        INCOMING_QUEUE_RETRIES_MAX_def)
  have ne: "bj_id job \<noteq> new_id" using fresh job by auto
  have keys: "distinct (map bj_id ?again)" "bj_id ` set ?again \<subseteq> {new_id}"
    by (cases "incoming_retry out d"; simp add: new_job_def)+
  have wf2: "wf_db ?db2"
    using append_new_jobs [OF wf_job_keys [OF wf] keys fresh] by (rule wf_jobs [OF wf])
  have left: "delete_where (\<lambda>j. bj_id j = bj_id job) ?again = ?again"
    using ne by (simp add: delete_where_def new_job_def split: option.split)
  have del: "delete_job_from_queue (bj_id job) ?db2 = (Inr (), ?db3)"
    using delete_job_run [OF wf2, of "bj_id job"] job left by (auto simp: delete_where_def)
  have run: "process_incoming_job handle now new_id job db = (Inr (), ?db3)"
    unfolding process_incoming_job_def dec option.case
    by (rule bind_step, rule h, rule bind_step, rule requeue, rule del)
  have "distinct (map bj_id (delete_where (\<lambda>j. bj_id j = bj_id job) (t_background_job db1) @ ?again))"
    using fresh by (intro append_new_jobs [OF distinct_map_delete [OF wf_job_keys [OF wf]] keys]) auto
  from wf_jobs [OF wf this] inv have "db_inv ?db3" by (simp add: db_inv_def)
  with run show "\<exists>db'. process_incoming_job handle now new_id job db = (Inr (), db') \<and> db_inv db' \<and> db' = ?db3" by blast
  show "length (incoming_attempts outs (incoming_job_new activity auth)) \<le> 3"
    using incoming_attempts_length [of outs "incoming_job_new activity auth"] by (simp add: incoming_job_new_def)
qed

definition inbox_db :: database where
  "inbox_db = sample_db\<lparr>t_background_job :=
     [new_job 7 0 IncomingActivity (incoming_to_json (incoming_job_new JNull True)) 1]\<rparr>"

lemma inbox_inv: "db_inv inbox_db"
proof -
  have "wf_db inbox_db"
    unfolding inbox_db_def by (rule wf_jobs [OF sample_wf]) (simp add: new_job_def)
  with sample_inv show ?thesis by (simp add: db_inv_def inbox_db_def)
qed

theorem process_incoming_correct_witness:
  "\<exists>db'. process_incoming_job (\<lambda>_ _ db. (Handler_Error, db)) 100 8
      (new_job 7 0 IncomingActivity (incoming_to_json (incoming_job_new JNull True)) 1) inbox_db = (Inr (), db') \<and>
     map bj_id (t_background_job db') = [8] \<and> map bj_scheduled_for (t_background_job db') = [100 + seconds 600]"
proof -
  let ?d = "incoming_job_new JNull True" and ?handle = "\<lambda>_ _ db. (Handler_Error, db)"
  let ?job = "new_job 7 0 IncomingActivity (incoming_to_json ?d) 1"
  have pre: "?handle (in_activity ?d) (in_is_authenticated ?d) inbox_db = (Handler_Error, inbox_db)"
    "bj_id ?job \<in> bj_id ` set (t_background_job inbox_db)" "bj_job_data ?job = incoming_to_json ?d"
    "in_failure_count ?d < 2 ^ 32" "8 \<notin> bj_id ` set (t_background_job inbox_db)"
    by (simp_all add: inbox_db_def new_job_def incoming_job_new_def)
  have r: "incoming_retry Handler_Error ?d = Some (?d\<lparr>in_failure_count := 1\<rparr>)"
    by (simp add: incoming_retry_def incoming_job_new_def)
  from process_incoming_correct [of ?handle ?d inbox_db, OF pre(1) inbox_inv pre(2-5), of 100, THEN conjunct1]
  show ?thesis unfolding r option.case by (auto simp: inbox_db_def new_job_def delete_where_def)
qed

end
