(* ===== verification/Attachments.thy ===== *)
theory Attachments
  imports Profile_Laws Sample
begin

text \<open>
  Media attachments (\<open>fedimovies-models/src/attachments/queries.rs\<close> and \<open>types.rs\<close>).
\<close>

datatype attachment_type = Attachment_Unknown | Attachment_Image | Attachment_Video | Attachment_Audio

definition from_media_type :: "string option \<Rightarrow> attachment_type" where
  "from_media_type value =
     (case value of
        Some media_type \<Rightarrow>
          if strip_prefix ''image/'' media_type \<noteq> None then Attachment_Image
          else if strip_prefix ''video/'' media_type \<noteq> None then Attachment_Video
          else if strip_prefix ''audio/'' media_type \<noteq> None then Attachment_Audio
          else Attachment_Unknown
      | None \<Rightarrow> Attachment_Unknown)"

text \<open>
  \<open>create_attachment\<close> panics on a size beyond \<open>i32\<close>: \<open>None\<close> is the panic.
\<close>

definition create_attachment ::
    "datetime \<Rightarrow> uuid \<Rightarrow> uuid \<Rightarrow> string \<Rightarrow> nat \<Rightarrow> string option \<Rightarrow> db_media_attachment dbm option" where
  "create_attachment now attachment_id owner_id file_name file_size media_type =
     (if i32_in_range (int file_size) then
        Some (let row = \<lparr>ma_id = attachment_id, ma_owner_id = owner_id, ma_file_name = file_name,
            ma_file_size = Some (int file_size), ma_media_type = media_type, ma_ipfs_cid = None,
            ma_post_id = None, ma_created_at = now\<rparr>
          in execute (\<lambda>db. (row, db\<lparr>t_media_attachment := t_media_attachment db @ [row]\<rparr>)))
      else None)"

definition set_attachment_ipfs_cid :: "uuid \<Rightarrow> string \<Rightarrow> db_media_attachment dbm" where
  "set_attachment_ipfs_cid attachment_id ipfs_cid =
     bind (execute (\<lambda>db.
       let p = (\<lambda>a. ma_id a = attachment_id \<and> ma_ipfs_cid a = None); f = (\<lambda>a. a\<lparr>ma_ipfs_cid := Some ipfs_cid\<rparr>)
       in (map f (filter p (t_media_attachment db)),
           db\<lparr>t_media_attachment := update_where p f (t_media_attachment db)\<rparr>)))
     (\<lambda>rows. bind (opt_row rows) (\<lambda>maybe_row. ok_or maybe_row (NotFound ''attachment'')))"

definition delete_unused_attachments :: "datetime \<Rightarrow> deletion_queue dbm" where
  "delete_unused_attachments created_before =
     bind (execute (\<lambda>db.
       let p = (\<lambda>a. ma_post_id a = None \<and> ma_created_at a < created_before)
       in (filter p (t_media_attachment db),
           db\<lparr>t_media_attachment := delete_where p (t_media_attachment db)\<rparr>))) (\<lambda>rows.
     bind (find_orphaned_files (map ma_file_name rows)) (\<lambda>orphaned_files.
     bind (find_orphaned_ipfs_objects (concat (map (\<lambda>a. opt_list (ma_ipfs_cid a)) rows))) (\<lambda>orphaned_ipfs_objects.
     ret \<lparr>dq_files = orphaned_files, dq_ipfs_objects = orphaned_ipfs_objects\<rparr>)))"

section \<open>What they keep\<close>

text \<open>A statement that changes only tables the invariant is not about.\<close>

lemma keeps_frame_execute:
  "(\<And>db. app_inv {} {} (snd (f db)) = app_inv {} {} db) \<Longrightarrow> keeps db_inv (execute f)"
  by (rule keeps_inv_execute) (simp add: db_inv_def)

lemma keeps_frame_execute_catching:
  "(\<And>db. app_inv {} {} (snd (f db)) = app_inv {} {} db) \<Longrightarrow> keeps db_inv (execute_catching t f)"
  by (rule keeps_inv_execute_catching) (simp add: db_inv_def)

lemma inv_create_attachment: "create_attachment now i o' n s t = Some m \<Longrightarrow> keeps db_inv m"
  by (auto simp: create_attachment_def Let_def split: if_splits intro!: keeps_frame_execute)

lemma inv_set_attachment_ipfs_cid: "keeps db_inv (set_attachment_ipfs_cid i c)"
  unfolding set_attachment_ipfs_cid_def Let_def
  by (intro keeps_bind keeps_frame_execute keeps_intro) simp

lemma inv_delete_unused_attachments: "keeps db_inv (delete_unused_attachments t)"
  unfolding delete_unused_attachments_def Let_def
  by (intro keeps_bind keeps_frame_execute keeps_find_orphaned keeps_ret) simp

lemma wf_delete_attachments: "wf_db db \<Longrightarrow> wf_db (db\<lparr>t_media_attachment := delete_where p (t_media_attachment db)\<rparr>)"
  by (simp add: wf_db_def ranges_ok_def checks_ok_def unique_ok_def token_keys_ok_def misc_keys_ok_def
      foreign_keys_ok_def profile_refs_ok_def user_refs_ok_def post_refs_ok_def distinct_map_delete)

lemma delete_unused_attachments_state:
  assumes "delete_unused_attachments limit db = (Inr q, db')"
  shows "db' = db\<lparr>t_media_attachment := t_media_attachment db'\<rparr>"
proof -
  from assms obtain rows d1 where
    1: "execute (\<lambda>db. (filter (\<lambda>a. ma_post_id a = None \<and> ma_created_at a < limit) (t_media_attachment db),
      db\<lparr>t_media_attachment := delete_where (\<lambda>a. ma_post_id a = None \<and> ma_created_at a < limit) (t_media_attachment db)\<rparr>)) db
      = (Inr rows, d1)" and "d1 = db'"
    unfolding delete_unused_attachments_def Let_def bind_ok find_orphaned_files_ok find_orphaned_ipfs_objects_ok ret_ok
    by blast
  then show ?thesis by (auto simp: execute_ok)
qed

text \<open>
  \<open>delete_unused_attachments\<close> never fails. It deletes exactly the attachments that belong to no
  post and are older than the limit, and queues a file for deletion if and only if it belonged to
  one of them and no other attachment, avatar, banner or emoji uses it.
\<close>

theorem delete_unused_attachments_correct:
  assumes "wf_db db"
  shows "\<exists>q db'. delete_unused_attachments limit db = (Inr q, db') \<and> wf_db db' \<and> queue_unused db' q \<and>
    t_media_attachment db' =
      filter (\<lambda>a. ma_post_id a \<noteq> None \<or> limit \<le> ma_created_at a) (t_media_attachment db) \<and>
    (\<forall>f. f \<in> set (dq_files q) \<longleftrightarrow> \<not> file_in_use db' f \<and>
      (\<exists>a \<in> set (t_media_attachment db). ma_post_id a = None \<and> ma_created_at a < limit \<and> ma_file_name a = f))"
proof -
  let ?p = "\<lambda>a. ma_post_id a = None \<and> ma_created_at a < limit"
  let ?rows = "filter ?p (t_media_attachment db)"
  let ?db = "db\<lparr>t_media_attachment := delete_where ?p (t_media_attachment db)\<rparr>"
  let ?q = "\<lparr>dq_files = remdups (filter (\<lambda>f. \<not> file_in_use ?db f) (map ma_file_name ?rows)),
    dq_ipfs_objects = remdups (filter (\<lambda>c. \<not> ipfs_in_use ?db c) (concat (map (\<lambda>a. opt_list (ma_ipfs_cid a)) ?rows)))\<rparr>"
  have wf: "wf_db ?db" by (rule wf_delete_attachments [OF assms])
  have "delete_unused_attachments limit db = (Inr ?q, ?db)"
    unfolding delete_unused_attachments_def Let_def
    by (rule bind_step, rule execute_run, simp add: wf, rule bind_step, rule find_orphaned_run(1), rule bind_step, rule find_orphaned_run(2))
      (simp add: ret_run)
  moreover have "queue_unused ?db ?q" by (rule queue_unused_found)
  moreover have "t_media_attachment ?db = filter (\<lambda>a. ma_post_id a \<noteq> None \<or> limit \<le> ma_created_at a) (t_media_attachment db)"
    by (auto simp: delete_where_def not_less intro!: filter_cong)
  moreover have "\<forall>f. f \<in> set (dq_files ?q) \<longleftrightarrow> \<not> file_in_use ?db f \<and>
      (\<exists>a \<in> set (t_media_attachment db). ma_post_id a = None \<and> ma_created_at a < limit \<and> ma_file_name a = f)"
    by auto
  ultimately show ?thesis using wf by (intro exI [of _ ?q] exI [of _ ?db] conjI)
qed

theorem delete_unused_attachments_correct_witness:
  "\<exists>db q db'. wf_db db \<and> length (t_media_attachment db) = 2 \<and>
     delete_unused_attachments 5 db = (Inr q, db') \<and> set (dq_files q) = {''old''} \<and> length (t_media_attachment db') = 1"
proof -
  define mk where "mk i name t = \<lparr>ma_id = (i :: uuid), ma_owner_id = (1 :: uuid), ma_file_name = name,
    ma_file_size = Some 1, ma_media_type = None, ma_ipfs_cid = None, ma_post_id = None, ma_created_at = t\<rparr>" for i name t
  define db where "db = sample_db\<lparr>t_media_attachment := [mk 40 ''old'' 3, mk 41 ''new'' 7]\<rparr>"
  have wf: "wf_db db"
    using sample_wf by (simp add: db_def mk_def wf_db_def ranges_ok_def checks_ok_def unique_ok_def
        token_keys_ok_def misc_keys_ok_def foreign_keys_ok_def profile_refs_ok_def user_refs_ok_def
        post_refs_ok_def sample_tables(1) sample_profile_def)
  from delete_unused_attachments_correct [OF wf, of 5] obtain q db' where
    run: "delete_unused_attachments 5 db = (Inr q, db')" and
    left: "t_media_attachment db' = [mk 41 ''new'' 7]" and
    files: "\<forall>f. f \<in> set (dq_files q) \<longleftrightarrow> \<not> file_in_use db' f \<and>
      (\<exists>a \<in> set (t_media_attachment db). ma_post_id a = None \<and> ma_created_at a < 5 \<and> ma_file_name a = f)"
    by (auto simp: db_def mk_def)
  have db': "db' = db\<lparr>t_media_attachment := [mk 41 ''new'' 7]\<rparr>"
    by (rule delete_unused_attachments_state [OF run, unfolded left])
  have "set (dq_files q) = {''old''}"
  proof (rule set_eqI)
    fix f
    have "file_in_use db' f \<longleftrightarrow> f = ''new''"
      by (auto simp: db' db_def mk_def file_in_use_def sample_tables(1) sample_profile_def image_file_def
          sample_db_def empty_database_def)
    moreover have "t_media_attachment db = [mk 40 ''old'' 3, mk 41 ''new'' 7]" by (simp add: db_def)
    ultimately show "f \<in> set (dq_files q) \<longleftrightarrow> f \<in> {''old''}"
      using spec [OF files, of f] by (auto simp: mk_def)
  qed
  then show ?thesis using wf run left by (intro exI [of _ db]) (auto simp: db_def)
qed

end
