(* ===== verification/Posts.thy ===== *)
theory Posts
  imports Relationships Attachments
begin

text \<open>
  Posts: the value types of \<open>fedimovies-models/src/posts/types.rs\<close> and the operations of
  \<open>posts/queries.rs\<close> that change the database. New identifiers and the time of the statements
  are arguments.
\<close>

section \<open>Values\<close>

record post_actions =
  pa_favourited :: bool
  pa_reposted :: bool

text \<open>The fields of \<open>Post\<close> that its constructor fills, and the ones it leaves empty.\<close>

record post_data =
  pd_id :: uuid
  pd_author :: db_actor_profile
  pd_content :: string
  pd_in_reply_to_id :: "uuid option"
  pd_repost_of_id :: "uuid option"
  pd_visibility :: visibility
  pd_is_sensitive :: bool
  pd_reply_count :: i32
  pd_reaction_count :: i32
  pd_repost_count :: i32
  pd_attachments :: "db_media_attachment list"
  pd_mentions :: "db_actor_profile list"
  pd_tags :: "string list"
  pd_links :: "uuid list"
  pd_emojis :: "db_emoji list"
  pd_object_id :: "string option"
  pd_ipfs_cid :: "string option"
  pd_token_id :: "i32 option"
  pd_token_tx_id :: "string option"
  pd_created_at :: datetime
  pd_updated_at :: "datetime option"

datatype post =
  Post (data_of: post_data) (actions_of: "post_actions option") (in_reply_to_of: "post option")
    (repost_of_of: "post option") (linked_of: "post list")

definition post_new ::
    "db_post \<Rightarrow> db_actor_profile \<Rightarrow> db_media_attachment list \<Rightarrow> db_actor_profile list \<Rightarrow>
     string list \<Rightarrow> uuid list \<Rightarrow> db_emoji list \<Rightarrow> db_error + post" where
  "post_new db_post db_author db_attachments db_mentions db_tags db_links db_emojis =
     (if po_author_id db_post \<noteq> ap_id db_author then Inl DatabaseTypeError
      else if is_local db_author \<noteq> (po_object_id db_post = None) then Inl DatabaseTypeError
      else if po_repost_of_id db_post \<noteq> None \<and>
        (length (po_content db_post) \<noteq> 0 \<or> po_is_sensitive db_post \<or>
         po_in_reply_to_id db_post \<noteq> None \<or> po_ipfs_cid db_post \<noteq> None \<or>
         po_token_id db_post \<noteq> None \<or> po_token_tx_id db_post \<noteq> None \<or>
         db_attachments \<noteq> [] \<or> db_mentions \<noteq> [] \<or> db_tags \<noteq> [] \<or> db_links \<noteq> [] \<or> db_emojis \<noteq> [])
      then Inl DatabaseTypeError
      else Inr (Post
        \<lparr>pd_id = po_id db_post, pd_author = db_author, pd_content = po_content db_post,
         pd_in_reply_to_id = po_in_reply_to_id db_post, pd_repost_of_id = po_repost_of_id db_post,
         pd_visibility = po_visibility db_post, pd_is_sensitive = po_is_sensitive db_post,
         pd_reply_count = po_reply_count db_post, pd_reaction_count = po_reaction_count db_post,
         pd_repost_count = po_repost_count db_post, pd_attachments = db_attachments,
         pd_mentions = db_mentions, pd_tags = db_tags, pd_links = db_links, pd_emojis = db_emojis,
         pd_object_id = po_object_id db_post, pd_ipfs_cid = po_ipfs_cid db_post,
         pd_token_id = po_token_id db_post, pd_token_tx_id = po_token_tx_id db_post,
         pd_created_at = po_created_at db_post, pd_updated_at = po_updated_at db_post\<rparr>
        None None None []))"

definition post_is_local :: "post \<Rightarrow> bool" where
  "post_is_local p = is_local (pd_author (data_of p))"

definition post_is_public :: "post \<Rightarrow> bool" where
  "post_is_public p \<longleftrightarrow> pd_visibility (data_of p) = Public"

record post_create_data =
  pcd_content :: string
  pcd_in_reply_to_id :: "uuid option"
  pcd_repost_of_id :: "uuid option"
  pcd_visibility :: visibility
  pcd_is_sensitive :: bool
  pcd_attachments :: "uuid list"
  pcd_mentions :: "uuid list"
  pcd_tags :: "string list"
  pcd_links :: "uuid list"
  pcd_emojis :: "uuid list"
  pcd_object_id :: "string option"
  pcd_created_at :: datetime

definition post_create_data_repost :: "datetime \<Rightarrow> uuid \<Rightarrow> string option \<Rightarrow> post_create_data" where
  "post_create_data_repost now repost_of_id object_id =
     \<lparr>pcd_content = [], pcd_in_reply_to_id = None, pcd_repost_of_id = Some repost_of_id,
      pcd_visibility = Public, pcd_is_sensitive = False, pcd_attachments = [], pcd_mentions = [],
      pcd_tags = [], pcd_links = [], pcd_emojis = [], pcd_object_id = object_id,
      pcd_created_at = now\<rparr>"

record post_update_data =
  pud_content :: string
  pud_is_sensitive :: bool
  pud_attachments :: "uuid list"
  pud_mentions :: "uuid list"
  pud_tags :: "string list"
  pud_links :: "uuid list"
  pud_emojis :: "uuid list"
  pud_updated_at :: datetime

section \<open>Rows that belong to a post\<close>

definition create_post_attachments :: "uuid \<Rightarrow> uuid \<Rightarrow> uuid list \<Rightarrow> db_media_attachment list dbm" where
  "create_post_attachments post_id author_id attachments =
     bind (execute (\<lambda>db.
       let p = (\<lambda>a. ma_owner_id a = author_id \<and> ma_id a \<in> set attachments); f = (\<lambda>a. a\<lparr>ma_post_id := Some post_id\<rparr>)
       in (map f (filter p (t_media_attachment db)),
           db\<lparr>t_media_attachment := update_where p f (t_media_attachment db)\<rparr>))) (\<lambda>rows.
     if length rows \<noteq> length attachments then throw (NotFound ''attachment'')
     else ret (sort_key ma_created_at rows))"

definition create_post_mentions :: "uuid \<Rightarrow> uuid list \<Rightarrow> db_actor_profile list dbm" where
  "create_post_mentions post_id mentions =
     bind (execute (\<lambda>db.
       let rows = filter (\<lambda>ap. ap_id ap \<in> set mentions) (t_actor_profile db)
       in (rows, db\<lparr>t_mention := t_mention db @ map (\<lambda>ap. (post_id, ap_id ap)) rows\<rparr>))) (\<lambda>rows.
     if length rows \<noteq> length mentions then throw (NotFound ''profile'') else ret rows)"

text \<open>\<open>INSERT INTO tag SELECT unnest(..) ON CONFLICT DO NOTHING\<close>: one new row per new name.\<close>

primrec insert_tags :: "string list \<Rightarrow> database \<Rightarrow> database" where
  "insert_tags [] db = db"
| "insert_tags (name # names) db =
     insert_tags names
       (if exists_where (\<lambda>tg. tg_name tg = name) (t_tag db) then db
        else db\<lparr>t_tag := t_tag db @ [\<lparr>tg_id = next_id db, tg_name = name\<rparr>], next_id := next_id db + 1\<rparr>)"

definition create_post_tags :: "uuid \<Rightarrow> string list \<Rightarrow> string list dbm" where
  "create_post_tags post_id tags =
     andthen (execute (\<lambda>db. ((), insert_tags tags db)))
     (bind (execute (\<lambda>db.
       let rows = filter (\<lambda>tg. tg_name tg \<in> set tags) (t_tag db)
       in (rows, db\<lparr>t_post_tag := t_post_tag db @ map (\<lambda>tg. (post_id, tg_id tg)) rows\<rparr>))) (\<lambda>rows.
     if length rows \<noteq> length tags then throw (NotFound ''tag'') else ret (map tg_name rows)))"

definition create_post_links :: "uuid \<Rightarrow> uuid list \<Rightarrow> uuid list dbm" where
  "create_post_links post_id links =
     bind (execute (\<lambda>db.
       let rows = filter (\<lambda>po. po_id po \<in> set links) (t_post db)
       in (rows, db\<lparr>t_post_link := t_post_link db @ map (\<lambda>po. (post_id, po_id po)) rows\<rparr>))) (\<lambda>rows.
     if length rows \<noteq> length links then throw (NotFound ''post'') else ret (map po_id rows))"

definition create_post_emojis :: "uuid \<Rightarrow> uuid list \<Rightarrow> db_emoji list dbm" where
  "create_post_emojis post_id emojis =
     bind (execute (\<lambda>db.
       let rows = filter (\<lambda>e. em_id e \<in> set emojis) (t_emoji db)
       in (rows, db\<lparr>t_post_emoji := t_post_emoji db @ map (\<lambda>e. (post_id, em_id e)) rows\<rparr>))) (\<lambda>rows.
     if length rows \<noteq> length emojis then throw (NotFound ''emoji'') else ret rows)"

section \<open>Counters and authors\<close>

text \<open>The counters of a repost never change: the condition \<open>repost_of_id IS NULL\<close> excludes it.\<close>

definition change_post :: "uuid \<Rightarrow> (db_post \<Rightarrow> db_post) \<Rightarrow> unit dbm" where
  "change_post post_id f =
     bind (execute (\<lambda>db. row_count (update_posts (\<lambda>po. po_id po = post_id \<and> po_repost_of_id po = None) f db)))
     (\<lambda>updated_count. if updated_count = 0 then throw (NotFound ''post'') else ret ())"

definition update_reply_count :: "uuid \<Rightarrow> i32 \<Rightarrow> unit dbm" where
  "update_reply_count post_id change =
     change_post post_id (\<lambda>po. po\<lparr>po_reply_count := po_reply_count po + change\<rparr>)"

definition update_reaction_count :: "uuid \<Rightarrow> i32 \<Rightarrow> unit dbm" where
  "update_reaction_count post_id change =
     change_post post_id (\<lambda>po. po\<lparr>po_reaction_count := po_reaction_count po + change\<rparr>)"

definition update_repost_count :: "uuid \<Rightarrow> i32 \<Rightarrow> unit dbm" where
  "update_repost_count post_id change =
     change_post post_id (\<lambda>po. po\<lparr>po_repost_count := po_repost_count po + change\<rparr>)"

definition authors_of :: "uuid \<Rightarrow> database \<Rightarrow> db_actor_profile list" where
  "authors_of post_id db =
     concat (map (\<lambda>po. filter (\<lambda>ap. ap_id ap = po_author_id po) (t_actor_profile db))
       (filter (\<lambda>po. po_id po = post_id) (t_post db)))"

definition get_post_author :: "uuid \<Rightarrow> db_actor_profile dbm" where
  "get_post_author post_id =
     bind (query_opt (authors_of post_id)) (\<lambda>maybe_row. ok_or maybe_row (NotFound ''post''))"

section \<open>Creating a post\<close>

definition new_post_row :: "uuid \<Rightarrow> uuid \<Rightarrow> post_create_data \<Rightarrow> db_post" where
  "new_post_row post_id author_id d =
     \<lparr>po_id = post_id, po_author_id = author_id, po_content = pcd_content d,
      po_in_reply_to_id = pcd_in_reply_to_id d, po_repost_of_id = pcd_repost_of_id d,
      po_visibility = pcd_visibility d, po_is_sensitive = pcd_is_sensitive d,
      po_reply_count = 0, po_reaction_count = 0, po_repost_count = 0,
      po_object_id = pcd_object_id d, po_ipfs_cid = None, po_token_id = None,
      po_token_tx_id = None, po_created_at = pcd_created_at d, po_updated_at = None\<rparr>"

text \<open>
  Replying to reposts is not allowed, nor is reposting of reposts or of posts that are not public:
  then the \<open>INSERT .. SELECT .. WHERE NOT EXISTS\<close> inserts no row.
\<close>

definition reply_forbidden :: "post_create_data \<Rightarrow> database \<Rightarrow> bool" where
  "reply_forbidden d db \<longleftrightarrow>
     exists_where (\<lambda>po. pcd_in_reply_to_id d = Some (po_id po) \<and> po_repost_of_id po \<noteq> None) (t_post db)"

definition repost_forbidden :: "post_create_data \<Rightarrow> database \<Rightarrow> bool" where
  "repost_forbidden d db \<longleftrightarrow>
     exists_where (\<lambda>po. pcd_repost_of_id d = Some (po_id po) \<and>
       (po_repost_of_id po \<noteq> None \<or> po_visibility po \<noteq> Public)) (t_post db)"

definition insert_post :: "uuid \<Rightarrow> uuid \<Rightarrow> post_create_data \<Rightarrow> database \<Rightarrow> db_post list \<times> database" where
  "insert_post post_id author_id d db =
     (if \<not> reply_forbidden d db \<and> \<not> repost_forbidden d db
      then ([new_post_row post_id author_id d], db\<lparr>t_post := t_post db @ [new_post_row post_id author_id d]\<rparr>)
      else ([], db))"

definition notify_parent :: "datetime \<Rightarrow> db_post \<Rightarrow> uuid list dbm" where
  "notify_parent now db_post =
     (case po_in_reply_to_id db_post of
        None \<Rightarrow> ret []
      | Some in_reply_to_id \<Rightarrow>
          bind (update_reply_count in_reply_to_id 1) (\<lambda>_.
          bind (get_post_author in_reply_to_id) (\<lambda>in_reply_to_author.
          if is_local in_reply_to_author \<and> ap_id in_reply_to_author \<noteq> po_author_id db_post then
            bind (create_reply_notification now (po_author_id db_post) (ap_id in_reply_to_author) (po_id db_post))
            (\<lambda>_. ret [ap_id in_reply_to_author])
          else ret [])))"

definition notify_reposted :: "datetime \<Rightarrow> db_post \<Rightarrow> uuid list \<Rightarrow> uuid list dbm" where
  "notify_reposted now db_post notified_users =
     (case po_repost_of_id db_post of
        None \<Rightarrow> ret notified_users
      | Some repost_of_id \<Rightarrow>
          bind (update_repost_count repost_of_id 1) (\<lambda>_.
          bind (get_post_author repost_of_id) (\<lambda>repost_of_author.
          if is_local repost_of_author \<and> ap_id repost_of_author \<notin> set notified_users \<and>
            ap_id repost_of_author \<noteq> po_author_id db_post
          then
            bind (is_muted (ap_id repost_of_author) (po_author_id db_post)) (\<lambda>muted.
            bind (if muted then ret ()
                  else create_repost_notification now (po_author_id db_post) (ap_id repost_of_author) repost_of_id)
            (\<lambda>_. ret (notified_users @ [ap_id repost_of_author])))
          else ret notified_users)))"

definition notify_mentioned :: "datetime \<Rightarrow> db_post \<Rightarrow> uuid list \<Rightarrow> db_actor_profile \<Rightarrow> unit dbm" where
  "notify_mentioned now db_post notified_users profile =
     (if is_local profile \<and> ap_id profile \<noteq> po_author_id db_post \<and> ap_id profile \<notin> set notified_users
      then
        bind (is_muted (ap_id profile) (po_author_id db_post)) (\<lambda>muted.
        if muted then ret ()
        else create_mention_notification now (po_author_id db_post) (ap_id profile) (po_id db_post))
      else ret ())"

definition create_post :: "datetime \<Rightarrow> uuid \<Rightarrow> uuid \<Rightarrow> post_create_data \<Rightarrow> post dbm" where
  "create_post now post_id author_id d = transaction (
     bind (execute_catching ''post'' (insert_post post_id author_id d)) (\<lambda>rows.
     bind (opt_row rows) (\<lambda>maybe_post_row.
     bind (ok_or maybe_post_row (NotFound ''post'')) (\<lambda>db_post.
     bind (create_post_attachments (po_id db_post) (po_author_id db_post) (pcd_attachments d)) (\<lambda>db_attachments.
     bind (create_post_mentions (po_id db_post) (pcd_mentions d)) (\<lambda>db_mentions.
     bind (create_post_tags (po_id db_post) (pcd_tags d)) (\<lambda>db_tags.
     bind (create_post_links (po_id db_post) (pcd_links d)) (\<lambda>db_links.
     bind (create_post_emojis (po_id db_post) (pcd_emojis d)) (\<lambda>db_emojis.
     bind (update_post_count (po_author_id db_post) 1) (\<lambda>author.
     bind (notify_parent now db_post) (\<lambda>notified_users.
     bind (notify_reposted now db_post notified_users) (\<lambda>notified_users.
     bind (for_each db_mentions (notify_mentioned now db_post notified_users)) (\<lambda>_.
     lift_result (post_new db_post author db_attachments db_mentions db_tags db_links db_emojis))))))))))))))"

section \<open>Updating a post\<close>

definition delete_post_parts :: "uuid \<Rightarrow> unit dbm" where
  "delete_post_parts post_id =
     bind (execute (\<lambda>db. ((), db\<lparr>t_media_attachment :=
        delete_where (\<lambda>a. ma_post_id a = Some post_id) (t_media_attachment db)\<rparr>))) (\<lambda>_.
     bind (execute (\<lambda>db. ((), db\<lparr>t_mention := delete_where (\<lambda>m. fst m = post_id) (t_mention db)\<rparr>))) (\<lambda>_.
     bind (execute (\<lambda>db. ((), db\<lparr>t_post_tag := delete_where (\<lambda>m. fst m = post_id) (t_post_tag db)\<rparr>))) (\<lambda>_.
     bind (execute (\<lambda>db. ((), db\<lparr>t_post_link := delete_where (\<lambda>m. fst m = post_id) (t_post_link db)\<rparr>))) (\<lambda>_.
     execute (\<lambda>db. ((), db\<lparr>t_post_emoji := delete_where (\<lambda>m. fst m = post_id) (t_post_emoji db)\<rparr>))))))"

definition update_post :: "uuid \<Rightarrow> post_update_data \<Rightarrow> unit dbm" where
  "update_post post_id d = transaction (
     bind (execute (update_posts
        (\<lambda>po. po_id po = post_id \<and> po_repost_of_id po = None \<and> po_ipfs_cid po = None)
        (\<lambda>po. po\<lparr>po_content := pud_content d, po_is_sensitive := pud_is_sensitive d,
           po_updated_at := Some (pud_updated_at d)\<rparr>))) (\<lambda>rows.
     bind (opt_row rows) (\<lambda>maybe_row.
     bind (ok_or maybe_row (NotFound ''post'')) (\<lambda>db_post.
     bind (delete_post_parts (po_id db_post)) (\<lambda>_.
     bind (create_post_attachments (po_id db_post) (po_author_id db_post) (pud_attachments d)) (\<lambda>_.
     bind (create_post_mentions (po_id db_post) (pud_mentions d)) (\<lambda>_.
     bind (create_post_tags (po_id db_post) (pud_tags d)) (\<lambda>_.
     bind (create_post_links (po_id db_post) (pud_links d)) (\<lambda>_.
     bind (create_post_emojis (po_id db_post) (pud_emojis d)) (\<lambda>_. ret ()))))))))))"

definition set_post_ipfs_cid :: "uuid \<Rightarrow> string \<Rightarrow> (uuid \<times> string) list \<Rightarrow> unit dbm" where
  "set_post_ipfs_cid post_id ipfs_cid attachments = transaction (
     bind (execute (\<lambda>db. row_count (update_posts
        (\<lambda>po. po_id po = post_id \<and> po_repost_of_id po = None \<and> po_ipfs_cid po = None)
        (\<lambda>po. po\<lparr>po_ipfs_cid := Some ipfs_cid\<rparr>) db))) (\<lambda>updated_count.
     if updated_count = 0 then throw (NotFound ''post'')
     else for_each attachments (\<lambda>(attachment_id, cid).
       bind (set_attachment_ipfs_cid attachment_id cid) (\<lambda>_. ret ()))))"

definition set_post_token_id :: "uuid \<Rightarrow> i32 \<Rightarrow> unit dbm" where
  "set_post_token_id post_id token_id =
     bind (execute (\<lambda>db. row_count (update_posts
        (\<lambda>po. po_id po = post_id \<and> po_repost_of_id po = None \<and> po_token_id po = None)
        (\<lambda>po. po\<lparr>po_token_id := Some token_id\<rparr>) db))) (\<lambda>updated_count.
     if updated_count = 0 then throw (NotFound ''post'') else ret ())"

definition set_post_token_tx_id :: "uuid \<Rightarrow> string \<Rightarrow> unit dbm" where
  "set_post_token_tx_id post_id token_tx_id =
     bind (execute (\<lambda>db. row_count (update_posts
        (\<lambda>po. po_id po = post_id \<and> po_repost_of_id po = None)
        (\<lambda>po. po\<lparr>po_token_tx_id := Some token_tx_id\<rparr>) db))) (\<lambda>updated_count.
     if updated_count = 0 then throw (NotFound ''post'') else ret ())"

section \<open>Deleting a post\<close>

definition delete_post :: "uuid \<Rightarrow> deletion_queue dbm" where
  "delete_post post_id = transaction (
     bind (query (\<lambda>db. post_context (t_post db)
        (map po_id (filter (\<lambda>po. po_id po = post_id) (t_post db))))) (\<lambda>posts.
     bind (query (attachment_files posts)) (\<lambda>files.
     bind (query (ipfs_objects_of posts)) (\<lambda>ipfs_objects.
     bind (execute (subtract_post_counts posts)) (\<lambda>_.
     bind (execute (\<lambda>db. (filter (\<lambda>po. po_id po = post_id) (t_post db), delete_post_row post_id db))) (\<lambda>rows.
     bind (opt_row rows) (\<lambda>maybe_post_row.
     bind (ok_or maybe_post_row (NotFound ''post'')) (\<lambda>db_post.
     bind (case po_in_reply_to_id db_post of
             Some parent_id \<Rightarrow> update_reply_count parent_id (- 1) | None \<Rightarrow> ret ()) (\<lambda>_.
     bind (case po_repost_of_id db_post of
             Some repost_of_id \<Rightarrow> update_repost_count repost_of_id (- 1) | None \<Rightarrow> ret ()) (\<lambda>_.
     bind (find_orphaned_files files) (\<lambda>orphaned_files.
     bind (find_orphaned_ipfs_objects ipfs_objects) (\<lambda>orphaned_ipfs_objects.
     ret \<lparr>dq_files = orphaned_files, dq_ipfs_objects = orphaned_ipfs_objects\<rparr>))))))))))))"

end
