(* ===== verification/Post_Laws.thy ===== *)
theory Post_Laws
  imports Posts
begin

text \<open>
  The operations on posts keep the invariant: a new post takes its place in its thread and all
  counters follow, updates keep them, and the deletion of a post succeeds.
\<close>

section \<open>The core of the database\<close>

text \<open>
  Most steps of \<open>create_post\<close> leave the tables of the counters alone: they keep the core of the
  database.
\<close>

definition same_core :: "database \<Rightarrow> database \<Rightarrow> bool" where
  "same_core db0 db \<longleftrightarrow>
     t_actor_profile db = t_actor_profile db0 \<and> t_relationship db = t_relationship db0 \<and>
     t_post db = t_post db0 \<and> t_post_reaction db = t_post_reaction db0 \<and>
     t_user_account db = t_user_account db0 \<and> t_profile_emoji db = t_profile_emoji db0 \<and>
     t_emoji db = t_emoji db0 \<and> next_id db0 \<le> next_id db \<and>
     notifications_ok (t_notification db) \<and> (\<forall>n \<in> set (t_notification db). nt_id n < next_id db)"

lemma same_core_refl: "app_inv A C db \<Longrightarrow> same_core db db"
  by (simp add: same_core_def app_inv_def next_id_ok_def)

lemma app_inv_same_core: "app_inv A C db0 \<Longrightarrow> same_core db0 db \<Longrightarrow> app_inv A C db"
  by (force simp: same_core_def app_inv_def next_id_ok_def)

named_theorems core_intro "steps that keep the core"

lemma keeps_core_execute:
  "(\<And>db. same_core db0 db \<Longrightarrow> same_core db0 (snd (f db))) \<Longrightarrow> keeps (same_core db0) (execute f)"
  by (rule keeps_execute)

lemma core_create_notification [core_intro]:
  assumes "s \<noteq> r"
  shows "keeps (same_core db0) (create_notification now s r p ty)"
  unfolding create_notification_def using assms
  by (intro keeps_core_execute) (force simp: same_core_def notifications_ok_def new_notification_def)

lemma core_insert_tags: "same_core db0 db \<Longrightarrow> same_core db0 (insert_tags ts db)"
proof (induction ts arbitrary: db)
  case (Cons a ts)
  have "same_core db0 (db\<lparr>t_tag := x, next_id := next_id db + 1\<rparr>)" for x
    using Cons.prems by (force simp: same_core_def)
  with Cons show ?case by simp
qed simp

lemma same_core_frame [simp]:
  "same_core db0 (db\<lparr>t_media_attachment := x1\<rparr>) = same_core db0 db"
  "same_core db0 (db\<lparr>t_mention := x2\<rparr>) = same_core db0 db"
  "same_core db0 (db\<lparr>t_post_tag := x3\<rparr>) = same_core db0 db"
  "same_core db0 (db\<lparr>t_post_link := x4\<rparr>) = same_core db0 db"
  "same_core db0 (db\<lparr>t_post_emoji := x5\<rparr>) = same_core db0 db"
  by (simp_all add: same_core_def)

lemma core_parts [core_intro]:
  "keeps (same_core db0) (create_post_attachments i a xs)"
  "keeps (same_core db0) (create_post_mentions i xs)"
  "keeps (same_core db0) (create_post_tags i ts)"
  "keeps (same_core db0) (create_post_links i xs)"
  "keeps (same_core db0) (create_post_emojis i xs)"
  "keeps (same_core db0) (delete_post_parts i)"
  unfolding create_post_attachments_def create_post_mentions_def create_post_tags_def
    create_post_links_def create_post_emojis_def delete_post_parts_def Let_def
  by (auto intro!: keeps_bind keeps_core_execute keeps_if keeps_throw keeps_ret core_insert_tags)

lemma core_notify_mentioned [core_intro]: "keeps (same_core db0) (notify_mentioned now p ns ap)"
  unfolding notify_mentioned_def create_notification_defs is_muted_def
  by (auto intro!: keeps_bind keeps_query keeps_if keeps_ret core_intro)

lemma keeps_get_post_author [keeps_intro]: "keeps P (get_post_author i)"
  unfolding get_post_author_def by (intro keeps_intro)

text \<open>The counter of a post: the statement fails when there is no such post that is not a repost.\<close>

lemma change_post_ok:
  "change_post i f db = (Inr u, db') \<longleftrightarrow>
     (\<exists>po \<in> set (t_post db). po_id po = i \<and> po_repost_of_id po = None) \<and> wf_db db' \<and>
     db' = db\<lparr>t_post := update_where (\<lambda>po. po_id po = i \<and> po_repost_of_id po = None) f (t_post db)\<rparr>"
  unfolding change_post_def by (auto simp: db_ok row_count_def filter_empty_conv split: if_splits)

definition add_reply :: "uuid option \<Rightarrow> int \<Rightarrow> db_post \<Rightarrow> db_post" where
  "add_reply i d po = (if i = Some (po_id po) \<and> po_repost_of_id po = None
     then po\<lparr>po_reply_count := po_reply_count po + d\<rparr> else po)"

definition add_repost :: "uuid option \<Rightarrow> int \<Rightarrow> db_post \<Rightarrow> db_post" where
  "add_repost i d po = (if i = Some (po_id po) \<and> po_repost_of_id po = None
     then po\<lparr>po_repost_count := po_repost_count po + d\<rparr> else po)"

lemma add_reply_frame: "post_frame (add_reply i d)" and add_repost_frame: "post_frame (add_repost i d)"
  by (simp_all add: post_frame_def add_reply_def add_repost_def)

lemma add_None [simp]: "map (add_reply None d) pos = pos" "map (add_repost None d) pos = pos"
  by (simp_all add: add_reply_def add_repost_def map_idI)

lemma add_Some:
  "update_where (\<lambda>po. po_id po = i \<and> po_repost_of_id po = None)
     (\<lambda>po. po\<lparr>po_reply_count := po_reply_count po + d\<rparr>) pos = map (add_reply (Some i) d) pos"
  "update_where (\<lambda>po. po_id po = i \<and> po_repost_of_id po = None)
     (\<lambda>po. po\<lparr>po_repost_count := po_repost_count po + d\<rparr>) pos = map (add_repost (Some i) d) pos"
  by (auto simp: update_where_def add_reply_def add_repost_def)

text \<open>Both notification steps: the counter of the parent, and nothing else of the core.\<close>

lemma same_core_posts:
  "same_core db0 db \<Longrightarrow> same_core (db0\<lparr>t_post := f (t_post db0)\<rparr>) (db\<lparr>t_post := f (t_post db)\<rparr>)"
  by (simp add: same_core_def)

lemma notify_parent_ok:
  assumes run: "notify_parent now p db = (Inr ns, db')" and core: "same_core db0 db"
  shows "same_core (db0\<lparr>t_post := map (add_reply (po_in_reply_to_id p) 1) (t_post db0)\<rparr>) db'"
proof (cases "po_in_reply_to_id p")
  case None
  with run core show ?thesis by (simp add: notify_parent_def db_ok)
next
  case (Some i)
  let ?m = "bind (get_post_author i) (\<lambda>a. if is_local a \<and> ap_id a \<noteq> po_author_id p
      then bind (create_reply_notification now (po_author_id p) (ap_id a) (po_id p)) (\<lambda>_. ret [ap_id a]) else ret [])"
  from run Some obtain d1 where 1: "update_reply_count i 1 db = (Inr (), d1)" and 2: "?m d1 = (Inr ns, db')"
    by (auto simp: notify_parent_def bind_ok)
  from 1 have d1: "d1 = db\<lparr>t_post := map (add_reply (Some i) 1) (t_post db)\<rparr>"
    by (simp add: update_reply_count_def change_post_ok add_Some)
  have "keeps (same_core d) ?m" for d
    unfolding create_notification_defs
    by (auto intro!: keeps_bind keeps_intro core_intro)
  from keepsD [OF this _ 2] same_core_posts [OF core] show ?thesis by (simp add: Some d1)
qed

lemma notify_reposted_ok:
  assumes run: "notify_reposted now p ns db = (Inr ns', db')" and core: "same_core db0 db"
  shows "same_core (db0\<lparr>t_post := map (add_repost (po_repost_of_id p) 1) (t_post db0)\<rparr>) db'"
proof (cases "po_repost_of_id p")
  case None
  with run core show ?thesis by (simp add: notify_reposted_def db_ok)
next
  case (Some i)
  let ?m = "bind (get_post_author i) (\<lambda>a. if is_local a \<and> ap_id a \<notin> set ns \<and> ap_id a \<noteq> po_author_id p
      then bind (is_muted (ap_id a) (po_author_id p)) (\<lambda>muted.
        bind (if muted then ret () else create_repost_notification now (po_author_id p) (ap_id a) i)
          (\<lambda>_. ret (ns @ [ap_id a]))) else ret ns)"
  from run Some obtain d1 where 1: "update_repost_count i 1 db = (Inr (), d1)" and 2: "?m d1 = (Inr ns', db')"
    by (auto simp: notify_reposted_def bind_ok)
  from 1 have d1: "d1 = db\<lparr>t_post := map (add_repost (Some i) 1) (t_post db)\<rparr>"
    by (simp add: update_repost_count_def change_post_ok add_Some)
  have "keeps (same_core d) ?m" for d
    unfolding create_notification_defs is_muted_def
    by (auto intro!: keeps_bind keeps_intro core_intro)
  from keepsD [OF this _ 2] same_core_posts [OF core] show ?thesis by (simp add: Some d1)
qed

section \<open>Creating a post\<close>

definition posted :: "db_post \<Rightarrow> database \<Rightarrow> database" where
  "posted row db = db\<lparr>
     t_actor_profile := update_where (\<lambda>ap. ap_id ap = po_author_id row)
       (\<lambda>ap. ap\<lparr>ap_post_count := ap_post_count ap + 1\<rparr>) (t_actor_profile db),
     t_post := map (add_repost (po_repost_of_id row) 1) (map (add_reply (po_in_reply_to_id row) 1) (t_post db @ [row]))\<rparr>"

lemma new_post_row_simps [simp]:
  "po_id (new_post_row i a d) = i" "po_author_id (new_post_row i a d) = a"
  "po_in_reply_to_id (new_post_row i a d) = pcd_in_reply_to_id d"
  "po_repost_of_id (new_post_row i a d) = pcd_repost_of_id d"
  "po_visibility (new_post_row i a d) = pcd_visibility d"
  "po_reply_count (new_post_row i a d) = 0" "po_reaction_count (new_post_row i a d) = 0"
  "po_repost_count (new_post_row i a d) = 0"
  by (simp_all add: new_post_row_def)

lemma create_post_okD:
  assumes run: "create_post now i a d db = (Inr p, db')" and inv: "app_inv A C db"
  obtains author atts ments tags links emojis where
    "\<not> reply_forbidden d db" and "\<not> repost_forbidden d db" and "pcd_repost_of_id d \<noteq> Some i"
    and "wf_db (db\<lparr>t_post := t_post db @ [new_post_row i a d]\<rparr>)"
    and "same_core (posted (new_post_row i a d) db) db'"
    and "post_new (new_post_row i a d) author atts ments tags links emojis = Inr p"
proof -
  let ?row = "new_post_row i a d"
  let ?f = "\<lambda>ap. ap\<lparr>ap_post_count := ap_post_count ap + 1\<rparr>"
  from run [unfolded create_post_def transaction_ok] obtain rows d1 mr d2 row d3 atts d4 ments d5 tags d6 links d7 emojis d8
      author d9 ns d10 ns' d11 u d12 where
    1: "execute_catching ''post'' (insert_post i a d) db = (Inr rows, d1)" and
    2: "opt_row rows d1 = (Inr mr, d2)" and 3: "ok_or mr (NotFound ''post'') d2 = (Inr row, d3)" and
    4: "create_post_attachments (po_id row) (po_author_id row) (pcd_attachments d) d3 = (Inr atts, d4)" and
    5: "create_post_mentions (po_id row) (pcd_mentions d) d4 = (Inr ments, d5)" and
    6: "create_post_tags (po_id row) (pcd_tags d) d5 = (Inr tags, d6)" and
    7: "create_post_links (po_id row) (pcd_links d) d6 = (Inr links, d7)" and
    8: "create_post_emojis (po_id row) (pcd_emojis d) d7 = (Inr emojis, d8)" and
    9: "update_post_count (po_author_id row) 1 d8 = (Inr author, d9)" and
    10: "notify_parent now row d9 = (Inr ns, d10)" and
    11: "notify_reposted now row ns d10 = (Inr ns', d11)" and
    12: "for_each ments (notify_mentioned now row ns') d11 = (Inr u, d12)" and
    13: "lift_result (post_new row author atts ments tags links emojis) d12 = (Inr p, db')"
    by - (elim bind_okE, rule that, assumption+)
  from 1 2 3 have allowed: "\<not> reply_forbidden d db" "\<not> repost_forbidden d db" and row: "row = ?row"
    and d3: "d3 = db\<lparr>t_post := t_post db @ [?row]\<rparr>" and wf: "wf_db d3"
    by (auto simp: db_ok insert_post_def split: if_splits)
  from 13 have new: "post_new ?row author atts ments tags links emojis = Inr p" and d12: "db' = d12"
    by (auto simp: lift_result_def row ret_ok throw_ok split: sum.splits)
  have c3: "same_core d3 d3"
    using same_core_refl [OF inv] by (simp add: d3 same_core_def)
  note c8 = keepsD [OF core_parts(5) keepsD [OF core_parts(4) keepsD [OF core_parts(3)
    keepsD [OF core_parts(2) keepsD [OF core_parts(1) c3 4] 5] 6] 7] 8]
  have d9: "d9 = d8\<lparr>t_actor_profile := update_where (\<lambda>ap. ap_id ap = a) ?f (t_actor_profile d8)\<rparr>"
    using 9 by (simp add: update_count_ok row)
  have c9: "same_core (d3\<lparr>t_actor_profile := update_where (\<lambda>ap. ap_id ap = a) ?f (t_actor_profile d3)\<rparr>) d9"
    using c8 by (simp add: same_core_def d9)
  note c10 = notify_parent_ok [OF 10 c9]
  note c11 = notify_reposted_ok [OF 11 c10]
  have other: "pcd_repost_of_id d \<noteq> Some i"
  proof
    assume self: "pcd_repost_of_id d = Some i"
    with 11 obtain po where po: "po \<in> set (t_post d10)" "po_id po = i" "po_repost_of_id po = None"
      by (auto simp: notify_reposted_def bind_ok update_repost_count_def change_post_ok row)
    from po(1) c10 obtain q where q: "q \<in> set (t_post d3)" "po = add_reply (po_in_reply_to_id row) 1 q"
      by (auto simp: same_core_def)
    then have q': "po_id q = i" "po_repost_of_id q = None" using po(2,3) by (auto simp: add_reply_def split: if_splits)
    have "q \<noteq> ?row" using q'(2) self by auto
    with q(1) have "q \<in> set (t_post db)" by (auto simp: d3)
    with wf q'(1) show False unfolding d3 wf_db_def unique_ok_def post_keys_ok_def by (auto simp: image_iff)
  qed
  have "keeps (same_core X) (for_each ments (notify_mentioned now row ns'))" for X
    by (intro keeps_for_each core_intro)
  from keepsD [OF this c11 12] have "same_core (posted ?row db) db'"
    by (simp add: posted_def d3 row d12 o_def)
  with allowed other wf new show thesis using that unfolding d3 by blast
qed

lemma post_newD:
  assumes "post_new row author atts ments tags links emojis = Inr p"
  shows "po_author_id row = ap_id author" "is_local author \<longleftrightarrow> po_object_id row = None"
    "po_repost_of_id row = None \<or> po_in_reply_to_id row = None"
    "data_of p = \<lparr>pd_id = po_id row, pd_author = author, pd_content = po_content row,
         pd_in_reply_to_id = po_in_reply_to_id row, pd_repost_of_id = po_repost_of_id row,
         pd_visibility = po_visibility row, pd_is_sensitive = po_is_sensitive row,
         pd_reply_count = po_reply_count row, pd_reaction_count = po_reaction_count row,
         pd_repost_count = po_repost_count row, pd_attachments = atts,
         pd_mentions = ments, pd_tags = tags, pd_links = links, pd_emojis = emojis,
         pd_object_id = po_object_id row, pd_ipfs_cid = po_ipfs_cid row,
         pd_token_id = po_token_id row, pd_token_tx_id = po_token_tx_id row,
         pd_created_at = po_created_at row, pd_updated_at = po_updated_at row\<rparr>"
  using assms by (auto simp: post_new_def split: if_splits)

lemma parents_first_append:
  "parents_first seen (pos @ [po]) \<longleftrightarrow>
     parents_first seen pos \<and> opt_in (po_in_reply_to_id po) (set seen \<union> po_id ` set pos) \<and>
     opt_in (po_repost_of_id po) (set seen \<union> po_id ` set pos)"
proof (induction pos arbitrary: seen)
  case (Cons q pos)
  have "set (po_id q # seen) \<union> po_id ` set pos = set seen \<union> po_id ` set (q # pos)" by auto
  with Cons show ?case by simp
qed auto

lemma posted_tables [simp]:
  "t_relationship (posted row db) = t_relationship db" "t_post_reaction (posted row db) = t_post_reaction db"
  "t_user_account (posted row db) = t_user_account db" "t_notification (posted row db) = t_notification db"
  "t_profile_emoji (posted row db) = t_profile_emoji db" "t_emoji (posted row db) = t_emoji db"
  "next_id (posted row db) = next_id db"
  by (simp_all add: posted_def)

lemma counts_map_posts:
  assumes "post_frame f"
  shows "posts_of i (map f pos) = posts_of i pos" "replies_to i (map f pos) = replies_to i pos"
    "reposts_of i (map f pos) = reposts_of i pos" "threads_ok pos \<Longrightarrow> threads_ok (map f pos)"
    "reactions_ok pos rs \<Longrightarrow> reactions_ok (map f pos) rs"
  using counts_update_posts [OF assms, of i "\<lambda>_. True" pos] threads_ok_update [OF assms, of pos "\<lambda>_. True"]
    reactions_ok_update [OF assms, of pos rs "\<lambda>_. True"]
  by (simp_all add: update_where_True)

lemma wf_new_post:
  assumes wf: "wf_db db" and wf': "wf_db (db\<lparr>t_post := t_post db @ [row]\<rparr>)"
    and fresh: "po_in_reply_to_id row \<noteq> Some (po_id row)" "po_repost_of_id row \<noteq> Some (po_id row)"
  shows "po_id row \<notin> post_ids db" "opt_in (po_in_reply_to_id row) (post_ids db)"
    "opt_in (po_repost_of_id row) (post_ids db)" "po_author_id row \<in> profile_ids db"
    "replies_to (po_id row) (t_post db) = 0" "reposts_of (po_id row) (t_post db) = 0"
    "reactions_to (po_id row) (t_post_reaction db) = 0"
proof -
  show new: "po_id row \<notin> post_ids db"
    using wf_post_ids [OF wf'] by simp
  show "opt_in (po_in_reply_to_id row) (post_ids db)" "opt_in (po_repost_of_id row) (post_ids db)"
    "po_author_id row \<in> profile_ids db"
    using wf' fresh by (auto simp: wf_db_def foreign_keys_ok_def post_refs_ok_def opt_in_def split: option.splits)
  have refs: "opt_in (po_in_reply_to_id q) (post_ids db)" "opt_in (po_repost_of_id q) (post_ids db)"
    if "q \<in> set (t_post db)" for q
    using wf that by (auto simp: wf_db_def foreign_keys_ok_def post_refs_ok_def)
  have "po_in_reply_to_id q \<noteq> Some (po_id row)" "po_repost_of_id q \<noteq> Some (po_id row)" if "q \<in> set (t_post db)" for q
    using refs [OF that] new by auto
  then show "replies_to (po_id row) (t_post db) = 0" "reposts_of (po_id row) (t_post db) = 0"
    by (simp_all add: row_counts count_where_0_iff)
  have "pr_post_id r \<noteq> po_id row" if "r \<in> set (t_post_reaction db)" for r
  proof
    assume "pr_post_id r = po_id row"
    moreover from wf that have "pr_post_id r \<in> post_ids db"
      by (simp add: wf_db_def foreign_keys_ok_def post_refs_ok_def)
    ultimately show False using new by simp
  qed
  then show "reactions_to (po_id row) (t_post_reaction db) = 0"
    by (simp add: row_counts count_where_0_iff)
qed

lemma thread_row_ok_append:
  "po_in_reply_to_id po \<noteq> Some (po_id row) \<Longrightarrow> po_repost_of_id po \<noteq> Some (po_id row) \<Longrightarrow>
   thread_row_ok (pos @ [row]) po = thread_row_ok pos po"
  unfolding thread_row_ok_def by (simp add: ball_Un)

lemma app_inv_posted:
  assumes inv: "app_inv A C db" and wf: "wf_db db" and wf': "wf_db (db\<lparr>t_post := t_post db @ [row]\<rparr>)"
    and fresh: "po_in_reply_to_id row \<noteq> Some (po_id row)" "po_repost_of_id row \<noteq> Some (po_id row)"
    and zero: "po_reply_count row = 0" "po_reaction_count row = 0" "po_repost_count row = 0"
    and one: "po_repost_of_id row = None \<or> po_in_reply_to_id row = None"
    and reply: "\<And>q. q \<in> set (t_post db) \<Longrightarrow> po_in_reply_to_id row = Some (po_id q) \<Longrightarrow> po_repost_of_id q = None"
    and repost: "\<And>q. q \<in> set (t_post db) \<Longrightarrow> po_repost_of_id row = Some (po_id q) \<Longrightarrow>
      po_repost_of_id q = None \<and> po_visibility q = Public"
  shows "app_inv A C (posted row db)"
proof -
  note new = wf_new_post [OF wf wf' fresh] and old = app_invD [OF inv]
  let ?pos = "t_post db @ [row]"
  let ?g = "\<lambda>po. add_repost (po_repost_of_id row) 1 (add_reply (po_in_reply_to_id row) 1 po)"
  have g: "post_frame ?g"
    using add_reply_frame [of "po_in_reply_to_id row" 1] add_repost_frame [of "po_repost_of_id row" 1]
    by (simp add: post_frame_def)
  have pos: "t_post (posted row db) = map ?g ?pos" by (simp add: posted_def o_def)
  have refs: "opt_in (po_in_reply_to_id q) (post_ids db)" "opt_in (po_repost_of_id q) (post_ids db)"
    if "q \<in> set (t_post db)" for q
    using wf that by (auto simp: wf_db_def foreign_keys_ok_def post_refs_ok_def)
  have threads: "threads_ok ?pos"
    unfolding threads_ok_def parents_first_append
  proof (intro conjI ballI)
    show "parents_first [] (t_post db)" using old(4) by (simp add: threads_ok_def)
    show "opt_in (po_in_reply_to_id row) (set [] \<union> post_ids db)" "opt_in (po_repost_of_id row) (set [] \<union> post_ids db)"
      using new(2,3) by simp_all
    fix po assume "po \<in> set ?pos"
    then consider "po = row" | "po \<in> set (t_post db)" by auto
    then show "thread_row_ok ?pos po"
    proof cases
      case 1
      have "thread_row_ok (t_post db) row"
        unfolding thread_row_ok_def using one reply repost by blast
      with 1 fresh show ?thesis by (simp add: thread_row_ok_append)
    next
      case 2
      with refs [OF 2] new(1) have "po_in_reply_to_id po \<noteq> Some (po_id row)" "po_repost_of_id po \<noteq> Some (po_id row)"
        by auto
      moreover from 2 old(4) have "thread_row_ok (t_post db) po" unfolding threads_ok_def by blast
      ultimately show ?thesis by (simp add: thread_row_ok_append)
    qed
  qed
  have counters: "po_reply_count (?g po) = replies_to (po_id po) ?pos \<and>
      po_repost_count (?g po) = reposts_of (po_id po) ?pos \<and>
      po_reaction_count (?g po) = reactions_to (po_id po) (t_post_reaction db)" if "po \<in> set ?pos" for po
  proof (cases "po = row")
    case True
    with new(5-7) zero fresh show ?thesis by (auto simp: add_reply_def add_repost_def row_counts)
  next
    case False
    with that have po: "po \<in> set (t_post db)" by simp
    with old(3) have c: "po_reply_count po = replies_to (po_id po) (t_post db)"
      "po_repost_count po = reposts_of (po_id po) (t_post db)"
      "po_reaction_count po = reactions_to (po_id po) (t_post_reaction db)"
      by (simp_all add: post_counters_ok_def)
    show ?thesis
      using reply [OF po] repost [OF po] c by (auto simp: add_reply_def add_repost_def row_counts)
  qed
  have "relationship_counters_ok (t_actor_profile (posted row db)) (t_relationship (posted row db))"
    using old(1) by (simp add: posted_def relationship_counters_ok_def ball_update_where)
  moreover have "author_counters_ok (t_actor_profile (posted row db)) (t_post (posted row db))"
    unfolding pos author_counters_ok_def counts_map_posts(1) [OF g] using old(2)
    by (auto simp: posted_def author_counters_ok_def ball_update_where posts_of_def)
  moreover have "post_counters_ok (t_post (posted row db)) (t_post_reaction (posted row db))"
    unfolding pos post_counters_ok_def counts_map_posts(2,3) [OF g]
    using counters g by (simp add: post_frame_def)
  moreover have "threads_ok (t_post (posted row db))" unfolding pos by (rule counts_map_posts(4) [OF g threads])
  moreover have "reactions_ok (t_post (posted row db)) (t_post_reaction (posted row db))"
    unfolding pos
  proof (rule counts_map_posts(5) [OF g])
    show "reactions_ok ?pos (t_post_reaction (posted row db))"
      using old(5) new(7) by (auto simp: reactions_ok_def row_counts count_where_0_iff)
  qed
  ultimately show ?thesis
    using old by (simp add: app_inv_def posted_def accounts_ok_update local_names_ok_update caches_ok_update next_id_ok_def)
qed

lemma keeps_wf_create_post: "keeps wf_db (create_post now i a d)"
proof -
  have n: "keeps wf_db (create_notification now' s r p ty)" for now' s r p ty
    unfolding create_notification_def by (rule keeps_wf_execute)
  have c: "keeps wf_db (change_post j f)" for j f
    unfolding change_post_def by (auto intro!: keeps_intro)
  have "keeps wf_db (update_post_count j k)" for j k
    unfolding update_post_count_def change_profile_def by (auto intro!: keeps_intro)
  moreover have "keeps wf_db (notify_parent now p)" "keeps wf_db (notify_reposted now p ns)"
    "keeps wf_db (notify_mentioned now p ns ap)" for p ns ap
    unfolding notify_parent_def notify_reposted_def notify_mentioned_def create_notification_defs is_muted_def
      update_reply_count_def update_repost_count_def
    by (auto intro!: keeps_intro n c)
  moreover have "keeps wf_db (create_post_attachments j b xs)" "keeps wf_db (create_post_mentions j xs)"
    "keeps wf_db (create_post_tags j ts)" "keeps wf_db (create_post_links j xs)"
    "keeps wf_db (create_post_emojis j xs)" for j b xs ts
    unfolding create_post_attachments_def create_post_mentions_def create_post_tags_def
      create_post_links_def create_post_emojis_def
    by (auto intro!: keeps_intro)
  ultimately show ?thesis
    unfolding create_post_def by (intro keeps_intro)
qed

text \<open>
  A post cannot become its own parent: the post it answers is there before, so a new post with the
  same identifier is refused.
\<close>

lemma create_post_inv:
  assumes inv: "db_inv db" and run: "create_post now i a d db = (Inr p, db')"
    and parent: "pcd_in_reply_to_id d = Some i \<Longrightarrow> i \<in> post_ids db"
  shows "db_inv db'"
proof -
  from create_post_okD [OF run db_invD(2) [OF inv]] obtain author atts ments tags links emojis where
    allowed: "\<not> reply_forbidden d db" "\<not> repost_forbidden d db" and other: "pcd_repost_of_id d \<noteq> Some i" and
    wf': "wf_db (db\<lparr>t_post := t_post db @ [new_post_row i a d]\<rparr>)" and
    core: "same_core (posted (new_post_row i a d) db) db'" and
    new: "post_new (new_post_row i a d) author atts ments tags links emojis = Inr p" by blast
  have "i \<notin> post_ids db" using wf' by (auto simp: wf_db_def unique_ok_def post_keys_ok_def)
  with parent have fresh: "pcd_in_reply_to_id d \<noteq> Some i" by blast
  have "app_inv {} {} (posted (new_post_row i a d) db)"
    using post_newD(3) [OF new] allowed fresh other
    by (intro app_inv_posted db_invD(2) [OF inv] db_inv_wf [OF inv] wf')
      (auto simp: reply_forbidden_def repost_forbidden_def)
  from app_inv_same_core [OF this core] keepsD [OF keeps_wf_create_post db_inv_wf [OF inv] run]
  show ?thesis by (simp add: db_inv_def)
qed

lemma inv_create_post:
  assumes inv: "db_inv db" and parent: "pcd_in_reply_to_id d = Some i \<Longrightarrow> i \<in> post_ids db"
  shows "db_inv (snd (create_post now i a d db))"
proof (cases "create_post now i a d db")
  case (Pair r db')
  show ?thesis
  proof (cases r)
    case (Inl e)
    with Pair have "db' = db" by (auto simp: create_post_def dest: transaction_error)
    with Pair inv show ?thesis by simp
  next
    case (Inr p)
    from create_post_inv [OF inv Pair [unfolded Inr] parent] Pair show ?thesis by simp
  qed
qed

section \<open>Updating a post\<close>

lemma app_inv_insert_tags: "app_inv A C db \<Longrightarrow> app_inv A C (insert_tags ts db)"
  by (induction ts arbitrary: db) (simp_all add: app_inv_next_id)

lemma inv_parts:
  "keeps db_inv (create_post_attachments i a xs)" "keeps db_inv (create_post_mentions i xs)"
  "keeps db_inv (create_post_tags i ts)" "keeps db_inv (create_post_links i xs)"
  "keeps db_inv (create_post_emojis i xs)" "keeps db_inv (delete_post_parts i)"
proof -
  have "keeps db_inv (execute (\<lambda>db. ((), insert_tags ts db)))"
    by (rule keeps_inv_execute) (simp add: app_inv_insert_tags db_invD)
  then show "keeps db_inv (create_post_attachments i a xs)" "keeps db_inv (create_post_mentions i xs)"
    "keeps db_inv (create_post_tags i ts)" "keeps db_inv (create_post_links i xs)"
    "keeps db_inv (create_post_emojis i xs)" "keeps db_inv (delete_post_parts i)"
    unfolding create_post_attachments_def create_post_mentions_def create_post_tags_def
      create_post_links_def create_post_emojis_def delete_post_parts_def Let_def
    by (auto intro!: keeps_bind keeps_frame_execute keeps_if keeps_throw keeps_ret)
qed

text \<open>Columns of a post that no condition is about.\<close>

lemma app_inv_post_columns:
  assumes inv: "app_inv A C db" and f: "post_frame f"
    and counts: "\<And>po. po_reply_count (f po) = po_reply_count po \<and> po_repost_count (f po) = po_repost_count po \<and>
      po_reaction_count (f po) = po_reaction_count po"
  shows "app_inv A C (db\<lparr>t_post := update_where p f (t_post db)\<rparr>)"
proof -
  have "post_counters_ok (update_where p f (t_post db)) (t_post_reaction db)"
    using app_invD(3) [OF inv] counts f
    by (auto simp: post_counters_ok_def ball_update_where post_frameD)
  with inv f show ?thesis
    by (simp add: app_inv_def author_counters_ok_def threads_ok_update reactions_ok_update next_id_ok_def)
qed

lemma inv_update_post_columns:
  assumes f: "post_frame f"
    and counts: "\<And>po. po_reply_count (f po) = po_reply_count po \<and> po_repost_count (f po) = po_repost_count po \<and>
      po_reaction_count (f po) = po_reaction_count po"
  shows "keeps db_inv (execute (update_posts p f))"
    "keeps db_inv (execute (\<lambda>db. row_count (update_posts p f db)))"
  using app_inv_post_columns [OF db_invD(2) f counts] by (auto intro!: keeps_inv_execute)

lemma inv_update_post: "keeps db_inv (update_post i d)"
  unfolding update_post_def
  by (intro keeps_transaction_body keeps_bind inv_update_post_columns inv_parts keeps_opt_row keeps_ok_or keeps_ret)
    (simp_all add: post_frame_def)

lemma inv_set_post:
  "keeps db_inv (set_post_ipfs_cid i c as)" "keeps db_inv (set_post_token_id i t)"
  "keeps db_inv (set_post_token_tx_id i tx)"
  unfolding set_post_ipfs_cid_def set_post_token_id_def set_post_token_tx_id_def
  by (auto intro!: keeps_transaction_body keeps_bind inv_update_post_columns keeps_if keeps_throw keeps_ret
      keeps_for_each inv_set_attachment_ipfs_cid simp: post_frame_def split: prod.split)

section \<open>Deleting a post\<close>

text \<open>
  \<open>delete_post\<close>: the post goes with its descendants; its author and the authors of the descendants
  lose the posts, the parent loses one reply or one repost.
\<close>

abbreviation doomed_by :: "uuid \<Rightarrow> database \<Rightarrow> uuid list" where
  "doomed_by i db \<equiv> post_context (t_post db) [i]"

definition sub_authors :: "uuid list \<Rightarrow> database \<Rightarrow> db_actor_profile \<Rightarrow> db_actor_profile" where
  "sub_authors D db = (\<lambda>ap. ap\<lparr>ap_post_count := ap_post_count ap -
     count_where (\<lambda>po. po_id po \<in> set D \<and> po_author_id po = ap_id ap) (t_post db)\<rparr>)"

lemma subtract_post_counts_map:
  "subtract_post_counts D db = ((), db\<lparr>t_actor_profile := map (sub_authors D db) (t_actor_profile db)\<rparr>)"
  unfolding subtract_post_counts_def update_profiles_simps sub_authors_def
  by (subst update_where_map [of _ _ _ "\<lambda>ap. ap\<lparr>ap_post_count := ap_post_count ap -
     count_where (\<lambda>po. po_id po \<in> set D \<and> po_author_id po = ap_id ap) (t_post db)\<rparr>"])
    (auto simp: count_where_False)

lemma sub_authors_keys:
  "keeps_profile_keys (sub_authors D db)" "ap_follower_count (sub_authors D db ap) = ap_follower_count ap"
  "ap_following_count (sub_authors D db ap) = ap_following_count ap"
  "ap_subscriber_count (sub_authors D db ap) = ap_subscriber_count ap"
  by (simp_all add: sub_authors_def keeps_profile_keys_def)

lemma wf_sub_authors:
  assumes inv: "db_inv db"
  shows "wf_db (db\<lparr>t_actor_profile := map (sub_authors D db) (t_actor_profile db)\<rparr>)"
proof (rule wf_map_profiles [OF db_inv_wf [OF inv] sub_authors_keys(1)])
  fix ap assume ap: "ap \<in> set (t_actor_profile db)"
  have "count_where (\<lambda>po. po_id po \<in> set D \<and> po_author_id po = ap_id ap) (t_post db) \<le> ap_post_count ap"
    using app_invD(2) [OF db_invD(2) [OF inv]] ap
    by (auto simp: author_counters_ok_def posts_of_def intro!: count_where_mono)
  then show "lower_profile (sub_authors D db ap) ap"
    using wf_profile_row [OF db_inv_wf [OF inv] ap]
    by (auto simp: lower_profile_def sub_authors_def profile_check_def)
qed

definition unposted :: "db_post \<Rightarrow> database \<Rightarrow> database" where
  "unposted row db =
    (let D = doomed_by (po_id row) db;
         db1 = delete_post_row (po_id row) (db\<lparr>t_actor_profile := map (sub_authors D db) (t_actor_profile db)\<rparr>)
     in db1\<lparr>t_post := map (add_repost (po_repost_of_id row) (- 1)) (map (add_reply (po_in_reply_to_id row) (- 1)) (t_post db1))\<rparr>)"

lemma unposted_tables:
  fixes row :: db_post and db :: database
  defines "D \<equiv> doomed_by (po_id row) db"
  shows "t_actor_profile (unposted row db) = map (sub_authors D db) (t_actor_profile db)"
    "t_post (unposted row db) = map (\<lambda>po. add_repost (po_repost_of_id row) (- 1) (add_reply (po_in_reply_to_id row) (- 1) po))
      (delete_where (\<lambda>po. po_id po \<in> set D) (t_post db))"
    "t_relationship (unposted row db) = t_relationship db"
    "t_post_reaction (unposted row db) = delete_where (\<lambda>r. pr_post_id r \<in> set D) (t_post_reaction db)"
    "t_user_account (unposted row db) = t_user_account db"
    "t_notification (unposted row db) = delete_where (\<lambda>n. opt_mem (nt_post_id n) D) (t_notification db)"
    "t_profile_emoji (unposted row db) = t_profile_emoji db"
    "t_emoji (unposted row db) = t_emoji db" "next_id (unposted row db) = next_id db"
  by (simp_all add: unposted_def D_def Let_def delete_post_row_def delete_posts_cascade_def o_def)

lemma parents_first_split:
  "parents_first seen (pre @ rest) \<longleftrightarrow>
     parents_first seen pre \<and> parents_first (rev (map po_id pre) @ seen) rest"
  by (induction pre arbitrary: seen) auto

lemma parents_first_row:
  assumes "parents_first [] (pre @ po # rest)"
  shows "opt_in (po_in_reply_to_id po) (po_id ` set pre) \<and> opt_in (po_repost_of_id po) (po_id ` set pre)"
  using assms by (simp add: parents_first_split)

lemma parent_survives:
  assumes inv: "db_inv db" and row: "row \<in> set (t_post db)"
    and parent: "po_in_reply_to_id row = Some p \<or> po_repost_of_id row = Some p"
  shows "p \<notin> set (doomed_by (po_id row) db)"
proof
  assume "p \<in> set (doomed_by (po_id row) db)"
  then have desc: "descendant (t_post db) {po_id row} p" by (simp add: set_post_context)
  from row obtain pre rest where pos: "t_post db = pre @ row # rest" by (auto dest: split_list)
  have first: "parents_first [] (pre @ row # rest)"
    using app_invD(4) [OF db_invD(2) [OF inv]] by (simp add: threads_ok_def pos)
  have keys: "distinct (map po_id (pre @ row # rest))" using wf_post_ids [OF db_inv_wf [OF inv]] by (simp add: pos)
  have "p \<in> - (po_id ` set pre)"
  proof (rule descendant_least [OF desc])
    show "{po_id row} \<subseteq> - (po_id ` set pre)" using keys by auto
    fix po assume "po \<in> set (t_post db)"
    then consider "po \<in> set pre" | "po \<in> set (row # rest)" by (auto simp: pos)
    then show "opt_in (po_in_reply_to_id po) (- (- (po_id ` set pre))) \<and>
        opt_in (po_repost_of_id po) (- (- (po_id ` set pre))) \<or> po_id po \<in> - (po_id ` set pre)"
    proof cases
      case 1
      then obtain xs ys where pre: "pre = xs @ po # ys" by (auto dest: split_list)
      have "po_id ` set xs \<subseteq> po_id ` set pre" by (auto simp: pre)
      moreover have "opt_in (po_in_reply_to_id po) (po_id ` set xs) \<and> opt_in (po_repost_of_id po) (po_id ` set xs)"
        using first by (intro parents_first_row) (simp add: pre)
      ultimately show ?thesis by (auto intro: opt_in_mono)
    next
      case 2
      with keys show ?thesis by auto
    qed
  qed
  moreover have "p \<in> po_id ` set pre"
    using parents_first_row [OF first] parent by auto
  ultimately show False by simp
qed

lemma sub_frame: "post_frame (\<lambda>po. add_repost r d (add_reply p e po))"
  using add_reply_frame [of p e] add_repost_frame [of r d] by (simp add: post_frame_def)

lemma app_inv_unposted:
  assumes inv: "db_inv db" and row: "row \<in> set (t_post db)"
  shows "app_inv {} {} (unposted row db)"
proof -
  let ?D = "doomed_by (po_id row) db"
  let ?g = "\<lambda>po. add_repost (po_repost_of_id row) (- 1) (add_reply (po_in_reply_to_id row) (- 1) po)"
  let ?left = "delete_where (\<lambda>po. po_id po \<in> set ?D) (t_post db)"
  note t = unposted_tables [of row db] and old = app_invD [OF db_invD(2) [OF inv]] and wf = db_inv_wf [OF inv]
  note g = sub_frame [of "po_repost_of_id row" "- 1" "po_in_reply_to_id row" "- 1"]
  have row_in: "po_id row \<in> set ?D" using post_context_mono [of "[po_id row]" "t_post db"] by simp
  have child: "q \<in> set (t_post db) \<Longrightarrow> po_in_reply_to_id q = Some p \<or> po_repost_of_id q = Some p \<Longrightarrow> p \<notin> set ?D \<Longrightarrow>
      po_id q \<in> set ?D \<longleftrightarrow> q = row" for q p
    using context_member [OF wf_post_ids [OF wf] old(4) _ refl, where po = q and p = p and roots = "[po_id row]"]
      distinct_map_unique [OF wf_post_ids [OF wf] _ row, of q] by auto
  have gone: "count_where (\<lambda>q. P q \<and> po_id q \<in> set ?D) (t_post db) = (if P row then 1 else 0)"
    if "\<And>q. q \<in> set (t_post db) \<Longrightarrow> P q \<Longrightarrow> po_id q \<in> set ?D \<longleftrightarrow> q = row" for P
  proof -
    have "count_where (\<lambda>q. P q \<and> po_id q \<in> set ?D) (t_post db) = count_where (\<lambda>q. P q \<and> po_id q = po_id row) (t_post db)"
      using that distinct_map_unique [OF wf_post_ids [OF wf] _ row] by (intro count_where_cong) blast
    also have "\<dots> = (if \<exists>q \<in> set (t_post db). P q \<and> po_id q = po_id row then 1 else 0)"
      by (rule count_unique_key [OF wf_post_ids [OF wf]]) simp
    also have "(\<exists>q \<in> set (t_post db). P q \<and> po_id q = po_id row) \<longleftrightarrow> P row"
      using row distinct_map_unique [OF wf_post_ids [OF wf] _ row] by blast
    finally show ?thesis .
  qed
  have counters: "po_reply_count (?g po) = replies_to (po_id po) ?left \<and>
      po_repost_count (?g po) = reposts_of (po_id po) ?left \<and>
      po_reaction_count (?g po) = reactions_to (po_id po) (t_post_reaction (unposted row db))"
    if po: "po \<in> set (t_post db)" and alive: "po_id po \<notin> set ?D" for po
  proof -
    have c: "po_reply_count po = replies_to (po_id po) (t_post db)"
      "po_repost_count po = reposts_of (po_id po) (t_post db)"
      "po_reaction_count po = reactions_to (po_id po) (t_post_reaction db)"
      using old(3) po by (simp_all add: post_counters_ok_def)
    have row_ok: "thread_row_ok (t_post db) row" using old(4) row unfolding threads_ok_def by blast
    have "po_in_reply_to_id row = Some (po_id po) \<Longrightarrow> po_repost_of_id po = None"
      "po_repost_of_id row = Some (po_id po) \<Longrightarrow> po_repost_of_id po = None"
      using row_ok po unfolding thread_row_ok_def by blast+
    moreover have "replies_to (po_id po) ?left = replies_to (po_id po) (t_post db) -
        (if po_in_reply_to_id row = Some (po_id po) then 1 else 0)"
      unfolding replies_to_def count_where_delete using child alive by (subst gone) auto
    moreover have "reposts_of (po_id po) ?left = reposts_of (po_id po) (t_post db) -
        (if po_repost_of_id row = Some (po_id po) then 1 else 0)"
      unfolding reposts_of_def count_where_delete using child alive by (subst gone) auto
    moreover have "reactions_to (po_id po) (t_post_reaction (unposted row db)) = reactions_to (po_id po) (t_post_reaction db)"
      unfolding t reactions_to_def count_where_delete using alive by (auto simp: count_where_0_iff)
    ultimately show ?thesis using c by (auto simp: add_reply_def add_repost_def)
  qed
  have "relationship_counters_ok (t_actor_profile (unposted row db)) (t_relationship (unposted row db))"
    using old(1) unfolding t relationship_counters_ok_def by (simp add: sub_authors_def)
  moreover have "author_counters_ok (t_actor_profile (unposted row db)) (t_post (unposted row db))"
    unfolding t author_counters_ok_def counts_map_posts(1) [OF g] using old(2)
    by (auto simp: author_counters_ok_def sub_authors_def posts_of_def count_where_delete intro!: count_where_cong)
  moreover have "post_counters_ok (t_post (unposted row db)) (t_post_reaction (unposted row db))"
    unfolding t(2) post_counters_ok_def counts_map_posts(2,3) [OF g]
    using counters g by (simp add: post_frame_def)
  moreover have "threads_ok (t_post (unposted row db))"
    unfolding t by (rule counts_map_posts(4) [OF g threads_ok_delete [OF old(4) closed_post_context]])
  moreover have "reactions_ok (t_post (unposted row db)) (t_post_reaction (unposted row db))"
    unfolding t by (rule counts_map_posts(5) [OF g]) (rule reactions_ok_subset [OF old(5)]; auto)
  moreover have "accounts_ok {} (t_actor_profile (unposted row db)) (t_user_account (unposted row db))"
    using old(6) unfolding t by (auto simp: accounts_ok_def sub_authors_def is_local_def)
  moreover have "local_names_ok (t_actor_profile (unposted row db))"
    unfolding t update_where_True [symmetric] using old(7)
    by (subst local_names_update) (simp_all add: sub_authors_def is_local_def)
  moreover have "notifications_ok (t_notification (unposted row db))"
    using old(8) unfolding t by (simp add: notifications_ok_def)
  moreover have "caches_ok {} (t_actor_profile (unposted row db)) (t_profile_emoji (unposted row db)) (t_emoji (unposted row db))"
    using old(9) unfolding t by (simp add: caches_ok_def sub_authors_def)
  moreover have "next_id_ok (unposted row db)"
    using old(10) by (simp add: next_id_ok_def t)
  ultimately show ?thesis unfolding app_inv_def by blast
qed

text \<open>The counter update of the parent succeeds when the parent has a reply or repost to lose.\<close>

lemma lower_reply_run:
  assumes wf: "wf_db s"
    and parent: "\<And>p. r = Some p \<Longrightarrow> \<exists>po \<in> set (t_post s). po_id po = p \<and> po_repost_of_id po = None \<and> 1 \<le> po_reply_count po"
  shows "(case r of Some p \<Rightarrow> update_reply_count p (- 1) | None \<Rightarrow> ret ()) s =
      (Inr (), s\<lparr>t_post := map (add_reply r (- 1)) (t_post s)\<rparr>)" (is ?run)
    and "wf_db (s\<lparr>t_post := map (add_reply r (- 1)) (t_post s)\<rparr>)" (is ?wf)
proof -
  show w: ?wf
  proof (rule wf_map_posts [OF wf])
    show "keeps_post_keys (add_reply r (- 1))"
      using add_reply_frame [of r "- 1"] by (auto simp: keeps_post_keys_def add_reply_def)
    fix q assume q: "q \<in> set (t_post s)"
    have "1 \<le> po_reply_count q" if r: "r = Some (po_id q)"
    proof -
      from parent [OF r] obtain po where po: "po \<in> set (t_post s)" "po_id po = po_id q" "1 \<le> po_reply_count po" by blast
      with distinct_map_unique [OF wf_post_ids [OF wf] po(1) q] show ?thesis by simp
    qed
    with wf_post_row [OF wf q] show "lower_post (add_reply r (- 1) q) q"
      by (auto simp: lower_post_def add_reply_def post_check_def)
  qed
  show ?run
  proof (cases r)
    case None
    then show ?thesis by (simp add: ret_run)
  next
    case (Some p)
    with parent have "\<exists>po \<in> set (t_post s). po_id po = p \<and> po_repost_of_id po = None" by blast
    with Some w show ?thesis
      using add_Some(1) [of p "- 1" "t_post s"] by (simp add: update_reply_count_def change_post_ok)
  qed
qed

lemma lower_repost_run:
  assumes wf: "wf_db s"
    and parent: "\<And>p. r = Some p \<Longrightarrow> \<exists>po \<in> set (t_post s). po_id po = p \<and> po_repost_of_id po = None \<and> 1 \<le> po_repost_count po"
  shows "(case r of Some p \<Rightarrow> update_repost_count p (- 1) | None \<Rightarrow> ret ()) s =
      (Inr (), s\<lparr>t_post := map (add_repost r (- 1)) (t_post s)\<rparr>)" (is ?run)
    and "wf_db (s\<lparr>t_post := map (add_repost r (- 1)) (t_post s)\<rparr>)" (is ?wf)
proof -
  show w: ?wf
  proof (rule wf_map_posts [OF wf])
    show "keeps_post_keys (add_repost r (- 1))"
      using add_repost_frame [of r "- 1"] by (auto simp: keeps_post_keys_def add_repost_def)
    fix q assume q: "q \<in> set (t_post s)"
    have "1 \<le> po_repost_count q" if r: "r = Some (po_id q)"
    proof -
      from parent [OF r] obtain po where po: "po \<in> set (t_post s)" "po_id po = po_id q" "1 \<le> po_repost_count po" by blast
      with distinct_map_unique [OF wf_post_ids [OF wf] po(1) q] show ?thesis by simp
    qed
    with wf_post_row [OF wf q] show "lower_post (add_repost r (- 1) q) q"
      by (auto simp: lower_post_def add_repost_def post_check_def)
  qed
  show ?run
  proof (cases r)
    case None
    then show ?thesis by (simp add: ret_run)
  next
    case (Some p)
    with parent have "\<exists>po \<in> set (t_post s). po_id po = p \<and> po_repost_of_id po = None" by blast
    with Some w show ?thesis
      using add_Some(2) [of p "- 1" "t_post s"] by (simp add: update_repost_count_def change_post_ok)
  qed
qed

lemma parent_row:
  assumes inv: "db_inv db" and row: "row \<in> set (t_post db)"
    and parent: "po_in_reply_to_id row = Some p \<or> po_repost_of_id row = Some p"
  obtains po where "po \<in> set (t_post db)" "po_id po = p" "po_repost_of_id po = None"
    "po_in_reply_to_id row = Some p \<Longrightarrow> 1 \<le> po_reply_count po"
    "po_repost_of_id row = Some p \<Longrightarrow> 1 \<le> po_repost_count po"
proof -
  note old = app_invD [OF db_invD(2) [OF inv]]
  have "p \<in> post_ids db"
    using db_inv_wf [OF inv] row parent by (auto simp: wf_db_def foreign_keys_ok_def post_refs_ok_def)
  then obtain po where po: "po \<in> set (t_post db)" "po_id po = p" by auto
  have "thread_row_ok (t_post db) row" using old(4) row unfolding threads_ok_def by blast
  with po parent have "po_repost_of_id po = None" unfolding thread_row_ok_def by blast
  moreover have "1 \<le> replies_to p (t_post db)" if "po_in_reply_to_id row = Some p"
    using that row count_where_nonneg [of "\<lambda>q. po_in_reply_to_id q = Some p" "t_post db"]
      count_where_0_iff [of "\<lambda>q. po_in_reply_to_id q = Some p" "t_post db"]
    unfolding replies_to_def by (metis int_one_le_iff_zero_less order_le_less)
  moreover have "1 \<le> reposts_of p (t_post db)" if "po_repost_of_id row = Some p"
    using that row count_where_nonneg [of "\<lambda>q. po_repost_of_id q = Some p" "t_post db"]
      count_where_0_iff [of "\<lambda>q. po_repost_of_id q = Some p" "t_post db"]
    unfolding reposts_of_def by (metis int_one_le_iff_zero_less order_le_less)
  ultimately show thesis using that po old(3) unfolding post_counters_ok_def by metis
qed

lemma delete_post_run:
  assumes inv: "db_inv db" and row: "row \<in> set (t_post db)"
  obtains q where "delete_post (po_id row) db = (Inr q, unposted row db)" and "queue_unused (unposted row db) q"
    and "wf_db (unposted row db)" and "dq_files q = remdups (filter (\<lambda>f. \<not> file_in_use (unposted row db) f)
      (attachment_files (doomed_by (po_id row) db) db))"
proof -
  let ?i = "po_id row" and ?D = "doomed_by (po_id row) db"
  let ?s1 = "db\<lparr>t_actor_profile := map (sub_authors ?D db) (t_actor_profile db)\<rparr>"
  let ?s2 = "delete_post_row ?i ?s1"
  let ?s3 = "?s2\<lparr>t_post := map (add_reply (po_in_reply_to_id row) (- 1)) (t_post ?s2)\<rparr>"
  note wf1 = wf_sub_authors [OF inv, of ?D]
  have wf2: "wf_db ?s2" by (rule wf_delete_post_row [OF wf1])
  have rows: "filter (\<lambda>po. po_id po = ?i) (t_post db) = [row]"
    by (rule filter_unique_key [OF wf_post_ids [OF db_inv_wf [OF inv]] row])
  have left: "t_post ?s2 = delete_where (\<lambda>po. po_id po \<in> set ?D) (t_post db)"
    by (simp add: delete_post_row_def delete_posts_cascade_def)
  have parent: "\<exists>po \<in> set (t_post ?s2). po_id po = p \<and> po_repost_of_id po = None \<and>
      (po_in_reply_to_id row = Some p \<longrightarrow> 1 \<le> po_reply_count po) \<and> (po_repost_of_id row = Some p \<longrightarrow> 1 \<le> po_repost_count po)"
    if p: "po_in_reply_to_id row = Some p \<or> po_repost_of_id row = Some p" for p
  proof -
    from parent_row [OF inv row p] obtain po where po: "po \<in> set (t_post db)" "po_id po = p" "po_repost_of_id po = None"
      "po_in_reply_to_id row = Some p \<Longrightarrow> 1 \<le> po_reply_count po" "po_repost_of_id row = Some p \<Longrightarrow> 1 \<le> po_repost_count po"
      by metis
    with parent_survives [OF inv row p] have "po \<in> set (t_post ?s2)" by (simp add: left)
    with po show ?thesis by blast
  qed
  have reply: "\<exists>po \<in> set (t_post ?s2). po_id po = p \<and> po_repost_of_id po = None \<and> 1 \<le> po_reply_count po"
    if "po_in_reply_to_id row = Some p" for p using parent that by blast
  note step1 = lower_reply_run [where r = "po_in_reply_to_id row", OF wf2 reply]
  have repost: "\<exists>po \<in> set (t_post ?s3). po_id po = p \<and> po_repost_of_id po = None \<and> 1 \<le> po_repost_count po"
    if r: "po_repost_of_id row = Some p" for p
  proof -
    from parent r obtain po where "po \<in> set (t_post ?s2)" "po_id po = p" "po_repost_of_id po = None" "1 \<le> po_repost_count po" by blast
    then show ?thesis
      by (intro bexI [of _ "add_reply (po_in_reply_to_id row) (- 1) po"]) (auto simp: add_reply_def)
  qed
  note step2 = lower_repost_run [where r = "po_repost_of_id row", OF step1(2) repost]
  have final: "?s3\<lparr>t_post := map (add_repost (po_repost_of_id row) (- 1)) (t_post ?s3)\<rparr> = unposted row db"
    by (simp add: unposted_def Let_def)
  let ?q = "\<lparr>dq_files = remdups (filter (\<lambda>f. \<not> file_in_use (unposted row db) f) (attachment_files ?D db)),
    dq_ipfs_objects = remdups (filter (\<lambda>c. \<not> ipfs_in_use (unposted row db) c) (ipfs_objects_of ?D db))\<rparr>"
  have sub: "execute (subtract_post_counts ?D) db = (Inr (), ?s1)"
    using wf1 by (simp add: execute_run subtract_post_counts_map)
  have del: "execute (\<lambda>db. (filter (\<lambda>po. po_id po = ?i) (t_post db), delete_post_row ?i db)) ?s1 = (Inr [row], ?s2)"
    using wf2 rows by (simp add: execute_run)
  have "delete_post ?i db = (Inr ?q, unposted row db)"
    unfolding delete_post_def
    by (rule transaction_run, rule bind_step, rule query_run, simp only: rows list.map,
        rule bind_step, rule query_run, rule bind_step, rule query_run,
        rule bind_step [where m = "execute _", OF sub], rule bind_step [where m = "execute _", OF del],
        rule bind_step, rule opt_row_run(2), rule bind_step, rule ok_or_run(1),
        rule bind_step, rule step1(1), assumption, rule bind_step, rule step2(1), assumption, assumption,
        unfold final, rule bind_step, rule find_orphaned_run(1), rule bind_step, rule find_orphaned_run(2))
      (rule ret_run)
  moreover have "queue_unused (unposted row db) ?q" by (rule queue_unused_found)
  moreover from step2(2) have "wf_db (unposted row db)" by (simp only: final)
  ultimately show thesis by (rule that) simp
qed

lemma delete_post_missing:
  assumes inv: "db_inv db" and none: "i \<notin> post_ids db"
  shows "delete_post i db = (Inl (NotFound ''post''), db)"
proof -
  let ?D = "post_context (t_post db) []"
  let ?s1 = "db\<lparr>t_actor_profile := map (sub_authors ?D db) (t_actor_profile db)\<rparr>"
  note wf1 = wf_sub_authors [OF inv, of ?D]
  have rows: "filter (\<lambda>po. po_id po = i) (t_post db) = []" using none by (auto simp: filter_empty_conv)
  have sub: "execute (subtract_post_counts ?D) db = (Inr (), ?s1)"
    using wf1 by (simp add: execute_run subtract_post_counts_map)
  have del: "execute (\<lambda>db. (filter (\<lambda>po. po_id po = i) (t_post db), delete_post_row i db)) ?s1 =
      (Inr [], delete_post_row i ?s1)"
    using wf_delete_post_row [OF wf1] rows by (simp add: execute_run)
  show ?thesis
    unfolding delete_post_def
    by (rule transaction_fail, rule bind_step, rule query_run, simp only: rows list.map,
        rule bind_step, rule query_run, rule bind_step, rule query_run,
        rule bind_step [where m = "execute _", OF sub], rule bind_step [where m = "execute _", OF del],
        rule bind_step, rule opt_row_run(1)) (rule bind_Inl, rule ok_or_run(2))
qed

lemma delete_post_cases:
  assumes inv: "db_inv db"
  obtains "i \<notin> post_ids db" and "delete_post i db = (Inl (NotFound ''post''), db)"
    | row q where "row \<in> set (t_post db)" and "i = po_id row" and "delete_post i db = (Inr q, unposted row db)"
      and "db_inv (unposted row db)"
proof (cases "i \<in> post_ids db")
  case True
  then obtain row where row: "row \<in> set (t_post db)" "i = po_id row" by auto
  from delete_post_run [OF inv row(1)] obtain q where
    "delete_post i db = (Inr q, unposted row db)" "wf_db (unposted row db)" unfolding row(2) by metis
  with row app_inv_unposted [OF inv row(1)] show ?thesis by (intro that(2)) (auto simp: db_inv_def)
next
  case False
  with delete_post_missing [OF inv this] show ?thesis by (intro that(1))
qed

lemma inv_delete_post: "keeps db_inv (delete_post i)"
proof (rule keepsI)
  fix db r db' assume inv: "db_inv db" and run: "delete_post i db = (r, db')"
  show "db_inv db'"
    by (rule delete_post_cases [OF inv, of i]) (use inv run in auto)
qed

section \<open>Properties\<close>

lemma unposted_ids:
  "post_ids (unposted row db) = {p \<in> post_ids db. \<not> descendant (t_post db) {po_id row} p}"
proof -
  let ?D = "doomed_by (po_id row) db"
  have "post_ids (unposted row db) = po_id ` set (delete_where (\<lambda>po. po_id po \<in> set ?D) (t_post db))"
    unfolding unposted_tables set_map image_image post_frameD(1) [OF sub_frame] by (rule refl)
  then show ?thesis by (auto simp: set_post_context)
qed

text \<open>
  C15: \<open>delete_post\<close> of an existing post always succeeds. It removes the post with its replies and
  reposts at any depth and no other post, all counters of the remaining posts and profiles are
  exact afterwards, and a file is queued for deletion if and only if an attachment of a removed
  post had it and nothing uses it any more.
\<close>

theorem delete_post_correct:
  assumes "db_inv db" and "i \<in> post_ids db"
  shows "\<exists>q db'. delete_post i db = (Inr q, db') \<and> db_inv db' \<and> queue_unused db' q \<and>
    post_ids db' = {p \<in> post_ids db. \<not> descendant (t_post db) {i} p} \<and>
    profile_ids db' = profile_ids db \<and>
    (\<forall>f. f \<in> set (dq_files q) \<longleftrightarrow> \<not> file_in_use db' f \<and>
      (\<exists>a \<in> set (t_media_attachment db). \<exists>p. ma_post_id a = Some p \<and> descendant (t_post db) {i} p \<and> ma_file_name a = f))"
proof -
  from assms(2) obtain row where row: "row \<in> set (t_post db)" "i = po_id row" by auto
  from delete_post_run [OF assms(1) row(1)] obtain q where
    q: "delete_post i db = (Inr q, unposted row db)" "queue_unused (unposted row db) q" "wf_db (unposted row db)"
      "dq_files q = remdups (filter (\<lambda>f. \<not> file_in_use (unposted row db) f) (attachment_files (doomed_by i db) db))"
    unfolding row(2) by metis
  have inv: "db_inv (unposted row db)" using q(3) app_inv_unposted [OF assms(1) row(1)] by (simp add: db_inv_def)
  have "profile_ids (unposted row db) = profile_ids db"
    by (simp add: unposted_tables sub_authors_def image_image)
  moreover have "f \<in> set (dq_files q) \<longleftrightarrow> \<not> file_in_use (unposted row db) f \<and>
      (\<exists>a \<in> set (t_media_attachment db). \<exists>p. ma_post_id a = Some p \<and> descendant (t_post db) {i} p \<and> ma_file_name a = f)" for f
    unfolding q(4) attachment_files_def
    by (auto simp: opt_mem_def set_post_context image_iff split: option.splits)
  ultimately show ?thesis
    using q(1,2) inv unposted_ids [of row db] unfolding row(2) by (intro exI conjI allI) assumption+
qed

theorem delete_post_correct_witness:
  "\<exists>q db'. delete_post 11 sample_db = (Inr q, db') \<and> db_inv db' \<and> post_ids db' = {10}"
proof -
  have "11 \<in> post_ids sample_db" by (simp add: sample_tables sample_post_def)
  from delete_post_correct [OF sample_inv this] obtain q db' where
    r: "delete_post 11 sample_db = (Inr q, db')" "db_inv db'"
      "post_ids db' = {p \<in> post_ids sample_db. \<not> descendant (t_post sample_db) {11} p}"
    by (elim exE conjE) (rule that, assumption+)
  have "new_children (t_post sample_db) [11] = [12]" "new_children (t_post sample_db) [11, 12] = []"
    by (simp_all add: sample_tables sample_post_def new_children_def is_child_def)
  then have "post_context (t_post sample_db) [11] = [11, 12]"
    by (simp add: post_context.simps [of _ "[11]"] post_context.simps [of _ "[11, 12]"])
  then have "descendant (t_post sample_db) {11} p \<longleftrightarrow> p \<in> {11, 12}" for p
    using set_post_context [of "t_post sample_db" "[11]"] by auto
  moreover have "post_ids sample_db = {10, 11, 12}" by (simp add: sample_tables sample_post_def)
  ultimately have "post_ids db' = {10}" unfolding r(3) by auto
  with r(1,2) show ?thesis by blast
qed

text \<open>
  \<open>delete_post\<close> of an unknown post returns \<open>NotFound\<close> and changes nothing.
\<close>

theorem delete_post_unknown:
  assumes "db_inv db" and "i \<notin> post_ids db"
  shows "delete_post i db = (Inl (NotFound ''post''), db)"
  by (rule delete_post_missing [OF assms])

theorem delete_post_unknown_witness:
  "delete_post 99 sample_db = (Inl (NotFound ''post''), sample_db)"
  by (rule delete_post_unknown [OF sample_inv]) (simp add: sample_tables sample_post_def)

end
