(* ===== verification/Reactions.thy ===== *)
theory Reactions
  imports Post_Laws Relationship_Laws
begin

text \<open>
  Reactions to posts (\<open>fedimovies-models/src/reactions/queries.rs\<close>): what the operations do, that
  they keep the counters of the posts exact, their errors, and that deleting undoes creating.
\<close>

definition new_reaction :: "datetime \<Rightarrow> uuid \<Rightarrow> uuid \<Rightarrow> uuid \<Rightarrow> string option \<Rightarrow> db_reaction" where
  "new_reaction now reaction_id author_id post_id activity_id =
     \<lparr>pr_id = reaction_id, pr_author_id = author_id, pr_post_id = post_id,
      pr_activity_id = activity_id, pr_created_at = now\<rparr>"

text \<open>Reactions to reposts are not allowed: then the \<open>INSERT .. SELECT\<close> inserts no row.\<close>

definition insert_reaction :: "db_reaction \<Rightarrow> database \<Rightarrow> db_reaction list \<times> database" where
  "insert_reaction rx db =
     (if exists_where (\<lambda>po. po_id po = pr_post_id rx \<and> po_repost_of_id po \<noteq> None) (t_post db)
      then ([], db)
      else ([rx], db\<lparr>t_post_reaction := t_post_reaction db @ [rx]\<rparr>))"

definition create_reaction ::
    "datetime \<Rightarrow> uuid \<Rightarrow> uuid \<Rightarrow> uuid \<Rightarrow> string option \<Rightarrow> db_reaction dbm" where
  "create_reaction now reaction_id author_id post_id activity_id = transaction (
     bind (execute_catching ''reaction'' (insert_reaction (new_reaction now reaction_id author_id post_id activity_id)))
     (\<lambda>rows.
     bind (opt_row rows) (\<lambda>maybe_row.
     bind (ok_or maybe_row (NotFound ''post'')) (\<lambda>reaction.
     bind (update_reaction_count post_id 1) (\<lambda>_.
     bind (get_post_author post_id) (\<lambda>post_author.
     bind (when_do (is_local post_author \<and> ap_id post_author \<noteq> author_id)
        (create_reaction_notification now author_id (ap_id post_author) post_id)) (\<lambda>_.
     ret reaction)))))))"

definition get_reaction_by_remote_activity_id :: "string \<Rightarrow> db_reaction dbm" where
  "get_reaction_by_remote_activity_id activity_id =
     bind (query_opt (\<lambda>db. filter (\<lambda>r. pr_activity_id r = Some activity_id) (t_post_reaction db)))
     (\<lambda>maybe_row. ok_or maybe_row (NotFound ''reaction''))"

definition reaction_row :: "uuid \<Rightarrow> uuid \<Rightarrow> db_reaction \<Rightarrow> bool" where
  "reaction_row author_id post_id r \<longleftrightarrow> pr_author_id r = author_id \<and> pr_post_id r = post_id"

definition delete_reaction_row :: "uuid \<Rightarrow> uuid \<Rightarrow> database \<Rightarrow> db_reaction list \<times> database" where
  "delete_reaction_row author_id post_id db =
     (filter (reaction_row author_id post_id) (t_post_reaction db),
      db\<lparr>t_post_reaction := delete_where (reaction_row author_id post_id) (t_post_reaction db)\<rparr>)"

definition delete_reaction :: "uuid \<Rightarrow> uuid \<Rightarrow> uuid dbm" where
  "delete_reaction author_id post_id = transaction (
     bind (execute (delete_reaction_row author_id post_id)) (\<lambda>rows.
     bind (opt_row rows) (\<lambda>maybe_row.
     bind (ok_or maybe_row (NotFound ''reaction'')) (\<lambda>row.
     bind (update_reaction_count post_id (- 1)) (\<lambda>_.
     ret (pr_id row))))))"

definition find_favourited_by_user :: "uuid \<Rightarrow> uuid list \<Rightarrow> uuid list dbm" where
  "find_favourited_by_user user_id posts_ids =
     query (\<lambda>db. map pr_post_id
       (filter (\<lambda>r. pr_author_id r = user_id \<and> pr_post_id r \<in> set posts_ids) (t_post_reaction db)))"

section \<open>What they keep\<close>

definition bump_reaction :: "uuid \<Rightarrow> int \<Rightarrow> db_post list \<Rightarrow> db_post list" where
  "bump_reaction i d = update_where (\<lambda>po. po_id po = i \<and> po_repost_of_id po = None)
     (\<lambda>po. po\<lparr>po_reaction_count := po_reaction_count po + d\<rparr>)"

lemma reaction_frame: "post_frame (\<lambda>po. po\<lparr>po_reaction_count := po_reaction_count po + d\<rparr>)"
  by (simp add: post_frame_def)

lemma app_inv_reactions:
  assumes inv: "app_inv A C db"
    and count: "\<And>p. reactions_to p rs = reactions_to p (t_post_reaction db) + (if p = i then d else 0)"
    and ok: "reactions_ok (t_post db) rs"
    and target: "\<And>po. po \<in> set (t_post db) \<Longrightarrow> po_id po = i \<Longrightarrow> po_repost_of_id po = None"
  shows "app_inv A C (db\<lparr>t_post_reaction := rs, t_post := bump_reaction i d (t_post db)\<rparr>)"
proof -
  note frame = reaction_frame [of d]
  have "post_counters_ok (bump_reaction i d (t_post db)) rs"
    using app_invD(3) [OF inv] target frame
    by (auto simp: post_counters_ok_def bump_reaction_def ball_update_where count)
  moreover have "reactions_ok (bump_reaction i d (t_post db)) rs"
    using ok frame by (simp add: bump_reaction_def reactions_ok_update)
  ultimately show ?thesis
    using inv frame
    by (simp add: app_inv_def author_counters_ok_def threads_ok_update next_id_ok_def bump_reaction_def)
qed

lemma update_reaction_count_ok:
  "update_reaction_count i d db = (Inr u, db') \<longleftrightarrow>
     (\<exists>po \<in> set (t_post db). po_id po = i \<and> po_repost_of_id po = None) \<and> wf_db db' \<and>
     db' = db\<lparr>t_post := bump_reaction i d (t_post db)\<rparr>"
  by (simp add: update_reaction_count_def change_post_ok bump_reaction_def)

definition reacted :: "db_reaction \<Rightarrow> database \<Rightarrow> database" where
  "reacted rx db = db\<lparr>t_post_reaction := t_post_reaction db @ [rx],
     t_post := bump_reaction (pr_post_id rx) 1 (t_post db)\<rparr>"

lemma post_id_unique:
  "wf_db db \<Longrightarrow> po \<in> set (t_post db) \<Longrightarrow> q \<in> set (t_post db) \<Longrightarrow> po_id po = po_id q \<Longrightarrow> po = q"
  by (rule distinct_map_unique [OF wf_post_ids])

lemma app_inv_reacted:
  assumes inv: "app_inv A C db"
    and target: "\<And>po. po \<in> set (t_post db) \<Longrightarrow> po_id po = pr_post_id rx \<Longrightarrow> po_repost_of_id po = None"
  shows "app_inv A C (reacted rx db)"
  unfolding reacted_def using app_invD(5) [OF inv] target
  by (intro app_inv_reactions [OF inv]) (auto simp: reactions_to_def reactions_ok_def)

lemma wf_reaction_post: "wf_db db \<Longrightarrow> r \<in> set (t_post_reaction db) \<Longrightarrow> pr_post_id r \<in> post_ids db"
  by (simp add: wf_db_def foreign_keys_ok_def post_refs_ok_def)

text \<open>A run of \<open>create_reaction\<close> that succeeds.\<close>

lemma create_reaction_okD:
  assumes run: "create_reaction now i a p act db = (Inr r, db')"
  obtains author where "r = new_reaction now i a p act"
    and "\<And>po. po \<in> set (t_post db) \<Longrightarrow> po_id po = p \<Longrightarrow> po_repost_of_id po = None"
    and "author \<in> set (t_actor_profile db)" and "wf_db db'"
    and "db' = (if is_local author \<and> ap_id author \<noteq> a
        then add_notification (new_notification now a (ap_id author) (Some p) Event_Reaction (reacted r db)) (reacted r db)
        else reacted r db)"
proof -
  let ?rx = "new_reaction now i a p act"
  from run [unfolded create_reaction_def transaction_ok] obtain rows d1 mr d2 rx d3 d4 author d5 d6 where
    1: "execute_catching ''reaction'' (insert_reaction ?rx) db = (Inr rows, d1)" and
    2: "opt_row rows d1 = (Inr mr, d2)" and 3: "ok_or mr (NotFound ''post'') d2 = (Inr rx, d3)" and
    4: "update_reaction_count p 1 d3 = (Inr (), d4)" and 5: "get_post_author p d4 = (Inr author, d5)" and
    6: "when_do (is_local author \<and> ap_id author \<noteq> a) (create_reaction_notification now a (ap_id author) p) d5 = (Inr (), d6)" and
    7: "(ret rx :: db_reaction dbm) d6 = (Inr r, db')"
    by - (elim bind_okE, rule that, (assumption | simp)+)
  from 2 3 have rows: "rows = [rx]" "d2 = d1" "d3 = d1" by (auto simp: db_ok)
  with 1 have rx: "rx = ?rx" and d1: "d1 = db\<lparr>t_post_reaction := t_post_reaction db @ [?rx]\<rparr>"
    and target: "\<And>po. po \<in> set (t_post db) \<Longrightarrow> po_id po = p \<Longrightarrow> po_repost_of_id po = None"
    by (auto simp: db_ok insert_reaction_def new_reaction_def split: if_splits)
  from 4 have wf4: "wf_db d4" unfolding update_reaction_count_ok by blast
  from 4 have d4: "d4 = reacted ?rx db"
    by (simp add: rows update_reaction_count_ok d1 reacted_def new_reaction_def)
  from 5 have d5: "d5 = d4" and author: "author \<in> set (t_actor_profile db)"
    by (auto simp: get_post_author_def authors_of_def db_ok d4 reacted_def dest!: arg_cong [where f = set])
  from 7 rx have r: "r = ?rx" "db' = d6" by (simp_all add: db_ok)
  show thesis
  proof (rule that [OF r(1) target author])
    show "wf_db db'"
      using 6 wf4 unfolding r d5 when_do_def create_reaction_notification_def
      by (auto simp only: create_notification_ok ret_ok split: if_splits)
    show "db' = (if is_local author \<and> ap_id author \<noteq> a
        then add_notification (new_notification now a (ap_id author) (Some p) Event_Reaction (reacted r db)) (reacted r db)
        else reacted r db)"
      using 6 by (cases "is_local author \<and> ap_id author \<noteq> a")
        (auto simp: r d5 d4 when_do_def db_ok create_reaction_notification_def)
  qed
qed

lemma create_reaction_inv:
  assumes inv: "db_inv db" and run: "create_reaction now i a p act db = (Inr r, db')"
  shows "db_inv db'"
proof (rule create_reaction_okD [OF run])
  fix author assume r: "r = new_reaction now i a p act"
    and target: "\<And>po. po \<in> set (t_post db) \<Longrightarrow> po_id po = p \<Longrightarrow> po_repost_of_id po = None"
    and wf': "wf_db db'"
    and db': "db' = (if is_local author \<and> ap_id author \<noteq> a
        then add_notification (new_notification now a (ap_id author) (Some p) Event_Reaction (reacted r db)) (reacted r db)
        else reacted r db)"
  have "app_inv {} {} (reacted r db)"
    using target by (intro app_inv_reacted db_invD(2) [OF inv]) (simp_all add: r new_reaction_def)
  then have "app_inv {} {} db'"
    using app_inv_add_notification [of "{}" "{}" "reacted r db" a "ap_id author"] unfolding db' by auto
  with wf' show ?thesis by (simp add: db_inv_def)
qed

lemma inv_create_reaction: "keeps db_inv (create_reaction now i a p act)"
  by (rule keeps_from_ok)
    (auto simp: create_reaction_def dest: transaction_error intro: create_reaction_inv [unfolded create_reaction_def])

definition unreacted :: "db_reaction \<Rightarrow> database \<Rightarrow> database" where
  "unreacted r db = db\<lparr>t_post_reaction := delete_where (reaction_row (pr_author_id r) (pr_post_id r)) (t_post_reaction db),
     t_post := bump_reaction (pr_post_id r) (- 1) (t_post db)\<rparr>"

lemma delete_reaction_okD:
  assumes run: "delete_reaction a p db = (Inr k, db')"
  obtains r where "filter (reaction_row a p) (t_post_reaction db) = [r]" and "k = pr_id r"
    and "db' = unreacted r db" and "wf_db db'"
proof -
  from run [unfolded delete_reaction_def transaction_ok] obtain rows d1 mr d2 row d3 d4 where
    1: "execute (delete_reaction_row a p) db = (Inr rows, d1)" and
    2: "opt_row rows d1 = (Inr mr, d2)" and 3: "ok_or mr (NotFound ''reaction'') d2 = (Inr row, d3)" and
    4: "update_reaction_count p (- 1) d3 = (Inr (), d4)" and 5: "(ret (pr_id row) :: uuid dbm) d4 = (Inr k, db')"
    by - (elim bind_okE, rule that, (assumption | simp)+)
  from 2 3 have rows: "rows = [row]" "d2 = d1" "d3 = d1" by (auto simp: db_ok)
  from 1 have f: "filter (reaction_row a p) (t_post_reaction db) = [row]"
    and d1: "d1 = db\<lparr>t_post_reaction := delete_where (reaction_row a p) (t_post_reaction db)\<rparr>"
    by (auto simp: rows db_ok delete_reaction_row_def)
  from f have "reaction_row a p row" by (auto dest!: filter_eq_ConsD)
  then have key: "pr_author_id row = a" "pr_post_id row = p" by (simp_all add: reaction_row_def)
  from 5 have r: "k = pr_id row" "d4 = db'" by (simp_all add: db_ok)
  from 4 have "wf_db d4" unfolding update_reaction_count_ok by blast
  moreover from 4 have "d4 = unreacted row db"
    by (simp add: rows update_reaction_count_ok d1 unreacted_def key)
  ultimately show thesis using f r by (intro that) simp_all
qed

lemma app_inv_unreacted:
  assumes inv: "app_inv A C db" and wf: "wf_db db" and row: "filter (reaction_row a p) (t_post_reaction db) = [r]"
  shows "app_inv A C (unreacted r db)"
proof -
  from row have r: "r \<in> set (t_post_reaction db)" "pr_author_id r = a" "pr_post_id r = p"
    by (auto dest!: filter_eq_ConsD simp: reaction_row_def)
  have "count_where (\<lambda>q. pr_post_id q = j \<and> reaction_row a p q) (t_post_reaction db) = (if j = p then 1 else 0)" for j
  proof (cases "j = p")
    case True
    have eq: "filter (\<lambda>q. pr_post_id q = p \<and> reaction_row a p q) (t_post_reaction db) = filter (reaction_row a p) (t_post_reaction db)"
      by (rule filter_cong) (auto simp: reaction_row_def)
    from True show ?thesis by (simp only: count_where_def eq row) simp
  next
    case False
    then show ?thesis by (auto simp: count_where_0_iff reaction_row_def)
  qed
  then have count: "reactions_to j (delete_where (reaction_row a p) (t_post_reaction db)) =
      reactions_to j (t_post_reaction db) + (if j = p then - 1 else 0)" for j
    by (simp add: reactions_to_def count_where_delete)
  show ?thesis
    unfolding unreacted_def r(2,3) using app_invD(5) [OF inv] r
    by (intro app_inv_reactions [OF inv count]) (auto simp: reactions_ok_def)
qed

lemma inv_delete_reaction: "keeps db_inv (delete_reaction a p)"
proof (rule keeps_from_ok)
  fix db e db' assume "delete_reaction a p db = (Inl e, db')"
  then show "db' = db" by (auto simp: delete_reaction_def dest: transaction_error)
next
  fix db k db' assume inv: "db_inv db" and "delete_reaction a p db = (Inr k, db')"
  from this(2) show "db_inv db'"
    by (rule delete_reaction_okD) (use inv in \<open>simp add: db_inv_def app_inv_unreacted\<close>)
qed

section \<open>When they succeed\<close>

lemma wf_new_reaction:
  assumes wf: "wf_db db" and "pr_author_id rx \<in> profile_ids db" "pr_post_id rx \<in> post_ids db"
    and "pr_id rx \<notin> pr_id ` set (t_post_reaction db)"
    and "pr_activity_id rx = None \<or> pr_activity_id rx \<notin> pr_activity_id ` set (t_post_reaction db)"
    and "\<not> exists_where (reaction_row (pr_author_id rx) (pr_post_id rx)) (t_post_reaction db)"
  shows "wf_db (db\<lparr>t_post_reaction := t_post_reaction db @ [rx]\<rparr>)"
proof -
  let ?db = "db\<lparr>t_post_reaction := t_post_reaction db @ [rx]\<rparr>"
  have "ranges_ok ?db" "checks_ok ?db"
    using wf by (simp_all add: wf_db_def ranges_ok_def checks_ok_def)
  moreover have "unique_by pr_activity_id (t_post_reaction db @ [rx])"
    using wf assms(5) by (auto simp: wf_db_def unique_ok_def reaction_keys_ok_def image_iff)
  then have "unique_ok ?db"
    using wf assms(4,6)
    by (auto simp: wf_db_def unique_ok_def reaction_keys_ok_def token_keys_ok_def misc_keys_ok_def
        reaction_row_def reaction_key_def)
  moreover have "foreign_keys_ok ?db"
    using wf assms(2,3)
    by (simp add: wf_db_def foreign_keys_ok_def profile_refs_ok_def user_refs_ok_def post_refs_ok_def)
  ultimately show ?thesis by (simp add: wf_db_def)
qed

lemma wf_bump_reaction:
  assumes wf: "wf_db db"
    and row: "\<And>po. po \<in> set (t_post db) \<Longrightarrow> po_id po = i \<Longrightarrow> 0 \<le> po_reaction_count po + d \<and> po_reaction_count po + d \<le> 2 ^ 31 - 1"
  shows "wf_db (db\<lparr>t_post := bump_reaction i d (t_post db)\<rparr>)"
  unfolding bump_reaction_def
proof (rule wf_update_posts [OF wf])
  fix po assume "po \<in> set (t_post db)" and "po_id po = i \<and> po_repost_of_id po = None"
  with row [of po] wf_post_row [OF wf this(1)]
  show "post_check (po\<lparr>po_reaction_count := po_reaction_count po + d\<rparr>) \<and>
      post_counts_in_range (po\<lparr>po_reaction_count := po_reaction_count po + d\<rparr>)"
    by (auto simp: post_check_def post_counts_in_range_def i32_in_range_def)
qed simp

lemma get_post_author_run:
  assumes wf: "wf_db db" and po: "po \<in> set (t_post db)"
  obtains author where "get_post_author (po_id po) db = (Inr author, db)" and "author \<in> set (t_actor_profile db)"
    and "ap_id author = po_author_id po"
proof -
  have "po_author_id po \<in> profile_ids db"
    using wf po by (simp add: wf_db_def foreign_keys_ok_def post_refs_ok_def)
  then obtain author where a: "filter (\<lambda>ap. ap_id ap = po_author_id po) (t_actor_profile db) = [author]"
    "author \<in> set (t_actor_profile db)" "ap_id author = po_author_id po"
    by (rule profile_row_exists [OF wf])
  moreover have "filter (\<lambda>q. po_id q = po_id po) (t_post db) = [po]"
    by (rule filter_unique_key [OF wf_post_ids [OF wf] po])
  ultimately have "authors_of (po_id po) db = [author]" by (simp add: authors_of_def)
  then have "get_post_author (po_id po) db = (Inr author, db)"
    by (simp add: get_post_author_def bind_def db_run)
  with a that show thesis by blast
qed

lemma create_reaction_run:
  assumes inv: "db_inv db" and a: "a \<in> profile_ids db" and po: "po \<in> set (t_post db)" "po_repost_of_id po = None"
    and fresh: "i \<notin> pr_id ` set (t_post_reaction db)" "act = None \<or> act \<notin> pr_activity_id ` set (t_post_reaction db)"
    and new: "\<not> exists_where (reaction_row a (po_id po)) (t_post_reaction db)"
    and room: "po_reaction_count po < 2 ^ 31 - 1"
  obtains author db' where "create_reaction now i a (po_id po) act db = (Inr (new_reaction now i a (po_id po) act), db')"
    and "author \<in> set (t_actor_profile db)" and "ap_id author = po_author_id po"
    and "db' = (if is_local author \<and> ap_id author \<noteq> a
        then add_notification (new_notification now a (ap_id author) (Some (po_id po)) Event_Reaction
          (reacted (new_reaction now i a (po_id po) act) db)) (reacted (new_reaction now i a (po_id po) act) db)
        else reacted (new_reaction now i a (po_id po) act) db)"
proof -
  note wf = db_inv_wf [OF inv] and app = db_invD(2) [OF inv]
  let ?rx = "new_reaction now i a (po_id po) act"
  let ?d1 = "db\<lparr>t_post_reaction := t_post_reaction db @ [?rx]\<rparr>"
  let ?d2 = "reacted ?rx db"
  have rx: "pr_post_id ?rx = po_id po" "pr_author_id ?rx = a" by (simp_all add: new_reaction_def)
  have target: "q \<in> set (t_post db) \<Longrightarrow> po_id q = po_id po \<Longrightarrow> po_repost_of_id q = None" for q
    using post_id_unique [OF wf _ po(1), of q] po(2) by simp
  have wf1: "wf_db ?d1"
    using a po fresh new by (intro wf_new_reaction [OF wf]) (simp_all add: new_reaction_def)
  have pos: "0 \<le> po_reaction_count po" using wf_post_row [OF wf po(1)] by (simp add: post_check_def)
  have "0 \<le> po_reaction_count q + 1 \<and> po_reaction_count q + 1 \<le> 2 ^ 31 - 1"
    if "q \<in> set (t_post db)" "po_id q = po_id po" for q
    using post_id_unique [OF wf that(1) po(1) that(2)] room pos by simp
  then have wf2: "wf_db ?d2"
    using wf_bump_reaction [OF wf1, of "po_id po" 1] by (simp add: reacted_def rx)
  have pos2: "\<exists>q \<in> set (t_post ?d2). q = po\<lparr>po_reaction_count := po_reaction_count po + 1\<rparr>"
    using po unfolding reacted_def bump_reaction_def rx
    by (auto simp: in_update_where intro!: bexI [of _ po])
  have 1: "execute_catching ''reaction'' (insert_reaction ?rx) db = (Inr [?rx], ?d1)"
    using wf1 target by (auto simp: db_ok insert_reaction_def rx)
  have 2: "update_reaction_count (po_id po) 1 ?d1 = (Inr (), ?d2)"
    using wf2 po by (auto simp: update_reaction_count_ok reacted_def rx)
  obtain author where 3: "get_post_author (po_id po) ?d2 = (Inr author, ?d2)"
    and author: "author \<in> set (t_actor_profile db)" "ap_id author = po_author_id po"
    using get_post_author_run [OF wf2, of "po\<lparr>po_reaction_count := po_reaction_count po + 1\<rparr>"] pos2
    by (auto simp: reacted_def)
  let ?d3 = "if is_local author \<and> ap_id author \<noteq> a
    then add_notification (new_notification now a (ap_id author) (Some (po_id po)) Event_Reaction ?d2) ?d2 else ?d2"
  have "wf_db (add_notification (new_notification now a (ap_id author) (Some (po_id po)) Event_Reaction ?d2) ?d2)"
    if "is_local author"
  proof (rule wf_add_notification [OF wf2])
    show "a \<in> profile_ids ?d2" using a by (simp add: reacted_def)
    show "ap_id author \<in> user_ids ?d2"
      using app_invD(6) [OF app] author(1) that by (auto simp: accounts_ok_def reacted_def)
    have "po_id po \<in> post_ids ?d2" using pos2 by (auto intro!: rev_image_eqI)
    then show "opt_in (Some (po_id po)) (post_ids ?d2)" by simp
    show "next_id_ok ?d2" using app_invD(10) [OF app] by (simp add: reacted_def next_id_ok_def)
  qed
  then have 4: "when_do (is_local author \<and> ap_id author \<noteq> a)
      (create_reaction_notification now a (ap_id author) (po_id po)) ?d2 = (Inr (), ?d3)"
    by (auto simp: when_do_def ret_run create_reaction_notification_def create_notification_ok)
  have "create_reaction now i a (po_id po) act db = (Inr ?rx, ?d3)"
    unfolding create_reaction_def
    by (rule transaction_run, rule bind_step, rule 1, rule bind_step, rule opt_row_run(2), rule bind_step, rule ok_or_run(1),
        rule bind_step, rule 2, rule bind_step, rule 3, rule bind_step, rule 4, rule ret_run)
  then show thesis using author by (rule that) simp
qed

section \<open>Properties\<close>

lemma wf_posts_same_reaction: "wf_db db \<Longrightarrow> violated (snd (insert_reaction rx db)) = Some Unique_violation"
  if "\<not> exists_where (\<lambda>po. po_id po = pr_post_id rx \<and> po_repost_of_id po \<noteq> None) (t_post db)"
    and "exists_where (reaction_row (pr_author_id rx) (pr_post_id rx)) (t_post_reaction db)"
proof -
  assume wf: "wf_db db"
  let ?db = "snd (insert_reaction rx db)"
  have db: "?db = db\<lparr>t_post_reaction := t_post_reaction db @ [rx]\<rparr>" using that(1) by (auto simp: insert_reaction_def)
  have "ranges_ok ?db" "checks_ok ?db" unfolding db using wf by (simp_all add: wf_db_def ranges_ok_def checks_ok_def)
  moreover have "reaction_key rx \<in> reaction_key ` set (t_post_reaction db)"
    using that(2) by (auto simp: reaction_row_def reaction_key_def intro: rev_image_eqI)
  then have "\<not> unique_ok ?db" unfolding db unique_ok_def reaction_keys_ok_def by simp
  ultimately show ?thesis by (simp add: violated_def)
qed

lemma create_reaction_cases:
  assumes inv: "db_inv db" and a: "a \<in> profile_ids db" and po: "po \<in> set (t_post db)"
    and fresh: "i \<notin> pr_id ` set (t_post_reaction db)" "act = None \<or> act \<notin> pr_activity_id ` set (t_post_reaction db)"
    and room: "po_reaction_count po < 2 ^ 31 - 1"
  shows "if po_repost_of_id po \<noteq> None
    then create_reaction now i a (po_id po) act db = (Inl (NotFound ''post''), db)
    else if exists_where (reaction_row a (po_id po)) (t_post_reaction db)
    then create_reaction now i a (po_id po) act db = (Inl (AlreadyExists ''reaction''), db)
    else \<exists>db'. create_reaction now i a (po_id po) act db = (Inr (new_reaction now i a (po_id po) act), db') \<and>
        db_inv db' \<and> t_post_reaction db' = t_post_reaction db @ [new_reaction now i a (po_id po) act] \<and>
        map nt_recipient_id (t_notification db') = map nt_recipient_id (t_notification db) @
          (if po_author_id po \<in> user_ids db \<and> po_author_id po \<noteq> a then [po_author_id po] else [])"
proof -
  let ?rx = "new_reaction now i a (po_id po) act"
  note wf = db_inv_wf [OF inv]
  have rx: "pr_post_id ?rx = po_id po" "pr_author_id ?rx = a" by (simp_all add: new_reaction_def)
  consider "po_repost_of_id po \<noteq> None"
    | "po_repost_of_id po = None" "exists_where (reaction_row a (po_id po)) (t_post_reaction db)"
    | "po_repost_of_id po = None" "\<not> exists_where (reaction_row a (po_id po)) (t_post_reaction db)" by blast
  then show ?thesis
  proof cases
    case 1
    with po have "insert_reaction ?rx db = ([], db)" by (auto simp: insert_reaction_def rx)
    then have "execute_catching ''reaction'' (insert_reaction ?rx) db = (Inr [], db)" using wf by (simp add: db_ok)
    with 1 show ?thesis
      by (simp add: create_reaction_def transaction_def bind_def opt_row_def ok_or_def ret_def throw_def)
  next
    case 2
    have "\<not> exists_where (\<lambda>q. po_id q = pr_post_id ?rx \<and> po_repost_of_id q \<noteq> None) (t_post db)"
      using post_id_unique [OF wf _ po] 2(1) by (auto simp: rx)
    from wf_posts_same_reaction [OF this _ wf] 2(2)
    have "violated (snd (insert_reaction ?rx db)) = Some Unique_violation" by (simp add: rx)
    from execute_catching_fail [where f = "insert_reaction ?rx" and t = "''reaction''", OF this] 2 show ?thesis
      by (simp add: rx create_reaction_def transaction_def bind_def catch_unique_violation_def)
  next
    case 3
    obtain author db' where run: "create_reaction now i a (po_id po) act db = (Inr ?rx, db')"
      and author: "author \<in> set (t_actor_profile db)" "ap_id author = po_author_id po"
      and db': "db' = (if is_local author \<and> ap_id author \<noteq> a
        then add_notification (new_notification now a (ap_id author) (Some (po_id po)) Event_Reaction
          (reacted ?rx db)) (reacted ?rx db) else reacted ?rx db)"
      by (rule create_reaction_run [OF inv a po 3(1) fresh 3(2) room])
    have "is_local author \<longleftrightarrow> po_author_id po \<in> user_ids db"
      using app_invD(6) [OF db_invD(2) [OF inv]] author by (auto simp: accounts_ok_def)
    then have "map nt_recipient_id (t_notification db') = map nt_recipient_id (t_notification db) @
          (if po_author_id po \<in> user_ids db \<and> po_author_id po \<noteq> a then [po_author_id po] else [])"
      and "t_post_reaction db' = t_post_reaction db @ [?rx]"
      unfolding db' author(2) by (auto simp: add_notification_def new_notification_def reacted_def)
    with 3 run create_reaction_inv [OF inv run] show ?thesis by auto
  qed
qed

text \<open>
  C37: \<open>create_reaction\<close>: a repost cannot be reacted to (\<open>NotFound\<close>), a second reaction of the same
  profile is refused with \<open>AlreadyExists\<close>, and otherwise the reaction is stored, the counter of the
  post stays exact, and the author of the post is notified when it is a local account other than
  the one that reacts. The errors change nothing.
\<close>

theorem create_reaction_correct:
  assumes "db_inv db" and "a \<in> profile_ids db" and "po \<in> set (t_post db)"
    and "i \<notin> pr_id ` set (t_post_reaction db)" and "act = None \<or> act \<notin> pr_activity_id ` set (t_post_reaction db)"
    and "po_reaction_count po < 2 ^ 31 - 1"
  shows "if po_repost_of_id po \<noteq> None
    then create_reaction now i a (po_id po) act db = (Inl (NotFound ''post''), db)
    else if exists_where (reaction_row a (po_id po)) (t_post_reaction db)
    then create_reaction now i a (po_id po) act db = (Inl (AlreadyExists ''reaction''), db)
    else \<exists>db'. create_reaction now i a (po_id po) act db = (Inr (new_reaction now i a (po_id po) act), db') \<and>
        db_inv db' \<and> t_post_reaction db' = t_post_reaction db @ [new_reaction now i a (po_id po) act] \<and>
        map nt_recipient_id (t_notification db') = map nt_recipient_id (t_notification db) @
          (if po_author_id po \<in> user_ids db \<and> po_author_id po \<noteq> a then [po_author_id po] else [])"
  by (rule create_reaction_cases [OF assms])

theorem create_reaction_correct_witness:
  "(\<exists>db'. create_reaction 0 21 2 12 None sample_db = (Inr (new_reaction 0 21 2 12 None), db') \<and> db_inv db' \<and>
      map nt_recipient_id (t_notification db') = [1]) \<and>
   create_reaction 0 21 2 10 None sample_db = (Inl (AlreadyExists ''reaction''), sample_db)"
proof -
  let ?r = "\<lparr>pr_id = 20, pr_author_id = 2, pr_post_id = 10, pr_activity_id = None, pr_created_at = 0\<rparr>"
  have rs: "t_post_reaction sample_db = [?r]" by (simp add: sample_db_def empty_database_def)
  have 1: "2 \<in> profile_ids sample_db" "1 \<in> user_ids sample_db" "21 \<notin> pr_id ` set (t_post_reaction sample_db)"
    by (simp_all add: sample_tables rs sample_profile_def sample_user_def)
  have 2: "sample_post 12 1 (Some 11) Direct 0 0 \<in> set (t_post sample_db)" "sample_post 10 1 None Public 1 1 \<in> set (t_post sample_db)"
    by (simp_all add: sample_tables)
  have 3: "po_reaction_count (sample_post 12 1 (Some 11) Direct 0 0) < 2 ^ 31 - 1"
    "po_reaction_count (sample_post 10 1 None Public 1 1) < 2 ^ 31 - 1" by (simp_all add: sample_post_def)
  note t = create_reaction_correct [OF sample_inv 1(1) 2(1) 1(3) _ 3(1), of None 0]
    create_reaction_correct [OF sample_inv 1(1) 2(2) 1(3) _ 3(2), of None 0]
  have post: "po_id (sample_post i a p v m n) = i" "po_author_id (sample_post i a p v m n) = a"
    "po_repost_of_id (sample_post i a p v m n) = None" for i a p v m n by (simp_all add: sample_post_def)
  show ?thesis
    using t 1(2) by (auto simp: post rs reaction_row_def sample_tables)
qed

text \<open>
  \<open>delete_reaction\<close> right after \<open>create_reaction\<close> by the same profile returns the identifier of the
  new reaction and restores the reactions and the posts with their counters.
\<close>

theorem delete_reaction_undoes_create:
  assumes "db_inv db" and "create_reaction now i a p act db = (Inr r, db1)"
  shows "\<exists>db2. delete_reaction a p db1 = (Inr i, db2) \<and> db_inv db2 \<and>
    t_post_reaction db2 = t_post_reaction db \<and> t_post db2 = t_post db"
proof (rule create_reaction_okD [OF assms(2)])
  fix author assume r: "r = new_reaction now i a p act"
    and target: "\<And>po. po \<in> set (t_post db) \<Longrightarrow> po_id po = p \<Longrightarrow> po_repost_of_id po = None"
    and wf1: "wf_db db1"
    and db1: "db1 = (if is_local author \<and> ap_id author \<noteq> a
        then add_notification (new_notification now a (ap_id author) (Some p) Event_Reaction (reacted r db)) (reacted r db)
        else reacted r db)"
  note inv1 = create_reaction_inv [OF assms]
  have rx: "pr_post_id r = p" "pr_author_id r = a" "pr_id r = i" by (simp_all add: r new_reaction_def)
  have t1: "t_post_reaction db1 = t_post_reaction db @ [r]" "t_post db1 = bump_reaction p 1 (t_post db)"
    by (auto simp: db1 add_notification_def reacted_def rx)
  have only: "\<not> reaction_row a p q" if "q \<in> set (t_post_reaction db)" for q
    using wf1 that by (auto simp: wf_db_def unique_ok_def reaction_keys_ok_def t1 reaction_row_def reaction_key_def rx image_iff)
  then have left: "filter (reaction_row a p) (t_post_reaction db1) = [r]"
    "delete_where (reaction_row a p) (t_post_reaction db1) = t_post_reaction db"
    by (auto simp: t1 reaction_row_def rx filter_empty_conv delete_where_def)
  have "bump_reaction p (- 1) (t_post db1) = t_post db"
    by (auto simp: t1 bump_reaction_def update_where_def intro!: map_idI)
  then have db2: "t_post_reaction (unreacted r db1) = t_post_reaction db" "t_post (unreacted r db1) = t_post db"
    by (simp_all add: unreacted_def rx left)
  have exists: "\<exists>po \<in> set (t_post db1). po_id po = p \<and> po_repost_of_id po = None"
  proof -
    have "p \<in> post_ids db1" using wf_reaction_post [OF wf1, of r] by (simp add: t1(1) rx)
    then obtain q where q: "q \<in> set (t_post db1)" "po_id q = p" by blast
    from q(1) obtain q0 where "q0 \<in> set (t_post db)"
      "q = (if po_id q0 = p \<and> po_repost_of_id q0 = None
        then q0\<lparr>po_reaction_count := po_reaction_count q0 + 1\<rparr> else q0)"
      unfolding t1(2) bump_reaction_def in_update_where by blast
    with q target [of q0] show ?thesis by (intro bexI [of _ q]) (auto split: if_splits)
  qed
  have wfd: "wf_db (db1\<lparr>t_post_reaction := delete_where (reaction_row a p) (t_post_reaction db1)\<rparr>)"
    using wf1 by (simp add: wf_db_def ranges_ok_def checks_ok_def unique_ok_def token_keys_ok_def misc_keys_ok_def
        foreign_keys_ok_def profile_refs_ok_def user_refs_ok_def post_refs_ok_def)
  have row: "0 \<le> po_reaction_count q + - 1 \<and> po_reaction_count q + - 1 \<le> 2 ^ 31 - 1"
    if "q \<in> set (t_post db1)" "po_id q = p" for q
  proof -
    have "po_reaction_count q = reactions_to p (t_post_reaction db) + 1"
      using app_invD(3) [OF db_invD(2) [OF inv1]] that by (simp add: post_counters_ok_def t1 reactions_to_def rx)
    moreover have "0 \<le> reactions_to p (t_post_reaction db)" by (simp add: reactions_to_def)
    ultimately show ?thesis using wf_post_row [OF wf1 that(1)] by (simp add: post_counts_in_range_def i32_in_range_def)
  qed
  have wf2: "wf_db (unreacted r db1)"
    using wf_bump_reaction [OF wfd, of p "- 1"] row by (simp add: unreacted_def rx)
  have 1: "execute (delete_reaction_row a p) db1 = (Inr [r], db1\<lparr>t_post_reaction := delete_where (reaction_row a p) (t_post_reaction db1)\<rparr>)"
    using wfd left by (simp add: db_ok delete_reaction_row_def)
  have 2: "update_reaction_count p (- 1) (db1\<lparr>t_post_reaction := delete_where (reaction_row a p) (t_post_reaction db1)\<rparr>) =
      (Inr (), unreacted r db1)"
    using exists wf2 by (simp add: update_reaction_count_ok unreacted_def rx)
  have run: "delete_reaction a p db1 = (Inr i, unreacted r db1)"
    unfolding delete_reaction_def
    by (rule transaction_run, rule bind_step, rule 1, rule bind_step, rule opt_row_run(2), rule bind_step, rule ok_or_run(1),
        rule bind_step, rule 2) (simp add: ret_run rx)
  from keepsD [OF inv_delete_reaction inv1 run] run db2 show ?thesis by blast
qed

theorem delete_reaction_undoes_create_witness:
  "\<exists>r db1 db2. create_reaction 0 21 2 12 None sample_db = (Inr r, db1) \<and> delete_reaction 2 12 db1 = (Inr 21, db2) \<and>
     t_post db2 = t_post sample_db"
proof -
  let ?r = "\<lparr>pr_id = 20, pr_author_id = 2, pr_post_id = 10, pr_activity_id = None, pr_created_at = 0\<rparr>"
  have rs: "t_post_reaction sample_db = [?r]" by (simp add: sample_db_def empty_database_def)
  have 1: "2 \<in> profile_ids sample_db" "21 \<notin> pr_id ` set (t_post_reaction sample_db)"
    by (simp_all add: sample_tables rs sample_profile_def)
  have 2: "sample_post 12 1 (Some 11) Direct 0 0 \<in> set (t_post sample_db)" by (simp add: sample_tables)
  have 3: "\<not> exists_where (reaction_row 2 (po_id (sample_post 12 1 (Some 11) Direct 0 0))) (t_post_reaction sample_db)"
    by (simp add: rs reaction_row_def sample_post_def)
  obtain author db1 where "create_reaction 0 21 2 (po_id (sample_post 12 1 (Some 11) Direct 0 0)) None sample_db =
      (Inr (new_reaction 0 21 2 (po_id (sample_post 12 1 (Some 11) Direct 0 0)) None), db1)"
    by (rule create_reaction_run [OF sample_inv 1(1) 2 _ 1(2) _ 3, of None 0]) (simp_all add: sample_post_def)
  then have run: "create_reaction 0 21 2 12 None sample_db = (Inr (new_reaction 0 21 2 12 None), db1)"
    by (simp add: sample_post_def)
  from delete_reaction_undoes_create [OF sample_inv run] obtain db2 where
    "delete_reaction 2 12 db1 = (Inr 21, db2)" "t_post db2 = t_post sample_db" by (elim exE conjE) (rule that)
  with run show ?thesis by (intro exI conjI)
qed

end
