(* ===== verification/System.thy ===== *)
theory System
  imports Profile_Deletion Oauth Payments Markers Queue_Laws Reactions
begin

text \<open>
  The database as a state machine: a step is a call of one of the functions that change it, with
  any arguments, whether it succeeds or not. Every database that such calls reach from the empty
  one satisfies the invariant.
\<close>

section \<open>Deletion of a profile\<close>

lemma inv_delete_profile: "keeps db_inv (delete_profile i)"
proof (rule keepsI)
  fix db r db'
  assume inv: "db_inv db" and run: "delete_profile i db = (r, db')"
  show "db_inv db'"
  proof (cases r)
    case (Inl e)
    with run inv show ?thesis by (auto simp: delete_profile_def dest: transaction_error)
  next
    case (Inr q)
    show ?thesis
    proof (cases "i \<in> profile_ids db")
      case True
      from delete_profile_run [OF inv this] run have "db' = after_delete i db" by (metis snd_conv)
      then show ?thesis using after_delete_inv [OF inv] by simp
    next
      case False
      with delete_profile_absent [OF inv] run Inr show ?thesis by simp
    qed
  qed
qed

section \<open>Steps\<close>

text \<open>
  The conditions on the arguments are what the callers see to: \<open>create_profile\<close> is called for
  remote actors (local profiles come from \<open>create_user\<close>), the name of a new account is validated,
  a new post answers a post that is
  there, and nobody is notified of their own actions.
\<close>

inductive db_step :: "database \<Rightarrow> database \<Rightarrow> bool" where
  instance_created: "db_step db (snd (create_instance h db))"
| emoji_created: "db_step db (snd (create_emoji e n h img oid t db))"
| emoji_updated: "db_step db (snd (update_emoji e img t db))"
| emoji_deleted: "db_step db (snd (delete_emoji e db))"
| profile_created: "pc_actor_json p \<noteq> None \<Longrightarrow> db_step db (snd (create_profile i now p db))"
| profile_updated: "db_step db (snd (update_profile now i pu db))"
| profile_deleted: "db_step db (snd (delete_profile i db))"
| reachability_set: "db_step db (snd (set_reachability_status now a b db))"
| code_created: "db_step db (snd (create_invite_code code now note db))"
| user_created: "username_ok (uc_username u) \<Longrightarrow> create_user i now u = Some m \<Longrightarrow> db_step db (snd (m db))"
| password_set: "db_step db (snd (set_user_password i pw db))"
| role_set: "db_step db (snd (set_user_role i r db))"
| client_config_updated: "db_step db (snd (update_client_config i n v db))"
| app_created: "db_step db (snd (create_oauth_app now od db))"
| authorized: "db_step db (snd (create_oauth_authorization c i app s t e db))"
| token_saved: "db_step db (snd (save_oauth_token i tok t e db))"
| token_deleted: "db_step db (snd (delete_oauth_token i tok db))"
| tokens_deleted: "db_step db (snd (delete_oauth_tokens i db))"
| followed: "db_step db (snd (follow now s t db))"
| unfollowed: "db_step db (snd (unfollow s t db))"
| follow_requested: "db_step db (snd (create_follow_request i s t db))"
| remote_follow_requested: "db_step db (snd (create_remote_follow_request_opt i s t a db))"
| request_accepted: "db_step db (snd (follow_request_accepted now i db))"
| request_rejected: "db_step db (snd (follow_request_rejected i db))"
| reposts_hidden: "db_step db (snd (hide_reposts s t db))"
| reposts_shown: "db_step db (snd (show_reposts s t db))"
| replies_hidden: "db_step db (snd (hide_replies s t db))"
| replies_shown: "db_step db (snd (show_replies s t db))"
| posts_muted: "db_step db (snd (mute_posts s t db))"
| posts_unmuted: "db_step db (snd (unmute_posts s t db))"
| subscribed: "db_step db (snd (subscribe s t db))"
| subscribed_opt: "db_step db (snd (subscribe_opt s t db))"
| unsubscribed: "db_step db (snd (unsubscribe s t db))"
| attachment_created: "create_attachment now i o' n s ty = Some m \<Longrightarrow> db_step db (snd (m db))"
| attachment_cid_set: "db_step db (snd (set_attachment_ipfs_cid i c db))"
| attachments_cleaned: "db_step db (snd (delete_unused_attachments t db))"
| posted: "(pcd_in_reply_to_id d = Some i \<longrightarrow> i \<in> post_ids db) \<Longrightarrow> db_step db (snd (create_post now i a d db))"
| post_updated: "db_step db (snd (update_post i pud db))"
| post_deleted: "db_step db (snd (delete_post i db))"
| post_cid_set: "db_step db (snd (set_post_ipfs_cid i c cs db))"
| post_token_set: "db_step db (snd (set_post_token_id i tid db))"
| post_tx_set: "db_step db (snd (set_post_token_tx_id i tx db))"
| reacted: "db_step db (snd (create_reaction now i a po act db))"
| reaction_deleted: "db_step db (snd (delete_reaction a po db))"
| notified: "s \<noteq> r \<Longrightarrow> db_step db (snd (create_notification now s r po ty db))"
| notification_deleted: "db_step db (snd (delete_notification n db))"
| job_enqueued: "db_step db (snd (enqueue_job i now ty v s db))"
| jobs_taken: "db_step db (snd (get_job_batch now ty n t db))"
| job_deleted: "db_step db (snd (delete_job_from_queue i db))"
| outgoing_processed: "db_step db (snd (process_outgoing_job pr ps sign send now i job db))"
| marker_written: "db_step db (snd (create_or_update_marker now i tml l db))"
| property_set: "db_step db (snd (set_internal_property n v db))"
| invoice_created: "db_step db (snd (create_invoice i now s r ch a n db))"
| invoice_set: "db_step db (snd (set_invoice_status i st db))"
| subscription_created: "create_subscription s ad r ch e t = Some m \<Longrightarrow> db_step db (snd (m db))"
| subscription_updated: "db_step db (snd (update_subscription now k e t db))"
| subscriptions_reset: "db_step db (snd (reset_subscriptions b db))"

inductive reachable :: "database \<Rightarrow> bool" where
  start: "reachable empty_database"
| step: "reachable db \<Longrightarrow> db_step db db' \<Longrightarrow> reachable db'"

lemma keeps_snd: "keeps P m \<Longrightarrow> P db \<Longrightarrow> P (snd (m db))"
  by (simp add: keeps_def)

lemma inv_create_user: "username_ok (uc_username u) \<Longrightarrow> create_user i now u = Some m \<Longrightarrow> keeps db_inv m"
  by (auto simp: create_user_def inv_create_user_body split: if_splits)

lemma inv_create_subscription: "create_subscription s ad r ch e t = Some m \<Longrightarrow> keeps db_inv m"
  by (auto simp: create_subscription_def inv_create_subscription_body split: if_splits)

lemmas operation_inv =
  inv_create_instance inv_create_emoji inv_update_emoji inv_delete_emoji inv_create_profile
  inv_update_profile inv_delete_profile inv_set_reachability_status inv_create_invite_code
  inv_create_user inv_user_changes inv_oauth inv_oauth_delete inv_follow inv_unfollow
  inv_create_follow_request inv_create_remote_follow_request inv_follow_request_accepted
  inv_follow_request_rejected inv_hide_show inv_subscribe inv_subscribe_opt inv_unsubscribe
  inv_create_attachment inv_set_attachment_ipfs_cid inv_delete_unused_attachments
  inv_update_post inv_delete_post inv_set_post inv_create_reaction inv_delete_reaction
  inv_create_notification inv_delete_notification inv_jobs inv_process_outgoing_job
  inv_create_or_update_marker inv_set_internal_property inv_invoices inv_create_subscription
  inv_update_subscription inv_reset_subscriptions

lemma step_inv: "db_step db db' \<Longrightarrow> db_inv db \<Longrightarrow> db_inv db'"
  by (induction rule: db_step.induct) ((rule inv_create_post; blast) | (rule keeps_snd; (rule operation_inv)?; assumption))+

end
