(* ===== verification/Post_Queries.thy ===== *)
theory Post_Queries
  imports Reactions
begin

text \<open>
  Reading posts: the queries of \<open>fedimovies-models/src/posts/queries.rs\<close>, their helpers in
  \<open>posts/helpers.rs\<close>, the lists of notifications and the tag search. A row of such a query is a post
  joined with its author and the arrays of its related rows.
\<close>

section \<open>Rows\<close>

record post_row =
  row_post :: db_post
  row_author :: db_actor_profile
  row_attachments :: "db_media_attachment list"
  row_mentions :: "db_actor_profile list"
  row_tags :: "string list"
  row_links :: "uuid list"
  row_emojis :: "db_emoji list"

definition related_attachments :: "uuid \<Rightarrow> database \<Rightarrow> db_media_attachment list" where
  "related_attachments i db =
     sort_key ma_created_at (filter (\<lambda>a. ma_post_id a = Some i) (t_media_attachment db))"

definition related_mentions :: "uuid \<Rightarrow> database \<Rightarrow> db_actor_profile list" where
  "related_mentions i db =
     concat (map (\<lambda>m. filter (\<lambda>ap. ap_id ap = snd m) (t_actor_profile db))
       (filter (\<lambda>m. fst m = i) (t_mention db)))"

definition related_tags :: "uuid \<Rightarrow> database \<Rightarrow> string list" where
  "related_tags i db =
     concat (map (\<lambda>m. map tg_name (filter (\<lambda>tg. tg_id tg = snd m) (t_tag db)))
       (filter (\<lambda>m. fst m = i) (t_post_tag db)))"

definition related_links :: "uuid \<Rightarrow> database \<Rightarrow> uuid list" where
  "related_links i db = map snd (filter (\<lambda>m. fst m = i) (t_post_link db))"

definition related_emojis :: "uuid \<Rightarrow> database \<Rightarrow> db_emoji list" where
  "related_emojis i db =
     concat (map (\<lambda>m. filter (\<lambda>e. em_id e = snd m) (t_emoji db))
       (filter (\<lambda>m. fst m = i) (t_post_emoji db)))"

definition row_of :: "database \<Rightarrow> db_post \<Rightarrow> db_actor_profile \<Rightarrow> post_row" where
  "row_of db po ap =
     \<lparr>row_post = po, row_author = ap, row_attachments = related_attachments (po_id po) db,
      row_mentions = related_mentions (po_id po) db, row_tags = related_tags (po_id po) db,
      row_links = related_links (po_id po) db, row_emojis = related_emojis (po_id po) db\<rparr>"

text \<open>\<open>FROM post JOIN actor_profile ON post.author_id = actor_profile.id\<close>.\<close>

definition post_rows :: "database \<Rightarrow> post_row list" where
  "post_rows db =
     concat (map (\<lambda>po. map (row_of db po) (filter (\<lambda>ap. ap_id ap = po_author_id po) (t_actor_profile db)))
       (t_post db))"

definition row_id :: "post_row \<Rightarrow> uuid" where
  "row_id r = po_id (row_post r)"

definition post_try_from :: "post_row \<Rightarrow> db_error + post" where
  "post_try_from r =
     post_new (row_post r) (row_author r) (row_attachments r) (row_mentions r) (row_tags r)
       (row_links r) (row_emojis r)"

definition query_posts :: "(database \<Rightarrow> post_row list) \<Rightarrow> post list dbm" where
  "query_posts f = bind (query f) (\<lambda>rows. collect rows (\<lambda>r. lift_result (post_try_from r)))"

definition query_post :: "(db_post \<Rightarrow> bool) \<Rightarrow> post dbm" where
  "query_post p =
     bind (query_opt (\<lambda>db. filter (\<lambda>r. p (row_post r)) (post_rows db))) (\<lambda>maybe_row.
     bind (ok_or maybe_row (NotFound ''post'')) (\<lambda>row. lift_result (post_try_from row)))"

section \<open>Visibility\<close>

text \<open>
  \<open>build_visibility_filter\<close>. A comparison with the parameter \<open>NULL\<close> is not true, so for anonymous
  users only the second disjunct can hold.
\<close>

definition mentioned :: "uuid option \<Rightarrow> uuid \<Rightarrow> database \<Rightarrow> bool" where
  "mentioned user i db \<longleftrightarrow> exists_where (\<lambda>m. fst m = i \<and> Some (snd m) = user) (t_mention db)"

definition relates :: "uuid option \<Rightarrow> uuid \<Rightarrow> relationship_type \<Rightarrow> database \<Rightarrow> bool" where
  "relates user target ty db \<longleftrightarrow>
     exists_where (\<lambda>r. Some (rl_source_id r) = user \<and> rl_target_id r = target \<and> rl_relationship_type r = ty)
       (t_relationship db)"

definition visibility_filter :: "uuid option \<Rightarrow> database \<Rightarrow> db_post \<Rightarrow> bool" where
  "visibility_filter current_user_id db po \<longleftrightarrow>
     Some (po_author_id po) = current_user_id \<or>
     po_visibility po = Public \<or>
     mentioned current_user_id (po_id po) db \<or>
     po_visibility po = Followers \<and> relates current_user_id (po_author_id po) Follow db"

section \<open>Timelines\<close>

definition written_by :: "uuid \<Rightarrow> uuid option \<Rightarrow> database \<Rightarrow> bool" where
  "written_by user i db \<longleftrightarrow> exists_where (\<lambda>po. Some (po_id po) = i \<and> po_author_id po = user) (t_post db)"

definition home_filter :: "uuid \<Rightarrow> database \<Rightarrow> db_post \<Rightarrow> bool" where
  "home_filter current_user_id db po \<longleftrightarrow>
     (po_author_id po = current_user_id \<or>
      ((relates (Some current_user_id) (po_author_id po) Follow db \<or>
        relates (Some current_user_id) (po_author_id po) Subscription db) \<and>
       (po_repost_of_id po = None \<or>
        \<not> relates (Some current_user_id) (po_author_id po) HideReposts db \<or>
        written_by current_user_id (po_repost_of_id po) db) \<and>
       (po_in_reply_to_id po = None \<or>
        \<not> relates (Some current_user_id) (po_author_id po) HideReplies db \<or>
        written_by current_user_id (po_in_reply_to_id po) db)) \<or>
      mentioned (Some current_user_id) (po_id po) db) \<and>
     \<not> relates (Some current_user_id) (po_author_id po) Mute db \<and>
     visibility_filter (Some current_user_id) db po"

definition get_home_timeline :: "uuid \<Rightarrow> uuid option \<Rightarrow> nat \<Rightarrow> post list dbm" where
  "get_home_timeline current_user_id max_post_id limit =
     query_posts (\<lambda>db. page row_id (\<lambda>r. home_filter current_user_id db (row_post r)) max_post_id limit (post_rows db))"

definition local_filter :: "post_row \<Rightarrow> bool" where
  "local_filter r \<longleftrightarrow> ap_actor_json (row_author r) = None \<and> po_visibility (row_post r) = Public"

definition get_local_timeline :: "uuid \<Rightarrow> uuid option \<Rightarrow> nat \<Rightarrow> post list dbm" where
  "get_local_timeline current_user_id max_post_id limit =
     query_posts (\<lambda>db. page row_id local_filter max_post_id limit (post_rows db))"

definition related_post_ids :: "uuid list \<Rightarrow> database \<Rightarrow> uuid list" where
  "related_post_ids posts_ids db =
     (let posts = filter (\<lambda>po. po_id po \<in> set posts_ids) (t_post db) in
      concat (map (\<lambda>po. opt_list (po_in_reply_to_id po)) posts) @
      concat (map (\<lambda>po. opt_list (po_repost_of_id po)) posts) @
      map snd (filter (\<lambda>l. fst l \<in> set posts_ids) (t_post_link db)) @
      concat (map (\<lambda>l. concat (map (\<lambda>po. if po_repost_of_id po = Some (fst l) then [snd l] else []) posts))
        (t_post_link db)))"

definition get_related_posts :: "uuid list \<Rightarrow> post list dbm" where
  "get_related_posts posts_ids =
     query_posts (\<lambda>db. filter (\<lambda>r. row_id r \<in> set (related_post_ids posts_ids db)) (post_rows db))"

text \<open>
  \<open>get_posts_by_author\<close> orders by the time of creation, while the page starts below an identifier.
\<close>

definition author_filter :: "uuid \<Rightarrow> uuid option \<Rightarrow> bool \<Rightarrow> bool \<Rightarrow> database \<Rightarrow> db_post \<Rightarrow> bool" where
  "author_filter profile_id current_user_id include_replies include_reposts db po \<longleftrightarrow>
     po_author_id po = profile_id \<and> visibility_filter current_user_id db po \<and>
     (include_replies \<or> po_in_reply_to_id po = None) \<and>
     (include_reposts \<or> po_repost_of_id po = None)"

definition get_posts_by_author ::
    "uuid \<Rightarrow> uuid option \<Rightarrow> bool \<Rightarrow> bool \<Rightarrow> uuid option \<Rightarrow> nat \<Rightarrow> post list dbm" where
  "get_posts_by_author profile_id current_user_id include_replies include_reposts max_post_id limit =
     query_posts (\<lambda>db. take limit (sort_desc (\<lambda>r. po_created_at (row_post r))
       (filter (\<lambda>r. author_filter profile_id current_user_id include_replies include_reposts db (row_post r) \<and>
          below max_post_id (row_id r)) (post_rows db))))"

definition tagged :: "string \<Rightarrow> uuid \<Rightarrow> database \<Rightarrow> bool" where
  "tagged name i db \<longleftrightarrow>
     exists_where (\<lambda>m. fst m = i \<and> exists_where (\<lambda>tg. tg_id tg = snd m \<and> tg_name tg = name) (t_tag db))
       (t_post_tag db)"

definition get_posts_by_tag :: "string \<Rightarrow> uuid option \<Rightarrow> uuid option \<Rightarrow> nat \<Rightarrow> post list dbm" where
  "get_posts_by_tag tag_name current_user_id max_post_id limit =
     query_posts (\<lambda>db. page row_id
       (\<lambda>r. tagged (to_lowercase tag_name) (row_id r) db \<and> visibility_filter current_user_id db (row_post r))
       max_post_id limit (post_rows db))"

section \<open>Single posts\<close>

definition get_post_by_id :: "uuid \<Rightarrow> post dbm" where
  "get_post_by_id post_id = query_post (\<lambda>po. po_id po = post_id)"

definition get_post_by_remote_object_id :: "string \<Rightarrow> post dbm" where
  "get_post_by_remote_object_id object_id = query_post (\<lambda>po. po_object_id po = Some object_id)"

definition get_post_by_ipfs_cid :: "string \<Rightarrow> post dbm" where
  "get_post_by_ipfs_cid ipfs_cid = query_post (\<lambda>po. po_ipfs_cid po = Some ipfs_cid)"

definition get_local_post_by_id :: "uuid \<Rightarrow> post dbm" where
  "get_local_post_by_id post_id =
     bind (get_post_by_id post_id) (\<lambda>post.
     if \<not> post_is_local post then throw (NotFound ''post'') else ret post)"

section \<open>Threads\<close>

text \<open>
  \<open>WITH RECURSIVE\<close> with a bound on the number of rounds: \<open>None\<close> is a query that does not come to
  an end. \<open>UNION ALL\<close> adds the rows of a round, \<open>UNION\<close> only the new ones.
\<close>

fun ancestors :: "nat \<Rightarrow> db_post list \<Rightarrow> db_post list \<Rightarrow> db_post list option" where
  "ancestors n pos [] = Some []"
| "ancestors 0 pos (a # as) = None"
| "ancestors (Suc n) pos (a # as) =
     map_option (append (a # as))
       (ancestors n pos (concat (map (\<lambda>b. filter (\<lambda>po. Some (po_id po) = po_in_reply_to_id b) pos) (a # as))))"

definition thread_children :: "db_post list \<Rightarrow> (uuid \<times> uuid list) list \<Rightarrow> (uuid \<times> uuid list) list" where
  "thread_children pos rows =
     concat (map (\<lambda>(i, path). map (\<lambda>po. (po_id po, path @ [po_id po]))
       (filter (\<lambda>po. po_in_reply_to_id po = Some i) pos)) rows)"

fun thread_rows ::
    "nat \<Rightarrow> db_post list \<Rightarrow> (uuid \<times> uuid list) list \<Rightarrow> (uuid \<times> uuid list) list \<Rightarrow>
     (uuid \<times> uuid list) list option" where
  "thread_rows n pos seen [] = Some seen"
| "thread_rows 0 pos seen (r # rs) = None"
| "thread_rows (Suc n) pos seen (r # rs) =
     (let new = remdups (filter (\<lambda>x. x \<notin> set seen) (thread_children pos (r # rs)))
      in thread_rows n pos (seen @ new) new)"

definition thread_start :: "uuid \<Rightarrow> uuid option \<Rightarrow> database \<Rightarrow> db_post list" where
  "thread_start post_id current_user_id db =
     filter (\<lambda>po. po_id po = post_id \<and> po_repost_of_id po = None \<and> visibility_filter current_user_id db po) (t_post db)"

definition thread_query :: "nat \<Rightarrow> uuid \<Rightarrow> uuid option \<Rightarrow> database \<Rightarrow> (uuid \<times> uuid list) list option" where
  "thread_query n post_id current_user_id db =
     (case ancestors n (t_post db) (thread_start post_id current_user_id db) of
        None \<Rightarrow> None
      | Some as \<Rightarrow>
          (let roots = remdups (map (\<lambda>a. (po_id a, [po_id a])) (filter (\<lambda>a. po_in_reply_to_id a = None) as))
           in thread_rows n (t_post db) roots roots))"

definition thread_page :: "uuid option \<Rightarrow> database \<Rightarrow> (uuid \<times> uuid list) list \<Rightarrow> post_row list" where
  "thread_page current_user_id db thread =
     map snd (sort_key fst (concat (map (\<lambda>r. map (\<lambda>t. (snd t, r)) (filter (\<lambda>t. fst t = row_id r) thread))
       (filter (\<lambda>r. visibility_filter current_user_id db (row_post r)) (post_rows db)))))"

text \<open>The rounds are bounded by the number of posts: a longer chain of replies has a cycle.\<close>

definition get_thread :: "uuid \<Rightarrow> uuid option \<Rightarrow> database \<Rightarrow> ((db_error + post list) \<times> database) option" where
  "get_thread post_id current_user_id db =
     (case thread_query (length (t_post db)) post_id current_user_id db of
        None \<Rightarrow> None
      | Some thread \<Rightarrow> Some (
          bind (query_posts (\<lambda>db. thread_page current_user_id db thread)) (\<lambda>posts.
          if posts = [] then throw (NotFound ''post'') else ret posts) db))"

section \<open>Sets of posts\<close>

definition find_reposts_by_user :: "uuid \<Rightarrow> uuid list \<Rightarrow> uuid list dbm" where
  "find_reposts_by_user user_id posts_ids =
     query (\<lambda>db. map po_id (filter (\<lambda>po. po_author_id po = user_id \<and>
       opt_mem (po_repost_of_id po) posts_ids) (t_post db)))"

definition find_reposted_by_user :: "uuid \<Rightarrow> uuid list \<Rightarrow> uuid list dbm" where
  "find_reposted_by_user user_id posts_ids =
     query (\<lambda>db. map po_id (filter (\<lambda>po. po_id po \<in> set posts_ids \<and>
       exists_where (\<lambda>q. po_author_id q = user_id \<and> po_repost_of_id q = Some (po_id po)) (t_post db)) (t_post db)))"

definition get_token_waitlist :: "uuid list dbm" where
  "get_token_waitlist =
     query (\<lambda>db. map po_id (filter (\<lambda>po. po_token_tx_id po \<noteq> None \<and> po_token_id po = None) (t_post db)))"

text \<open>A context is a top-level post with everything below it.\<close>

definition local_profile_id :: "uuid \<Rightarrow> database \<Rightarrow> bool" where
  "local_profile_id i db \<longleftrightarrow> exists_where (\<lambda>ap. ap_id ap = i \<and> ap_actor_json ap = None) (t_actor_profile db)"

definition extraneous :: "datetime \<Rightarrow> database \<Rightarrow> db_post \<Rightarrow> bool" where
  "extraneous updated_before db root \<longleftrightarrow>
     (let posts = post_context (t_post db) [po_id root] in
      \<not> exists_where (\<lambda>po. po_id po \<in> set posts \<and> \<not> po_created_at po < updated_before) (t_post db) \<and>
      \<not> exists_where (\<lambda>po. po_id po \<in> set posts \<and> local_profile_id (po_author_id po) db) (t_post db) \<and>
      \<not> exists_where (\<lambda>m. fst m \<in> set posts \<and> local_profile_id (snd m) db) (t_mention db) \<and>
      \<not> exists_where (\<lambda>r. pr_post_id r \<in> set posts \<and> local_profile_id (pr_author_id r) db) (t_post_reaction db) \<and>
      \<not> exists_where (\<lambda>l. snd l \<in> set posts \<and>
          exists_where (\<lambda>po. po_id po = fst l \<and> local_profile_id (po_author_id po) db) (t_post db)) (t_post_link db))"

definition find_extraneous_posts :: "datetime \<Rightarrow> uuid list dbm" where
  "find_extraneous_posts updated_before =
     query (\<lambda>db. map po_id (filter (extraneous updated_before db)
       (filter (\<lambda>po. po_in_reply_to_id po = None \<and> po_repost_of_id po = None \<and> po_created_at po < updated_before)
         (t_post db))))"

definition get_local_post_count :: "int dbm" where
  "get_local_post_count =
     query_one (\<lambda>db. [count_where (\<lambda>po. po_author_id po \<in> ua_id ` set (t_user_account db) \<and>
       po_in_reply_to_id po = None \<and> po_repost_of_id po = None) (t_post db)])"

section \<open>Helpers\<close>

definition post_id_of :: "post \<Rightarrow> uuid" where
  "post_id_of p = pd_id (data_of p)"

definition get_post :: "post list \<Rightarrow> uuid \<Rightarrow> post dbm" where
  "get_post others post_id = ok_or (find (\<lambda>p. post_id_of p = post_id) others) (NotFound ''post'')"

fun push_linked :: "post list \<Rightarrow> post \<Rightarrow> post" where
  "push_linked ls (Post d a r o' l) = Post d a r o' (l @ ls)"

fun attach_related :: "post list \<Rightarrow> post \<Rightarrow> post dbm" where
  "attach_related others (Post d a r o' l) =
     bind (case pd_in_reply_to_id d of
             Some i \<Rightarrow> bind (get_post others i) (\<lambda>p. ret (Some p))
           | None \<Rightarrow> ret r) (\<lambda>in_reply_to.
     bind (case pd_repost_of_id d of
             Some i \<Rightarrow>
               bind (get_post others i) (\<lambda>p.
               bind (collect (pd_links (data_of p)) (get_post others)) (\<lambda>linked.
               ret (Some (push_linked linked p))))
           | None \<Rightarrow> ret o') (\<lambda>repost_of.
     bind (collect (pd_links d) (get_post others)) (\<lambda>linked.
     ret (Post d a in_reply_to repost_of (l @ linked)))))"

definition add_related_posts :: "post list \<Rightarrow> post list dbm" where
  "add_related_posts posts =
     bind (get_related_posts (map post_id_of posts)) (\<lambda>others. collect posts (attach_related others))"

definition actions_for :: "uuid list \<Rightarrow> uuid list \<Rightarrow> uuid \<Rightarrow> post_actions" where
  "actions_for favourites reposted i = \<lparr>pa_favourited = i \<in> set favourites, pa_reposted = i \<in> set reposted\<rparr>"

fun set_actions :: "post_actions \<Rightarrow> post \<Rightarrow> post" where
  "set_actions a' (Post d a r o' l) = Post d (Some a') r o' l"

fun with_actions :: "uuid list \<Rightarrow> uuid list \<Rightarrow> post \<Rightarrow> post" where
  "with_actions favourites reposted (Post d a r o' l) =
     Post d (Some (actions_for favourites reposted (pd_id d))) r
       (map_option (\<lambda>p. set_actions (actions_for favourites reposted (post_id_of p)) p) o') l"

definition add_user_actions :: "uuid \<Rightarrow> post list \<Rightarrow> post list dbm" where
  "add_user_actions user_id posts =
     (let posts_ids = map post_id_of posts @ concat (map (\<lambda>p. map post_id_of (opt_list (repost_of_of p))) posts) in
      bind (find_favourited_by_user user_id posts_ids) (\<lambda>favourites.
      bind (find_reposted_by_user user_id posts_ids) (\<lambda>reposted.
      ret (map (with_actions favourites reposted) posts))))"

definition is_mentioned :: "uuid \<Rightarrow> post \<Rightarrow> bool" where
  "is_mentioned user_id post = list_ex (\<lambda>profile. ap_id profile = user_id) (pd_mentions (data_of post))"

text \<open>\<open>can_view_post\<close>; a user and its profile have the same identifier.\<close>

definition can_view_post :: "uuid option \<Rightarrow> post \<Rightarrow> bool dbm" where
  "can_view_post user post =
     (case pd_visibility (data_of post) of
        Public \<Rightarrow> ret True
      | Direct \<Rightarrow> (case user of Some u \<Rightarrow> ret (is_mentioned u post) | None \<Rightarrow> ret False)
      | Followers \<Rightarrow>
          (case user of
             Some u \<Rightarrow>
               bind (has_relationship u (ap_id (pd_author (data_of post))) Follow) (\<lambda>is_following.
               ret (is_following \<or> is_mentioned u post))
           | None \<Rightarrow> ret False)
      | Subscribers \<Rightarrow> (case user of Some u \<Rightarrow> ret (is_mentioned u post) | None \<Rightarrow> ret False))"

section \<open>Notifications and tags\<close>

record notification =
  no_id :: int
  no_sender :: db_actor_profile
  no_recipient :: db_actor_profile
  no_post :: "post option"
  no_event_type :: event_type
  no_created_at :: datetime

text \<open>
  A row of the query: both profiles, and the post with its author by \<open>LEFT JOIN\<close>. The recipient and
  the author are always there, by the foreign keys.
\<close>

definition notification_rows ::
    "database \<Rightarrow> (db_notification \<times> db_actor_profile \<times> db_actor_profile \<times> post_row option) list" where
  "notification_rows db =
     concat (map (\<lambda>n.
       concat (map (\<lambda>sender.
         concat (map (\<lambda>recipient.
           (case filter (\<lambda>r. nt_post_id n = Some (row_id r)) (post_rows db) of
              [] \<Rightarrow> [(n, sender, recipient, None)]
            | rows \<Rightarrow> map (\<lambda>r. (n, sender, recipient, Some r)) rows))
           (filter (\<lambda>ap. ap_id ap = nt_recipient_id n) (t_actor_profile db))))
         (filter (\<lambda>ap. ap_id ap = nt_sender_id n) (t_actor_profile db))))
       (t_notification db))"

fun notification_try_from ::
    "db_notification \<times> db_actor_profile \<times> db_actor_profile \<times> post_row option \<Rightarrow> notification dbm" where
  "notification_try_from (n, sender, recipient, maybe_row) =
     bind (case maybe_row of
             Some row \<Rightarrow> bind (lift_result (post_try_from row)) (\<lambda>p. ret (Some p))
           | None \<Rightarrow> ret None) (\<lambda>maybe_post.
     ret \<lparr>no_id = nt_id n, no_sender = sender, no_recipient = recipient, no_post = maybe_post,
          no_event_type = nt_event_type n, no_created_at = nt_created_at n\<rparr>)"

text \<open>The posts of the notifications are updated in place: put them back in order.\<close>

fun put_posts :: "post list \<Rightarrow> notification list \<Rightarrow> notification list" where
  "put_posts posts [] = []"
| "put_posts posts (n # ns) =
     (case no_post n of
        None \<Rightarrow> n # put_posts posts ns
      | Some _ \<Rightarrow> n\<lparr>no_post := Some (hd posts)\<rparr> # put_posts (tl posts) ns)"

definition posts_in :: "notification list \<Rightarrow> post list" where
  "posts_in ns = concat (map (\<lambda>n. opt_list (no_post n)) ns)"

definition get_notifications :: "uuid \<Rightarrow> int option \<Rightarrow> nat \<Rightarrow> notification list dbm" where
  "get_notifications recipient_id max_id limit =
     bind (query (\<lambda>db. page (\<lambda>r. nt_id (fst r)) (\<lambda>r. nt_recipient_id (fst r) = recipient_id) max_id limit
       (notification_rows db))) (\<lambda>rows.
     bind (collect rows notification_try_from) (\<lambda>notifications.
     bind (add_related_posts (posts_in notifications)) (\<lambda>posts.
     bind (add_user_actions recipient_id posts) (\<lambda>posts.
     ret (put_posts posts notifications)))))"

definition get_mention_notifications :: "nat \<Rightarrow> notification list dbm" where
  "get_mention_notifications limit =
     bind (query (\<lambda>db. page (\<lambda>r. nt_id (fst r)) (\<lambda>r. nt_event_type (fst r) = Event_Mention) None limit
       (notification_rows db))) (\<lambda>rows. collect rows notification_try_from)"

definition search_tags :: "string \<Rightarrow> nat \<Rightarrow> string list dbm" where
  "search_tags search_query limit =
     query (\<lambda>db. take limit (map tg_name
       (filter (\<lambda>tg. sql_ilike (''%'' @ search_query @ ''%'') (tg_name tg)) (t_tag db))))"

end
