(* ===== verification/Pagination.thy ===== *)
theory Pagination
  imports Sql
begin

text \<open>
  Keyset pagination as the timelines use it: a client asks for the first page and then, page after
  page, for the rows below the last key it has seen. When keys are unique it sees every row that
  qualifies exactly once, in descending order.
\<close>

lemma sort_desc_filter: "sort_desc k (filter p rs) = filter p (sort_desc k rs)"
  by (simp add: sort_desc_def filter_sort rev_filter [symmetric])

lemma strictly_sorted_desc:
  assumes "distinct (map k rs)"
  shows "sorted_wrt (\<lambda>x y. k y < k x) (sort_desc k rs)"
proof -
  have "distinct (map k (sort_desc k rs))" using assms by simp
  then have "k (sort_desc k rs ! i) \<noteq> k (sort_desc k rs ! j)" if "i < j" "j < length (sort_desc k rs)" for i j
    using that unfolding distinct_conv_nth by force
  with sorted_desc [of k rs] show ?thesis by (force simp: sorted_wrt_iff_nth_less)
qed

lemma drop_sorted:
  assumes "sorted_wrt (\<lambda>x y. k y < (k x :: 'k::linorder)) xs" and "take n xs \<noteq> []"
  shows "filter (\<lambda>r. k r < k (last (take n xs))) xs = drop n xs"
proof -
  have split: "xs = take n xs @ drop n xs" by simp
  from assms(1) have sorted: "sorted_wrt (\<lambda>x y. k y < k x) (take n xs @ drop n xs)" by simp
  from assms(2) obtain ys y where ys: "take n xs = ys @ [y]" by (metis rev_exhaust)
  from sorted have "\<forall>r \<in> set (take n xs). k y \<le> k r" "\<forall>r \<in> set (drop n xs). k r < k y"
    unfolding sorted_wrt_append ys by auto
  then have "filter (\<lambda>r. k r < k y) (take n xs) = []" "filter (\<lambda>r. k r < k y) (drop n xs) = drop n xs"
    by (auto simp: filter_empty_conv not_less filter_id_conv)
  then have "filter (\<lambda>r. k r < k y) (take n xs @ drop n xs) = drop n xs"
    unfolding filter_append by simp
  then show ?thesis unfolding append_take_drop_id by (simp add: ys)
qed

text \<open>The rows still to come, and the next page of them.\<close>

definition remaining :: "('r \<Rightarrow> 'k::linorder) \<Rightarrow> ('r \<Rightarrow> bool) \<Rightarrow> 'k option \<Rightarrow> 'r list \<Rightarrow> 'r list" where
  "remaining k p m rs = sort_desc k (filter (\<lambda>r. p r \<and> below m (k r)) rs)"

lemma page_remaining: "page k p m n rs = take n (remaining k p m rs)"
  by (simp add: page_def remaining_def)

lemma remaining_next:
  assumes keys: "distinct (map k rs)" and ne: "page k p m n rs \<noteq> []"
  shows "remaining k p (Some (k (last (page k p m n rs)))) rs = drop n (remaining k p m rs)"
proof -
  let ?l = "last (page k p m n rs)"
  have l: "below m (k ?l)" using page_sound [of ?l k p m n rs] last_in_set [OF ne] by blast
  then have "filter (\<lambda>r. p r \<and> k r < k ?l) rs = filter (\<lambda>r. k r < k ?l) (filter (\<lambda>r. p r \<and> below m (k r)) rs)"
    by (auto simp: below_def split: option.splits intro!: filter_cong)
  then have "remaining k p (Some (k ?l)) rs = filter (\<lambda>r. k r < k ?l) (remaining k p m rs)"
    by (simp add: remaining_def below_def sort_desc_filter)
  also have "\<dots> = drop n (remaining k p m rs)"
    unfolding page_remaining using ne keys
    by (intro drop_sorted) (simp_all add: remaining_def page_def strictly_sorted_desc distinct_map_filter)
  finally show ?thesis .
qed

text \<open>The client: it stops at the first empty page.\<close>

function walk :: "('r \<Rightarrow> 'k::linorder) \<Rightarrow> ('r \<Rightarrow> bool) \<Rightarrow> nat \<Rightarrow> 'k option \<Rightarrow> 'r list \<Rightarrow> 'r list" where
  "walk k p n m rs =
     (if page k p m n rs = [] then []
      else page k p m n rs @ walk k p n (Some (k (last (page k p m n rs)))) rs)"
  by pat_completeness auto
termination
proof (relation "measure (\<lambda>(k, p, n, m, rs). length (filter (\<lambda>r. p r \<and> below m (k r)) rs))")
  fix k :: "'r \<Rightarrow> 'k::linorder" and p n m rs
  assume ne: "page k p m n rs \<noteq> []"
  let ?l = "last (page k p m n rs)"
  from page_sound [of ?l k p m n rs] last_in_set [OF ne]
  have l: "?l \<in> set rs" "p ?l" "below m (k ?l)" by auto
  have "filter (\<lambda>r. p r \<and> below (Some (k ?l)) (k r)) rs =
      filter (\<lambda>r. k r < k ?l) (filter (\<lambda>r. p r \<and> below m (k r)) rs)"
    using l(3) by (auto simp: below_def split: option.splits intro!: filter_cong)
  moreover have "length (filter (\<lambda>r. k r < k ?l) (filter (\<lambda>r. p r \<and> below m (k r)) rs)) <
      length (filter (\<lambda>r. p r \<and> below m (k r)) rs)"
    using l by (intro length_filter_less [of ?l]) auto
  ultimately show "((k, p, n, Some (k ?l), rs), k, p, n, m, rs)
      \<in> measure (\<lambda>(k, p, n, m, rs). length (filter (\<lambda>r. p r \<and> below m (k r)) rs))"
    by simp
qed simp

declare walk.simps [simp del]

lemma walk_remaining:
  assumes "distinct (map k rs)" and "0 < n"
  shows "walk k p n m rs = remaining k p m rs"
  using assms
proof (induction k p n m rs rule: walk.induct)
  case (1 k p n m rs)
  show ?case
  proof (cases "page k p m n rs = []")
    case True
    then show ?thesis using 1 by (subst walk.simps) (simp add: page_remaining)
  next
    case False
    with 1 show ?thesis
      by (subst walk.simps) (simp add: remaining_next, simp add: page_remaining)
  qed
qed

section \<open>Interface\<close>

text \<open>
  What a paginated query offers: its rows have unique keys in every database that satisfies the
  invariant. Then pages behave as their readers expect.
\<close>

locale keyset =
  fixes inv :: "'db \<Rightarrow> bool" and rows :: "'db \<Rightarrow> 'r list" and key :: "'r \<Rightarrow> 'k::linorder"
  assumes keys: "inv db \<Longrightarrow> distinct (map key (rows db))"
begin

lemma page_strictly_sorted: "inv db \<Longrightarrow> sorted_wrt (\<lambda>x y. key y < key x) (page key p m n (rows db))"
  unfolding page_def
  by (intro sorted_wrt_take strictly_sorted_desc) (simp add: keys distinct_map_filter)

lemma walk_all: "inv db \<Longrightarrow> 0 < n \<Longrightarrow> walk key p n None (rows db) = sort_desc key (filter p (rows db))"
  by (simp add: walk_remaining keys remaining_def below_def)

lemma page_exact:
  "inv db \<Longrightarrow> r \<in> set (rows db) \<Longrightarrow> p r \<Longrightarrow> below m (key r) \<Longrightarrow> 0 < n \<Longrightarrow>
   r \<in> set (page key p m n (rows db)) \<or> below (Some (key (last (page key p m n (rows db))))) (key r)"
  using page_next [OF keys] by blast

end

end
