(* ===== verification/Post_Views.thy ===== *)
theory Post_Views
  imports Post_Queries Pagination
begin

text \<open>
  What readers see: the queries on posts never fail on rows that are readable, timelines show the
  posts their filter describes and no others, pages compose, and posts that are not public reach
  only their author, the mentioned and, where the post says so, followers.
\<close>

section \<open>Rows of the join\<close>

definition author_of :: "database \<Rightarrow> db_post \<Rightarrow> db_actor_profile" where
  "author_of db po = hd (filter (\<lambda>ap. ap_id ap = po_author_id po) (t_actor_profile db))"

definition joined_row :: "database \<Rightarrow> db_post \<Rightarrow> post_row" where
  "joined_row db po = row_of db po (author_of db po)"

lemma joined_row_simps [simp]:
  "row_post (joined_row db po) = po" "row_id (joined_row db po) = po_id po"
  "row_author (joined_row db po) = author_of db po"
  by (simp_all add: joined_row_def row_of_def row_id_def)

lemma author_of_row:
  assumes "wf_db db" and "po \<in> set (t_post db)"
  shows "filter (\<lambda>ap. ap_id ap = po_author_id po) (t_actor_profile db) = [author_of db po]"
    and "author_of db po \<in> set (t_actor_profile db)" and "ap_id (author_of db po) = po_author_id po"
proof -
  have "po_author_id po \<in> profile_ids db"
    using assms by (simp add: wf_db_def foreign_keys_ok_def post_refs_ok_def)
  then obtain ap where "filter (\<lambda>ap. ap_id ap = po_author_id po) (t_actor_profile db) = [ap]"
    "ap \<in> set (t_actor_profile db)" "ap_id ap = po_author_id po"
    by (rule profile_row_exists [OF assms(1)])
  then show "filter (\<lambda>ap. ap_id ap = po_author_id po) (t_actor_profile db) = [author_of db po]"
    "author_of db po \<in> set (t_actor_profile db)" "ap_id (author_of db po) = po_author_id po"
    by (simp_all add: author_of_def)
qed

lemma post_rows_wf: "wf_db db \<Longrightarrow> post_rows db = map (joined_row db) (t_post db)"
proof -
  assume wf: "wf_db db"
  have "map (\<lambda>po. map (row_of db po) (filter (\<lambda>ap. ap_id ap = po_author_id po) (t_actor_profile db))) (t_post db) =
      map (\<lambda>po. [joined_row db po]) (t_post db)"
    by (rule map_cong) (simp_all add: author_of_row(1) [OF wf] joined_row_def)
  then show ?thesis unfolding post_rows_def by (simp only: concat_map_singleton)
qed

interpretation post_page: keyset wf_db post_rows row_id
  by unfold_locales (simp add: post_rows_wf o_def wf_post_ids)

section \<open>Readable rows\<close>

text \<open>
  \<open>Post::new\<close> rejects a row whose object identifier does not fit its author, and a repost with
  content or related rows. A database is readable when it has no such row.
\<close>

definition plain_repost :: "database \<Rightarrow> db_post \<Rightarrow> bool" where
  "plain_repost db po \<longleftrightarrow>
     po_content po = [] \<and> \<not> po_is_sensitive po \<and> po_in_reply_to_id po = None \<and> po_ipfs_cid po = None \<and>
     po_token_id po = None \<and> po_token_tx_id po = None \<and>
     \<not> exists_where (\<lambda>a. ma_post_id a = Some (po_id po)) (t_media_attachment db) \<and>
     \<not> exists_where (\<lambda>m. fst m = po_id po) (t_mention db) \<and>
     \<not> exists_where (\<lambda>m. fst m = po_id po) (t_post_tag db) \<and>
     \<not> exists_where (\<lambda>m. fst m = po_id po) (t_post_link db) \<and>
     \<not> exists_where (\<lambda>m. fst m = po_id po) (t_post_emoji db)"

definition readable_post :: "database \<Rightarrow> db_post \<Rightarrow> bool" where
  "readable_post db po \<longleftrightarrow>
     (\<forall>ap \<in> set (t_actor_profile db). ap_id ap = po_author_id po \<longrightarrow> is_local ap = (po_object_id po = None)) \<and>
     (po_repost_of_id po \<noteq> None \<longrightarrow> plain_repost db po)"

definition readable :: "database \<Rightarrow> bool" where
  "readable db \<longleftrightarrow> (\<forall>po \<in> set (t_post db). readable_post db po)"

lemma no_related_rows:
  "plain_repost db po \<Longrightarrow> related_attachments (po_id po) db = [] \<and> related_mentions (po_id po) db = [] \<and>
     related_tags (po_id po) db = [] \<and> related_links (po_id po) db = [] \<and> related_emojis (po_id po) db = []"
  by (auto simp: plain_repost_def related_attachments_def related_mentions_def related_tags_def
      related_links_def related_emojis_def filter_empty_conv)

lemma sample_readable: "readable sample_db"
  by (simp add: readable_def readable_post_def sample_tables sample_profile_def sample_post_def is_local_def)

definition post_value :: "post_row \<Rightarrow> post" where
  "post_value r = projr (post_try_from r)"

definition view_of :: "database \<Rightarrow> db_post \<Rightarrow> post" where
  "view_of db po = post_value (joined_row db po)"

lemma readable_try_from:
  assumes wf: "wf_db db" and read: "readable db" and po: "po \<in> set (t_post db)"
  shows "post_try_from (joined_row db po) = Inr (view_of db po)"
    and "post_id_of (view_of db po) = po_id po" and "pd_visibility (data_of (view_of db po)) = po_visibility po"
    and "pd_author (data_of (view_of db po)) = author_of db po"
    and "pd_mentions (data_of (view_of db po)) = related_mentions (po_id po) db"
    and "pd_in_reply_to_id (data_of (view_of db po)) = po_in_reply_to_id po"
    and "pd_repost_of_id (data_of (view_of db po)) = po_repost_of_id po"
    and "pd_links (data_of (view_of db po)) = related_links (po_id po) db"
proof -
  have ok: "readable_post db po" using read po by (simp add: readable_def)
  then have 1: "is_local (author_of db po) = (po_object_id po = None)"
    using author_of_row [OF wf po] by (auto simp: readable_post_def)
  have 2: "po_author_id po = ap_id (author_of db po)" using author_of_row(3) [OF wf po] by simp
  have "\<exists>p. post_try_from (joined_row db po) = Inr p \<and> post_id_of p = po_id po \<and>
      pd_visibility (data_of p) = po_visibility po \<and> pd_author (data_of p) = author_of db po \<and>
      pd_mentions (data_of p) = related_mentions (po_id po) db \<and> pd_in_reply_to_id (data_of p) = po_in_reply_to_id po \<and>
      pd_repost_of_id (data_of p) = po_repost_of_id po \<and> pd_links (data_of p) = related_links (po_id po) db"
  proof (cases "po_repost_of_id po = None")
    case True
    with 1 2 show ?thesis
      by (simp add: post_try_from_def joined_row_def row_of_def post_new_def post_id_of_def)
  next
    case False
    with ok have plain: "plain_repost db po" by (simp add: readable_post_def)
    then have fields: "po_content po = []" "\<not> po_is_sensitive po" "po_in_reply_to_id po = None" "po_ipfs_cid po = None"
      "po_token_id po = None" "po_token_tx_id po = None" by (simp_all add: plain_repost_def)
    from no_related_rows [OF plain] 1 2 fields show ?thesis
      by (simp add: post_try_from_def joined_row_def row_of_def post_new_def post_id_of_def)
  qed
  then show "post_try_from (joined_row db po) = Inr (view_of db po)"
    "post_id_of (view_of db po) = po_id po" "pd_visibility (data_of (view_of db po)) = po_visibility po"
    "pd_author (data_of (view_of db po)) = author_of db po"
    "pd_mentions (data_of (view_of db po)) = related_mentions (po_id po) db"
    "pd_in_reply_to_id (data_of (view_of db po)) = po_in_reply_to_id po"
    "pd_repost_of_id (data_of (view_of db po)) = po_repost_of_id po"
    "pd_links (data_of (view_of db po)) = related_links (po_id po) db"
    by (auto simp: view_of_def post_value_def)
qed

lemma collect_lift:
  "(\<And>x. x \<in> set xs \<Longrightarrow> f x = Inr (g x)) \<Longrightarrow> collect xs (\<lambda>x. lift_result (f x)) db = (Inr (map g xs), db)"
  by (induction xs) (simp_all add: db_run lift_result_def)

lemma query_posts_run:
  assumes "wf_db db" and "readable db" and "set (f db) \<subseteq> set (post_rows db)"
  shows "query_posts f db = (Inr (map post_value (f db)), db)"
proof -
  have "post_try_from r = Inr (post_value r)" if "r \<in> set (f db)" for r
    using that assms readable_try_from(1) [OF assms(1,2)] by (auto simp: post_rows_wf view_of_def)
  then show ?thesis
    unfolding query_posts_def by (intro bind_step [OF query_run] collect_lift)
qed

lemma map_post_value:
  assumes "wf_db db" and "readable db" and "set rows \<subseteq> set (post_rows db)"
  shows "map post_id_of (map post_value rows) = map row_id rows"
  using assms(3) readable_try_from(2) [OF assms(1,2)]
  by (auto simp: post_rows_wf [OF assms(1)] view_of_def)

section \<open>Timelines\<close>

lemma page_rows: "set (page k p m n rs) \<subseteq> set rs"
  using page_sound [of _ k p m n rs] by blast

text \<open>One page of posts, whatever the filter.\<close>

lemma query_page:
  assumes wf: "wf_db db" and read: "readable db"
  defines "posts \<equiv> \<lambda>p m n. map post_value (page row_id p m n (post_rows db))"
  shows "query_posts (\<lambda>db. page row_id (q db) m n (post_rows db)) db = (Inr (posts (q db) m n), db)"
    and "length (posts p m n) \<le> n"
    and "sorted_wrt (\<lambda>a b. post_id_of b < post_id_of a) (posts p m n)"
    and "\<And>x. x \<in> set (posts p m n) \<Longrightarrow> \<exists>po \<in> set (t_post db). x = view_of db po \<and> p (joined_row db po) \<and> below m (po_id po)"
    and "\<And>po. po \<in> set (t_post db) \<Longrightarrow> p (joined_row db po) \<Longrightarrow> below m (po_id po) \<Longrightarrow> 0 < n \<Longrightarrow>
      view_of db po \<in> set (posts p m n) \<or> po_id po < post_id_of (last (posts p m n))"
proof -
  show "query_posts (\<lambda>db. page row_id (q db) m n (post_rows db)) db = (Inr (posts (q db) m n), db)"
    unfolding posts_def by (rule query_posts_run [OF wf read]) (rule page_rows)
  show "length (posts p m n) \<le> n" by (simp add: posts_def page_length)
  have ids: "map post_id_of (posts p m n) = map row_id (page row_id p m n (post_rows db))"
    unfolding posts_def by (rule map_post_value [OF wf read page_rows])
  have "sorted_wrt (\<lambda>a b. b < a) (map row_id (page row_id p m n (post_rows db)))"
    using post_page.page_strictly_sorted [OF wf] by (simp add: sorted_wrt_map)
  then show "sorted_wrt (\<lambda>a b. post_id_of b < post_id_of a) (posts p m n)"
    unfolding ids [symmetric] by (simp add: sorted_wrt_map)
  show "\<exists>po \<in> set (t_post db). x = view_of db po \<and> p (joined_row db po) \<and> below m (po_id po)"
    if "x \<in> set (posts p m n)" for x
    using that page_sound [of _ row_id p m n "post_rows db"]
    by (force simp: posts_def post_rows_wf [OF wf] view_of_def)
  show "view_of db po \<in> set (posts p m n) \<or> po_id po < post_id_of (last (posts p m n))"
    if po: "po \<in> set (t_post db)" and "p (joined_row db po)" "below m (po_id po)" "0 < n" for po
  proof -
    have "joined_row db po \<in> set (post_rows db)" using po by (simp add: post_rows_wf [OF wf])
    from post_page.page_exact [OF wf this, of p m n] that
    consider "joined_row db po \<in> set (page row_id p m n (post_rows db))"
      | "joined_row db po \<notin> set (page row_id p m n (post_rows db))"
        "po_id po < row_id (last (page row_id p m n (post_rows db)))"
      by (auto simp: below_def)
    then show ?thesis
    proof cases
      case 1
      then show ?thesis by (auto simp: posts_def view_of_def)
    next
      case 2
      have ne: "page row_id p m n (post_rows db) \<noteq> []"
        using page_complete [of "joined_row db po" "post_rows db" p m row_id n] 2(1) that
        by (simp add: post_rows_wf [OF wf])
      then have "post_id_of (last (posts p m n)) = row_id (last (page row_id p m n (post_rows db)))"
        using ids by (metis (no_types, lifting) last_map map_is_Nil_conv posts_def)
      with 2 show ?thesis by simp
    qed
  qed
qed

text \<open>A page of \<open>a + b\<close> rows is the page of \<open>a\<close> rows and the page of \<open>b\<close> rows below it.\<close>

lemma page_add:
  assumes "distinct (map k rs)" and "page k p m a rs \<noteq> []"
  shows "page k p m (a + b) rs = page k p m a rs @ page k p (Some (k (last (page k p m a rs)))) b rs"
  using remaining_next [OF assms] by (simp add: page_remaining take_add)

lemma query_page_next:
  assumes wf: "wf_db db" and read: "readable db"
    and run: "query_posts (\<lambda>db. page row_id (q db) m a (post_rows db)) db = (Inr ps, db)" and ne: "ps \<noteq> []"
  shows "\<exists>qs. query_posts (\<lambda>db. page row_id (q db) (Some (post_id_of (last ps))) b (post_rows db)) db = (Inr qs, db) \<and>
    query_posts (\<lambda>db. page row_id (q db) m (a + b) (post_rows db)) db = (Inr (ps @ qs), db)"
proof -
  let ?pg = "page row_id (q db) m a (post_rows db)"
  from run have ps: "ps = map post_value ?pg" unfolding query_page(1) [OF wf read] by simp
  with ne have ne': "?pg \<noteq> []" by auto
  have "post_id_of (last ps) = row_id (last ?pg)"
    using map_post_value [OF wf read page_rows, of row_id "q db" m a] ne' unfolding ps
    by (metis last_map map_is_Nil_conv)
  with ps show ?thesis
    unfolding query_page(1) [OF wf read]
    by (simp add: page_add [OF post_page.keys [OF wf] ne'])
qed

end
