(* ===== verification/Threads.thy ===== *)
theory Threads
  imports Post_Views
begin

text \<open>
  \<open>get_thread\<close>: its two recursive queries come to an end on every database the operations reach,
  and the result is the part of the tree of replies around the post that the reader may see.
\<close>

section \<open>Specification\<close>

text \<open>\<open>reply_below pos r i\<close>: the post \<open>i\<close> is \<open>r\<close> or a reply to it at some depth.\<close>

inductive reply_below :: "db_post list \<Rightarrow> uuid \<Rightarrow> uuid \<Rightarrow> bool" for pos r where
  self: "reply_below pos r r"
| reply: "reply_below pos r i \<Longrightarrow> po \<in> set pos \<Longrightarrow> po_in_reply_to_id po = Some i \<Longrightarrow> reply_below pos r (po_id po)"

lemma reply_below_trans: "reply_below pos j k \<Longrightarrow> reply_below pos i j \<Longrightarrow> reply_below pos i k"
  by (induction rule: reply_below.induct) (auto intro: reply_below.intros)

lemma reply_below_ids: "reply_below pos r i \<Longrightarrow> i = r \<or> i \<in> po_id ` set pos"
  by (induction rule: reply_below.induct) auto

section \<open>Parents come first\<close>

definition sound_threads :: "db_post list \<Rightarrow> bool" where
  "sound_threads pos \<longleftrightarrow> distinct (map po_id pos) \<and> parents_first [] pos"

lemma sound_threads_inv: "db_inv db \<Longrightarrow> sound_threads (t_post db)"
  using app_invD(4) [OF db_invD(2)] wf_post_ids [OF db_inv_wf]
  by (simp add: sound_threads_def threads_ok_def)

lemma parent_index:
  assumes "sound_threads pos" and "i < length pos" and "po_in_reply_to_id (pos ! i) = Some p"
  obtains j where "j < i" and "po_id (pos ! j) = p"
proof -
  have "pos = take i pos @ pos ! i # drop (Suc i) pos" by (rule id_take_nth_drop [OF assms(2)])
  then have "parents_first [] (take i pos @ pos ! i # drop (Suc i) pos)"
    using assms(1) by (simp add: sound_threads_def)
  then have "p \<in> po_id ` set (take i pos)" using parents_first_row [of "take i pos"] assms(3) by fastforce
  then obtain j where "j < length (take i pos)" "po_id (take i pos ! j) = p"
    by (auto simp: in_set_conv_nth)
  with that [of j] show thesis by simp
qed

lemma same_index:
  "sound_threads pos \<Longrightarrow> i < length pos \<Longrightarrow> j < length pos \<Longrightarrow> po_id (pos ! i) = po_id (pos ! j) \<Longrightarrow> i = j"
  unfolding sound_threads_def by (metis nth_eq_iff_index_eq length_map nth_map)

section \<open>Ancestors\<close>

lemma parents_of:
  "b \<in> set (concat (map (\<lambda>b. filter (\<lambda>po. Some (po_id po) = po_in_reply_to_id b) pos) work)) \<longleftrightarrow>
   b \<in> set pos \<and> (\<exists>a \<in> set work. po_in_reply_to_id a = Some (po_id b))"
  by force

lemma ancestors_end:
  "sound_threads pos \<Longrightarrow> (\<And>a. a \<in> set work \<Longrightarrow> \<exists>i < n. i < length pos \<and> pos ! i = a) \<Longrightarrow>
   \<exists>as. ancestors n pos work = Some as"
proof (induction n pos work rule: ancestors.induct)
  case (3 n pos a as)
  note sound = 3(2)
  let ?parents = "concat (map (\<lambda>b. filter (\<lambda>po. Some (po_id po) = po_in_reply_to_id b) pos) (a # as))"
  have "\<exists>i < n. i < length pos \<and> pos ! i = b" if "b \<in> set ?parents" for b
  proof -
    from that obtain c where b: "b \<in> set pos" and c: "c \<in> set (a # as)" "po_in_reply_to_id c = Some (po_id b)"
      unfolding parents_of by blast
    from 3(3) [OF c(1)] obtain i where i: "i < Suc n" "i < length pos" "pos ! i = c" by blast
    from parent_index [OF sound i(2)] i(3) c(2) obtain j where j: "j < i" "po_id (pos ! j) = po_id b" by blast
    from b obtain k where "k < length pos" "pos ! k = b" by (auto simp: in_set_conv_nth)
    with same_index [OF sound, of j k] i j show ?thesis by (intro exI [of _ k]) auto
  qed
  with 3(1) [OF sound] have "\<exists>bs. ancestors n pos ?parents = Some bs" by blast
  then show ?case by auto
qed auto

lemma sound_unique: "sound_threads pos \<Longrightarrow> a \<in> set pos \<Longrightarrow> b \<in> set pos \<Longrightarrow> po_id a = po_id b \<Longrightarrow> a = b"
  unfolding sound_threads_def by (auto dest: distinct_map_unique)

lemma ancestors_set:
  "sound_threads pos \<Longrightarrow> ancestors n pos work = Some as \<Longrightarrow> set work \<subseteq> set pos \<Longrightarrow>
   set as = {b \<in> set pos. \<exists>a \<in> set work. reply_below pos (po_id b) (po_id a)}"
proof (induction n pos work arbitrary: as rule: ancestors.induct)
  case (3 n pos a ws)
  note sound = 3(2)
  let ?parents = "concat (map (\<lambda>b. filter (\<lambda>po. Some (po_id po) = po_in_reply_to_id b) pos) (a # ws))"
  from 3(3) obtain bs where bs: "ancestors n pos ?parents = Some bs" and as: "as = (a # ws) @ bs" by auto
  have "set ?parents \<subseteq> set pos" using parents_of by blast
  note ih = 3(1) [OF sound bs this]
  show ?case
  proof (intro equalityI subsetI)
    fix b assume "b \<in> set as"
    then consider "b \<in> set (a # ws)" | "b \<in> set bs" by (auto simp: as)
    then show "b \<in> {b \<in> set pos. \<exists>c \<in> set (a # ws). reply_below pos (po_id b) (po_id c)}"
    proof cases
      case 1
      with 3(4) show ?thesis by (auto intro: reply_below.self)
    next
      case 2
      then obtain c where c: "c \<in> set ?parents" "reply_below pos (po_id b) (po_id c)" and b: "b \<in> set pos"
        unfolding ih by blast
      from c(1) obtain d where d: "d \<in> set (a # ws)" "po_in_reply_to_id d = Some (po_id c)"
        unfolding parents_of by blast
      with 3(4) have "reply_below pos (po_id b) (po_id d)" by (intro reply_below.reply [OF c(2)]) auto
      with b d show ?thesis by blast
    qed
  next
    fix b assume "b \<in> {b \<in> set pos. \<exists>c \<in> set (a # ws). reply_below pos (po_id b) (po_id c)}"
    then obtain c where b: "b \<in> set pos" and c: "c \<in> set (a # ws)" and below: "reply_below pos (po_id b) (po_id c)"
      by blast
    from c 3(4) have c': "c \<in> set pos" by blast
    from below show "b \<in> set as"
    proof (cases rule: reply_below.cases)
      case self
      from sound_unique [OF sound c' b self] c have "b \<in> set (a # ws)" by metis
      then show ?thesis by (simp add: as) blast
    next
      case (reply i po)
      from sound_unique [OF sound c' reply(3) reply(1)] have po: "po = c" by simp
      from reply_below_ids [OF reply(2)] b obtain d where d: "d \<in> set pos" "po_id d = i" by auto
      have "d \<in> set ?parents" unfolding parents_of using d c reply(4) po by blast
      with reply(2) d b have "b \<in> set bs" unfolding ih by blast
      then show ?thesis by (simp add: as)
    qed
  qed
qed auto

lemma top_ancestor:
  assumes sound: "sound_threads pos"
  shows "i < length pos \<Longrightarrow> \<exists>b \<in> set pos. po_in_reply_to_id b = None \<and> reply_below pos (po_id b) (po_id (pos ! i))"
proof (induction i rule: less_induct)
  case (less i)
  show ?case
  proof (cases "po_in_reply_to_id (pos ! i)")
    case None
    with less(2) show ?thesis by (intro bexI [of _ "pos ! i"]) (auto intro: reply_below.self)
  next
    case (Some p)
    from parent_index [OF sound less(2) Some] obtain j where j: "j < i" "po_id (pos ! j) = p" .
    from less(1) [OF j(1)] j less(2) obtain b where
      "b \<in> set pos" "po_in_reply_to_id b = None" "reply_below pos (po_id b) p" by auto
    moreover from this(3) have "reply_below pos (po_id b) (po_id (pos ! i))"
      by (rule reply_below.reply) (use less(2) Some in auto)
    ultimately show ?thesis by blast
  qed
qed

section \<open>The thread\<close>

lemma in_thread_children:
  "x \<in> set (thread_children pos rows) \<longleftrightarrow>
   (\<exists>r \<in> set rows. \<exists>po \<in> set pos. po_in_reply_to_id po = Some (fst r) \<and> x = (po_id po, snd r @ [po_id po]))"
  unfolding thread_children_def by (auto 0 4 simp: split_beta)

lemma thread_children_mono: "set rs \<subseteq> set rs' \<Longrightarrow> set (thread_children pos rs) \<subseteq> set (thread_children pos rs')"
  by (auto simp: thread_children_def)

lemma thread_rows_end:
  "sound_threads pos \<Longrightarrow>
   (\<And>r. r \<in> set work \<Longrightarrow> \<exists>k. length pos - n \<le> k \<and> k < length pos \<and> po_id (pos ! k) = fst r) \<Longrightarrow>
   \<exists>res. thread_rows n pos seen work = Some res"
proof (induction n pos seen work rule: thread_rows.induct)
  case (2 pos seen r rs)
  from 2(2) [of r] show ?case by auto
next
  case (3 n pos seen r rs)
  note sound = 3(2)
  let ?new = "remdups (filter (\<lambda>x. x \<notin> set seen) (thread_children pos (r # rs)))"
  have "\<exists>k. length pos - n \<le> k \<and> k < length pos \<and> po_id (pos ! k) = fst x" if "x \<in> set ?new" for x
  proof -
    from that have "x \<in> set (thread_children pos (r # rs))" by simp
    then obtain q po where q: "q \<in> set (r # rs)" and po: "po \<in> set pos" "po_in_reply_to_id po = Some (fst q)"
      and "x = (po_id po, snd q @ [po_id po])" unfolding in_thread_children by blast
    then have x: "fst x = po_id po" by simp
    from 3(3) [OF q] obtain k where k: "length pos - Suc n \<le> k" "k < length pos" "po_id (pos ! k) = fst q" by blast
    from po obtain m where m: "m < length pos" "pos ! m = po" by (auto simp: in_set_conv_nth)
    from parent_index [OF sound m(1)] m(2) po(2) obtain j where j: "j < m" "po_id (pos ! j) = fst q" by blast
    with same_index [OF sound, of j k] k m have "j = k" by simp
    with j k m x show ?thesis by (intro exI [of _ m]) auto
  qed
  with 3(1) [OF refl sound] show ?case by (auto simp: Let_def)
qed auto

lemma thread_rows_sound:
  assumes step: "\<And>r x. P r \<Longrightarrow> x \<in> set (thread_children pos [r]) \<Longrightarrow> P x"
  shows "thread_rows n pos seen work = Some res \<Longrightarrow> (\<And>r. r \<in> set seen \<Longrightarrow> P r) \<Longrightarrow> set work \<subseteq> set seen \<Longrightarrow>
    (\<forall>r \<in> set res. P r)"
  using step
proof (induction n pos seen work arbitrary: res rule: thread_rows.induct)
  case (3 n pos seen r rs)
  let ?new = "remdups (filter (\<lambda>x. x \<notin> set seen) (thread_children pos (r # rs)))"
  have new: "P x" if "x \<in> set ?new" for x
  proof -
    from that have "x \<in> set (thread_children pos (r # rs))" by simp
    then obtain q where q: "q \<in> set (r # rs)" "x \<in> set (thread_children pos [q])"
      unfolding in_thread_children by fastforce
    with 3(3,4) have "P q" by blast
    from 3(5) [OF this q(2)] show ?thesis .
  qed
  show ?case
  proof (rule 3(1) [OF refl])
    show "thread_rows n pos (seen @ ?new) ?new = Some res" using 3(2) by (simp add: Let_def)
    show "P q" if "q \<in> set (seen @ ?new)" for q
      using that new [of q] 3(3) [of q] unfolding set_append by blast
    show "set ?new \<subseteq> set (seen @ ?new)" by auto
  qed (rule 3(5))
qed auto

lemma thread_rows_complete:
  "thread_rows n pos seen work = Some res \<Longrightarrow> set work \<subseteq> set seen \<Longrightarrow>
   (\<And>r. r \<in> set seen \<Longrightarrow> r \<notin> set work \<Longrightarrow> set (thread_children pos [r]) \<subseteq> set seen) \<Longrightarrow>
   set seen \<subseteq> set res \<and> (\<forall>r \<in> set res. set (thread_children pos [r]) \<subseteq> set res)"
proof (induction n pos seen work arbitrary: res rule: thread_rows.induct)
  case (3 n pos seen r rs)
  let ?new = "remdups (filter (\<lambda>x. x \<notin> set seen) (thread_children pos (r # rs)))"
  have closed: "set (thread_children pos [q]) \<subseteq> set (seen @ ?new)" if "q \<in> set (seen @ ?new)" "q \<notin> set ?new" for q
  proof (cases "q \<in> set (r # rs)")
    case True
    then have "set (thread_children pos [q]) \<subseteq> set (thread_children pos (r # rs))"
      by (intro thread_children_mono) simp
    then show ?thesis by auto
  next
    case False
    with that 3(4) [of q] show ?thesis by auto
  qed
  have "thread_rows n pos (seen @ ?new) ?new = Some res" using 3(2) by (simp add: Let_def)
  from 3(1) [OF refl this _ closed] show ?case by auto
qed auto

lemma thread_rows_distinct:
  "thread_rows n pos seen work = Some res \<Longrightarrow> distinct seen \<Longrightarrow> distinct res"
  by (induction n pos seen work arbitrary: res rule: thread_rows.induct) (auto simp: Let_def)

text \<open>The path of a post in the thread: from the top-level post down, each a reply to the one before.\<close>

inductive reply_path :: "db_post list \<Rightarrow> uuid \<Rightarrow> uuid list \<Rightarrow> bool" for pos root where
  root: "reply_path pos root [root]"
| down: "reply_path pos root path \<Longrightarrow> po \<in> set pos \<Longrightarrow> po_in_reply_to_id po = Some (last path) \<Longrightarrow>
    reply_path pos root (path @ [po_id po])"

lemma reply_path_below: "reply_path pos root path \<Longrightarrow> path \<noteq> [] \<and> reply_below pos root (last path)"
  by (induction rule: reply_path.induct) (auto intro: reply_below.intros)

lemma reply_path_exists: "reply_below pos root i \<Longrightarrow> \<exists>path. reply_path pos root path \<and> last path = i"
proof (induction rule: reply_below.induct)
  case self
  show ?case by (rule exI [of _ "[root]"]) (simp add: reply_path.root)
next
  case (reply i po)
  then obtain path where "reply_path pos root path" "last path = i" by blast
  with reply show ?case by (intro exI [of _ "path @ [po_id po]"]) (auto intro: reply_path.down)
qed

definition top_level :: "db_post list \<Rightarrow> uuid \<Rightarrow> bool" where
  "top_level pos r \<longleftrightarrow> (\<exists>b \<in> set pos. po_id b = r \<and> po_in_reply_to_id b = None)"

lemma top_level_row: "sound_threads pos \<Longrightarrow> top_level pos (po_id po) \<Longrightarrow> po \<in> set pos \<Longrightarrow> po_in_reply_to_id po = None"
  unfolding top_level_def using sound_unique by metis

lemma reply_path_last:
  assumes "reply_path pos r p"
  obtains "p = [r]" | path po where "p = path @ [po_id po]" and "reply_path pos r path" and "po \<in> set pos"
    and "po_in_reply_to_id po = Some (last path)"
  using assms by (cases rule: reply_path.cases) auto

lemma reply_path_unique:
  assumes sound: "sound_threads pos"
  shows "reply_path pos r p \<Longrightarrow> top_level pos r \<Longrightarrow> reply_path pos r' p' \<Longrightarrow> top_level pos r' \<Longrightarrow> last p = last p' \<Longrightarrow> p = p'"
proof (induction arbitrary: p' rule: reply_path.induct)
  case root
  from root(2) show ?case
  proof (cases rule: reply_path_last)
    case (2 path po)
    from root(4) have "r = po_id po" by (simp add: 2(1))
    with top_level_row [OF sound _ 2(3)] root(1) 2(4) show ?thesis by simp
  qed (use root(4) in simp)
next
  case (down path po)
  from down(6) show ?case
  proof (cases rule: reply_path_last)
    case 1
    with down(8) have "r' = po_id po" by simp
    with top_level_row [OF sound _ down(2)] down(7,3) show ?thesis by simp
  next
    case (2 path' po')
    from down(8) have "po_id po = po_id po'" by (simp add: 2(1))
    from sound_unique [OF sound down(2) 2(3) this] have po: "po = po'" .
    from down(3) 2(4) have "last path = last path'" by (simp add: po)
    from down(4) [OF down(5) 2(2) down(7) this] show ?thesis by (simp add: 2(1) po)
  qed
qed

section \<open>The result of the query\<close>

definition thread_roots :: "uuid \<Rightarrow> database \<Rightarrow> uuid \<Rightarrow> bool" where
  "thread_roots i db r \<longleftrightarrow> top_level (t_post db) r \<and> reply_below (t_post db) r i"

lemma thread_start_row:
  assumes "sound_threads (t_post db)" and "po \<in> set (t_post db)" and "po_repost_of_id po = None" and "visibility_filter u db po"
  shows "set (thread_start (po_id po) u db) = {po}"
  using assms(2-4) sound_unique [OF assms(1) _ assms(2)] by (auto simp: thread_start_def)

lemma all_indexed: "set work \<subseteq> set pos \<Longrightarrow> a \<in> set work \<Longrightarrow> \<exists>i < length pos. i < length pos \<and> pos ! i = a"
  by (auto simp: in_set_conv_nth subset_iff)

lemma thread_query_run:
  assumes sound: "sound_threads (t_post db)" and po: "po \<in> set (t_post db)" "po_repost_of_id po = None" "visibility_filter u db po"
  obtains thread where "thread_query (length (t_post db)) (po_id po) u db = Some thread" and "distinct thread"
    and "\<forall>t \<in> set thread. \<exists>r. thread_roots (po_id po) db r \<and> reply_path (t_post db) r (snd t) \<and> last (snd t) = fst t"
    and "\<forall>r j. thread_roots (po_id po) db r \<longrightarrow> reply_below (t_post db) r j \<longrightarrow> j \<in> fst ` set thread"
proof -
  let ?pos = "t_post db" and ?start = "thread_start (po_id po) u db"
  note start = thread_start_row [OF sound po]
  have sub: "set ?start \<subseteq> set ?pos" using po start by simp
  obtain as where as: "ancestors (length ?pos) ?pos ?start = Some as"
    using ancestors_end [OF sound all_indexed [OF sub]] by blast
  have set_as: "set as = {b \<in> set ?pos. reply_below ?pos (po_id b) (po_id po)}"
    using ancestors_set [OF sound as sub] by (simp add: start)
  let ?roots = "remdups (map (\<lambda>a. (po_id a, [po_id a])) (filter (\<lambda>a. po_in_reply_to_id a = None) as))"
  have roots: "x \<in> set ?roots \<longleftrightarrow> (\<exists>r. thread_roots (po_id po) db r \<and> x = (r, [r]))" for x
    by (auto simp: set_as thread_roots_def top_level_def)
  have "\<exists>k. length ?pos - length ?pos \<le> k \<and> k < length ?pos \<and> po_id (?pos ! k) = fst x" if "x \<in> set ?roots" for x
    using that unfolding roots thread_roots_def top_level_def by (auto simp: in_set_conv_nth)
  from thread_rows_end [OF sound this, of _ ?roots] obtain thread where
    thread: "thread_rows (length ?pos) ?pos ?roots ?roots = Some thread" by blast
  have run: "thread_query (length ?pos) (po_id po) u db = Some thread"
    using as thread by (simp add: thread_query_def)
  have dist: "distinct thread" by (rule thread_rows_distinct [OF thread]) simp
  let ?P = "\<lambda>t. \<exists>r. thread_roots (po_id po) db r \<and> reply_path ?pos r (snd t) \<and> last (snd t) = fst t"
  have snd: "\<forall>t \<in> set thread. ?P t"
  proof (rule thread_rows_sound [OF _ thread])
    fix t x assume "?P t" and "x \<in> set (thread_children ?pos [t])"
    then obtain r q where "thread_roots (po_id po) db r" "reply_path ?pos r (snd t)" "last (snd t) = fst t"
      "q \<in> set ?pos" "po_in_reply_to_id q = Some (fst t)" "x = (po_id q, snd t @ [po_id q])"
      unfolding in_thread_children by auto
    then show "?P x" using reply_path.down [of ?pos r "snd t" q] by auto
  next
    fix t assume "t \<in> set ?roots"
    then obtain r where "thread_roots (po_id po) db r" "t = (r, [r])" unfolding roots by blast
    then show "?P t" by (intro exI [of _ r]) (simp add: reply_path.root)
  qed simp
  have closed: "set ?roots \<subseteq> set thread" "\<forall>t \<in> set thread. set (thread_children ?pos [t]) \<subseteq> set thread"
    using thread_rows_complete [OF thread] by simp_all
  have "j \<in> fst ` set thread" if r: "thread_roots (po_id po) db r" and "reply_below ?pos r j" for r j
    using that(2)
  proof (induction rule: reply_below.induct)
    case self
    from r have "(r, [r]) \<in> set ?roots" unfolding roots by blast
    with closed(1) show ?case by force
  next
    case (reply i q)
    then obtain t where t: "t \<in> set thread" "fst t = i" by auto
    have "(po_id q, snd t @ [po_id q]) \<in> set (thread_children ?pos [t])"
      unfolding in_thread_children using reply t by auto
    with closed(2) t(1) have "(po_id q, snd t @ [po_id q]) \<in> set thread" by blast
    then show ?case by force
  qed
  then have "\<forall>r j. thread_roots (po_id po) db r \<longrightarrow> reply_below ?pos r j \<longrightarrow> j \<in> fst ` set thread" by blast
  with run dist snd show thesis by (rule that)
qed

lemma thread_paths:
  assumes sound: "sound_threads (t_post db)"
    and snd: "\<forall>t \<in> set thread. \<exists>r. thread_roots i db r \<and> reply_path (t_post db) r (snd t) \<and> last (snd t) = fst t"
    and t: "t \<in> set thread" and t': "t' \<in> set thread"
  shows "fst t = fst t' \<Longrightarrow> t = t'"
    and "reply_below (t_post db) (fst t) (fst t') \<Longrightarrow> fst t \<noteq> fst t' \<Longrightarrow> snd t < snd t'"
proof -
  from snd t obtain r where r: "thread_roots i db r" "reply_path (t_post db) r (snd t)" "last (snd t) = fst t" by blast
  from snd t' obtain r' where r': "thread_roots i db r'" "reply_path (t_post db) r' (snd t')" "last (snd t') = fst t'" by blast
  note unique = reply_path_unique [OF sound _ _ r'(2)]
  have top: "top_level (t_post db) r" "top_level (t_post db) r'" using r(1) r'(1) by (simp_all add: thread_roots_def)
  show "fst t = fst t' \<Longrightarrow> t = t'"
    using unique [OF r(2) top] r(3) r'(3) by (simp add: prod_eq_iff)
  assume below: "reply_below (t_post db) (fst t) (fst t')" and ne: "fst t \<noteq> fst t'"
  from below have "\<exists>s. reply_path (t_post db) r (snd t @ s) \<and> last (snd t @ s) = fst t'"
  proof (induction rule: reply_below.induct)
    case self
    show ?case using r by (intro exI [of _ "[]"]) simp
  next
    case (reply j q)
    then obtain s where "reply_path (t_post db) r (snd t @ s)" "last (snd t @ s) = j" by blast
    with reply show ?case
      using reply_path.down [of "t_post db" r "snd t @ s" q] by (intro exI [of _ "s @ [po_id q]"]) simp
  qed
  then obtain s where s: "reply_path (t_post db) r (snd t @ s)" "last (snd t @ s) = fst t'" by blast
  with unique [OF s(1) top] r'(3) have "snd t' = snd t @ s" by simp
  moreover from this s(2) r(3) ne have "s \<noteq> []" by auto
  moreover have "xs < xs @ s" if "s \<noteq> []" for xs :: "uuid list"
    using that by (induction xs) (auto simp: neq_Nil_conv)
  ultimately show "snd t < snd t'" by simp
qed

text \<open>The page of the thread: the visible rows with their paths, sorted by path.\<close>

definition thread_pairs :: "uuid option \<Rightarrow> database \<Rightarrow> (uuid \<times> uuid list) list \<Rightarrow> (uuid list \<times> post_row) list" where
  "thread_pairs u db thread =
     concat (map (\<lambda>r. map (\<lambda>t. (snd t, r)) (filter (\<lambda>t. fst t = row_id r) thread))
       (filter (\<lambda>r. visibility_filter u db (row_post r)) (post_rows db)))"

lemma thread_page_pairs: "thread_page u db thread = map snd (sort_key fst (thread_pairs u db thread))"
  by (simp add: thread_page_def thread_pairs_def)

lemma set_thread_pairs:
  "wf_db db \<Longrightarrow> x \<in> set (thread_pairs u db thread) \<longleftrightarrow>
     (\<exists>po \<in> set (t_post db). visibility_filter u db po \<and> snd x = joined_row db po \<and> (po_id po, fst x) \<in> set thread)"
  by (cases x) (force simp: thread_pairs_def post_rows_wf)

lemma filter_unique_fst: "distinct (map fst ts) \<Longrightarrow> filter (\<lambda>t. fst t = i) ts = [] \<or> (\<exists>t. filter (\<lambda>t. fst t = i) ts = [t])"
proof (induction ts)
  case (Cons t ts)
  have "filter (\<lambda>t. fst t = i) ts = []" if "fst t = i"
    by (rule filter_False) (use Cons.prems that in \<open>auto simp: image_iff\<close>)
  with Cons.IH Cons.prems show ?case by (cases "fst t = i") simp_all
qed simp

lemma distinct_thread_pairs:
  assumes wf: "wf_db db" and thread: "distinct (map fst thread)"
  shows "distinct (map (\<lambda>x. row_id (snd x)) (thread_pairs u db thread))"
proof -
  have "distinct (map (\<lambda>x. row_id (snd x)) (concat (map (\<lambda>r. map (\<lambda>t. (snd t, r)) (filter (\<lambda>t. fst t = row_id r) thread)) rs)))"
    if "distinct (map row_id rs)" for rs
    using that
  proof (induction rs)
    case (Cons r rs)
    have "row_id r \<notin> (\<lambda>x. row_id (snd x)) ` set (concat (map (\<lambda>r. map (\<lambda>t. (snd t, r)) (filter (\<lambda>t. fst t = row_id r) thread)) rs))"
      using Cons.prems by force
    with Cons filter_unique_fst [OF thread, of "row_id r"] show ?case by auto
  qed simp
  from this [of "filter (\<lambda>r. visibility_filter u db (row_post r)) (post_rows db)"]
  show ?thesis using post_page.keys [OF wf] by (simp add: thread_pairs_def distinct_map_filter)
qed

lemma get_thread_found:
  assumes inv: "db_inv db" and read: "readable db"
    and po: "po \<in> set (t_post db)" "po_repost_of_id po = None" "visibility_filter u db po"
  obtains ps where "get_thread (po_id po) u db = Some (Inr ps, db)" and "distinct (map post_id_of ps)"
    and "\<forall>p. p \<in> set ps \<longleftrightarrow> (\<exists>q \<in> set (t_post db). p = view_of db q \<and> visibility_filter u db q \<and>
      (\<exists>r. thread_roots (po_id po) db r \<and> reply_below (t_post db) r (po_id q)))"
    and "sorted_wrt (\<lambda>p q. \<not> reply_below (t_post db) (post_id_of q) (post_id_of p)) ps" and "ps \<noteq> []"
proof -
  note wf = db_inv_wf [OF inv] and sound = sound_threads_inv [OF inv]
  obtain thread where run: "thread_query (length (t_post db)) (po_id po) u db = Some thread" and dist: "distinct thread"
    and paths: "\<forall>t \<in> set thread. \<exists>r. thread_roots (po_id po) db r \<and> reply_path (t_post db) r (snd t) \<and> last (snd t) = fst t"
    and complete: "\<forall>r j. thread_roots (po_id po) db r \<longrightarrow> reply_below (t_post db) r j \<longrightarrow> j \<in> fst ` set thread"
    by (rule thread_query_run [OF sound po])
  have ids: "j \<in> fst ` set thread \<longleftrightarrow> (\<exists>r. thread_roots (po_id po) db r \<and> reply_below (t_post db) r j)" for j
  proof
    assume "j \<in> fst ` set thread"
    then obtain t where t: "t \<in> set thread" "j = fst t" by blast
    with paths obtain r where "thread_roots (po_id po) db r" "reply_path (t_post db) r (snd t)" "last (snd t) = j" by blast
    with reply_path_below [of "t_post db" r "snd t"]
    show "\<exists>r. thread_roots (po_id po) db r \<and> reply_below (t_post db) r j" by blast
  qed (use complete in blast)
  have distf: "distinct (map fst thread)"
    using dist thread_paths(1) [OF sound paths] by (auto simp: distinct_map inj_on_def)
  let ?L = "sort_key fst (thread_pairs u db thread)"
  let ?ps = "map (\<lambda>x. post_value (snd x)) ?L"
  have setL: "x \<in> set ?L \<longleftrightarrow> (\<exists>q \<in> set (t_post db). visibility_filter u db q \<and> snd x = joined_row db q \<and> (po_id q, fst x) \<in> set thread)" for x
    using set_thread_pairs [OF wf] by simp
  have "set (thread_page u db thread) \<subseteq> set (post_rows db)"
    by (auto simp: thread_page_pairs set_thread_pairs [OF wf] post_rows_wf [OF wf])
  from query_posts_run [where f = "\<lambda>db. thread_page u db thread", OF wf read this]
  have q: "query_posts (\<lambda>db. thread_page u db thread) db = (Inr ?ps, db)"
    by (simp add: thread_page_pairs o_def)
  have mem: "p \<in> set ?ps \<longleftrightarrow> (\<exists>q \<in> set (t_post db). p = view_of db q \<and> visibility_filter u db q \<and> po_id q \<in> fst ` set thread)" for p
    using setL by (force simp: view_of_def)
  have "po_id po \<in> fst ` set thread"
  proof -
    from po(1) obtain i where "i < length (t_post db)" "t_post db ! i = po" by (auto simp: in_set_conv_nth)
    with top_ancestor [OF sound, of i] show ?thesis unfolding ids thread_roots_def top_level_def by blast
  qed
  with mem [of "view_of db po"] po have ne: "?ps \<noteq> []" by force
  have get: "get_thread (po_id po) u db = Some (Inr ?ps, db)"
    using ne unfolding get_thread_def run option.case bind_def q by (simp add: ret_run)
  have vid: "post_id_of (post_value (snd x)) = row_id (snd x)" if "x \<in> set ?L" for x
    using that readable_try_from(2) [OF wf read] unfolding setL by (auto simp: view_of_def)
  then have vals: "map post_id_of ?ps = map (\<lambda>x. row_id (snd x)) ?L" by simp
  have "distinct (map (\<lambda>x. row_id (snd x)) ?L)"
  proof -
    have "mset (map (\<lambda>x. row_id (snd x)) ?L) = mset (map (\<lambda>x. row_id (snd x)) (thread_pairs u db thread))" by simp
    from mset_eq_imp_distinct_iff [OF this] distinct_thread_pairs [OF wf distf, of u] show ?thesis by blast
  qed
  then have d: "distinct (map post_id_of ?ps)" by (simp only: vals)
  have "sorted_wrt (\<lambda>x y. fst x \<le> fst y \<and> row_id (snd x) \<noteq> row_id (snd y)) ?L"
    using d sorted_sort_key [of fst "thread_pairs u db thread"] unfolding vals
    by (auto simp: sorted_wrt_iff_nth_less sorted_map distinct_conv_nth)
  then have "sorted_wrt (\<lambda>x y. \<not> reply_below (t_post db) (row_id (snd y)) (row_id (snd x))) ?L"
  proof (rule sorted_wrt_mono_rel [rotated])
    fix x y assume x: "x \<in> set ?L" and y: "y \<in> set ?L" and le: "fst x \<le> fst y \<and> row_id (snd x) \<noteq> row_id (snd y)"
    from x y have "(row_id (snd x), fst x) \<in> set thread" "(row_id (snd y), fst y) \<in> set thread" unfolding setL by auto
    from thread_paths(2) [OF sound paths this(2,1)] le
    show "\<not> reply_below (t_post db) (row_id (snd y)) (row_id (snd x))" by (auto simp: not_less)
  qed
  then have s: "sorted_wrt (\<lambda>p q. \<not> reply_below (t_post db) (post_id_of q) (post_id_of p)) ?ps"
    unfolding sorted_wrt_map by (rule sorted_wrt_mono_rel [rotated]) (simp add: vid)
  from mem [unfolded ids] have "\<forall>p. p \<in> set ?ps \<longleftrightarrow> (\<exists>q \<in> set (t_post db). p = view_of db q \<and>
      visibility_filter u db q \<and> (\<exists>r. thread_roots (po_id po) db r \<and> reply_below (t_post db) r (po_id q)))" by blast
  with get d show thesis using s ne by (rule that)
qed

lemma get_thread_missing:
  assumes "\<not> (\<exists>po \<in> set (t_post db). po_id po = i \<and> po_repost_of_id po = None \<and> visibility_filter u db po)"
  shows "get_thread i u db = Some (Inl (NotFound ''post''), db)"
proof -
  have "thread_start i u db = []" using assms by (auto simp: thread_start_def filter_empty_conv)
  then have "thread_query (length (t_post db)) i u db = Some []" by (simp add: thread_query_def)
  moreover have "thread_pairs u db [] = []" by (simp add: thread_pairs_def)
  then have "thread_page u db [] = []" by (simp add: thread_page_pairs)
  ultimately show ?thesis
    by (simp add: get_thread_def query_posts_def bind_def query_def ret_def throw_def)
qed

lemma sample_thread: "\<exists>ps. get_thread 11 None sample_db = Some (Inr ps, sample_db) \<and> ps \<noteq> []"
proof -
  let ?po = "sample_post 11 2 (Some 10) Public 1 0"
  have "?po \<in> set (t_post sample_db)" "po_repost_of_id ?po = None" "visibility_filter None sample_db ?po"
    by (simp_all add: sample_tables sample_post_def visibility_filter_def)
  then obtain ps where "get_thread (po_id ?po) None sample_db = Some (Inr ps, sample_db)" "ps \<noteq> []"
    by (rule get_thread_found [OF sample_inv sample_readable])
  then show ?thesis by (auto simp: sample_post_def)
qed

section \<open>Property\<close>

text \<open>
  C17: \<open>get_thread\<close> always comes to an end on a database that the operations keep. When the post is
  there, is no repost and is visible to the reader, it returns every post of the thread that the
  reader may see exactly once (the thread is everything below the top-level post above it), and no
  reply stands before a post it is below; otherwise it returns \<open>NotFound\<close>.
\<close>

theorem get_thread_correct:
  assumes "db_inv db" and "readable db"
  shows "if \<exists>po \<in> set (t_post db). po_id po = i \<and> po_repost_of_id po = None \<and> visibility_filter u db po
    then \<exists>ps. get_thread i u db = Some (Inr ps, db) \<and> distinct (map post_id_of ps) \<and>
      (\<forall>p. p \<in> set ps \<longleftrightarrow> (\<exists>q \<in> set (t_post db). p = view_of db q \<and> visibility_filter u db q \<and>
        (\<exists>r. thread_roots i db r \<and> reply_below (t_post db) r (po_id q)))) \<and>
      sorted_wrt (\<lambda>p q. \<not> reply_below (t_post db) (post_id_of q) (post_id_of p)) ps
    else get_thread i u db = Some (Inl (NotFound ''post''), db)"
proof (cases "\<exists>po \<in> set (t_post db). po_id po = i \<and> po_repost_of_id po = None \<and> visibility_filter u db po")
  case True
  then obtain po where po: "po \<in> set (t_post db)" "po_repost_of_id po = None" "visibility_filter u db po" "po_id po = i"
    by blast
  show ?thesis
    unfolding if_P [OF True]
    by (rule get_thread_found [OF assms po(1-3)], unfold po(4)) (intro exI conjI, assumption+)
next
  case False
  show ?thesis unfolding if_not_P [OF False] by (rule get_thread_missing [OF False])
qed

theorem get_thread_correct_witness:
  "(\<exists>ps. get_thread 11 None sample_db = Some (Inr ps, sample_db) \<and> set (map post_id_of ps) = {10, 11}) \<and>
   get_thread 12 None sample_db = Some (Inl (NotFound ''post''), sample_db)"
proof -
  have vis: "visibility_filter None sample_db (sample_post i a p v m n) \<longleftrightarrow> v = Public" for i a p v m n
    by (auto simp: visibility_filter_def mentioned_def relates_def sample_post_def)
  have row: "po_id (sample_post i a p v m n) = i" "po_repost_of_id (sample_post i a p v m n) = None"
    "po_in_reply_to_id (sample_post i a p v m n) = p" for i a p v m n by (simp_all add: sample_post_def)
  note t = get_thread_correct [OF sample_inv sample_readable, where u = None]
  have none: "\<not> (\<exists>po \<in> set (t_post sample_db). po_id po = 12 \<and> po_repost_of_id po = None \<and> visibility_filter None sample_db po)"
    by (simp add: sample_tables row vis)
  note 12 = t [of 12, unfolded if_not_P [OF none]]
  have ex: "\<exists>po \<in> set (t_post sample_db). po_id po = 11 \<and> po_repost_of_id po = None \<and> visibility_filter None sample_db po"
    by (simp add: sample_tables row vis)
  from t [of 11, unfolded if_P [OF ex]] obtain ps where ps: "get_thread 11 None sample_db = Some (Inr ps, sample_db)"
    "\<forall>p. p \<in> set ps \<longleftrightarrow> (\<exists>q \<in> set (t_post sample_db). p = view_of sample_db q \<and> visibility_filter None sample_db q \<and>
        (\<exists>r. thread_roots 11 sample_db r \<and> reply_below (t_post sample_db) r (po_id q)))"
    by (elim exE conjE) (rule that)
  have below: "reply_below (t_post sample_db) 10 10" "reply_below (t_post sample_db) 10 11"
    using reply_below.reply [of "t_post sample_db" 10 10 "sample_post 11 2 (Some 10) Public 1 0"]
    by (auto simp: sample_tables row intro: reply_below.self)
  then have roots: "thread_roots 11 sample_db 10"
    by (simp add: thread_roots_def top_level_def sample_tables row)
  have v: "post_id_of (view_of sample_db q) = po_id q" if "q \<in> set (t_post sample_db)" for q
    using readable_try_from(2) [OF sample_wf sample_readable that] .
  let ?S = "{q \<in> set (t_post sample_db). visibility_filter None sample_db q \<and>
      (\<exists>r. thread_roots 11 sample_db r \<and> reply_below (t_post sample_db) r (po_id q))}"
  have "set ps = view_of sample_db ` ?S" using ps(2) by blast
  then have "set (map post_id_of ps) = (\<lambda>q. post_id_of (view_of sample_db q)) ` ?S" by (simp add: image_image)
  also have "\<dots> = po_id ` ?S" by (rule image_cong) (auto simp: v)
  also have "?S = {sample_post 10 1 None Public 1 1, sample_post 11 2 (Some 10) Public 1 0}"
    using roots below by (auto simp: sample_tables row vis)
  also have "po_id ` \<dots> = {10, 11}" by (simp add: row)
  finally show ?thesis using ps(1) 12 by blast
qed

end
