(* ===== verification/Timelines.thy ===== *)
theory Timelines
  imports Threads
begin

text \<open>
  Properties of what readers get: timelines and their pages, who may see a post, the clean-up of
  remote posts, and the posts attached to a list of posts.
\<close>

section \<open>The home timeline\<close>

lemma query_page_spec:
  assumes "wf_db db" and "readable db"
  shows "\<exists>ps. query_posts (\<lambda>db. page row_id (q db) m n (post_rows db)) db = (Inr ps, db) \<and> length ps \<le> n \<and>
    sorted_wrt (\<lambda>p q. post_id_of q < post_id_of p) ps \<and>
    (\<forall>p \<in> set ps. \<exists>po \<in> set (t_post db). p = view_of db po \<and> q db (joined_row db po) \<and> below m (po_id po)) \<and>
    (\<forall>po \<in> set (t_post db). q db (joined_row db po) \<and> below m (po_id po) \<and> 0 < n \<longrightarrow>
       view_of db po \<in> set ps \<or> po_id po < post_id_of (last ps))"
proof (intro exI conjI ballI impI)
  show "query_posts (\<lambda>db. page row_id (q db) m n (post_rows db)) db =
      (Inr (map post_value (page row_id (q db) m n (post_rows db))), db)"
    by (rule query_page(1) [OF assms])
  fix po assume "po \<in> set (t_post db)" and "q db (joined_row db po) \<and> below m (po_id po) \<and> 0 < n"
  then show "view_of db po \<in> set (map post_value (page row_id (q db) m n (post_rows db))) \<or>
      po_id po < post_id_of (last (map post_value (page row_id (q db) m n (post_rows db))))"
    by (elim conjE) (rule query_page(5) [OF assms])
qed (rule query_page(2-4) [OF assms], assumption?)+

text \<open>
  C29: the home timeline is the page its filter describes: at most \<open>limit\<close> posts, newest identifier
  first, each of them below \<open>max_post_id\<close> and accepted by the filter; and a post that is accepted and
  below \<open>max_post_id\<close> is on the page or comes after its last post.
\<close>

theorem home_timeline_correct:
  assumes "wf_db db" and "readable db"
  shows "\<exists>ps. get_home_timeline u m n db = (Inr ps, db) \<and> length ps \<le> n \<and>
    sorted_wrt (\<lambda>p q. post_id_of q < post_id_of p) ps \<and>
    (\<forall>p \<in> set ps. \<exists>po \<in> set (t_post db). p = view_of db po \<and> home_filter u db po \<and> below m (po_id po)) \<and>
    (\<forall>po \<in> set (t_post db). home_filter u db po \<and> below m (po_id po) \<and> 0 < n \<longrightarrow>
       view_of db po \<in> set ps \<or> po_id po < post_id_of (last ps))"
  unfolding get_home_timeline_def
  using query_page_spec [OF assms, of "\<lambda>db r. home_filter u db (row_post r)" m n] by simp

theorem home_timeline_correct_witness:
  "\<exists>ps. get_home_timeline 2 None 20 sample_db = (Inr ps, sample_db) \<and> sorted_wrt (\<lambda>p q. post_id_of q < post_id_of p) ps"
  using home_timeline_correct [OF sample_wf sample_readable, of 2 None 20] by blast

text \<open>
  C31: pages compose: a page of \<open>a\<close> posts followed by the page of \<open>b\<close> posts below its last post is
  the page of \<open>a + b\<close> posts, so a client that follows the pages sees every post of the timeline
  once and in order.
\<close>

theorem home_timeline_pages:
  assumes "wf_db db" and "readable db"
    and "get_home_timeline u m a db = (Inr ps, db)" and "ps \<noteq> []"
  shows "\<exists>qs. get_home_timeline u (Some (post_id_of (last ps))) b db = (Inr qs, db) \<and>
    get_home_timeline u m (a + b) db = (Inr (ps @ qs), db)"
  using query_page_next [OF assms(1,2), of "\<lambda>db r. home_filter u db (row_post r)" m a ps b] assms(3,4)
  unfolding get_home_timeline_def by blast

lemma sample_related [simp]:
  "related_attachments i sample_db = []" "related_tags i sample_db = []" "related_links i sample_db = []"
  "related_emojis i sample_db = []" "i \<noteq> 12 \<Longrightarrow> related_mentions i sample_db = []"
  by (simp_all add: related_attachments_def related_tags_def related_links_def related_emojis_def
      related_mentions_def sample_db_def empty_database_def)

theorem home_timeline_pages_witness:
  "\<exists>ps qs. get_home_timeline 1 None 1 sample_db = (Inr ps, sample_db) \<and> ps \<noteq> [] \<and>
     get_home_timeline 1 None 2 sample_db = (Inr (ps @ qs), sample_db)"
proof -
  from query_page(1) [OF sample_wf sample_readable, of "\<lambda>db r. home_filter 1 db (row_post r)" None 1]
  obtain ps where run: "get_home_timeline 1 None 1 sample_db = (Inr ps, sample_db)"
    and ps: "ps = map post_value (page row_id (\<lambda>r. home_filter 1 sample_db (row_post r)) None 1 (post_rows sample_db))"
    unfolding get_home_timeline_def by blast
  have mine: "sample_post 10 1 None Public 1 1 \<in> set (t_post sample_db)"
    "home_filter 1 sample_db (sample_post 10 1 None Public 1 1)"
    by (simp_all add: sample_tables home_filter_def visibility_filter_def relates_def sample_post_def sample_db_def empty_database_def)
  have "page row_id (\<lambda>r. home_filter 1 sample_db (row_post r)) None 1 (post_rows sample_db) \<noteq> []"
  proof
    assume none: "page row_id (\<lambda>r. home_filter 1 sample_db (row_post r)) None 1 (post_rows sample_db) = []"
    have "joined_row sample_db (sample_post 10 1 None Public 1 1) \<in> set (post_rows sample_db)"
      using mine(1) by (simp add: post_rows_wf [OF sample_wf])
    from page_complete [OF this, of "\<lambda>r. home_filter 1 sample_db (row_post r)" None row_id 1] mine(2) none
    show False by (simp add: below_def)
  qed
  then have "ps \<noteq> []" by (simp add: ps)
  from home_timeline_pages [OF sample_wf sample_readable run this, of 1] this run show ?thesis
    by (auto simp: numeral_2_eq_2)
qed

section \<open>Visibility\<close>

lemma filter_rows_views:
  assumes wf: "wf_db db" and read: "readable db" and sub: "set (f db) \<subseteq> set (post_rows db)"
    and run: "query_posts f db = (Inr ps, db)" and p: "p \<in> set ps"
  obtains po where "po \<in> set (t_post db)" "p = view_of db po" "joined_row db po \<in> set (f db)"
proof -
  from run p query_posts_run [where f = f, OF wf read sub] obtain r where r: "r \<in> set (f db)" "p = post_value r" by auto
  with sub obtain po where "po \<in> set (t_post db)" "r = joined_row db po" by (auto simp: post_rows_wf [OF wf])
  with r that show thesis by (simp add: view_of_def)
qed

lemma taken_rows: "x \<in> set (take n (sort_desc k (filter p rs))) \<Longrightarrow> x \<in> set rs \<and> p x"
  by (auto dest: in_set_takeD)

lemma home_filter_visible: "home_filter i db po \<Longrightarrow> visibility_filter (Some i) db po"
  unfolding home_filter_def by blast

lemma author_filter_visible: "author_filter a u r s db po \<Longrightarrow> visibility_filter u db po"
  unfolding author_filter_def by blast

text \<open>The four lists a client can ask for as user \<open>u\<close>.\<close>

definition listed_for :: "uuid option \<Rightarrow> database \<Rightarrow> post \<Rightarrow> bool" where
  "listed_for u db p \<longleftrightarrow> (\<exists>ps. p \<in> set ps \<and>
     ((\<exists>i m n. u = Some i \<and> get_home_timeline i m n db = (Inr ps, db)) \<or>
      (\<exists>a r s m n. get_posts_by_author a u r s m n db = (Inr ps, db)) \<or>
      (\<exists>t m n. get_posts_by_tag t u m n db = (Inr ps, db)) \<or>
      (\<exists>i. get_thread i u db = Some (Inr ps, db))))"

lemma listed_visible:
  assumes inv: "db_inv db" and read: "readable db" and "listed_for u db p"
  obtains po where "po \<in> set (t_post db)" "p = view_of db po" "visibility_filter u db po"
proof -
  note wf = db_inv_wf [OF inv]
  note views = filter_rows_views [OF wf read _ _]
  from assms(3) obtain ps where p: "p \<in> set ps" and
    "(\<exists>i m n. u = Some i \<and> get_home_timeline i m n db = (Inr ps, db)) \<or>
      (\<exists>a r s m n. get_posts_by_author a u r s m n db = (Inr ps, db)) \<or>
      (\<exists>t m n. get_posts_by_tag t u m n db = (Inr ps, db)) \<or>
      (\<exists>i. get_thread i u db = Some (Inr ps, db))" unfolding listed_for_def by blast
  then consider i m n where "u = Some i" "get_home_timeline i m n db = (Inr ps, db)"
    | a r s m n where "get_posts_by_author a u r s m n db = (Inr ps, db)"
    | t m n where "get_posts_by_tag t u m n db = (Inr ps, db)"
    | i where "get_thread i u db = Some (Inr ps, db)" by blast
  then show thesis
  proof cases
    case 1
    obtain po where "po \<in> set (t_post db)" "p = view_of db po"
      "joined_row db po \<in> set (page row_id (\<lambda>r. home_filter i db (row_post r)) m n (post_rows db))"
      by (rule filter_rows_views [OF wf read page_rows 1(2) [unfolded get_home_timeline_def] p])
    with page_sound [OF this(3)] home_filter_visible [of i db po] 1(1) show thesis by (intro that) simp_all
  next
    case 2
    obtain po where "po \<in> set (t_post db)" "p = view_of db po"
      "joined_row db po \<in> set (take n (sort_desc (\<lambda>r. po_created_at (row_post r))
       (filter (\<lambda>x. author_filter a u r s db (row_post x) \<and> below m (row_id x)) (post_rows db))))"
      by (rule filter_rows_views [OF wf read _ 2 [unfolded get_posts_by_author_def] p]) (auto dest: taken_rows)
    with taken_rows [OF this(3)] author_filter_visible [of a u r s db po] show thesis by (intro that) simp_all
  next
    case 3
    obtain po where po: "po \<in> set (t_post db)" "p = view_of db po"
      "joined_row db po \<in> set (page row_id (\<lambda>r. tagged (to_lowercase t) (row_id r) db \<and> visibility_filter u db (row_post r))
         m n (post_rows db))"
      by (rule filter_rows_views [OF wf read page_rows 3 [unfolded get_posts_by_tag_def] p])
    from page_sound [OF po(3)] have "visibility_filter u db po" by simp
    with po(1,2) show thesis by (rule that)
  next
    case 4
    have found: "\<exists>po \<in> set (t_post db). po_id po = i \<and> po_repost_of_id po = None \<and> visibility_filter u db po"
    proof (rule ccontr)
      assume none: "\<not> ?thesis"
      from get_thread_missing [OF none] 4 show False by simp
    qed
    then obtain po where po: "po \<in> set (t_post db)" "po_repost_of_id po = None" "visibility_filter u db po" "po_id po = i" by blast
    obtain qs where "get_thread i u db = Some (Inr qs, db)"
      "\<forall>p. p \<in> set qs \<longleftrightarrow> (\<exists>q \<in> set (t_post db). p = view_of db q \<and> visibility_filter u db q \<and>
      (\<exists>r. thread_roots i db r \<and> reply_below (t_post db) r (po_id q)))"
      by (rule get_thread_found [OF inv read po(1-3), unfolded po(4)])
    with 4 p that show thesis by auto
  qed
qed

text \<open>
  C3: whatever list a client asks for - home timeline, posts of an author, posts with a tag, thread -
  a post in it is public, or was written by the reader, or mentions the reader, or is for followers
  and the reader follows the author. An anonymous reader gets public posts only.
\<close>

theorem reads_respect_visibility:
  assumes "db_inv db" and "readable db" and "listed_for u db p"
  shows "pd_visibility (data_of p) = Public \<or>
    (\<exists>i. u = Some i \<and> (ap_id (pd_author (data_of p)) = i \<or> (post_id_of p, i) \<in> set (t_mention db) \<or>
       (pd_visibility (data_of p) = Followers \<and> related i (ap_id (pd_author (data_of p))) Follow db)))"
proof (rule listed_visible [OF assms])
  fix po assume po: "po \<in> set (t_post db)" "p = view_of db po" and vis: "visibility_filter u db po"
  note v = readable_try_from(2-4) [OF db_inv_wf [OF assms(1)] assms(2) po(1)]
    author_of_row(3) [OF db_inv_wf [OF assms(1)] po(1)]
  from vis show ?thesis
    by (cases u) (auto simp: po(2) v visibility_filter_def mentioned_def relates_def related_def relationship_row_def)
qed

theorem reads_respect_visibility_witness:
  "\<exists>p. listed_for None sample_db p \<and> pd_visibility (data_of p) = Public"
proof -
  obtain ps where ps: "get_thread 11 None sample_db = Some (Inr ps, sample_db)" "ps \<noteq> []"
    using sample_thread by blast
  then have "hd ps \<in> set ps" by simp
  then obtain p where "p \<in> set ps" by blast
  with ps have p: "listed_for None sample_db p" unfolding listed_for_def by blast
  from reads_respect_visibility [OF sample_inv sample_readable p] p show ?thesis by auto
qed

section \<open>The check for a single post\<close>

lemma is_mentioned_view:
  assumes wf: "wf_db db" and read: "readable db" and po: "po \<in> set (t_post db)"
  shows "is_mentioned u (view_of db po) \<longleftrightarrow> mentioned (Some u) (po_id po) db"
proof -
  have "u \<in> profile_ids db" if "(po_id po, u) \<in> set (t_mention db)"
    using wf that by (auto simp: wf_db_def foreign_keys_ok_def post_refs_ok_def)
  then show ?thesis
    by (force simp: is_mentioned_def readable_try_from(5) [OF wf read po] related_mentions_def mentioned_def list_ex_iff)
qed

lemma has_relationship_run: "has_relationship s t ty db = (Inr (related s t ty db), db)" if "wf_db db"
proof -
  have "filter (relationship_row s t ty) (t_relationship db) = [] \<or> (\<exists>r. filter (relationship_row s t ty) (t_relationship db) = [r])"
  proof -
    have eq: "relationship_row s t ty = (\<lambda>r. relationship_key r = (s, t, ty))"
      by (auto simp: relationship_row_def relationship_key_def)
    show ?thesis
      by (rule filter_key_cases [OF wf_relationship_keys [OF that], of "(s, t, ty)"]) (auto simp: eq)
  qed
  moreover have "related s t ty db \<longleftrightarrow> filter (relationship_row s t ty) (t_relationship db) \<noteq> []"
    by (auto simp: related_def filter_empty_conv)
  ultimately show ?thesis by (auto simp: has_relationship_def bind_def db_run)
qed

lemma relates_related: "relates (Some u) t ty db \<longleftrightarrow> related u t ty db"
  by (auto simp: relates_def related_def relationship_row_def)

text \<open>
  For a reader other than the author, \<open>can_view_post\<close> on a post decides exactly what the
  visibility filter of the timelines decides. For the author of a post that is not public it
  answers no, unless the author is mentioned, although the timelines show the post.
\<close>

theorem can_view_post_agrees:
  assumes "wf_db db" and "readable db" and "po \<in> set (t_post db)"
  shows "if u = Some (po_author_id po) \<and> po_visibility po \<noteq> Public \<and> \<not> mentioned u (po_id po) db
    then can_view_post u (view_of db po) db = (Inr False, db) \<and> visibility_filter u db po
    else can_view_post u (view_of db po) db = (Inr (visibility_filter u db po), db)"
proof -
  note v = readable_try_from(3,4) [OF assms] author_of_row(3) [OF assms(1,3)]
    is_mentioned_view [OF assms] has_relationship_run [OF assms(1)]
  have self: "\<not> related i i Follow db" for i
    using wf_not_self [OF assms(1)] by (auto simp: related_def relationship_row_def)
  show ?thesis
    by (cases u; cases "po_visibility po")
      (auto simp: can_view_post_def v visibility_filter_def mentioned_def relates_related self db_run bind_def,
        auto simp: relates_def mentioned_def)
qed

theorem can_view_post_agrees_witness:
  "can_view_post (Some 1) (view_of sample_db (sample_post 12 1 (Some 11) Direct 0 0)) sample_db = (Inr False, sample_db) \<and>
   visibility_filter (Some 1) sample_db (sample_post 12 1 (Some 11) Direct 0 0) \<and>
   can_view_post (Some 2) (view_of sample_db (sample_post 12 1 (Some 11) Direct 0 0)) sample_db = (Inr True, sample_db)"
proof -
  have "sample_post 12 1 (Some 11) Direct 0 0 \<in> set (t_post sample_db)" by (simp add: sample_tables)
  from can_view_post_agrees [OF sample_wf sample_readable this, of "Some 1"]
    can_view_post_agrees [OF sample_wf sample_readable this, of "Some 2"]
  show ?thesis
    by (simp add: mentioned_def sample_tables) (simp add: sample_post_def visibility_filter_def mentioned_def sample_tables)
qed

section \<open>Remote posts that nobody needs\<close>

text \<open>
  Deleting a context that \<open>find_extraneous_posts\<close> returns never removes a post of a local
  profile, nor one that a local profile reacted to or is mentioned in, nor one younger than the
  limit.
\<close>

theorem extraneous_posts_safe:
  assumes "db_inv db" and "find_extraneous_posts limit db = (Inr ids, db)" and "i \<in> set ids"
  shows "\<exists>q db'. delete_post i db = (Inr q, db') \<and> db_inv db' \<and>
    (\<forall>po \<in> set (t_post db). local_profile_id (po_author_id po) db \<or> limit \<le> po_created_at po \<or>
       (\<exists>r \<in> set (t_post_reaction db). pr_post_id r = po_id po \<and> local_profile_id (pr_author_id r) db) \<or>
       (\<exists>m \<in> set (t_mention db). fst m = po_id po \<and> local_profile_id (snd m) db) \<longrightarrow>
       po_id po \<in> post_ids db')"
proof -
  from assms(2,3) obtain root where root: "root \<in> set (t_post db)" "po_id root = i" "extraneous limit db root"
    by (auto simp: find_extraneous_posts_def query_def)
  from delete_post_cases [OF assms(1), of i] root(1,2) obtain q where
    run: "delete_post i db = (Inr q, unposted root db)" and inv: "db_inv (unposted root db)"
    using post_id_unique [OF db_inv_wf [OF assms(1)] root(1)] by (metis imageI)
  have "po_id po \<in> post_ids (unposted root db)"
    if po: "po \<in> set (t_post db)" and keep: "local_profile_id (po_author_id po) db \<or> limit \<le> po_created_at po \<or>
       (\<exists>r \<in> set (t_post_reaction db). pr_post_id r = po_id po \<and> local_profile_id (pr_author_id r) db) \<or>
       (\<exists>m \<in> set (t_mention db). fst m = po_id po \<and> local_profile_id (snd m) db)" for po
  proof -
    have "po_id po \<notin> set (post_context (t_post db) [po_id root])"
      using root(3) po keep unfolding extraneous_def Let_def exists_where_iff by fastforce
    then show ?thesis using po unfolding unposted_ids by (simp add: set_post_context)
  qed
  with run inv show ?thesis by blast
qed

theorem extraneous_posts_safe_witness:
  "\<exists>q db'. find_extraneous_posts 10 remote_db = (Inr [30, 31], remote_db) \<and> delete_post 30 remote_db = (Inr q, db') \<and> db_inv db'"
proof -
  have ids: "po_id (remote_post i o' t) = i" "po_in_reply_to_id (remote_post i o' t) = None" "po_author_id (remote_post i o' t) = 3"
    "po_repost_of_id (remote_post i o' t) = None" "po_created_at (remote_post i o' t) = t" for i o' t
    by (simp_all add: remote_rows)
  have alone: "post_context (t_post remote_db) [i] = [i]" for i
    by (subst post_context.simps) (simp add: new_children_def is_child_def remote_tables ids)
  have local: "local_profile_id i remote_db \<longleftrightarrow> i = 1" for i
    by (auto simp: local_profile_id_def remote_tables) (auto simp: remote_rows)
  have run: "find_extraneous_posts 10 remote_db = (Inr [30, 31], remote_db)"
    by (simp add: find_extraneous_posts_def query_def extraneous_def Let_def alone local remote_tables ids)
  with extraneous_posts_safe [OF remote_inv run, of 30] show ?thesis by auto
qed

section \<open>Posts of an author\<close>

text \<open>
  \<open>get_posts_by_author\<close> pages by identifier but orders by the time of creation, so its pages do
  not compose: here both posts fit on a page of two, and a client that reads pages of one sees the
  first post and then nothing.
\<close>

theorem author_pages_skip:
  "\<exists>p q. get_posts_by_author 3 None True True None 2 remote_db = (Inr [p, q], remote_db) \<and> p \<noteq> q \<and>
     get_posts_by_author 3 None True True None 1 remote_db = (Inr [p], remote_db) \<and>
     get_posts_by_author 3 None True True (Some (post_id_of p)) 1 remote_db = (Inr [], remote_db)"
proof -
  let ?a = "remote_post 30 ''https://r.example/b'' 5" and ?b = "remote_post 31 ''https://r.example/a'' 0"
  have read: "readable remote_db"
    by (simp add: readable_def readable_post_def remote_tables remote_rows is_local_def)
  have fields: "po_id (remote_post i o' t) = i" "po_author_id (remote_post i o' t) = 3" "po_created_at (remote_post i o' t) = t"
    "po_visibility (remote_post i o' t) = Public" for i o' t by (simp_all add: remote_rows)
  have rows: "post_rows remote_db = [joined_row remote_db ?a, joined_row remote_db ?b]"
    by (simp add: post_rows_wf [OF remote_wf] remote_tables)
  have vis: "author_filter 3 None True True remote_db (remote_post i o' t)" for i o' t
    by (simp add: author_filter_def visibility_filter_def fields)
  define page where "page m n = take n (sort_desc (\<lambda>r. po_created_at (row_post r))
    (filter (\<lambda>r. author_filter 3 None True True remote_db (row_post r) \<and> below m (row_id r)) (post_rows remote_db)))" for m n
  have run: "get_posts_by_author 3 None True True m n remote_db = (Inr (map post_value (page m n)), remote_db)" for m n
    unfolding get_posts_by_author_def page_def
    by (rule query_posts_run [OF remote_wf read]) (auto dest: taken_rows)
  have 2: "page None 2 = [joined_row remote_db ?a, joined_row remote_db ?b]"
    and 1: "page None 1 = [joined_row remote_db ?a]" and 0: "page (Some 30) 1 = []"
    by (simp_all add: page_def rows vis below_def sort_desc_def fields insort_key_def)
  have id: "post_id_of (view_of remote_db ?a) = 30" "post_id_of (view_of remote_db ?b) = 31"
    using readable_try_from(2) [OF remote_wf read] by (simp_all add: remote_tables fields)
  show ?thesis
    by (rule exI [of _ "view_of remote_db ?a"], rule exI [of _ "view_of remote_db ?b"])
      (use id in \<open>auto simp: run 2 1 0 view_of_def simp del: One_nat_def\<close>)
qed

end
