(* ===== verification/Readability.thy ===== *)
theory Readability
  imports System Timelines
begin

text \<open>
  Every database that the operations reach is readable: no row makes \<open>Post::new\<close> fail, so
  timelines, threads and single posts can always be read.
\<close>

section \<open>What reading a post depends on\<close>

definition author_fits :: "database \<Rightarrow> db_post \<Rightarrow> bool" where
  "author_fits db po \<longleftrightarrow>
     (\<forall>ap \<in> set (t_actor_profile db). ap_id ap = po_author_id po \<longrightarrow> is_local ap = (po_object_id po = None))"

definition plain_fields :: "db_post \<Rightarrow> bool" where
  "plain_fields po \<longleftrightarrow>
     po_content po = [] \<and> \<not> po_is_sensitive po \<and> po_in_reply_to_id po = None \<and> po_ipfs_cid po = None \<and>
     po_token_id po = None \<and> po_token_tx_id po = None"

definition has_parts :: "database \<Rightarrow> uuid \<Rightarrow> bool" where
  "has_parts db i \<longleftrightarrow>
     (\<exists>a \<in> set (t_media_attachment db). ma_post_id a = Some i) \<or> (\<exists>m \<in> set (t_mention db). fst m = i) \<or>
     (\<exists>m \<in> set (t_post_tag db). fst m = i) \<or> (\<exists>m \<in> set (t_post_link db). fst m = i) \<or>
     (\<exists>m \<in> set (t_post_emoji db). fst m = i)"

text \<open>Readable up to the authors of the posts in \<open>A\<close> and the content of the reposts in \<open>X\<close>.\<close>

definition reads :: "uuid set \<Rightarrow> uuid set \<Rightarrow> database \<Rightarrow> bool" where
  "reads A X db \<longleftrightarrow>
     (\<forall>po \<in> set (t_post db). (po_id po \<notin> A \<longrightarrow> author_fits db po) \<and>
        (po_repost_of_id po \<noteq> None \<and> po_id po \<notin> X \<longrightarrow> plain_fields po \<and> \<not> has_parts db (po_id po)))"

lemma readable_reads: "readable db \<longleftrightarrow> reads {} {} db"
  by (auto simp: readable_def readable_post_def reads_def author_fits_def plain_repost_def plain_fields_def has_parts_def)

text \<open>A change that makes nothing less readable.\<close>

definition same_reading :: "db_post \<Rightarrow> db_post \<Rightarrow> bool" where
  "same_reading po' po \<longleftrightarrow>
     po_id po' = po_id po \<and> po_author_id po' = po_author_id po \<and>
     (po_object_id po' = None) = (po_object_id po = None) \<and> po_repost_of_id po' = po_repost_of_id po \<and>
     (po_repost_of_id po \<noteq> None \<longrightarrow> plain_fields po \<longrightarrow> plain_fields po')"

definition calm :: "uuid set \<Rightarrow> database \<Rightarrow> database \<Rightarrow> bool" where
  "calm X db db' \<longleftrightarrow>
     (\<forall>po' \<in> set (t_post db'). \<exists>po \<in> set (t_post db). same_reading po' po) \<and>
     (\<forall>ap' \<in> set (t_actor_profile db'). ap_id ap' \<notin> po_author_id ` set (t_post db) \<or>
        (\<exists>ap \<in> set (t_actor_profile db). ap_id ap = ap_id ap' \<and> is_local ap = is_local ap')) \<and>
     (\<forall>i. has_parts db' i \<longrightarrow> has_parts db i \<or> i \<in> X)"

lemma calm_reads: "calm X db db' \<Longrightarrow> reads A X db \<Longrightarrow> reads A X db'"
proof -
  assume calm: "calm X db db'" and reads: "reads A X db"
  show "reads A X db'"
    unfolding reads_def
  proof (intro ballI conjI impI)
    fix po' assume po': "po' \<in> set (t_post db')"
    with calm obtain po where po: "po \<in> set (t_post db)" and same: "same_reading po' po"
      unfolding calm_def by blast
    have old: "po_id po \<notin> A \<longrightarrow> author_fits db po"
      "po_repost_of_id po \<noteq> None \<and> po_id po \<notin> X \<longrightarrow> plain_fields po \<and> \<not> has_parts db (po_id po)"
      using reads po by (simp_all add: reads_def)
    {
      assume "po_id po' \<notin> A"
      with old(1) same have fits: "author_fits db po" by (simp add: same_reading_def)
      show "author_fits db' po'"
        unfolding author_fits_def
      proof (intro ballI impI)
        fix ap' assume ap': "ap' \<in> set (t_actor_profile db')" "ap_id ap' = po_author_id po'"
        then have "ap_id ap' \<in> po_author_id ` set (t_post db)" using po same by (auto simp: same_reading_def)
        with ap'(1) calm obtain ap where "ap \<in> set (t_actor_profile db)" "ap_id ap = ap_id ap'" "is_local ap = is_local ap'"
          unfolding calm_def by blast
        with fits ap'(2) same show "is_local ap' = (po_object_id po' = None)"
          by (simp add: author_fits_def same_reading_def)
      qed
    }
    assume r: "po_repost_of_id po' \<noteq> None \<and> po_id po' \<notin> X"
    with old(2) same have p: "plain_fields po" "\<not> has_parts db (po_id po)" by (simp_all add: same_reading_def)
    with same r show "plain_fields po'" by (simp add: same_reading_def)
    show "\<not> has_parts db' (po_id po')"
    proof
      assume "has_parts db' (po_id po')"
      with calm r have "has_parts db (po_id po')" unfolding calm_def by blast
      with p same show False by (simp add: same_reading_def)
    qed
  qed
qed

definition serves :: "uuid set \<Rightarrow> uuid set \<Rightarrow> database \<Rightarrow> bool" where
  "serves A X db \<longleftrightarrow> wf_db db \<and> reads A X db"

lemma keeps_calm:
  assumes "\<And>db. wf_db db \<Longrightarrow> wf_db (snd (f db)) \<Longrightarrow> calm X db (snd (f db))"
  shows "keeps (serves A X) (execute f)" "keeps (serves A X) (execute_catching t f)"
proof -
  have "serves A X (snd (f db))" if "serves A X db" "wf_db (snd (f db))" for db
    using that assms [of db] calm_reads [of X db "snd (f db)" A] by (simp add: serves_def)
  then show "keeps (serves A X) (execute f)" "keeps (serves A X) (execute_catching t f)"
    by (blast intro: keeps_execute keeps_execute_catching)+
qed

section \<open>Calm changes\<close>

lemma same_reading_refl [simp]: "same_reading po po"
  by (simp add: same_reading_def)

lemma calm_refl [simp]: "calm X db db"
  by (auto simp: calm_def intro: same_reading_refl)

text \<open>Other tables.\<close>

lemma calm_frame:
  "t_post db' = t_post db \<Longrightarrow> t_actor_profile db' = t_actor_profile db \<Longrightarrow>
   t_media_attachment db' = t_media_attachment db \<Longrightarrow> t_mention db' = t_mention db \<Longrightarrow>
   t_post_tag db' = t_post_tag db \<Longrightarrow> t_post_link db' = t_post_link db \<Longrightarrow>
   t_post_emoji db' = t_post_emoji db \<Longrightarrow> calm X db db'"
  unfolding calm_def has_parts_def by (auto intro: same_reading_refl)

text \<open>Rows go away, keep their reading, or are not read yet.\<close>

lemma calmI:
  assumes "\<And>po'. po' \<in> set (t_post db') \<Longrightarrow> \<exists>po \<in> set (t_post db). same_reading po' po"
    and "\<And>ap'. ap' \<in> set (t_actor_profile db') \<Longrightarrow> ap_id ap' \<in> po_author_id ` set (t_post db) \<Longrightarrow>
      \<exists>ap \<in> set (t_actor_profile db). ap_id ap = ap_id ap' \<and> is_local ap = is_local ap'"
    and "\<And>a. a \<in> set (t_media_attachment db') \<Longrightarrow>
      ma_post_id a \<in> insert None (Some ` X) \<union> ma_post_id ` set (t_media_attachment db)"
    and "fst ` set (t_mention db') \<subseteq> fst ` set (t_mention db) \<union> X"
    and "fst ` set (t_post_tag db') \<subseteq> fst ` set (t_post_tag db) \<union> X"
    and "fst ` set (t_post_link db') \<subseteq> fst ` set (t_post_link db) \<union> X"
    and "fst ` set (t_post_emoji db') \<subseteq> fst ` set (t_post_emoji db) \<union> X"
  shows "calm X db db'"
  unfolding calm_def
proof (intro conjI ballI allI impI)
  show "\<exists>po \<in> set (t_post db). same_reading po' po" if "po' \<in> set (t_post db')" for po' using assms(1) that .
  show "ap_id ap' \<notin> po_author_id ` set (t_post db) \<or>
      (\<exists>ap \<in> set (t_actor_profile db). ap_id ap = ap_id ap' \<and> is_local ap = is_local ap')"
    if "ap' \<in> set (t_actor_profile db')" for ap' using assms(2) [OF that] by blast
  fix i assume "has_parts db' i"
  then consider a where "a \<in> set (t_media_attachment db')" "ma_post_id a = Some i"
    | "i \<in> fst ` set (t_mention db')" | "i \<in> fst ` set (t_post_tag db')"
    | "i \<in> fst ` set (t_post_link db')" | "i \<in> fst ` set (t_post_emoji db')"
    unfolding has_parts_def by blast
  then show "has_parts db i \<or> i \<in> X"
  proof cases
    case 1
    from assms(3) [OF 1(1)] 1(2) have "i \<in> X \<or> (\<exists>b \<in> set (t_media_attachment db). ma_post_id b = Some i)" by auto
    then show ?thesis by (auto simp: has_parts_def)
  next
    case 2 with assms(4) have "i \<in> fst ` set (t_mention db) \<union> X" by blast
    then show ?thesis by (auto simp: has_parts_def)
  next
    case 3 with assms(5) have "i \<in> fst ` set (t_post_tag db) \<union> X" by blast
    then show ?thesis by (auto simp: has_parts_def)
  next
    case 4 with assms(6) have "i \<in> fst ` set (t_post_link db) \<union> X" by blast
    then show ?thesis by (auto simp: has_parts_def)
  next
    case 5 with assms(7) have "i \<in> fst ` set (t_post_emoji db) \<union> X" by blast
    then show ?thesis by (auto simp: has_parts_def)
  qed
qed

lemma calm_profiles:
  assumes "\<And>ap. p ap \<Longrightarrow> ap_id (f ap) = ap_id ap \<and> is_local (f ap) = is_local ap"
  shows "calm X db (db\<lparr>t_actor_profile := update_where p f (t_actor_profile db)\<rparr>)"
proof (rule calmI)
  fix ap' assume "ap' \<in> set (t_actor_profile (db\<lparr>t_actor_profile := update_where p f (t_actor_profile db)\<rparr>))"
  then obtain ap where "ap \<in> set (t_actor_profile db)" "ap' = (if p ap then f ap else ap)"
    by (auto simp: in_update_where)
  with assms show "\<exists>ap \<in> set (t_actor_profile db). ap_id ap = ap_id ap' \<and> is_local ap = is_local ap'"
    by (intro bexI [of _ ap]) auto
qed (auto intro: same_reading_refl)

lemma calm_posts:
  assumes "\<And>po. p po \<Longrightarrow> same_reading (f po) po"
  shows "calm X db (db\<lparr>t_post := update_where p f (t_post db)\<rparr>)"
proof (rule calmI)
  fix po' assume "po' \<in> set (t_post (db\<lparr>t_post := update_where p f (t_post db)\<rparr>))"
  then obtain po where "po \<in> set (t_post db)" "po' = (if p po then f po else po)" by (auto simp: in_update_where)
  with assms show "\<exists>po \<in> set (t_post db). same_reading po' po" by (intro bexI [of _ po]) auto
qed auto

lemma calm_new_profile:
  assumes "wf_db db" and "ap_id ap \<notin> profile_ids db"
  shows "calm X db (db\<lparr>t_actor_profile := t_actor_profile db @ [ap]\<rparr>)"
proof (rule calmI)
  fix ap' assume "ap' \<in> set (t_actor_profile (db\<lparr>t_actor_profile := t_actor_profile db @ [ap]\<rparr>))"
    and "ap_id ap' \<in> po_author_id ` set (t_post db)"
  moreover have "po_author_id ` set (t_post db) \<subseteq> profile_ids db"
    using assms(1) by (auto simp: wf_db_def foreign_keys_ok_def post_refs_ok_def)
  ultimately show "\<exists>ap \<in> set (t_actor_profile db). ap_id ap = ap_id ap' \<and> is_local ap = is_local ap'"
    using assms(2) by auto
qed (auto intro: same_reading_refl)

lemma calm_deleted:
  "calm X db (delete_post_row i db)" "calm X db (delete_profile_row i db)" "calm X db (delete_emoji_row i db)"
  unfolding delete_post_row_def delete_profile_row_def delete_posts_cascade_def delete_user_rows_def
    delete_profile_rows_def delete_emoji_row_def
  by (rule calmI; force intro: same_reading_refl)+

section \<open>Statements\<close>

named_theorems serves_intro "operations that keep databases readable"

lemma serves_frame:
  "(\<And>db. t_post (snd (f db)) = t_post db \<and> t_actor_profile (snd (f db)) = t_actor_profile db \<and>
      t_media_attachment (snd (f db)) = t_media_attachment db \<and> t_mention (snd (f db)) = t_mention db \<and>
      t_post_tag (snd (f db)) = t_post_tag db \<and> t_post_link (snd (f db)) = t_post_link db \<and>
      t_post_emoji (snd (f db)) = t_post_emoji db) \<Longrightarrow>
   keeps (serves A X) (execute f)"
  "(\<And>db. t_post (snd (f db)) = t_post db \<and> t_actor_profile (snd (f db)) = t_actor_profile db \<and>
      t_media_attachment (snd (f db)) = t_media_attachment db \<and> t_mention (snd (f db)) = t_mention db \<and>
      t_post_tag (snd (f db)) = t_post_tag db \<and> t_post_link (snd (f db)) = t_post_link db \<and>
      t_post_emoji (snd (f db)) = t_post_emoji db) \<Longrightarrow>
   keeps (serves A X) (execute_catching t f)"
  by (rule keeps_calm, rule calm_frame; simp)+

lemma insert_tags_frame:
  "t_post (insert_tags ts db) = t_post db" "t_actor_profile (insert_tags ts db) = t_actor_profile db"
  "t_media_attachment (insert_tags ts db) = t_media_attachment db" "t_mention (insert_tags ts db) = t_mention db"
  "t_post_tag (insert_tags ts db) = t_post_tag db" "t_post_link (insert_tags ts db) = t_post_link db"
  "t_post_emoji (insert_tags ts db) = t_post_emoji db"
  by (induction ts arbitrary: db) simp_all

lemma serves_relationships [serves_intro]:
  "keeps (serves A X) (execute (insert_relationship s t ty))"
  "keeps (serves A X) (execute_catching c (insert_relationship s t ty))"
  "keeps (serves A X) (execute (insert_relationship_opt s t ty))"
  "keeps (serves A X) (execute (delete_relationship s t ty))"
  "keeps (serves A X) (execute (set_request_status i st))"
  "keeps (serves A X) (execute (\<lambda>db. row_count (set_request_status i st db)))"
  "keeps (serves A X) (execute (upsert_follow_request i s t a))"
  by (rule serves_frame; simp add: insert_relationship_def insert_relationship_opt_def delete_relationship_def
      set_request_status_def upsert_follow_request_def Let_def)+

lemma serves_change_profile:
  "(\<And>ap. ap_id (f ap) = ap_id ap \<and> is_local (f ap) = is_local ap) \<Longrightarrow> keeps (serves A X) (change_profile i f)"
  unfolding change_profile_def by (intro keeps_intro keeps_calm) (simp_all add: calm_profiles)

lemma serves_counts [serves_intro]:
  "keeps (serves A X) (update_follower_count i k)" "keeps (serves A X) (update_following_count i k)"
  "keeps (serves A X) (update_subscriber_count i k)" "keeps (serves A X) (update_post_count i k)"
  unfolding update_follower_count_def update_following_count_def update_subscriber_count_def update_post_count_def
  by (rule serves_change_profile; simp add: is_local_def)+

lemma serves_posts:
  "(\<And>po. p po \<Longrightarrow> same_reading (f po) po) \<Longrightarrow> keeps (serves A X) (execute (update_posts p f))"
  "(\<And>po. p po \<Longrightarrow> same_reading (f po) po) \<Longrightarrow> keeps (serves A X) (execute (\<lambda>db. row_count (update_posts p f db)))"
  by (intro keeps_calm; simp add: calm_posts)+

lemma serves_post_counts [serves_intro]:
  "keeps (serves A X) (update_reply_count i k)" "keeps (serves A X) (update_reaction_count i k)"
  "keeps (serves A X) (update_repost_count i k)"
  unfolding update_reply_count_def update_reaction_count_def update_repost_count_def change_post_def
  by (intro keeps_intro serves_posts; simp add: same_reading_def plain_fields_def)+

lemma serves_notifications [serves_intro]:
  "keeps (serves A X) (create_notification now s r po ty)" "keeps (serves A X) (delete_notification n)"
  unfolding create_notification_def delete_notification_def by (rule serves_frame; simp)+

lemma serves_notification_kinds [serves_intro]:
  "keeps (serves A X) (create_follow_notification now s r)" "keeps (serves A X) (create_reply_notification now s r po)"
  "keeps (serves A X) (create_reaction_notification now s r po)" "keeps (serves A X) (create_mention_notification now s r po)"
  "keeps (serves A X) (create_repost_notification now s r po)"
  unfolding create_notification_defs by (rule serves_notifications)+

section \<open>Operations\<close>

lemma serves_settings [serves_intro]:
  "keeps (serves A X) (hide_reposts s t)" "keeps (serves A X) (show_reposts s t)"
  "keeps (serves A X) (hide_replies s t)" "keeps (serves A X) (show_replies s t)"
  "keeps (serves A X) (mute_posts s t)" "keeps (serves A X) (unmute_posts s t)"
  unfolding hide_reposts_def show_reposts_def hide_replies_def show_replies_def mute_posts_def unmute_posts_def
  by (intro keeps_intro serves_intro)+

lemma serves_follow [serves_intro]: "keeps (serves A X) (follow now s t)"
  unfolding follow_def by (intro keeps_intro serves_intro)

lemma serves_unfollow [serves_intro]: "keeps (serves A X) (unfollow s t)"
proof -
  have "keeps (serves A X) (delete_follow_request_opt s t)"
    unfolding delete_follow_request_opt_def by (intro keeps_intro serves_frame) simp
  then show ?thesis unfolding unfollow_def Let_def by (intro keeps_intro serves_intro)
qed

lemma serves_requests [serves_intro]:
  "keeps (serves A X) (create_follow_request i s t)" "keeps (serves A X) (create_remote_follow_request_opt i s t a)"
  "keeps (serves A X) (follow_request_accepted now i)" "keeps (serves A X) (follow_request_rejected i)"
  unfolding create_follow_request_def create_remote_follow_request_opt_def follow_request_accepted_def
    follow_request_rejected_def Let_def
  by (intro keeps_intro serves_intro serves_frame; simp)+

lemma serves_subscriptions [serves_intro]:
  "keeps (serves A X) (subscribe s t)" "keeps (serves A X) (subscribe_opt s t)" "keeps (serves A X) (unsubscribe s t)"
  unfolding subscribe_def subscribe_opt_def unsubscribe_def by (intro keeps_intro serves_intro)+

lemma serves_reactions [serves_intro]:
  "keeps (serves A X) (create_reaction now i a po act)" "keeps (serves A X) (delete_reaction a po)"
proof -
  have rows: "keeps (serves A X) (execute_catching c (insert_reaction rx))"
    "keeps (serves A X) (execute (delete_reaction_row a po))" for c rx
    by (rule serves_frame; simp add: insert_reaction_def delete_reaction_row_def)+
  show "keeps (serves A X) (create_reaction now i a po act)" "keeps (serves A X) (delete_reaction a po)"
    unfolding create_reaction_def delete_reaction_def get_post_author_def
    by (intro keeps_intro serves_intro rows)+
qed

lemma serves_emojis [serves_intro]:
  "keeps (serves A X) (create_instance h)" "keeps (serves A X) (create_emoji e n h' img oid t)"
  "keeps (serves A X) (update_emoji e img t)" "keeps (serves A X) (delete_emoji e)"
proof -
  show inst: "keeps (serves A X) (create_instance h)" for h
    unfolding create_instance_def by (rule serves_frame) simp
  show "keeps (serves A X) (create_emoji e n h' img oid t)"
    unfolding create_emoji_def Let_def by (intro keeps_intro inst serves_frame) simp
  have caches: "keeps (serves A X) (update_emoji_caches e)" for e
    unfolding update_emoji_caches_eq by (intro keeps_calm) (simp add: calm_profiles is_local_def)
  show "keeps (serves A X) (update_emoji e img t)"
    unfolding update_emoji_def Let_def by (intro keeps_intro caches serves_frame) simp
  show "keeps (serves A X) (delete_emoji e)"
    unfolding delete_emoji_def by (intro keeps_intro caches keeps_calm) (simp add: calm_deleted)
qed

lemma serves_reachability [serves_intro]: "keeps (serves A X) (set_reachability_status now a b)"
  unfolding set_reachability_status_def
  by (intro keeps_intro keeps_calm) (simp_all add: calm_profiles is_local_def)

lemma serves_users [serves_intro]:
  "keeps (serves A X) (create_invite_code code now note)" "keeps (serves A X) (set_user_password i h)"
  "keeps (serves A X) (set_user_role i r)" "keeps (serves A X) (update_client_config i n v)"
  unfolding create_invite_code_def set_user_password_def set_user_role_def update_client_config_def change_account_def
  by (intro keeps_intro serves_frame; simp)+

lemma serves_oauth [serves_intro]:
  "keeps (serves A X) (create_oauth_app now d)" "keeps (serves A X) (create_oauth_authorization c u a s t e)"
  "keeps (serves A X) (save_oauth_token u tok t e)" "keeps (serves A X) (delete_oauth_token u tok)"
  "keeps (serves A X) (delete_oauth_tokens u)"
  unfolding create_oauth_app_def create_oauth_authorization_def save_oauth_token_def delete_oauth_token_def
    delete_oauth_tokens_def Let_def
  by (intro keeps_intro serves_frame; simp)+

lemma serves_jobs [serves_intro]:
  "keeps (serves A X) (enqueue_job i now ty d s)" "keeps (serves A X) (get_job_batch now ty n t)"
  "keeps (serves A X) (delete_job_from_queue i)"
  unfolding enqueue_job_def get_job_batch_def delete_job_from_queue_def Let_def
  by (intro keeps_intro serves_frame; simp)+

lemma serves_outgoing [serves_intro]: "keeps (serves A X) (process_outgoing_job pr ps sign send now i job)"
proof -
  have "keeps (serves A X) (get_user_by_id u)" for u
    unfolding get_user_by_id_def find_user_def by (intro keeps_intro)
  then show ?thesis
    unfolding process_outgoing_job_def outgoing_into_job_def finish_delivery_def Let_def
    by (intro keeps_intro serves_intro)
qed

lemma serves_misc [serves_intro]:
  "keeps (serves A X) (create_or_update_marker now i tml l)" "keeps (serves A X) (set_internal_property n v)"
  "keeps (serves A X) (create_invoice i now s r ch a k)" "keeps (serves A X) (set_invoice_status i st)"
  "keeps (serves A X) (create_subscription_body s ad r ch e t)"
  unfolding create_or_update_marker_def set_internal_property_def create_invoice_def set_invoice_status_def
    create_subscription_body_def insert_subscription_def Let_def
  by (intro keeps_intro serves_intro serves_frame; simp)+

lemma serves_subscription_updates [serves_intro]:
  "keeps (serves A X) (update_subscription now k e t)" "keeps (serves A X) (reset_subscriptions b)"
proof -
  have "keeps (serves A X) (case x of (a, b) \<Rightarrow> when_do c (subscribe_opt a b))" for x c
    by (cases x) (auto intro: keeps_when serves_intro)
  then show "keeps (serves A X) (update_subscription now k e t)"
    unfolding update_subscription_def by (intro keeps_intro serves_frame) simp_all
  have upd: "keeps (serves A X) (execute (\<lambda>db. ((), snd (update_profiles p f db))))"
    if "\<And>ap. ap_id (f ap) = ap_id ap \<and> is_local (f ap) = is_local ap" for p f
    using that by (intro keeps_calm) (simp add: calm_profiles)
  show "keeps (serves A X) (reset_subscriptions b)"
    unfolding reset_subscriptions_def
    by (intro keeps_transaction_body keeps_bind keeps_when)
      ((rule upd, simp add: is_local_def) | (rule serves_frame, simp))+
qed

section \<open>Attachments, profiles and deletions\<close>

lemma calm_attachments:
  "(\<And>a. p a \<Longrightarrow> ma_post_id (f a) = ma_post_id a) \<Longrightarrow>
   calm X db (db\<lparr>t_media_attachment := update_where p f (t_media_attachment db)\<rparr>)"
proof (rule calmI)
  assume f: "\<And>a. p a \<Longrightarrow> ma_post_id (f a) = ma_post_id a"
  fix a assume "a \<in> set (t_media_attachment (db\<lparr>t_media_attachment := update_where p f (t_media_attachment db)\<rparr>))"
  then have "ma_post_id a \<in> ma_post_id ` set (update_where p f (t_media_attachment db))" by simp
  with image_update_where [of p ma_post_id f "t_media_attachment db"] f
  show "ma_post_id a \<in> insert None (Some ` X) \<union> ma_post_id ` set (t_media_attachment db)" by simp
qed (auto intro: same_reading_refl)

lemma serves_attachments [serves_intro]:
  "keeps (serves A X) (set_attachment_ipfs_cid i c)" "keeps (serves A X) (delete_unused_attachments t)"
  "create_attachment now j o' n s ty = Some m \<Longrightarrow> keeps (serves A X) m"
proof -
  show "keeps (serves A X) (set_attachment_ipfs_cid i c)"
    unfolding set_attachment_ipfs_cid_def Let_def by (intro keeps_intro keeps_calm) (simp add: calm_attachments)
  have "calm X db (db\<lparr>t_media_attachment := delete_where p (t_media_attachment db)\<rparr>)" for p db
    by (rule calmI) (auto intro: same_reading_refl)
  then show "keeps (serves A X) (delete_unused_attachments t)"
    unfolding delete_unused_attachments_def Let_def by (intro keeps_intro keeps_find_orphaned keeps_calm) simp
  have "calm X db (db\<lparr>t_media_attachment := t_media_attachment db @ [row]\<rparr>)" if "ma_post_id row = None" for row db
    using that by (intro calmI) (auto intro: same_reading_refl)
  then show "create_attachment now j o' n s ty = Some m \<Longrightarrow> keeps (serves A X) m"
    by (auto simp: create_attachment_def Let_def split: if_splits intro!: keeps_calm)
qed

lemma serves_profile_emojis:
  "keeps (serves A X) (create_profile_emojis i es)" "keeps (serves A X) (update_emoji_cache i)"
proof -
  show "keeps (serves A X) (create_profile_emojis i es)"
    unfolding create_profile_emojis_def Let_def by (intro keeps_intro serves_frame) simp
  show "keeps (serves A X) (update_emoji_cache i)"
    unfolding update_emoji_cache_def by (intro keeps_intro keeps_calm) (simp add: calm_profiles is_local_def)
qed

lemma fresh_profile: "wf_db (db\<lparr>t_actor_profile := t_actor_profile db @ [ap]\<rparr>) \<Longrightarrow> ap_id ap \<notin> profile_ids db"
  by (auto simp: wf_db_def unique_ok_def profile_keys_ok_def)

lemma serves_create_profile [serves_intro]: "keeps (serves A X) (create_profile i now d)"
  unfolding create_profile_def
  by (intro keeps_intro serves_intro serves_profile_emojis keeps_calm) (simp add: calm_new_profile fresh_profile)

text \<open>The \<open>CHECK\<close> on host name and actor keeps local profiles local.\<close>

lemma serves_update_profile [serves_intro]: "keeps (serves A X) (update_profile now i d)"
proof -
  have row: "calm X db (snd (update_profiles (\<lambda>ap. ap_id ap = i) (updated_profile_row now d) db))"
    if wf: "wf_db db" and wf': "wf_db (snd (update_profiles (\<lambda>ap. ap_id ap = i) (updated_profile_row now d) db))" for db
  proof -
    let ?f = "\<lambda>ap. if ap_id ap = i then updated_profile_row now d ap else ap"
    have loc: "is_local (?f ap) = is_local ap" if ap: "ap \<in> set (t_actor_profile db)" for ap
    proof -
      have "profile_check ap" using wf_profile_row [OF wf ap] by simp
      moreover have "?f ap \<in> set (t_actor_profile (snd (update_profiles (\<lambda>ap. ap_id ap = i) (updated_profile_row now d) db)))"
        using ap by (auto simp: update_where_def)
      then have "profile_check (?f ap)" using wf_profile_row [OF wf'] by blast
      ultimately show ?thesis by (auto simp: profile_check_def is_local_def updated_profile_row_def split: if_splits)
    qed
    have ids: "ap_id (?f ap) = ap_id ap" for ap by (simp add: updated_profile_row_def)
    show ?thesis
    proof (rule calmI)
      fix ap' assume "ap' \<in> set (t_actor_profile (snd (update_profiles (\<lambda>ap. ap_id ap = i) (updated_profile_row now d) db)))"
      then obtain ap where "ap \<in> set (t_actor_profile db)" "ap' = ?f ap" by (auto simp: in_update_where)
      with loc ids show "\<exists>ap \<in> set (t_actor_profile db). ap_id ap = ap_id ap' \<and> is_local ap = is_local ap'"
        by (intro bexI [of _ ap]) auto
    qed (auto intro: same_reading_refl)
  qed
  have emojis: "keeps (serves A X) (execute (\<lambda>db. ((), db\<lparr>t_profile_emoji :=
      delete_where (\<lambda>m. fst m = i) (t_profile_emoji db)\<rparr>)))"
    by (rule serves_frame) simp
  have "keeps (serves A X) (execute (\<lambda>db. ((), snd (update_profiles (\<lambda>ap. ap_id ap = i) (updated_profile_row now d) db))))"
    by (rule keeps_calm) (simp only: snd_conv row)
  with emojis show ?thesis
    unfolding update_profile_def by (intro keeps_transaction_body keeps_bind serves_profile_emojis keeps_ret)
qed

lemma serves_create_user [serves_intro]: "create_user i now d = Some m \<Longrightarrow> keeps (serves A X) m"
proof -
  have "keeps (serves A X) (take_invite_code c)" for c
    unfolding take_invite_code_def Let_def by (intro keeps_intro serves_frame) simp
  then have "keeps (serves A X) (create_user_body i now d)"
    unfolding create_user_body_def Let_def by (intro keeps_intro serves_intro serves_frame) simp_all
  then show "create_user i now d = Some m \<Longrightarrow> keeps (serves A X) m"
    by (auto simp: create_user_def split: if_splits)
qed

lemma serves_subtract:
  "keeps (serves A X) (execute (subtract_post_counts D))" "keeps (serves A X) (execute (subtract_follower_counts i))"
  "keeps (serves A X) (execute (subtract_following_counts i))" "keeps (serves A X) (execute (subtract_subscriber_counts i))"
  "keeps (serves A X) (execute (subtract_reply_counts i))" "keeps (serves A X) (execute (subtract_reaction_counts i))"
  "keeps (serves A X) (execute (subtract_repost_counts i))"
  unfolding subtract_post_counts_def subtract_follower_counts_def subtract_following_counts_def
    subtract_subscriber_counts_def subtract_reply_counts_def subtract_reaction_counts_def subtract_repost_counts_def
  by (rule keeps_calm; simp add: calm_profiles calm_posts is_local_def same_reading_def plain_fields_def)+

lemma serves_delete [serves_intro]:
  "keeps (serves A X) (delete_post i)" "keeps (serves A X) (delete_profile i)"
proof -
  have post: "keeps (serves A X) (execute (\<lambda>db. (filter (\<lambda>po. po_id po = i) (t_post db), delete_post_row i db)))"
    by (rule keeps_calm) (simp add: calm_deleted)
  show "keeps (serves A X) (delete_post i)"
    unfolding delete_post_def
    by (intro keeps_intro keeps_find_orphaned serves_intro serves_subtract post)
  have "keeps (serves A X) (execute (\<lambda>db.
      (length (filter (\<lambda>ap. ap_id ap = i) (t_actor_profile db)), delete_profile_row i db)))"
    by (rule keeps_calm) (simp add: calm_deleted)
  then show "keeps (serves A X) (delete_profile i)"
    unfolding delete_profile_def
    by (intro keeps_intro keeps_find_orphaned serves_subtract)
qed

lemma serves_set_post [serves_intro]:
  "keeps (serves A X) (set_post_ipfs_cid i c cs)" "keeps (serves A X) (set_post_token_id i t)"
  "keeps (serves A X) (set_post_token_tx_id i tx)"
proof -
  have "keeps (serves A X) (case x of (a, b) \<Rightarrow> bind (set_attachment_ipfs_cid a b) (\<lambda>_. ret ()))" for x
    by (cases x) (auto intro!: keeps_intro serves_intro)
  then show "keeps (serves A X) (set_post_ipfs_cid i c cs)"
    unfolding set_post_ipfs_cid_def
    by (intro keeps_intro serves_posts) (auto simp: same_reading_def)
  show "keeps (serves A X) (set_post_token_id i t)" "keeps (serves A X) (set_post_token_tx_id i tx)"
    unfolding set_post_token_id_def set_post_token_tx_id_def
    by (intro keeps_intro serves_posts; auto simp: same_reading_def)+
qed

section \<open>Writing posts\<close>

lemma serves_parts:
  assumes i: "i \<in> X"
  shows "keeps (serves A X) (create_post_attachments i a xs)" "keeps (serves A X) (create_post_mentions i xs)"
    "keeps (serves A X) (create_post_tags i ts)" "keeps (serves A X) (create_post_links i xs)"
    "keeps (serves A X) (create_post_emojis i xs)" "keeps (serves A X) (delete_post_parts i)"
proof -
  have "calm X db (db\<lparr>t_media_attachment := update_where p (\<lambda>a. a\<lparr>ma_post_id := Some i\<rparr>) (t_media_attachment db)\<rparr>)" for p db
  proof (rule calmI)
    fix a assume "a \<in> set (t_media_attachment (db\<lparr>t_media_attachment :=
      update_where p (\<lambda>a. a\<lparr>ma_post_id := Some i\<rparr>) (t_media_attachment db)\<rparr>))"
    then obtain b where "b \<in> set (t_media_attachment db)" "a = (if p b then b\<lparr>ma_post_id := Some i\<rparr> else b)"
      by (auto simp: in_update_where)
    with i show "ma_post_id a \<in> insert None (Some ` X) \<union> ma_post_id ` set (t_media_attachment db)"
      by (cases "p b") auto
  qed (auto intro: same_reading_refl)
  then show "keeps (serves A X) (create_post_attachments i a xs)"
    unfolding create_post_attachments_def Let_def by (intro keeps_intro keeps_calm) simp
  have rows: "calm X db (db\<lparr>t_mention := t_mention db @ map (\<lambda>x. (i, f x)) rs\<rparr>)"
    "calm X db (db\<lparr>t_post_tag := t_post_tag db @ map (\<lambda>x. (i, g x)) ss\<rparr>)"
    "calm X db (db\<lparr>t_post_link := t_post_link db @ map (\<lambda>x. (i, h x)) us\<rparr>)"
    "calm X db (db\<lparr>t_post_emoji := t_post_emoji db @ map (\<lambda>x. (i, k x)) vs\<rparr>)"
    for db rs ss us vs and f :: "db_actor_profile \<Rightarrow> uuid" and g :: "db_tag \<Rightarrow> int" and h :: "db_post \<Rightarrow> uuid"
      and k :: "db_emoji \<Rightarrow> uuid"
    using i by (intro calmI; auto intro: same_reading_refl)+
  have tags: "keeps (serves A X) (execute (\<lambda>db. ((), insert_tags ts db)))"
    by (rule serves_frame) (simp add: insert_tags_frame)
  from rows tags show "keeps (serves A X) (create_post_mentions i xs)" "keeps (serves A X) (create_post_tags i ts)"
    "keeps (serves A X) (create_post_links i xs)" "keeps (serves A X) (create_post_emojis i xs)"
    unfolding create_post_mentions_def create_post_tags_def create_post_links_def create_post_emojis_def Let_def
    by (intro keeps_intro keeps_calm tags; simp)+
  have "calm X db (db\<lparr>t_media_attachment := delete_where p (t_media_attachment db)\<rparr>)"
    "calm X db (db\<lparr>t_mention := delete_where q (t_mention db)\<rparr>)"
    "calm X db (db\<lparr>t_post_tag := delete_where r (t_post_tag db)\<rparr>)"
    "calm X db (db\<lparr>t_post_link := delete_where q (t_post_link db)\<rparr>)"
    "calm X db (db\<lparr>t_post_emoji := delete_where q (t_post_emoji db)\<rparr>)" for p q r db
    by (rule calmI; auto intro: same_reading_refl)+
  then show "keeps (serves A X) (delete_post_parts i)"
    unfolding delete_post_parts_def by (intro keeps_intro keeps_calm) simp_all
qed

text \<open>What stays true of one post while its parts and counters are written.\<close>

definition keeps_row :: "db_post \<Rightarrow> database \<Rightarrow> bool" where
  "keeps_row row db \<longleftrightarrow>
     (\<forall>po \<in> set (t_post db). po_id po = po_id row \<longrightarrow> same_reading po row) \<and>
     (po_repost_of_id row \<noteq> None \<longrightarrow> \<not> has_parts db (po_id row))"

lemma keeps_row_execute:
  "(\<And>db. t_post (snd (f db)) = t_post db \<and> (\<forall>j. has_parts (snd (f db)) j \<longrightarrow> has_parts db j \<or> po_repost_of_id row = None)) \<Longrightarrow>
   keeps (keeps_row row) (execute f)"
  by (rule keeps_execute) (auto simp: keeps_row_def)

lemma has_parts_mono:
  "set (t_media_attachment db') \<subseteq> set (t_media_attachment db) \<Longrightarrow> set (t_mention db') \<subseteq> set (t_mention db) \<Longrightarrow>
   set (t_post_tag db') \<subseteq> set (t_post_tag db) \<Longrightarrow> set (t_post_link db') \<subseteq> set (t_post_link db) \<Longrightarrow>
   set (t_post_emoji db') \<subseteq> set (t_post_emoji db) \<Longrightarrow> has_parts db' j \<Longrightarrow> has_parts db j"
  unfolding has_parts_def by blast

lemma same_reading_trans: "same_reading a b \<Longrightarrow> same_reading b c \<Longrightarrow> same_reading a c"
  by (auto simp: same_reading_def)

lemma keeps_row_posts:
  assumes "\<And>po. same_reading (f po) po"
  shows "keeps (keeps_row row) (execute (update_posts p f))"
    "keeps (keeps_row row) (execute (\<lambda>db. row_count (update_posts p f db)))"
proof -
  have "keeps_row row (db\<lparr>t_post := update_where p f (t_post db)\<rparr>)" if "keeps_row row db" for db
  proof -
    have "same_reading po' row" if po': "po' \<in> set (update_where p f (t_post db))" "po_id po' = po_id row" for po'
    proof -
      from po'(1) obtain po where po: "po \<in> set (t_post db)" "po' = (if p po then f po else po)" by (auto simp: in_update_where)
      then have s: "same_reading po' po" using assms by simp
      with po'(2) have "po_id po = po_id row" by (simp add: same_reading_def)
      with \<open>keeps_row row db\<close> po(1) have "same_reading po row" by (simp add: keeps_row_def)
      with s show ?thesis by (rule same_reading_trans)
    qed
    with \<open>keeps_row row db\<close> show ?thesis by (simp add: keeps_row_def has_parts_def)
  qed
  then show "keeps (keeps_row row) (execute (update_posts p f))"
    "keeps (keeps_row row) (execute (\<lambda>db. row_count (update_posts p f db)))"
    by (auto intro!: keeps_execute)
qed

lemma keeps_row_parts:
  assumes "po_repost_of_id row \<noteq> None \<longrightarrow> xs = [] \<and> ts = []"
  shows "keeps (keeps_row row) (create_post_attachments j a xs)" "keeps (keeps_row row) (create_post_mentions j xs)"
    "keeps (keeps_row row) (create_post_tags j ts)" "keeps (keeps_row row) (create_post_links j xs)"
    "keeps (keeps_row row) (create_post_emojis j xs)" "keeps (keeps_row row) (delete_post_parts j)"
proof -
  have same: "update_where (\<lambda>_. False) f rs = rs" for f :: "'x \<Rightarrow> 'x" and rs by (simp add: update_where_def)
  have tags: "keeps (keeps_row row) (execute (\<lambda>db. ((), insert_tags us db)))" for us
    by (rule keeps_row_execute) (simp add: insert_tags_frame has_parts_def)
  show "keeps (keeps_row row) (create_post_attachments j a xs)" "keeps (keeps_row row) (create_post_mentions j xs)"
    "keeps (keeps_row row) (create_post_tags j ts)" "keeps (keeps_row row) (create_post_links j xs)"
    "keeps (keeps_row row) (create_post_emojis j xs)"
    unfolding create_post_attachments_def create_post_mentions_def create_post_tags_def create_post_links_def
      create_post_emojis_def Let_def using assms
    by (intro keeps_intro tags keeps_row_execute; cases "po_repost_of_id row = None"; auto simp: same has_parts_def)+
  show "keeps (keeps_row row) (delete_post_parts j)"
    unfolding delete_post_parts_def
    by (intro keeps_intro keeps_row_execute conjI allI impI disjI1; (erule has_parts_mono [rotated 5])?; force)
qed

lemma keeps_row_counts:
  "keeps (keeps_row row) (update_reply_count j k)" "keeps (keeps_row row) (update_repost_count j k)"
  "keeps (keeps_row row) (update_post_count j k)" "keeps (keeps_row row) (create_notification now s r q ty)"
proof -
  show "keeps (keeps_row row) (update_reply_count j k)" "keeps (keeps_row row) (update_repost_count j k)"
    unfolding update_reply_count_def update_repost_count_def change_post_def
    by (intro keeps_intro keeps_row_posts; simp add: same_reading_def plain_fields_def)+
  show "keeps (keeps_row row) (update_post_count j k)"
    unfolding update_post_count_def change_profile_def
    by (intro keeps_intro keeps_row_execute) (simp add: has_parts_def)
  show "keeps (keeps_row row) (create_notification now s r q ty)"
    unfolding create_notification_def by (rule keeps_row_execute) (simp add: has_parts_def)
qed

text \<open>The notifications of a new post leave the profiles alone.\<close>

lemma notify_frames:
  "keeps (keeps_row row) (notify_parent now po)" "keeps (keeps_row row) (notify_reposted now po ns)"
  "keeps (keeps_row row) (notify_mentioned now po ns ap)"
  "keeps (serves A X) (notify_parent now po)" "keeps (serves A X) (notify_reposted now po ns)"
  "keeps (serves A X) (notify_mentioned now po ns ap)"
  "keeps (\<lambda>db. t_actor_profile db = aps) (notify_parent now po)"
  "keeps (\<lambda>db. t_actor_profile db = aps) (notify_reposted now po ns)"
  "keeps (\<lambda>db. t_actor_profile db = aps) (notify_mentioned now po ns ap)"
proof -
  have q: "keeps P (get_post_author j)" "keeps P (is_muted s t)" for P j s t
    unfolding get_post_author_def is_muted_def has_relationship_def by (intro keeps_intro)+
  have n: "keeps (\<lambda>db. t_actor_profile db = aps) (create_notification now s r q ty)"
    "keeps (\<lambda>db. t_actor_profile db = aps) (update_reply_count j k)"
    "keeps (\<lambda>db. t_actor_profile db = aps) (update_repost_count j k)" for s r q ty j k
    unfolding create_notification_def update_reply_count_def update_repost_count_def change_post_def
    by (intro keeps_intro keeps_execute; simp)+
  show "keeps (keeps_row row) (notify_parent now po)" "keeps (keeps_row row) (notify_reposted now po ns)"
    "keeps (keeps_row row) (notify_mentioned now po ns ap)"
    unfolding notify_parent_def notify_reposted_def notify_mentioned_def create_notification_defs
    by (intro keeps_intro q keeps_row_counts)+
  show "keeps (serves A X) (notify_parent now po)" "keeps (serves A X) (notify_reposted now po ns)"
    "keeps (serves A X) (notify_mentioned now po ns ap)"
    unfolding notify_parent_def notify_reposted_def notify_mentioned_def
    by (intro keeps_intro q serves_intro)+
  show "keeps (\<lambda>db. t_actor_profile db = aps) (notify_parent now po)"
    "keeps (\<lambda>db. t_actor_profile db = aps) (notify_reposted now po ns)"
    "keeps (\<lambda>db. t_actor_profile db = aps) (notify_mentioned now po ns ap)"
    unfolding notify_parent_def notify_reposted_def notify_mentioned_def create_notification_defs
    by (intro keeps_intro q n)+
qed


text \<open>Once the row is known to be well-formed its exemption is over.\<close>

lemma reads_closed:
  assumes reads: "reads A (insert (po_id row) X) db" and row: "keeps_row row db"
    and plain: "po_repost_of_id row \<noteq> None \<Longrightarrow> plain_fields row"
  shows "reads A X db"
  unfolding reads_def
proof (intro ballI conjI)
  fix po assume po: "po \<in> set (t_post db)"
  show "po_id po \<notin> A \<longrightarrow> author_fits db po" using reads po by (simp add: reads_def)
  show "po_repost_of_id po \<noteq> None \<and> po_id po \<notin> X \<longrightarrow> plain_fields po \<and> \<not> has_parts db (po_id po)"
  proof (cases "po_id po = po_id row")
    case True
    with row po have "same_reading po row" "po_repost_of_id row \<noteq> None \<longrightarrow> \<not> has_parts db (po_id row)"
      by (simp_all add: keeps_row_def)
    with True plain show ?thesis by (auto simp: same_reading_def)
  next
    case False
    with reads po show ?thesis by (simp add: reads_def)
  qed
qed

lemma reads_author_closed:
  assumes reads: "reads (insert (po_id row) A) X db" and row: "keeps_row row db" and fits: "author_fits db row"
  shows "reads A X db"
  unfolding reads_def
proof (intro ballI conjI)
  fix po assume po: "po \<in> set (t_post db)"
  show "po_id po \<notin> A \<longrightarrow> author_fits db po"
  proof (cases "po_id po = po_id row")
    case True
    with row po have "same_reading po row" by (simp add: keeps_row_def)
    with fits show ?thesis by (simp add: same_reading_def author_fits_def)
  next
    case False
    with reads po show ?thesis by (simp add: reads_def)
  qed
  show "po_repost_of_id po \<noteq> None \<and> po_id po \<notin> X \<longrightarrow> plain_fields po \<and> \<not> has_parts db (po_id po)"
    using reads po by (simp add: reads_def)
qed

lemma reads_widen: "reads A X db \<Longrightarrow> A \<subseteq> B \<Longrightarrow> X \<subseteq> Y \<Longrightarrow> reads B Y db"
  by (auto simp: reads_def)

section \<open>Updating a post\<close>

lemma post_rows_same: "wf_db db \<Longrightarrow> po \<in> set (t_post db) \<Longrightarrow> po' \<in> set (t_post db) \<Longrightarrow> po_id po = po_id po' \<Longrightarrow> po = po'"
  using wf_post_ids by (metis distinct_map inj_onD)

lemma serves_update_post [serves_intro]: "keeps (serves {} {}) (update_post i d)"
proof (rule keeps_from_ok)
  fix db u db'
  assume old: "serves {} {} db" and run: "update_post i d db = (Inr u, db')"
  let ?p = "\<lambda>po. po_id po = i \<and> po_repost_of_id po = None \<and> po_ipfs_cid po = None"
  let ?f = "\<lambda>po. po\<lparr>po_content := pud_content d, po_is_sensitive := pud_is_sensitive d,
    po_updated_at := Some (pud_updated_at d)\<rparr>"
  let ?rest = "\<lambda>db_post. bind (delete_post_parts (po_id db_post)) (\<lambda>_.
     bind (create_post_attachments (po_id db_post) (po_author_id db_post) (pud_attachments d)) (\<lambda>_.
     bind (create_post_mentions (po_id db_post) (pud_mentions d)) (\<lambda>_.
     bind (create_post_tags (po_id db_post) (pud_tags d)) (\<lambda>_.
     bind (create_post_links (po_id db_post) (pud_links d)) (\<lambda>_.
     bind (create_post_emojis (po_id db_post) (pud_emojis d)) (\<lambda>_. ret ()))))))"
  from run [unfolded update_post_def transaction_ok] obtain rows d1 mr d2 row d3 where
    1: "execute (update_posts ?p ?f) db = (Inr rows, d1)" and 2: "opt_row rows d1 = (Inr mr, d2)" and
    3: "ok_or mr (NotFound ''post'') d2 = (Inr row, d3)" and 4: "?rest row d3 = (Inr u, db')"
    by - (elim bind_okE, rule that, (assumption | simp add: bind_ok)+)
  have "keeps (serves {} {}) (execute (update_posts ?p ?f))"
    by (rule serves_posts) (simp add: same_reading_def)
  from keepsD [OF this old 1] have s1: "serves {} {} d1" .
  from 2 3 have row: "row \<in> set rows" "d3 = d1" by (auto simp: db_ok split: if_splits)
  with 1 obtain po where po: "po \<in> set (t_post db)" "?p po" "row = ?f po" by (auto simp: db_ok update_posts_def)
  have "row \<in> set (t_post d1)"
    using 1 po by (auto simp: db_ok update_posts_def update_where_def intro!: image_eqI [of _ _ po])
  have orig: "po_repost_of_id row = None" using po by simp
  have wf: "wf_db d1" using s1 by (simp add: serves_def)
  have k1: "keeps_row row d1"
    unfolding keeps_row_def
  proof (intro conjI ballI impI)
    fix x assume "x \<in> set (t_post d1)" "po_id x = po_id row"
    from post_rows_same [OF wf this(1) \<open>row \<in> set (t_post d1)\<close> this(2)] show "same_reading x row" by simp
  qed (simp add: orig)
  have s2: "serves {} {po_id row} d1"
    using s1 reads_widen [of "{}" "{}" d1 "{}" "{po_id row}"] by (simp add: serves_def)
  have ks: "keeps (serves {} {po_id row}) (?rest row)" and kr: "keeps (keeps_row row) (?rest row)"
    by (intro keeps_intro serves_parts keeps_row_parts; simp add: orig)+
  note rest = 4 [unfolded row(2)]
  have "serves {} {po_id row} db'" by (rule keepsD [OF ks s2 rest])
  moreover have "keeps_row row db'" by (rule keepsD [OF kr k1 rest])
  ultimately show "serves {} {} db'" using reads_closed [of "{}" row "{}" db'] orig
by (simp add: serves_def)
next
  show "update_post i d db = (Inl e, db') \<Longrightarrow> db' = db" for db e db'
    by (auto simp: update_post_def dest: transaction_error)
qed


section \<open>Creating a post\<close>

text \<open>Each list of related rows is as long as the list of the request.\<close>

lemma parts_lengths:
  "create_post_attachments i a xs db = (Inr as, db') \<Longrightarrow> length as = length xs"
  "create_post_mentions i xs db = (Inr ms, db') \<Longrightarrow> length ms = length xs"
  "create_post_tags i ts db = (Inr tgs, db') \<Longrightarrow> length tgs = length ts"
  "create_post_links i xs db = (Inr ls, db') \<Longrightarrow> length ls = length xs"
  "create_post_emojis i xs db = (Inr es, db') \<Longrightarrow> length es = length xs"
  by (auto simp: create_post_attachments_def create_post_mentions_def create_post_tags_def create_post_links_def
      create_post_emojis_def bind_ok throw_ok ret_ok split: if_splits)

lemma fresh_post_parts:
  assumes "wf_db db" and "i \<notin> post_ids db"
  shows "\<not> has_parts db i"
  using assms unfolding wf_db_def foreign_keys_ok_def post_refs_ok_def has_parts_def by (auto simp: opt_in_def)

lemma inserted_reads:
  assumes old: "serves {} {} db" and wf: "wf_db (db\<lparr>t_post := t_post db @ [row]\<rparr>)"
  shows "serves {po_id row} {po_id row} (db\<lparr>t_post := t_post db @ [row]\<rparr>)" (is "serves _ _ ?db")
    and "keeps_row row (db\<lparr>t_post := t_post db @ [row]\<rparr>)"
proof -
  have reads: "reads {} {} db" and wf0: "wf_db db" using old by (simp_all add: serves_def)
  have same: "author_fits ?db = author_fits db" "has_parts ?db = has_parts db"
    by (rule ext, simp add: author_fits_def has_parts_def)+
  have "reads {po_id row} {po_id row} ?db"
    unfolding reads_def same using reads by (auto simp: reads_def)
  with wf show "serves {po_id row} {po_id row} ?db" by (simp add: serves_def)
  have "po_id row \<notin> post_ids db" using wf_post_ids [OF wf] by auto
  then have "\<not> has_parts ?db (po_id row)" unfolding same by (rule fresh_post_parts [OF wf0])
  moreover have "same_reading po row" if "po \<in> set (t_post ?db)" "po_id po = po_id row" for po
    using post_rows_same [OF wf that(1) _ that(2)] by simp
  ultimately show "keeps_row row ?db" by (simp add: keeps_row_def)
qed

lemma serves_create_post [serves_intro]: "keeps (serves {} {}) (create_post now i a d)"
proof (rule keeps_from_ok)
  fix db p db'
  assume old: "serves {} {} db" and run: "create_post now i a d db = (Inr p, db')"
  from run [unfolded create_post_def transaction_ok] obtain rows d1 mr d2 row d3 atts d4 ments d5 tags d6 links d7 emojis d8
      author d9 ns d10 ns' d11 u d12 where
    1: "execute_catching ''post'' (insert_post i a d) db = (Inr rows, d1)" and
    2: "opt_row rows d1 = (Inr mr, d2)" and 3: "ok_or mr (NotFound ''post'') d2 = (Inr row, d3)" and
    4: "create_post_attachments (po_id row) (po_author_id row) (pcd_attachments d) d3 = (Inr atts, d4)" and
    5: "create_post_mentions (po_id row) (pcd_mentions d) d4 = (Inr ments, d5)" and
    6: "create_post_tags (po_id row) (pcd_tags d) d5 = (Inr tags, d6)" and
    7: "create_post_links (po_id row) (pcd_links d) d6 = (Inr links, d7)" and
    8: "create_post_emojis (po_id row) (pcd_emojis d) d7 = (Inr emojis, d8)" and
    9: "update_post_count (po_author_id row) 1 d8 = (Inr author, d9)" and
    10: "notify_parent now row d9 = (Inr ns, d10)" and
    11: "notify_reposted now row ns d10 = (Inr ns', d11)" and
    12: "for_each ments (notify_mentioned now row ns') d11 = (Inr u, d12)" and
    13: "lift_result (post_new row author atts ments tags links emojis) d12 = (Inr p, db')"
    by - (elim bind_okE, rule that, assumption+)
  have row: "row = new_post_row i a d" and d3: "d3 = db\<lparr>t_post := t_post db @ [row]\<rparr>" and wf: "wf_db d3"
    using 1 2 3 by (auto simp: db_ok insert_post_def split: if_splits)
  have new: "post_new row author atts ments tags links emojis = Inr p" and d12: "db' = d12"
    using 13 by (auto simp: lift_result_def ret_ok throw_ok split: sum.splits)
  have lists: "po_repost_of_id row \<noteq> None \<longrightarrow> pcd_attachments d = [] \<and> pcd_mentions d = [] \<and> pcd_tags d = [] \<and>
      pcd_links d = [] \<and> pcd_emojis d = []"
    using new parts_lengths(1) [OF 4] parts_lengths(2) [OF 5] parts_lengths(3) [OF 6] parts_lengths(4) [OF 7]
      parts_lengths(5) [OF 8]
    by (auto simp: post_new_def split: if_splits)
  have plain: "po_repost_of_id row \<noteq> None \<Longrightarrow> plain_fields row"
    using new by (auto simp: post_new_def plain_fields_def split: if_splits)
  note start = inserted_reads [OF old wf [unfolded d3], folded d3]
  let ?S = "serves {po_id row} {po_id row}"
  have each: "keeps P (for_each ments (notify_mentioned now row ns'))"
    if "\<And>ap. keeps P (notify_mentioned now row ns' ap)" for P
    using that by (rule keeps_for_each)
  have "?S d8"
    by (intro keepsD [OF serves_parts(5) _ 8] keepsD [OF serves_parts(4) _ 7] keepsD [OF serves_parts(3) _ 6]
        keepsD [OF serves_parts(2) _ 5] keepsD [OF serves_parts(1) _ 4] start(1)) simp_all
  then have s9: "?S d9" by (rule keepsD [OF serves_counts(4) _ 9])
  then have "?S d11"
    by (intro keepsD [OF notify_frames(5) _ 11] keepsD [OF notify_frames(4) _ 10])
  then have s12: "?S db'" unfolding d12 by (rule keepsD [OF each [OF notify_frames(6)] _ 12])
  note kp = keeps_row_parts(1,2,4,5) [where ts = "[]"]
  have "keeps_row row d8"
    using lists
    by (intro keepsD [OF kp(4) _ 8] keepsD [OF kp(3) _ 7] keepsD [OF keeps_row_parts(3) [where xs = "[]"] _ 6]
        keepsD [OF kp(2) _ 5] keepsD [OF kp(1) _ 4] start(2)) simp_all
  then have "keeps_row row d11"
    by (intro keepsD [OF notify_frames(2) _ 11] keepsD [OF notify_frames(1) _ 10] keepsD [OF keeps_row_counts(3) _ 9])
  then have k12: "keeps_row row db'" unfolding d12 by (rule keepsD [OF each [OF notify_frames(3)] _ 12])
  have "t_actor_profile d11 = t_actor_profile d9"
    by (intro keepsD [OF notify_frames(8) _ 11] keepsD [OF notify_frames(7) _ 10] refl)
  then have same: "t_actor_profile db' = t_actor_profile d9"
    unfolding d12 by (rule keepsD [OF each [OF notify_frames(9)] _ 12])
  have author: "author \<in> set (t_actor_profile d9)"
    using 9 by (auto simp: update_count_ok update_where_def filter_eq_Cons_iff)
  have "author_fits d9 row"
    unfolding author_fits_def
  proof (intro ballI impI)
    fix ap assume "ap \<in> set (t_actor_profile d9)" "ap_id ap = po_author_id row"
    moreover have "distinct (map ap_id (t_actor_profile d9))" using s9 wf_profile_ids by (simp add: serves_def)
    ultimately have "ap = author" using author post_newD(1) [OF new] by (metis distinct_map inj_onD)
    then show "is_local ap = (po_object_id row = None)" using post_newD(2) [OF new] by simp
  qed
  then have fits: "author_fits db' row" by (simp add: author_fits_def same)
  from s12 have "reads {po_id row} {po_id row} db'" and wf': "wf_db db'" by (simp_all add: serves_def)
  from reads_author_closed [OF reads_closed [OF this(1) k12 plain] k12 fits] wf'
  show "serves {} {} db'" by (simp add: serves_def)
next
  show "create_post now i a d db = (Inl e, db') \<Longrightarrow> db' = db" for db e db'
    by (auto simp: create_post_def dest: transaction_error)
qed


section \<open>Reachable databases\<close>

lemma serves_create_subscription [serves_intro]:
  "create_subscription s ad r ch e t = Some m \<Longrightarrow> keeps (serves A X) m"
  by (auto simp: create_subscription_def serves_misc split: if_splits)

lemma step_serves: "db_step db db' \<Longrightarrow> serves {} {} db \<Longrightarrow> serves {} {} db'"
  by (induction rule: db_step.induct) (rule keeps_snd; (rule serves_intro)?; assumption)+

lemma reachable_serves: "reachable db \<Longrightarrow> db_inv db \<and> serves {} {} db"
proof (induction rule: reachable.induct)
  case start
  show ?case using db_inv_empty by (simp add: db_inv_def serves_def reads_def empty_database_def)
next
  case (step db db')
  then show ?case using step_inv step_serves by blast
qed

text \<open>
  C1: whatever functions of the model crate are called on an empty database, with whatever
  arguments and whether they fail or not, the database satisfies the invariant - constraints,
  counters, threads, no notification to oneself - and no row in it makes \<open>Post::new\<close> fail.
\<close>

theorem reachable_ok: "reachable db \<Longrightarrow> db_inv db \<and> readable db"
  using reachable_serves by (simp add: serves_def readable_reads)

text \<open>The first account of an instance.\<close>

definition first_db :: database where
  "first_db = created_db 5 0 sample_account empty_database"

lemma first_reachable: "reachable first_db"
proof -
  have name: "username_ok (uc_username sample_account)" by (simp add: sample_account_def sample_names)
  have c: "name_free (uc_username sample_account) empty_database"
      "code_available (uc_invite_code sample_account) empty_database"
      "uc_invite_code sample_account = None \<or> uc_invite_code sample_account \<notin> ua_invite_code ` set (t_user_account empty_database)"
      "5 \<notin> profile_ids empty_database"
      "uc_wallet_address sample_account = None \<or> uc_wallet_address sample_account \<notin> ua_wallet_address ` set (t_user_account empty_database)"
    by (simp_all add: name_free_def account_rows_def sample_account_def empty_database_def code_available_def)
  have m: "create_user 5 0 sample_account = Some (create_user_body 5 0 sample_account)"
    by (simp add: create_user_def sample_account_def)
  show ?thesis
    using reachable.step [OF reachable.start user_created [OF name m]] create_user_run(1) [OF db_inv_empty name c, of 0]
    by (simp add: first_db_def)
qed

theorem reachable_ok_witness: "reachable first_db \<and> map ap_id (t_actor_profile first_db) = [5] \<and> db_inv first_db \<and> readable first_db"
  using reachable_ok [OF first_reachable] first_reachable
  by (simp add: first_db_def created_db_def empty_database_def new_profile_row_def)

lemma get_post_by_id_cases:
  assumes wf: "wf_db db" and read: "readable db"
  shows "if i \<in> post_ids db then \<exists>p. get_post_by_id i db = (Inr p, db) \<and> post_id_of p = i
    else get_post_by_id i db = (Inl (NotFound ''post''), db)"
proof -
  have rows: "filter (\<lambda>r. po_id (row_post r) = i) (post_rows db) = map (joined_row db) (filter (\<lambda>po. po_id po = i) (t_post db))"
    by (simp add: post_rows_wf [OF wf] filter_map o_def)
  have one: "filter (\<lambda>po. po_id po = i) (t_post db) = [po]" if "po \<in> set (t_post db)" "po_id po = i" for po
    using filter_unique_key [OF wf_post_ids [OF wf] that(1)] that(2) by simp
  show ?thesis
  proof (cases "i \<in> post_ids db")
    case True
    then obtain po where po: "po \<in> set (t_post db)" "po_id po = i" by auto
    show ?thesis
      using readable_try_from(1,2) [OF wf read po(1)] True
      by (simp add: get_post_by_id_def query_post_def rows one [OF po] bind_def db_run lift_result_def po(2))
  next
    case False
    then have "filter (\<lambda>po. po_id po = i) (t_post db) = []" by (auto simp: filter_empty_conv)
    with False show ?thesis by (simp add: get_post_by_id_def query_post_def rows bind_def db_run)
  qed
qed

text \<open>
  C6: on every database that is reached this way, timelines, threads and single posts can be read:
  no list query fails, \<open>get_thread\<close> comes to an end, and the only error of a thread or a post is
  that it is not found. Reading changes nothing.
\<close>

theorem reads_always_answer:
  assumes "reachable db"
  shows "(\<exists>ps. get_home_timeline u m n db = (Inr ps, db)) \<and> (\<exists>ps. get_local_timeline u m n db = (Inr ps, db)) \<and>
    (\<exists>ps. get_posts_by_author a v r s m n db = (Inr ps, db)) \<and> (\<exists>ps. get_posts_by_tag t v m n db = (Inr ps, db)) \<and>
    (\<exists>ps. get_related_posts ids db = (Inr ps, db)) \<and>
    (get_thread i v db = Some (Inl (NotFound ''post''), db) \<or> (\<exists>ps. get_thread i v db = Some (Inr ps, db) \<and> ps \<noteq> [])) \<and>
    (if i \<in> post_ids db then \<exists>p. get_post_by_id i db = (Inr p, db) \<and> post_id_of p = i
     else get_post_by_id i db = (Inl (NotFound ''post''), db))"
proof (intro conjI)
  have inv: "db_inv db" and read: "readable db"
    using reachable_serves [OF assms] by (simp_all add: serves_def readable_reads)
  note wf = db_inv_wf [OF inv]
  note run = query_posts_run [OF wf read]
  show "\<exists>ps. get_home_timeline u m n db = (Inr ps, db)" "\<exists>ps. get_local_timeline u m n db = (Inr ps, db)"
    "\<exists>ps. get_posts_by_tag t v m n db = (Inr ps, db)"
    unfolding get_home_timeline_def get_local_timeline_def get_posts_by_tag_def by (rule exI, rule run, rule page_rows)+
  show "\<exists>ps. get_posts_by_author a v r s m n db = (Inr ps, db)" "\<exists>ps. get_related_posts ids db = (Inr ps, db)"
    unfolding get_posts_by_author_def get_related_posts_def by (rule exI, rule run, force dest: taken_rows)+
  show "get_thread i v db = Some (Inl (NotFound ''post''), db) \<or> (\<exists>ps. get_thread i v db = Some (Inr ps, db) \<and> ps \<noteq> [])"
  proof (cases "\<exists>po \<in> set (t_post db). po_id po = i \<and> po_repost_of_id po = None \<and> visibility_filter v db po")
    case True
    then obtain po where po: "po \<in> set (t_post db)" "po_repost_of_id po = None" "visibility_filter v db po" "po_id po = i" by blast
    obtain ps where "get_thread i v db = Some (Inr ps, db)" "ps \<noteq> []"
      by (rule get_thread_found [OF inv read po(1-3), unfolded po(4)])
    then show ?thesis by blast
  next
    case False
    then show ?thesis using get_thread_missing by blast
  qed
  show "if i \<in> post_ids db then \<exists>p. get_post_by_id i db = (Inr p, db) \<and> post_id_of p = i
      else get_post_by_id i db = (Inl (NotFound ''post''), db)"
    by (rule get_post_by_id_cases [OF wf read])
qed

theorem reads_always_answer_witness:
  "reachable first_db \<and> get_post_by_id 1 first_db = (Inl (NotFound ''post''), first_db) \<and>
   (\<exists>ps. get_home_timeline 5 None 20 first_db = (Inr ps, first_db))"
  using reads_always_answer [OF first_reachable, of 5 None 20 5 None True True "[]" "[]" 1] first_reachable
  by (simp add: first_db_def created_db_def empty_database_def)

end
