(* ===== verification/Federation.thy ===== *)
theory Federation
  imports Post_Queries Queues
begin

text \<open>
  What the federation code (\<open>src/activitypub\<close>) shares: its environment, its error types, the
  monad its functions run in, the derived deserializers and the JSON helpers of
  \<open>activitypub/receiver.rs\<close>.
\<close>

section \<open>The environment\<close>

text \<open>
  Errors of the HTTP client, of the authentication and of the activity handlers. A handler can
  also panic: \<open>failure\<close> tells a panic, which no caller catches, from an \<open>Err\<close>, which a \<open>match\<close>
  can look at.
\<close>

datatype fetch_error =
    SignatureError
  | UrlError
  | RequestError
  | JsonParseError
  | FileError
  | FileTooLarge
  | RecursionError
  | OtherError string

datatype 'e failure = Panic | Error 'e

type_synonym 'a validated = "string failure + 'a"

abbreviation invalid :: "string \<Rightarrow> 'a validated" where
  "invalid msg \<equiv> Inl (Error msg)"

text \<open>
  The configuration and the code the repository does not contain: URL parsing, HTML sanitizing,
  Unicode tables, hashing, cryptography. The clock, random numbers and the network are tapes: the
  \<open>n\<close>-th question of a run gets the \<open>n\<close>-th answer, whatever it is, so asking twice may give two
  answers. \<open>en_http_get\<close> fails on an error status, \<open>en_http_any\<close> does not look at it. \<open>en_chars\<close>
  splits a string into its characters, \<open>en_timestamp\<close> and \<open>en_plus_hours\<close> know the range of dates,
  keys are given by their PEM texts, each again a string. \<open>en_read_media\<close> and \<open>en_ipfs_add\<close> may fail; the
  fields from \<open>en_ipfs_api\<close> to \<open>en_keep_profiles_days\<close> are settings. Strings are sequences of UTF-8
  bytes: \<open>length\<close> is the size that \<open>str::len\<close> returns.
\<close>

record http_response =
  hr_content_length :: "nat option"
  hr_body :: string

record environment =
  en_instance_url :: string
  en_hostname :: string
  en_blocked_instances :: "string list"
  en_fep_e232 :: bool
  en_tmdb_api_key :: "string option"
  en_movie_user_password :: "string option"
  en_file_size_limit :: nat
  en_emoji_size_limit :: nat
  en_now :: "nat \<Rightarrow> datetime"
  en_uuid :: "nat \<Rightarrow> uuid"
  en_secret :: "nat \<Rightarrow> string"
  en_http_any :: "nat \<Rightarrow> string \<Rightarrow> http_response option"
  en_http_get :: "nat \<Rightarrow> string \<Rightarrow> fetch_error + http_response"
  en_query_url :: "string \<Rightarrow> string \<Rightarrow> string"
  en_write_file :: "nat \<Rightarrow> string \<Rightarrow> string \<Rightarrow> bool"
  en_password_hash :: "nat \<Rightarrow> string \<Rightarrow> string option"
  en_rsa_key_pem :: "nat \<Rightarrow> string option"
  en_show_uuid :: "uuid \<Rightarrow> string"
  en_parse_uuid :: "string \<Rightarrow> uuid option"
  en_show_json :: "json \<Rightarrow> string"
  en_show_fetch_error :: "fetch_error \<Rightarrow> string"
  en_parse_json :: "string \<Rightarrow> json option"
  en_parse_datetime :: "string \<Rightarrow> datetime option"
  en_url_parses :: "string \<Rightarrow> bool"
  en_url_host :: "string \<Rightarrow> string option"
  en_url_host_str :: "string \<Rightarrow> string option"
  en_url_before_query :: "string \<Rightarrow> string"
  en_is_ip_address :: "string \<Rightarrow> bool"
  en_clean_html :: "(string \<times> string list) list \<Rightarrow> string \<Rightarrow> string"
  en_clean_html_strict :: "string list \<Rightarrow> (string \<times> string list) list \<Rightarrow> string \<Rightarrow> string"
  en_markdown_basic :: "string \<Rightarrow> string option"
  en_word_chars :: "string \<Rightarrow> bool"
  en_is_alphanumeric :: "string \<Rightarrow> bool"
  en_is_whitespace :: "string \<Rightarrow> bool"
  en_is_uppercase :: "string \<Rightarrow> bool"
  en_uppercase :: "string \<Rightarrow> string"
  en_lowercase :: "string \<Rightarrow> string"
  en_trim :: "string \<Rightarrow> string"
  en_chars :: "string \<Rightarrow> string list"
  en_sha256_hex :: "string \<Rightarrow> string"
  en_sniff_media_type :: "string \<Rightarrow> string option"
  en_extension :: "string \<Rightarrow> string option"
  en_encode_base58 :: "8 word list \<Rightarrow> string"
  en_decode_base58 :: "string \<Rightarrow> 8 word list option"
  en_encode_base64 :: "8 word list \<Rightarrow> string"
  en_decode_base64 :: "string \<Rightarrow> 8 word list option"
  en_canonicalize :: "json \<Rightarrow> string option"
  en_message_digest :: "string \<Rightarrow> string"
  en_public_key_of :: "string \<Rightarrow> string option"
  en_instance_public_key :: "string option"
  en_public_key_valid :: "string \<Rightarrow> bool"
  en_rsa_sign :: "string \<Rightarrow> string \<Rightarrow> 8 word list option"
  en_rsa_verify :: "string \<Rightarrow> string \<Rightarrow> 8 word list \<Rightarrow> bool"
  en_show_datetime :: "datetime \<Rightarrow> string"
  en_http_date :: "datetime \<Rightarrow> string"
  en_parse_rfc2822 :: "string \<Rightarrow> datetime option"
  en_timestamp :: "int \<Rightarrow> datetime option"
  en_plus_hours :: "datetime \<Rightarrow> nat \<Rightarrow> datetime option"
  en_url_path :: "string \<Rightarrow> string"
  en_markdown_lite :: "string \<Rightarrow> string option"
  en_verify_password :: "string \<Rightarrow> string \<Rightarrow> bool option"
  en_read_media :: "nat \<Rightarrow> string \<Rightarrow> string option"
  en_ipfs_add :: "nat \<Rightarrow> string \<Rightarrow> string option"
  en_ipfs_api :: bool
  en_invite_only :: bool
  en_read_only_users :: bool
  en_federation_enabled :: bool
  en_keep_posts_days :: "nat option"
  en_keep_profiles_days :: "nat option"
  en_escape_html :: "string \<Rightarrow> string"
  en_html_text :: "string \<Rightarrow> string"
  en_show_rfc3339 :: "datetime \<Rightarrow> string"
  en_markdown_to_html :: "string \<Rightarrow> string"

section \<open>The monad of the handlers\<close>

text \<open>
  The state is the database and the number of questions asked so far. \<open>from_db\<close> is a call of a
  query function followed by \<open>?\<close>, which turns a \<open>DatabaseError\<close> into an error of the caller.
\<close>

type_synonym world = "database \<times> nat"
type_synonym ('e, 'a) app_m = "(world, 'e failure, 'a) result_m"

definition fail :: "'e \<Rightarrow> ('e, 'a) app_m" where
  "fail err = throw (Error err)"

definition panic :: "('e, 'a) app_m" where
  "panic = throw Panic"

definition draw :: "(nat \<Rightarrow> 'a) \<Rightarrow> ('e, 'a) app_m" where
  "draw tape w = (case w of (db, n) \<Rightarrow> (Inr (tape n), (db, Suc n)))"

definition db_call :: "(db_error \<Rightarrow> 'e) \<Rightarrow> 'a dbm \<Rightarrow> ('e, 'a) app_m" where
  "db_call wrap m w =
     (case w of (db, n) \<Rightarrow>
       (case m db of
          (Inl err, db') \<Rightarrow> (Inl (Error (wrap err)), (db', n))
        | (Inr x, db') \<Rightarrow> (Inr x, (db', n))))"

text \<open>A \<open>match\<close> on the result of a call. It does not see panics.\<close>

definition catching ::
    "('e, 'a) app_m \<Rightarrow> ('e \<Rightarrow> ('f, 'b) app_m) \<Rightarrow> ('a \<Rightarrow> ('f, 'b) app_m) \<Rightarrow> ('f, 'b) app_m" where
  "catching m g f = attempt m (\<lambda>x. case x of Panic \<Rightarrow> throw Panic | Error err \<Rightarrow> g err) f"

definition db_match ::
    "'a dbm \<Rightarrow> (db_error \<Rightarrow> ('f, 'b) app_m) \<Rightarrow> ('a \<Rightarrow> ('f, 'b) app_m) \<Rightarrow> ('f, 'b) app_m" where
  "db_match m g f = catching (db_call id m) g f"

text \<open>\<open>map_err\<close> and the conversions of \<open>?\<close>.\<close>

definition map_failure :: "('e \<Rightarrow> 'f) \<Rightarrow> ('e, 'a) app_m \<Rightarrow> ('f, 'a) app_m" where
  "map_failure g = map_err (\<lambda>x. case x of Panic \<Rightarrow> Panic | Error err \<Rightarrow> Error (g err))"

definition or_panic :: "'m option \<Rightarrow> ('m \<Rightarrow> ('e, 'a) app_m) \<Rightarrow> ('e, 'a) app_m" where
  "or_panic x k = (case x of None \<Rightarrow> panic | Some m \<Rightarrow> k m)"

fun is_not_found :: "db_error \<Rightarrow> bool" where
  "is_not_found (NotFound _) = True"
| "is_not_found _ = False"

fun is_already_exists :: "db_error \<Rightarrow> bool" where
  "is_already_exists (AlreadyExists _) = True"
| "is_already_exists _ = False"

section \<open>Errors\<close>

datatype http_signature_error =
    NoSignature
  | HeaderError string
  | ParseError string
  | HttpInvalidEncoding
  | HttpInvalidSignature

datatype json_signature_error =
    JsonInvalidObject
  | NoProof
  | InvalidProof string
  | CanonicalizationError
  | JsonInvalidEncoding
  | JsonInvalidSignature

datatype authentication_error =
    HttpSignatureError http_signature_error
  | NoHttpSignature
  | JsonSignatureError json_signature_error
  | NoJsonSignature
  | InvalidJsonSignatureType
  | InvalidKeyId
  | AuthDatabaseError db_error
  | ImportError
  | ActorError string
  | InvalidPublicKey
  | UnexpectedSigner

datatype handler_error =
    LocalObject
  | FetchError fetch_error
  | ValidationError string
  | DatabaseError db_error
  | AuthError authentication_error

type_synonym 'a hm = "(handler_error, 'a) app_m"

definition from_db :: "'a dbm \<Rightarrow> 'a hm" where
  "from_db = db_call DatabaseError"

definition invalid_data :: "string \<Rightarrow> 'a hm" where
  "invalid_data msg = fail (ValidationError msg)"

definition check :: "'a validated \<Rightarrow> 'a hm" where
  "check r =
     (case r of
        Inl Panic \<Rightarrow> panic
      | Inl (Error msg) \<Rightarrow> invalid_data msg
      | Inr x \<Rightarrow> ret x)"

definition require :: "'a option \<Rightarrow> string \<Rightarrow> 'a hm" where
  "require x msg = (case x of None \<Rightarrow> invalid_data msg | Some y \<Rightarrow> ret y)"

section \<open>JSON\<close>

text \<open>\<open>value["name"]\<close> on a \<open>Value\<close> is \<open>Null\<close> where there is nothing.\<close>

definition json_index :: "json \<Rightarrow> string \<Rightarrow> json" where
  "json_index v name = (case json_field name v of None \<Rightarrow> JNull | Some x \<Rightarrow> x)"

text \<open>
  The derived deserializer of a struct takes an object, or an array with the fields in the order of
  the struct; the last ones may be missing where they have a default.
\<close>

fun struct_view :: "string list \<Rightarrow> string list \<Rightarrow> json \<Rightarrow> (string \<Rightarrow> json option) option" where
  "struct_view names defaults (JObject fs) = Some (map_of fs)"
| "struct_view names defaults (JArray vs) =
     (if length vs \<le> length names \<and> list_all (\<lambda>n. n \<in> set defaults) (drop (length vs) names)
      then Some (map_of (zip names vs)) else None)"
| "struct_view names defaults _ = None"

definition de_required :: "(json \<Rightarrow> 'a option) \<Rightarrow> json option \<Rightarrow> 'a option" where
  "de_required f v = Option.bind v f"

definition de_option :: "(json \<Rightarrow> 'a option) \<Rightarrow> json option \<Rightarrow> 'a option option" where
  "de_option f v =
     (case v of None \<Rightarrow> Some None | Some JNull \<Rightarrow> Some None | Some x \<Rightarrow> map_option Some (f x))"

definition de_default :: "'a \<Rightarrow> (json \<Rightarrow> 'a option) \<Rightarrow> json option \<Rightarrow> 'a option" where
  "de_default d f v = (case v of None \<Rightarrow> Some d | Some x \<Rightarrow> f x)"

section \<open>\<open>activitypub/receiver.rs\<close>: values in activities\<close>

text \<open>
  An array item that is an object is read with \<open>object["id"]\<close>; on a \<open>serde_json::Map\<close> the index
  panics when the key is missing.
\<close>

fun parse_array_item :: "json \<Rightarrow> unit failure + string" where
  "parse_array_item (JString s) = Inr s"
| "parse_array_item (JObject fs) =
     (case map_of fs ''id'' of
        None \<Rightarrow> Inl Panic
      | Some (JString s) \<Rightarrow> Inr s
      | Some _ \<Rightarrow> Inl (Error ()))"
| "parse_array_item _ = Inl (Error ())"

fun parse_array_items :: "json list \<Rightarrow> unit failure + string list" where
  "parse_array_items [] = Inr []"
| "parse_array_items (v # vs) =
     (case parse_array_item v of
        Inl err \<Rightarrow> Inl err
      | Inr s \<Rightarrow> (case parse_array_items vs of Inl err \<Rightarrow> Inl err | Inr ss \<Rightarrow> Inr (s # ss)))"

fun parse_array :: "json \<Rightarrow> unit failure + string list" where
  "parse_array (JString s) = Inr [s]"
| "parse_array (JArray vs) = parse_array_items vs"
| "parse_array _ = Inl (Error ())"

text \<open>\<open>parse_array(..).map_err(|_| ValidationError(msg))\<close>\<close>

definition array_or :: "string \<Rightarrow> json \<Rightarrow> string list validated" where
  "array_or msg v =
     (case parse_array v of Inl Panic \<Rightarrow> Inl Panic | Inl (Error _) \<Rightarrow> invalid msg | Inr ss \<Rightarrow> Inr ss)"

fun parse_property_value :: "(json \<Rightarrow> 'a option) \<Rightarrow> json \<Rightarrow> 'a list option" where
  "parse_property_value de (JArray vs) = traverse de vs"
| "parse_property_value de (JObject fs) = traverse de [JObject fs]"
| "parse_property_value de _ = None"

definition find_object_id :: "json \<Rightarrow> string option" where
  "find_object_id v =
     (case json_string v of Some s \<Rightarrow> Some s | None \<Rightarrow> json_string (json_index v ''id''))"

text \<open>\<open>find_object_id(..)?\<close>\<close>

definition object_id_of :: "json \<Rightarrow> string hm" where
  "object_id_of v = require (find_object_id v) ''missing object ID''"

text \<open>\<open>types.rs\<close>: \<open>deserialize_value_array\<close>\<close>

definition deserialize_value_array :: "json \<Rightarrow> json list option" where
  "deserialize_value_array v =
     (case v of JNull \<Rightarrow> Some [] | _ \<Rightarrow> parse_property_value Some v)"

section \<open>Running handlers\<close>

lemma fail_ok [db_ok]: "fail err w = (Inr x, w') \<longleftrightarrow> False"
  by (simp add: fail_def throw_ok)

lemma panic_ok [db_ok]: "panic w = (Inr x, w') \<longleftrightarrow> False"
  by (simp add: panic_def throw_ok)

lemma invalid_data_ok [db_ok]: "invalid_data msg w = (Inr x, w') \<longleftrightarrow> False"
  by (simp add: invalid_data_def fail_ok)

lemma draw_ok [db_ok]: "draw tape w = (Inr x, w') \<longleftrightarrow> x = tape (snd w) \<and> w' = (fst w, Suc (snd w))"
  by (auto simp: draw_def split: prod.splits)

lemma db_call_ok [db_ok]:
  "db_call wrap m w = (Inr x, w') \<longleftrightarrow> m (fst w) = (Inr x, fst w') \<and> snd w' = snd w"
  by (auto simp: db_call_def split: prod.splits sum.splits)

lemma from_db_ok [db_ok]:
  "from_db m w = (Inr x, w') \<longleftrightarrow> m (fst w) = (Inr x, fst w') \<and> snd w' = snd w"
  by (simp add: from_db_def db_call_ok)

lemma check_ok [db_ok]: "check r w = (Inr x, w') \<longleftrightarrow> r = Inr x \<and> w' = w"
  by (auto simp: check_def panic_ok invalid_data_ok ret_ok split: sum.splits failure.splits)

lemma require_ok [db_ok]: "require x msg w = (Inr y, w') \<longleftrightarrow> x = Some y \<and> w' = w"
  by (auto simp: require_def invalid_data_ok ret_ok split: option.splits)

lemma map_failure_ok [db_ok]: "map_failure g m w = (Inr x, w') \<longleftrightarrow> m w = (Inr x, w')"
  by (simp add: map_failure_def map_err_ok)

text \<open>
  A property of the database that a handler keeps. Nothing but \<open>from_db\<close> and \<open>db_match\<close> touches
  the database.
\<close>

abbreviation db_keeps :: "(database \<Rightarrow> bool) \<Rightarrow> (world, 'e, 'a) result_m \<Rightarrow> bool" where
  "db_keeps P m \<equiv> keeps (\<lambda>w. P (fst w)) m"

lemma keeps_fail [keeps_intro]: "keeps P (fail err)"
  by (simp add: fail_def keeps_throw)

lemma keeps_panic [keeps_intro]: "keeps P panic"
  by (simp add: panic_def keeps_throw)

lemma keeps_invalid_data [keeps_intro]: "keeps P (invalid_data msg)"
  by (simp add: invalid_data_def keeps_fail)

lemma keeps_check [keeps_intro]: "keeps P (check r)"
  by (simp add: check_def keeps_panic keeps_invalid_data keeps_ret split: sum.splits failure.splits)

lemma keeps_require [keeps_intro]: "keeps P (require x msg)"
  by (simp add: require_def keeps_invalid_data keeps_ret split: option.splits)

lemma keeps_object_id_of [keeps_intro]: "keeps P (object_id_of v)"
  by (simp add: object_id_of_def keeps_require)

lemma keeps_draw [keeps_intro]: "db_keeps P (draw tape)"
  by (auto simp: keeps_def draw_def)

lemma keeps_db_call [keeps_intro]: "keeps P m \<Longrightarrow> db_keeps P (db_call wrap m)"
  by (auto simp: keeps_def db_call_def split: prod.splits sum.splits)

lemma keeps_from_db [keeps_intro]: "keeps P m \<Longrightarrow> db_keeps P (from_db m)"
  by (simp add: from_db_def keeps_db_call)

lemma keeps_map_failure [keeps_intro]: "keeps P m \<Longrightarrow> keeps P (map_failure g m)"
  by (simp add: map_failure_def keeps_map_err)

lemma keeps_catching [keeps_intro]:
  "keeps P m \<Longrightarrow> (\<And>err. keeps P (g err)) \<Longrightarrow> (\<And>x. keeps P (f x)) \<Longrightarrow> keeps P (catching m g f)"
  by (auto simp: catching_def intro!: keeps_attempt keeps_throw split: failure.splits)

lemma keeps_db_match [keeps_intro]:
  "keeps P m \<Longrightarrow> (\<And>err. db_keeps P (g err)) \<Longrightarrow> (\<And>x. db_keeps P (f x)) \<Longrightarrow> db_keeps P (db_match m g f)"
  unfolding db_match_def by (rule keeps_catching) (simp_all add: keeps_db_call)

lemma keeps_or_panic [keeps_intro]: "(\<And>m. x = Some m \<Longrightarrow> keeps P (k m)) \<Longrightarrow> keeps P (or_panic x k)"
  by (simp add: or_panic_def keeps_panic split: option.splits)

end
