(* ===== verification/Ap_Identifiers.thy ===== *)
theory Ap_Identifiers
  imports Federation
begin

text \<open>
  The identifiers of local actors and objects (\<open>activitypub/identifiers.rs\<close>) and addresses of
  actors (\<open>webfinger/types.rs\<close>). Like the source, the functions take the URL of the instance; a
  URL is an origin such as \<open>https://example.org\<close> whose only character with a meaning in regular
  expressions is the dot, which the source escapes. The \<open>uuid\<close> crate is an argument.
\<close>

section \<open>Building identifiers\<close>

datatype local_actor_collection =
  Collection_Inbox | Collection_Outbox | Collection_Followers | Collection_Following
| Collection_Subscribers

fun collection_name :: "local_actor_collection \<Rightarrow> string" where
  "collection_name Collection_Inbox = ''inbox''"
| "collection_name Collection_Outbox = ''outbox''"
| "collection_name Collection_Followers = ''followers''"
| "collection_name Collection_Following = ''following''"
| "collection_name Collection_Subscribers = ''subscribers''"

definition collection_of :: "local_actor_collection \<Rightarrow> string \<Rightarrow> string" where
  "collection_of c actor_id = actor_id @ ''/'' @ collection_name c"

definition local_actor_id :: "string \<Rightarrow> string \<Rightarrow> string" where
  "local_actor_id instance_url username = instance_url @ ''/users/'' @ username"

definition local_actor_inbox :: "string \<Rightarrow> string \<Rightarrow> string" where
  "local_actor_inbox instance_url username =
     collection_of Collection_Inbox (local_actor_id instance_url username)"

definition local_actor_outbox :: "string \<Rightarrow> string \<Rightarrow> string" where
  "local_actor_outbox instance_url username =
     collection_of Collection_Outbox (local_actor_id instance_url username)"

definition local_actor_followers :: "string \<Rightarrow> string \<Rightarrow> string" where
  "local_actor_followers instance_url username =
     collection_of Collection_Followers (local_actor_id instance_url username)"

definition local_actor_following :: "string \<Rightarrow> string \<Rightarrow> string" where
  "local_actor_following instance_url username =
     collection_of Collection_Following (local_actor_id instance_url username)"

definition local_actor_subscribers :: "string \<Rightarrow> string \<Rightarrow> string" where
  "local_actor_subscribers instance_url username =
     collection_of Collection_Subscribers (local_actor_id instance_url username)"

definition local_instance_actor_id :: "string \<Rightarrow> string" where
  "local_instance_actor_id instance_url = instance_url @ ''/actor''"

definition local_actor_key_id :: "string \<Rightarrow> string" where
  "local_actor_key_id actor_id = actor_id @ ''#main-key''"

definition local_object_id :: "(uuid \<Rightarrow> string) \<Rightarrow> string \<Rightarrow> uuid \<Rightarrow> string" where
  "local_object_id show_uuid instance_url internal_object_id =
     instance_url @ ''/objects/'' @ show_uuid internal_object_id"

definition local_emoji_id :: "string \<Rightarrow> string \<Rightarrow> string" where
  "local_emoji_id instance_url emoji_name = instance_url @ ''/objects/emojis/'' @ emoji_name"

definition local_tag_collection :: "string \<Rightarrow> string \<Rightarrow> string" where
  "local_tag_collection instance_url tag_name = instance_url @ ''/collections/tags/'' @ tag_name"

definition post_object_id :: "(uuid \<Rightarrow> string) \<Rightarrow> string \<Rightarrow> post \<Rightarrow> string" where
  "post_object_id show_uuid instance_url post =
     (case pd_object_id (data_of post) of
        Some object_id \<Rightarrow> object_id
      | None \<Rightarrow> local_object_id show_uuid instance_url (pd_id (data_of post)))"

definition profile_actor_id :: "string \<Rightarrow> db_actor_profile \<Rightarrow> string" where
  "profile_actor_id instance_url profile =
     (case ap_actor_json profile of
        Some actor \<Rightarrow> da_id actor
      | None \<Rightarrow> local_actor_id instance_url (ap_username profile))"

definition profile_actor_url :: "string \<Rightarrow> db_actor_profile \<Rightarrow> string" where
  "profile_actor_url instance_url profile =
     (case Option.bind (ap_actor_json profile) da_url of
        Some actor_url \<Rightarrow> actor_url
      | None \<Rightarrow> profile_actor_id instance_url profile)"

section \<open>Parsing identifiers\<close>

definition validate_object_id :: "(string \<Rightarrow> string option) \<Rightarrow> string \<Rightarrow> unit validated" where
  "validate_object_id get_hostname object_id =
     (if get_hostname object_id = None then invalid ''invalid object ID'' else Inr ())"

definition is_uuid_char :: "char \<Rightarrow> bool" where
  "is_uuid_char c \<longleftrightarrow> is_digit c \<or> c \<in> set ''abcdef-''"

definition parse_local_actor_id :: "string \<Rightarrow> string \<Rightarrow> string validated" where
  "parse_local_actor_id instance_url actor_id =
     (case strip_prefix (instance_url @ ''/users/'') actor_id of
        None \<Rightarrow> invalid ''invalid actor ID''
      | Some username \<Rightarrow>
          if username \<noteq> [] \<and> list_all is_word username then Inr username
          else invalid ''invalid actor ID'')"

definition parse_local_object_id :: "(string \<Rightarrow> uuid option) \<Rightarrow> string \<Rightarrow> string \<Rightarrow> uuid validated" where
  "parse_local_object_id parse_uuid instance_url object_id =
     (case strip_prefix (instance_url @ ''/objects/'') object_id of
        None \<Rightarrow> invalid ''invalid object ID''
      | Some digits \<Rightarrow>
          if digits \<noteq> [] \<and> list_all is_uuid_char digits
          then (case parse_uuid digits of
                  None \<Rightarrow> invalid ''invalid object ID''
                | Some internal_object_id \<Rightarrow> Inr internal_object_id)
          else invalid ''invalid object ID'')"

definition is_ok :: "'a validated \<Rightarrow> bool" where
  "is_ok r = (case r of Inl _ \<Rightarrow> False | Inr _ \<Rightarrow> True)"

section \<open>Addresses\<close>

record actor_address =
  aa_username :: string
  aa_hostname :: string

definition address_to_string :: "actor_address \<Rightarrow> string" where
  "address_to_string a = aa_username a @ ''@'' @ aa_hostname a"

definition address_acct :: "string \<Rightarrow> actor_address \<Rightarrow> string" where
  "address_acct local_hostname a =
     (if aa_hostname a = local_hostname then aa_username a else address_to_string a)"

text \<open>
  The parts match \<open>[\w\.-]+\<close>: \<open>word_chars\<close> says that a string has only characters of the Unicode
  class \<open>\w\<close>. Neither part can contain the separator.
\<close>

definition address_part :: "(string \<Rightarrow> bool) \<Rightarrow> string \<Rightarrow> bool" where
  "address_part word_chars s \<longleftrightarrow>
     s \<noteq> [] \<and> CHR ''@'' \<notin> set s \<and> word_chars (filter (\<lambda>c. c \<noteq> CHR ''.'' \<and> c \<noteq> CHR ''-'') s)"

definition address_from_str :: "(string \<Rightarrow> bool) \<Rightarrow> string \<Rightarrow> actor_address validated" where
  "address_from_str word_chars s =
     (let username = takeWhile (\<lambda>c. c \<noteq> CHR ''@'') s; rest = dropWhile (\<lambda>c. c \<noteq> CHR ''@'') s in
      if rest \<noteq> [] \<and> address_part word_chars username \<and> address_part word_chars (List.tl rest)
      then Inr \<lparr>aa_username = username, aa_hostname = List.tl rest\<rparr>
      else invalid ''invalid actor address'')"

definition address_from_mention :: "(string \<Rightarrow> bool) \<Rightarrow> string \<Rightarrow> actor_address validated" where
  "address_from_mention word_chars mention =
     address_from_str word_chars
       (case strip_prefix ''@'' mention of Some s \<Rightarrow> s | None \<Rightarrow> mention)"

text \<open>\<open>from_profile\<close> asserts that the host name and the actor go together: \<open>None\<close> is the panic.\<close>

definition address_from_profile :: "string \<Rightarrow> db_actor_profile \<Rightarrow> actor_address option" where
  "address_from_profile local_hostname profile =
     (if (ap_hostname profile = None) = is_local profile
      then Some \<lparr>aa_username = ap_username profile,
        aa_hostname = (case ap_hostname profile of Some h \<Rightarrow> h | None \<Rightarrow> local_hostname)\<rparr>
      else None)"

section \<open>Laws\<close>

text \<open>
  Printing and parsing identifiers of either kind: what is printed is parsed back, what is parsed
  was printed, and a prefix tells the kinds apart.
\<close>

locale local_ids =
  fixes build :: "string \<Rightarrow> 'a \<Rightarrow> string"
    and parse :: "string \<Rightarrow> string \<Rightarrow> 'a validated"
    and valid :: "'a \<Rightarrow> bool"
  assumes parse_build: "valid x \<Longrightarrow> parse url (build url x) = Inr x"
    and parse_prefix: "parse url i = Inr x \<Longrightarrow> \<exists>rest. i = url @ ''/'' @ rest"
begin

lemma build_inject: "valid x \<Longrightarrow> valid y \<Longrightarrow> build url x = build url y \<Longrightarrow> x = y"
  by (metis parse_build sum.inject(2))

lemma foreign: "\<not> (\<exists>rest. i = url @ ''/'' @ rest) \<Longrightarrow> \<not> is_ok (parse url i)"
  using parse_prefix [of url i] by (cases "parse url i") (auto simp: is_ok_def)

end

definition valid_username :: "string \<Rightarrow> bool" where
  "valid_username username \<longleftrightarrow> username \<noteq> [] \<and> list_all is_word username"

lemma strip_prefix_local: "strip_prefix (url @ p) (url @ p @ s) = Some s"
  using strip_prefix_append [of "url @ p" s] by simp

lemma parse_local_actor_id_Inr:
  "parse_local_actor_id url i = Inr u \<longleftrightarrow> valid_username u \<and> i = local_actor_id url u"
proof (cases "strip_prefix (url @ ''/users/'') i")
  case None
  then have "i \<noteq> local_actor_id url u"
    unfolding local_actor_id_def by (metis strip_prefix_local option.distinct(1))
  then show ?thesis unfolding parse_local_actor_id_def None by simp
next
  case (Some v)
  then have i: "i = local_actor_id url v" by (simp add: strip_prefix_Some local_actor_id_def)
  show ?thesis
    unfolding parse_local_actor_id_def Some by (auto simp: i local_actor_id_def valid_username_def)
qed

interpretation actor_ids: local_ids local_actor_id parse_local_actor_id valid_username
proof
  fix url i and x :: string
  show "valid_username x \<Longrightarrow> parse_local_actor_id url (local_actor_id url x) = Inr x"
    by (simp add: parse_local_actor_id_Inr)
  show "parse_local_actor_id url i = Inr x \<Longrightarrow> \<exists>rest. i = url @ ''/'' @ rest"
    by (auto simp: parse_local_actor_id_Inr local_actor_id_def)
qed

lemma parse_local_object_id_Inr:
  "parse_local_object_id parse_uuid url i = Inr u \<longleftrightarrow>
     (\<exists>digits. i = url @ ''/objects/'' @ digits \<and> digits \<noteq> [] \<and> list_all is_uuid_char digits \<and>
       parse_uuid digits = Some u)"
proof (cases "strip_prefix (url @ ''/objects/'') i")
  case None
  then have "i \<noteq> url @ ''/objects/'' @ digits" for digits by (metis strip_prefix_local option.distinct(1))
  then show ?thesis unfolding parse_local_object_id_def None by simp
next
  case (Some v)
  then have i: "i = url @ ''/objects/'' @ v" by (simp add: strip_prefix_Some)
  show ?thesis
    unfolding parse_local_object_id_def Some by (auto simp: i split: option.splits)
qed

text \<open>What the \<open>uuid\<close> crate promises: the printed form is the hyphenated one and is parsed back.\<close>

definition uuid_codec :: "(uuid \<Rightarrow> string) \<Rightarrow> (string \<Rightarrow> uuid option) \<Rightarrow> bool" where
  "uuid_codec show_uuid parse_uuid \<longleftrightarrow>
     (\<forall>u. show_uuid u \<noteq> [] \<and> list_all is_uuid_char (show_uuid u) \<and> parse_uuid (show_uuid u) = Some u)"

lemma parse_built_object_id:
  "uuid_codec show_uuid parse_uuid \<Longrightarrow>
     parse_local_object_id parse_uuid url (local_object_id show_uuid url u) = Inr u"
  by (auto simp: uuid_codec_def parse_local_object_id_Inr local_object_id_def)

text \<open>An actor identifier is never an object identifier of the same instance.\<close>

lemma actor_id_not_object: "\<not> is_ok (parse_local_object_id parse_uuid url (local_actor_id url u))"
proof
  assume "is_ok (parse_local_object_id parse_uuid url (local_actor_id url u))"
  then obtain x where "parse_local_object_id parse_uuid url (local_actor_id url u) = Inr x"
    by (auto simp: is_ok_def split: sum.splits)
  then obtain digits where "local_actor_id url u = url @ ''/objects/'' @ digits"
    by (auto simp: parse_local_object_id_Inr)
  then show False by (simp add: local_actor_id_def)
qed

end
