(* ===== verification/Validators.thy ===== *)
theory Validators
  imports Ap_Identifiers
begin

text \<open>
  The checks on names and texts (\<open>src/validators\<close>). The HTML sanitizer and the Unicode functions
  are fields of the environment; the expressions without \<open>\w\<close> are written out.
\<close>

section \<open>Limits\<close>

definition ATTACHMENT_LIMIT :: nat where "ATTACHMENT_LIMIT = 15"
definition MENTION_LIMIT :: nat where "MENTION_LIMIT = 50"
definition LINK_LIMIT :: nat where "LINK_LIMIT = 10"
definition EMOJI_LIMIT :: nat where "EMOJI_LIMIT = 50"
definition OBJECT_ID_SIZE_MAX :: nat where "OBJECT_ID_SIZE_MAX = 2000"
definition CONTENT_MAX_SIZE :: nat where "CONTENT_MAX_SIZE = 100000"

definition content_allowed_tags :: "string list" where
  "content_allowed_tags = [''a'', ''br'', ''pre'', ''code'', ''strong'', ''em'', ''p'', ''span'']"

definition content_allowed_classes :: "(string \<times> string list) list" where
  "content_allowed_classes =
     [(''a'', [''hashtag'', ''mention'', ''u-url'']), (''span'', [''h-card'']), (''p'', [''inline-quote''])]"

section \<open>Posts\<close>

definition clean_content :: "environment \<Rightarrow> string \<Rightarrow> string validated" where
  "clean_content e content =
     (if CONTENT_MAX_SIZE < length content then invalid ''post is too long''
      else
        let content_safe = en_clean_html_strict e content_allowed_tags content_allowed_classes content;
          content_trimmed = en_trim e content_safe
        in if content_trimmed = [] then invalid ''post can not be empty'' else Inr content_trimmed)"

definition validate_hashtag :: "environment \<Rightarrow> string \<Rightarrow> unit validated" where
  "validate_hashtag e tag_name =
     (if tag_name \<noteq> [] \<and> en_word_chars e tag_name then Inr () else invalid ''invalid tag name'')"

section \<open>Emojis\<close>

definition EMOJI_MAX_SIZE :: nat where "EMOJI_MAX_SIZE = 500 * 1000"
definition EMOJI_LOCAL_MAX_SIZE :: nat where "EMOJI_LOCAL_MAX_SIZE = 50 * 1000"

definition emoji_media_types :: "string list" where
  "emoji_media_types = [''image/apng'', ''image/gif'', ''image/png'', ''image/webp'']"

definition is_emoji_char :: "char \<Rightarrow> bool" where
  "is_emoji_char c \<longleftrightarrow> is_word c \<or> c = CHR ''.'' \<or> c = CHR ''-''"

definition validate_emoji_name :: "string \<Rightarrow> unit validated" where
  "validate_emoji_name emoji_name =
     (if emoji_name = [] \<or> \<not> list_all is_emoji_char emoji_name then invalid ''invalid emoji name''
      else if 100 < length emoji_name then invalid ''emoji name is too long''
      else Inr ())"

section \<open>Profiles\<close>

definition is_username_char :: "char \<Rightarrow> bool" where
  "is_username_char c \<longleftrightarrow> is_word c \<or> c = CHR ''.'' \<or> c = CHR ''-''"

definition validate_username :: "string \<Rightarrow> unit validated" where
  "validate_username username =
     (if username = [] then invalid ''username is empty''
      else if 100 < length username then invalid ''username is too long''
      else if \<not> list_all is_username_char username then invalid ''invalid username''
      else Inr ())"

definition validate_local_username :: "string \<Rightarrow> unit validated" where
  "validate_local_username username =
     (case validate_username username of
        Inl err \<Rightarrow> Inl err
      | Inr _ \<Rightarrow> if list_all is_word username then Inr () else invalid ''invalid username'')"

definition validate_display_name :: "environment \<Rightarrow> string \<Rightarrow> unit validated" where
  "validate_display_name e display_name =
     (if 200 < length (en_chars e display_name) then invalid ''display name is too long'' else Inr ())"

definition bio_allowed_tags :: "string list" where
  "bio_allowed_tags = [''a'', ''br'']"

definition clean_bio :: "environment \<Rightarrow> string \<Rightarrow> bool \<Rightarrow> string validated" where
  "clean_bio e bio is_remote =
     (if is_remote then Inr (en_clean_html e [] (concat (take 10000 (en_chars e bio))))
      else if 10000 < length (en_chars e bio) then invalid ''bio is too long''
      else Inr (en_clean_html_strict e bio_allowed_tags [] bio))"

fun clean_fields :: "environment \<Rightarrow> extra_field list \<Rightarrow> extra_field list validated" where
  "clean_fields e [] = Inr []"
| "clean_fields e (field # fields') =
     (let name = en_trim e (ef_name field);
        val = en_clean_html_strict e bio_allowed_tags [] (ef_value field) in
      if name = [] then clean_fields e fields'
      else if 500 < length name then invalid ''field name is too long''
      else if 5000 < length val then invalid ''field value is too long''
      else (case clean_fields e fields' of
              Inl err \<Rightarrow> Inl err
            | Inr cleaned \<Rightarrow> Inr (field\<lparr>ef_name := name, ef_value := val\<rparr> # cleaned)))"

definition clean_extra_fields :: "environment \<Rightarrow> extra_field list \<Rightarrow> bool \<Rightarrow> extra_field list validated" where
  "clean_extra_fields e extra_fields is_remote =
     (case clean_fields e extra_fields of
        Inl err \<Rightarrow> Inl err
      | Inr cleaned \<Rightarrow>
          if is_remote \<and> 100 < length cleaned then invalid ''at most 100 fields are allowed''
          else if \<not> is_remote \<and> 10 < length cleaned then invalid ''at most 10 fields are allowed''
          else Inr cleaned)"

definition and_then :: "'a validated \<Rightarrow> ('a \<Rightarrow> 'b validated) \<Rightarrow> 'b validated" where
  "and_then r f = (case r of Inl err \<Rightarrow> Inl err | Inr x \<Rightarrow> f x)"

definition validated_option :: "('a \<Rightarrow> 'b validated) \<Rightarrow> 'a option \<Rightarrow> 'b option validated" where
  "validated_option f v =
     (case v of None \<Rightarrow> Inr None | Some x \<Rightarrow> and_then (f x) (\<lambda>y. Inr (Some y)))"

definition clean_profile_create_data ::
    "environment \<Rightarrow> profile_create_data \<Rightarrow> profile_create_data validated" where
  "clean_profile_create_data e d =
     and_then (validate_username (pc_username d)) (\<lambda>_.
     if (pc_hostname d \<noteq> None) \<noteq> (pc_actor_json d \<noteq> None)
     then invalid ''hostname and actor_json field mismatch''
     else
       let is_remote = pc_actor_json d \<noteq> None in
       and_then (validated_option (validate_display_name e) (pc_display_name d)) (\<lambda>_.
       and_then (validated_option (\<lambda>bio. clean_bio e bio is_remote) (pc_bio d)) (\<lambda>bio.
       and_then (clean_extra_fields e (pc_extra_fields d) is_remote) (\<lambda>extra_fields.
       if EMOJI_LIMIT < length (pc_emojis d) then invalid ''too many emojis''
       else Inr (d\<lparr>pc_bio := bio, pc_extra_fields := extra_fields\<rparr>)))))"

definition clean_profile_update_data ::
    "environment \<Rightarrow> profile_update_data \<Rightarrow> profile_update_data validated" where
  "clean_profile_update_data e d =
     (let is_remote = pu_actor_json d \<noteq> None in
      and_then (validated_option (validate_display_name e) (pu_display_name d)) (\<lambda>_.
      and_then (validated_option (\<lambda>bio. clean_bio e bio is_remote) (pu_bio d)) (\<lambda>bio.
      and_then (clean_extra_fields e (pu_extra_fields d) is_remote) (\<lambda>extra_fields.
      if EMOJI_LIMIT < length (pu_emojis d) then invalid ''too many emojis''
      else Inr (d\<lparr>pu_bio := bio, pu_extra_fields := extra_fields\<rparr>)))))"

section \<open>What the checks ensure\<close>

lemma and_then_Inr: "and_then r f = Inr y \<longleftrightarrow> (\<exists>x. r = Inr x \<and> f x = Inr y)"
  by (auto simp: and_then_def split: sum.splits)

lemma validate_local_username_ok:
  "validate_local_username u = Inr () \<longleftrightarrow> u \<noteq> [] \<and> length u \<le> 100 \<and> list_all is_word u"
  by (auto simp: validate_local_username_def validate_username_def is_username_char_def list_all_iff
    split: if_splits sum.splits)

text \<open>A local name is one that identifiers of local actors can carry.\<close>

lemma local_username_valid: "validate_local_username u = Inr () \<Longrightarrow> valid_username u"
  by (simp add: validate_local_username_ok valid_username_def)

lemma clean_fields_bounds:
  "clean_fields e fs = Inr cleaned \<Longrightarrow>
     list_all (\<lambda>f. ef_name f \<noteq> [] \<and> length (ef_name f) \<le> 500 \<and> length (ef_value f) \<le> 5000) cleaned"
  by (induction fs arbitrary: cleaned) (auto simp: Let_def split: if_splits sum.splits)

lemma clean_create_keeps:
  assumes "clean_profile_create_data e d = Inr d'"
  shows "pc_username d' = pc_username d" and "pc_hostname d' = pc_hostname d"
    and "pc_actor_json d' = pc_actor_json d"
  using assms by (auto simp: clean_profile_create_data_def and_then_Inr Let_def split: if_splits)

lemma clean_update_keeps:
  assumes "clean_profile_update_data e d = Inr d'"
  shows "pu_actor_json d' = pu_actor_json d"
  using assms by (auto simp: clean_profile_update_data_def and_then_Inr Let_def split: if_splits)

end
