(* ===== verification/Ap_Objects.thy ===== *)
theory Ap_Objects
  imports Validators
begin

text \<open>
  Objects, tags and attachments as they arrive (\<open>activitypub/types.rs\<close>) and the pure parts of
  \<open>activitypub/handlers/create.rs\<close>: attribution, content, links, audience and visibility.
\<close>

section \<open>Vocabulary\<close>

definition AP_MEDIA_TYPE :: string where
  "AP_MEDIA_TYPE = ''application/ld+json; profile=\"https://www.w3.org/ns/activitystreams\"''"

definition AS_MEDIA_TYPE :: string where "AS_MEDIA_TYPE = ''application/activity+json''"
definition AS_CONTEXT :: string where "AS_CONTEXT = ''https://www.w3.org/ns/activitystreams''"

definition AP_PUBLIC :: string where
  "AP_PUBLIC = ''https://www.w3.org/ns/activitystreams#Public''"

section \<open>Values\<close>

record ap_attachment =
  at_attachment_type :: string
  at_name :: "string option"
  at_media_type :: "string option"
  at_url :: "string option"

record ap_tag =
  tag_name :: "string option"
  tag_tag_type :: string
  tag_href :: "string option"

record link_tag =
  lt_tag_type :: string
  lt_href :: string
  lt_media_type :: string
  lt_name :: "string option"

record emoji_tag_image =
  ti_object_type :: string
  ti_url :: string
  ti_media_type :: "string option"

record emoji_tag =
  et_tag_type :: string
  et_icon :: emoji_tag_image
  et_id :: string
  et_name :: string
  et_updated :: datetime

record ap_object =
  ob_id :: string
  ob_object_type :: string
  ob_name :: "string option"
  ob_attachment :: "json option"
  ob_cc :: "json option"
  ob_media_type :: "string option"
  ob_published :: "datetime option"
  ob_attributed_to :: "json option"
  ob_in_reply_to :: "string option"
  ob_content :: "string option"
  ob_quote_url :: "string option"
  ob_sensitive :: "bool option"
  ob_tag :: "json list"
  ob_to :: "json option"
  ob_updated :: "datetime option"
  ob_url :: "json option"

section \<open>Deserializers\<close>

definition de_datetime :: "environment \<Rightarrow> json \<Rightarrow> datetime option" where
  "de_datetime e v = Option.bind (json_string v) (en_parse_datetime e)"

definition de_attachment :: "json \<Rightarrow> ap_attachment option" where
  "de_attachment v =
     Option.bind (struct_view [''type'', ''name'', ''mediaType'', ''url''] [] v) (\<lambda>field.
     Option.bind (de_required json_string (field ''type'')) (\<lambda>attachment_type.
     Option.bind (de_option json_string (field ''name'')) (\<lambda>name.
     Option.bind (de_option json_string (field ''mediaType'')) (\<lambda>media_type.
     Option.bind (de_option json_string (field ''url'')) (\<lambda>url.
     Some \<lparr>at_attachment_type = attachment_type, at_name = name, at_media_type = media_type,
       at_url = url\<rparr>)))))"

text \<open>\<open>struct Link\<close>\<close>

definition de_link :: "json \<Rightarrow> string option" where
  "de_link v =
     Option.bind (struct_view [''href''] [] v) (\<lambda>field. de_required json_string (field ''href''))"

definition de_tag :: "json \<Rightarrow> ap_tag option" where
  "de_tag v =
     Option.bind (struct_view [''name'', ''type'', ''href''] [] v) (\<lambda>field.
     Option.bind (de_option json_string (field ''name'')) (\<lambda>name.
     Option.bind (de_default ''Hashtag'' json_string (field ''type'')) (\<lambda>tag_type.
     Option.bind (de_option json_string (field ''href'')) (\<lambda>href.
     Some \<lparr>tag_name = name, tag_tag_type = tag_type, tag_href = href\<rparr>))))"

definition de_link_tag :: "json \<Rightarrow> link_tag option" where
  "de_link_tag v =
     Option.bind (struct_view [''type'', ''href'', ''mediaType'', ''name''] [] v) (\<lambda>field.
     Option.bind (de_required json_string (field ''type'')) (\<lambda>tag_type.
     Option.bind (de_required json_string (field ''href'')) (\<lambda>href.
     Option.bind (de_required json_string (field ''mediaType'')) (\<lambda>media_type.
     Option.bind (de_option json_string (field ''name'')) (\<lambda>name.
     Some \<lparr>lt_tag_type = tag_type, lt_href = href, lt_media_type = media_type, lt_name = name\<rparr>)))))"

definition de_emoji_tag_image :: "json \<Rightarrow> emoji_tag_image option" where
  "de_emoji_tag_image v =
     Option.bind (struct_view [''type'', ''url'', ''mediaType''] [] v) (\<lambda>field.
     Option.bind (de_required json_string (field ''type'')) (\<lambda>object_type.
     Option.bind (de_required json_string (field ''url'')) (\<lambda>url.
     Option.bind (de_option json_string (field ''mediaType'')) (\<lambda>media_type.
     Some \<lparr>ti_object_type = object_type, ti_url = url, ti_media_type = media_type\<rparr>))))"

definition de_emoji_tag :: "environment \<Rightarrow> json \<Rightarrow> emoji_tag option" where
  "de_emoji_tag e v =
     Option.bind (struct_view [''type'', ''icon'', ''id'', ''name'', ''updated''] [] v) (\<lambda>field.
     Option.bind (de_required json_string (field ''type'')) (\<lambda>tag_type.
     Option.bind (de_required de_emoji_tag_image (field ''icon'')) (\<lambda>icon.
     Option.bind (de_required json_string (field ''id'')) (\<lambda>i.
     Option.bind (de_required json_string (field ''name'')) (\<lambda>name.
     Option.bind (de_required (de_datetime e) (field ''updated'')) (\<lambda>updated.
     Some \<lparr>et_tag_type = tag_type, et_icon = icon, et_id = i, et_name = name,
       et_updated = updated\<rparr>))))))"

definition object_fields :: "string list" where
  "object_fields =
     [''id'', ''type'', ''name'', ''attachment'', ''cc'', ''mediaType'', ''published'',
      ''attributedTo'', ''inReplyTo'', ''content'', ''quoteUrl'', ''sensitive'', ''tag'', ''to'',
      ''updated'', ''url'']"

definition de_object :: "environment \<Rightarrow> json \<Rightarrow> ap_object option" where
  "de_object e v =
     Option.bind (struct_view object_fields [''tag''] v) (\<lambda>field.
     Option.bind (de_required json_string (field ''id'')) (\<lambda>i.
     Option.bind (de_required json_string (field ''type'')) (\<lambda>object_type.
     Option.bind (de_option json_string (field ''name'')) (\<lambda>name.
     Option.bind (de_option Some (field ''attachment'')) (\<lambda>attachment.
     Option.bind (de_option Some (field ''cc'')) (\<lambda>cc.
     Option.bind (de_option json_string (field ''mediaType'')) (\<lambda>media_type.
     Option.bind (de_option (de_datetime e) (field ''published'')) (\<lambda>published.
     Option.bind (de_option Some (field ''attributedTo'')) (\<lambda>attributed_to.
     Option.bind (de_option json_string (field ''inReplyTo'')) (\<lambda>in_reply_to.
     Option.bind (de_option json_string (field ''content'')) (\<lambda>content.
     Option.bind (de_option json_string (field ''quoteUrl'')) (\<lambda>quote_url.
     Option.bind (de_option json_bool (field ''sensitive'')) (\<lambda>sensitive.
     Option.bind (de_default [] deserialize_value_array (field ''tag'')) (\<lambda>tag.
     Option.bind (de_option Some (field ''to'')) (\<lambda>recipients.
     Option.bind (de_option (de_datetime e) (field ''updated'')) (\<lambda>updated.
     Option.bind (de_option Some (field ''url'')) (\<lambda>url.
     Some \<lparr>ob_id = i, ob_object_type = object_type, ob_name = name, ob_attachment = attachment,
       ob_cc = cc, ob_media_type = media_type, ob_published = published,
       ob_attributed_to = attributed_to, ob_in_reply_to = in_reply_to, ob_content = content,
       ob_quote_url = quote_url, ob_sensitive = sensitive, ob_tag = tag, ob_to = recipients,
       ob_updated = updated, ob_url = url\<rparr>)))))))))))))))))"

section \<open>Reading an object\<close>

definition get_object_attributed_to :: "ap_object \<Rightarrow> string validated" where
  "get_object_attributed_to obj =
     (case ob_attributed_to obj of
        None \<Rightarrow> invalid ''unattributed note''
      | Some attributed_to \<Rightarrow>
          and_then (array_or ''invalid attributedTo property'' attributed_to) (\<lambda>author_ids.
          case author_ids of
            [] \<Rightarrow> invalid ''invalid attributedTo property''
          | author_id # _ \<Rightarrow> Inr author_id))"

definition get_object_url :: "ap_object \<Rightarrow> string validated" where
  "get_object_url obj =
     (case ob_url obj of
        None \<Rightarrow> Inr (ob_id obj)
      | Some (JString s) \<Rightarrow> Inr s
      | Some other_value \<Rightarrow>
          (case parse_property_value de_link other_value of
             None \<Rightarrow> invalid ''invalid object URL''
           | Some [] \<Rightarrow> Inr (ob_id obj)
           | Some (href # _) \<Rightarrow> Inr href))"

definition get_object_content :: "environment \<Rightarrow> ap_object \<Rightarrow> string validated" where
  "get_object_content e obj =
     (let content =
        (case ob_content obj of
           Some content \<Rightarrow>
             if ob_media_type obj = Some ''text/markdown'' then ''<p>'' @ content @ ''</p>'' else content
         | None \<Rightarrow> (case ob_name obj of Some name \<Rightarrow> name | None \<Rightarrow> []))
      in if CONTENT_MAX_SIZE < length content then invalid ''content is too long''
         else Inr (en_clean_html e content_allowed_classes content))"

definition create_content_link :: "string \<Rightarrow> string" where
  "create_content_link url = ''<p><a href=\"'' @ url @ ''\" rel=\"noopener\">'' @ url @ ''</a></p>''"

definition contains_text :: "string \<Rightarrow> string \<Rightarrow> bool" where
  "contains_text s part = (leftmost (strip_prefix part) s \<noteq> None)"

definition is_gnu_social_link :: "string \<Rightarrow> ap_attachment \<Rightarrow> bool" where
  "is_gnu_social_link author_id attachment =
     (if \<not> contains_text author_id ''/index.php/user/'' then False
      else if at_attachment_type attachment \<noteq> ''Document'' then False
      else
        (case at_media_type attachment of
           None \<Rightarrow> True
         | Some media_type \<Rightarrow> contains_text media_type ''text/html''))"

definition normalize_hashtag :: "environment \<Rightarrow> string \<Rightarrow> string validated" where
  "normalize_hashtag e tag =
     (let name = dropWhile (\<lambda>c. c = CHR ''#'') tag in
      and_then (validate_hashtag e name) (\<lambda>_. Inr (en_lowercase e name)))"

text \<open>A vector that is used as a set: \<open>if !xs.contains(&x) { xs.push(x) }\<close>\<close>

definition push_new :: "'a \<Rightarrow> 'a list \<Rightarrow> 'a list" where
  "push_new x xs = (if x \<in> set xs then xs else xs @ [x])"

definition tag_type_of :: "json \<Rightarrow> string" where
  "tag_type_of tag_value =
     (case json_string (json_index tag_value ''type'') of Some s \<Rightarrow> s | None \<Rightarrow> ''Hashtag'')"

definition push_link :: "json \<Rightarrow> string list \<Rightarrow> string list" where
  "push_link tag_value links =
     (if tag_type_of tag_value = ''Link'' then
        (case de_link_tag tag_value of
           None \<Rightarrow> links
         | Some tag \<Rightarrow>
             if lt_media_type tag \<noteq> AP_MEDIA_TYPE \<and> lt_media_type tag \<noteq> AS_MEDIA_TYPE then links
             else push_new (lt_href tag) links)
      else links)"

definition get_object_links :: "ap_object \<Rightarrow> string list" where
  "get_object_links obj =
     (let links = fold push_link (ob_tag obj) [] in
      case ob_quote_url obj of Some object_id \<Rightarrow> push_new object_id links | None \<Rightarrow> links)"

section \<open>Audience and visibility\<close>

definition audience_part :: "string \<Rightarrow> json option \<Rightarrow> string list validated" where
  "audience_part msg v = (case v of None \<Rightarrow> Inr [] | Some x \<Rightarrow> array_or msg x)"

definition get_audience :: "ap_object \<Rightarrow> string list validated" where
  "get_audience obj =
     and_then (audience_part ''invalid 'to' property value'' (ob_to obj)) (\<lambda>primary_audience.
     and_then (audience_part ''invalid 'cc' property value'' (ob_cc obj)) (\<lambda>secondary_audience.
     Inr (primary_audience @ secondary_audience)))"

definition is_public_object :: "string list \<Rightarrow> bool" where
  "is_public_object audience =
     list_ex (\<lambda>item. item \<in> set [AP_PUBLIC, ''as:Public'', ''Public'']) audience"

text \<open>\<open>expect("actor data should be present")\<close>: a local author makes it panic.\<close>

definition get_object_visibility :: "db_actor_profile \<Rightarrow> string list \<Rightarrow> visibility validated" where
  "get_object_visibility author audience =
     (if is_public_object audience then Inr Public
      else
        (case ap_actor_json author of
           None \<Rightarrow> Inl Panic
         | Some actor \<Rightarrow>
             Inr (if list_ex (\<lambda>item. da_followers actor = Some item) audience then Followers
                  else if list_ex (\<lambda>item. da_subscribers actor = Some item) audience then Subscribers
                  else Direct)))"

section \<open>Laws\<close>

lemma set_push_new [simp]: "set (push_new x xs) = insert x (set xs)"
  by (auto simp: push_new_def)

lemma distinct_push_new [simp]: "distinct (push_new x xs) = distinct xs"
  by (simp add: push_new_def)

lemma length_push_new: "length (push_new x xs) \<le> Suc (length xs)"
  by (simp add: push_new_def)

lemma push_link_distinct: "distinct links \<Longrightarrow> distinct (push_link v links)"
  by (simp add: push_link_def split: option.splits)

lemma get_object_links_distinct: "distinct (get_object_links obj)"
proof -
  have "distinct links \<Longrightarrow> distinct (fold push_link tags links)" for tags links
    by (induction tags arbitrary: links) (simp_all add: push_link_distinct)
  then show ?thesis by (simp add: get_object_links_def Let_def split: option.splits)
qed

end
