(* ===== verification/Actors.thy ===== *)
theory Actors
  imports Ap_Objects
begin

text \<open>
  Actors as they arrive (\<open>activitypub/actors/types.rs\<close>) and the attachments of actors
  (\<open>activitypub/actors/attachments.rs\<close>).
\<close>

section \<open>Values\<close>

record actor_image =
  ai_object_type :: string
  ai_url :: string
  ai_media_type :: "string option"

record actor_attachment =
  aat_name :: string
  aat_object_type :: string
  aat_value :: "string option"
  aat_href :: "string option"
  aat_signature_algorithm :: "string option"
  aat_signature_value :: "string option"

record actor =
  ac_context :: "json option"
  ac_id :: string
  ac_object_type :: string
  ac_name :: "string option"
  ac_preferred_username :: string
  ac_inbox :: string
  ac_outbox :: string
  ac_bot :: bool
  ac_followers :: "string option"
  ac_following :: "string option"
  ac_subscribers :: "string option"
  ac_public_key :: db_actor_public_key
  ac_icon :: "actor_image option"
  ac_image :: "actor_image option"
  ac_summary :: "string option"
  ac_also_known_as :: "json option"
  ac_attachment :: "json list"
  ac_manually_approves_followers :: bool
  ac_tag :: "json list"
  ac_url :: "string option"

section \<open>Deserializers\<close>

definition de_public_key :: "json \<Rightarrow> db_actor_public_key option" where
  "de_public_key v =
     Option.bind (struct_view [''id'', ''owner'', ''publicKeyPem''] [] v) (\<lambda>field.
     Option.bind (de_required json_string (field ''id'')) (\<lambda>i.
     Option.bind (de_required json_string (field ''owner'')) (\<lambda>owner.
     Option.bind (de_required json_string (field ''publicKeyPem'')) (\<lambda>public_key_pem.
     Some \<lparr>pk_id = i, pk_owner = owner, pk_public_key_pem = public_key_pem\<rparr>))))"

definition de_actor_image :: "json \<Rightarrow> actor_image option" where
  "de_actor_image v =
     Option.bind (struct_view [''type'', ''url'', ''mediaType''] [] v) (\<lambda>field.
     Option.bind (de_required json_string (field ''type'')) (\<lambda>object_type.
     Option.bind (de_required json_string (field ''url'')) (\<lambda>url.
     Option.bind (de_option json_string (field ''mediaType'')) (\<lambda>media_type.
     Some \<lparr>ai_object_type = object_type, ai_url = url, ai_media_type = media_type\<rparr>))))"

definition deserialize_image_opt :: "json \<Rightarrow> actor_image option option" where
  "deserialize_image_opt v =
     (case v of
        JNull \<Rightarrow> Some None
      | JObject [] \<Rightarrow> Some None
      | _ \<Rightarrow> map_option Some (de_actor_image v))"

definition de_actor_attachment :: "json \<Rightarrow> actor_attachment option" where
  "de_actor_attachment v =
     Option.bind (struct_view [''name'', ''type'', ''value'', ''href'', ''signatureAlgorithm'',
       ''signatureValue''] [] v) (\<lambda>field.
     Option.bind (de_required json_string (field ''name'')) (\<lambda>name.
     Option.bind (de_required json_string (field ''type'')) (\<lambda>object_type.
     Option.bind (de_option json_string (field ''value'')) (\<lambda>val.
     Option.bind (de_option json_string (field ''href'')) (\<lambda>href.
     Option.bind (de_option json_string (field ''signatureAlgorithm'')) (\<lambda>signature_algorithm.
     Option.bind (de_option json_string (field ''signatureValue'')) (\<lambda>signature_value.
     Some \<lparr>aat_name = name, aat_object_type = object_type, aat_value = val, aat_href = href,
       aat_signature_algorithm = signature_algorithm,
       aat_signature_value = signature_value\<rparr>)))))))"

definition actor_fields :: "string list" where
  "actor_fields =
     [''@context'', ''id'', ''type'', ''name'', ''preferredUsername'', ''inbox'', ''outbox'', ''bot'',
      ''followers'', ''following'', ''subscribers'', ''publicKey'', ''icon'', ''image'', ''summary'',
      ''alsoKnownAs'', ''attachment'', ''manuallyApprovesFollowers'', ''tag'', ''url'']"

definition de_actor :: "json \<Rightarrow> actor option" where
  "de_actor v =
     Option.bind (struct_view actor_fields
       [''bot'', ''icon'', ''attachment'', ''manuallyApprovesFollowers'', ''tag''] v) (\<lambda>field.
     Option.bind (de_option Some (field ''@context'')) (\<lambda>ctx.
     Option.bind (de_required json_string (field ''id'')) (\<lambda>i.
     Option.bind (de_required json_string (field ''type'')) (\<lambda>object_type.
     Option.bind (de_option json_string (field ''name'')) (\<lambda>name.
     Option.bind (de_required json_string (field ''preferredUsername'')) (\<lambda>preferred_username.
     Option.bind (de_required json_string (field ''inbox'')) (\<lambda>inbox.
     Option.bind (de_required json_string (field ''outbox'')) (\<lambda>outbox.
     Option.bind (de_default False json_bool (field ''bot'')) (\<lambda>bot.
     Option.bind (de_option json_string (field ''followers'')) (\<lambda>followers.
     Option.bind (de_option json_string (field ''following'')) (\<lambda>following.
     Option.bind (de_option json_string (field ''subscribers'')) (\<lambda>subscribers.
     Option.bind (de_required de_public_key (field ''publicKey'')) (\<lambda>public_key.
     Option.bind (de_default None deserialize_image_opt (field ''icon'')) (\<lambda>icon.
     Option.bind (de_option de_actor_image (field ''image'')) (\<lambda>img.
     Option.bind (de_option json_string (field ''summary'')) (\<lambda>summary.
     Option.bind (de_option Some (field ''alsoKnownAs'')) (\<lambda>also_known_as.
     Option.bind (de_default [] deserialize_value_array (field ''attachment'')) (\<lambda>attachment.
     Option.bind (de_default False json_bool (field ''manuallyApprovesFollowers'')) (\<lambda>manually.
     Option.bind (de_default [] deserialize_value_array (field ''tag'')) (\<lambda>tag.
     Option.bind (de_option json_string (field ''url'')) (\<lambda>url.
     Some \<lparr>ac_context = ctx, ac_id = i, ac_object_type = object_type, ac_name = name,
       ac_preferred_username = preferred_username, ac_inbox = inbox, ac_outbox = outbox,
       ac_bot = bot, ac_followers = followers, ac_following = following,
       ac_subscribers = subscribers, ac_public_key = public_key, ac_icon = icon, ac_image = img,
       ac_summary = summary, ac_also_known_as = also_known_as, ac_attachment = attachment,
       ac_manually_approves_followers = manually, ac_tag = tag,
       ac_url = url\<rparr>)))))))))))))))))))))"

section \<open>Methods\<close>

definition actor_address_of :: "environment \<Rightarrow> actor \<Rightarrow> actor_address validated" where
  "actor_address_of e a =
     (case en_url_host e (ac_id a) of
        None \<Rightarrow> invalid ''invalid actor ID''
      | Some hostname \<Rightarrow> Inr \<lparr>aa_username = ac_preferred_username a, aa_hostname = hostname\<rparr>)"

definition into_db_actor :: "actor \<Rightarrow> db_actor" where
  "into_db_actor a =
     \<lparr>da_object_type = ac_object_type a, da_id = ac_id a, da_inbox = ac_inbox a,
      da_outbox = ac_outbox a, da_followers = ac_followers a, da_subscribers = ac_subscribers a,
      da_url = ac_url a, da_public_key = ac_public_key a\<rparr>"

section \<open>Attachments of actors\<close>

text \<open>Parsing of identity proofs has been removed from the code: it always fails.\<close>

definition parse_identity_proof :: "string \<Rightarrow> actor_attachment \<Rightarrow> identity_proof validated" where
  "parse_identity_proof actor_id attachment = invalid ''incorrect proof type''"

definition parse_payment_option :: "actor_attachment \<Rightarrow> payment_option validated" where
  "parse_payment_option attachment =
     (if aat_object_type attachment \<noteq> ''Link'' then invalid ''invalid attachment type''
      else
        (case aat_href attachment of
           None \<Rightarrow> invalid ''href attribute is required''
         | Some href \<Rightarrow> Inr (Option_Link \<lparr>pl_name = aat_name attachment, pl_href = href\<rparr>)))"

definition parse_extra_field :: "actor_attachment \<Rightarrow> extra_field validated" where
  "parse_extra_field attachment =
     (if aat_object_type attachment \<noteq> ''PropertyValue'' then invalid ''invalid attachment type''
      else
        (case aat_value attachment of
           None \<Rightarrow> invalid ''missing property value''
         | Some property_value \<Rightarrow>
             Inr \<lparr>ef_name = aat_name attachment, ef_value = property_value, ef_value_source = None\<rparr>))"

definition push_ok :: "'a validated \<Rightarrow> 'a list \<Rightarrow> 'a list" where
  "push_ok r xs = (case r of Inl _ \<Rightarrow> xs | Inr x \<Rightarrow> xs @ [x])"

definition parse_actor_attachment ::
    "string \<Rightarrow> json \<Rightarrow> identity_proof list \<times> payment_option list \<times> extra_field list \<Rightarrow>
     identity_proof list \<times> payment_option list \<times> extra_field list" where
  "parse_actor_attachment actor_id attachment_value acc =
     (case acc of (identity_proofs, payment_options, extra_fields) \<Rightarrow>
        let attachment_type =
          (case json_string (json_index attachment_value ''type'') of Some s \<Rightarrow> s | None \<Rightarrow> ''Unknown'')
        in case de_actor_attachment attachment_value of
             None \<Rightarrow> acc
           | Some attachment \<Rightarrow>
               if attachment_type = ''IdentityProof''
               then (push_ok (parse_identity_proof actor_id attachment) identity_proofs,
                     payment_options, extra_fields)
               else if attachment_type = ''Link''
               then (identity_proofs, push_ok (parse_payment_option attachment) payment_options,
                     extra_fields)
               else if attachment_type = ''PropertyValue''
               then (identity_proofs, payment_options,
                     push_ok (parse_extra_field attachment) extra_fields)
               else acc)"

definition parse_attachments ::
    "actor \<Rightarrow> identity_proof list \<times> payment_option list \<times> extra_field list" where
  "parse_attachments a = fold (parse_actor_attachment (ac_id a)) (ac_attachment a) ([], [], [])"

text \<open>\<open>None\<close> is the panic of \<open>unimplemented!\<close> on payment links.\<close>

definition get_subscription_page_url :: "string \<Rightarrow> string \<Rightarrow> string" where
  "get_subscription_page_url instance_url username =
     instance_url @ ''/@'' @ username @ ''/subscription''"

fun identity_proof_type_name :: "identity_proof_type \<Rightarrow> string" where
  "identity_proof_type_name LegacyEip191IdentityProof = ''ethereum-eip191-00''"
| "identity_proof_type_name LegacyMinisignIdentityProof = ''MitraMinisignSignature2022A''"

definition attach_identity_proof ::
    "(8 word list \<Rightarrow> string) \<Rightarrow> identity_proof \<Rightarrow> actor_attachment" where
  "attach_identity_proof enc proof =
     \<lparr>aat_name = did_to_string enc (ip_issuer proof), aat_object_type = ''IdentityProof'',
      aat_value = None, aat_href = None,
      aat_signature_algorithm = Some (identity_proof_type_name (ip_proof_type proof)),
      aat_signature_value = Some (ip_value proof)\<rparr>"

fun attach_payment_option :: "string \<Rightarrow> string \<Rightarrow> payment_option \<Rightarrow> actor_attachment option" where
  "attach_payment_option instance_url username (Option_Link _) = None"
| "attach_payment_option instance_url username (Option_EthereumSubscription _) =
     Some \<lparr>aat_name = ''EthereumSubscription'', aat_object_type = ''Link'', aat_value = None,
       aat_href = Some (get_subscription_page_url instance_url username),
       aat_signature_algorithm = None, aat_signature_value = None\<rparr>"
| "attach_payment_option instance_url username (Option_MoneroSubscription _) =
     Some \<lparr>aat_name = ''MoneroSubscription'', aat_object_type = ''Link'', aat_value = None,
       aat_href = Some (get_subscription_page_url instance_url username),
       aat_signature_algorithm = None, aat_signature_value = None\<rparr>"

definition attach_extra_field :: "extra_field \<Rightarrow> actor_attachment" where
  "attach_extra_field field =
     \<lparr>aat_name = ef_name field, aat_object_type = ''PropertyValue'', aat_value = Some (ef_value field),
      aat_href = None, aat_signature_algorithm = None, aat_signature_value = None\<rparr>"

section \<open>Serializers\<close>

text \<open>\<open>skip_serializing_if = "Option::is_none"\<close>\<close>

definition ser_optional :: "string \<Rightarrow> string option \<Rightarrow> (string \<times> json) list" where
  "ser_optional name v = (case v of None \<Rightarrow> [] | Some s \<Rightarrow> [(name, JString s)])"

definition ser_option :: "string option \<Rightarrow> json" where
  "ser_option v = (case v of None \<Rightarrow> JNull | Some s \<Rightarrow> JString s)"

definition ser_actor_attachment :: "actor_attachment \<Rightarrow> json" where
  "ser_actor_attachment a = JObject
     ([(''name'', JString (aat_name a)), (''type'', JString (aat_object_type a))] @
      ser_optional ''value'' (aat_value a) @ ser_optional ''href'' (aat_href a) @
      ser_optional ''signatureAlgorithm'' (aat_signature_algorithm a) @
      ser_optional ''signatureValue'' (aat_signature_value a))"

definition ser_public_key :: "db_actor_public_key \<Rightarrow> json" where
  "ser_public_key k = JObject
     [(''id'', JString (pk_id k)), (''owner'', JString (pk_owner k)),
      (''publicKeyPem'', JString (pk_public_key_pem k))]"

definition ser_actor_image :: "actor_image \<Rightarrow> json" where
  "ser_actor_image img = JObject
     [(''type'', JString (ai_object_type img)), (''url'', JString (ai_url img)),
      (''mediaType'', ser_option (ai_media_type img))]"

section \<open>Laws\<close>

text \<open>An extra field survives being attached, sent and parsed, up to its source text.\<close>

lemma de_ser_actor_attachment: "de_actor_attachment (ser_actor_attachment a) = Some a"
  by (cases a; cases "aat_value a"; cases "aat_href a"; cases "aat_signature_algorithm a";
      cases "aat_signature_value a")
    (simp_all add: de_actor_attachment_def ser_actor_attachment_def ser_optional_def
      de_required_def de_option_def)

lemma parse_attached_field:
  "parse_extra_field (attach_extra_field f) = Inr (f\<lparr>ef_value_source := None\<rparr>)"
  by (simp add: parse_extra_field_def attach_extra_field_def)

lemma parse_attachments_no_proofs: "fst (parse_attachments a) = []"
proof -
  have "fst acc = [] \<Longrightarrow> fst (fold (parse_actor_attachment i) vs acc) = []" for vs i acc
    by (induction vs arbitrary: acc)
      (auto simp: parse_actor_attachment_def parse_identity_proof_def push_ok_def Let_def
        split: prod.splits option.splits)
  then show ?thesis by (simp add: parse_attachments_def)
qed

end
