(* ===== verification/Fetchers.thy ===== *)
theory Fetchers
  imports Actors
begin

text \<open>
  Requests to other servers (\<open>activitypub/fetcher/fetchers.rs\<close>, the files of \<open>src/media.rs\<close>),
  the import of emojis (\<open>handle_emoji\<close>) and of actor profiles
  (\<open>activitypub/actors/helpers.rs\<close>, \<open>activitypub/fetcher/helpers.rs\<close>). Building the HTTP client,
  signing and sending a \<open>GET\<close> request are one question to the environment.
\<close>

section \<open>Files\<close>

definition supported_media_types :: "string list" where
  "supported_media_types =
     [''audio/mpeg'', ''audio/ogg'', ''audio/x-wav'', ''image/apng'', ''image/gif'', ''image/jpeg'',
      ''image/png'', ''image/webp'', ''video/mp4'', ''video/ogg'', ''video/webm'']"

definition get_file_name :: "environment \<Rightarrow> string \<Rightarrow> string option \<Rightarrow> string" where
  "get_file_name e file_data media_type =
     (let file_name = en_sha256_hex e file_data in
      case Option.bind media_type (en_extension e) of
        Some extension \<Rightarrow> file_name @ ''.'' @ extension
      | None \<Rightarrow> file_name)"

definition save_file :: "environment \<Rightarrow> string \<Rightarrow> string option \<Rightarrow> (fetch_error, string) app_m" where
  "save_file e file_data media_type =
     (let file_name = get_file_name e file_data media_type in
      bind (draw (\<lambda>n. en_write_file e n file_name file_data)) (\<lambda>written.
      if written then ret file_name else fail FileError))"

definition get_file_url :: "string \<Rightarrow> string \<Rightarrow> string" where
  "get_file_url instance_url file_name = instance_url @ ''/media/'' @ file_name"

section \<open>Requests\<close>

definition http_get :: "environment \<Rightarrow> string \<Rightarrow> (fetch_error, http_response) app_m" where
  "http_get e url =
     bind (draw (\<lambda>n. en_http_get e n url)) (\<lambda>answer.
     case answer of Inl err \<Rightarrow> fail err | Inr response \<Rightarrow> ret response)"

definition parsed :: "'a option \<Rightarrow> (fetch_error, 'a) app_m" where
  "parsed v = (case v of None \<Rightarrow> fail JsonParseError | Some x \<Rightarrow> ret x)"

definition fetch_json :: "environment \<Rightarrow> (json \<Rightarrow> 'a option) \<Rightarrow> string \<Rightarrow> (fetch_error, 'a) app_m" where
  "fetch_json e de url =
     bind (http_get e url) (\<lambda>response.
     parsed (Option.bind (en_parse_json e (hr_body response)) de))"

definition fetch_file ::
    "environment \<Rightarrow> string \<Rightarrow> string option \<Rightarrow> nat \<Rightarrow> (fetch_error, string \<times> nat \<times> string option) app_m"
where
  "fetch_file e url maybe_media_type file_max_size =
     bind (http_get e url) (\<lambda>response.
     if (case hr_content_length response of Some file_size \<Rightarrow> file_max_size < file_size | None \<Rightarrow> False)
     then fail FileTooLarge
     else
       let file_data = hr_body response; file_size = length file_data in
       if file_max_size < file_size then fail FileTooLarge
       else
         let sniffed = (case maybe_media_type of Some t \<Rightarrow> Some t | None \<Rightarrow> en_sniff_media_type e file_data);
           media_type = Option.bind sniffed (\<lambda>t. if t \<in> set supported_media_types then Some t else None)
         in bind (save_file e file_data media_type) (\<lambda>file_name.
            ret (file_name, file_size, media_type)))"

text \<open>\<open>utils/urls.rs\<close>\<close>

definition ends_with :: "string \<Rightarrow> string \<Rightarrow> bool" where
  "ends_with s suffix = (strip_prefix (rev suffix) (rev s) \<noteq> None)"

definition guess_protocol :: "environment \<Rightarrow> string \<Rightarrow> string" where
  "guess_protocol e hostname =
     (if hostname = ''localhost'' then ''http''
      else if en_is_ip_address e hostname then ''http''
      else if ends_with hostname ''.onion'' \<or> ends_with hostname ''.i2p'' then ''http''
      else ''https'')"

record jrd_link =
  jl_rel :: string
  jl_media_type :: "string option"
  jl_href :: "string option"
  jl_properties :: "(string \<times> string) list"

fun de_string_map :: "json \<Rightarrow> (string \<times> string) list option" where
  "de_string_map (JObject fs) =
     traverse (\<lambda>(name, v). map_option (Pair name) (json_string v)) fs"
| "de_string_map _ = None"

definition de_jrd_link :: "json \<Rightarrow> jrd_link option" where
  "de_jrd_link v =
     Option.bind (struct_view [''rel'', ''type'', ''href'', ''properties''] [''properties''] v) (\<lambda>field.
     Option.bind (de_required json_string (field ''rel'')) (\<lambda>rel.
     Option.bind (de_option json_string (field ''type'')) (\<lambda>media_type.
     Option.bind (de_option json_string (field ''href'')) (\<lambda>href.
     Option.bind (de_default [] de_string_map (field ''properties'')) (\<lambda>properties.
     Some \<lparr>jl_rel = rel, jl_media_type = media_type, jl_href = href,
       jl_properties = properties\<rparr>)))))"

text \<open>The links of a \<open>JsonResourceDescriptor\<close>; its subject must be there but is not used.\<close>

definition de_jrd :: "json \<Rightarrow> jrd_link list option" where
  "de_jrd v =
     Option.bind (struct_view [''subject'', ''links''] [] v) (\<lambda>field.
     Option.bind (de_required json_string (field ''subject'')) (\<lambda>_.
     Option.bind (de_required json_array (field ''links'')) (traverse de_jrd_link)))"

definition actor_link :: "jrd_link list \<Rightarrow> jrd_link option" where
  "actor_link links =
     (case find (\<lambda>l. jl_rel l = ''self'' \<and>
         map_of (jl_properties l) (AS_CONTEXT @ ''#type'') = Some ''Group'') links of
        Some link \<Rightarrow> Some link
      | None \<Rightarrow> find (\<lambda>l. jl_rel l = ''self'') links)"

definition perform_webfinger_query :: "environment \<Rightarrow> actor_address \<Rightarrow> (fetch_error, string) app_m" where
  "perform_webfinger_query e a =
     (let webfinger_account_uri = ''acct:'' @ address_to_string a;
        webfinger_url = guess_protocol e (aa_hostname a) @ ''://'' @ aa_hostname a @ ''/.well-known/webfinger''
      in
      bind (fetch_json e de_jrd (en_query_url e webfinger_url webfinger_account_uri)) (\<lambda>links.
      case actor_link links of
        None \<Rightarrow> fail (OtherError ''self link not found'')
      | Some link \<Rightarrow>
          (case jl_href link of
             None \<Rightarrow> fail (OtherError ''account href not found'')
           | Some actor_url \<Rightarrow> ret actor_url)))"

text \<open>An actor that names another identifier than the requested one only gets a warning in the log.\<close>

definition fetch_actor :: "environment \<Rightarrow> string \<Rightarrow> (fetch_error, actor) app_m" where
  "fetch_actor e actor_url = fetch_json e de_actor actor_url"

definition fetch_object :: "environment \<Rightarrow> string \<Rightarrow> (fetch_error, ap_object) app_m" where
  "fetch_object e object_url = fetch_json e (de_object e) object_url"

definition fetch_outbox :: "environment \<Rightarrow> string \<Rightarrow> nat \<Rightarrow> (fetch_error, json list) app_m" where
  "fetch_outbox e outbox_url limit =
     bind (fetch_json e (\<lambda>v. Option.bind (struct_view [''first''] [] v)
       (\<lambda>field. de_required json_string (field ''first''))) outbox_url) (\<lambda>first_page.
     bind (fetch_json e (\<lambda>v. Option.bind (struct_view [''orderedItems''] [] v)
       (\<lambda>field. de_required json_array (field ''orderedItems''))) first_page) (\<lambda>items.
     ret (take limit items)))"

text \<open>\<open>?\<close> on a fetch in a handler.\<close>

definition fetched :: "(fetch_error, 'a) app_m \<Rightarrow> 'a hm" where
  "fetched = map_failure FetchError"

section \<open>Emojis\<close>

definition trim_matches :: "char \<Rightarrow> string \<Rightarrow> string" where
  "trim_matches c s = rev (dropWhile (\<lambda>x. x = c) (rev (dropWhile (\<lambda>x. x = c) s)))"

text \<open>\<open>handle_emoji\<close>, first what it does once the identifier of a known emoji is clear.\<close>

definition store_emoji ::
    "environment \<Rightarrow> emoji_tag \<Rightarrow> string \<Rightarrow> uuid option \<Rightarrow> db_emoji option hm" where
  "store_emoji e tag emoji_name maybe_emoji_id =
     catching (fetch_file e (ti_url (et_icon tag)) (ti_media_type (et_icon tag)) (en_emoji_size_limit e))
       (\<lambda>_. ret None)
       (\<lambda>(file_name, file_size, maybe_media_type).
     case Option.bind maybe_media_type (\<lambda>t. if t \<in> set emoji_media_types then Some t else None) of
       None \<Rightarrow> ret None
     | Some media_type \<Rightarrow>
         let img = \<lparr>ei_file_name = file_name, ei_file_size = file_size, ei_media_type = media_type\<rparr> in
         case maybe_emoji_id of
           Some emoji_id \<Rightarrow>
             bind (from_db (update_emoji emoji_id img (et_updated tag))) (\<lambda>emoji. ret (Some emoji))
         | None \<Rightarrow>
             bind (require (en_url_host e (et_id tag)) (''invalid emoji tag ID: '' @ et_id tag)) (\<lambda>hostname.
             bind (draw (en_uuid e)) (\<lambda>emoji_id.
             db_match (create_emoji emoji_id emoji_name (Some hostname) img (Some (et_id tag)) (et_updated tag))
               (\<lambda>err. if is_already_exists err then ret None else fail (DatabaseError err))
               (\<lambda>emoji. ret (Some emoji)))))"

definition handle_emoji :: "environment \<Rightarrow> json \<Rightarrow> db_emoji option hm" where
  "handle_emoji e tag_value =
     (case de_emoji_tag e tag_value of
        None \<Rightarrow> ret None
      | Some tag \<Rightarrow>
          let emoji_name = trim_matches (CHR '':'') (et_name tag) in
          if \<not> is_ok (validate_emoji_name emoji_name) then ret None
          else
            db_match (get_emoji_by_remote_object_id (et_id tag))
              (\<lambda>err. if err = NotFound ''emoji'' then store_emoji e tag emoji_name None
                     else fail (DatabaseError err))
              (\<lambda>emoji.
                 if et_updated tag \<le> em_updated_at emoji then ret (Some emoji)
                 else if em_emoji_name emoji \<noteq> emoji_name then ret None
                 else store_emoji e tag emoji_name (Some (em_id emoji))))"

text \<open>The emoji tags of an actor or of a note: at most \<open>EMOJI_LIMIT\<close>, each emoji once.\<close>

definition push_emoji :: "environment \<Rightarrow> json \<Rightarrow> uuid list \<Rightarrow> uuid list hm" where
  "push_emoji e tag_value emojis =
     (if EMOJI_LIMIT \<le> length emojis then ret emojis
      else
        bind (handle_emoji e tag_value) (\<lambda>maybe_emoji.
        case maybe_emoji of
          None \<Rightarrow> ret emojis
        | Some emoji \<Rightarrow> ret (push_new (em_id emoji) emojis)))"

section \<open>Profiles of remote actors\<close>

definition ACTOR_IMAGE_MAX_SIZE :: nat where "ACTOR_IMAGE_MAX_SIZE = 5 * 1000 * 1000"

definition fetch_profile_image ::
    "environment \<Rightarrow> actor_image option \<Rightarrow> profile_image option \<Rightarrow> profile_image option hm" where
  "fetch_profile_image e maybe_image default_image =
     (case maybe_image of
        None \<Rightarrow> ret None
      | Some img \<Rightarrow>
          catching (fetch_file e (ai_url img) (ai_media_type img) ACTOR_IMAGE_MAX_SIZE)
            (\<lambda>_. ret default_image)
            (\<lambda>(file_name, file_size, maybe_media_type).
               ret (Some (profile_image_new file_name file_size maybe_media_type))))"

definition fetch_actor_images ::
    "environment \<Rightarrow> actor \<Rightarrow> profile_image option \<Rightarrow> profile_image option \<Rightarrow>
     (profile_image option \<times> profile_image option) hm" where
  "fetch_actor_images e a default_avatar default_banner =
     bind (fetch_profile_image e (ac_icon a) default_avatar) (\<lambda>maybe_avatar.
     bind (fetch_profile_image e (ac_image a) default_banner) (\<lambda>maybe_banner.
     ret (maybe_avatar, maybe_banner)))"

definition parse_aliases :: "environment \<Rightarrow> actor \<Rightarrow> string list validated" where
  "parse_aliases e a =
     (case ac_also_known_as a of
        None \<Rightarrow> Inr []
      | Some v \<Rightarrow>
          (case parse_array v of
             Inl Panic \<Rightarrow> Inl Panic
           | Inl (Error _) \<Rightarrow> Inr []
           | Inr actor_ids \<Rightarrow>
               Inr (filter (\<lambda>i. is_ok (validate_object_id (en_url_host e) i)) actor_ids)))"

definition parse_tags :: "environment \<Rightarrow> actor \<Rightarrow> uuid list hm" where
  "parse_tags e a =
     fold_m (\<lambda>tag_value emojis.
       if tag_type_of tag_value = ''Emoji'' then push_emoji e tag_value emojis else ret emojis)
       (ac_tag a) []"

definition create_remote_profile :: "environment \<Rightarrow> actor \<Rightarrow> db_actor_profile hm" where
  "create_remote_profile e a =
     bind (check (actor_address_of e a)) (\<lambda>address.
     if aa_hostname address = en_hostname e then fail LocalObject
     else
       bind (fetch_actor_images e a None None) (\<lambda>(maybe_avatar, maybe_banner).
       case parse_attachments a of (identity_proofs, payment_options, extra_fields) \<Rightarrow>
       bind (check (parse_aliases e a)) (\<lambda>aliases.
       bind (parse_tags e a) (\<lambda>emojis.
       bind (check (clean_profile_create_data e
         \<lparr>pc_username = ac_preferred_username a, pc_hostname = Some (aa_hostname address),
          pc_display_name = ac_name a, pc_bio = ac_summary a, pc_avatar = maybe_avatar,
          pc_banner = maybe_banner,
          pc_manually_approves_followers = ac_manually_approves_followers a,
          pc_identity_proofs = identity_proofs, pc_payment_options = payment_options,
          pc_extra_fields = extra_fields, pc_aliases = aliases, pc_emojis = emojis,
          pc_actor_json = Some (into_db_actor a)\<rparr>)) (\<lambda>profile_data.
       bind (draw (en_uuid e)) (\<lambda>profile_id.
       bind (draw (en_now e)) (\<lambda>now.
       from_db (create_profile profile_id now profile_data))))))))"

definition update_remote_profile :: "environment \<Rightarrow> db_actor_profile \<Rightarrow> actor \<Rightarrow> db_actor_profile hm" where
  "update_remote_profile e profile a =
     (case ap_actor_json profile of
        None \<Rightarrow> fail LocalObject
      | Some actor_old \<Rightarrow>
          bind (fetch_actor_images e a (ap_avatar profile) (ap_banner profile)) (\<lambda>(maybe_avatar, maybe_banner).
          case parse_attachments a of (identity_proofs, payment_options, extra_fields) \<Rightarrow>
          bind (check (parse_aliases e a)) (\<lambda>aliases.
          bind (parse_tags e a) (\<lambda>emojis.
          bind (check (clean_profile_update_data e
            \<lparr>pu_display_name = ac_name a, pu_bio = ac_summary a, pu_bio_source = ac_summary a,
             pu_avatar = maybe_avatar, pu_banner = maybe_banner,
             pu_manually_approves_followers = ac_manually_approves_followers a,
             pu_identity_proofs = identity_proofs, pu_payment_options = payment_options,
             pu_extra_fields = extra_fields, pu_aliases = aliases, pu_emojis = emojis,
             pu_actor_json = Some (into_db_actor a)\<rparr>)) (\<lambda>profile_data.
          bind (draw (en_now e)) (\<lambda>now.
          from_db (update_profile now (ap_id profile) profile_data)))))))"

text \<open>Only a prefix of the identifier is compared with the URL of the instance.\<close>

definition starts_with :: "string \<Rightarrow> string \<Rightarrow> bool" where
  "starts_with s prefix = (strip_prefix prefix s \<noteq> None)"

definition get_or_import_profile_by_actor_id :: "environment \<Rightarrow> string \<Rightarrow> db_actor_profile hm" where
  "get_or_import_profile_by_actor_id e actor_id =
     (if starts_with actor_id (en_instance_url e) then fail LocalObject
      else
        db_match (get_profile_by_remote_actor_id actor_id)
          (\<lambda>err. if is_not_found err then
               bind (fetched (fetch_actor e actor_id)) (\<lambda>a.
               bind (check (actor_address_of e a)) (\<lambda>address.
               db_match (get_profile_by_acct (address_acct (en_hostname e) address))
                 (\<lambda>err. if is_not_found err then create_remote_profile e a else fail (DatabaseError err))
                 (\<lambda>profile. update_remote_profile e profile a)))
             else fail (DatabaseError err))
          (\<lambda>profile.
             bind (draw (en_now e)) (\<lambda>now.
             if possibly_outdated now profile then
               catching (fetch_actor e actor_id)
                 (\<lambda>_. ret profile)
                 (\<lambda>a. update_remote_profile e profile a)
             else ret profile)))"

definition import_profile_by_actor_address :: "environment \<Rightarrow> actor_address \<Rightarrow> db_actor_profile hm" where
  "import_profile_by_actor_address e address =
     (if aa_hostname address = en_hostname e then fail LocalObject
      else
        bind (fetched (perform_webfinger_query e address)) (\<lambda>actor_id.
        bind (fetched (fetch_actor e actor_id)) (\<lambda>a.
        bind (check (actor_address_of e a)) (\<lambda>actual.
        let profile_acct = address_acct (en_hostname e) actual in
        if profile_acct \<noteq> address_acct (en_hostname e) address then
          db_match (get_profile_by_acct profile_acct)
            (\<lambda>err. if is_not_found err then create_remote_profile e a else fail (DatabaseError err))
            ret
        else create_remote_profile e a))))"

definition get_or_import_profile_by_actor_address ::
    "environment \<Rightarrow> actor_address \<Rightarrow> db_actor_profile hm" where
  "get_or_import_profile_by_actor_address e address =
     db_match (get_profile_by_acct (address_acct (en_hostname e) address))
       (\<lambda>err. if is_not_found err then
            if aa_hostname address = en_hostname e then fail (DatabaseError err)
            else import_profile_by_actor_address e address
          else fail (DatabaseError err))
       ret"

definition get_post_by_object_id :: "environment \<Rightarrow> string \<Rightarrow> post dbm" where
  "get_post_by_object_id e object_id =
     (case parse_local_object_id (en_parse_uuid e) (en_instance_url e) object_id of
        Inr post_id \<Rightarrow> get_local_post_by_id post_id
      | Inl _ \<Rightarrow> get_post_by_remote_object_id object_id)"

end
