(* ===== verification/Movies.thy ===== *)
theory Movies
  imports Fetchers
begin

text \<open>
  Accounts of movies (\<open>src/tmdb/service.rs\<close>): a mention of a local account that does not exist
  creates it, when its name is the title and year of a movie that the movie database knows.
  Floating point fields are read as numbers and not used.
\<close>

section \<open>Values\<close>

record movie_info =
  mi_poster_path :: "string option"
  mi_adult :: bool
  mi_overview :: string
  mi_release_date :: string
  mi_id :: nat
  mi_original_title :: string
  mi_original_language :: string
  mi_title :: string
  mi_backdrop_path :: "string option"
  mi_popularity :: int
  mi_vote_count :: nat
  mi_video :: bool
  mi_vote_average :: int

datatype movie_error = MovieNotFound string | NotMovie | UserCreationError

fun json_number :: "json \<Rightarrow> int option" where
  "json_number (JNumber n) = Some n"
| "json_number _ = None"

definition movie_fields :: "string list" where
  "movie_fields =
     [''poster_path'', ''adult'', ''overview'', ''release_date'', ''id'', ''original_title'',
      ''original_language'', ''title'', ''backdrop_path'', ''popularity'', ''vote_count'', ''video'',
      ''vote_average'']"

definition de_movie_info :: "json \<Rightarrow> movie_info option" where
  "de_movie_info v =
     Option.bind (struct_view movie_fields [] v) (\<lambda>field.
     Option.bind (de_option json_string (field ''poster_path'')) (\<lambda>poster_path.
     Option.bind (de_required json_bool (field ''adult'')) (\<lambda>adult.
     Option.bind (de_required json_string (field ''overview'')) (\<lambda>overview.
     Option.bind (de_required json_string (field ''release_date'')) (\<lambda>release_date.
     Option.bind (de_required json_u32 (field ''id'')) (\<lambda>i.
     Option.bind (de_required json_string (field ''original_title'')) (\<lambda>original_title.
     Option.bind (de_required json_string (field ''original_language'')) (\<lambda>original_language.
     Option.bind (de_required json_string (field ''title'')) (\<lambda>title.
     Option.bind (de_option json_string (field ''backdrop_path'')) (\<lambda>backdrop_path.
     Option.bind (de_required json_number (field ''popularity'')) (\<lambda>popularity.
     Option.bind (de_required json_u32 (field ''vote_count'')) (\<lambda>vote_count.
     Option.bind (de_required json_bool (field ''video'')) (\<lambda>video.
     Option.bind (de_required json_number (field ''vote_average'')) (\<lambda>vote_average.
     Some \<lparr>mi_poster_path = poster_path, mi_adult = adult, mi_overview = overview,
       mi_release_date = release_date, mi_id = i, mi_original_title = original_title,
       mi_original_language = original_language, mi_title = title,
       mi_backdrop_path = backdrop_path, mi_popularity = popularity,
       mi_vote_count = vote_count, mi_video = video, mi_vote_average = vote_average\<rparr>))))))))))))))"

definition de_movie_search :: "json \<Rightarrow> movie_info list option" where
  "de_movie_search v =
     Option.bind (struct_view [''page'', ''results'', ''total_results'', ''total_pages''] [] v) (\<lambda>field.
     Option.bind (de_required json_u32 (field ''page'')) (\<lambda>_.
     Option.bind (Option.bind (de_required json_array (field ''results'')) (traverse de_movie_info)) (\<lambda>results.
     Option.bind (de_required json_u32 (field ''total_results'')) (\<lambda>_.
     Option.bind (de_required json_u32 (field ''total_pages'')) (\<lambda>_.
     Some results)))))"

section \<open>Names\<close>

fun show_nat :: "nat \<Rightarrow> string" where
  "show_nat n =
     (if n < 10 then [char_of (48 + n)] else show_nat (n div 10) @ [char_of (48 + n mod 10)])"

declare show_nat.simps [simp del]

text \<open>\<open>rsplit_once\<close>: the parts before and after the last separator.\<close>

definition rsplit_once :: "char \<Rightarrow> string \<Rightarrow> (string \<times> string) option" where
  "rsplit_once c s =
     (let tail_rev = takeWhile (\<lambda>x. x \<noteq> c) (rev s); rest = dropWhile (\<lambda>x. x \<noteq> c) (rev s) in
      if rest = [] then None else Some (rev (List.tl rest), rev tail_rev))"

fun words_of :: "environment \<Rightarrow> string list \<Rightarrow> string list \<Rightarrow> string list list" where
  "words_of e cur [] = (if cur = [] then [] else [cur])"
| "words_of e cur (c # cs) =
     (if en_is_whitespace e c then (if cur = [] then words_of e [] cs else cur # words_of e [] cs)
      else words_of e (cur @ [c]) cs)"

fun capitalize :: "environment \<Rightarrow> string list \<Rightarrow> string" where
  "capitalize e [] = []"
| "capitalize e (c # cs) = en_uppercase e c @ concat cs"

definition movie_username :: "environment \<Rightarrow> movie_info \<Rightarrow> string" where
  "movie_username e m =
     (let title = filter (\<lambda>c. en_is_alphanumeric e c \<or> en_is_whitespace e c) (en_chars e (mi_title m))
      in concat (map (capitalize e) (words_of e [] title)) @ ''_'' @
         takeWhile (\<lambda>c. c \<noteq> CHR ''-'') (mi_release_date m))"

definition poster_url :: "movie_info \<Rightarrow> string option" where
  "poster_url m = map_option (\<lambda>path. ''https://image.tmdb.org/t/p/w185'' @ path) (mi_poster_path m)"

definition background_url :: "movie_info \<Rightarrow> string option" where
  "background_url m = map_option (\<lambda>path. ''https://image.tmdb.org/t/p/w780'' @ path) (mi_backdrop_path m)"

definition movie_url :: "movie_info \<Rightarrow> string" where
  "movie_url m = ''https://www.themoviedb.org/movie/'' @ show_nat (mi_id m)"

section \<open>Looking up and creating an account\<close>

text \<open>The title with a space before each capital letter.\<close>

definition spaced_title :: "environment \<Rightarrow> string \<Rightarrow> string" where
  "spaced_title e name =
     en_trim e (concat (map (\<lambda>c. if en_is_uppercase e c then '' '' @ c else c) (en_chars e name)))"

definition get_movie_info :: "environment \<Rightarrow> string \<Rightarrow> string \<Rightarrow> nat \<Rightarrow> (movie_error, movie_info) app_m" where
  "get_movie_info e api_key name year =
     (let url = ''https://api.themoviedb.org/3/search/movie?api_key='' @ api_key @ ''&query='' @
        spaced_title e name @ ''&year='' @ show_nat year @ ''&include_adult=false&language=en-US'' in
      bind (draw (\<lambda>n. en_http_any e n url)) (\<lambda>answer.
      case answer of
        None \<Rightarrow> fail (MovieNotFound ''sending request'')
      | Some response \<Rightarrow>
          (case Option.bind (en_parse_json e (hr_body response)) de_movie_search of
             None \<Rightarrow> fail (MovieNotFound ''error parsing result from TMDB API'')
           | Some [] \<Rightarrow> fail (MovieNotFound ''movie not found in TMDB API'')
           | Some (m # _) \<Rightarrow>
               if starts_with (movie_username e m) name \<and>
                 starts_with (mi_release_date m) (show_nat year) \<and> \<not> mi_adult m
               then ret m
               else fail (MovieNotFound ''does not movie match any movie found in TMDB API''))))"

definition fetch_movie_image :: "environment \<Rightarrow> string option \<Rightarrow> (movie_error, profile_image option) app_m" where
  "fetch_movie_image e url =
     (case url of
        None \<Rightarrow> ret None
      | Some u \<Rightarrow>
          catching (fetch_file e u None ACTOR_IMAGE_MAX_SIZE)
            (\<lambda>_. ret None)
            (\<lambda>(file_name, file_size, maybe_media_type).
               ret (Some (profile_image_new file_name file_size maybe_media_type))))"

definition movie_profile_data ::
    "environment \<Rightarrow> movie_info \<Rightarrow> user \<Rightarrow> profile_image option \<Rightarrow> profile_image option \<Rightarrow> profile_update_data"
where
  "movie_profile_data e m u avatar banner =
     (profile_update_data_from (us_profile u))
       \<lparr>pu_extra_fields :=
          [\<lparr>ef_name = ''TMDB Profile'',
            ef_value = (case en_markdown_basic e (movie_url m) of Some html \<Rightarrow> html | None \<Rightarrow> movie_url m),
            ef_value_source = Some (movie_url m)\<rparr>],
        pu_bio := Some (mi_overview m), pu_display_name := Some (mi_title m),
        pu_avatar := avatar, pu_banner := banner\<rparr>"

definition or_creation_error :: "'a option \<Rightarrow> (movie_error, 'a) app_m" where
  "or_creation_error v = (case v of None \<Rightarrow> fail UserCreationError | Some x \<Rightarrow> ret x)"

definition create_movie_user :: "environment \<Rightarrow> movie_info \<Rightarrow> string \<Rightarrow> (movie_error, user) app_m" where
  "create_movie_user e m password =
     (let username = movie_username e m in
      if \<not> is_ok (validate_local_username username) then fail UserCreationError
      else
        bind (draw (\<lambda>n. en_password_hash e n password)) (\<lambda>maybe_hash.
        bind (or_creation_error maybe_hash) (\<lambda>password_hash.
        bind (draw (en_rsa_key_pem e)) (\<lambda>maybe_key.
        bind (or_creation_error maybe_key) (\<lambda>private_key_pem.
        bind (draw (en_uuid e)) (\<lambda>user_id.
        bind (draw (en_now e)) (\<lambda>now.
        or_panic (create_user user_id now
          \<lparr>uc_username = username, uc_password_hash = Some password_hash,
           uc_private_key_pem = private_key_pem, uc_wallet_address = None, uc_invite_code = None,
           uc_role = NormalUser\<rparr>) (\<lambda>m'.
        bind (db_call (\<lambda>_. UserCreationError) m') (\<lambda>u.
        bind (fetch_movie_image e (poster_url m)) (\<lambda>avatar.
        bind (fetch_movie_image e (background_url m)) (\<lambda>banner.
        bind (draw (en_now e)) (\<lambda>now.
        bind (db_call (\<lambda>_. UserCreationError)
          (update_profile now (us_id u) (movie_profile_data e m u avatar banner))) (\<lambda>profile.
        ret (u\<lparr>us_profile := profile\<rparr>))))))))))))))"

definition lookup_and_create_movie_user ::
    "environment \<Rightarrow> string \<Rightarrow> string \<Rightarrow> (movie_error, user) app_m" where
  "lookup_and_create_movie_user e api_key username =
     (case rsplit_once (CHR ''_'') username of
        None \<Rightarrow> fail NotMovie
      | Some (movie_title, year_text) \<Rightarrow>
          (case parse_u32 year_text of
             None \<Rightarrow> fail NotMovie
           | Some year \<Rightarrow>
               bind (get_movie_info e api_key movie_title year) (\<lambda>m.
               bind (case en_movie_user_password e of
                       Some password \<Rightarrow> ret password
                     | None \<Rightarrow> draw (en_secret e)) (\<lambda>password.
               create_movie_user e m password))))"

end
