(* ===== verification/Import.thy ===== *)
theory Import
  imports Movies
begin

text \<open>
  Import of notes: attachments, tags and the note itself (\<open>activitypub/handlers/create.rs\<close>) and
  \<open>import_post\<close>, which fetches what a note answers and links to
  (\<open>activitypub/fetcher/helpers.rs\<close>). The loop of \<open>import_post\<close> is a function with a termination
  proof.
\<close>

section \<open>Attachments\<close>

fun download_attachments ::
    "environment \<Rightarrow> string \<Rightarrow> ap_attachment list \<Rightarrow> (string \<times> nat \<times> string option) list \<Rightarrow> string list \<Rightarrow>
     ((string \<times> nat \<times> string option) list \<times> string list) hm"
where
  "download_attachments e author_id [] downloaded unprocessed = ret (downloaded, unprocessed)"
| "download_attachments e author_id (attachment # attachments) downloaded unprocessed =
     (if at_attachment_type attachment \<notin> set [''Document'', ''Image'', ''Video'']
      then download_attachments e author_id attachments downloaded unprocessed
      else if is_gnu_social_link author_id attachment
      then download_attachments e author_id attachments downloaded unprocessed
      else
        bind (require (at_url attachment) ''attachment URL is missing'') (\<lambda>attachment_url.
        catching (fetch_file e attachment_url (at_media_type attachment) (en_file_size_limit e))
          (\<lambda>err. if err = FileTooLarge
             then download_attachments e author_id attachments downloaded (unprocessed @ [attachment_url])
             else invalid_data (''failed to fetch attachment: '' @ en_show_fetch_error e err))
          (\<lambda>file.
             if ATTACHMENT_LIMIT \<le> length (downloaded @ [file])
             then ret (downloaded @ [file], unprocessed)
             else download_attachments e author_id attachments (downloaded @ [file]) unprocessed)))"

definition get_object_attachments ::
    "environment \<Rightarrow> ap_object \<Rightarrow> db_actor_profile \<Rightarrow> (uuid list \<times> string list) hm" where
  "get_object_attachments e obj author =
     (case ob_attachment obj of
        None \<Rightarrow> ret ([], [])
      | Some v \<Rightarrow>
          bind (require (parse_property_value de_attachment v)
            (''invalid attachment property: '' @ en_show_json e v)) (\<lambda>attachments.
          bind (download_attachments e (profile_actor_id (en_instance_url e) author) attachments [] [])
            (\<lambda>(downloaded, unprocessed).
          bind (collect downloaded (\<lambda>(file_name, file_size, maybe_media_type).
            bind (draw (en_now e)) (\<lambda>now.
            bind (draw (en_uuid e)) (\<lambda>attachment_id.
            or_panic (create_attachment now attachment_id (ap_id author) file_name file_size maybe_media_type)
              (\<lambda>m. bind (from_db m) (\<lambda>db_attachment. ret (ma_id db_attachment))))))) (\<lambda>attachment_ids.
          ret (attachment_ids, unprocessed)))))"

section \<open>Tags\<close>

text \<open>The account of a local actor; a movie account is created when it is mentioned.\<close>

definition mentioned_user :: "environment \<Rightarrow> string \<Rightarrow> user hm" where
  "mentioned_user e username =
     db_match (get_user_by_name username)
       (\<lambda>err. if is_not_found err then
            (case en_tmdb_api_key e of
               Some api_key \<Rightarrow>
                 catching (lookup_and_create_movie_user e api_key username) (\<lambda>_. fail LocalObject) ret
             | None \<Rightarrow> fail LocalObject)
          else fail (DatabaseError err))
       ret"

text \<open>\<open>None\<close> when the actor cannot be found by its identifier and its address is tried.\<close>

definition mention_by_id :: "environment \<Rightarrow> string \<Rightarrow> uuid option hm" where
  "mention_by_id e href =
     (case parse_local_actor_id (en_instance_url e) href of
        Inr username \<Rightarrow> bind (mentioned_user e username) (\<lambda>u. ret (Some (us_id u)))
      | Inl _ \<Rightarrow>
          catching (get_or_import_profile_by_actor_id e href)
            (\<lambda>_. ret None)
            (\<lambda>profile. ret (Some (ap_id profile))))"

definition mention_by_address :: "environment \<Rightarrow> string option \<Rightarrow> uuid option hm" where
  "mention_by_address e maybe_name =
     (case maybe_name of
        None \<Rightarrow> ret None
      | Some name \<Rightarrow>
          (case address_from_mention (en_word_chars e) name of
             Inl _ \<Rightarrow> ret None
           | Inr address \<Rightarrow>
               catching (get_or_import_profile_by_actor_address e address)
                 (\<lambda>err. case err of
                    FetchError _ \<Rightarrow> ret None
                  | DatabaseError (NotFound _) \<Rightarrow> ret None
                  | _ \<Rightarrow> fail err)
                 (\<lambda>profile. ret (Some (ap_id profile)))))"

definition find_mentioned :: "environment \<Rightarrow> ap_tag \<Rightarrow> uuid option hm" where
  "find_mentioned e tag =
     bind (case tag_href tag of None \<Rightarrow> ret None | Some href \<Rightarrow> mention_by_id e href) (\<lambda>found.
     case found of Some i \<Rightarrow> ret (Some i) | None \<Rightarrow> mention_by_address e (tag_name tag))"

record note_tags =
  nt_mentions :: "uuid list"
  nt_hashtags :: "string list"
  nt_links :: "uuid list"
  nt_emojis :: "uuid list"

definition redirected :: "(string \<times> string) list \<Rightarrow> string \<Rightarrow> string" where
  "redirected redirects object_id =
     (case map_of redirects object_id of Some target \<Rightarrow> target | None \<Rightarrow> object_id)"

definition push_linked_post :: "environment \<Rightarrow> string \<Rightarrow> uuid list \<Rightarrow> uuid list hm" where
  "push_linked_post e object_id links =
     bind (from_db (get_post_by_object_id e object_id)) (\<lambda>linked.
     ret (push_new (pd_id (data_of linked)) links))"

definition push_hashtag :: "environment \<Rightarrow> json \<Rightarrow> string list \<Rightarrow> string list" where
  "push_hashtag e tag_value hashtags =
     (case Option.bind (de_tag tag_value) tag_name of
        None \<Rightarrow> hashtags
      | Some name \<Rightarrow>
          (case normalize_hashtag e name of
             Inl _ \<Rightarrow> hashtags
           | Inr normalized \<Rightarrow> push_new normalized hashtags))"

definition push_mention :: "environment \<Rightarrow> json \<Rightarrow> uuid list \<Rightarrow> uuid list hm" where
  "push_mention e tag_value mentions =
     (if MENTION_LIMIT \<le> length mentions then ret mentions
      else
        (case de_tag tag_value of
           None \<Rightarrow> ret mentions
         | Some tag \<Rightarrow>
             bind (find_mentioned e tag) (\<lambda>found.
             case found of None \<Rightarrow> ret mentions | Some i \<Rightarrow> ret (push_new i mentions))))"

definition push_object_link ::
    "environment \<Rightarrow> (string \<times> string) list \<Rightarrow> json \<Rightarrow> uuid list \<Rightarrow> uuid list hm" where
  "push_object_link e redirects tag_value links =
     (if LINK_LIMIT \<le> length links then ret links
      else
        (case de_link_tag tag_value of
           None \<Rightarrow> ret links
         | Some tag \<Rightarrow>
             if lt_media_type tag \<noteq> AP_MEDIA_TYPE \<and> lt_media_type tag \<noteq> AS_MEDIA_TYPE then ret links
             else push_linked_post e (redirected redirects (lt_href tag)) links))"

definition push_tag :: "environment \<Rightarrow> (string \<times> string) list \<Rightarrow> json \<Rightarrow> note_tags \<Rightarrow> note_tags hm" where
  "push_tag e redirects tag_value tags =
     (let tag_type = tag_type_of tag_value in
      if tag_type = ''Hashtag'' then
        ret (tags\<lparr>nt_hashtags := push_hashtag e tag_value (nt_hashtags tags)\<rparr>)
      else if tag_type = ''Mention'' then
        bind (push_mention e tag_value (nt_mentions tags)) (\<lambda>mentions. ret (tags\<lparr>nt_mentions := mentions\<rparr>))
      else if tag_type = ''Link'' then
        bind (push_object_link e redirects tag_value (nt_links tags)) (\<lambda>links. ret (tags\<lparr>nt_links := links\<rparr>))
      else if tag_type = ''Emoji'' then
        bind (push_emoji e tag_value (nt_emojis tags)) (\<lambda>emojis. ret (tags\<lparr>nt_emojis := emojis\<rparr>))
      else ret tags)"

definition get_object_tags :: "environment \<Rightarrow> ap_object \<Rightarrow> (string \<times> string) list \<Rightarrow> note_tags hm" where
  "get_object_tags e obj redirects =
     bind (fold_m (push_tag e redirects) (ob_tag obj)
       \<lparr>nt_mentions = [], nt_hashtags = [], nt_links = [], nt_emojis = []\<rparr>) (\<lambda>tags.
     case ob_quote_url obj of
       None \<Rightarrow> ret tags
     | Some object_id \<Rightarrow>
         bind (push_linked_post e (redirected redirects object_id) (nt_links tags)) (\<lambda>links.
         ret (tags\<lparr>nt_links := links\<rparr>)))"

section \<open>Notes\<close>

text \<open>Content, with links to the object and to the attachments that were too large.\<close>

definition note_content :: "environment \<Rightarrow> ap_object \<Rightarrow> string validated" where
  "note_content e obj =
     and_then (get_object_content e obj) (\<lambda>content.
     if ob_object_type obj \<noteq> ''Note'' then
       and_then (get_object_url obj) (\<lambda>object_url. Inr (content @ create_content_link object_url))
     else Inr content)"

text \<open>The end of \<open>handle_note\<close>: the parent is looked up and the post is saved.\<close>

definition note_parent :: "environment \<Rightarrow> ap_object \<Rightarrow> (string \<times> string) list \<Rightarrow> uuid option hm" where
  "note_parent e obj redirects =
     (case ob_in_reply_to obj of
        None \<Rightarrow> ret None
      | Some object_id \<Rightarrow>
          bind (from_db (get_post_by_object_id e (redirected redirects object_id))) (\<lambda>in_reply_to.
          ret (Some (pd_id (data_of in_reply_to)))))"

definition save_note ::
    "environment \<Rightarrow> ap_object \<Rightarrow> db_actor_profile \<Rightarrow> string \<Rightarrow> uuid list \<Rightarrow> note_tags \<Rightarrow> uuid option \<Rightarrow>
     post hm" where
  "save_note e obj author content attachments tags in_reply_to_id =
     bind (check (get_audience obj)) (\<lambda>audience.
     bind (check (get_object_visibility author audience)) (\<lambda>visibility.
     bind (case ob_published obj of None \<Rightarrow> draw (en_now e) | Some t \<Rightarrow> ret t) (\<lambda>created_at.
     bind (draw (en_uuid e)) (\<lambda>post_id.
     bind (draw (en_now e)) (\<lambda>now.
     from_db (create_post now post_id (ap_id author)
       \<lparr>pcd_content = content, pcd_in_reply_to_id = in_reply_to_id, pcd_repost_of_id = None,
        pcd_visibility = visibility,
        pcd_is_sensitive = (case ob_sensitive obj of Some b \<Rightarrow> b | None \<Rightarrow> False),
        pcd_attachments = attachments, pcd_mentions = nt_mentions tags,
        pcd_tags = nt_hashtags tags, pcd_links = nt_links tags, pcd_emojis = nt_emojis tags,
        pcd_object_id = Some (ob_id obj), pcd_created_at = created_at\<rparr>))))))"

definition note_types :: "string list" where
  "note_types = [''Note'', ''Article'', ''Event'', ''Question'', ''Page'', ''Video'']"

definition handle_note :: "environment \<Rightarrow> (string \<times> string) list \<Rightarrow> ap_object \<Rightarrow> post hm" where
  "handle_note e redirects obj =
     (if ob_object_type obj \<notin> set note_types
      then invalid_data (''discarding object of type '' @ ob_object_type obj)
      else if OBJECT_ID_SIZE_MAX < length (ob_id obj)
      then invalid_data (''object ID is too long, '' @ show_nat (length (ob_id obj)) @ '' of length'')
      else
        bind (check (get_object_attributed_to obj)) (\<lambda>author_id.
        bind (get_or_import_profile_by_actor_id e author_id) (\<lambda>author.
        bind (check (note_content e obj)) (\<lambda>content.
        bind (get_object_attachments e obj author) (\<lambda>(attachments, unprocessed).
        let content = content @ concat (map create_content_link unprocessed) in
        if content = [] \<and> attachments = []
        then invalid_data ''post is empty (content=true, attachments=true)''
        else
          bind (get_object_tags e obj redirects) (\<lambda>tags.
          bind (note_parent e obj redirects) (\<lambda>in_reply_to_id.
          save_note e obj author content attachments tags in_reply_to_id)))))))"

section \<open>Import of a post with what it refers to\<close>

definition RECURSION_DEPTH_MAX :: nat where "RECURSION_DEPTH_MAX = 50"

datatype queued = Known | Initial_Known post | Unknown

definition look_up_queued :: "environment \<Rightarrow> string \<Rightarrow> ap_object list \<Rightarrow> queued hm" where
  "look_up_queued e object_id objects =
     (if list_ex (\<lambda>obj. ob_id obj = object_id) objects then ret Known
      else
        (case parse_local_object_id (en_parse_uuid e) (en_instance_url e) object_id of
           Inr post_id \<Rightarrow> bind (from_db (get_local_post_by_id post_id)) (\<lambda>_. ret Known)
         | Inl _ \<Rightarrow>
             db_match (get_post_by_remote_object_id object_id)
               (\<lambda>err. if is_not_found err then ret Unknown else fail (DatabaseError err))
               (\<lambda>post. if objects = [] then ret (Initial_Known post) else ret Known)))"

text \<open>
  The loop. The head of \<open>queue\<close> is popped next; links go to its end. \<open>held\<close> is \<open>maybe_object\<close>: an
  object that was received or fetched and not yet taken in. The result is the post of the first
  identifier when it is known, or the objects in the order they were taken in, with the redirects.
\<close>

lemma bind_cong [fundef_cong]: "m = n \<Longrightarrow> (\<And>x. f x = g x) \<Longrightarrow> bind m f = bind n g"
  by (metis ext)

function import_loop ::
    "environment \<Rightarrow> string list \<Rightarrow> nat \<Rightarrow> ap_object option \<Rightarrow> ap_object list \<Rightarrow> (string \<times> string) list \<Rightarrow>
     (post + ap_object list \<times> (string \<times> string) list) hm" where
  "import_loop e [] fetch_count held objects redirects = ret (Inr (objects, redirects))"
| "import_loop e (object_id # queue) fetch_count held objects redirects =
     bind (look_up_queued e object_id objects) (\<lambda>known.
     case known of
       Known \<Rightarrow> import_loop e queue fetch_count held objects redirects
     | Initial_Known post \<Rightarrow> ret (Inl post)
     | Unknown \<Rightarrow>
         (case held of
            Some obj \<Rightarrow>
              if ob_id obj \<noteq> object_id
              then import_loop e (ob_id obj # queue) fetch_count (Some obj) objects
                     ((object_id, ob_id obj) # redirects)
              else import_loop e (opt_list (ob_in_reply_to obj) @ queue @ get_object_links obj)
                     fetch_count None (objects @ [obj]) redirects
          | None \<Rightarrow>
              if RECURSION_DEPTH_MAX \<le> fetch_count then fail (FetchError RecursionError)
              else
                bind (map_failure (\<lambda>_. ValidationError ''failed to fetch object'')
                  (fetch_object e object_id)) (\<lambda>obj.
                if ob_id obj \<noteq> object_id
                then import_loop e (ob_id obj # queue) (fetch_count + 1) (Some obj) objects
                       ((object_id, ob_id obj) # redirects)
                else import_loop e (opt_list (ob_in_reply_to obj) @ queue @ get_object_links obj)
                       (fetch_count + 1) None (objects @ [obj]) redirects)))"
  by pat_completeness auto

text \<open>
  Each fetch counts; taking in a held object frees it; otherwise the queue gets shorter, except
  that a redirect puts the identifier of the held object on top once.
\<close>

fun unmatched :: "string list \<Rightarrow> ap_object option \<Rightarrow> nat" where
  "unmatched (object_id # _) (Some obj) = (if ob_id obj = object_id then 0 else 1)"
| "unmatched _ _ = 0"

lemma unmatched_le: "unmatched queue held \<le> 1"
  by (cases "(queue, held)" rule: unmatched.cases) auto

lemma unmatched_less: "unmatched queue held < Suc (Suc n)"
  using unmatched_le [of queue held] by simp

termination import_loop
  by (relation "measures
      [\<lambda>(e, queue, fetch_count, held, objects, redirects). RECURSION_DEPTH_MAX - fetch_count,
       \<lambda>(e, queue, fetch_count, held, objects, redirects). if held = None then 0 else 1,
       \<lambda>(e, queue, fetch_count, held, objects, redirects). 2 * length queue + unmatched queue held]")
    (auto simp: unmatched_less split: if_splits)

declare import_loop.simps [simp del]

definition import_post :: "environment \<Rightarrow> string \<Rightarrow> ap_object option \<Rightarrow> post hm" where
  "import_post e object_id object_received =
     (if is_ok (parse_local_object_id (en_parse_uuid e) (en_instance_url e) object_id)
      then fail LocalObject
      else
        bind (import_loop e [object_id] 0 object_received [] []) (\<lambda>outcome.
        case outcome of
          Inl post \<Rightarrow> ret post
        | Inr ([], redirects) \<Rightarrow> panic
        | Inr (initial # objects, redirects) \<Rightarrow>
            bind (collect (rev (initial # objects)) (handle_note e redirects)) (\<lambda>posts.
            case find (\<lambda>post. pd_object_id (data_of post) = Some (ob_id initial)) posts of
              None \<Rightarrow> panic
            | Some initial_post \<Rightarrow> ret initial_post)))"

end
