(* ===== verification/Builders.thy ===== *)
theory Builders
  imports Fetchers
begin

text \<open>
  Activities of local actors: actor documents (\<open>activitypub/actors/types.rs\<close>), the builders
  (\<open>activitypub/builders\<close>) and the outgoing queue entry of an activity
  (\<open>activitypub/deliverer.rs\<close>). A builder returns the JSON value that the derived serializer makes of
  its struct. Assertions and \<open>expect\<close> are panics: \<open>None\<close>.
\<close>

section \<open>Outgoing activities\<close>

record outgoing_activity =
  oact_sender :: user
  oact_activity :: json
  oact_recipients :: "recipient list"

definition outgoing_activity_new :: "user \<Rightarrow> json \<Rightarrow> db_actor list \<Rightarrow> outgoing_activity" where
  "outgoing_activity_new sender activity recipients =
     \<lparr>oact_sender = sender, oact_activity = activity, oact_recipients = recipients_new recipients\<rparr>"

definition enqueue :: "environment \<Rightarrow> outgoing_activity \<Rightarrow> (db_error, unit) app_m" where
  "enqueue e out =
     bind (draw (en_uuid e)) (\<lambda>job_id.
     bind (draw (en_now e)) (\<lambda>now.
     db_call id (enqueue_activity (en_show_uuid e) job_id now (oact_activity out)
       (us_id (oact_sender out)) (oact_recipients out))))"

text \<open>The actors among profiles that are remote.\<close>

definition remote_actors :: "db_actor_profile list \<Rightarrow> db_actor list" where
  "remote_actors profiles = concat (map (\<lambda>ap. opt_list (ap_actor_json ap)) profiles)"

section \<open>JSON-LD\<close>

definition build_default_context :: json where
  "build_default_context = JArray
     [JString AS_CONTEXT, JString ''https://w3id.org/security/v1'',
      JObject
       [(''manuallyApprovesFollowers'', JString ''as:manuallyApprovesFollowers''),
        (''toot'', JString ''http://joinmastodon.org/ns#''),
        (''featured'', JObject [(''@id'', JString ''toot:featured''), (''@type'', JString ''@id'')]),
        (''featuredTags'', JObject [(''@id'', JString ''toot:featuredTags''), (''@type'', JString ''@id'')]),
        (''alsoKnownAs'', JObject [(''@id'', JString ''as:alsoKnownAs''), (''@type'', JString ''@id'')]),
        (''movedTo'', JObject [(''@id'', JString ''as:movedTo''), (''@type'', JString ''@id'')]),
        (''schema'', JString ''http://schema.org/#''),
        (''PropertyValue'', JString ''schema:PropertyValue''),
        (''value'', JString ''schema:value''),
        (''IdentityProof'', JString ''toot:IdentityProof''),
        (''discoverable'', JString ''toot:discoverable''),
        (''Device'', JString ''toot:Device''),
        (''Ed25519Signature'', JString ''toot:Ed25519Signature''),
        (''Ed25519Key'', JString ''toot:Ed25519Key''),
        (''Curve25519Key'', JString ''toot:Curve25519Key''),
        (''EncryptedMessage'', JString ''toot:EncryptedMessage''),
        (''publicKeyBase64'', JString ''toot:publicKeyBase64''),
        (''deviceId'', JString ''toot:deviceId''),
        (''claim'', JObject [(''@type'', JString ''@id''), (''@id'', JString ''toot:claim'')]),
        (''fingerprintKey'', JObject [(''@type'', JString ''@id''), (''@id'', JString ''toot:fingerprintKey'')]),
        (''identityKey'', JObject [(''@type'', JString ''@id''), (''@id'', JString ''toot:identityKey'')]),
        (''devices'', JObject [(''@type'', JString ''@id''), (''@id'', JString ''toot:devices'')]),
        (''messageFranking'', JString ''toot:messageFranking''),
        (''messageType'', JString ''toot:messageType''),
        (''cipherText'', JString ''toot:cipherText''),
        (''suspended'', JString ''toot:suspended''),
        (''focalPoint'', JObject [(''@container'', JString ''@list''), (''@id'', JString ''toot:focalPoint'')])]]"

definition strings :: "string list \<Rightarrow> json" where
  "strings ss = JArray (map JString ss)"

text \<open>What all activities start with.\<close>

definition activity_header :: "string \<Rightarrow> string \<Rightarrow> string \<Rightarrow> (string \<times> json) list" where
  "activity_header activity_type activity_id actor_id =
     [(''@context'', build_default_context), (''type'', JString activity_type),
      (''id'', JString activity_id), (''actor'', JString actor_id)]"

section \<open>Actor documents\<close>

definition ser_some :: "string \<Rightarrow> ('a \<Rightarrow> json) \<Rightarrow> 'a option \<Rightarrow> (string \<times> json) list" where
  "ser_some name f v = (case v of None \<Rightarrow> [] | Some x \<Rightarrow> [(name, f x)])"

definition ser_nonempty :: "string \<Rightarrow> json list \<Rightarrow> (string \<times> json) list" where
  "ser_nonempty name vs = (if vs = [] then [] else [(name, JArray vs)])"

definition ser_actor :: "actor \<Rightarrow> json" where
  "ser_actor a = JObject
     ([(''@context'', case ac_context a of None \<Rightarrow> JNull | Some v \<Rightarrow> v), (''id'', JString (ac_id a)),
       (''type'', JString (ac_object_type a)), (''name'', ser_option (ac_name a)),
       (''preferredUsername'', JString (ac_preferred_username a)), (''inbox'', JString (ac_inbox a)),
       (''outbox'', JString (ac_outbox a)), (''bot'', JBool (ac_bot a))] @
      ser_optional ''followers'' (ac_followers a) @ ser_optional ''following'' (ac_following a) @
      ser_optional ''subscribers'' (ac_subscribers a) @
      [(''publicKey'', ser_public_key (ac_public_key a))] @
      ser_some ''icon'' ser_actor_image (ac_icon a) @ ser_some ''image'' ser_actor_image (ac_image a) @
      ser_optional ''summary'' (ac_summary a) @ ser_some ''alsoKnownAs'' id (ac_also_known_as a) @
      ser_nonempty ''attachment'' (ac_attachment a) @
      [(''manuallyApprovesFollowers'', JBool (ac_manually_approves_followers a))] @
      ser_nonempty ''tag'' (ac_tag a) @ ser_optional ''url'' (ac_url a))"

definition local_image :: "string \<Rightarrow> profile_image option \<Rightarrow> actor_image option" where
  "local_image instance_url maybe_image =
     map_option (\<lambda>img. \<lparr>ai_object_type = ''Image'', ai_url = get_file_url instance_url (pi_file_name img),
       ai_media_type = pi_media_type img\<rparr>) maybe_image"

definition local_attachments :: "environment \<Rightarrow> db_actor_profile \<Rightarrow> json list option" where
  "local_attachments e profile =
     Option.bind (traverse (attach_payment_option (en_instance_url e) (ap_username profile))
       (ap_payment_options profile)) (\<lambda>payment_options.
     Some (map ser_actor_attachment
       (map (attach_identity_proof (en_encode_base58 e)) (ap_identity_proofs profile) @
        payment_options @ map attach_extra_field (ap_extra_fields profile))))"

text \<open>\<open>Inl (Error ())\<close> is an unreadable key.\<close>

definition get_local_actor :: "environment \<Rightarrow> user \<Rightarrow> unit failure + actor" where
  "get_local_actor e u =
     (let profile = us_profile u; username = ap_username profile;
        actor_id = local_actor_id (en_instance_url e) username in
      case en_public_key_of e (us_private_key u) of
        None \<Rightarrow> Inl (Error ())
      | Some public_key_pem \<Rightarrow>
          (case local_attachments e profile of
             None \<Rightarrow> Inl Panic
           | Some attachments \<Rightarrow>
               Inr \<lparr>ac_context = Some build_default_context, ac_id = actor_id,
                 ac_object_type = ''Person'', ac_name = ap_display_name profile,
                 ac_preferred_username = username,
                 ac_inbox = collection_of Collection_Inbox actor_id,
                 ac_outbox = collection_of Collection_Outbox actor_id, ac_bot = True,
                 ac_followers = Some (collection_of Collection_Followers actor_id),
                 ac_following = Some (collection_of Collection_Following actor_id),
                 ac_subscribers = Some (collection_of Collection_Subscribers actor_id),
                 ac_public_key = \<lparr>pk_id = local_actor_key_id actor_id, pk_owner = actor_id,
                   pk_public_key_pem = public_key_pem\<rparr>,
                 ac_icon = local_image (en_instance_url e) (ap_avatar profile),
                 ac_image = local_image (en_instance_url e) (ap_banner profile),
                 ac_summary = ap_bio profile,
                 ac_also_known_as = Some (strings (into_actor_ids (ap_aliases profile))),
                 ac_attachment = attachments, ac_manually_approves_followers = False,
                 ac_tag = [], ac_url = Some actor_id\<rparr>))"

definition get_instance_actor :: "environment \<Rightarrow> actor option" where
  "get_instance_actor e =
     (let actor_id = local_instance_actor_id (en_instance_url e) in
      map_option (\<lambda>public_key_pem.
        \<lparr>ac_context = Some build_default_context, ac_id = actor_id, ac_object_type = ''Service'',
         ac_name = Some (en_hostname e), ac_preferred_username = en_hostname e,
         ac_inbox = collection_of Collection_Inbox actor_id,
         ac_outbox = collection_of Collection_Outbox actor_id, ac_bot = True, ac_followers = None,
         ac_following = None, ac_subscribers = None,
         ac_public_key = \<lparr>pk_id = local_actor_key_id actor_id, pk_owner = actor_id,
           pk_public_key_pem = public_key_pem\<rparr>,
         ac_icon = None, ac_image = None, ac_summary = None, ac_also_known_as = None,
         ac_attachment = [], ac_manually_approves_followers = False, ac_tag = [], ac_url = None\<rparr>)
      (en_instance_public_key e))"

section \<open>Follow, Undo(Follow), Accept(Follow)\<close>

definition build_follow :: "environment \<Rightarrow> db_actor_profile \<Rightarrow> string \<Rightarrow> uuid \<Rightarrow> json" where
  "build_follow e actor_profile target_actor_id follow_request_id = JObject
     (activity_header ''Follow'' (local_object_id (en_show_uuid e) (en_instance_url e) follow_request_id)
        (local_actor_id (en_instance_url e) (ap_username actor_profile)) @
      [(''object'', JString target_actor_id), (''to'', strings [target_actor_id])])"

definition prepare_follow :: "environment \<Rightarrow> user \<Rightarrow> db_actor \<Rightarrow> uuid \<Rightarrow> outgoing_activity" where
  "prepare_follow e sender target_actor follow_request_id =
     outgoing_activity_new sender
       (build_follow e (us_profile sender) (da_id target_actor) follow_request_id) [target_actor]"

definition follow_or_create_request ::
    "environment \<Rightarrow> user \<Rightarrow> db_actor_profile \<Rightarrow> (db_error, unit) app_m" where
  "follow_or_create_request e current_user target_profile =
     (case ap_actor_json target_profile of
        Some target_actor \<Rightarrow>
          bind (draw (en_uuid e)) (\<lambda>request_id.
          db_match (create_follow_request request_id (us_id current_user) (ap_id target_profile))
            (\<lambda>err. if is_already_exists err then ret () else fail err)
            (\<lambda>follow_request. enqueue e (prepare_follow e current_user target_actor (fr_id follow_request))))
      | None \<Rightarrow>
          bind (draw (en_now e)) (\<lambda>now.
          db_match (follow now (us_id current_user) (ap_id target_profile))
            (\<lambda>err. if is_already_exists err then ret () else fail err)
            (\<lambda>_. ret ())))"

definition build_undo_follow :: "environment \<Rightarrow> db_actor_profile \<Rightarrow> string \<Rightarrow> uuid \<Rightarrow> json" where
  "build_undo_follow e actor_profile target_actor_id follow_request_id = JObject
     (activity_header ''Undo''
        (local_object_id (en_show_uuid e) (en_instance_url e) follow_request_id @ ''/undo'')
        (local_actor_id (en_instance_url e) (ap_username actor_profile)) @
      [(''object'', build_follow e actor_profile target_actor_id follow_request_id),
       (''to'', strings [target_actor_id])])"

definition prepare_undo_follow :: "environment \<Rightarrow> user \<Rightarrow> db_actor \<Rightarrow> uuid \<Rightarrow> outgoing_activity" where
  "prepare_undo_follow e sender target_actor follow_request_id =
     outgoing_activity_new sender
       (build_undo_follow e (us_profile sender) (da_id target_actor) follow_request_id) [target_actor]"

text \<open>The identifier of the activity is random.\<close>

definition build_accept_follow :: "environment \<Rightarrow> uuid \<Rightarrow> db_actor_profile \<Rightarrow> string \<Rightarrow> string \<Rightarrow> json" where
  "build_accept_follow e random_id actor_profile source_actor_id follow_activity_id = JObject
     (activity_header ''Accept'' (local_object_id (en_show_uuid e) (en_instance_url e) random_id)
        (local_actor_id (en_instance_url e) (ap_username actor_profile)) @
      [(''object'', JString follow_activity_id), (''to'', strings [source_actor_id])])"

definition prepare_accept_follow ::
    "environment \<Rightarrow> uuid \<Rightarrow> user \<Rightarrow> db_actor \<Rightarrow> string \<Rightarrow> outgoing_activity" where
  "prepare_accept_follow e random_id sender source_actor follow_activity_id =
     outgoing_activity_new sender
       (build_accept_follow e random_id (us_profile sender) (da_id source_actor) follow_activity_id)
       [source_actor]"

section \<open>Create(Note) and Delete(Note)\<close>

record ap_note =
  no_id :: string
  no_attachment :: "json list"
  no_attributed_to :: string
  no_content :: string
  no_in_reply_to :: "string option"
  no_published :: datetime
  no_sensitive :: bool
  no_tag :: "json list"
  no_to :: "string list"
  no_cc :: "string list"
  no_quote_url :: "string option"

definition ser_note :: "environment \<Rightarrow> ap_note \<Rightarrow> json" where
  "ser_note e n = JObject
     ([(''@context'', build_default_context), (''id'', JString (no_id n)), (''type'', JString ''Note'')] @
      ser_nonempty ''attachment'' (no_attachment n) @
      [(''attributedTo'', JString (no_attributed_to n)), (''content'', JString (no_content n))] @
      ser_optional ''inReplyTo'' (no_in_reply_to n) @
      [(''published'', JString (en_show_datetime e (no_published n))),
       (''sensitive'', JBool (no_sensitive n))] @
      ser_nonempty ''tag'' (no_tag n) @
      [(''to'', strings (no_to n)), (''cc'', strings (no_cc n))] @
      ser_optional ''quoteUrl'' (no_quote_url n))"

definition simple_tag :: "string \<Rightarrow> string \<Rightarrow> string \<Rightarrow> json" where
  "simple_tag ty href name =
     JObject [(''type'', JString ty), (''href'', JString href), (''name'', JString name)]"

definition build_emoji_tag :: "environment \<Rightarrow> db_emoji \<Rightarrow> json" where
  "build_emoji_tag e emoji = JObject
     [(''type'', JString ''Emoji''),
      (''icon'', JObject [(''type'', JString ''Image''),
         (''url'', JString (get_file_url (en_instance_url e) (ei_file_name (em_image emoji)))),
         (''mediaType'', JString (ei_media_type (em_image emoji)))]),
      (''id'', JString (local_emoji_id (en_instance_url e) (em_emoji_name emoji))),
      (''name'', JString ('':'' @ em_emoji_name emoji @ '':'')),
      (''updated'', JString (en_show_datetime e (em_updated_at emoji)))]"

definition build_attachment :: "environment \<Rightarrow> db_media_attachment \<Rightarrow> json" where
  "build_attachment e db_item = JObject
     [(''type'', JString ''Document''), (''name'', JNull),
      (''mediaType'', ser_option (ma_media_type db_item)),
      (''url'', JString (get_file_url (en_instance_url e) (ma_file_name db_item)))]"

definition build_mention_tag :: "environment \<Rightarrow> db_actor_profile \<Rightarrow> json option" where
  "build_mention_tag e profile =
     map_option (\<lambda>address. simple_tag ''Mention'' (profile_actor_id (en_instance_url e) profile)
       (''@'' @ address_to_string address)) (address_from_profile (en_hostname e) profile)"

definition build_hashtag :: "environment \<Rightarrow> string \<Rightarrow> json" where
  "build_hashtag e name =
     simple_tag ''Hashtag'' (local_tag_collection (en_instance_url e) name) (''#'' @ name)"

definition build_link_tag :: "environment \<Rightarrow> post \<Rightarrow> json" where
  "build_link_tag e linked = JObject
     [(''type'', JString ''Link''),
      (''href'', JString (post_object_id (en_show_uuid e) (en_instance_url e) linked)),
      (''mediaType'', JString AP_MEDIA_TYPE), (''name'', JNull)]"

text \<open>The audience by visibility: \<open>to\<close> and \<open>cc\<close>.\<close>

definition note_audience :: "string \<Rightarrow> string \<Rightarrow> visibility \<Rightarrow> string list \<times> string list" where
  "note_audience instance_url username v =
     (let followers_collection_id = local_actor_followers instance_url username;
        subscribers_collection_id = local_actor_subscribers instance_url username in
      case v of
        Public \<Rightarrow> ([AP_PUBLIC], [followers_collection_id])
      | Followers \<Rightarrow> ([followers_collection_id], [])
      | Subscribers \<Rightarrow> ([subscribers_collection_id], [])
      | Direct \<Rightarrow> ([], []))"

text \<open>
  The parent of a reply has to be loaded and be the right one. The result adds its author to the
  audience.
\<close>

definition reply_audience ::
    "environment \<Rightarrow> post \<Rightarrow> string list \<Rightarrow> (string list \<times> string option) option" where
  "reply_audience e post primary_audience =
     (case pd_in_reply_to_id (data_of post) of
        None \<Rightarrow> Some (primary_audience, None)
      | Some in_reply_to_id \<Rightarrow>
          (case in_reply_to_of post of
             None \<Rightarrow> None
           | Some in_reply_to \<Rightarrow>
               if pd_id (data_of in_reply_to) \<noteq> in_reply_to_id then None
               else Some
                 (push_new (profile_actor_id (en_instance_url e) (pd_author (data_of in_reply_to))) primary_audience,
                  Some (post_object_id (en_show_uuid e) (en_instance_url e) in_reply_to))))"

definition build_note :: "environment \<Rightarrow> post \<Rightarrow> ap_note option" where
  "build_note e post =
     (let d = data_of post; url = en_instance_url e; username = ap_username (pd_author d) in
      Option.bind (traverse (build_mention_tag e) (pd_mentions d)) (\<lambda>mention_tags.
      if length (pd_links d) \<noteq> length (linked_of post) then None
      else
        case note_audience url username (pd_visibility d) of (primary_audience, secondary_audience) \<Rightarrow>
        Option.bind (reply_audience e post
          (fold (\<lambda>profile. push_new (profile_actor_id url profile)) (pd_mentions d) primary_audience))
        (\<lambda>(primary_audience, in_reply_to_object_id).
        Some \<lparr>no_id = local_object_id (en_show_uuid e) url (pd_id d),
          no_attachment = map (build_attachment e) (pd_attachments d),
          no_attributed_to = local_actor_id url username, no_content = pd_content d,
          no_in_reply_to = in_reply_to_object_id, no_published = pd_created_at d,
          no_sensitive = pd_is_sensitive d,
          no_tag = mention_tags @ map (build_hashtag e) (pd_tags d) @
            (if en_fep_e232 e then map (build_link_tag e) (linked_of post) else []) @
            map (build_emoji_tag e) (pd_emojis d),
          no_to = primary_audience, no_cc = secondary_audience,
          no_quote_url =
            (case linked_of post of
               [] \<Rightarrow> None
             | linked # _ \<Rightarrow> Some (post_object_id (en_show_uuid e) url linked))\<rparr>)))"

definition build_create_note :: "environment \<Rightarrow> post \<Rightarrow> json option" where
  "build_create_note e post =
     map_option (\<lambda>n. JObject
       (activity_header ''Create'' (no_id n @ ''/create'') (no_attributed_to n) @
        [(''object'', ser_note e n), (''to'', strings (no_to n)), (''cc'', strings (no_cc n))]))
     (build_note e post)"

definition get_note_recipients :: "user \<Rightarrow> post \<Rightarrow> db_actor list dbm" where
  "get_note_recipients current_user post =
     bind (case pd_visibility (data_of post) of
             Public \<Rightarrow> get_followers (us_id current_user)
           | Followers \<Rightarrow> get_followers (us_id current_user)
           | Subscribers \<Rightarrow> get_subscribers (us_id current_user)
           | Direct \<Rightarrow> ret []) (\<lambda>audience.
     bind (case pd_in_reply_to_id (data_of post) of
             None \<Rightarrow> ret []
           | Some in_reply_to_id \<Rightarrow>
               bind (get_post_author in_reply_to_id) (\<lambda>in_reply_to_author. ret [in_reply_to_author]))
     (\<lambda>reply_to.
     ret (remote_actors (audience @ reply_to @ pd_mentions (data_of post)))))"

definition prepare_create_note :: "environment \<Rightarrow> user \<Rightarrow> post \<Rightarrow> (db_error, outgoing_activity) app_m" where
  "prepare_create_note e author post =
     (if us_id author \<noteq> ap_id (pd_author (data_of post)) then panic
      else
        or_panic (build_create_note e post) (\<lambda>activity.
        bind (db_call id (get_note_recipients author post)) (\<lambda>recipients.
        ret (outgoing_activity_new author activity recipients))))"

definition build_delete_note :: "environment \<Rightarrow> post \<Rightarrow> json option" where
  "build_delete_note e post =
     (if \<not> post_is_local post then None
      else
        let object_id = local_object_id (en_show_uuid e) (en_instance_url e) (pd_id (data_of post)) in
        map_option (\<lambda>n. JObject
          (activity_header ''Delete'' (object_id @ ''/delete'')
             (local_actor_id (en_instance_url e) (ap_username (pd_author (data_of post)))) @
           [(''object'', JObject [(''id'', JString object_id), (''type'', JString ''Tombstone''),
              (''formerType'', JString ''Note'')]),
            (''to'', strings (no_to n)), (''cc'', strings (no_cc n))]))
        (build_note e post))"

definition prepare_delete_note :: "environment \<Rightarrow> user \<Rightarrow> post \<Rightarrow> (db_error, outgoing_activity) app_m" where
  "prepare_delete_note e author post =
     (if us_id author \<noteq> ap_id (pd_author (data_of post)) then panic
      else
        bind (db_call id (add_related_posts [post])) (\<lambda>posts.
        or_panic (build_delete_note e (hd posts)) (\<lambda>activity.
        bind (db_call id (get_note_recipients author (hd posts))) (\<lambda>recipients.
        ret (outgoing_activity_new author activity recipients)))))"

section \<open>Announce, Like and their Undo\<close>

definition build_announce :: "environment \<Rightarrow> post \<Rightarrow> json option" where
  "build_announce e repost =
     map_option (\<lambda>post. JObject
       (activity_header ''Announce''
          (local_object_id (en_show_uuid e) (en_instance_url e) (pd_id (data_of repost)))
          (local_actor_id (en_instance_url e) (ap_username (pd_author (data_of repost)))) @
        [(''object'', JString (post_object_id (en_show_uuid e) (en_instance_url e) post)),
         (''published'', JString (en_show_datetime e (pd_created_at (data_of repost)))),
         (''to'', strings [AP_PUBLIC, profile_actor_id (en_instance_url e) (pd_author (data_of post))]),
         (''cc'', strings [local_actor_followers (en_instance_url e)
           (ap_username (pd_author (data_of repost)))])]))
     (repost_of_of repost)"

definition get_announce_recipients :: "environment \<Rightarrow> user \<Rightarrow> post \<Rightarrow> (db_actor list \<times> string) dbm" where
  "get_announce_recipients e current_user post =
     bind (get_followers (us_id current_user)) (\<lambda>followers.
     ret (remote_actors (followers @ [pd_author (data_of post)]),
          profile_actor_id (en_instance_url e) (pd_author (data_of post))))"

definition prepare_announce :: "environment \<Rightarrow> user \<Rightarrow> post \<Rightarrow> (db_error, outgoing_activity) app_m" where
  "prepare_announce e sender repost =
     (if us_id sender \<noteq> ap_id (pd_author (data_of repost)) then panic
      else
        or_panic (repost_of_of repost) (\<lambda>post.
        bind (db_call id (get_announce_recipients e sender post)) (\<lambda>(recipients, _).
        or_panic (build_announce e repost) (\<lambda>activity.
        ret (outgoing_activity_new sender activity recipients)))))"

definition build_undo_announce :: "environment \<Rightarrow> db_actor_profile \<Rightarrow> uuid \<Rightarrow> string \<Rightarrow> json" where
  "build_undo_announce e actor_profile repost_id recipient_id =
     (let object_id = local_object_id (en_show_uuid e) (en_instance_url e) repost_id in JObject
       (activity_header ''Undo'' (object_id @ ''/undo'')
          (local_actor_id (en_instance_url e) (ap_username actor_profile)) @
        [(''object'', JString object_id), (''to'', strings [AP_PUBLIC, recipient_id]),
         (''cc'', strings [local_actor_followers (en_instance_url e) (ap_username actor_profile)])]))"

definition prepare_undo_announce ::
    "environment \<Rightarrow> user \<Rightarrow> post \<Rightarrow> uuid \<Rightarrow> (db_error, outgoing_activity) app_m" where
  "prepare_undo_announce e sender post repost_id =
     (if pd_id (data_of post) = repost_id then panic
      else
        bind (db_call id (get_announce_recipients e sender post)) (\<lambda>(recipients, primary_recipient).
        ret (outgoing_activity_new sender
          (build_undo_announce e (us_profile sender) repost_id primary_recipient) recipients)))"

definition get_like_audience :: "string \<Rightarrow> visibility \<Rightarrow> string list \<times> string list" where
  "get_like_audience note_author_id note_visibility =
     (note_author_id # (if note_visibility = Public then [AP_PUBLIC] else []), [])"

definition like_activity ::
    "environment \<Rightarrow> string \<Rightarrow> db_actor_profile \<Rightarrow> string \<Rightarrow> string \<Rightarrow> string \<Rightarrow> visibility \<Rightarrow> json" where
  "like_activity e activity_type actor_profile activity_id object_id post_author_id post_visibility =
     (case get_like_audience post_author_id post_visibility of (primary_audience, secondary_audience) \<Rightarrow>
      JObject
       (activity_header activity_type activity_id
          (local_actor_id (en_instance_url e) (ap_username actor_profile)) @
        [(''object'', JString object_id), (''to'', strings primary_audience),
         (''cc'', strings secondary_audience)]))"

definition build_like ::
    "environment \<Rightarrow> db_actor_profile \<Rightarrow> string \<Rightarrow> uuid \<Rightarrow> string \<Rightarrow> visibility \<Rightarrow> json" where
  "build_like e actor_profile object_id reaction_id post_author_id post_visibility =
     like_activity e ''Like'' actor_profile
       (local_object_id (en_show_uuid e) (en_instance_url e) reaction_id) object_id
       post_author_id post_visibility"

definition get_like_recipients :: "post \<Rightarrow> db_actor list dbm" where
  "get_like_recipients post = ret (remote_actors [pd_author (data_of post)])"

definition prepare_like :: "environment \<Rightarrow> user \<Rightarrow> post \<Rightarrow> uuid \<Rightarrow> (db_error, outgoing_activity) app_m" where
  "prepare_like e sender post reaction_id =
     bind (db_call id (get_like_recipients post)) (\<lambda>recipients.
     ret (outgoing_activity_new sender
       (build_like e (us_profile sender) (post_object_id (en_show_uuid e) (en_instance_url e) post)
          reaction_id (profile_actor_id (en_instance_url e) (pd_author (data_of post)))
          (pd_visibility (data_of post))) recipients))"

definition build_undo_like ::
    "environment \<Rightarrow> db_actor_profile \<Rightarrow> uuid \<Rightarrow> string \<Rightarrow> visibility \<Rightarrow> json" where
  "build_undo_like e actor_profile reaction_id post_author_id post_visibility =
     (let object_id = local_object_id (en_show_uuid e) (en_instance_url e) reaction_id in
      like_activity e ''Undo'' actor_profile (object_id @ ''/undo'') object_id
        post_author_id post_visibility)"

definition prepare_undo_like ::
    "environment \<Rightarrow> user \<Rightarrow> post \<Rightarrow> uuid \<Rightarrow> (db_error, outgoing_activity) app_m" where
  "prepare_undo_like e sender post reaction_id =
     bind (db_call id (get_like_recipients post)) (\<lambda>recipients.
     ret (outgoing_activity_new sender
       (build_undo_like e (us_profile sender) reaction_id
          (profile_actor_id (en_instance_url e) (pd_author (data_of post)))
          (pd_visibility (data_of post))) recipients))"

section \<open>Actors: Update, Delete, Add, Remove, Move\<close>

definition build_update_person :: "environment \<Rightarrow> user \<Rightarrow> uuid \<Rightarrow> unit failure + json" where
  "build_update_person e u internal_activity_id =
     map_sum id (\<lambda>a. JObject
       (activity_header ''Update''
          (local_object_id (en_show_uuid e) (en_instance_url e) internal_activity_id) (ac_id a) @
        [(''object'', ser_actor a),
         (''to'', strings [AP_PUBLIC,
            local_actor_followers (en_instance_url e) (ap_username (us_profile u))])]))
     (get_local_actor e u)"

definition get_update_person_recipients :: "uuid \<Rightarrow> db_actor list dbm" where
  "get_update_person_recipients user_id =
     bind (get_followers user_id) (\<lambda>followers. ret (remote_actors followers))"

definition prepare_update_person ::
    "environment \<Rightarrow> user \<Rightarrow> uuid option \<Rightarrow> (db_error, outgoing_activity) app_m" where
  "prepare_update_person e u maybe_internal_activity_id =
     bind (case maybe_internal_activity_id of Some i \<Rightarrow> ret i | None \<Rightarrow> draw (en_uuid e)) (\<lambda>i.
     case build_update_person e u i of
       Inl Panic \<Rightarrow> panic
     | Inl (Error _) \<Rightarrow> fail DatabaseTypeError
     | Inr activity \<Rightarrow>
         bind (db_call id (get_update_person_recipients (us_id u))) (\<lambda>recipients.
         ret (outgoing_activity_new u activity recipients)))"

definition build_delete_person :: "environment \<Rightarrow> user \<Rightarrow> json" where
  "build_delete_person e u =
     (let actor_id = local_actor_id (en_instance_url e) (ap_username (us_profile u)) in JObject
       (activity_header ''Delete'' (actor_id @ ''/delete'') actor_id @
        [(''object'', JString actor_id), (''to'', strings [AP_PUBLIC])]))"

definition get_delete_person_recipients :: "uuid \<Rightarrow> db_actor list dbm" where
  "get_delete_person_recipients user_id =
     bind (get_followers user_id) (\<lambda>followers.
     bind (get_following user_id) (\<lambda>following.
     ret (remote_actors (followers @ following))))"

definition prepare_delete_person :: "environment \<Rightarrow> user \<Rightarrow> (db_error, outgoing_activity) app_m" where
  "prepare_delete_person e u =
     bind (db_call id (get_delete_person_recipients (us_id u))) (\<lambda>recipients.
     ret (outgoing_activity_new u (build_delete_person e u) recipients))"

definition build_update_collection ::
    "environment \<Rightarrow> uuid \<Rightarrow> string \<Rightarrow> string \<Rightarrow> local_actor_collection \<Rightarrow> bool \<Rightarrow> json" where
  "build_update_collection e random_id sender_username person_id collection is_removal =
     (let actor_id = local_actor_id (en_instance_url e) sender_username in JObject
       (activity_header (if is_removal then ''Remove'' else ''Add'')
          (local_object_id (en_show_uuid e) (en_instance_url e) random_id) actor_id @
        [(''object'', JString person_id), (''target'', JString (collection_of collection actor_id)),
         (''to'', strings [person_id])]))"

definition prepare_update_collection ::
    "environment \<Rightarrow> uuid \<Rightarrow> user \<Rightarrow> db_actor \<Rightarrow> local_actor_collection \<Rightarrow> bool \<Rightarrow> outgoing_activity" where
  "prepare_update_collection e random_id sender person collection is_removal =
     outgoing_activity_new sender
       (build_update_collection e random_id (ap_username (us_profile sender)) (da_id person)
          collection is_removal) [person]"

definition prepare_add_person ::
    "environment \<Rightarrow> uuid \<Rightarrow> user \<Rightarrow> db_actor \<Rightarrow> local_actor_collection \<Rightarrow> outgoing_activity" where
  "prepare_add_person e random_id sender person collection =
     prepare_update_collection e random_id sender person collection False"

definition prepare_remove_person ::
    "environment \<Rightarrow> uuid \<Rightarrow> user \<Rightarrow> db_actor \<Rightarrow> local_actor_collection \<Rightarrow> outgoing_activity" where
  "prepare_remove_person e random_id sender person collection =
     prepare_update_collection e random_id sender person collection True"

definition build_move_person :: "environment \<Rightarrow> user \<Rightarrow> string \<Rightarrow> string list \<Rightarrow> uuid \<Rightarrow> json" where
  "build_move_person e sender from_actor_id followers internal_activity_id =
     (let actor_id = local_actor_id (en_instance_url e) (ap_username (us_profile sender)) in JObject
       (activity_header ''Move'' (local_object_id (en_show_uuid e) (en_instance_url e) internal_activity_id)
          actor_id @
        [(''object'', JString from_actor_id), (''target'', JString actor_id),
         (''to'', strings followers)]))"

definition prepare_move_person ::
    "environment \<Rightarrow> user \<Rightarrow> string \<Rightarrow> db_actor list \<Rightarrow> uuid \<Rightarrow> outgoing_activity" where
  "prepare_move_person e sender from_actor_id followers internal_activity_id =
     outgoing_activity_new sender
       (build_move_person e sender from_actor_id (map da_id followers) internal_activity_id) followers"

end
