(* ===== verification/Handlers.thy ===== *)
theory Handlers
  imports Import Builders
begin

text \<open>
  The activity handlers (\<open>activitypub/handlers\<close>). A handler returns the type of the object when it
  has accepted the activity and \<open>None\<close> when it has ignored it. Removing the media files of deleted
  posts happens in a task of its own and is not part of the state.
\<close>

type_synonym handled = "string option hm"

definition accepted :: "string \<Rightarrow> handled" where
  "accepted object_type = ret (Some object_type)"

definition ignored :: handled where
  "ignored = ret None"

text \<open>A lookup whose \<open>NotFound\<close> makes the handler ignore the activity.\<close>

definition found_or_ignore :: "'a dbm \<Rightarrow> ('a \<Rightarrow> handled) \<Rightarrow> handled" where
  "found_or_ignore m f =
     db_match m (\<lambda>err. if is_not_found err then ignored else fail (DatabaseError err)) f"

section \<open>Structs of activities\<close>

record basic_activity =
  ba_id :: string
  ba_actor :: string
  ba_object :: string
  ba_target :: string

text \<open>
  The handlers declare structs with some of these fields. \<open>deserialize_into_object_id\<close> reads an
  object by its identifier.
\<close>

definition de_id_actor_object :: "json \<Rightarrow> basic_activity option" where
  "de_id_actor_object v =
     Option.bind (struct_view [''id'', ''actor'', ''object''] [] v) (\<lambda>field.
     Option.bind (de_required json_string (field ''id'')) (\<lambda>i.
     Option.bind (de_required json_string (field ''actor'')) (\<lambda>a.
     Option.bind (de_required find_object_id (field ''object'')) (\<lambda>obj.
     Some \<lparr>ba_id = i, ba_actor = a, ba_object = obj, ba_target = []\<rparr>))))"

definition de_actor_object :: "json \<Rightarrow> basic_activity option" where
  "de_actor_object v =
     Option.bind (struct_view [''actor'', ''object''] [] v) (\<lambda>field.
     Option.bind (de_required json_string (field ''actor'')) (\<lambda>a.
     Option.bind (de_required find_object_id (field ''object'')) (\<lambda>obj.
     Some \<lparr>ba_id = [], ba_actor = a, ba_object = obj, ba_target = []\<rparr>)))"

definition de_actor_object_target :: "json \<Rightarrow> basic_activity option" where
  "de_actor_object_target v =
     Option.bind (struct_view [''actor'', ''object'', ''target''] [] v) (\<lambda>field.
     Option.bind (de_required json_string (field ''actor'')) (\<lambda>a.
     Option.bind (de_required json_string (field ''object'')) (\<lambda>obj.
     Option.bind (de_required json_string (field ''target'')) (\<lambda>target.
     Some \<lparr>ba_id = [], ba_actor = a, ba_object = obj, ba_target = target\<rparr>))))"

definition de_with_object :: "(json \<Rightarrow> 'a option) \<Rightarrow> json \<Rightarrow> (string \<times> 'a) option" where
  "de_with_object de v =
     Option.bind (struct_view [''actor'', ''object''] [] v) (\<lambda>field.
     Option.bind (de_required json_string (field ''actor'')) (\<lambda>a.
     Option.bind (de_required de (field ''object'')) (\<lambda>obj. Some (a, obj))))"

definition structured :: "environment \<Rightarrow> (json \<Rightarrow> 'a option) \<Rightarrow> string \<Rightarrow> json \<Rightarrow> 'a hm" where
  "structured e de msg activity = require (de activity) (msg @ en_show_json e activity)"

definition object_type_of :: "json \<Rightarrow> string option" where
  "object_type_of activity = json_string (json_index (json_index activity ''object'') ''type'')"

section \<open>Create and Announce\<close>

definition is_unsolicited_message :: "environment \<Rightarrow> ap_object \<Rightarrow> bool hm" where
  "is_unsolicited_message e obj =
     bind (check (get_object_attributed_to obj)) (\<lambda>author_id.
     bind (from_db (has_local_followers author_id)) (\<lambda>author_has_followers.
     bind (check (get_audience obj)) (\<lambda>audience.
     let has_local_recipients =
       list_ex (\<lambda>actor_id. is_ok (parse_local_actor_id (en_instance_url e) actor_id)) audience in
     ret (ob_in_reply_to obj = None \<and> is_public_object audience \<and> \<not> has_local_recipients \<and>
       \<not> author_has_followers))))"

definition handle_create :: "environment \<Rightarrow> json \<Rightarrow> bool \<Rightarrow> handled" where
  "handle_create e activity is_authenticated =
     bind (structured e (de_with_object (de_object e)) ''invalid CreateNote activity: '' activity) (\<lambda>(actor_id, obj).
     bind (check (get_object_attributed_to obj)) (\<lambda>author_id.
     let object_received = (if is_authenticated \<and> author_id = actor_id then Some obj else None) in
     bind (import_post e (ob_id obj) object_received) (\<lambda>_.
     accepted ''Note'')))"

definition handle_announce :: "environment \<Rightarrow> json \<Rightarrow> handled" where
  "handle_announce e activity =
     (if (case object_type_of activity of
            Some ty \<Rightarrow> ty \<in> set [''Create'', ''Delete'', ''Dislike'', ''Like'', ''Undo'', ''Update'']
          | None \<Rightarrow> False)
      then ignored
      else
        bind (structured e de_id_actor_object ''unexpected activity structure: '' activity) (\<lambda>a.
        db_match (get_post_by_remote_object_id (ba_id a))
          (\<lambda>err. if is_not_found err then
             bind (get_or_import_profile_by_actor_id e (ba_actor a)) (\<lambda>author.
             bind (case parse_local_object_id (en_parse_uuid e) (en_instance_url e) (ba_object a) of
                     Inr post_id \<Rightarrow> ret post_id
                   | Inl _ \<Rightarrow>
                       bind (import_post e (ba_object a) None) (\<lambda>post. ret (pd_id (data_of post)))) (\<lambda>post_id.
             bind (draw (en_now e)) (\<lambda>now.
             bind (draw (en_uuid e)) (\<lambda>repost_id.
             db_match (create_post now repost_id (ap_id author)
                 (post_create_data_repost now post_id (Some (ba_id a))))
               (\<lambda>err. if err = AlreadyExists ''post'' then ignored else fail (DatabaseError err))
               (\<lambda>_. accepted ''Note'')))))
           else fail (DatabaseError err))
          (\<lambda>_. ignored)))"

section \<open>Like\<close>

definition handle_like :: "environment \<Rightarrow> json \<Rightarrow> handled" where
  "handle_like e activity =
     bind (structured e de_id_actor_object ''unexpected Like activity structure: '' activity) (\<lambda>a.
     bind (get_or_import_profile_by_actor_id e (ba_actor a)) (\<lambda>author.
     found_or_ignore (get_post_by_object_id e (ba_object a)) (\<lambda>post.
     bind (draw (en_now e)) (\<lambda>now.
     bind (draw (en_uuid e)) (\<lambda>reaction_id.
     db_match (create_reaction now reaction_id (ap_id author) (pd_id (data_of post)) (Some (ba_id a)))
       (\<lambda>err. if is_already_exists err then ignored else fail (DatabaseError err))
       (\<lambda>_. accepted ''Note''))))))"

section \<open>Follow, Accept, Reject\<close>

definition handle_follow :: "environment \<Rightarrow> json \<Rightarrow> handled" where
  "handle_follow e activity =
     bind (structured e de_id_actor_object ''unexpected Follow activity structure: '' activity) (\<lambda>a.
     bind (get_or_import_profile_by_actor_id e (ba_actor a)) (\<lambda>source_profile.
     case ap_actor_json source_profile of
       None \<Rightarrow> fail LocalObject
     | Some source_actor \<Rightarrow>
         bind (check (parse_local_actor_id (en_instance_url e) (ba_object a))) (\<lambda>target_username.
         bind (from_db (get_user_by_name target_username)) (\<lambda>target_user.
         bind (draw (en_uuid e)) (\<lambda>request_id.
         bind (from_db (create_remote_follow_request_opt request_id (ap_id source_profile)
           (us_id target_user) (ba_id a))) (\<lambda>follow_request.
         bind (draw (en_now e)) (\<lambda>now.
         bind (db_match (follow_request_accepted now (fr_id follow_request))
           (\<lambda>err. if is_already_exists err then ret () else fail (DatabaseError err)) ret) (\<lambda>_.
         bind (draw (en_uuid e)) (\<lambda>random_id.
         bind (map_failure DatabaseError
           (enqueue e (prepare_accept_follow e random_id target_user source_actor (ba_id a)))) (\<lambda>_.
         accepted ''Person''))))))))))"

text \<open>The request that an \<open>Accept\<close> or \<open>Reject\<close> answers; its target has to be the actor.\<close>

definition answered_request :: "environment \<Rightarrow> basic_activity \<Rightarrow> db_follow_request hm" where
  "answered_request e a =
     bind (from_db (get_profile_by_remote_actor_id (ba_actor a))) (\<lambda>actor_profile.
     bind (check (parse_local_object_id (en_parse_uuid e) (en_instance_url e) (ba_object a))) (\<lambda>request_id.
     bind (from_db (get_follow_request_by_id request_id)) (\<lambda>follow_request.
     if fr_target_id follow_request \<noteq> ap_id actor_profile
     then invalid_data ''actor is not a target''
     else ret follow_request)))"

definition handle_accept :: "environment \<Rightarrow> json \<Rightarrow> handled" where
  "handle_accept e activity =
     bind (structured e de_actor_object ''unexpected Accept activity structure: '' activity) (\<lambda>a.
     bind (answered_request e a) (\<lambda>follow_request.
     if fr_request_status follow_request = Accepted then ignored
     else
       bind (draw (en_now e)) (\<lambda>now.
       bind (from_db (follow_request_accepted now (fr_id follow_request))) (\<lambda>_.
       accepted ''Follow''))))"

definition handle_reject :: "environment \<Rightarrow> json \<Rightarrow> handled" where
  "handle_reject e activity =
     bind (structured e de_actor_object ''unexpected Reject activity structure: '' activity) (\<lambda>a.
     bind (answered_request e a) (\<lambda>follow_request.
     if fr_request_status follow_request = Rejected then ignored
     else
       bind (from_db (follow_request_rejected (fr_id follow_request))) (\<lambda>_.
       accepted ''Follow'')))"

section \<open>Undo\<close>

definition handle_undo_follow :: "environment \<Rightarrow> json \<Rightarrow> handled" where
  "handle_undo_follow e activity =
     bind (structured e (de_with_object Some) ''unexpected UndoFollow activity structure: '' activity)
       (\<lambda>(actor_id, obj).
     bind (from_db (get_profile_by_remote_actor_id actor_id)) (\<lambda>source_profile.
     bind (object_id_of (json_index obj ''object'')) (\<lambda>target_actor_id.
     bind (check (parse_local_actor_id (en_instance_url e) target_actor_id)) (\<lambda>target_username.
     bind (from_db (get_profile_by_acct target_username)) (\<lambda>target_profile.
     found_or_ignore (unfollow (ap_id source_profile) (ap_id target_profile)) (\<lambda>_.
     accepted ''Follow''))))))"

text \<open>
  \<open>handle_undo\<close> looks for a follow request, a reaction and a repost with the identifier, in this
  order. Its branches:
\<close>

definition undo_follow_request :: "db_actor_profile \<Rightarrow> db_follow_request \<Rightarrow> handled" where
  "undo_follow_request actor_profile follow_request =
     (if fr_source_id follow_request \<noteq> ap_id actor_profile
      then invalid_data ''actor is not a follower''
      else
        bind (from_db (unfollow (fr_source_id follow_request) (fr_target_id follow_request))) (\<lambda>_.
        accepted ''Follow''))"

definition undo_reaction :: "db_actor_profile \<Rightarrow> db_reaction \<Rightarrow> handled" where
  "undo_reaction actor_profile reaction =
     (if pr_author_id reaction \<noteq> ap_id actor_profile
      then invalid_data ''actor is not an author''
      else
        bind (from_db (delete_reaction (pr_author_id reaction) (pr_post_id reaction))) (\<lambda>_.
        accepted ''Like''))"

definition undo_repost :: "db_actor_profile \<Rightarrow> post \<Rightarrow> handled" where
  "undo_repost actor_profile post =
     (if ap_id (pd_author (data_of post)) \<noteq> ap_id actor_profile
      then invalid_data ''actor is not an author''
      else if pd_repost_of_id (data_of post) = None
      then invalid_data ''object is not a repost''
      else
        bind (from_db (delete_post (pd_id (data_of post)))) (\<lambda>_.
        accepted ''Announce''))"

definition handle_undo :: "environment \<Rightarrow> json \<Rightarrow> handled" where
  "handle_undo e activity =
     (if object_type_of activity = Some ''Follow'' then handle_undo_follow e activity
      else
        bind (structured e de_actor_object ''unexpected Undo activity structure: '' activity) (\<lambda>a.
        bind (from_db (get_profile_by_remote_actor_id (ba_actor a))) (\<lambda>actor_profile.
        db_match (get_follow_request_by_activity_id (ba_object a))
          (\<lambda>err. if is_not_found err then
             db_match (get_reaction_by_remote_activity_id (ba_object a))
               (\<lambda>err. if is_not_found err then
                  found_or_ignore (get_post_by_remote_object_id (ba_object a)) (undo_repost actor_profile)
                else fail (DatabaseError err))
               (undo_reaction actor_profile)
           else fail (DatabaseError err))
          (undo_follow_request actor_profile))))"

section \<open>Delete\<close>

definition delete_person :: "string \<Rightarrow> handled" where
  "delete_person actor_id =
     found_or_ignore (get_profile_by_remote_actor_id actor_id) (\<lambda>profile.
     bind (from_db (delete_profile (ap_id profile))) (\<lambda>_.
     accepted ''Person''))"

definition handle_delete :: "environment \<Rightarrow> json \<Rightarrow> handled" where
  "handle_delete e activity =
     bind (structured e de_actor_object ''unexpected Delete activity structure: '' activity) (\<lambda>a.
     if ba_object a = ba_actor a then delete_person (ba_object a)
     else
       found_or_ignore (get_post_by_remote_object_id (ba_object a)) (\<lambda>post.
       bind (from_db (get_profile_by_remote_actor_id (ba_actor a))) (\<lambda>actor_profile.
       if ap_id (pd_author (data_of post)) \<noteq> ap_id actor_profile
       then invalid_data ''actor is not an author''
       else
         bind (from_db (delete_post (pd_id (data_of post)))) (\<lambda>_.
         accepted ''Note''))))"

section \<open>Update\<close>

definition handle_update_note :: "environment \<Rightarrow> json \<Rightarrow> handled" where
  "handle_update_note e activity =
     bind (structured e (de_with_object (de_object e)) ''invalid UpdateNote object '' activity) (\<lambda>(actor_id, obj).
     found_or_ignore (get_post_by_remote_object_id (ob_id obj)) (\<lambda>post.
     let author = pd_author (data_of post) in
     if profile_actor_id (en_instance_url e) author \<noteq> actor_id
     then invalid_data ''actor is not an author''
     else
       bind (check (note_content e obj)) (\<lambda>content.
       bind (get_object_attachments e obj author) (\<lambda>(attachments, unprocessed).
       let content = content @ concat (map create_content_link unprocessed) in
       if content = [] \<and> attachments = [] then invalid_data ''post is empty''
       else
         bind (get_object_tags e obj []) (\<lambda>tags.
         bind (case ob_updated obj of Some t \<Rightarrow> ret t | None \<Rightarrow> draw (en_now e)) (\<lambda>updated_at.
         bind (from_db (update_post (pd_id (data_of post))
           \<lparr>pud_content = content,
            pud_is_sensitive = (case ob_sensitive obj of Some b \<Rightarrow> b | None \<Rightarrow> False),
            pud_attachments = attachments, pud_mentions = nt_mentions tags,
            pud_tags = nt_hashtags tags, pud_links = nt_links tags, pud_emojis = nt_emojis tags,
            pud_updated_at = updated_at\<rparr>)) (\<lambda>_.
         accepted ''Note'')))))))"

definition handle_update_person :: "environment \<Rightarrow> json \<Rightarrow> handled" where
  "handle_update_person e activity =
     bind (structured e (de_with_object de_actor) ''invalid UpdatePerson actor data: '' activity) (\<lambda>(actor_id, a).
     if ac_id a \<noteq> actor_id then invalid_data ''actor ID mismatch''
     else
       bind (from_db (get_profile_by_remote_actor_id (ac_id a))) (\<lambda>profile.
       bind (update_remote_profile e profile a) (\<lambda>_.
       accepted ''Person'')))"

definition handle_update :: "environment \<Rightarrow> json \<Rightarrow> handled" where
  "handle_update e activity =
     bind (require (object_type_of activity) ''unknown object type'') (\<lambda>object_type.
     if object_type = ''Note'' then handle_update_note e activity
     else if object_type = ''Person'' then handle_update_person e activity
     else ignored)"

section \<open>Add and Remove\<close>

definition handle_add :: "environment \<Rightarrow> json \<Rightarrow> handled" where
  "handle_add e activity =
     bind (structured e de_actor_object_target ''unexpected Add activity structure: '' activity) (\<lambda>a.
     bind (from_db (get_profile_by_remote_actor_id (ba_actor a))) (\<lambda>actor_profile.
     case ap_actor_json actor_profile of
       None \<Rightarrow> fail LocalObject
     | Some db_actor \<Rightarrow>
         if Some (ba_target a) = da_subscribers db_actor then
           bind (check (parse_local_actor_id (en_instance_url e) (ba_object a))) (\<lambda>username.
           bind (from_db (get_user_by_name username)) (\<lambda>u.
           bind (from_db (subscribe_opt (us_id u) (ap_id actor_profile))) (\<lambda>_.
           accepted ''Person'')))
         else ignored))"

definition handle_remove :: "environment \<Rightarrow> json \<Rightarrow> handled" where
  "handle_remove e activity =
     bind (structured e de_actor_object_target ''unexpected Remove activity structure: '' activity) (\<lambda>a.
     bind (from_db (get_profile_by_remote_actor_id (ba_actor a))) (\<lambda>actor_profile.
     case ap_actor_json actor_profile of
       None \<Rightarrow> fail LocalObject
     | Some db_actor \<Rightarrow>
         if Some (ba_target a) = da_subscribers db_actor then
           bind (check (parse_local_actor_id (en_instance_url e) (ba_object a))) (\<lambda>username.
           bind (from_db (get_user_by_name username)) (\<lambda>u.
           found_or_ignore (unsubscribe (us_id u) (ap_id actor_profile)) (\<lambda>_.
           bind (draw (en_now e)) (\<lambda>now.
           bind (from_db (create_subscription_expiration_notification now (ap_id actor_profile) (us_id u))) (\<lambda>_.
           accepted ''Person'')))))
         else ignored))"

section \<open>Move\<close>

definition moved_profile :: "environment \<Rightarrow> string \<Rightarrow> db_actor_profile hm" where
  "moved_profile e actor_id =
     (case parse_local_actor_id (en_instance_url e) actor_id of
        Inr username \<Rightarrow>
          bind (from_db (get_user_by_name username)) (\<lambda>u. ret (us_profile u))
      | Inl _ \<Rightarrow> get_or_import_profile_by_actor_id e actor_id)"

text \<open>One follower of the old profile: unfollows it and follows the new one.\<close>

definition move_follower ::
    "environment \<Rightarrow> db_actor_profile \<Rightarrow> db_actor_profile \<Rightarrow> db_actor_profile \<Rightarrow> unit hm" where
  "move_follower e old_profile new_profile follower_profile =
     bind (from_db (get_user_by_id (ap_id follower_profile))) (\<lambda>follower.
     bind (from_db (unfollow (us_id follower) (ap_id old_profile))) (\<lambda>maybe_follow_request_id.
     bind (case ap_actor_json old_profile of
             None \<Rightarrow> ret ()
           | Some old_actor \<Rightarrow>
               or_panic maybe_follow_request_id (\<lambda>follow_request_id.
               map_failure DatabaseError
                 (enqueue e (prepare_undo_follow e follower old_actor follow_request_id)))) (\<lambda>_.
     if us_id follower = ap_id new_profile then ret ()
     else
       bind (map_failure DatabaseError (follow_or_create_request e follower new_profile)) (\<lambda>_.
       bind (draw (en_now e)) (\<lambda>now.
       from_db (create_move_notification now (ap_id new_profile) (us_id follower)))))))"

definition handle_move :: "environment \<Rightarrow> json \<Rightarrow> handled" where
  "handle_move e activity =
     bind (structured e de_actor_object_target ''unexpected Move activity structure: '' activity) (\<lambda>a.
     if ba_object a \<noteq> ba_actor a \<and> ba_target a \<noteq> ba_actor a then invalid_data ''actor ID mismatch''
     else
       bind (moved_profile e (ba_object a)) (\<lambda>old_profile.
       let old_actor_id = profile_actor_id (en_instance_url e) old_profile in
       bind (moved_profile e (ba_target a)) (\<lambda>new_profile.
       bind (from_db (find_verified_aliases (en_encode_base58 e) new_profile)) (\<lambda>verified.
       let aliases = map (profile_actor_id (en_instance_url e)) verified @
         into_actor_ids (ap_aliases new_profile) in
       if old_actor_id \<notin> set aliases then invalid_data ''target ID is not an alias''
       else
         bind (from_db (get_followers (ap_id old_profile))) (\<lambda>followers.
         bind (for_each followers (move_follower e old_profile new_profile)) (\<lambda>_.
         accepted ''Person''))))))"

end
