(* ===== verification/Signatures.thy ===== *)
theory Signatures
  imports Fetchers
begin

text \<open>
  HTTP signatures (\<open>src/http_signatures\<close>), JSON signatures (\<open>src/json_signatures\<close>) and the
  authentication of requests (\<open>activitypub/authentication.rs\<close>). RSA, base64, base58 and JSON
  canonicalization are fields of the environment.
\<close>

section \<open>HTTP signatures\<close>

text \<open>A request; the names of its headers are in lower case, as in the header map.\<close>

record http_request =
  rq_method :: string
  rq_path :: string
  rq_headers :: "(string \<times> string) list"

record http_signature_headers =
  hs_host :: string
  hs_date :: string
  hs_digest :: "string option"
  hs_signature :: string

record http_signature_data =
  sd_key_id :: string
  sd_message :: string
  sd_signature :: string
  sd_expires_at :: datetime

type_synonym 'a http_verified = "http_signature_error failure + 'a"

definition rejected :: "http_signature_error \<Rightarrow> 'a http_verified" where
  "rejected err = Inl (Error err)"

definition http_then :: "'a http_verified \<Rightarrow> ('a \<Rightarrow> 'b http_verified) \<Rightarrow> 'b http_verified" where
  "http_then r f = (case r of Inl err \<Rightarrow> Inl err | Inr x \<Rightarrow> f x)"

definition or_reject :: "http_signature_error \<Rightarrow> 'a option \<Rightarrow> 'a http_verified" where
  "or_reject err v = (case v of None \<Rightarrow> rejected err | Some x \<Rightarrow> Inr x)"

text \<open>\<open>HeaderValue::to_str\<close>: visible ASCII characters, spaces and tabs.\<close>

definition header_str :: "string \<Rightarrow> string option" where
  "header_str v =
     (if list_all (\<lambda>c. of_char c = (9 :: nat) \<or> 32 \<le> (of_char c :: nat) \<and> (of_char c :: nat) < 127) v
      then Some v else None)"

definition get_header :: "http_request \<Rightarrow> string \<Rightarrow> string option" where
  "get_header rq name = map_of (rq_headers rq) (to_lowercase name)"

fun split_on :: "char \<Rightarrow> string \<Rightarrow> string list" where
  "split_on c [] = [[]]"
| "split_on c (x # xs) =
     (if x = c then [] # split_on c xs
      else (case split_on c xs of [] \<Rightarrow> [[x]] | part # parts \<Rightarrow> (x # part) # parts))"

fun join_with :: "string \<Rightarrow> string list \<Rightarrow> string" where
  "join_with sep [] = []"
| "join_with sep [part] = part"
| "join_with sep (part # parts) = part @ sep @ join_with sep parts"

text \<open>\<open>^(?P<key>[a-zA-Z]+)="(?P<value>.+)"$\<close> on a text without line breaks\<close>

definition signature_parameter :: "string \<Rightarrow> (string \<times> string) option" where
  "signature_parameter item =
     (let key = takeWhile (\<lambda>c. is_lower c \<or> is_upper c) item;
        rest = dropWhile (\<lambda>c. is_lower c \<or> is_upper c) item in
      if key = [] then None
      else
        (case strip_prefix ''=\"'' rest of
           None \<Rightarrow> None
         | Some quoted \<Rightarrow>
             if 2 \<le> length quoted \<and> last quoted = CHR 0x22 then Some (key, butlast quoted) else None))"

fun signature_parameters :: "string list \<Rightarrow> (string \<times> string) list http_verified" where
  "signature_parameters [] = Inr []"
| "signature_parameters (item # items) =
     http_then (or_reject (HeaderError ''invalid signature header'') (signature_parameter item)) (\<lambda>p.
     http_then (signature_parameters items) (\<lambda>ps. Inr (p # ps)))"

text \<open>Later parameters overwrite earlier ones.\<close>

definition get_parameter :: "(string \<times> string) list \<Rightarrow> string \<Rightarrow> string option" where
  "get_parameter params name = map_of (rev params) name"

definition parse_i64 :: "string \<Rightarrow> int option" where
  "parse_i64 s =
     (let negative = (case s of CHR ''-'' # _ \<Rightarrow> True | _ \<Rightarrow> False);
        ds = (case s of CHR ''-'' # r \<Rightarrow> r | CHR ''+'' # r \<Rightarrow> r | _ \<Rightarrow> s) in
      if ds = [] then None
      else
        (case digits_value 0 ds of
           None \<Rightarrow> None
         | Some n \<Rightarrow>
             let v = (if negative then - int n else int n) in
             if - (2 ^ 63) \<le> v \<and> v < 2 ^ 63 then Some v else None))"

definition timestamp_of :: "environment \<Rightarrow> string \<Rightarrow> datetime http_verified" where
  "timestamp_of e s =
     or_reject (ParseError ''invalid timestamp'') (Option.bind (parse_i64 s) (en_timestamp e))"

definition signature_created :: "environment \<Rightarrow> http_request \<Rightarrow> (string \<times> string) list \<Rightarrow> datetime http_verified" where
  "signature_created e rq params =
     (case get_parameter params ''created'' of
        Some created \<Rightarrow> timestamp_of e created
      | None \<Rightarrow>
          http_then (or_reject (ParseError ''missing date'') (get_header rq ''date'')) (\<lambda>v.
          http_then (or_reject (ParseError ''invalid date header'') (header_str v)) (\<lambda>date.
          or_reject (ParseError ''invalid date'') (en_parse_rfc2822 e date))))"

definition signature_expires ::
    "environment \<Rightarrow> (string \<times> string) list \<Rightarrow> datetime \<Rightarrow> datetime http_verified" where
  "signature_expires e params created_at =
     (case get_parameter params ''expires'' of
        Some expires \<Rightarrow> timestamp_of e expires
      | None \<Rightarrow>
          (case en_plus_hours e created_at 12 of None \<Rightarrow> Inl Panic | Some t \<Rightarrow> Inr t))"

definition message_part :: "http_request \<Rightarrow> (string \<times> string) list \<Rightarrow> string \<Rightarrow> string http_verified" where
  "message_part rq params header =
     (if header = ''(request-target)'' then
        Inr (''(request-target): '' @ to_lowercase (rq_method rq) @ '' '' @ rq_path rq)
      else if header = ''(created)'' then
        http_then (or_reject (ParseError ''created parameter is missing'') (get_parameter params ''created''))
          (\<lambda>created. Inr (''(created): '' @ created))
      else if header = ''(expires)'' then
        http_then (or_reject (ParseError ''expires parameter is missing'') (get_parameter params ''expires''))
          (\<lambda>expires. Inr (''(expires): '' @ expires))
      else
        http_then (or_reject (HeaderError ''missing header'') (get_header rq header)) (\<lambda>v.
        http_then (or_reject (HeaderError ''invalid header value'') (header_str v)) (\<lambda>header_value.
        Inr (header @ '': '' @ header_value))))"

fun message_parts :: "http_request \<Rightarrow> (string \<times> string) list \<Rightarrow> string list \<Rightarrow> string list http_verified" where
  "message_parts rq params [] = Inr []"
| "message_parts rq params (header # headers) =
     http_then (message_part rq params header) (\<lambda>part.
     http_then (message_parts rq params headers) (\<lambda>parts. Inr (part # parts)))"

definition parse_http_signature :: "environment \<Rightarrow> http_request \<Rightarrow> http_signature_data http_verified" where
  "parse_http_signature e rq =
     http_then (or_reject NoSignature (get_header rq ''signature'')) (\<lambda>v.
     http_then (or_reject (HeaderError ''invalid signature header'') (header_str v)) (\<lambda>signature_header.
     http_then (signature_parameters (split_on (CHR '','') signature_header)) (\<lambda>params.
     http_then (or_reject (ParseError ''keyId parameter is missing'') (get_parameter params ''keyId'')) (\<lambda>key_id.
     http_then (or_reject (ParseError ''headers parameter is missing'') (get_parameter params ''headers'')) (\<lambda>headers_parameter.
     http_then (or_reject (ParseError ''signature is missing'') (get_parameter params ''signature'')) (\<lambda>signature.
     http_then (signature_created e rq params) (\<lambda>created_at.
     http_then (signature_expires e params created_at) (\<lambda>expires_at.
     http_then (message_parts rq params (split_on (CHR '' '') headers_parameter)) (\<lambda>parts.
     Inr \<lparr>sd_key_id = key_id, sd_message = join_with [char_of (10 :: nat)] parts,
       sd_signature = signature, sd_expires_at = expires_at\<rparr>)))))))))"

text \<open>An expired signature is only logged.\<close>

definition verify_http_signature :: "environment \<Rightarrow> http_signature_data \<Rightarrow> string \<Rightarrow> unit http_verified" where
  "verify_http_signature e d signer_key =
     http_then (or_reject HttpInvalidEncoding (en_decode_base64 e (sd_signature d))) (\<lambda>signature.
     if en_rsa_verify e signer_key (sd_message d) signature then Inr () else rejected HttpInvalidSignature)"

text \<open>Signing; \<open>None\<close> where the URL is not valid or RSA fails.\<close>

definition signed_headers :: "string \<Rightarrow> string \<Rightarrow> string \<Rightarrow> string option \<Rightarrow> (string \<times> string) list" where
  "signed_headers request_target host date maybe_digest =
     [(''(request-target)'', request_target), (''host'', host), (''date'', date)] @
     (case maybe_digest of None \<Rightarrow> [] | Some digest \<Rightarrow> [(''digest'', digest)])"

definition create_http_signature ::
    "environment \<Rightarrow> datetime \<Rightarrow> string \<Rightarrow> string \<Rightarrow> string \<Rightarrow> string \<Rightarrow> string \<Rightarrow> http_signature_headers option"
where
  "create_http_signature e now request_method request_url request_body signer_key signer_key_id =
     (if \<not> en_url_parses e request_url then None
      else
        let request_target = to_lowercase request_method @ '' '' @ en_url_path e request_url in
        Option.bind (en_url_host_str e request_url) (\<lambda>host.
        let date = en_http_date e now;
          maybe_digest =
            (if request_body = [] then None else Some (''SHA-256='' @ en_message_digest e request_body));
          headers = signed_headers request_target host date maybe_digest;
          message = join_with [char_of (10 :: nat)] (map (\<lambda>(name, v). name @ '': '' @ v) headers);
          headers_parameter = join_with '' '' (map fst headers)
        in Option.bind (en_rsa_sign e signer_key message) (\<lambda>signature.
        Some \<lparr>hs_host = host, hs_date = date, hs_digest = maybe_digest,
          hs_signature = ''keyId=\"'' @ signer_key_id @ ''\",algorithm=\"rsa-sha256\",headers=\"'' @
            headers_parameter @ ''\",signature=\"'' @ en_encode_base64 e signature @ ''\"''\<rparr>)))"

section \<open>JSON signatures\<close>

datatype proof_type = JcsEip191Signature | JcsRsaSignature
datatype json_signer = ActorKeyId string | Signer_Did did

text \<open>\<open>FromStr\<close> of \<open>ProofType\<close> knows one of the two types, \<open>from_cryptosuite\<close> none.\<close>

definition PROOF_TYPE_JCS_RSA :: string where "PROOF_TYPE_JCS_RSA = ''MitraJcsRsaSignature2022''"

definition proof_type_from_str :: "string \<Rightarrow> proof_type option" where
  "proof_type_from_str v = (if v = ''JcsEip191Signature2022'' then Some JcsEip191Signature else None)"

definition proof_type_from_cryptosuite :: "string \<Rightarrow> proof_type option" where
  "proof_type_from_cryptosuite v = None"

record integrity_proof =
  ig_proof_type :: string
  ig_cryptosuite :: "string option"
  ig_proof_purpose :: string
  ig_verification_method :: string
  ig_created :: datetime
  ig_proof_value :: string

definition de_integrity_proof :: "environment \<Rightarrow> json \<Rightarrow> integrity_proof option" where
  "de_integrity_proof e v =
     Option.bind (struct_view [''type'', ''cryptosuite'', ''proofPurpose'', ''verificationMethod'',
       ''created'', ''proofValue''] [] v) (\<lambda>field.
     Option.bind (de_required json_string (field ''type'')) (\<lambda>ty.
     Option.bind (de_option json_string (field ''cryptosuite'')) (\<lambda>cryptosuite.
     Option.bind (de_required json_string (field ''proofPurpose'')) (\<lambda>proof_purpose.
     Option.bind (de_required json_string (field ''verificationMethod'')) (\<lambda>verification_method.
     Option.bind (de_required (de_datetime e) (field ''created'')) (\<lambda>created.
     Option.bind (de_required json_string (field ''proofValue'')) (\<lambda>proof_value.
     Some \<lparr>ig_proof_type = ty, ig_cryptosuite = cryptosuite, ig_proof_purpose = proof_purpose,
       ig_verification_method = verification_method, ig_created = created,
       ig_proof_value = proof_value\<rparr>)))))))"

definition ser_integrity_proof :: "environment \<Rightarrow> integrity_proof \<Rightarrow> json" where
  "ser_integrity_proof e p = JObject
     ([(''type'', JString (ig_proof_type p))] @ ser_optional ''cryptosuite'' (ig_cryptosuite p) @
      [(''proofPurpose'', JString (ig_proof_purpose p)),
       (''verificationMethod'', JString (ig_verification_method p)),
       (''created'', JString (en_show_datetime e (ig_created p))),
       (''proofValue'', JString (ig_proof_value p))])"

datatype signing_error =
  Sign_CanonicalizationError | SigningError | Sign_InvalidObject | AlreadySigned

definition integrity_proof_jcs_rsa :: "environment \<Rightarrow> datetime \<Rightarrow> string \<Rightarrow> 8 word list \<Rightarrow> integrity_proof" where
  "integrity_proof_jcs_rsa e now signer_key_id signature =
     \<lparr>ig_proof_type = PROOF_TYPE_JCS_RSA, ig_cryptosuite = None, ig_proof_purpose = ''assertionMethod'',
      ig_verification_method = signer_key_id, ig_created = now,
      ig_proof_value = encode_multibase_base58btc (en_encode_base58 e) signature\<rparr>"

fun add_integrity_proof :: "environment \<Rightarrow> json \<Rightarrow> integrity_proof \<Rightarrow> signing_error + json" where
  "add_integrity_proof e (JObject fs) proof =
     (if map_of fs ''proof'' \<noteq> None then Inl AlreadySigned
      else Inr (JObject (fs @ [(''proof'', ser_integrity_proof e proof)])))"
| "add_integrity_proof e _ proof = Inl Sign_InvalidObject"

definition sign_object :: "environment \<Rightarrow> datetime \<Rightarrow> json \<Rightarrow> string \<Rightarrow> string \<Rightarrow> signing_error + json" where
  "sign_object e now obj signer_key signer_key_id =
     (case en_canonicalize e obj of
        None \<Rightarrow> Inl Sign_CanonicalizationError
      | Some message \<Rightarrow>
          (case en_rsa_sign e signer_key message of
             None \<Rightarrow> Inl SigningError
           | Some signature \<Rightarrow>
               add_integrity_proof e obj (integrity_proof_jcs_rsa e now signer_key_id signature)))"

definition is_object_signed :: "json \<Rightarrow> bool" where
  "is_object_signed obj = (json_field ''proof'' obj \<noteq> None)"

record json_signature_data =
  jd_signature_type :: proof_type
  jd_signer :: json_signer
  jd_message :: string
  jd_signature :: "8 word list"

type_synonym 'a json_verified = "json_signature_error + 'a"

definition or_unproved :: "json_signature_error \<Rightarrow> 'a option \<Rightarrow> ('a \<Rightarrow> 'b json_verified) \<Rightarrow> 'b json_verified" where
  "or_unproved err v f = (case v of None \<Rightarrow> Inl err | Some x \<Rightarrow> f x)"

fun object_map :: "json \<Rightarrow> (string \<times> json) list option" where
  "object_map (JObject fs) = Some fs"
| "object_map _ = None"

definition get_json_signature :: "environment \<Rightarrow> json \<Rightarrow> json_signature_data json_verified" where
  "get_json_signature e obj =
     or_unproved JsonInvalidObject (object_map obj) (\<lambda>fs.
     or_unproved NoProof (map_of fs ''proof'') (\<lambda>proof_value.
     or_unproved (InvalidProof ''invalid proof'') (de_integrity_proof e proof_value) (\<lambda>proof.
     if ig_proof_purpose proof \<noteq> ''assertionMethod'' then Inl (InvalidProof ''invalid proof purpose'')
     else if ig_proof_type proof = ''DataIntegrityProof'' \<and> ig_cryptosuite proof = None
     then Inl (InvalidProof ''cryptosuite is not specified'')
     else
       or_unproved (InvalidProof ''unsupported proof type'')
         (if ig_proof_type proof = ''DataIntegrityProof''
          then Option.bind (ig_cryptosuite proof) proof_type_from_cryptosuite
          else proof_type_from_str (ig_proof_type proof)) (\<lambda>ty.
       or_unproved (InvalidProof ''unsupported verification method'')
         (case did_from_str (en_decode_base58 e) (ig_verification_method proof) of
            Inr d \<Rightarrow> Some (Signer_Did d)
          | Inl _ \<Rightarrow>
              if en_url_parses e (ig_verification_method proof)
              then Some (ActorKeyId (ig_verification_method proof)) else None) (\<lambda>signer.
       or_unproved CanonicalizationError
         (en_canonicalize e (JObject (filter (\<lambda>(name, _). name \<noteq> ''proof'') fs))) (\<lambda>message.
       case decode_multibase_base58btc (en_decode_base58 e) (ig_proof_value proof) of
         Inl _ \<Rightarrow> Inl JsonInvalidEncoding
       | Inr signature \<Rightarrow>
           Inr \<lparr>jd_signature_type = ty, jd_signer = signer, jd_message = message,
             jd_signature = signature\<rparr>))))))"

definition verify_rsa_json_signature :: "environment \<Rightarrow> json_signature_data \<Rightarrow> string \<Rightarrow> unit json_verified" where
  "verify_rsa_json_signature e d signer_key =
     (if en_rsa_verify e signer_key (jd_message d) (jd_signature d) then Inr () else Inl JsonInvalidSignature)"

section \<open>Authentication\<close>

type_synonym 'a am = "(authentication_error, 'a) app_m"

fun trim_end_matches :: "nat \<Rightarrow> string \<Rightarrow> string \<Rightarrow> string" where
  "trim_end_matches 0 suffix_rev s_rev = s_rev"
| "trim_end_matches (Suc n) suffix_rev s_rev =
     (case strip_prefix suffix_rev s_rev of None \<Rightarrow> s_rev | Some r \<Rightarrow> trim_end_matches n suffix_rev r)"

text \<open>The URL without query and fragment, without any \<open>/main-key\<close> at its end.\<close>

definition key_id_to_actor_id :: "environment \<Rightarrow> string \<Rightarrow> string option" where
  "key_id_to_actor_id e key_id =
     (if \<not> en_url_parses e key_id then None
      else
        let actor_id = en_url_before_query e key_id in
        Some (rev (trim_end_matches (length actor_id) (rev ''/main-key'') (rev actor_id))))"

definition get_signer :: "environment \<Rightarrow> string \<Rightarrow> bool \<Rightarrow> db_actor_profile am" where
  "get_signer e signer_id no_fetch =
     (if no_fetch then db_call AuthDatabaseError (get_profile_by_remote_actor_id signer_id)
      else
        catching (get_or_import_profile_by_actor_id e signer_id)
          (\<lambda>err. case err of
             DatabaseError db_err \<Rightarrow> fail (AuthDatabaseError db_err)
           | _ \<Rightarrow> fail ImportError)
          ret)"

definition http_checked :: "'a http_verified \<Rightarrow> 'a am" where
  "http_checked r =
     (case r of
        Inl Panic \<Rightarrow> panic
      | Inl (Error err) \<Rightarrow> fail (HttpSignatureError err)
      | Inr x \<Rightarrow> ret x)"

definition auth_require :: "authentication_error \<Rightarrow> 'a option \<Rightarrow> 'a am" where
  "auth_require err v = (case v of None \<Rightarrow> fail err | Some x \<Rightarrow> ret x)"

definition public_key :: "environment \<Rightarrow> db_actor \<Rightarrow> string am" where
  "public_key e a =
     (let pem = pk_public_key_pem (da_public_key a) in
      if en_public_key_valid e pem then ret pem else fail InvalidPublicKey)"

definition verify_signed_request :: "environment \<Rightarrow> http_request \<Rightarrow> bool \<Rightarrow> db_actor_profile am" where
  "verify_signed_request e rq no_fetch =
     (if parse_http_signature e rq = rejected NoSignature then fail NoHttpSignature
      else
        bind (http_checked (parse_http_signature e rq)) (\<lambda>signature_data.
        bind (auth_require InvalidKeyId (key_id_to_actor_id e (sd_key_id signature_data))) (\<lambda>signer_id.
        bind (get_signer e signer_id no_fetch) (\<lambda>signer.
        or_panic (ap_actor_json signer) (\<lambda>signer_actor.
        bind (public_key e signer_actor) (\<lambda>signer_key.
        bind (http_checked (verify_http_signature e signature_data signer_key)) (\<lambda>_.
        ret signer)))))))"

definition json_checked :: "'a json_verified \<Rightarrow> 'a am" where
  "json_checked r = (case r of Inl err \<Rightarrow> fail (JsonSignatureError err) | Inr x \<Rightarrow> ret x)"

definition verify_signed_activity :: "environment \<Rightarrow> json \<Rightarrow> bool \<Rightarrow> db_actor_profile am" where
  "verify_signed_activity e activity no_fetch =
     (if get_json_signature e activity = Inl NoProof then fail NoJsonSignature
      else
        bind (json_checked (get_json_signature e activity)) (\<lambda>signature_data.
        bind (auth_require (ActorError ''unknown actor'') (json_string (json_index activity ''actor''))) (\<lambda>actor_id.
        bind (get_signer e actor_id no_fetch) (\<lambda>actor_profile.
        case jd_signer signature_data of
          ActorKeyId key_id \<Rightarrow>
            if jd_signature_type signature_data \<noteq> JcsRsaSignature then fail InvalidJsonSignatureType
            else
              bind (auth_require InvalidKeyId (key_id_to_actor_id e key_id)) (\<lambda>signer_id.
              if signer_id \<noteq> actor_id then fail UnexpectedSigner
              else
                or_panic (ap_actor_json actor_profile) (\<lambda>signer_actor.
                bind (public_key e signer_actor) (\<lambda>signer_key.
                bind (json_checked (verify_rsa_json_signature e signature_data signer_key)) (\<lambda>_.
                ret actor_profile))))
        | Signer_Did d \<Rightarrow> fail InvalidJsonSignatureType))))"

end
