(* ===== verification/Receiver.thy ===== *)
theory Receiver
  imports Handlers Signatures
begin

text \<open>
  The inbox (\<open>activitypub/receiver.rs\<close>): dispatch of activities to their handlers, and the
  authentication and filtering of a request before its activity is handled or queued. At the end
  the import of an outbox (\<open>activitypub/fetcher/helpers.rs\<close>).
\<close>

section \<open>Dispatch\<close>

definition dispatch :: "environment \<Rightarrow> string \<Rightarrow> json \<Rightarrow> bool \<Rightarrow> handled" where
  "dispatch e activity_type activity is_authenticated =
     (if activity_type = ''Accept'' then handle_accept e activity
      else if activity_type = ''Add'' then handle_add e activity
      else if activity_type = ''Announce'' then handle_announce e activity
      else if activity_type = ''Create'' then handle_create e activity is_authenticated
      else if activity_type = ''Delete'' then handle_delete e activity
      else if activity_type = ''Follow'' then handle_follow e activity
      else if activity_type = ''Like'' \<or> activity_type = ''EmojiReact'' then handle_like e activity
      else if activity_type = ''Move'' then handle_move e activity
      else if activity_type = ''Reject'' then handle_reject e activity
      else if activity_type = ''Remove'' then handle_remove e activity
      else if activity_type = ''Undo'' then handle_undo e activity
      else if activity_type = ''Update'' then handle_update e activity
      else ignored)"

definition handle_activity :: "environment \<Rightarrow> json \<Rightarrow> bool \<Rightarrow> unit hm" where
  "handle_activity e activity is_authenticated =
     bind (require (json_string (json_index activity ''type'')) ''type property is missing'') (\<lambda>activity_type.
     bind (require (json_string (json_index activity ''actor'')) ''actor property is missing'') (\<lambda>_.
     bind (dispatch e activity_type activity is_authenticated) (\<lambda>_.
     ret ())))"

text \<open>What the incoming queue sees of a call (\<open>activitypub/queues.rs\<close>); a panic ends the run.\<close>

definition outcome_of :: "(handler_error failure + unit) \<Rightarrow> handler_outcome option" where
  "outcome_of r =
     (case r of
        Inr _ \<Rightarrow> Some Handled
      | Inl (Error (FetchError RecursionError)) \<Rightarrow> Some Recursion_Error
      | Inl (Error _) \<Rightarrow> Some Handler_Error
      | Inl Panic \<Rightarrow> None)"

section \<open>Receiving\<close>

text \<open>
  Who signed: \<open>None\<close> when the activity is to be ignored. A deletion of the actor by itself need not
  be signed when the actor is not known.
\<close>

definition request_signer :: "environment \<Rightarrow> http_request \<Rightarrow> bool \<Rightarrow> db_actor_profile option hm" where
  "request_signer e rq is_self_delete =
     catching (verify_signed_request e rq is_self_delete)
       (\<lambda>err.
          if is_self_delete \<and>
            (case err of
               NoHttpSignature \<Rightarrow> True
             | AuthDatabaseError (NotFound _) \<Rightarrow> True
             | _ \<Rightarrow> False)
          then ret None else fail (AuthError err))
       (\<lambda>signer. ret (Some signer))"

text \<open>The activity signature is optional; a wrong one is only logged.\<close>

definition activity_signer :: "environment \<Rightarrow> json \<Rightarrow> bool \<Rightarrow> db_actor_profile \<Rightarrow> db_actor_profile hm" where
  "activity_signer e activity is_self_delete signer =
     catching (verify_signed_activity e activity is_self_delete) (\<lambda>_. ret signer) ret"

definition queued_types :: "string list" where
  "queued_types = [''Announce'', ''Create'', ''Delete'', ''Move'', ''Undo'', ''Update'']"

definition enqueue_incoming :: "environment \<Rightarrow> json \<Rightarrow> bool \<Rightarrow> unit hm" where
  "enqueue_incoming e activity is_authenticated =
     bind (draw (en_uuid e)) (\<lambda>job_id.
     bind (draw (en_now e)) (\<lambda>now.
     from_db (incoming_into_job job_id now (incoming_job_new activity is_authenticated) 0)))"

text \<open>The last part: the activity of an accepted signer is queued or handled.\<close>

definition admit_activity :: "environment \<Rightarrow> string \<Rightarrow> json \<Rightarrow> bool \<Rightarrow> unit hm" where
  "admit_activity e activity_type activity is_authenticated =
     bind (if activity_type = ''Create'' then
             bind (structured e (de_with_object (de_object e)) ''invalid CreateNote object: '' activity)
               (\<lambda>(_, obj). is_unsolicited_message e obj)
           else ret False) (\<lambda>unsolicited.
     if unsolicited then ret ()
     else if activity_type \<in> set queued_types then enqueue_incoming e activity is_authenticated
     else handle_activity e activity is_authenticated)"

definition authorize_activity ::
    "environment \<Rightarrow> string \<Rightarrow> string \<Rightarrow> json \<Rightarrow> db_actor_profile \<Rightarrow> unit hm" where
  "authorize_activity e activity_type activity_actor activity signer =
     (if (case ap_hostname signer of Some h \<Rightarrow> h \<in> set (en_blocked_instances e) | None \<Rightarrow> False) then ret ()
      else
        let signer_id = profile_actor_id (en_instance_url e) signer;
          is_authenticated = activity_actor = signer_id in
        if is_authenticated \<or> activity_type = ''Create''
        then admit_activity e activity_type activity is_authenticated
        else if activity_type = ''Delete'' \<or> activity_type = ''Like'' then ret ()
        else fail (AuthError UnexpectedSigner))"

definition receive_activity :: "environment \<Rightarrow> http_request \<Rightarrow> json \<Rightarrow> unit hm" where
  "receive_activity e rq activity =
     bind (require (json_string (json_index activity ''type'')) ''type property is missing'') (\<lambda>activity_type.
     bind (require (json_string (json_index activity ''actor'')) ''actor property is missing'') (\<lambda>activity_actor.
     bind (require (if en_url_parses e activity_actor then en_url_host_str e activity_actor else None)
       ''invalid actor ID'') (\<lambda>actor_hostname.
     if actor_hostname \<in> set (en_blocked_instances e) then ret ()
     else
       bind (if activity_type = ''Delete'' then
               bind (object_id_of (json_index activity ''object'')) (\<lambda>object_id.
               ret (object_id = activity_actor))
             else ret False) (\<lambda>is_self_delete.
       bind (request_signer e rq is_self_delete) (\<lambda>maybe_signer.
       case maybe_signer of
         None \<Rightarrow> ret ()
       | Some signer \<Rightarrow>
           bind (activity_signer e activity is_self_delete signer) (\<lambda>signer.
           authorize_activity e activity_type activity_actor activity signer))))))"

section \<open>Outbox\<close>

definition import_from_outbox :: "environment \<Rightarrow> string \<Rightarrow> nat \<Rightarrow> unit hm" where
  "import_from_outbox e actor_id limit =
     bind (fetched (fetch_actor e actor_id)) (\<lambda>a.
     bind (fetched (fetch_outbox e (ac_outbox a) limit)) (\<lambda>activities.
     for_each activities (\<lambda>activity.
       bind (require (json_string (json_index activity ''actor''))
         ''actor property is missing from activity'') (\<lambda>activity_actor.
       if activity_actor \<noteq> ac_id a then ret ()
       else catching (handle_activity e activity True) (\<lambda>_. ret ()) ret))))"

end
