(* ===== verification/Federation_Laws.thy ===== *)
theory Federation_Laws
  imports Receiver Readability
begin

text \<open>
  Federation and the database: whatever other servers send and answer, the handlers change the
  database only by the steps of \<open>System\<close>. A contract of the steps gives the contract of the
  handlers.
\<close>

section \<open>Lookups\<close>

lemma keeps_from_result: "keeps P (case r of Inl err \<Rightarrow> throw err | Inr x \<Rightarrow> ret x)"
  by (simp add: keeps_throw keeps_ret split: sum.split)

lemma keeps_profile_lookups [keeps_intro]:
  "keeps P (get_profile_by_remote_actor_id a)" "keeps P (get_profile_by_acct c)"
  unfolding get_profile_by_remote_actor_id_def get_profile_by_acct_def
  by (auto intro!: keeps_intro split: sum.split)

lemma keeps_emoji_lookup [keeps_intro]: "keeps P (get_emoji_by_remote_object_id i)"
  unfolding get_emoji_by_remote_object_id_def by (intro keeps_intro)

lemma keeps_user_lookups [keeps_intro]: "keeps P (get_user_by_name n)" "keeps P (get_user_by_id i)"
  unfolding get_user_by_name_def get_user_by_id_def find_user_def by (auto intro!: keeps_intro)

lemma keeps_query_post [keeps_intro]: "keeps P (query_post p)"
  unfolding query_post_def by (intro keeps_intro)

lemma keeps_post_lookups [keeps_intro]:
  "keeps P (get_post_by_remote_object_id i)" "keeps P (get_post_by_id j)"
  "keeps P (get_local_post_by_id j)" "keeps P (get_post_by_object_id e i)"
  unfolding get_post_by_object_id_def get_local_post_by_id_def get_post_by_id_def
    get_post_by_remote_object_id_def
  by (auto intro!: keeps_intro split: sum.split)

lemma keeps_request_lookups [keeps_intro]:
  "keeps P (get_follow_request_by_id i)" "keeps P (get_follow_request_by_activity_id a)"
  "keeps P (get_reaction_by_remote_activity_id a)" "keeps P (has_local_followers a)"
  unfolding get_follow_request_by_id_def get_follow_request_by_activity_id_def
    get_reaction_by_remote_activity_id_def has_local_followers_def
  by (intro keeps_intro)+

lemma keeps_relationship_lookups [keeps_intro]:
  "keeps P (get_followers i)" "keeps P (get_following i)" "keeps P (get_subscribers i)"
  "keeps P (get_post_author p)" "keeps P (find_verified_aliases enc ap)"
  unfolding get_followers_def get_following_def get_subscribers_def get_post_author_def
    find_verified_aliases_def search_profiles_by_did_only_def
  by (intro keeps_intro)+

section \<open>Names\<close>

lemma word_char_plain:
  "is_word c \<Longrightarrow> c \<noteq> CHR ''@'' \<and> to_lower c \<noteq> CHR ''%'' \<and> to_lower c \<noteq> char_of (92 :: nat)"
proof -
  assume word: "is_word c"
  have at: "c \<noteq> CHR ''@''" using word by (auto simp: char_class_defs)
  have "(of_char (to_lower c) :: nat) \<noteq> 37 \<and> (of_char (to_lower c) :: nat) \<noteq> 92"
  proof (cases "is_upper c")
    case True
    then have "(of_char c + 32 :: nat) < 256" and "97 \<le> (of_char c + 32 :: nat)"
      by (simp_all add: is_upper_def)
    then show ?thesis by (simp add: True to_lower_def)
  next
    case False
    with word show ?thesis by (auto simp: to_lower_def is_word_def is_lower_def is_digit_def)
  qed
  with at show ?thesis by auto
qed

lemma word_username_ok:
  assumes "list_all is_word u"
  shows "username_ok u"
proof -
  from assms have "list_all (\<lambda>c. c \<noteq> CHR ''@'' \<and> to_lower c \<noteq> CHR ''%'' \<and> to_lower c \<noteq> char_of (92 :: nat)) u"
    by (rule list.pred_mono_strong) (rule word_char_plain)
  then have "list_all (\<lambda>c. to_lower c \<noteq> CHR ''%'' \<and> to_lower c \<noteq> char_of (92 :: nat)) u"
    and "CHR ''@'' \<notin> set u"
    by (simp_all only: list_all_iff) blast+
  then show ?thesis
    unfolding username_ok_def plain_pattern_def to_lowercase_def list.pred_map comp_def by simp
qed

section \<open>What a lookup of a post returns\<close>

lemma query_post_okD:
  assumes "query_post p db = (Inr po, db')"
  shows "db' = db \<and> (\<exists>row \<in> set (t_post db). \<exists>ap \<in> set (t_actor_profile db).
    p row \<and> ap_id ap = po_author_id row \<and> pd_id (data_of po) = po_id row \<and> pd_author (data_of po) = ap \<and>
    pd_repost_of_id (data_of po) = po_repost_of_id row \<and> pd_object_id (data_of po) = po_object_id row)"
proof -
  from assms obtain r where found: "filter (\<lambda>r. p (row_post r)) (post_rows db) = [r]"
    and r: "post_try_from r = Inr po" and db': "db' = db"
    by (auto simp: query_post_def db_ok)
  have "r \<in> set (filter (\<lambda>r. p (row_post r)) (post_rows db))" by (simp only: found list.set_intros)
  then obtain row ap where row: "row \<in> set (t_post db)" "p row" "ap \<in> set (t_actor_profile db)"
    "ap_id ap = po_author_id row" and "r = row_of db row ap"
    by (auto simp: post_rows_def row_of_def)
  with r have "pd_id (data_of po) = po_id row \<and> pd_author (data_of po) = ap \<and>
      pd_repost_of_id (data_of po) = po_repost_of_id row \<and> pd_object_id (data_of po) = po_object_id row"
    by (auto simp: post_try_from_def post_new_def row_of_def split: if_splits)
  with row db' show ?thesis by blast
qed

lemma get_post_by_object_id_okD:
  assumes "get_post_by_object_id e i db = (Inr po, db')"
  shows "db' = db \<and> pd_id (data_of po) \<in> post_ids db"
proof (cases "parse_local_object_id (en_parse_uuid e) (en_instance_url e) i")
  case (Inl err)
  with assms query_post_okD [of "\<lambda>row. po_object_id row = Some i" db po db'] show ?thesis
    by (auto simp: get_post_by_object_id_def get_post_by_remote_object_id_def)
next
  case (Inr j)
  with assms obtain db1 where "get_post_by_id j db = (Inr po, db1)" and "db' = db1"
    by (auto simp: get_post_by_object_id_def get_local_post_by_id_def db_ok split: if_splits)
  with query_post_okD [of "\<lambda>row. po_id row = j" db po db'] show ?thesis
    by (auto simp: get_post_by_id_def)
qed

section \<open>From one property to another\<close>

text \<open>Like \<open>keeps\<close>, with a property after the run that is weaker than the one before it.\<close>

definition leads :: "('s \<Rightarrow> bool) \<Rightarrow> ('s \<Rightarrow> bool) \<Rightarrow> ('s, 'e, 'a) result_m \<Rightarrow> bool" where
  "leads P Q m \<longleftrightarrow> (\<forall>s. P s \<longrightarrow> Q (snd (m s)))"

lemma leads_bind:
  assumes "keeps P m" and "\<And>x. leads P Q (f x)" and "\<And>s. P s \<Longrightarrow> Q s"
  shows "leads P Q (bind m f)"
  using assms by (auto simp: leads_def keeps_def bind_def split: prod.splits sum.splits)

lemma leadsD: "leads P Q m \<Longrightarrow> P s \<Longrightarrow> m s = (r, s') \<Longrightarrow> Q s'"
  unfolding leads_def by (metis snd_conv)

lemma leads_from_db:
  "(\<And>db r db'. P db \<Longrightarrow> m db = (r, db') \<Longrightarrow> Q db') \<Longrightarrow> leads (\<lambda>w. P (fst w)) (\<lambda>w. Q (fst w)) (from_db m)"
  by (auto simp: leads_def from_db_def db_call_def split: prod.splits sum.splits)

section \<open>The contract\<close>

text \<open>
  A property of databases that every step keeps and that comes with the invariant of the tables.
\<close>

locale step_closed =
  fixes P :: "database \<Rightarrow> bool"
  assumes step_P: "P db \<Longrightarrow> db_step db db' \<Longrightarrow> P db'"
    and inv_P: "P db \<Longrightarrow> db_inv db"
begin

abbreviation W :: "world \<Rightarrow> bool" where
  "W w \<equiv> P (fst w)"

lemma keeps_step: "(\<And>db. db_step db (snd (m db))) \<Longrightarrow> keeps P m"
  by (auto simp: keeps_def intro: step_P)

lemma keeps_emoji_steps [keeps_intro]:
  "keeps P (create_emoji i n h img obj t)" "keeps P (update_emoji i img t)"
  by (rule keeps_step, rule db_step.intros)+

lemma keeps_profile_steps [keeps_intro]:
  "keeps P (update_profile now i d)" "keeps P (delete_profile i)"
  by (rule keeps_step, rule db_step.intros)+

lemma keeps_create_profile: "pc_actor_json d \<noteq> None \<Longrightarrow> keeps P (create_profile i now d)"
  by (rule keeps_step) (rule db_step.profile_created)

lemma keeps_create_user:
  "create_user i now d = Some m \<Longrightarrow> username_ok (uc_username d) \<Longrightarrow> keeps P m"
  by (rule keeps_step) (rule db_step.user_created)

lemma keeps_create_attachment: "create_attachment now i o' n s ty = Some m \<Longrightarrow> keeps P m"
  by (rule keeps_step) (rule db_step.attachment_created)

lemma keeps_relationship_steps [keeps_intro]:
  "keeps P (follow now s t)" "keeps P (unfollow s t)" "keeps P (create_follow_request i s t)"
  "keeps P (create_remote_follow_request_opt i s t a)" "keeps P (follow_request_accepted now i)"
  "keeps P (follow_request_rejected i)" "keeps P (subscribe_opt s t)" "keeps P (unsubscribe s t)"
  by (rule keeps_step, rule db_step.intros)+

lemma keeps_post_steps [keeps_intro]:
  "keeps P (update_post i pud)" "keeps P (delete_post i)" "keeps P (create_reaction now i a po act)"
  "keeps P (delete_reaction a po)"
  by (rule keeps_step, rule db_step.intros)+

lemma keeps_create_post:
  "pcd_in_reply_to_id d = None \<Longrightarrow> keeps P (create_post now i a d)"
  by (rule keeps_step) (rule db_step.posted, simp)

lemma keeps_notification: "s \<noteq> r \<Longrightarrow> keeps P (create_notification now s r po ty)"
  by (rule keeps_step) (rule db_step.notified)

lemma keeps_enqueue_job [keeps_intro]: "keeps P (enqueue_job i now ty v t)"
  by (rule keeps_step) (rule db_step.intros)

lemma keeps_queue_steps [keeps_intro]:
  "keeps P (incoming_into_job i now d n)" "keeps P (outgoing_into_job pr i now d' n)"
  "keeps P (enqueue_activity pr i now v s rs)"
  unfolding incoming_into_job_def outgoing_into_job_def enqueue_activity_def
  by (auto intro: keeps_enqueue_job keeps_ret)

subsection \<open>Fetching\<close>

lemma keeps_http_get [keeps_intro]: "keeps W (http_get e url)"
  unfolding http_get_def by (intro keeps_intro) (simp add: keeps_intro split: sum.split)

lemma keeps_fetch_json [keeps_intro]: "keeps W (fetch_json e de url)"
  unfolding fetch_json_def parsed_def by (intro keeps_intro)

lemma keeps_fetch_file [keeps_intro]: "keeps W (fetch_file e url t n)"
  unfolding fetch_file_def save_file_def Let_def by (intro keeps_intro)

lemma keeps_fetches [keeps_intro]:
  "keeps W (fetch_actor e url)" "keeps W (fetch_object e url)" "keeps W (fetch_outbox e url n)"
  "keeps W (perform_webfinger_query e a)"
  unfolding fetch_actor_def fetch_object_def fetch_outbox_def perform_webfinger_query_def Let_def
  by (intro keeps_intro)+

lemma keeps_fetched [keeps_intro]: "keeps W m \<Longrightarrow> keeps W (fetched m)"
  unfolding fetched_def by (rule keeps_map_failure)

subsection \<open>Emojis and profiles\<close>

lemma keeps_case_prod: "(\<And>a b. keeps Q (f a b)) \<Longrightarrow> keeps Q (case p of (a, b) \<Rightarrow> f a b)"
  by (simp split: prod.split)

lemma keeps_store_emoji [keeps_intro]: "keeps W (store_emoji e tag n i)"
  unfolding store_emoji_def Let_def
  by (auto intro!: keeps_intro split: option.split)

lemma keeps_handle_emoji [keeps_intro]: "keeps W (handle_emoji e v)"
  unfolding handle_emoji_def Let_def by (auto intro!: keeps_intro split: option.split)

lemma keeps_push_emoji [keeps_intro]: "keeps W (push_emoji e v emojis)"
  unfolding push_emoji_def by (auto intro!: keeps_intro split: option.split)

lemma keeps_parse_tags [keeps_intro]: "keeps W (parse_tags e a)"
  unfolding parse_tags_def by (auto intro!: keeps_intro)

lemma keeps_fetch_actor_images [keeps_intro]: "keeps W (fetch_actor_images e a x y)"
  unfolding fetch_actor_images_def fetch_profile_image_def
  by (auto intro!: keeps_intro split: option.split)

lemma keeps_bind_check: "(\<And>x. r = Inr x \<Longrightarrow> keeps Q (f x)) \<Longrightarrow> keeps Q (bind (check r) f)"
  by (cases r) (auto simp: check_def panic_def invalid_data_def fail_def keeps_throw
    split: failure.split)

lemma keeps_save_profile:
  assumes "clean_profile_create_data e d = Inr d'" and "pc_actor_json d \<noteq> None"
  shows "keeps W (bind (draw (en_uuid e)) (\<lambda>i. bind (draw (en_now e)) (\<lambda>now. from_db (create_profile i now d'))))"
proof -
  from assms have "pc_actor_json d' \<noteq> None" by (simp add: clean_create_keeps)
  then show ?thesis by (intro keeps_bind keeps_draw keeps_from_db keeps_create_profile)
qed

lemma keeps_create_remote_profile [keeps_intro]: "keeps W (create_remote_profile e a)"
proof -
  have save: "keeps W (bind (check (clean_profile_create_data e d)) (\<lambda>d'. bind (draw (en_uuid e)) (\<lambda>i.
      bind (draw (en_now e)) (\<lambda>now. from_db (create_profile i now d')))))"
    if "pc_actor_json d \<noteq> None" for d
    by (rule keeps_bind_check) (rule keeps_save_profile [OF _ that])
  show ?thesis
    unfolding create_remote_profile_def
    by ((rule save, simp) | rule keeps_bind keeps_check keeps_if keeps_fail keeps_case_prod
        keeps_fetch_actor_images keeps_parse_tags)+
qed

lemma keeps_update_remote_profile [keeps_intro]: "keeps W (update_remote_profile e ap a)"
  unfolding update_remote_profile_def by (intro keeps_intro keeps_case_prod)

lemma keeps_get_or_import_by_id [keeps_intro]: "keeps W (get_or_import_profile_by_actor_id e i)"
  unfolding get_or_import_profile_by_actor_id_def
  by (auto intro!: keeps_intro)

lemma keeps_get_or_import_by_address [keeps_intro]:
  "keeps W (get_or_import_profile_by_actor_address e a)"
  unfolding get_or_import_profile_by_actor_address_def import_profile_by_actor_address_def Let_def
  by (auto intro!: keeps_intro)

subsection \<open>Movie accounts\<close>

lemma keeps_or_creation_error [keeps_intro]: "keeps Q (or_creation_error v)"
  unfolding or_creation_error_def by (auto intro!: keeps_intro split: option.split)

lemma keeps_movie_images [keeps_intro]: "keeps W (fetch_movie_image e url)"
  unfolding fetch_movie_image_def by (auto intro!: keeps_intro split: option.split)

lemma keeps_create_movie_user [keeps_intro]: "keeps W (create_movie_user e m pw)"
proof (cases "is_ok (validate_local_username (movie_username e m))")
  case True
  then have ok: "username_ok (movie_username e m)"
    by (auto simp: is_ok_def validate_local_username_ok word_username_ok split: sum.splits)
  show ?thesis
    unfolding create_movie_user_def Let_def
    by (insert ok, ((rule keeps_create_user, assumption, simp) | rule keeps_intro)+)
next
  case False
  then show ?thesis unfolding create_movie_user_def Let_def by (simp add: keeps_fail)
qed

lemma keeps_lookup_movie [keeps_intro]: "keeps W (lookup_and_create_movie_user e k n)"
  unfolding lookup_and_create_movie_user_def get_movie_info_def Let_def
  by (auto intro!: keeps_intro split: option.split list.split)

subsection \<open>Notes\<close>

lemma keeps_save_attachment:
  "keeps W (or_panic (create_attachment now i a n sz t) (\<lambda>m. bind (from_db m) (\<lambda>x. ret (ma_id x))))"
  by (intro keeps_or_panic keeps_bind keeps_from_db keeps_ret) (rule keeps_create_attachment)

lemma keeps_download_attachments [keeps_intro]: "keeps W (download_attachments e i attachments d u)"
  by (induction e i attachments d u rule: download_attachments.induct) (auto intro!: keeps_intro)

lemma keeps_get_object_attachments [keeps_intro]: "keeps W (get_object_attachments e obj author)"
  unfolding get_object_attachments_def
  by (intro keeps_case_option keeps_bind keeps_ret keeps_require keeps_download_attachments
    keeps_case_prod keeps_collect keeps_draw keeps_save_attachment)

lemma keeps_mentioned_user [keeps_intro]: "keeps W (mentioned_user e n)"
  unfolding mentioned_user_def by (auto intro!: keeps_intro split: option.split)

lemma keeps_find_mentioned [keeps_intro]: "keeps W (find_mentioned e tag)"
  unfolding find_mentioned_def mention_by_id_def mention_by_address_def
  by (auto intro!: keeps_intro split: option.split sum.split handler_error.split db_error.split)

lemma keeps_push_linked_post [keeps_intro]: "keeps W (push_linked_post e i links)"
  unfolding push_linked_post_def by (intro keeps_intro)

lemma keeps_push_tag [keeps_intro]: "keeps W (push_tag e redirects v tags)"
  unfolding push_tag_def push_mention_def push_object_link_def Let_def
  by (auto intro!: keeps_intro split: option.split)

lemma keeps_get_object_tags [keeps_intro]: "keeps W (get_object_tags e obj redirects)"
  unfolding get_object_tags_def by (auto intro!: keeps_intro split: option.split)

text \<open>
  The parent of a reply is looked up right before the post is created, and nothing in between
  touches the database: it is still there.
\<close>

abbreviation with_parent :: "uuid option \<Rightarrow> database \<Rightarrow> bool" where
  "with_parent parent db \<equiv> P db \<and> (\<forall>i. parent = Some i \<longrightarrow> i \<in> post_ids db)"

lemma step_reply:
  "create_post now j a d db = (r, db') \<Longrightarrow> with_parent (pcd_in_reply_to_id d) db \<Longrightarrow> P db'"
  using step_P [OF _ db_step.posted] by (metis snd_conv)

lemma leads_save_note:
  "leads (\<lambda>w. with_parent parent (fst w)) W (save_note e obj author content attachments tags parent)"
  unfolding save_note_def
  by (intro leads_bind keeps_check keeps_case_option keeps_ret keeps_draw leads_from_db)
    ((elim step_reply, simp) | simp)+

lemma keeps_parent_save [keeps_intro]:
  "keeps W (bind (note_parent e obj redirects) (save_note e obj author content attachments tags))"
proof (rule keepsI)
  fix w r w'
  assume P: "W w"
    and run: "bind (note_parent e obj redirects) (save_note e obj author content attachments tags) w = (r, w')"
  obtain out w1 where parent: "note_parent e obj redirects w = (out, w1)"
    by (cases "note_parent e obj redirects w")
  have "keeps W (note_parent e obj redirects)"
    unfolding note_parent_def by (intro keeps_intro)
  then have W1: "W w1" using P parent unfolding keeps_def by (metis snd_conv)
  show "W w'"
  proof (cases out)
    case (Inl err)
    with run parent W1 show ?thesis by (simp add: bind_Inl)
  next
    case (Inr maybe_parent)
    with parent have "with_parent maybe_parent (fst w1)"
      using W1 by (auto simp: note_parent_def db_ok dest!: get_post_by_object_id_okD split: option.splits)
    moreover from run parent Inr
    have "save_note e obj author content attachments tags maybe_parent w1 = (r, w')"
      by (simp add: bind_Inr)
    ultimately show ?thesis using leadsD [OF leads_save_note] by blast
  qed
qed

lemma keeps_handle_note [keeps_intro]: "keeps W (handle_note e redirects obj)"
  unfolding handle_note_def Let_def
  by (intro keeps_if keeps_invalid_data keeps_parent_save keeps_bind keeps_check
    keeps_get_or_import_by_id keeps_get_object_attachments keeps_case_prod keeps_get_object_tags)

subsection \<open>Posts with what they refer to\<close>

lemma keeps_look_up_queued [keeps_intro]: "keeps W (look_up_queued e i objects)"
  unfolding look_up_queued_def by (auto intro!: keeps_intro split: sum.split)

lemma keeps_import_loop [keeps_intro]: "keeps W (import_loop e queue n held objects redirects)"
proof (induction e queue n held objects redirects rule: import_loop.induct)
  case (1 e n held objects redirects)
  show ?case by (simp add: import_loop.simps keeps_ret)
next
  case (2 e object_id queue n held objects redirects)
  have known: "keeps W (import_loop e queue n held objects redirects)"
    by (rule 2(1) [OF refl])
  have held: "keeps W (import_loop e (ob_id obj # queue) n (Some obj) objects ((object_id, ob_id obj) # redirects))"
    if "held = Some obj" and "ob_id obj \<noteq> object_id" for obj
    by (rule 2(4) [OF refl that])
  have taken: "keeps W (import_loop e (opt_list (ob_in_reply_to obj) @ queue @ get_object_links obj) n None
      (objects @ [obj]) redirects)"
    if "held = Some obj" and "\<not> ob_id obj \<noteq> object_id" for obj
    by (rule 2(5) [OF refl that])
  have held': "keeps W (import_loop e (ob_id obj # queue) (n + 1) (Some obj) objects ((object_id, ob_id obj) # redirects))"
    if "held = None" and "\<not> RECURSION_DEPTH_MAX \<le> n" and "ob_id obj \<noteq> object_id" for obj
    by (rule 2(2) [OF refl that])
  have taken': "keeps W (import_loop e (opt_list (ob_in_reply_to obj) @ queue @ get_object_links obj) (n + 1) None
      (objects @ [obj]) redirects)"
    if "held = None" and "\<not> RECURSION_DEPTH_MAX \<le> n" and "\<not> ob_id obj \<noteq> object_id" for obj
    by (rule 2(3) [OF refl that])
  show ?case
    by (subst import_loop.simps, intro keeps_bind keeps_look_up_queued, split queued.split, split option.split,
        intro conjI impI allI keeps_ret known keeps_if held taken keeps_fail keeps_bind keeps_map_failure
          keeps_fetches held' taken')
qed

lemma keeps_import_post [keeps_intro]: "keeps W (import_post e i received)"
  unfolding import_post_def
  by (auto intro!: keeps_if keeps_fail keeps_bind keeps_import_loop keeps_ret keeps_panic keeps_collect
    keeps_handle_note split: sum.split prod.split list.split option.split)

subsection \<open>Handlers\<close>

lemma keeps_found_or_ignore [keeps_intro]:
  "keeps P m \<Longrightarrow> (\<And>x. keeps W (f x)) \<Longrightarrow> keeps W (found_or_ignore m f)"
  unfolding found_or_ignore_def ignored_def by (intro keeps_intro)

lemma keeps_accepted [keeps_intro]: "keeps W (accepted ty)" "keeps W ignored"
  unfolding accepted_def ignored_def by (rule keeps_ret)+

lemma keeps_structured [keeps_intro]: "keeps W (structured e de msg activity)"
  unfolding structured_def by (rule keeps_require)

lemma keeps_enqueue [keeps_intro]: "keeps W (enqueue e out)"
  unfolding enqueue_def by (intro keeps_intro)

lemma keeps_is_unsolicited_message [keeps_intro]: "keeps W (is_unsolicited_message e obj)"
  unfolding is_unsolicited_message_def Let_def by (intro keeps_intro)

lemma keeps_handle_create [keeps_intro]: "keeps W (handle_create e activity b)"
  unfolding handle_create_def Let_def by (intro keeps_intro keeps_case_prod)

lemma keeps_create_repost [keeps_intro]:
  "keeps P (create_post now i a (post_create_data_repost t po obj))"
  by (rule keeps_create_post) (simp add: post_create_data_repost_def)

lemma keeps_announce_target [keeps_intro]:
  "keeps W (case parse_local_object_id (en_parse_uuid e) (en_instance_url e) i of
     Inl _ \<Rightarrow> bind (import_post e i None) (\<lambda>post. ret (pd_id (data_of post))) | Inr j \<Rightarrow> ret j)"
  by (auto intro!: keeps_bind keeps_import_post keeps_ret split: sum.split)

lemma keeps_handle_announce [keeps_intro]: "keeps W (handle_announce e activity)"
  unfolding handle_announce_def by (intro keeps_intro)

lemma keeps_handle_like [keeps_intro]: "keeps W (handle_like e activity)"
  unfolding handle_like_def by (intro keeps_intro)

lemma keeps_handle_follow [keeps_intro]: "keeps W (handle_follow e activity)"
  unfolding handle_follow_def by (intro keeps_intro)

lemma keeps_answered_request [keeps_intro]: "keeps W (answered_request e a)"
  unfolding answered_request_def by (intro keeps_intro)

lemma keeps_handle_answers [keeps_intro]:
  "keeps W (handle_accept e activity)" "keeps W (handle_reject e activity)"
  unfolding handle_accept_def handle_reject_def by (intro keeps_intro)+

lemma keeps_handle_undo [keeps_intro]: "keeps W (handle_undo e activity)"
  unfolding handle_undo_def handle_undo_follow_def undo_follow_request_def undo_reaction_def
    undo_repost_def
  by (intro keeps_intro keeps_case_prod)

lemma keeps_handle_delete [keeps_intro]: "keeps W (handle_delete e activity)"
  unfolding handle_delete_def delete_person_def by (intro keeps_intro)

lemma keeps_handle_update [keeps_intro]: "keeps W (handle_update e activity)"
  unfolding handle_update_def handle_update_note_def handle_update_person_def Let_def
  by (intro keeps_intro keeps_case_prod)

lemma keeps_handle_add [keeps_intro]: "keeps W (handle_add e activity)"
  unfolding handle_add_def by (intro keeps_intro)

lemma keeps_moved_profile [keeps_intro]: "keeps W (moved_profile e i)"
  unfolding moved_profile_def by (auto intro!: keeps_intro split: sum.split)

lemma keeps_follow_or_create_request [keeps_intro]: "keeps W (follow_or_create_request e u ap)"
  unfolding follow_or_create_request_def by (intro keeps_intro)

lemma keeps_move_notification [keeps_intro]:
  "keeps W (if us_id u = ap_id ap then ret ()
     else bind m (\<lambda>_. bind (draw (en_now e)) (\<lambda>now. from_db (create_move_notification now (ap_id ap) (us_id u)))))"
  if "keeps W m"
  using that unfolding create_move_notification_def
  by (intro keeps_if keeps_ret keeps_bind keeps_draw keeps_from_db keeps_notification) auto

lemma keeps_move_follower [keeps_intro]: "keeps W (move_follower e old_profile new_profile ap)"
  unfolding move_follower_def
  by (intro keeps_bind keeps_from_db keeps_user_lookups keeps_relationship_steps keeps_case_option
    keeps_ret keeps_or_panic keeps_map_failure keeps_enqueue keeps_move_notification
    keeps_follow_or_create_request)

lemma keeps_handle_move [keeps_intro]: "keeps W (handle_move e activity)"
  unfolding handle_move_def Let_def by (intro keeps_intro)

text \<open>A subscription that ends joined two profiles, so nobody is notified of their own action.\<close>

lemma unsubscribe_self: "P db \<Longrightarrow> unsubscribe s s db \<noteq> (Inr u, db')"
proof
  assume "P db" and "unsubscribe s s db = (Inr u, db')"
  then have "related s s Subscription db" and "wf_db db"
    using unsubscribe_okD [of s s db u db'] inv_P [of db] by (simp_all add: db_inv_def)
  then show False using wf_not_self [of db] by (fastforce simp: related_def relationship_row_def)
qed

lemma keeps_end_subscription [keeps_intro]:
  "keeps W (found_or_ignore (unsubscribe s t) (\<lambda>_. bind (draw (en_now e)) (\<lambda>now.
     bind (from_db (create_subscription_expiration_notification now t s)) (\<lambda>_. accepted ty))))"
proof (cases "s = t")
  case False
  then show ?thesis
    unfolding create_subscription_expiration_notification_def
    by (intro keeps_found_or_ignore keeps_relationship_steps keeps_bind keeps_draw keeps_from_db
      keeps_notification keeps_accepted) simp
next
  case True
  show ?thesis
  proof (rule keepsI)
    fix w r w'
    assume P: "W w" and run: "found_or_ignore (unsubscribe s t) (\<lambda>_. bind (draw (en_now e)) (\<lambda>now.
      bind (from_db (create_subscription_expiration_notification now t s)) (\<lambda>_. accepted ty))) w = (r, w')"
    obtain err db' where fails: "unsubscribe s t (fst w) = (Inl err, db')"
      using unsubscribe_self [OF P] True by (metis surj_pair sum.exhaust)
    have ks: "keeps P (unsubscribe s t)" by (rule keeps_relationship_steps)
    have "P db'" by (rule keepsD [OF ks P fails])
    with run fails show "W w'"
      by (auto simp: found_or_ignore_def db_match_def catching_def attempt_def db_call_def ignored_def
        fail_def ret_def throw_def split: prod.splits if_splits)
  qed
qed

lemma keeps_handle_remove [keeps_intro]: "keeps W (handle_remove e activity)"
  unfolding handle_remove_def
  by (intro keeps_bind keeps_structured keeps_from_db keeps_profile_lookups keeps_case_option keeps_fail
    keeps_if keeps_check keeps_user_lookups keeps_end_subscription keeps_accepted)

subsection \<open>The inbox\<close>

lemma keeps_handle_activity [keeps_intro]: "keeps W (handle_activity e activity b)"
  unfolding handle_activity_def dispatch_def by (intro keeps_intro)

lemma keeps_get_signer [keeps_intro]: "keeps W (get_signer e i no_fetch)"
  unfolding get_signer_def
  by (auto intro!: keeps_intro split: handler_error.split)

lemma keeps_signature_checks [keeps_intro]:
  "keeps Q (http_checked r)" "keeps Q (auth_require err v)" "keeps Q (public_key e a)"
  "keeps Q (json_checked r')"
  unfolding http_checked_def auth_require_def public_key_def json_checked_def Let_def
  by (simp_all add: keeps_intro split: sum.split failure.split option.split)

lemma keeps_verify_signed_request [keeps_intro]: "keeps W (verify_signed_request e rq b)"
  unfolding verify_signed_request_def by (intro keeps_intro)

lemma keeps_case_signer: "(\<And>k. keeps Q (f k)) \<Longrightarrow> (\<And>d. keeps Q (g d)) \<Longrightarrow>
    keeps Q (case s of ActorKeyId k \<Rightarrow> f k | Signer_Did d \<Rightarrow> g d)"
  by (simp split: json_signer.split)

lemma keeps_verify_signed_activity [keeps_intro]: "keeps W (verify_signed_activity e activity b)"
  unfolding verify_signed_activity_def by (intro keeps_intro keeps_case_signer)

lemma keeps_admit_activity [keeps_intro]: "keeps W (admit_activity e ty activity b)"
  unfolding admit_activity_def enqueue_incoming_def by (intro keeps_intro keeps_case_prod)

lemma keeps_authorize_activity [keeps_intro]: "keeps W (authorize_activity e ty i activity signer)"
  unfolding authorize_activity_def Let_def by (intro keeps_if keeps_intro)

lemma keeps_receive_activity [keeps_intro]: "keeps W (receive_activity e rq activity)"
  unfolding receive_activity_def request_signer_def activity_signer_def by (intro keeps_intro)

lemma keeps_import_from_outbox [keeps_intro]: "keeps W (import_from_outbox e i n)"
  unfolding import_from_outbox_def by (intro keeps_intro)

end

section \<open>Reachable databases\<close>

interpretation federation: step_closed reachable
  by unfold_locales (simp_all add: reachable.step reachable_serves)

end
