(* ===== verification/Federation_Sample.thy ===== *)
theory Federation_Sample
  imports Receiver Sample
begin

text \<open>
  An environment for the witnesses: a server at \<open>https://l.example\<close> that reaches nobody. Its
  identifiers, its base64 and its RSA are simple functions with the laws of the real ones.
\<close>

section \<open>Codecs\<close>

text \<open>An identifier is printed in unary, a byte as two letters.\<close>

definition sample_show_uuid :: "uuid \<Rightarrow> string" where
  "sample_show_uuid u = CHR ''-'' # replicate (unat u) (CHR ''1'')"

definition sample_parse_uuid :: "string \<Rightarrow> uuid option" where
  "sample_parse_uuid s = Some (of_nat (length s - 1))"

lemma sample_uuid_codec: "uuid_codec sample_show_uuid sample_parse_uuid"
  by (simp add: uuid_codec_def sample_show_uuid_def sample_parse_uuid_def is_uuid_char_def
    is_digit_def list_all_iff)

definition sample_encode :: "8 word list \<Rightarrow> string" where
  "sample_encode bs = concat (map (\<lambda>b.
     [char_of (65 + unat b div 16), char_of (65 + unat b mod 16)]) bs)"

fun sample_decode :: "string \<Rightarrow> 8 word list option" where
  "sample_decode [] = Some []"
| "sample_decode (c # d # s) =
     map_option (Cons (of_nat ((of_char c - 65) * 16 + (of_char d - 65)))) (sample_decode s)"
| "sample_decode _ = None"

lemma sample_code: "sample_decode (sample_encode bs) = Some bs"
proof (induction bs)
  case (Cons b bs)
  have "unat b < 256" using unsigned_less [of b] by simp
  then have "unat b div 16 < 16" "unat b mod 16 < 16" by auto
  then have "(of_char (char_of (65 + unat b div 16) :: char) :: nat) - 65 = unat b div 16"
    "(of_char (char_of (65 + unat b mod 16) :: char) :: nat) - 65 = unat b mod 16"
    by simp_all
  with Cons show ?case by (simp add: sample_encode_def)
qed (simp add: sample_encode_def)

lemma sample_encode_letters: "c \<in> set (sample_encode bs) \<Longrightarrow> 65 \<le> (of_char c :: nat) \<and> (of_char c :: nat) \<le> 80"
proof (induction bs)
  case (Cons b bs)
  have "unat b < 256" using unsigned_less [of b] by simp
  then have "unat b div 16 < 16" "unat b mod 16 < 16" by auto
  with Cons show ?case by (auto simp: sample_encode_def)
qed (simp add: sample_encode_def)

section \<open>The environment\<close>

definition sample_env :: environment where
  "sample_env =
     \<lparr>en_instance_url = ''https://l.example'', en_hostname = ''l.example'',
      en_blocked_instances = [], en_fep_e232 = False, en_tmdb_api_key = None,
      en_movie_user_password = None, en_file_size_limit = 100, en_emoji_size_limit = 100,
      en_now = (\<lambda>n. 100), en_uuid = (\<lambda>n. of_nat (n + 100)),
      en_secret = (\<lambda>n. ''secret''), en_http_any = (\<lambda>n url. None),
      en_http_get = (\<lambda>n url. Inl RequestError), en_query_url = (\<lambda>url q. url),
      en_write_file = (\<lambda>n name data. True), en_password_hash = (\<lambda>n. Some),
      en_rsa_key_pem = (\<lambda>n. Some ''key''), en_show_uuid = sample_show_uuid,
      en_parse_uuid = sample_parse_uuid, en_show_json = (\<lambda>v. ''''),
      en_show_fetch_error = (\<lambda>err. ''''), en_parse_json = (\<lambda>s. None),
      en_parse_datetime = (\<lambda>s. Some (int (length s))), en_url_parses = (\<lambda>url. True),
      en_url_host = (\<lambda>url. Some ''r.example''),
      en_url_host_str = (\<lambda>url. Some ''r.example''),
      en_url_before_query = takeWhile (\<lambda>c. c \<noteq> CHR ''#''),
      en_is_ip_address = (\<lambda>s. False), en_clean_html = (\<lambda>classes s. s),
      en_clean_html_strict = (\<lambda>tags classes s. s), en_markdown_basic = Some,
      en_word_chars = list_all is_word, en_is_alphanumeric = list_all is_word,
      en_is_whitespace = list_all (\<lambda>c. c = CHR '' ''), en_is_uppercase = list_all is_upper,
      en_uppercase = (\<lambda>s. s), en_lowercase = to_lowercase, en_trim = (\<lambda>s. s),
      en_chars = map (\<lambda>c. [c]), en_sha256_hex = (\<lambda>s. s),
      en_sniff_media_type = (\<lambda>s. None), en_extension = (\<lambda>s. None),
      en_encode_base58 = sample_encode, en_decode_base58 = sample_decode,
      en_encode_base64 = sample_encode, en_decode_base64 = sample_decode,
      en_canonicalize = (\<lambda>v. Some ''''), en_message_digest = (\<lambda>s. ''digest''),
      en_public_key_of = Some, en_instance_public_key = Some ''key'',
      en_public_key_valid = (\<lambda>s. True),
      en_rsa_sign = (\<lambda>key message. Some (map of_char (key @ message))),
      en_rsa_verify = (\<lambda>key message signature. signature = map of_char (key @ message)),
      en_show_datetime = (\<lambda>t. replicate (nat t) (CHR ''0'')),
      en_http_date = (\<lambda>t. ''date''), en_parse_rfc2822 = (\<lambda>s. Some 100),
      en_timestamp = Some, en_plus_hours = (\<lambda>t h. Some (t + 3600 * int h)),
      en_url_path = (\<lambda>url. ''/inbox''), en_markdown_lite = Some,
      en_verify_password = (\<lambda>h p. Some (h = p)), en_read_media = (\<lambda>n name. Some ''data''),
      en_ipfs_add = (\<lambda>n data. Some ''cid''), en_ipfs_api = True,
      en_invite_only = False, en_read_only_users = False, en_federation_enabled = True,
      en_keep_posts_days = Some 1, en_keep_profiles_days = Some 1,
      en_escape_html = id, en_html_text = id, en_show_rfc3339 = (\<lambda>_. ''1970-01-01T00:00:00+00:00''),
      en_markdown_to_html = id\<rparr>"

section \<open>Activities and requests\<close>

definition remote_says :: "string \<Rightarrow> json \<Rightarrow> json" where
  "remote_says ty obj = JObject
     [(''type'', JString ty), (''id'', JString ''https://r.example/1''),
      (''actor'', JString ''https://r.example/u''), (''object'', obj)]"

text \<open>A request that the remote actor of \<open>remote_db\<close> has signed.\<close>

definition sample_request :: http_request where
  "sample_request =
     \<lparr>rq_method = ''POST'', rq_path = ''/inbox'',
      rq_headers = [(''date'', ''date''),
        (''signature'', ''keyId=\"https://r.example/u#main-key\",headers=\"date\",signature=\"'' @
           sample_encode (map of_char (''p'' @ ''date: date'')) @ ''\"'')]\<rparr>"

lemma sample_signer:
  "request_signer sample_env sample_request False (remote_db, 0) = (Inr (Some remote_profile), (remote_db, 1))"
  by code_simp

end
