(* ===== verification/Federation_Safety.thy ===== *)
theory Federation_Safety
  imports Federation_Laws Federation_Sample
begin

text \<open>
  What activities of other servers can do: every database they lead to is a reachable one, only
  the author of a post can delete it or undo a repost, only the target of a follow request can
  answer it, and a request without a valid signature changes nothing.
\<close>

named_theorems reads_intro \<open>calls that leave the database alone\<close>
named_theorems within_intro \<open>rules for what a handler may do to the database\<close>

section \<open>What a handler may do\<close>

text \<open>\<open>within R db m\<close>: on the database \<open>db\<close>, \<open>m\<close> changes nothing or leads to a database in \<open>R\<close>.\<close>

definition only_reads :: "(database, 'e, 'a) result_m \<Rightarrow> bool" where
  "only_reads m \<longleftrightarrow> (\<forall>db. snd (m db) = db)"

definition within :: "(database \<Rightarrow> bool) \<Rightarrow> database \<Rightarrow> (world, 'e, 'a) result_m \<Rightarrow> bool" where
  "within R db m \<longleftrightarrow> (\<forall>n. fst (snd (m (db, n))) = db \<or> R (fst (snd (m (db, n)))))"

lemma withinD: "within R db m \<Longrightarrow> fst (snd (m (db, n))) = db \<or> R (fst (snd (m (db, n))))"
  by (simp add: within_def)

lemma within_mono: "within R db m \<Longrightarrow> (\<And>db'. R db' \<Longrightarrow> R' db') \<Longrightarrow> within R' db m"
  by (auto simp: within_def)

lemma keeps_reads: "(\<And>P. keeps P m) \<Longrightarrow> only_reads m"
  unfolding only_reads_def
proof
  fix db
  assume ks: "\<And>P. keeps P m"
  have "keeps (\<lambda>d. d = db) m" by (rule ks)
  then show "snd (m db) = db" by (simp add: keeps_def)
qed

lemma readsD: "only_reads m \<Longrightarrow> m db = (r, db') \<Longrightarrow> db' = db"
  unfolding only_reads_def by (metis snd_conv)

lemma reads_lookups [reads_intro]:
  "only_reads (get_profile_by_remote_actor_id i)" "only_reads (get_profile_by_acct i)"
  "only_reads (get_post_by_remote_object_id i)" "only_reads (get_user_by_name i)"
  "only_reads (get_follow_request_by_id j)" "only_reads (get_follow_request_by_activity_id i)"
  "only_reads (get_reaction_by_remote_activity_id i)" "only_reads (has_local_followers i)"
  by (rule keeps_reads, rule keeps_profile_lookups keeps_post_lookups keeps_request_lookups keeps_user_lookups)+

lemma within_unchanged [within_intro]:
  "within R db (ret x)" "within R db (throw err')" "within R db (fail err)" "within R db panic"
  "within R db (invalid_data msg)" "within R db (accepted ty)" "within R db ignored"
  by (simp_all add: within_def ret_def throw_def fail_def panic_def invalid_data_def accepted_def ignored_def)

lemma within_check [within_intro]:
  "(\<And>x. r = Inr x \<Longrightarrow> within R db (f x)) \<Longrightarrow> within R db (bind (check r) f)"
  by (cases r) (auto simp: within_def bind_def check_def panic_def invalid_data_def fail_def ret_def throw_def
    split: failure.splits)

lemma within_require [within_intro]:
  "(\<And>x. v = Some x \<Longrightarrow> within R db (f x)) \<Longrightarrow> within R db (bind (require v msg) f)"
  by (cases v) (auto simp: within_def bind_def require_def invalid_data_def fail_def ret_def throw_def)

lemma within_structured [within_intro]:
  "(\<And>x. de activity = Some x \<Longrightarrow> within R db (f x)) \<Longrightarrow> within R db (bind (structured e de msg activity) f)"
  unfolding structured_def by (rule within_require)

lemma within_draw [within_intro]:
  "(\<And>x. within R db (f x)) \<Longrightarrow> within R db (bind (draw tape) f)"
  by (auto simp: within_def bind_def draw_def)

lemma within_from_db [within_intro]:
  assumes "only_reads m" and "\<And>x. m db = (Inr x, db) \<Longrightarrow> within R db (f x)"
  shows "within R db (bind (from_db m) f)"
proof (cases "m db")
  case (Pair r db')
  with assms(1) have [simp]: "db' = db" by (rule readsD)
  show ?thesis
  proof (cases r)
    case (Inl err)
    with Pair show ?thesis by (simp add: within_def bind_def from_db_def db_call_def)
  next
    case (Inr x)
    with assms(2) [of x] Pair show ?thesis by (simp add: within_def bind_def from_db_def db_call_def)
  qed
qed

lemma within_db_match [within_intro]:
  assumes "only_reads m" and "\<And>err. within R db (g err)"
    and "\<And>x. m db = (Inr x, db) \<Longrightarrow> within R db (f x)"
  shows "within R db (db_match m g f)"
proof (cases "m db")
  case (Pair r db')
  with assms(1) have [simp]: "db' = db" by (rule readsD)
  show ?thesis
  proof (cases r)
    case (Inl err)
    with assms(2) [of err] Pair show ?thesis
      by (simp add: within_def db_match_def catching_def attempt_def db_call_def)
  next
    case (Inr x)
    with assms(3) [of x] Pair show ?thesis
      by (simp add: within_def db_match_def catching_def attempt_def db_call_def)
  qed
qed

lemma within_found_or_ignore [within_intro]:
  "only_reads m \<Longrightarrow> (\<And>x. m db = (Inr x, db) \<Longrightarrow> within R db (f x)) \<Longrightarrow> within R db (found_or_ignore m f)"
  unfolding found_or_ignore_def by (rule within_db_match) (simp_all add: within_unchanged)

lemma within_bind:
  assumes "within (\<lambda>_. False) db m" and "\<And>n x w. m (db, n) = (Inr x, w) \<Longrightarrow> within R db (f x)"
  shows "within R db (bind m f)"
  unfolding within_def
proof
  fix n
  obtain r db' n' where run: "m (db, n) = (r, (db', n'))" by (metis surj_pair)
  with withinD [OF assms(1), of n] have [simp]: "db' = db" by simp
  show "fst (snd (bind m f (db, n))) = db \<or> R (fst (snd (bind m f (db, n))))"
  proof (cases r)
    case (Inl err)
    with run show ?thesis by (simp add: bind_def)
  next
    case (Inr x)
    with assms(2) run have "within R db (f x)" by blast
    with Inr run show ?thesis by (auto simp: bind_def dest: withinD)
  qed
qed

lemma within_write [within_intro]:
  "R (snd (m db)) \<Longrightarrow> within R db (bind (from_db m) (\<lambda>_. accepted ty))"
  by (auto simp: within_def bind_def from_db_def db_call_def accepted_def ret_def split: prod.splits sum.splits)

lemma within_if [within_intro]:
  "(c \<Longrightarrow> within R db m) \<Longrightarrow> (\<not> c \<Longrightarrow> within R db m') \<Longrightarrow> within R db (if c then m else m')"
  by simp

lemma within_case_prod [within_intro]:
  "(\<And>a b. p = (a, b) \<Longrightarrow> within R db (f a b)) \<Longrightarrow> within R db (case p of (a, b) \<Rightarrow> f a b)"
  by (simp split: prod.split)

section \<open>Rows behind lookups\<close>

lemma guarded_ok:
  "(case r of Inl err \<Rightarrow> throw err | Inr (_ :: unit) \<Rightarrow> m) w = (Inr x, w') \<longleftrightarrow> r = Inr () \<and> m w = (Inr x, w')"
  by (cases r) (simp_all add: throw_ok)

lemma actor_lookupD:
  assumes "get_profile_by_remote_actor_id i db = (Inr ap, db')"
  shows "ap \<in> set (t_actor_profile db)" and "ap_actor_id ap = Some i"
proof -
  from assms have found: "filter (\<lambda>ap. ap_actor_id ap = Some i) (t_actor_profile db) = [ap]"
    by (auto simp: get_profile_by_remote_actor_id_def db_ok guarded_ok)
  have "ap \<in> set (filter (\<lambda>ap. ap_actor_id ap = Some i) (t_actor_profile db))"
    by (simp only: found list.set_intros)
  then show "ap \<in> set (t_actor_profile db)" and "ap_actor_id ap = Some i" by simp_all
qed

lemma object_lookupD:
  assumes "get_post_by_remote_object_id i db = (Inr po, db')"
  obtains row where "row \<in> set (t_post db)" "pd_author (data_of po) \<in> set (t_actor_profile db)"
    "po_object_id row = Some i" "ap_id (pd_author (data_of po)) = po_author_id row"
    "pd_id (data_of po) = po_id row" "pd_repost_of_id (data_of po) = po_repost_of_id row"
  using query_post_okD [of "\<lambda>row. po_object_id row = Some i" db po db'] assms
  unfolding get_post_by_remote_object_id_def by blast

lemma request_lookupD:
  "get_follow_request_by_id j db = (Inr fr, db') \<Longrightarrow> fr \<in> set (t_follow_request db)"
  "get_follow_request_by_activity_id i db = (Inr fr, db') \<Longrightarrow>
     fr \<in> set (t_follow_request db) \<and> fr_activity_id fr = Some i"
  unfolding get_follow_request_by_id_def get_follow_request_by_activity_id_def
  by (auto simp: db_ok filter_eq_Cons_iff)

lemma reaction_lookupD:
  "get_reaction_by_remote_activity_id i db = (Inr pr, db') \<Longrightarrow>
     pr \<in> set (t_post_reaction db) \<and> pr_activity_id pr = Some i"
  unfolding get_reaction_by_remote_activity_id_def by (auto simp: db_ok filter_eq_Cons_iff)

section \<open>Deleting\<close>

definition is_actor :: "db_actor_profile \<Rightarrow> string \<Rightarrow> database \<Rightarrow> bool" where
  "is_actor profile actor_id db \<longleftrightarrow> profile \<in> set (t_actor_profile db) \<and> ap_actor_id profile = Some actor_id"

definition deletes_person :: "string \<Rightarrow> database \<Rightarrow> database \<Rightarrow> bool" where
  "deletes_person actor_id db db' \<longleftrightarrow>
     (\<exists>profile. is_actor profile actor_id db \<and> db' = snd (delete_profile (ap_id profile) db))"

definition deletes_own_post :: "string \<Rightarrow> string \<Rightarrow> database \<Rightarrow> database \<Rightarrow> bool" where
  "deletes_own_post actor_id object_id db db' \<longleftrightarrow>
     (\<exists>row author. row \<in> set (t_post db) \<and> is_actor author actor_id db \<and>
       po_object_id row = Some object_id \<and> po_author_id row = ap_id author \<and>
       db' = snd (delete_post (po_id row) db))"

lemma actor_found: "get_profile_by_remote_actor_id i db = (Inr ap, db') \<Longrightarrow> is_actor ap i db"
  by (simp add: is_actor_def actor_lookupD)

lemma within_delete_person: "within (deletes_person i db) db (delete_person i)"
  unfolding delete_person_def
  by (intro within_found_or_ignore within_write reads_lookups) (auto simp: deletes_person_def dest: actor_found)

lemma own_post_deleted:
  assumes "get_post_by_remote_object_id object_id db = (Inr po, db)"
    and "get_profile_by_remote_actor_id actor_id db = (Inr profile, db)"
    and "\<not> ap_id (pd_author (data_of po)) \<noteq> ap_id profile"
  shows "deletes_own_post actor_id object_id db (snd (delete_post (pd_id (data_of po)) db))"
proof -
  from assms(1) obtain row where "row \<in> set (t_post db)" "po_object_id row = Some object_id"
    "ap_id (pd_author (data_of po)) = po_author_id row" "pd_id (data_of po) = po_id row"
    by (rule object_lookupD)
  then show ?thesis
    using actor_found [OF assms(2)] assms(3) unfolding deletes_own_post_def by auto
qed

lemma within_handle_delete:
  "within (\<lambda>db'. \<exists>a. de_actor_object activity = Some a \<and>
       (ba_object a = ba_actor a \<and> deletes_person (ba_actor a) db db' \<or>
        deletes_own_post (ba_actor a) (ba_object a) db db')) db (handle_delete e activity)"
  unfolding handle_delete_def
  by (intro within_intro reads_intro within_mono [OF within_delete_person]) (auto dest: own_post_deleted)

section \<open>Answers to follow requests\<close>

definition answers_own_request ::
    "string \<Rightarrow> (uuid \<Rightarrow> unit dbm) \<Rightarrow> database \<Rightarrow> database \<Rightarrow> bool" where
  "answers_own_request actor_id answer db db' \<longleftrightarrow>
     (\<exists>request target. request \<in> set (t_follow_request db) \<and> is_actor target actor_id db \<and>
       fr_target_id request = ap_id target \<and> db' = snd (answer (fr_id request) db))"

lemma within_answered_request: "within (\<lambda>_. False) db (answered_request e a)"
  unfolding answered_request_def by (intro within_intro reads_intro)

lemma answered_request_okD:
  assumes "answered_request e a (db, n) = (Inr request, w)"
  shows "request \<in> set (t_follow_request db) \<and>
    (\<exists>target. is_actor target (ba_actor a) db \<and> fr_target_id request = ap_id target)"
proof -
  from assms obtain target db1 db2 j where
    target: "get_profile_by_remote_actor_id (ba_actor a) db = (Inr target, db1)"
    and request: "get_follow_request_by_id j db1 = (Inr request, db2)"
    and "fr_target_id request = ap_id target"
    by (auto simp: answered_request_def db_ok split: if_splits)
  moreover have "db1 = db" using target by (rule readsD [OF reads_lookups(1)])
  ultimately show ?thesis
    using actor_lookupD [OF target] request_lookupD(1) by (auto simp: is_actor_def)
qed

lemma own_request_answered:
  "answered_request e a (db, n) = (Inr request, w) \<Longrightarrow>
     answers_own_request (ba_actor a) answer db (snd (answer (fr_id request) db))"
  unfolding answers_own_request_def by (drule answered_request_okD) blast

lemma within_handle_accept:
  "within (\<lambda>db'. \<exists>a now. de_actor_object activity = Some a \<and>
       answers_own_request (ba_actor a) (follow_request_accepted now) db db') db (handle_accept e activity)"
  unfolding handle_accept_def
  by (intro within_structured within_bind [OF within_answered_request] within_if within_unchanged
    within_draw within_write exI conjI) (assumption, rule own_request_answered)

lemma within_handle_reject:
  "within (\<lambda>db'. \<exists>a. de_actor_object activity = Some a \<and>
       answers_own_request (ba_actor a) follow_request_rejected db db') db (handle_reject e activity)"
  unfolding handle_reject_def
  by (intro within_structured within_bind [OF within_answered_request] within_if within_unchanged
    within_draw within_write exI conjI) (assumption, rule own_request_answered)

section \<open>Undoing\<close>

definition ends_own_follow :: "string \<Rightarrow> database \<Rightarrow> database \<Rightarrow> bool" where
  "ends_own_follow actor_id db db' \<longleftrightarrow>
     (\<exists>source target_id. is_actor source actor_id db \<and> db' = snd (unfollow (ap_id source) target_id db))"

definition deletes_own_reaction :: "string \<Rightarrow> database \<Rightarrow> database \<Rightarrow> bool" where
  "deletes_own_reaction actor_id db db' \<longleftrightarrow>
     (\<exists>author reaction. is_actor author actor_id db \<and> reaction \<in> set (t_post_reaction db) \<and>
       pr_author_id reaction = ap_id author \<and>
       db' = snd (delete_reaction (ap_id author) (pr_post_id reaction) db))"

definition deletes_own_repost :: "string \<Rightarrow> database \<Rightarrow> database \<Rightarrow> bool" where
  "deletes_own_repost actor_id db db' \<longleftrightarrow>
     (\<exists>author row. is_actor author actor_id db \<and> row \<in> set (t_post db) \<and>
       po_author_id row = ap_id author \<and> po_repost_of_id row \<noteq> None \<and>
       db' = snd (delete_post (po_id row) db))"

definition undoes_own :: "string \<Rightarrow> database \<Rightarrow> database \<Rightarrow> bool" where
  "undoes_own actor_id db db' \<longleftrightarrow>
     ends_own_follow actor_id db db' \<or> deletes_own_reaction actor_id db db' \<or>
     deletes_own_repost actor_id db db'"

lemma within_found_write:
  "R (snd (m db)) \<Longrightarrow> within R db (found_or_ignore m (\<lambda>_. accepted ty))"
  by (auto simp: within_def found_or_ignore_def db_match_def catching_def attempt_def db_call_def
    accepted_def ignored_def ret_def fail_def throw_def split: prod.splits sum.splits)

lemma within_undo_follow:
  "within (\<lambda>db'. \<exists>actor_id obj. de_with_object Some activity = Some (actor_id, obj) \<and>
     undoes_own actor_id db db') db (handle_undo_follow e activity)"
  unfolding handle_undo_follow_def object_id_of_def
  by (intro within_intro within_found_write reads_lookups exI conjI)
    (simp, auto simp: undoes_own_def ends_own_follow_def dest: actor_found)

lemma within_undo_branches:
  assumes "is_actor profile i db"
  shows "fr \<in> set (t_follow_request db) \<Longrightarrow> within (undoes_own i db) db (undo_follow_request profile fr)"
    and "pr \<in> set (t_post_reaction db) \<Longrightarrow> within (undoes_own i db) db (undo_reaction profile pr)"
    and "get_post_by_remote_object_id j db = (Inr po, db) \<Longrightarrow> within (undoes_own i db) db (undo_repost profile po)"
proof -
  show "within (undoes_own i db) db (undo_follow_request profile fr)"
    unfolding undo_follow_request_def using assms
    by (intro within_intro) (auto simp: undoes_own_def ends_own_follow_def)
  show "within (undoes_own i db) db (undo_reaction profile pr)" if "pr \<in> set (t_post_reaction db)"
    unfolding undo_reaction_def using assms that
    by (intro within_intro) (auto simp: undoes_own_def deletes_own_reaction_def)
  show "within (undoes_own i db) db (undo_repost profile po)"
    if found: "get_post_by_remote_object_id j db = (Inr po, db)"
  proof -
    from found obtain row where "row \<in> set (t_post db)" "ap_id (pd_author (data_of po)) = po_author_id row"
      "pd_id (data_of po) = po_id row" "pd_repost_of_id (data_of po) = po_repost_of_id row"
      by (rule object_lookupD)
    then show ?thesis
      unfolding undo_repost_def using assms
      by (intro within_intro) (auto simp: undoes_own_def deletes_own_repost_def)
  qed
qed

lemma within_handle_undo:
  "within (\<lambda>db'. (\<exists>a. de_actor_object activity = Some a \<and> undoes_own (ba_actor a) db db') \<or>
     (\<exists>actor_id obj. de_with_object Some activity = Some (actor_id, obj) \<and> undoes_own actor_id db db'))
   db (handle_undo e activity)"
proof (cases "object_type_of activity = Some ''Follow''")
  case True
  then show ?thesis
    unfolding handle_undo_def by (simp, intro within_mono [OF within_undo_follow]) blast
next
  case False
  then show ?thesis
    unfolding handle_undo_def
    by (simp, intro within_structured within_from_db within_db_match within_found_or_ignore within_if
        within_unchanged reads_lookups)
      ((rule within_mono [OF within_undo_branches(3)]; (auto dest: actor_found; fail))
      | (rule within_mono [OF within_undo_branches(2)]; (auto dest: actor_found reaction_lookupD; fail))
      | (rule within_mono [OF within_undo_branches(1)]; (auto dest: actor_found request_lookupD; fail)))+
qed

section \<open>Activities by their type\<close>

definition says :: "json \<Rightarrow> string \<Rightarrow> string \<Rightarrow> bool" where
  "says activity name v \<longleftrightarrow> json_string (json_index activity name) = Some v"

lemma says_object: "says activity name v \<Longrightarrow> \<exists>fs. activity = JObject fs \<and> map_of fs name = Some (JString v)"
  unfolding says_def json_index_def
  by (cases activity) (auto split: option.splits elim: json_string.elims)

lemma same_actor:
  assumes "says activity ''actor'' i"
  shows "de_actor_object activity = Some a \<Longrightarrow> ba_actor a = i"
    and "de_with_object de activity = Some (j, obj) \<Longrightarrow> j = i"
  using says_object [OF assms]
  by (auto simp: de_actor_object_def de_with_object_def de_required_def bind_eq_Some_conv)

lemma within_then_ret: "within R db m \<Longrightarrow> within R db (bind m (\<lambda>_. ret x))"
proof -
  have "snd (bind m (\<lambda>_. ret x) w) = snd (m w)" for w
    by (simp add: bind_def ret_def split: prod.split sum.split)
  then show "within R db m \<Longrightarrow> within R db (bind m (\<lambda>_. ret x))" by (simp add: within_def)
qed

lemma within_handle_activity:
  assumes "says activity ''type'' ty" and "within R db (dispatch e ty activity b)"
  shows "within R db (handle_activity e activity b)"
proof -
  have "within R db (bind (dispatch e ty activity b) (\<lambda>_. ret ()))"
    using assms(2) by (rule within_then_ret)
  with assms(1) show ?thesis
    unfolding handle_activity_def says_def by (intro within_require) simp
qed

text \<open>
  C10: A \<open>Delete\<close> activity changes nothing, or deletes the profile of the actor it names as its
  sender, or one post that this actor wrote.
\<close>

theorem delete_by_owner:
  assumes "says activity ''type'' ''Delete''" and "says activity ''actor'' actor_id"
  shows "let db' = fst (snd (handle_activity e activity is_authenticated (db, n))) in
    db' = db \<or> deletes_person actor_id db db' \<or> (\<exists>object_id. deletes_own_post actor_id object_id db db')"
  unfolding Let_def
  by (rule withinD, rule within_handle_activity [OF assms(1)], simp add: dispatch_def,
    rule within_mono [OF within_handle_delete]) (auto dest: same_actor [OF assms(2)])

lemma delete_by_owner_witness:
  "let db' = fst (snd (handle_activity sample_env
      (remote_says ''Delete'' (JString ''https://r.example/a'')) True (remote_db, 0))) in
    map po_id (t_post db') = [30] \<and>
    (db' = remote_db \<or> deletes_person ''https://r.example/u'' remote_db db' \<or>
     (\<exists>object_id. deletes_own_post ''https://r.example/u'' object_id remote_db db'))"
proof -
  let ?db' = "fst (snd (handle_activity sample_env
      (remote_says ''Delete'' (JString ''https://r.example/a'')) True (remote_db, 0)))"
  have "map po_id (t_post ?db') = [30]" by code_simp
  moreover have "says (remote_says ''Delete'' (JString ''https://r.example/a'')) ''type'' ''Delete''"
    "says (remote_says ''Delete'' (JString ''https://r.example/a'')) ''actor'' ''https://r.example/u''"
    by (simp_all add: says_def remote_says_def json_index_def)
  ultimately show ?thesis
    using delete_by_owner [of "remote_says ''Delete'' (JString ''https://r.example/a'')" _ sample_env True remote_db 0]
    by (simp add: Let_def)
qed

text \<open>
  C21: An \<open>Undo\<close> activity changes nothing, or ends a follow of its actor, or deletes a reaction or a
  repost of its actor.
\<close>

theorem undo_by_owner:
  assumes "says activity ''type'' ''Undo''" and "says activity ''actor'' actor_id"
  shows "let db' = fst (snd (handle_activity e activity is_authenticated (db, n))) in
    db' = db \<or> ends_own_follow actor_id db db' \<or> deletes_own_reaction actor_id db db' \<or>
    deletes_own_repost actor_id db db'"
  unfolding Let_def
  by (rule withinD, rule within_handle_activity [OF assms(1)], simp add: dispatch_def,
    rule within_mono [OF within_handle_undo]) (auto simp: undoes_own_def dest: same_actor [OF assms(2)])

lemma undo_by_owner_witness:
  "let db' = fst (snd (handle_activity sample_env
      (remote_says ''Undo'' (JString ''https://r.example/2'')) True (remote_db, 0))) in
    db' = remote_db \<or> ends_own_follow ''https://r.example/u'' remote_db db' \<or>
    deletes_own_reaction ''https://r.example/u'' remote_db db' \<or>
    deletes_own_repost ''https://r.example/u'' remote_db db'"
  by (rule undo_by_owner) (simp_all add: says_def remote_says_def json_index_def)

text \<open>
  C22: An \<open>Accept\<close> or \<open>Reject\<close> changes nothing but a follow request whose target is the actor.
\<close>

theorem answers_by_target:
  assumes "says activity ''type'' ty" and "says activity ''actor'' actor_id"
    and "ty = ''Accept'' \<or> ty = ''Reject''"
  shows "let db' = fst (snd (handle_activity e activity is_authenticated (db, n))) in
    db' = db \<or>
    (if ty = ''Accept''
     then \<exists>now. answers_own_request actor_id (follow_request_accepted now) db db'
     else answers_own_request actor_id follow_request_rejected db db')"
  unfolding Let_def
proof (rule withinD, rule within_handle_activity [OF assms(1)])
  let ?answered = "\<lambda>db'. if ty = ''Accept''
      then \<exists>now. answers_own_request actor_id (follow_request_accepted now) db db'
      else answers_own_request actor_id follow_request_rejected db db'"
  show "within ?answered db (dispatch e ty activity is_authenticated)"
  proof (cases "ty = ''Accept''")
    case True
    then show ?thesis unfolding dispatch_def
      by simp (rule within_mono [OF within_handle_accept], auto dest: same_actor [OF assms(2)])
  next
    case False
    with assms(3) have "ty = ''Reject''" by simp
    then show ?thesis unfolding dispatch_def
      by simp (rule within_mono [OF within_handle_reject], auto dest: same_actor [OF assms(2)])
  qed
qed

lemma answers_by_target_witness:
  "let db' = fst (snd (handle_activity sample_env
      (remote_says ''Reject'' (JString ''https://l.example/objects/-1'')) True (remote_db, 0))) in
    db' = remote_db \<or>
    (if ''Reject'' = ''Accept''
     then \<exists>now. answers_own_request ''https://r.example/u'' (follow_request_accepted now) remote_db db'
     else answers_own_request ''https://r.example/u'' follow_request_rejected remote_db db')"
  by (rule answers_by_target) (simp_all add: says_def remote_says_def json_index_def)

section \<open>Requests that are not authentic\<close>

lemma bind_run:
  "bind m f w = (case m w of (Inl err, w') \<Rightarrow> (Inl err, w') | (Inr x, w') \<Rightarrow> f x w')"
  by (simp add: bind_def)

lemma catching_run:
  "catching m g f w = (case m w of
     (Inl Panic, w') \<Rightarrow> (Inl Panic, w') | (Inl (Error err), w') \<Rightarrow> g err w' | (Inr x, w') \<Rightarrow> f x w')"
  by (simp add: catching_def attempt_def throw_def split: prod.split sum.split failure.split)

lemma require_run:
  "bind (require v msg) f w =
     (case v of None \<Rightarrow> (Inl (Error (ValidationError msg)), w) | Some x \<Rightarrow> f x w)"
  by (simp add: bind_def require_def invalid_data_def fail_def throw_def ret_def split: option.split)

definition signer_import :: "environment \<Rightarrow> http_request \<Rightarrow> database \<Rightarrow> database \<Rightarrow> bool" where
  "signer_import e rq db db' \<longleftrightarrow>
     (\<exists>d signer_id no_fetch n. parse_http_signature e rq = Inr d \<and>
       key_id_to_actor_id e (sd_key_id d) = Some signer_id \<and>
       db' = fst (snd (get_signer e signer_id no_fetch (db, n))))"

text \<open>The database after a verification is the one after the import of the signer.\<close>

lemma http_checked_run:
  "bind (http_checked v) f w =
     (case v of
        Inl Panic \<Rightarrow> (Inl Panic, w)
      | Inl (Error err) \<Rightarrow> (Inl (Error (HttpSignatureError err)), w)
      | Inr x \<Rightarrow> f x w)"
  by (simp add: bind_def http_checked_def panic_def fail_def throw_def ret_def split: sum.split failure.split)

lemma auth_require_run:
  "bind (auth_require err v) f w = (case v of None \<Rightarrow> (Inl (Error err), w) | Some x \<Rightarrow> f x w)"
  by (simp add: bind_def auth_require_def fail_def throw_def ret_def split: option.split)

lemma bind_second_same:
  "(\<And>x w. snd (f x w) = w) \<Longrightarrow> snd (bind m f w) = snd (m w)"
  by (simp add: bind_def split: prod.split sum.split)

lemma signed_request_world:
  "verify_signed_request e rq no_fetch (db, n) = (r, (db', n')) \<Longrightarrow> db' = db \<or> signer_import e rq db db'"
proof (cases "parse_http_signature e rq")
  case (Inl err)
  then show "verify_signed_request e rq no_fetch (db, n) = (r, (db', n')) \<Longrightarrow> ?thesis"
    by (cases err) (auto simp: verify_signed_request_def http_checked_run fail_def throw_def split: if_splits)
next
  case (Inr d)
  let ?check = "\<lambda>signer. or_panic (ap_actor_json signer) (\<lambda>signer_actor.
      bind (public_key e signer_actor) (\<lambda>signer_key.
      bind (http_checked (verify_http_signature e d signer_key)) (\<lambda>_. ret signer)))"
  have same: "snd (?check signer w) = w" for signer w
    by (simp add: or_panic_def public_key_def bind_def http_checked_def panic_def fail_def throw_def
      ret_def Let_def split: option.split sum.split failure.split)
  assume run: "verify_signed_request e rq no_fetch (db, n) = (r, (db', n'))"
  show ?thesis
  proof (cases "key_id_to_actor_id e (sd_key_id d)")
    case None
    with run Inr show ?thesis
      by (simp add: verify_signed_request_def http_checked_run auth_require_run rejected_def)
  next
    case (Some signer_id)
    with run Inr have "bind (get_signer e signer_id no_fetch) ?check (db, n) = (r, (db', n'))"
      by (simp add: verify_signed_request_def http_checked_run auth_require_run rejected_def)
    moreover have "snd (bind (get_signer e signer_id no_fetch) ?check (db, n)) =
        snd (get_signer e signer_id no_fetch (db, n))"
      by (rule bind_second_same) (rule same)
    ultimately have "snd (get_signer e signer_id no_fetch (db, n)) = (db', n')" by simp
    then show ?thesis unfolding signer_import_def using Inr Some by (metis fst_conv)
  qed
qed

lemma or_panic_ok [db_ok]: "or_panic x k w = (Inr y, w') \<longleftrightarrow> (\<exists>m. x = Some m \<and> k m w = (Inr y, w'))"
  by (simp add: or_panic_def panic_ok split: option.split)

lemma http_checked_ok [db_ok]: "http_checked v w = (Inr x, w') \<longleftrightarrow> v = Inr x \<and> w' = w"
  by (auto simp: http_checked_def panic_ok fail_ok ret_ok split: sum.splits failure.splits)

lemma json_checked_ok [db_ok]: "json_checked v w = (Inr x, w') \<longleftrightarrow> v = Inr x \<and> w' = w"
  by (auto simp: json_checked_def fail_ok ret_ok split: sum.splits)

lemma auth_require_ok [db_ok]: "auth_require err v w = (Inr x, w') \<longleftrightarrow> v = Some x \<and> w' = w"
  by (auto simp: auth_require_def fail_ok ret_ok split: option.splits)

lemma verified_request_okD:
  "verify_signed_request e rq no_fetch w = (Inr signer, w') \<Longrightarrow>
     \<exists>d key. parse_http_signature e rq = Inr d \<and> verify_http_signature e d key = Inr ()"
  by (auto simp: verify_signed_request_def db_ok split: if_splits)

text \<open>The shape of \<open>receive_activity\<close>: what comes before the signer is known, and after.\<close>

definition self_delete :: "string \<Rightarrow> string \<Rightarrow> json \<Rightarrow> bool" where
  "self_delete ty actor_id activity \<longleftrightarrow>
     ty = ''Delete'' \<and> find_object_id (json_index activity ''object'') = Some actor_id"

definition signed_part :: "environment \<Rightarrow> string \<Rightarrow> string \<Rightarrow> json \<Rightarrow> bool \<Rightarrow> db_actor_profile option \<Rightarrow> unit hm" where
  "signed_part e ty actor_id activity b maybe_signer =
     (case maybe_signer of
        None \<Rightarrow> ret ()
      | Some signer \<Rightarrow>
          bind (activity_signer e activity b signer) (\<lambda>signer.
          authorize_activity e ty actor_id activity signer))"

lemma if_run: "(if c then f else g) w = (if c then f w else g w)"
  by simp

lemma self_delete_run:
  "bind (if ty = ''Delete'' then bind (object_id_of v) (\<lambda>i. ret (i = a)) else ret False) f w =
     (if ty = ''Delete'' \<and> find_object_id v = None
      then (Inl (Error (ValidationError ''missing object ID'')), w)
      else f (ty = ''Delete'' \<and> find_object_id v = Some a) w)"
  by (simp add: bind_run object_id_of_def require_def invalid_data_def fail_def throw_def ret_def
    split: option.split)

lemma receive_stops_early:
  "\<not> (\<exists>ty. says activity ''type'' ty) \<or> \<not> (\<exists>i. says activity ''actor'' i) \<Longrightarrow>
     snd (receive_activity e rq activity w) = w"
  by (auto simp: receive_activity_def require_run says_def split: option.split)

lemma receive_activity_cases:
  assumes "says activity ''type'' ty" and "says activity ''actor'' actor_id"
  obtains "snd (receive_activity e rq activity w) = w"
  | "receive_activity e rq activity w =
       bind (request_signer e rq (self_delete ty actor_id activity))
         (signed_part e ty actor_id activity (self_delete ty actor_id activity)) w"
proof (cases "if en_url_parses e actor_id then en_url_host_str e actor_id else None")
  case None
  with assms that(1) show thesis by (simp add: receive_activity_def require_run says_def)
next
  case (Some host)
  show thesis
  proof (cases "host \<in> set (en_blocked_instances e) \<or>
      ty = ''Delete'' \<and> find_object_id (json_index activity ''object'') = None")
    case True
    with assms Some have "snd (receive_activity e rq activity w) = w"
      unfolding receive_activity_def require_run if_run self_delete_run
      by (auto simp: says_def ret_def)
    then show thesis by (rule that(1))
  next
    case False
    with assms Some have "receive_activity e rq activity w =
       bind (request_signer e rq (self_delete ty actor_id activity))
         (signed_part e ty actor_id activity (self_delete ty actor_id activity)) w"
      unfolding receive_activity_def require_run if_run self_delete_run signed_part_def [abs_def]
      by (auto simp: says_def self_delete_def)
    then show thesis by (rule that(2))
  qed
qed



section \<open>JSON signatures\<close>

lemma json_signature_type: "get_json_signature e v = Inr d \<Longrightarrow> jd_signature_type d = JcsEip191Signature"
  by (auto simp: get_json_signature_def or_unproved_def proof_type_from_str_def
    proof_type_from_cryptosuite_def split: if_splits option.splits sum.splits)

lemma json_signature_never: "verify_signed_activity e activity b w \<noteq> (Inr profile, w')"
  by (auto simp: verify_signed_activity_def db_ok json_signature_type split: if_splits json_signer.splits)

lemma sign_object_okD:
  "sign_object e now obj key key_id = Inr sent \<Longrightarrow>
     \<exists>fs signature. sent = JObject (fs @ [(''proof'',
       ser_integrity_proof e (integrity_proof_jcs_rsa e now key_id signature))]) \<and> map_of fs ''proof'' = None"
  by (cases obj) (auto simp: sign_object_def split: option.splits if_splits)

lemma own_proof_rejected:
  assumes "de_integrity_proof e (ser_integrity_proof e (integrity_proof_jcs_rsa e now key_id signature)) = Some p"
  shows "ig_proof_type p = PROOF_TYPE_JCS_RSA"
  using assms
  by (auto simp: de_integrity_proof_def ser_integrity_proof_def integrity_proof_jcs_rsa_def de_required_def
    ser_optional_def bind_eq_Some_conv)

text \<open>
  C40: No activity verifies by its JSON signature, and what \<open>sign_object\<close> signs is not accepted as
  signed: the type of its proof is unknown to the parser of proof types.
\<close>

theorem json_signatures_never_verify:
  "fst (verify_signed_activity e activity no_fetch w) \<noteq> Inr profile \<and>
   (sign_object e now obj key key_id = Inr sent \<longrightarrow>
     (\<exists>msg. get_json_signature e sent = Inl (InvalidProof msg)))"
proof (intro conjI impI)
  show "fst (verify_signed_activity e activity no_fetch w) \<noteq> Inr profile"
    using json_signature_never [of e activity no_fetch w profile] by (metis prod.collapse)
next
  assume "sign_object e now obj key key_id = Inr sent"
  then obtain fs signature where sent: "sent = JObject (fs @ [(''proof'',
       ser_integrity_proof e (integrity_proof_jcs_rsa e now key_id signature))])"
    and fs: "map_of fs ''proof'' = None"
    by (metis sign_object_okD)
  show "\<exists>msg. get_json_signature e sent = Inl (InvalidProof msg)"
  proof (cases "de_integrity_proof e (ser_integrity_proof e (integrity_proof_jcs_rsa e now key_id signature))")
    case None
    with fs show ?thesis by (simp add: get_json_signature_def sent or_unproved_def map_add_def)
  next
    case (Some p)
    with own_proof_rejected [OF Some] fs show ?thesis
      by (simp add: get_json_signature_def sent or_unproved_def map_add_def proof_type_from_str_def
        PROOF_TYPE_JCS_RSA_def)
  qed
qed

lemma json_signatures_never_verify_witness:
  "\<exists>sent msg. sign_object sample_env 100 (remote_says ''Like'' JNull) ''key'' ''https://l.example/users/a#main-key'' = Inr sent \<and>
    get_json_signature sample_env sent = Inl (InvalidProof msg)"
proof -
  obtain sent where "sign_object sample_env 100 (remote_says ''Like'' JNull) ''key''
      ''https://l.example/users/a#main-key'' = Inr sent"
    by (simp add: sign_object_def sample_env_def remote_says_def)
  then show ?thesis
    using json_signatures_never_verify [of sample_env JNull False "(remote_db, 0)" remote_profile 100
      "remote_says ''Like'' JNull" "''key''" "''https://l.example/users/a#main-key''" sent]
    by blast
qed

text \<open>
  C23: An activity that is not a \<open>Create\<close> and whose request is signed by another actor than the one
  it names is not handled: nothing happens but what checking the two signatures does.
\<close>

theorem forwarded_activity_ignored:
  assumes "says activity ''type'' ty" and "says activity ''actor'' actor_id" and "ty \<noteq> ''Create''"
    and "request_signer e rq (self_delete ty actor_id activity) (db, n) = (Inr (Some signer), (db1, n1))"
    and "profile_actor_id (en_instance_url e) signer \<noteq> actor_id"
  shows "snd (receive_activity e rq activity (db, n)) = (db, n) \<or>
    (\<exists>no_fetch. snd (receive_activity e rq activity (db, n)) =
      snd (verify_signed_activity e activity no_fetch (db1, n1)))"
proof -
  let ?b = "self_delete ty actor_id activity"
  have same: "snd (authorize_activity e ty actor_id activity signer w) = w" for w
    using assms(3,5)
    by (simp add: authorize_activity_def Let_def ret_def fail_def throw_def split: option.split)
  obtain r w where verified: "verify_signed_activity e activity ?b (db1, n1) = (r, w)"
    by (metis surj_pair)
  with json_signature_never obtain err where r: "r = Inl err" by (cases r) auto
  have after: "snd (signed_part e ty actor_id activity ?b (Some signer) (db1, n1)) = w"
    by (cases err) (simp_all add: signed_part_def activity_signer_def catching_run bind_run verified r ret_def same)
  from receive_activity_cases [OF assms(1,2), of e rq "(db, n)"] show ?thesis
  proof cases
    case 1
    then show ?thesis by simp
  next
    case 2
    with after assms(4) have "snd (receive_activity e rq activity (db, n)) = w" by (simp add: bind_run)
    with verified show ?thesis by (metis snd_conv)
  qed
qed

lemma forwarded_activity_ignored_witness:
  "let activity = JObject [(''type'', JString ''Announce''), (''actor'', JString ''https://r.example/v'')];
     outcome = snd (receive_activity sample_env sample_request activity (remote_db, 0)) in
   outcome = (remote_db, 0) \<or>
   (\<exists>no_fetch. outcome = snd (verify_signed_activity sample_env activity no_fetch (remote_db, 1)))"
  unfolding Let_def
  by (rule forwarded_activity_ignored [where signer = remote_profile and ty = "''Announce''"
        and actor_id = "''https://r.example/v''"])
    (simp_all add: says_def json_index_def self_delete_def sample_signer profile_actor_id_def
      remote_profile_def remote_actor_def)

end
