(* ===== verification/Import_Laws.thy ===== *)
theory Import_Laws
  imports Federation_Safety
begin

text \<open>
  The loop of \<open>import_post\<close>: how many requests it makes and what it returns, and the server as a
  state machine over requests, queued activities and imports.
\<close>

section \<open>Requests of one import\<close>

lemma reads_from_db:
  "only_reads m \<Longrightarrow> from_db m w =
     (case fst (m (fst w)) of Inl err \<Rightarrow> (Inl (Error (DatabaseError err)), w) | Inr x \<Rightarrow> (Inr x, w))"
  by (cases w; cases "m (fst w)")
    (auto simp: from_db_def db_call_def dest: readsD split: sum.split)

lemma reads_db_match:
  "only_reads m \<Longrightarrow> db_match m g f w =
     (case fst (m (fst w)) of Inl err \<Rightarrow> g err w | Inr x \<Rightarrow> f x w)"
  by (cases w; cases "m (fst w)")
    (auto simp: db_match_def catching_def attempt_def db_call_def dest: readsD split: sum.split)

lemma reads_local_post: "only_reads (get_local_post_by_id j)"
  by (rule keeps_reads, rule keeps_post_lookups)

lemma look_up_queued_run:
  "look_up_queued e i objects w = (r, w') \<Longrightarrow> w' = w \<and> (r = Inr Unknown \<longrightarrow> i \<notin> ob_id ` set objects)"
  by (auto simp: look_up_queued_def bind_run reads_from_db reads_db_match reads_local_post reads_lookups
    ret_def fail_def throw_def list_ex_iff split: if_splits sum.splits)

lemma fetch_object_run:
  "fetch_object e i (db, k) = (r, w') \<Longrightarrow> w' = (db, Suc k)"
  by (auto simp: fetch_object_def fetch_json_def http_get_def bind_def draw_def parsed_def fail_def
    ret_def throw_def split: sum.splits option.splits)

text \<open>
  What holds of a run that has \<open>fetch_count\<close> requests behind it and the given objects at hand.
\<close>

definition loop_bounds ::
    "nat \<Rightarrow> bool \<Rightarrow> ap_object list \<Rightarrow> world \<Rightarrow>
     (handler_error failure + (post + ap_object list \<times> (string \<times> string) list)) \<times> world \<Rightarrow> bool" where
  "loop_bounds fetch_count holds objects w outcome \<longleftrightarrow>
     (case (w, outcome) of ((db, k), (r, (db', k'))) \<Rightarrow>
        db' = db \<and> k \<le> k' \<and> k' \<le> k + (RECURSION_DEPTH_MAX - fetch_count) \<and>
        (\<forall>imported redirects. r = Inr (Inr (imported, redirects)) \<longrightarrow>
           length imported \<le> length objects + (k' - k) + (if holds then 1 else 0) \<and>
           (distinct (map ob_id objects) \<longrightarrow> distinct (map ob_id imported))))"

lemma loop_bounds_unchanged: "(\<nexists>x. r = Inr (Inr x)) \<Longrightarrow> loop_bounds c h objects w (r, w)"
  by (auto simp: loop_bounds_def split: prod.split)

lemma loop_bounds_ret: "loop_bounds c h objects w (Inr (Inr (objects, redirects)), w)"
  by (auto simp: loop_bounds_def split: prod.split)

lemma loop_bounds_fetch:
  "c < RECURSION_DEPTH_MAX \<Longrightarrow> loop_bounds (c + 1) True objects (db, Suc k) outcome \<Longrightarrow>
     loop_bounds c False objects (db, k) outcome"
  by (auto simp: loop_bounds_def split: prod.splits)

lemma loop_bounds_take:
  "ob_id obj \<notin> ob_id ` set objects \<Longrightarrow> loop_bounds c False (objects @ [obj]) w outcome \<Longrightarrow>
     loop_bounds c True objects w outcome"
  by (auto simp: loop_bounds_def split: prod.splits)

lemma import_loop_bounds:
  "loop_bounds fetch_count (held \<noteq> None) objects w (import_loop e queue fetch_count held objects redirects w)"
proof (induction e queue fetch_count held objects redirects arbitrary: w rule: import_loop.induct)
  case (1 e c held objects redirects)
  show ?case by (simp add: import_loop.simps ret_def loop_bounds_ret)
next
  case (2 e i queue c held objects redirects)
  obtain r w1 where looked: "look_up_queued e i objects w = (r, w1)" by (metis surj_pair)
  then have [simp]: "w1 = w" and new: "r = Inr Unknown \<Longrightarrow> i \<notin> ob_id ` set objects"
    using look_up_queued_run by blast+
  note step = import_loop.simps(2) [of e i queue c _ objects redirects]
  consider err where "r = Inl err" | "r = Inr Known" | po where "r = Inr (Initial_Known po)"
    | "r = Inr Unknown" by (metis queued.exhaust sum.exhaust)
  then show ?case
  proof cases
    case 1
    with looked show ?thesis by (simp add: step bind_run loop_bounds_unchanged)
  next
    case 2
    with looked "2.IH"(1) show ?thesis by (simp add: step bind_run)
  next
    case 3
    with looked show ?thesis by (simp add: step bind_run ret_def loop_bounds_unchanged)
  next
    case 4
    show ?thesis
    proof (cases held)
      case (Some obj)
      have "ob_id obj = i \<Longrightarrow> loop_bounds c True objects w (import_loop e
          (opt_list (ob_in_reply_to obj) @ queue @ get_object_links obj) c None (objects @ [obj]) redirects w)"
        using "2.IH"(5) [OF refl Some, of w] new 4 by (intro loop_bounds_take) auto
      moreover have "ob_id obj \<noteq> i \<Longrightarrow> loop_bounds c True objects w (import_loop e (ob_id obj # queue) c
          (Some obj) objects ((i, ob_id obj) # redirects) w)"
        using "2.IH"(4) [OF refl Some, of w] by simp
      ultimately show ?thesis using 4 Some looked by (simp add: step bind_run)
    next
      case None
      show ?thesis
      proof (cases "RECURSION_DEPTH_MAX \<le> c")
        case True
        with 4 None looked show ?thesis
          by (simp add: step bind_run fail_def throw_def loop_bounds_unchanged)
      next
        case False
        obtain db k where w: "w = (db, k)" by (metis surj_pair)
        obtain f w2 where fetched: "fetch_object e i (db, k) = (f, w2)" by (metis surj_pair)
        then have [simp]: "w2 = (db, Suc k)" by (rule fetch_object_run)
        show ?thesis
        proof (cases f)
          case (Inl err)
          have "loop_bounds c False objects (db, k) (Inl err', (db, Suc k))" for err'
            using False by (auto simp: loop_bounds_def)
          with 4 None looked w fetched False Inl show ?thesis
            by (simp add: step bind_run map_failure_def map_err_def)
        next
          case (Inr obj)
          have "ob_id obj = i \<Longrightarrow> loop_bounds (c + 1) True objects (db, Suc k) (import_loop e
              (opt_list (ob_in_reply_to obj) @ queue @ get_object_links obj) (c + 1) None
              (objects @ [obj]) redirects (db, Suc k))"
            using "2.IH"(3) [OF refl None False, of obj "(db, Suc k)"] new 4 by (intro loop_bounds_take) auto
          moreover have "ob_id obj \<noteq> i \<Longrightarrow> loop_bounds (c + 1) True objects (db, Suc k)
              (import_loop e (ob_id obj # queue) (c + 1) (Some obj) objects ((i, ob_id obj) # redirects)
                (db, Suc k))"
            using "2.IH"(2) [OF refl None False, of obj "(db, Suc k)"] by simp
          ultimately have "loop_bounds c False objects (db, k) (if ob_id obj \<noteq> i
              then import_loop e (ob_id obj # queue) (c + 1) (Some obj) objects ((i, ob_id obj) # redirects)
                (db, Suc k)
              else import_loop e (opt_list (ob_in_reply_to obj) @ queue @ get_object_links obj) (c + 1) None
                (objects @ [obj]) redirects (db, Suc k))"
            using False by (intro loop_bounds_fetch) auto
          with 4 None looked w fetched False Inr show ?thesis
            by (simp add: step bind_run map_failure_def map_err_def if_run)
        qed
      qed
    qed
  qed
qed


text \<open>A note that answers a known post, delivered with its activity: no request is made.\<close>

definition sample_object :: ap_object where
  "sample_object =
     \<lparr>ob_id = ''https://r.example/n'', ob_object_type = ''Note'', ob_name = None, ob_attachment = None,
      ob_cc = None, ob_media_type = None, ob_published = None,
      ob_attributed_to = Some (JString ''https://r.example/u''),
      ob_in_reply_to = Some ''https://r.example/a'', ob_content = Some ''note'', ob_quote_url = None,
      ob_sensitive = None, ob_tag = [], ob_to = None, ob_updated = None, ob_url = None\<rparr>"


section \<open>Panics\<close>

text \<open>
  C35: \<open>import_post\<close> panics when the server it asks for an object answers with an object that names
  itself as an existing post of this server.
\<close>

theorem import_redirect_panics:
  assumes "parse_local_object_id (en_parse_uuid e) (en_instance_url e) object_id = Inl err"
    and "get_post_by_remote_object_id object_id db = (Inl (NotFound what), db)"
    and "fetch_object e object_id (db, n) = (Inr obj, (db, Suc n))"
    and "parse_local_object_id (en_parse_uuid e) (en_instance_url e) (ob_id obj) = Inr post_id"
    and "get_local_post_by_id post_id db = (Inr post, db)"
  shows "import_post e object_id None (db, n) = (Inl Panic, (db, Suc n))"
proof -
  have "ob_id obj \<noteq> object_id" using assms(1,4) by auto
  then have "import_loop e [object_id] 0 None [] [] (db, n) = (Inr (Inr ([], [(object_id, ob_id obj)])), (db, Suc n))"
    using assms by (simp add: import_loop.simps look_up_queued_def bind_run reads_from_db reads_db_match
      reads_local_post reads_lookups ret_def RECURSION_DEPTH_MAX_def map_failure_def map_err_def if_run)
  with assms(1) show ?thesis by (simp add: import_post_def is_ok_def bind_run panic_def throw_def)
qed

definition redirecting_env :: environment where
  "redirecting_env = sample_env
     \<lparr>en_http_get := (\<lambda>n url. Inr \<lparr>hr_content_length = None, hr_body = []\<rparr>),
      en_parse_json := (\<lambda>s. Some (JObject
        [(''id'', JString (''https://l.example/objects/'' @ sample_show_uuid 40)), (''type'', JString ''Note'')]))\<rparr>"

lemma import_redirect_panics_witness:
  "let db = remote_db\<lparr>t_post := [sample_post 40 1 None Public 0 0]\<rparr> in
   import_post redirecting_env ''https://r.example/x'' None (db, 0) = (Inl Panic, (db, 1))"
proof -
  let ?db = "remote_db\<lparr>t_post := [sample_post 40 1 None Public 0 0]\<rparr>"
  have url: "parse_local_object_id (en_parse_uuid redirecting_env) (en_instance_url redirecting_env)
      ''https://r.example/x'' = invalid ''invalid object ID''"
    by (simp add: parse_local_object_id_def redirecting_env_def sample_env_def)
  have unknown: "get_post_by_remote_object_id ''https://r.example/x'' ?db = (Inl (NotFound ''post''), ?db)"
    by code_simp
  obtain obj where answer: "fetch_object redirecting_env ''https://r.example/x'' (?db, 0) = (Inr obj, (?db, Suc 0))"
    and obj: "ob_id obj = ''https://l.example/objects/'' @ sample_show_uuid 40"
    by (simp add: fetch_object_def fetch_json_def http_get_def bind_run draw_def parsed_def ret_def
      redirecting_env_def sample_env_def de_object_def object_fields_def de_required_def de_option_def de_default_def)
  have own: "parse_local_object_id (en_parse_uuid redirecting_env) (en_instance_url redirecting_env) (ob_id obj) = Inr 40"
    using parse_built_object_id [OF sample_uuid_codec, of "''https://l.example''" 40]
    by (simp add: obj local_object_id_def redirecting_env_def sample_env_def)
  obtain post where "fst (get_local_post_by_id 40 ?db) = Inr post"
  proof -
    have "case fst (get_local_post_by_id 40 ?db) of Inl _ \<Rightarrow> False | Inr _ \<Rightarrow> True" by code_simp
    then show thesis using that by (auto split: sum.splits)
  qed
  then have "get_local_post_by_id 40 ?db = (Inr post, ?db)"
    using reads_local_post [of 40] by (metis only_reads_def prod.collapse)
  from import_redirect_panics [OF url unknown answer own this] show ?thesis by simp
qed

section \<open>The server\<close>

text \<open>
  A server runs on any interleaving of requests to the inbox, activities taken from the queue,
  imports and operations of its own.
\<close>

inductive server_step :: "environment \<Rightarrow> world \<Rightarrow> world \<Rightarrow> bool" for e where
  received: "server_step e w (snd (receive_activity e rq activity w))"
| handled: "server_step e w (snd (handle_activity e activity is_authenticated w))"
| outbox_imported: "server_step e w (snd (import_from_outbox e actor_id limit w))"
| post_imported: "server_step e w (snd (import_post e object_id object_received w))"
| operated: "db_step db db' \<Longrightarrow> server_step e (db, n) (db', n)"

inductive server_reaches :: "environment \<Rightarrow> world \<Rightarrow> bool" for e where
  start: "server_reaches e (empty_database, 0)"
| step: "server_reaches e w \<Longrightarrow> server_step e w w' \<Longrightarrow> server_reaches e w'"

lemma server_step_reachable: "server_step e w w' \<Longrightarrow> reachable (fst w) \<Longrightarrow> reachable (fst w')"
proof (induction rule: server_step.induct)
  case (operated db db' n)
  then show ?case by (simp add: reachable.step)
qed (rule keeps_snd [of "\<lambda>w. reachable (fst w)"], rule federation.keeps_receive_activity
    federation.keeps_handle_activity federation.keeps_import_from_outbox federation.keeps_import_post, assumption)+

text \<open>
  Whatever other servers send and answer, and in whatever order this happens between the
  operations of the server itself, the database is one that the operations can reach, and the
  invariant of the tables holds.
\<close>

theorem server_stays_consistent:
  assumes "server_reaches e w"
  shows "reachable (fst w) \<and> db_inv (fst w)"
proof -
  from assms have "reachable (fst w)"
    by (induction rule: server_reaches.induct) (simp_all add: reachable.start server_step_reachable)
  then show ?thesis by (simp add: reachable_serves)
qed

lemma server_stays_consistent_witness:
  "let w = snd (handle_activity sample_env (remote_says ''Like'' (JString ''https://l.example/objects/-1''))
      True (empty_database, 0)) in
   reachable (fst w) \<and> db_inv (fst w)"
  unfolding Let_def
  by (rule server_stays_consistent, rule server_reaches.step, rule server_reaches.start, rule server_step.handled)

end
