(* ===== verification/Import_Types.thy ===== *)
theory Import_Types
  imports Federation_Laws Federation_Sample
begin

text \<open>The profiles that an import stores are well-formed, whatever the actor document contains.\<close>

section \<open>Well-formed profiles\<close>

definition field_fits :: "extra_field \<Rightarrow> bool" where
  "field_fits f \<longleftrightarrow> ef_name f \<noteq> [] \<and> length (ef_name f) \<le> 500 \<and> length (ef_value f) \<le> 5000"

fun is_link_option :: "payment_option \<Rightarrow> bool" where
  "is_link_option (Option_Link _) = True"
| "is_link_option _ = False"

definition profile_fits :: "environment \<Rightarrow> db_actor_profile \<Rightarrow> bool" where
  "profile_fits e p \<longleftrightarrow>
     (case ap_display_name p of None \<Rightarrow> True | Some name \<Rightarrow> length (en_chars e name) \<le> 200) \<and>
     length (ap_extra_fields p) \<le> 100 \<and> list_all field_fits (ap_extra_fields p) \<and>
     ap_identity_proofs p = [] \<and> list_all is_link_option (ap_payment_options p)"

definition name_fits :: "string \<Rightarrow> bool" where
  "name_fits name \<longleftrightarrow> name \<noteq> [] \<and> length name \<le> 100 \<and> list_all is_username_char name"

lemma validate_username_ok: "validate_username u = Inr () \<longleftrightarrow> name_fits u"
  by (simp add: validate_username_def name_fits_def)

lemma display_name_fits:
  "validated_option (validate_display_name e) v = Inr x \<Longrightarrow>
     (case v of None \<Rightarrow> True | Some name \<Rightarrow> length (en_chars e name) \<le> 200)"
  by (auto simp: validated_option_def and_then_Inr validate_display_name_def split: option.splits if_splits)

lemma extra_fields_fit:
  "clean_extra_fields e fs True = Inr cleaned \<Longrightarrow> length cleaned \<le> 100 \<and> list_all field_fits cleaned"
  unfolding field_fits_def [abs_def]
  by (auto simp: clean_extra_fields_def dest: clean_fields_bounds split: sum.splits if_splits)

lemma attachment_keeps_links:
  "list_all is_link_option (fst (snd acc)) \<Longrightarrow> list_all is_link_option (fst (snd (parse_actor_attachment i v acc)))"
proof (cases acc)
  fix ps os fs
  assume "acc = (ps, os, fs)" and "list_all is_link_option (fst (snd acc))"
  then show ?thesis
    by (cases "de_actor_attachment v")
      (simp_all add: parse_actor_attachment_def parse_payment_option_def push_ok_def Let_def split: option.split)
qed

lemma payment_options_fit: "list_all is_link_option (fst (snd (parse_attachments a)))"
proof -
  have "list_all is_link_option (fst (snd acc)) \<Longrightarrow>
      list_all is_link_option (fst (snd (fold (parse_actor_attachment i) vs acc)))" for vs i acc
    by (induction vs arbitrary: acc) (simp_all add: attachment_keeps_links)
  then show ?thesis by (simp add: parse_attachments_def)
qed

lemma clean_create_fits:
  assumes "clean_profile_create_data e d = Inr d'" and "pc_actor_json d \<noteq> None"
  shows "name_fits (pc_username d') \<and> length (pc_extra_fields d') \<le> 100 \<and>
    list_all field_fits (pc_extra_fields d') \<and> pc_identity_proofs d' = pc_identity_proofs d \<and>
    pc_payment_options d' = pc_payment_options d \<and> pc_display_name d' = pc_display_name d \<and>
    (case pc_display_name d of None \<Rightarrow> True | Some name \<Rightarrow> length (en_chars e name) \<le> 200)"
  using assms
  by (auto simp: clean_profile_create_data_def and_then_Inr Let_def validate_username_ok
    dest: extra_fields_fit display_name_fits split: if_splits)

lemma clean_update_fits:
  assumes "clean_profile_update_data e d = Inr d'" and "pu_actor_json d \<noteq> None"
  shows "length (pu_extra_fields d') \<le> 100 \<and>
    list_all field_fits (pu_extra_fields d') \<and> pu_identity_proofs d' = pu_identity_proofs d \<and>
    pu_payment_options d' = pu_payment_options d \<and> pu_display_name d' = pu_display_name d \<and>
    (case pu_display_name d of None \<Rightarrow> True | Some name \<Rightarrow> length (en_chars e name) \<le> 200)"
  using assms
  by (auto simp: clean_profile_update_data_def and_then_Inr Let_def
    dest: extra_fields_fit display_name_fits split: if_splits)

section \<open>Imported profiles\<close>

lemma updated_row:
  assumes "update_profile now i d db = (Inr p, db')"
  shows "\<exists>old emojis. p = (updated_profile_row now d old)\<lparr>ap_emojis := emojis\<rparr>"
proof -
  from update_profile_ok(3) [OF assms] have "p \<in> set (t_actor_profile db')" and id: "ap_id p = i"
    by (auto simp: filter_eq_Cons_iff)
  moreover have "t_actor_profile db' = update_where (\<lambda>ap. ap_id ap = i)
      (\<lambda>ap. (updated_profile_row now d ap)\<lparr>ap_emojis := joined_emojis i (t_profile_emoji db') (t_emoji db)\<rparr>)
      (t_actor_profile db)"
    using arg_cong [OF update_profile_ok(1) [OF assms], of t_actor_profile] by simp
  ultimately obtain old where "old \<in> set (t_actor_profile db)" and
    "p = (if ap_id old = i then (updated_profile_row now d old)\<lparr>ap_emojis := joined_emojis i (t_profile_emoji db') (t_emoji db)\<rparr>
      else old)"
    by (auto simp: update_where_def)
  with id show ?thesis by (cases "ap_id old = i") auto
qed

lemma parsed_attachments:
  obtains options extra_fields where "parse_attachments a = ([], options, extra_fields)"
    and "list_all is_link_option options"
  using parse_attachments_no_proofs [of a] payment_options_fit [of a] by (metis fst_conv prod.collapse snd_conv)

lemma created_profile_fits:
  assumes "create_remote_profile e a w = (Inr p, w')"
  shows "profile_fits e p \<and> name_fits (ap_username p) \<and> ap_actor_json p = Some (into_db_actor a) \<and>
    (\<exists>host. ap_hostname p = Some host \<and> host \<noteq> en_hostname e)"
proof -
  obtain options extra_fields where parsed: "parse_attachments a = ([], options, extra_fields)"
    and links: "list_all is_link_option options" by (rule parsed_attachments)
  from assms obtain address :: actor_address and avatar banner aliases emojis d' i now db db' where
    address: "aa_hostname address \<noteq> en_hostname e"
    and clean: "clean_profile_create_data e
        \<lparr>pc_username = ac_preferred_username a, pc_hostname = Some (aa_hostname address),
         pc_display_name = ac_name a, pc_bio = ac_summary a, pc_avatar = avatar, pc_banner = banner,
         pc_manually_approves_followers = ac_manually_approves_followers a, pc_identity_proofs = [],
         pc_payment_options = options, pc_extra_fields = extra_fields, pc_aliases = aliases,
         pc_emojis = emojis, pc_actor_json = Some (into_db_actor a)\<rparr> = Inr d'"
    and run: "create_profile i now d' db = (Inr p, db')"
    by (auto simp: create_remote_profile_def db_ok parsed split: if_splits prod.splits)
  from create_profile_ok(2) [OF run] clean_create_fits [OF clean] clean_create_keeps [OF clean] links address
  show ?thesis by (simp add: profile_fits_def new_profile_row_def)
qed

lemma updated_profile_fits:
  assumes "update_remote_profile e old a w = (Inr p, w')"
  shows "profile_fits e p \<and> ap_actor_json p = Some (into_db_actor a)"
proof -
  obtain options extra_fields where parsed: "parse_attachments a = ([], options, extra_fields)"
    and links: "list_all is_link_option options" by (rule parsed_attachments)
  from assms obtain avatar banner aliases emojis d' i now db db' where
    clean: "clean_profile_update_data e
        \<lparr>pu_display_name = ac_name a, pu_bio = ac_summary a, pu_bio_source = ac_summary a,
         pu_avatar = avatar, pu_banner = banner,
         pu_manually_approves_followers = ac_manually_approves_followers a, pu_identity_proofs = [],
         pu_payment_options = options, pu_extra_fields = extra_fields, pu_aliases = aliases,
         pu_emojis = emojis, pu_actor_json = Some (into_db_actor a)\<rparr> = Inr d'"
    and run: "update_profile now i d' db = (Inr p, db')"
    by (auto simp: update_remote_profile_def db_ok parsed split: option.splits prod.splits)
  from updated_row [OF run] clean_update_fits [OF clean] clean_update_keeps [OF clean] links
  show ?thesis by (auto simp: profile_fits_def updated_profile_row_def)
qed

text \<open>
  C27: A profile that is created or updated from an actor document is well-formed, whatever the
  document says: its texts are within their limits, it has no identity proofs and no payment
  options but links, and a new one has a valid name and a host other than this server.
\<close>

theorem imported_profile_fits:
  "(create_remote_profile e a w = (Inr p, w') \<longrightarrow>
      profile_fits e p \<and> name_fits (ap_username p) \<and> ap_actor_json p = Some (into_db_actor a) \<and>
      (\<exists>host. ap_hostname p = Some host \<and> host \<noteq> en_hostname e)) \<and>
   (update_remote_profile e old a w = (Inr p, w') \<longrightarrow>
      profile_fits e p \<and> ap_actor_json p = Some (into_db_actor a))"
  by (intro conjI impI created_profile_fits updated_profile_fits) (drule created_profile_fits updated_profile_fits, blast)+

definition sample_actor :: actor where
  "sample_actor =
     \<lparr>ac_context = None, ac_id = ''https://r.example/v'', ac_object_type = ''Person'', ac_name = Some ''Dave'',
      ac_preferred_username = ''dave'', ac_inbox = ''https://r.example/v/inbox'',
      ac_outbox = ''https://r.example/v/outbox'', ac_bot = False, ac_followers = None, ac_following = None,
      ac_subscribers = None,
      ac_public_key = \<lparr>pk_id = ''k'', pk_owner = ''https://r.example/v'', pk_public_key_pem = ''p''\<rparr>,
      ac_icon = None, ac_image = None, ac_summary = None, ac_also_known_as = None,
      ac_attachment = [ser_actor_attachment (attach_extra_field
        \<lparr>ef_name = ''site'', ef_value = ''dave.example'', ef_value_source = None\<rparr>)],
      ac_manually_approves_followers = False, ac_tag = [], ac_url = None\<rparr>"

lemma imported_profile_fits_witness:
  "\<exists>p w'. create_remote_profile sample_env sample_actor (empty_database, 0) = (Inr p, w') \<and>
    profile_fits sample_env p \<and> name_fits (ap_username p)"
proof -
  have "case fst (create_remote_profile sample_env sample_actor (empty_database, 0)) of
      Inl _ \<Rightarrow> False | Inr p \<Rightarrow> True"
    by code_simp
  then obtain p where "fst (create_remote_profile sample_env sample_actor (empty_database, 0)) = Inr p"
    by (auto split: sum.splits)
  then obtain w' where "create_remote_profile sample_env sample_actor (empty_database, 0) = (Inr p, w')"
    by (metis prod.collapse)
  with imported_profile_fits [of sample_env sample_actor "(empty_database, 0)" p w' remote_profile]
  show ?thesis by blast
qed

end
