(* ===== verification/Signature_Laws.thy ===== *)
theory Signature_Laws
  imports Federation_Sample
begin

text \<open>
  HTTP signatures made by \<open>create_http_signature\<close> are accepted by \<open>parse_http_signature\<close> and
  \<open>verify_http_signature\<close>.
\<close>

section \<open>Splitting\<close>

lemma split_on_nonempty: "split_on c xs \<noteq> []"
  by (induction xs) (auto split: list.splits)

lemma split_on_prefix:
  "c \<notin> set xs \<Longrightarrow> split_on c (xs @ ys) = (xs @ hd (split_on c ys)) # List.tl (split_on c ys)"
  by (induction xs) (auto simp: split_on_nonempty split: list.splits)

definition is_letter :: "char \<Rightarrow> bool" where
  "is_letter c \<longleftrightarrow> is_lower c \<or> is_upper c"

definition quoted_parameter :: "string \<Rightarrow> string \<Rightarrow> string" where
  "quoted_parameter name v = name @ ''=\"'' @ v @ ''\"''"

lemma parse_quoted_parameter:
  assumes "name \<noteq> []" and "list_all is_letter name" and "v \<noteq> []"
  shows "signature_parameter (quoted_parameter name v) = Some (name, v)"
proof -
  have letters: "\<And>c. c \<in> set name \<Longrightarrow> is_lower c \<or> is_upper c"
    using assms(2) by (simp add: list_all_iff is_letter_def)
  have "takeWhile (\<lambda>c. is_lower c \<or> is_upper c) (quoted_parameter name v) = name"
    "dropWhile (\<lambda>c. is_lower c \<or> is_upper c) (quoted_parameter name v) = ''=\"'' @ v @ ''\"''"
    unfolding quoted_parameter_def using letters
    by (simp_all add: takeWhile_append dropWhile_append is_lower_def is_upper_def)
  moreover have "2 \<le> length (v @ ''\"'')" using assms(3) by (cases v) simp_all
  ultimately show ?thesis
    unfolding signature_parameter_def using assms(1,3) strip_prefix_append [of "''=\"''" "v @ ''\"''"]
    by (simp add: Let_def)
qed

section \<open>What the parts of an environment promise\<close>

definition header_text :: "string \<Rightarrow> bool" where
  "header_text s \<longleftrightarrow> header_str s = Some s"

lemma header_text_append [simp]: "header_text (s @ t) \<longleftrightarrow> header_text s \<and> header_text t"
  by (auto simp: header_text_def header_str_def)

text \<open>Base64: decoding inverts encoding, and the text has neither commas nor control characters.\<close>

definition base64_codec :: "environment \<Rightarrow> bool" where
  "base64_codec e \<longleftrightarrow>
     (\<forall>bytes. en_decode_base64 e (en_encode_base64 e bytes) = Some bytes \<and>
       (bytes \<noteq> [] \<longrightarrow> en_encode_base64 e bytes \<noteq> []) \<and>
       CHR '','' \<notin> set (en_encode_base64 e bytes) \<and> header_text (en_encode_base64 e bytes))"

text \<open>RSA: what a key signs its public key verifies; no signature is empty.\<close>

definition key_pair :: "environment \<Rightarrow> string \<Rightarrow> string \<Rightarrow> bool" where
  "key_pair e private_key public_pem \<longleftrightarrow>
     (\<forall>message signature. en_rsa_sign e private_key message = Some signature \<longrightarrow>
       signature \<noteq> [] \<and> en_rsa_verify e public_pem message signature)"

section \<open>Round trip\<close>

text \<open>The request as it arrives, with the headers that the sender adds.\<close>

definition request_with :: "string \<Rightarrow> string \<Rightarrow> http_signature_headers \<Rightarrow> http_request" where
  "request_with request_method request_path h =
     \<lparr>rq_method = request_method, rq_path = request_path,
      rq_headers = [(''host'', hs_host h), (''date'', hs_date h)] @
        (case hs_digest h of None \<Rightarrow> [] | Some digest \<Rightarrow> [(''digest'', digest)]) @
        [(''signature'', hs_signature h)]\<rparr>"

definition sendable :: "http_signature_headers \<Rightarrow> string \<Rightarrow> bool" where
  "sendable h key_id \<longleftrightarrow>
     header_text (hs_host h) \<and> header_text (hs_date h) \<and>
     (\<forall>digest. hs_digest h = Some digest \<longrightarrow> header_text digest) \<and>
     header_text key_id \<and> key_id \<noteq> [] \<and> CHR '','' \<notin> set key_id"

lemma split_signature_header:
  assumes "CHR '','' \<notin> set key_id" and "CHR '','' \<notin> set names" and "CHR '','' \<notin> set code"
  shows "split_on (CHR '','') (''keyId=\"'' @ key_id @ ''\",algorithm=\"rsa-sha256\",headers=\"'' @
      names @ ''\",signature=\"'' @ code @ ''\"'') =
    [quoted_parameter ''keyId'' key_id, quoted_parameter ''algorithm'' ''rsa-sha256'',
     quoted_parameter ''headers'' names, quoted_parameter ''signature'' code]"
  using assms by (simp add: quoted_parameter_def split_on_prefix)

lemma parse_signature_parameters:
  assumes "key_id \<noteq> []" and "names \<noteq> []" and "code \<noteq> []"
  shows "signature_parameters
      [quoted_parameter ''keyId'' key_id, quoted_parameter ''algorithm'' ''rsa-sha256'',
       quoted_parameter ''headers'' names, quoted_parameter ''signature'' code] =
    Inr [(''keyId'', key_id), (''algorithm'', ''rsa-sha256''), (''headers'', names), (''signature'', code)]"
  using assms
  by (simp add: parse_quoted_parameter is_letter_def is_lower_def is_upper_def http_then_def or_reject_def)

text \<open>The signed text: the sender builds it from its headers, the receiver from the request.\<close>

abbreviation line_break :: string where
  "line_break \<equiv> [char_of (10 :: nat)]"

definition signed_lines :: "string \<Rightarrow> http_signature_headers \<Rightarrow> string list" where
  "signed_lines target h =
     [''(request-target): '' @ target, ''host: '' @ hs_host h, ''date: '' @ hs_date h] @
     (case hs_digest h of None \<Rightarrow> [] | Some digest \<Rightarrow> [''digest: '' @ digest])"

definition signed_names :: "http_signature_headers \<Rightarrow> string" where
  "signed_names h =
     (case hs_digest h of
        None \<Rightarrow> ''(request-target) host date''
      | Some _ \<Rightarrow> ''(request-target) host date digest'')"

lemma created_signature:
  assumes "create_http_signature e now request_method url body key key_id = Some h"
  shows "\<exists>signature. en_rsa_sign e key
      (join_with line_break (signed_lines (to_lowercase request_method @ '' '' @ en_url_path e url) h)) =
        Some signature \<and>
    hs_signature h = ''keyId=\"'' @ key_id @ ''\",algorithm=\"rsa-sha256\",headers=\"'' @ signed_names h @
      ''\",signature=\"'' @ en_encode_base64 e signature @ ''\"''"
  using assms
  by (auto simp: create_http_signature_def Let_def bind_eq_Some_conv signed_headers_def signed_lines_def
    signed_names_def split: if_splits)

lemma names_plain: "CHR '','' \<notin> set (signed_names h) \<and> header_text (signed_names h) \<and> signed_names h \<noteq> []"
  by (simp add: signed_names_def header_text_def header_str_def split: option.split)

lemma lowercase_names:
  "to_lowercase ''host'' = ''host''" "to_lowercase ''date'' = ''date''" "to_lowercase ''digest'' = ''digest''"
  "to_lowercase ''signature'' = ''signature''"
  by (simp_all add: to_lowercase_def to_lower_def is_upper_def)

lemma request_headers:
  "get_header (request_with m path h) ''host'' = Some (hs_host h)"
  "get_header (request_with m path h) ''date'' = Some (hs_date h)"
  "get_header (request_with m path h) ''digest'' = hs_digest h"
  "get_header (request_with m path h) ''signature'' = Some (hs_signature h)"
  by (auto simp: get_header_def request_with_def lowercase_names split: option.split)

lemma request_lines:
  assumes "sendable h key_id"
  shows "message_parts (request_with m path h) params (split_on (CHR '' '') (signed_names h)) =
    Inr (signed_lines (to_lowercase m @ '' '' @ path) h)"
proof (cases "hs_digest h")
  case None
  with assms show ?thesis
    by (simp add: signed_names_def signed_lines_def message_part_def request_headers sendable_def
      header_text_def http_then_def or_reject_def) (simp add: request_with_def)
next
  case (Some digest)
  with assms show ?thesis
    by (simp add: signed_names_def signed_lines_def message_part_def request_headers sendable_def
      header_text_def http_then_def or_reject_def) (simp add: request_with_def)
qed

text \<open>
  C20: A request signed with a private key is accepted by the server that receives it: the parsed key
  identifier is the one of the sender and the signature verifies with the public key.
\<close>

theorem http_signature_roundtrip:
  assumes "create_http_signature e now request_method url body key key_id = Some h"
    and "base64_codec e" and "key_pair e key public_pem" and "sendable h key_id"
    and "en_parse_rfc2822 e (hs_date h) = Some sent_at" and "en_plus_hours e sent_at 12 = Some expires_at"
  shows "\<exists>d. parse_http_signature e (request_with request_method (en_url_path e url) h) = Inr d \<and>
    sd_key_id d = key_id \<and> verify_http_signature e d public_pem = Inr ()"
proof -
  let ?rq = "request_with request_method (en_url_path e url) h"
  let ?message = "join_with line_break (signed_lines (to_lowercase request_method @ '' '' @ en_url_path e url) h)"
  from created_signature [OF assms(1)] obtain signature where
    sign: "en_rsa_sign e key ?message = Some signature" and
    header: "hs_signature h = ''keyId=\"'' @ key_id @ ''\",algorithm=\"rsa-sha256\",headers=\"'' @ signed_names h @
      ''\",signature=\"'' @ en_encode_base64 e signature @ ''\"''"
    by blast
  define code where "code = en_encode_base64 e signature"
  have code: "en_decode_base64 e code = Some signature" "CHR '','' \<notin> set code" "header_text code"
    using assms(2) by (simp_all add: base64_codec_def code_def)
  have "signature \<noteq> []" using assms(3) sign by (simp add: key_pair_def)
  then have "code \<noteq> []" using assms(2) by (simp add: base64_codec_def code_def)
  have parameters: "signature_parameters (split_on (CHR '','') (hs_signature h)) =
      Inr [(''keyId'', key_id), (''algorithm'', ''rsa-sha256''), (''headers'', signed_names h), (''signature'', code)]"
    unfolding header code_def [symmetric]
    by (subst split_signature_header; (subst parse_signature_parameters)?)
      (use assms(4) names_plain code \<open>code \<noteq> []\<close> in \<open>simp_all add: sendable_def\<close>)
  have "header_text (hs_signature h)"
    unfolding header code_def [symmetric] using assms(4) names_plain code
    by (simp only: header_text_append sendable_def) (simp add: header_text_def header_str_def)
  then have parsed: "parse_http_signature e ?rq = Inr \<lparr>sd_key_id = key_id, sd_message = ?message,
      sd_signature = code, sd_expires_at = expires_at\<rparr>"
    using parameters request_lines [OF assms(4)] assms(4-6)
    by (simp add: parse_http_signature_def request_headers http_then_def or_reject_def get_parameter_def
      signature_created_def signature_expires_def sendable_def header_text_def)
  have "verify_http_signature e \<lparr>sd_key_id = key_id, sd_message = ?message,
      sd_signature = code, sd_expires_at = expires_at\<rparr> public_pem = Inr ()"
    using assms(3) sign code(1)
    by (simp add: verify_http_signature_def key_pair_def http_then_def or_reject_def)
  with parsed show ?thesis by simp
qed

lemma sample_base64: "base64_codec sample_env"
proof -
  have "CHR '','' \<notin> set (sample_encode bytes) \<and> header_text (sample_encode bytes)" for bytes
    using sample_encode_letters [of _ bytes]
    by (fastforce simp: header_text_def header_str_def list_all_iff)
  moreover have "bytes \<noteq> [] \<Longrightarrow> sample_encode bytes \<noteq> []" for bytes
    by (cases bytes) (simp_all add: sample_encode_def)
  ultimately show ?thesis by (simp add: base64_codec_def sample_env_def sample_code)
qed

lemma http_signature_roundtrip_witness:
  "\<exists>h d. create_http_signature sample_env 100 ''POST'' ''https://l.example/inbox'' ''{}'' ''p''
      ''https://r.example/u#main-key'' = Some h \<and>
    parse_http_signature sample_env (request_with ''POST'' ''/inbox'' h) = Inr d \<and>
    sd_key_id d = ''https://r.example/u#main-key'' \<and> verify_http_signature sample_env d ''p'' = Inr ()"
proof -
  obtain h where created: "create_http_signature sample_env 100 ''POST'' ''https://l.example/inbox'' ''{}'' ''p''
      ''https://r.example/u#main-key'' = Some h"
    and fits: "sendable h ''https://r.example/u#main-key''"
    by (simp add: create_http_signature_def sample_env_def sendable_def header_text_def header_str_def Let_def)
  have "key_pair sample_env ''p'' ''p''" by (simp add: key_pair_def sample_env_def)
  from http_signature_roundtrip [OF created sample_base64 this fits, of 100 43300] created show ?thesis
    by (auto simp: sample_env_def)
qed

end
