(* ===== verification/Federation_Roundtrips.thy ===== *)
theory Federation_Roundtrips
  imports Federation_Sample
begin

text \<open>
  What this server builds is what a server with the same code understands: notes with their
  visibility, actor documents, and the activities of the follow protocol.
\<close>

section \<open>Fields\<close>

definition or_else :: "'a option \<Rightarrow> 'a option \<Rightarrow> 'a option" where
  "or_else v w = (case v of None \<Rightarrow> w | Some x \<Rightarrow> Some x)"

lemma or_else_None [simp]: "or_else v None = v"
  by (cases v) (simp_all add: or_else_def)

lemma parts_at [simp]:
  "map_of (ser_optional name v @ ys) i =
     (if i = name then or_else (map_option JString v) (map_of ys i) else map_of ys i)"
  "map_of (ser_some name f x @ ys) i =
     (if i = name then or_else (map_option f x) (map_of ys i) else map_of ys i)"
  "map_of (ser_nonempty name vs @ ys) i =
     (if i = name then or_else (if vs \<noteq> [] then Some (JArray vs) else None) (map_of ys i) else map_of ys i)"
  "map_of (ser_optional name v) i = (if i = name then map_option JString v else None)"
  by (auto simp: ser_optional_def ser_some_def ser_nonempty_def or_else_def map_add_def split: option.split)

lemma traverse_Some: "traverse Some xs = Some xs"
  by (induction xs) simp_all

lemma value_array [simp]: "de_default [] deserialize_value_array (if vs \<noteq> [] then Some (JArray vs) else None) = Some vs"
  by (simp add: de_default_def deserialize_value_array_def traverse_Some)

lemma string_options [simp]:
  "de_option json_string (map_option JString v) = Some v"
  "de_option json_string (Some (ser_option v)) = Some v"
  by (cases v; simp add: de_option_def ser_option_def)+

section \<open>Actors\<close>

lemma de_ser_public_key: "de_public_key (ser_public_key k) = Some k"
  by (cases k) (simp add: de_public_key_def ser_public_key_def de_required_def)

lemma de_ser_actor_image: "de_actor_image (ser_actor_image img) = Some img"
  by (cases img) (simp add: de_actor_image_def ser_actor_image_def de_required_def)

lemma de_ser_images:
  "de_default None deserialize_image_opt (map_option ser_actor_image img) = Some img"
  "de_option de_actor_image (map_option ser_actor_image img) = Some img"
  by (cases img; simp add: de_default_def de_option_def deserialize_image_opt_def ser_actor_image_def
    de_ser_actor_image [unfolded ser_actor_image_def])+

lemma de_ser_json_option: "v \<noteq> Some JNull \<Longrightarrow> de_option Some v = Some v"
  by (cases v; cases "the v") (simp_all add: de_option_def)

lemma de_ser_context:
  "v \<noteq> Some JNull \<Longrightarrow> de_option Some (Some (case v of None \<Rightarrow> JNull | Some x \<Rightarrow> x)) = Some v"
  by (cases v; cases "the v") (simp_all add: de_option_def)

lemma de_ser_actor:
  assumes "ac_context a \<noteq> Some JNull" and "ac_also_known_as a \<noteq> Some JNull"
  shows "de_actor (ser_actor a) = Some a"
  using assms
  by (simp del: map_of_append add: de_actor_def ser_actor_def actor_fields_def de_required_def de_default_def [of False]
    de_ser_public_key de_ser_images de_ser_json_option de_ser_context option.map_id)

text \<open>The attachments of a local actor, read back one by one.\<close>

definition published_option :: "environment \<Rightarrow> string \<Rightarrow> payment_option \<Rightarrow> payment_option option" where
  "published_option e username po =
     map_option (\<lambda>a. Option_Link \<lparr>pl_name = aat_name a,
       pl_href = get_subscription_page_url (en_instance_url e) username\<rparr>)
     (attach_payment_option (en_instance_url e) username po)"

lemma attachment_type: "json_index (ser_actor_attachment a) ''type'' = JString (aat_object_type a)"
  by (simp add: json_index_def ser_actor_attachment_def)

lemma parse_attached:
  "parse_actor_attachment i (ser_actor_attachment (attach_identity_proof enc proof)) acc = acc"
  "parse_actor_attachment i (ser_actor_attachment (attach_extra_field f)) (ps, os, fs) =
     (ps, os, fs @ [f\<lparr>ef_value_source := None\<rparr>])"
  "attach_payment_option (en_instance_url e) username po = Some a \<Longrightarrow>
     parse_actor_attachment i (ser_actor_attachment a) (ps, os, fs) =
     (ps, os @ [the (published_option e username po)], fs)"
proof -
  show "parse_actor_attachment i (ser_actor_attachment (attach_identity_proof enc proof)) acc = acc"
    by (cases acc) (simp add: parse_actor_attachment_def attachment_type de_ser_actor_attachment
      attach_identity_proof_def push_ok_def parse_identity_proof_def)
  show "parse_actor_attachment i (ser_actor_attachment (attach_extra_field f)) (ps, os, fs) =
     (ps, os, fs @ [f\<lparr>ef_value_source := None\<rparr>])"
    using parse_attached_field [of f]
    by (simp add: parse_actor_attachment_def attachment_type de_ser_actor_attachment
      attach_extra_field_def push_ok_def)
  show "parse_actor_attachment i (ser_actor_attachment a) (ps, os, fs) =
     (ps, os @ [the (published_option e username po)], fs)"
    if "attach_payment_option (en_instance_url e) username po = Some a"
    using that by (cases po)
      (auto simp: parse_actor_attachment_def attachment_type de_ser_actor_attachment published_option_def
        push_ok_def parse_payment_option_def)
qed

lemma fold_attached:
  "fold (parse_actor_attachment i) (map (ser_actor_attachment \<circ> attach_identity_proof enc) proofs) acc = acc"
  "traverse (attach_payment_option (en_instance_url e) username) pos = Some as \<Longrightarrow>
     fold (parse_actor_attachment i) (map ser_actor_attachment as) (ps, os, fs) =
     (ps, os @ map (the \<circ> published_option e username) pos, fs)"
  "fold (parse_actor_attachment i) (map (ser_actor_attachment \<circ> attach_extra_field) efs) (ps, os, fs) =
     (ps, os, fs @ map (\<lambda>f. f\<lparr>ef_value_source := None\<rparr>) efs)"
proof -
  show "fold (parse_actor_attachment i) (map (ser_actor_attachment \<circ> attach_identity_proof enc) proofs) acc = acc"
    by (induction proofs) (simp_all add: parse_attached(1))
  show "traverse (attach_payment_option (en_instance_url e) username) pos = Some as \<Longrightarrow>
     fold (parse_actor_attachment i) (map ser_actor_attachment as) (ps, os, fs) =
     (ps, os @ map (the \<circ> published_option e username) pos, fs)"
    by (induction pos arbitrary: as os)
      (auto simp: parse_attached(3) bind_eq_Some_conv split: option.splits)
  show "fold (parse_actor_attachment i) (map (ser_actor_attachment \<circ> attach_extra_field) efs) (ps, os, fs) =
     (ps, os, fs @ map (\<lambda>f. f\<lparr>ef_value_source := None\<rparr>) efs)"
    by (induction efs arbitrary: fs) (simp_all add: parse_attached(2))
qed

text \<open>
  C32: The document of a local actor is read back as the same actor. Of its attachments another
  server keeps the extra fields without their sources and the payment options as links to the
  subscription page, and loses the identity proofs.
\<close>

theorem actor_document_roundtrip:
  assumes "get_local_actor e u = Inr a"
  shows "de_actor (ser_actor a) = Some a \<and>
    parse_attachments a =
      ([], map (the \<circ> published_option e (ap_username (us_profile u))) (ap_payment_options (us_profile u)),
       map (\<lambda>f. f\<lparr>ef_value_source := None\<rparr>) (ap_extra_fields (us_profile u)))"
proof
  let ?profile = "us_profile u"
  from assms obtain attachments where
    attachments: "local_attachments e ?profile = Some attachments" and
    a: "ac_attachment a = attachments" "ac_context a = Some build_default_context"
      "ac_also_known_as a = Some (strings (into_actor_ids (ap_aliases ?profile)))"
    by (auto simp: get_local_actor_def Let_def split: option.splits)
  show "de_actor (ser_actor a) = Some a"
    by (rule de_ser_actor) (simp_all add: a build_default_context_def strings_def)
  from attachments obtain as where
    "traverse (attach_payment_option (en_instance_url e) (ap_username ?profile)) (ap_payment_options ?profile) = Some as"
    and "attachments = map (ser_actor_attachment \<circ> attach_identity_proof (en_encode_base58 e))
        (ap_identity_proofs ?profile) @ map ser_actor_attachment as @
        map (ser_actor_attachment \<circ> attach_extra_field) (ap_extra_fields ?profile)"
    by (auto simp: local_attachments_def bind_eq_Some_conv)
  then show "parse_attachments a =
      ([], map (the \<circ> published_option e (ap_username ?profile)) (ap_payment_options ?profile),
       map (\<lambda>f. f\<lparr>ef_value_source := None\<rparr>) (ap_extra_fields ?profile))"
    by (simp add: parse_attachments_def a fold_attached)
qed

definition sample_account :: user where
  "sample_account = user_of (sample_user 1)
     ((sample_profile 1 ''alice'' 0 0 0)\<lparr>ap_extra_fields :=
        [\<lparr>ef_name = ''site'', ef_value = ''alice.example'', ef_value_source = Some ''src''\<rparr>]\<rparr>)"

lemma actor_document_roundtrip_witness:
  "\<exists>a. get_local_actor sample_env sample_account = Inr a \<and> de_actor (ser_actor a) = Some a \<and>
    parse_attachments a = ([], [], [\<lparr>ef_name = ''site'', ef_value = ''alice.example'', ef_value_source = None\<rparr>])"
proof -
  obtain a where a: "get_local_actor sample_env sample_account = Inr a"
    by (simp add: get_local_actor_def sample_env_def sample_account_def user_of_def sample_profile_def
      local_attachments_def Let_def)
  from actor_document_roundtrip [OF a] have "de_actor (ser_actor a) = Some a \<and>
      parse_attachments a = ([], [], [\<lparr>ef_name = ''site'', ef_value = ''alice.example'', ef_value_source = None\<rparr>])"
    by (simp add: sample_account_def user_of_def sample_profile_def)
  with a show ?thesis by blast
qed

section \<open>Notes\<close>

lemma parse_strings: "parse_array (strings ss) = Inr ss"
proof -
  have "parse_array_items (map JString ss) = Inr ss" by (induction ss) simp_all
  then show ?thesis by (simp add: strings_def)
qed

text \<open>The object that a note is for its reader.\<close>

definition object_of_note :: "ap_note \<Rightarrow> ap_object" where
  "object_of_note n =
     \<lparr>ob_id = no_id n, ob_object_type = ''Note'', ob_name = None,
      ob_attachment = (if no_attachment n \<noteq> [] then Some (JArray (no_attachment n)) else None),
      ob_cc = Some (strings (no_cc n)), ob_media_type = None, ob_published = Some (no_published n),
      ob_attributed_to = Some (JString (no_attributed_to n)), ob_in_reply_to = no_in_reply_to n,
      ob_content = Some (no_content n), ob_quote_url = no_quote_url n,
      ob_sensitive = Some (no_sensitive n), ob_tag = no_tag n, ob_to = Some (strings (no_to n)),
      ob_updated = None, ob_url = None\<rparr>"

lemma de_ser_note:
  assumes "en_parse_datetime e (en_show_datetime e (no_published n)) = Some (no_published n)"
  shows "de_object e (ser_note e n) = Some (object_of_note n)"
  using assms
  by (simp del: map_of_append add: de_object_def ser_note_def object_fields_def de_required_def
    object_of_note_def de_option_def [of _ None] de_option_def [of _ "Some (JArray _)"]
    de_option_def [of _ "Some (JString _)"] de_option_def [of _ "Some (JBool _)"] de_datetime_def strings_def)

text \<open>The actors that a note is addressed to beside its audience.\<close>

definition addressees :: "environment \<Rightarrow> post \<Rightarrow> string list" where
  "addressees e post =
     map (profile_actor_id (en_instance_url e)) (pd_mentions (data_of post)) @
     (case pd_in_reply_to_id (data_of post) of
        None \<Rightarrow> []
      | Some _ \<Rightarrow> map (\<lambda>p. profile_actor_id (en_instance_url e) (pd_author (data_of p)))
          (opt_list (in_reply_to_of post)))"

text \<open>None of them has the identifier of a public collection or of a collection of the author.\<close>

definition plain_addressees :: "environment \<Rightarrow> post \<Rightarrow> bool" where
  "plain_addressees e post \<longleftrightarrow>
     (let url = en_instance_url e; username = ap_username (pd_author (data_of post)) in
      list_all (\<lambda>i. i \<notin> set [AP_PUBLIC, ''as:Public'', ''Public'', local_actor_followers url username,
        local_actor_subscribers url username]) (addressees e post))"

lemma set_fold_push: "set (fold (\<lambda>x. push_new (f x)) xs acc) = f ` set xs \<union> set acc"
  by (induction xs arbitrary: acc) auto

lemma build_note_parts:
  assumes "build_note e post = Some n"
  shows "no_id n = local_object_id (en_show_uuid e) (en_instance_url e) (pd_id (data_of post))"
    and "no_attributed_to n = local_actor_id (en_instance_url e) (ap_username (pd_author (data_of post)))"
    and "no_content n = pd_content (data_of post)" and "no_published n = pd_created_at (data_of post)"
    and "set (no_to n @ no_cc n) = set (addressees e post) \<union>
      (case note_audience (en_instance_url e) (ap_username (pd_author (data_of post)))
          (pd_visibility (data_of post)) of (to_audience, cc_audience) \<Rightarrow> set to_audience \<union> set cc_audience)"
  using assms
  by (auto simp: build_note_def Let_def bind_eq_Some_conv reply_audience_def addressees_def set_fold_push opt_list_def
    split: if_splits prod.splits option.splits)

lemma collection_last:
  "last (local_actor_followers url username) = CHR ''s''" "last (local_actor_subscribers url username) = CHR ''s''"
  by (simp_all add: local_actor_followers_def local_actor_subscribers_def collection_of_def)

lemma collection_not_public:
  "local_actor_followers url username \<notin> set [AP_PUBLIC, ''as:Public'', ''Public'']"
  "local_actor_subscribers url username \<notin> set [AP_PUBLIC, ''as:Public'', ''Public'']"
  using collection_last [of url username] by (auto simp: AP_PUBLIC_def)

lemma collections_differ: "local_actor_followers url username \<noteq> local_actor_subscribers url username"
  by (simp add: local_actor_followers_def local_actor_subscribers_def collection_of_def)

lemma visibility_of_audience:
  assumes "set audience = addressed \<union>
      (case note_audience url username v of (to_audience, cc_audience) \<Rightarrow> set to_audience \<union> set cc_audience)"
    and "\<And>i. i \<in> addressed \<Longrightarrow> i \<notin> set [AP_PUBLIC, ''as:Public'', ''Public'', local_actor_followers url username,
        local_actor_subscribers url username]"
    and "ap_actor_json author = Some db_actor"
    and "da_followers db_actor = Some (local_actor_followers url username)"
    and "da_subscribers db_actor = Some (local_actor_subscribers url username)"
  shows "get_object_visibility author audience = Inr v"
  using assms collection_not_public [of url username] collections_differ [of url username]
  by (cases v) (auto simp: get_object_visibility_def is_public_object_def note_audience_def list_ex_iff)

text \<open>
  C14: A note that this server publishes is read back with its identifier, its author, its text, its
  parent and its visibility, by a server that knows the author by its actor document.
\<close>

theorem note_roundtrip:
  assumes "build_note e post = Some n" and "plain_addressees e post"
    and "get_local_actor e u = Inr a" and "us_profile u = pd_author (data_of post)"
    and "ap_actor_json author = Some (into_db_actor a)"
    and "en_parse_datetime e (en_show_datetime e (pd_created_at (data_of post))) = Some (pd_created_at (data_of post))"
  shows "\<exists>obj audience. de_object e (ser_note e n) = Some obj \<and>
    ob_id obj = local_object_id (en_show_uuid e) (en_instance_url e) (pd_id (data_of post)) \<and>
    get_object_attributed_to obj = Inr (ac_id a) \<and> ob_content obj = Some (pd_content (data_of post)) \<and>
    ob_in_reply_to obj = no_in_reply_to n \<and> get_audience obj = Inr audience \<and>
    get_object_visibility author audience = Inr (pd_visibility (data_of post))"
proof (intro exI conjI)
  note parts = build_note_parts [OF assms(1)]
  let ?url = "en_instance_url e" and ?name = "ap_username (pd_author (data_of post))"
  have a: "ac_id a = local_actor_id ?url ?name" "ac_followers a = Some (local_actor_followers ?url ?name)"
    "ac_subscribers a = Some (local_actor_subscribers ?url ?name)"
    using assms(3,4) by (auto simp: get_local_actor_def Let_def local_actor_followers_def
      local_actor_subscribers_def split: option.splits)
  show "de_object e (ser_note e n) = Some (object_of_note n)"
    using assms(6) by (intro de_ser_note) (simp add: parts)
  show "get_audience (object_of_note n) = Inr (no_to n @ no_cc n)"
    by (simp add: get_audience_def object_of_note_def audience_part_def array_or_def parse_strings and_then_def)
  show "get_object_visibility author (no_to n @ no_cc n) = Inr (pd_visibility (data_of post))"
  proof (rule visibility_of_audience [OF parts(5) _ assms(5)])
    show "i \<notin> set [AP_PUBLIC, ''as:Public'', ''Public'', local_actor_followers ?url ?name,
        local_actor_subscribers ?url ?name]" if "i \<in> set (addressees e post)" for i
      using assms(2) that unfolding plain_addressees_def Let_def list_all_iff by blast
  qed (simp_all add: into_db_actor_def a)
  show "get_object_attributed_to (object_of_note n) = Inr (ac_id a)"
    by (simp add: get_object_attributed_to_def object_of_note_def array_or_def and_then_def parts a)
qed (simp_all add: object_of_note_def build_note_parts [OF assms(1)])

lemma note_roundtrip_witness:
  "\<exists>post n a obj audience. build_note sample_env post = Some n \<and> pd_visibility (data_of post) = Followers \<and>
    get_local_actor sample_env sample_account = Inr a \<and> de_object sample_env (ser_note sample_env n) = Some obj \<and>
    get_audience obj = Inr audience \<and>
    get_object_visibility (remote_profile\<lparr>ap_actor_json := Some (into_db_actor a)\<rparr>) audience = Inr Followers"
proof -
  obtain post where post: "post_new (sample_post 10 1 None Followers 0 0) (us_profile sample_account) [] [] [] [] [] = Inr post"
    by (simp add: post_new_def sample_post_def sample_account_def user_of_def sample_profile_def is_local_def)
  then have d: "pd_author (data_of post) = us_profile sample_account" "pd_visibility (data_of post) = Followers"
    "pd_mentions (data_of post) = []" "pd_in_reply_to_id (data_of post) = None" "pd_links (data_of post) = []"
    "linked_of post = []" "pd_created_at (data_of post) = 0"
    by (auto simp: post_new_def sample_post_def split: if_splits)
  obtain a where a: "get_local_actor sample_env sample_account = Inr a"
    by (simp add: get_local_actor_def sample_env_def sample_account_def user_of_def sample_profile_def
      local_attachments_def Let_def)
  obtain n where n: "build_note sample_env post = Some n"
    by (simp add: build_note_def reply_audience_def note_audience_def d Let_def)
  let ?author = "remote_profile\<lparr>ap_actor_json := Some (into_db_actor a)\<rparr>"
  have "en_parse_datetime sample_env (en_show_datetime sample_env (pd_created_at (data_of post))) =
      Some (pd_created_at (data_of post))"
    by (simp add: sample_env_def d)
  moreover have "plain_addressees sample_env post" by (simp add: plain_addressees_def addressees_def d)
  ultimately obtain obj audience where "de_object sample_env (ser_note sample_env n) = Some obj"
    and "get_audience obj = Inr audience" and "get_object_visibility ?author audience = Inr (pd_visibility (data_of post))"
    using note_roundtrip [OF n _ a d(1) [symmetric], of ?author] by auto
  with n a d(2) show ?thesis by metis
qed

section \<open>The follow protocol\<close>

lemma read_follow:
  "de_id_actor_object (build_follow e profile target_id request_id) = Some
     \<lparr>ba_id = local_object_id (en_show_uuid e) (en_instance_url e) request_id,
      ba_actor = local_actor_id (en_instance_url e) (ap_username profile), ba_object = target_id,
      ba_target = []\<rparr>"
  by (simp add: de_id_actor_object_def build_follow_def activity_header_def de_required_def find_object_id_def)

lemma read_accept:
  "de_actor_object (build_accept_follow e random_id profile source_id activity_id) = Some
     \<lparr>ba_id = [], ba_actor = local_actor_id (en_instance_url e) (ap_username profile),
      ba_object = activity_id, ba_target = []\<rparr>"
  "json_index (build_accept_follow e random_id profile source_id activity_id) ''type'' = JString ''Accept''"
  "json_string (json_index (build_accept_follow e random_id profile source_id activity_id) ''actor'') =
     Some (local_actor_id (en_instance_url e) (ap_username profile))"
  by (simp_all add: de_actor_object_def build_accept_follow_def activity_header_def de_required_def
    find_object_id_def json_index_def)

text \<open>
  C24: The follow protocol between two servers \<open>here\<close> and \<open>there\<close>. The server there reads from the
  \<open>Follow\<close> activity who wants to follow which of its accounts, and the \<open>Accept\<close> that it builds for
  the identifier of this activity is handled here as the acceptance of exactly this request.
\<close>

theorem follow_handshake:
  assumes "uuid_codec (en_show_uuid here) (en_parse_uuid here)"
    and "valid_username (ap_username followed_account)"
    and "get_profile_by_remote_actor_id (local_actor_id (en_instance_url there) (ap_username followed_account)) db =
      (Inr target, db)"
    and "get_follow_request_by_id request_id db = (Inr request, db)"
    and "fr_target_id request = ap_id target" and "fr_request_status request \<noteq> Accepted"
  shows "\<exists>a. de_id_actor_object (build_follow here follower
      (local_actor_id (en_instance_url there) (ap_username followed_account)) request_id) = Some a \<and>
    ba_actor a = local_actor_id (en_instance_url here) (ap_username follower) \<and>
    parse_local_actor_id (en_instance_url there) (ba_object a) = Inr (ap_username followed_account) \<and>
    fst (snd (handle_activity here (build_accept_follow there random_id followed_account (ba_actor a) (ba_id a))
      is_authenticated (db, n))) =
    snd (follow_request_accepted (en_now here n) (fr_id request) db)"
proof -
  let ?a = "\<lparr>ba_id = local_object_id (en_show_uuid here) (en_instance_url here) request_id,
      ba_actor = local_actor_id (en_instance_url here) (ap_username follower),
      ba_object = local_actor_id (en_instance_url there) (ap_username followed_account), ba_target = []\<rparr>"
  have "fst (snd (handle_activity here (build_accept_follow there random_id followed_account (ba_actor ?a) (ba_id ?a))
      is_authenticated (db, n))) =
    snd (follow_request_accepted (en_now here n) (fr_id request) db)"
    using assms(3-) parse_built_object_id [OF assms(1)]
    by (simp add: handle_activity_def dispatch_def read_accept handle_accept_def structured_def require_def
      answered_request_def from_db_def db_call_def check_def draw_def bind_def ret_def accepted_def
      split: prod.split sum.split)
  then show ?thesis
    using assms(2) by (auto simp: read_follow parse_local_actor_id_Inr)
qed

lemma follow_handshake_witness:
  "\<exists>a. de_id_actor_object (build_follow sample_env (sample_profile 1 ''alice'' 0 0 0)
      ''https://r.example/users/carol'' 7) = Some a \<and>
    ba_actor a = ''https://l.example/users/alice'' \<and>
    parse_local_actor_id ''https://r.example'' (ba_object a) = Inr ''carol'' \<and>
    (let carol = remote_profile\<lparr>ap_actor_json := Some (remote_actor\<lparr>da_id := ''https://r.example/users/carol''\<rparr>)\<rparr>;
         pending = \<lparr>fr_id = 7, fr_source_id = 1, fr_target_id = 3, fr_activity_id = None, fr_request_status = Pending\<rparr>;
         db = remote_db\<lparr>t_actor_profile := [sample_profile 1 ''alice'' 0 0 0, carol], t_follow_request := [pending]\<rparr>
     in fst (snd (handle_activity sample_env (build_accept_follow (sample_env\<lparr>en_instance_url := ''https://r.example''\<rparr>)
           9 (sample_profile 3 ''carol'' 0 0 0) (ba_actor a) (ba_id a)) True (db, 0))) =
        snd (follow_request_accepted 100 7 db))"
proof -
  let ?there = "sample_env\<lparr>en_instance_url := ''https://r.example''\<rparr>"
  let ?carol = "remote_profile\<lparr>ap_actor_json := Some (remote_actor\<lparr>da_id := ''https://r.example/users/carol''\<rparr>)\<rparr>"
  let ?pending = "\<lparr>fr_id = 7, fr_source_id = 1, fr_target_id = 3, fr_activity_id = None, fr_request_status = Pending\<rparr>
    :: db_follow_request"
  let ?db = "remote_db\<lparr>t_actor_profile := [sample_profile 1 ''alice'' 0 0 0, ?carol], t_follow_request := [?pending]\<rparr>"
  have codec: "uuid_codec (en_show_uuid sample_env) (en_parse_uuid sample_env)"
    using sample_uuid_codec by (simp add: sample_env_def)
  have name: "valid_username (ap_username (sample_profile 3 ''carol'' 0 0 0))"
    by (simp add: valid_username_def sample_profile_def is_word_def is_lower_def)
  have target: "get_profile_by_remote_actor_id
      (local_actor_id (en_instance_url ?there) (ap_username (sample_profile 3 ''carol'' 0 0 0))) ?db = (Inr ?carol, ?db)"
    by code_simp
  have request: "get_follow_request_by_id 7 ?db = (Inr ?pending, ?db)" by code_simp
  have facts: "fr_target_id ?pending = ap_id ?carol" "fr_request_status ?pending \<noteq> Accepted"
    by (simp_all add: remote_profile_def sample_profile_def)
  from follow_handshake [OF codec name target request facts,
      of "sample_profile 1 ''alice'' 0 0 0" 9 True 0]
  show ?thesis
    by (simp add: sample_env_def sample_profile_def local_actor_id_def Let_def)
qed

end
