(* ===== verification/Microsyntax.thy ===== *)
theory Microsyntax
  imports Fetchers "HOL-Library.AList"
begin

text \<open>
  The small syntax of posts: mentions, hashtags, links to objects and emoji shortcodes
  (\<open>src/mastodon_api/statuses/microsyntax\<close>, \<open>parse_microsyntaxes\<close> of \<open>statuses/helpers.rs\<close>). A text
  is the list of its characters; \<open>\s\<close> and \<open>\w\<close> are the Unicode classes of the environment. The
  expressions are the leftmost match with the preferences of the \<open>regex\<close> crate. A \<open>HashMap\<close> is an
  association list; Rust leaves the order of its values open, here it is the order of insertion.
\<close>

section \<open>All matches of an expression\<close>

text \<open>
  \<open>match_at seen rest\<close> is a match at the start of \<open>rest\<close>, with the number of characters after the first
  one that it takes. \<open>captures_iter\<close> and \<open>replace_all\<close> take the leftmost match, then go on behind it.
\<close>

datatype 'm piece = Plain string | Found "string list" 'm "string list"

fun pieces ::
    "(string list \<Rightarrow> string list \<Rightarrow> ('m \<times> nat) option) \<Rightarrow> string list \<Rightarrow> string list \<Rightarrow> 'm piece list" where
  "pieces match_at seen [] = []"
| "pieces match_at seen (c # cs) =
     (case match_at seen (c # cs) of
        None \<Rightarrow> Plain c # pieces match_at (seen @ [c]) cs
      | Some (m, n) \<Rightarrow>
          Found seen m (c # take n cs) # pieces match_at (seen @ c # take n cs) (drop n cs))"

fun replace_piece :: "(string list \<Rightarrow> 'm \<Rightarrow> string list \<Rightarrow> string) \<Rightarrow> 'm piece \<Rightarrow> string" where
  "replace_piece f (Plain c) = c"
| "replace_piece f (Found seen m whole) = f seen m whole"

definition replace_all :: "(string list \<Rightarrow> 'm \<Rightarrow> string list \<Rightarrow> string) \<Rightarrow> 'm piece list \<Rightarrow> string" where
  "replace_all f ps = concat (map (replace_piece f) ps)"

fun found_in :: "(string list \<Rightarrow> 'm \<Rightarrow> 'a option) \<Rightarrow> 'm piece \<Rightarrow> 'a option" where
  "found_in f (Plain c) = None"
| "found_in f (Found seen m whole) = f seen m"

text \<open>The loops push what they find unless they have it.\<close>

definition find_all :: "(string list \<Rightarrow> 'm \<Rightarrow> 'a option) \<Rightarrow> 'm piece list \<Rightarrow> 'a list" where
  "find_all f ps = fold (\<lambda>p xs. case found_in f p of None \<Rightarrow> xs | Some x \<Rightarrow> push_new x xs) ps []"

section \<open>Code blocks\<close>

text \<open>\<open>str::matches(..).count()\<close>; none of the two tags overlaps itself.\<close>

fun occurrences :: "string \<Rightarrow> string \<Rightarrow> nat" where
  "occurrences pat [] = 0"
| "occurrences pat (c # cs) =
     (if strip_prefix pat (c # cs) = None then 0 else 1) + occurrences pat cs"

definition is_inside_code_block :: "string list \<Rightarrow> bool" where
  "is_inside_code_block text_before \<longleftrightarrow>
     occurrences ''</code>'' (concat text_before) < occurrences ''<code>'' (concat text_before)"

section \<open>Mentions and hashtags\<close>

text \<open>\<open>(?m)(?P<before>^|\s|>|[\(])@(?P<mention>[^\s<]+)\<close>, and the same with \<open>#\<close>.\<close>

record sigil_match =
  sm_before :: "string list"
  sm_body :: "string list"

definition sigil_body :: "environment \<Rightarrow> string list \<Rightarrow> string list" where
  "sigil_body e cs = takeWhile (\<lambda>c. \<not> en_is_whitespace e c \<and> c \<noteq> ''<'') cs"

definition find_sigil ::
    "environment \<Rightarrow> string \<Rightarrow> string list \<Rightarrow> string list \<Rightarrow> (sigil_match \<times> nat) option" where
  "find_sigil e sigil seen rest =
     (case rest of
        [] \<Rightarrow> None
      | c # cs \<Rightarrow>
          if c = sigil \<and> (seen = [] \<or> last seen = [char_of (10 :: nat)]) \<and> sigil_body e cs \<noteq> []
          then Some (\<lparr>sm_before = [], sm_body = sigil_body e cs\<rparr>, length (sigil_body e cs))
          else if (en_is_whitespace e c \<or> c = ''>'' \<or> c = ''('') \<and> cs \<noteq> [] \<and> hd cs = sigil \<and>
            sigil_body e (List.tl cs) \<noteq> []
          then Some (\<lparr>sm_before = [c], sm_body = sigil_body e (List.tl cs)\<rparr>,
            Suc (length (sigil_body e (List.tl cs))))
          else None)"

definition sigil_pieces :: "environment \<Rightarrow> string \<Rightarrow> string \<Rightarrow> sigil_match piece list" where
  "sigil_pieces e sigil text' = pieces (find_sigil e sigil) [] (en_chars e text')"

definition sigil_in_code :: "string list \<Rightarrow> string \<Rightarrow> sigil_match \<Rightarrow> bool" where
  "sigil_in_code seen sigil m = is_inside_code_block (seen @ sm_before m @ [sigil])"

text \<open>\<open>[\.,:?!\)]\<close>\<close>

definition after_chars :: "string list" where
  "after_chars = [''.'', '','', '':'', ''?'', ''!'', '')'']"

definition is_after :: "string list \<Rightarrow> bool" where
  "is_after cs \<longleftrightarrow> cs = [] \<or> (\<exists>c \<in> set after_chars. cs = [c])"

subsection \<open>Hashtags\<close>

text \<open>\<open>^(?P<tag>[0-9A-Za-z]+)(?P<after>[\.,:?!\)]?)$\<close>\<close>

definition is_tag_char :: "string \<Rightarrow> bool" where
  "is_tag_char s \<longleftrightarrow> (\<exists>c. s = [c] \<and> (is_digit c \<or> is_upper c \<or> is_lower c))"

lemma is_tag_char_code [code]:
  "is_tag_char s \<longleftrightarrow> (case s of [c] \<Rightarrow> is_digit c \<or> is_upper c \<or> is_lower c | _ \<Rightarrow> False)"
  by (auto simp: is_tag_char_def split: list.splits)

definition hashtag_parts :: "string list \<Rightarrow> (string \<times> string) option" where
  "hashtag_parts body =
     (let tag = takeWhile is_tag_char body; rest = dropWhile is_tag_char body in
      if tag \<noteq> [] \<and> is_after rest then Some (concat tag, concat rest) else None)"

definition hashtag_name :: "string list \<Rightarrow> sigil_match \<Rightarrow> string option" where
  "hashtag_name seen m =
     (if sigil_in_code seen ''#'' m then None
      else map_option (\<lambda>(tag, _). to_lowercase tag) (hashtag_parts (sm_body m)))"

definition find_hashtags :: "environment \<Rightarrow> string \<Rightarrow> string list" where
  "find_hashtags e text' = find_all hashtag_name (sigil_pieces e ''#'' text')"

definition hashtag_link :: "string \<Rightarrow> string \<Rightarrow> string" where
  "hashtag_link instance_url tag =
     ''<a class=\"hashtag\" href=\"'' @ local_tag_collection instance_url (to_lowercase tag) @ ''\">#'' @ tag @ ''</a>''"

definition link_hashtag ::
    "string \<Rightarrow> string list \<Rightarrow> string list \<Rightarrow> sigil_match \<Rightarrow> string list \<Rightarrow> string" where
  "link_hashtag instance_url tags seen m whole =
     (if sigil_in_code seen ''#'' m then concat whole
      else
        case hashtag_parts (sm_body m) of
          Some (tag, after) \<Rightarrow>
            if to_lowercase tag \<in> set tags
            then concat (sm_before m) @ hashtag_link instance_url tag @ after
            else concat whole
        | None \<Rightarrow> concat whole)"

definition replace_hashtags :: "environment \<Rightarrow> string \<Rightarrow> string list \<Rightarrow> string" where
  "replace_hashtags e text' tags =
     replace_all (link_hashtag (en_instance_url e) tags) (sigil_pieces e ''#'' text')"

subsection \<open>Mentions\<close>

text \<open>
  \<open>^(?P<username>[\w\.-_]+)(@(?P<hostname>[\w\.-]+\w))?(?P<after>[\.,:?!\)]?)$\<close>. In the first class
  \<open>\.-_\<close> is the range from the dot to the underscore, which has the \<open>@\<close>, the colon and the question
  mark but not the hyphen. The longest user name that leaves a match is taken.
\<close>

definition in_dot_range :: "string \<Rightarrow> bool" where
  "in_dot_range s \<longleftrightarrow> (case s of [c] \<Rightarrow> 46 \<le> (of_char c :: nat) \<and> (of_char c :: nat) \<le> 95 | _ \<Rightarrow> False)"

definition is_mention_char :: "environment \<Rightarrow> string \<Rightarrow> bool" where
  "is_mention_char e c \<longleftrightarrow> en_word_chars e c \<or> in_dot_range c"

definition is_host :: "environment \<Rightarrow> string list \<Rightarrow> bool" where
  "is_host e cs \<longleftrightarrow>
     2 \<le> length cs \<and> list_all (\<lambda>c. en_word_chars e c \<or> c = ''.'' \<or> c = ''-'') cs \<and> en_word_chars e (last cs)"

definition mention_host :: "environment \<Rightarrow> string list \<Rightarrow> (string list option \<times> string list) option" where
  "mention_host e rest =
     (case rest of
        [] \<Rightarrow> Some (None, [])
      | c # cs \<Rightarrow>
          if c = ''@'' \<and> is_host e cs then Some (Some cs, [])
          else if c = ''@'' \<and> cs \<noteq> [] \<and> is_host e (butlast cs) \<and> is_after [last cs]
          then Some (Some (butlast cs), [last cs])
          else if is_after rest then Some (None, rest) else None)"

definition mention_parts :: "environment \<Rightarrow> string list \<Rightarrow> (string \<times> string option \<times> string) option" where
  "mention_parts e body =
     (case find (\<lambda>k. mention_host e (drop k body) \<noteq> None)
         (rev [1..<Suc (length (takeWhile (is_mention_char e) body))]) of
        None \<Rightarrow> None
      | Some k \<Rightarrow>
          map_option (\<lambda>(host, after). (concat (take k body), map_option concat host, concat after))
            (mention_host e (drop k body)))"

definition mention_acct :: "environment \<Rightarrow> string \<Rightarrow> string option \<Rightarrow> string" where
  "mention_acct e username hostname =
     address_acct (en_hostname e) \<lparr>aa_username = username,
       aa_hostname = (case hostname of Some h \<Rightarrow> h | None \<Rightarrow> en_hostname e)\<rparr>"

definition mention_name :: "environment \<Rightarrow> string list \<Rightarrow> sigil_match \<Rightarrow> string option" where
  "mention_name e seen m =
     (if sigil_in_code seen ''@'' m then None
      else map_option (\<lambda>(username, hostname, _). mention_acct e username hostname)
        (mention_parts e (sm_body m)))"

definition find_mentions :: "environment \<Rightarrow> string \<Rightarrow> string list" where
  "find_mentions e text' = find_all (mention_name e) (sigil_pieces e ''@'' text')"

definition find_mentioned_profiles :: "environment \<Rightarrow> string \<Rightarrow> (string \<times> db_actor_profile) list dbm" where
  "find_mentioned_profiles e text' =
     bind (get_profiles_by_accts (find_mentions e text')) (\<lambda>profiles.
     ret (fold (\<lambda>profile. AList.update (ap_acct profile) profile) profiles []))"

definition mention_link :: "string \<Rightarrow> db_actor_profile \<Rightarrow> string" where
  "mention_link instance_url profile =
     ''<span class=\"h-card\"><a class=\"u-url mention\" href=\"'' @ profile_actor_url instance_url profile @
     ''\">@'' @ ap_username profile @ ''</a></span>''"

definition link_mention ::
    "environment \<Rightarrow> (string \<times> db_actor_profile) list \<Rightarrow> string list \<Rightarrow> sigil_match \<Rightarrow> string list \<Rightarrow> string" where
  "link_mention e mention_map seen m whole =
     (if sigil_in_code seen ''@'' m then concat whole
      else
        case mention_parts e (sm_body m) of
          Some (username, hostname, after) \<Rightarrow>
            (case map_of mention_map (mention_acct e username hostname) of
               Some profile \<Rightarrow> concat (sm_before m) @ mention_link (en_instance_url e) profile @ after
             | None \<Rightarrow> concat whole)
        | None \<Rightarrow> concat whole)"

definition replace_mentions :: "environment \<Rightarrow> (string \<times> db_actor_profile) list \<Rightarrow> string \<Rightarrow> string" where
  "replace_mentions e mention_map text' =
     replace_all (link_mention e mention_map) (sigil_pieces e ''@'' text')"

section \<open>Links to objects\<close>

text \<open>
  \<open>(?m)\[\[(?P<url>[^\s\|]+)(\|(?P<text>.+?))?\]\]\<close>. The URL is as long as possible and may hold
  brackets, the text is as short as possible and stays on its line.
\<close>

fun lazy_text :: "string list \<Rightarrow> string list option" where
  "lazy_text [] = None"
| "lazy_text (c # cs) =
     (if c = [char_of (10 :: nat)] then None
      else if take 2 cs = ['']'', '']''] then Some [c]
      else map_option (Cons c) (lazy_text cs))"

record link_match =
  lm_url :: "string list"
  lm_text :: "string list option"

definition find_link :: "environment \<Rightarrow> string list \<Rightarrow> string list \<Rightarrow> (link_match \<times> nat) option" where
  "find_link e seen rest =
     (if take 2 rest \<noteq> [''['', ''[''] then None
      else
        let inner = drop 2 rest;
          url = takeWhile (\<lambda>c. \<not> en_is_whitespace e c \<and> c \<noteq> ''|'') inner;
          after = drop (length url) inner in
        if url = [] then None
        else
          case (if after \<noteq> [] \<and> hd after = ''|'' then lazy_text (List.tl after) else None) of
            Some t \<Rightarrow> Some (\<lparr>lm_url = url, lm_text = Some t\<rparr>, length url + length t + 4)
          | None \<Rightarrow>
              (case find (\<lambda>k. take 2 (drop k inner) = ['']'', '']'']) (rev [1..<Suc (length url)]) of
                 None \<Rightarrow> None
               | Some k \<Rightarrow> Some (\<lparr>lm_url = take k inner, lm_text = None\<rparr>, k + 3)))"

definition link_pieces :: "environment \<Rightarrow> string \<Rightarrow> link_match piece list" where
  "link_pieces e text' = pieces (find_link e) [] (en_chars e text')"

definition link_in_code :: "string list \<Rightarrow> bool" where
  "link_in_code seen = is_inside_code_block (seen @ [''['', ''[''])"

definition link_url :: "string list \<Rightarrow> link_match \<Rightarrow> string option" where
  "link_url seen m = (if link_in_code seen then None else Some (concat (lm_url m)))"

definition find_object_links :: "environment \<Rightarrow> string \<Rightarrow> string list" where
  "find_object_links e text' = find_all link_url (link_pieces e text')"

fun linked_posts_loop :: "environment \<Rightarrow> string list \<Rightarrow> nat \<Rightarrow> (string \<times> post) list \<Rightarrow> (string \<times> post) list dbm" where
  "linked_posts_loop e [] counter link_map = ret link_map"
| "linked_posts_loop e (url # urls) counter link_map =
     (if LINK_LIMIT < counter then ret link_map
      else
        attempt (get_post_by_object_id e url)
          (\<lambda>err. if is_not_found err then linked_posts_loop e urls counter link_map else throw err)
          (\<lambda>post.
             if pd_repost_of_id (data_of post) \<noteq> None then linked_posts_loop e urls counter link_map
             else if pd_visibility (data_of post) \<noteq> Public then linked_posts_loop e urls counter link_map
             else linked_posts_loop e urls (counter + 1) (AList.update url post link_map)))"

definition find_linked_posts :: "environment \<Rightarrow> string \<Rightarrow> (string \<times> post) list dbm" where
  "find_linked_posts e text' = linked_posts_loop e (find_object_links e text') 0 []"

definition link_object :: "(string \<times> post) list \<Rightarrow> string list \<Rightarrow> link_match \<Rightarrow> string list \<Rightarrow> string" where
  "link_object link_map seen m whole =
     (if link_in_code seen then concat whole
      else
        let url = concat (lm_url m);
          link_text = (case lm_text m of Some t \<Rightarrow> concat t | None \<Rightarrow> url) in
        if map_of link_map url \<noteq> None then ''<a href=\"'' @ url @ ''\">'' @ link_text @ ''</a>''
        else concat whole)"

definition replace_object_links :: "environment \<Rightarrow> (string \<times> post) list \<Rightarrow> string \<Rightarrow> string" where
  "replace_object_links e link_map text' = replace_all (link_object link_map) (link_pieces e text')"

section \<open>Emojis\<close>

text \<open>\<open>(?m):(?P<name>[\w.]+):\<close>\<close>

definition find_shortcode :: "environment \<Rightarrow> string list \<Rightarrow> string list \<Rightarrow> (string list \<times> nat) option" where
  "find_shortcode e seen rest =
     (if rest = [] \<or> hd rest \<noteq> '':'' then None
      else
        let name = takeWhile (\<lambda>c. en_word_chars e c \<or> c = ''.'') (List.tl rest) in
        if name \<noteq> [] \<and> take 1 (drop (length name) (List.tl rest)) = ['':'']
        then Some (name, Suc (length name)) else None)"

definition shortcode_name :: "string list \<Rightarrow> string list \<Rightarrow> string option" where
  "shortcode_name seen name =
     (if is_inside_code_block (seen @ ['':'']) then None else Some (concat name))"

definition find_shortcodes :: "environment \<Rightarrow> string \<Rightarrow> string list" where
  "find_shortcodes e text' = find_all shortcode_name (pieces (find_shortcode e) [] (en_chars e text'))"

definition find_emojis :: "environment \<Rightarrow> string \<Rightarrow> (string \<times> db_emoji) list dbm" where
  "find_emojis e text' =
     bind (get_local_emojis_by_names (find_shortcodes e text')) (\<lambda>emojis.
     ret (fold (\<lambda>emoji. AList.update (em_emoji_name emoji) emoji) emojis []))"

section \<open>Parsing the content of a post\<close>

record post_content =
  mc_content :: string
  mc_mentions :: "uuid list"
  mc_hashtags :: "string list"
  mc_links :: "uuid list"
  mc_linked :: "post list"
  mc_emoji_rows :: "db_emoji list"

definition parse_microsyntaxes :: "environment \<Rightarrow> string \<Rightarrow> post_content dbm" where
  "parse_microsyntaxes e content0 =
     bind (find_mentioned_profiles e content0) (\<lambda>mention_map.
     let content1 = replace_mentions e mention_map content0;
       hashtags = find_hashtags e content1;
       content2 = replace_hashtags e content1 hashtags in
     bind (find_linked_posts e content2) (\<lambda>link_map.
     let content3 = replace_object_links e link_map content2 in
     bind (find_emojis e content3) (\<lambda>emoji_map.
     ret \<lparr>mc_content = content3, mc_mentions = map (\<lambda>kv. ap_id (snd kv)) mention_map, mc_hashtags = hashtags,
       mc_links = map (\<lambda>kv. pd_id (data_of (snd kv))) link_map, mc_linked = map snd link_map,
       mc_emoji_rows = map snd emoji_map\<rparr>)))"

end
