(* ===== verification/Api_Types.thy ===== *)
theory Api_Types
  imports Builders Movies Oauth
begin

text \<open>
  What the client API shares: its errors (\<open>mastodon_api/errors.rs\<close>), the check of the access token
  (\<open>oauth/auth.rs\<close>), uploads (\<open>uploads.rs\<close>), pages (\<open>pagination.rs\<close>), and the values of its answers
  (\<open>accounts/types.rs\<close>, \<open>statuses/types.rs\<close>, \<open>custom_emojis/types.rs\<close>, \<open>media/types.rs\<close>,
  \<open>notifications/types.rs\<close>). An answer is the value that the server serializes; the clock readings of
  one answer are one argument \<open>now\<close>.
\<close>

section \<open>Errors\<close>

datatype mastodon_error =
    Api_DatabaseError db_error
  | Api_ValidationError string
  | Api_AuthError string
  | PermissionError
  | NotFoundError string
  | NotSupported
  | OperationError string
  | InternalError

definition mastodon_error_of :: "db_error \<Rightarrow> mastodon_error" where
  "mastodon_error_of err =
     (case err of
        NotFound name \<Rightarrow> NotFoundError name
      | AlreadyExists name \<Rightarrow> Api_ValidationError (name @ '' already exists'')
      | _ \<Rightarrow> Api_DatabaseError err)"

fun status_code :: "mastodon_error \<Rightarrow> nat" where
  "status_code (Api_ValidationError _) = 400"
| "status_code (Api_AuthError _) = 401"
| "status_code PermissionError = 403"
| "status_code (NotFoundError _) = 404"
| "status_code NotSupported = 418"
| "status_code (OperationError _) = 422"
| "status_code _ = 500"

type_synonym 'a mm = "(mastodon_error, 'a) app_m"

definition api_db :: "'a dbm \<Rightarrow> 'a mm" where
  "api_db = db_call mastodon_error_of"

definition api_run :: "(db_error, 'a) app_m \<Rightarrow> 'a mm" where
  "api_run = map_failure mastodon_error_of"

definition api_invalid :: "string \<Rightarrow> 'a mm" where
  "api_invalid msg = fail (Api_ValidationError msg)"

definition api_check :: "'a validated \<Rightarrow> 'a mm" where
  "api_check r =
     (case r of Inl Panic \<Rightarrow> panic | Inl (Error msg) \<Rightarrow> api_invalid msg | Inr x \<Rightarrow> ret x)"

definition api_require :: "'a option \<Rightarrow> mastodon_error \<Rightarrow> 'a mm" where
  "api_require x err = (case x of None \<Rightarrow> fail err | Some y \<Rightarrow> ret y)"

section \<open>The current user\<close>

definition get_current_user :: "environment \<Rightarrow> string \<Rightarrow> user mm" where
  "get_current_user e token =
     bind (draw (en_now e)) (\<lambda>now.
     db_match (get_user_by_oauth_token now token)
       (\<lambda>err. fail (if is_not_found err then Api_AuthError ''access token is invalid'' else InternalError))
       ret)"

text \<open>\<open>Option<BearerAuth>\<close>\<close>

definition maybe_current_user :: "environment \<Rightarrow> string option \<Rightarrow> user option mm" where
  "maybe_current_user e auth =
     (case auth of
        Some token \<Rightarrow> bind (get_current_user e token) (\<lambda>u. ret (Some u))
      | None \<Rightarrow> ret None)"

section \<open>Uploads\<close>

datatype upload_error = WriteError | Base64DecodingError | TooLarge | InvalidMediaType

fun upload_failure :: "upload_error \<Rightarrow> mastodon_error" where
  "upload_failure WriteError = InternalError"
| "upload_failure Base64DecodingError = Api_ValidationError ''base64 decoding error''"
| "upload_failure TooLarge = Api_ValidationError ''file is too large''"
| "upload_failure InvalidMediaType = Api_ValidationError ''invalid media type''"

definition text_of_bytes :: "8 word list \<Rightarrow> string" where
  "text_of_bytes bytes = map (\<lambda>b. char_of (unat b)) bytes"

definition save_b64_file ::
    "environment \<Rightarrow> string \<Rightarrow> string option \<Rightarrow> nat \<Rightarrow> string option \<Rightarrow> (upload_error, string \<times> nat \<times> string) app_m"
where
  "save_b64_file e b64data maybe_media_type file_size_limit maybe_expected_prefix =
     (case en_decode_base64 e b64data of
        None \<Rightarrow> fail Base64DecodingError
      | Some bytes \<Rightarrow>
          let file_data = text_of_bytes bytes; file_size = length bytes in
          if file_size_limit < file_size then fail TooLarge
          else
            case (case maybe_media_type of Some t \<Rightarrow> Some t | None \<Rightarrow> en_sniff_media_type e file_data) of
              None \<Rightarrow> fail InvalidMediaType
            | Some media_type \<Rightarrow>
                if media_type \<notin> set supported_media_types then fail InvalidMediaType
                else if (case maybe_expected_prefix of
                           Some expected_prefix \<Rightarrow> strip_prefix expected_prefix media_type = None
                         | None \<Rightarrow> False)
                then fail InvalidMediaType
                else
                  bind (map_failure (\<lambda>_. WriteError) (save_file e file_data (Some media_type))) (\<lambda>file_name.
                  ret (file_name, file_size, media_type)))"

section \<open>Pages\<close>

definition PAGE_MAX_SIZE :: nat where "PAGE_MAX_SIZE = 200"

definition page_size_try_from :: "nat \<Rightarrow> string + nat" where
  "page_size_try_from v =
     (if 0 < v \<and> v \<le> PAGE_MAX_SIZE then Inr v else Inl ''expected an integer between 0 and 201'')"

definition get_pagination_header :: "string \<Rightarrow> string \<Rightarrow> string \<Rightarrow> string" where
  "get_pagination_header instance_url path last_id =
     ''<'' @ instance_url @ path @ ''?max_id='' @ last_id @ ''>; rel=\"next\"''"

text \<open>The items of the page and its \<open>Link\<close> header.\<close>

definition get_paginated_response ::
    "string \<Rightarrow> string \<Rightarrow> 'a list \<Rightarrow> string option \<Rightarrow> 'a list \<times> string option" where
  "get_paginated_response instance_url path items maybe_last_item_id =
     (items, map_option (get_pagination_header instance_url path) maybe_last_item_id)"

text \<open>The last item of a full page, at index \<open>limit.saturating_sub(1)\<close>.\<close>

definition last_of_page :: "nat \<Rightarrow> 'a list \<Rightarrow> 'a option" where
  "last_of_page limit items = (if limit - 1 < length items then Some (items ! (limit - 1)) else None)"

section \<open>Accounts\<close>

record account_field =
  af_name :: string
  af_value :: string
  af_verified_at :: "datetime option"

datatype account_payment_option =
    Account_Link string string
  | Account_EthereumSubscription
  | Account_MoneroSubscription nat

record account_source =
  as_note :: "string option"
  as_fields :: "account_field list"

record api_role =
  ar_id :: i32
  ar_name :: string
  ar_permissions :: "string list"

record custom_emoji =
  ce_shortcode :: string
  ce_url :: string
  ce_static_url :: string
  ce_visible_in_picker :: bool

record account =
  acc_account_id :: uuid
  acc_username :: string
  acc_acct :: string
  acc_account_url :: string
  acc_display_name :: "string option"
  acc_locked :: bool
  acc_bot :: bool
  acc_created_at :: datetime
  acc_note :: "string option"
  acc_avatar :: "string option"
  acc_header :: "string option"
  acc_identity_proofs :: "account_field list"
  acc_payment_options :: "account_payment_option list"
  acc_extra_fields :: "account_field list"
  acc_emojis :: "custom_emoji list"
  acc_followers_count :: i32
  acc_following_count :: i32
  acc_subscribers_count :: i32
  acc_statuses_count :: i32
  acc_source :: "account_source option"
  acc_role :: "api_role option"
  acc_client_config :: "(string \<times> json) list option"

fun permission_name :: "permission \<Rightarrow> string" where
  "permission_name CreateFollowRequest = ''create_follow_request''"
| "permission_name CreatePost = ''create_post''"
| "permission_name DeleteAnyPost = ''delete_any_post''"
| "permission_name DeleteAnyProfile = ''delete_any_profile''"
| "permission_name ManageSubscriptionOptions = ''manage_subscription_options''"

text \<open>\<open>unimplemented!\<close> for guests: \<open>None\<close>.\<close>

definition api_role_from_db :: "role \<Rightarrow> api_role option" where
  "api_role_from_db r =
     (let role_name = (case r of
            Guest \<Rightarrow> None
          | NormalUser \<Rightarrow> Some ''user''
          | Admin \<Rightarrow> Some ''admin''
          | ReadOnlyUser \<Rightarrow> Some ''read_only_user'') in
      map_option (\<lambda>name. \<lparr>ar_id = role_to_i16 r, ar_name = name,
        ar_permissions = map permission_name (get_permissions r)\<rparr>) role_name)"

definition custom_emoji_from_db :: "string \<Rightarrow> db_emoji \<Rightarrow> custom_emoji" where
  "custom_emoji_from_db base_url emoji =
     (let image_url = get_file_url base_url (ei_file_name (em_image emoji)) in
      \<lparr>ce_shortcode = em_emoji_name emoji, ce_url = image_url, ce_static_url = image_url,
       ce_visible_in_picker = True\<rparr>)"

definition proof_field :: "environment \<Rightarrow> datetime \<Rightarrow> identity_proof \<Rightarrow> account_field" where
  "proof_field e now proof =
     (case ip_issuer proof of
        Did_Key k \<Rightarrow>
          \<lparr>af_name = ''Key'', af_value = encode_multibase_base58btc (en_encode_base58 e) (dk_key k),
           af_verified_at = Some now\<rparr>
      | Did_Pkh p \<Rightarrow>
          \<lparr>af_name = (case did_pkh_currency p of Some c \<Rightarrow> currency_field_name c | None \<Rightarrow> ''$''),
           af_value = dp_address p, af_verified_at = Some now\<rparr>)"

fun account_payment_option_of :: "payment_option \<Rightarrow> account_payment_option" where
  "account_payment_option_of (Option_Link link) = Account_Link (pl_name link) (pl_href link)"
| "account_payment_option_of (Option_EthereumSubscription _) = Account_EthereumSubscription"
| "account_payment_option_of (Option_MoneroSubscription info) = Account_MoneroSubscription (ms_price info)"

definition account_from_profile :: "environment \<Rightarrow> string \<Rightarrow> datetime \<Rightarrow> db_actor_profile \<Rightarrow> account" where
  "account_from_profile e base_url now profile =
     \<lparr>acc_account_id = ap_id profile, acc_username = ap_username profile, acc_acct = ap_acct profile,
      acc_account_url = profile_actor_url (en_instance_url e) profile,
      acc_display_name = ap_display_name profile, acc_locked = ap_manually_approves_followers profile,
      acc_bot = True, acc_created_at = ap_created_at profile, acc_note = ap_bio profile,
      acc_avatar = map_option (\<lambda>img. get_file_url base_url (pi_file_name img)) (ap_avatar profile),
      acc_header = map_option (\<lambda>img. get_file_url base_url (pi_file_name img)) (ap_banner profile),
      acc_identity_proofs = map (proof_field e now) (ap_identity_proofs profile),
      acc_payment_options = map account_payment_option_of (ap_payment_options profile),
      acc_extra_fields = map (\<lambda>f. \<lparr>af_name = ef_name f, af_value = ef_value f, af_verified_at = None\<rparr>)
        (ap_extra_fields profile),
      acc_emojis = map (custom_emoji_from_db base_url) (ap_emojis profile),
      acc_followers_count = ap_follower_count profile, acc_following_count = ap_following_count profile,
      acc_subscribers_count = ap_subscriber_count profile, acc_statuses_count = ap_post_count profile,
      acc_source = None, acc_role = None, acc_client_config = None\<rparr>"

text \<open>\<open>None\<close> is the panic for guests.\<close>

definition account_from_user :: "environment \<Rightarrow> string \<Rightarrow> datetime \<Rightarrow> user \<Rightarrow> account option" where
  "account_from_user e base_url now u =
     (let p = us_profile u;
        source = \<lparr>as_note = ap_bio_source p,
          as_fields = map (\<lambda>f. \<lparr>af_name = ef_name f,
            af_value = (case ef_value_source f of Some v \<Rightarrow> v | None \<Rightarrow> ef_value f), af_verified_at = None\<rparr>)
            (ap_extra_fields p)\<rparr> in
      map_option (\<lambda>r. (account_from_profile e base_url now p)
        \<lparr>acc_source := Some source, acc_role := Some r, acc_client_config := Some (us_client_config u)\<rparr>)
        (api_role_from_db (us_role u)))"

text \<open>The account in an answer.\<close>

definition answer_account :: "environment \<Rightarrow> string \<Rightarrow> user \<Rightarrow> account mm" where
  "answer_account e base_url u =
     bind (draw (en_now e)) (\<lambda>now. or_panic (account_from_user e base_url now u) ret)"

definition answer_profiles :: "environment \<Rightarrow> string \<Rightarrow> db_actor_profile list \<Rightarrow> account list mm" where
  "answer_profiles e base_url profiles =
     bind (draw (en_now e)) (\<lambda>now. ret (map (account_from_profile e base_url now) profiles))"

section \<open>Statuses\<close>

record api_mention =
  mn_id :: string
  mn_username :: string
  mn_acct :: string
  mn_url :: string

definition mention_from_profile :: "environment \<Rightarrow> db_actor_profile \<Rightarrow> api_mention" where
  "mention_from_profile e profile =
     \<lparr>mn_id = en_show_uuid e (ap_id profile), mn_username = ap_username profile,
      mn_acct = ap_acct profile, mn_url = profile_actor_url (en_instance_url e) profile\<rparr>"

record api_tag =
  tg_text :: string
  tg_url :: string

definition tag_from_name :: "environment \<Rightarrow> string \<Rightarrow> api_tag" where
  "tag_from_name e name =
     \<lparr>tg_text = name, tg_url = local_tag_collection (en_instance_url e) name\<rparr>"

record api_attachment =
  att_id :: uuid
  att_type :: string
  att_url :: string

definition attachment_from_db :: "string \<Rightarrow> db_media_attachment \<Rightarrow> api_attachment" where
  "attachment_from_db base_url db_attachment =
     \<lparr>att_id = ma_id db_attachment,
      att_type = (case from_media_type (ma_media_type db_attachment) of
          Attachment_Unknown \<Rightarrow> ''unknown''
        | Attachment_Image \<Rightarrow> ''image''
        | Attachment_Video \<Rightarrow> ''video''
        | Attachment_Audio \<Rightarrow> ''audio''),
      att_url = get_file_url base_url (ma_file_name db_attachment)\<rparr>"

record status_data =
  st_id :: uuid
  st_uri :: string
  st_created_at :: datetime
  st_edited_at :: "datetime option"
  st_account :: account
  st_content :: string
  st_in_reply_to_id :: "uuid option"
  st_visibility :: string
  st_is_sensitive :: bool
  st_spoiler_text :: "string option"
  st_replies_count :: i32
  st_favourites_count :: i32
  st_reblogs_count :: i32
  st_media_attachments :: "api_attachment list"
  st_mentions :: "api_mention list"
  st_tags :: "api_tag list"
  st_emojis :: "custom_emoji list"
  st_favourited :: bool
  st_reblogged :: bool
  st_ipfs_cid :: "string option"
  st_token_id :: "i32 option"
  st_token_tx_id :: "string option"

datatype status = Status (status_of: status_data) (reblog_of: "status option") (links_of: "status list")

fun visibility_name :: "visibility \<Rightarrow> string" where
  "visibility_name Public = ''public''"
| "visibility_name Direct = ''direct''"
| "visibility_name Followers = ''private''"
| "visibility_name Subscribers = ''subscribers''"

definition status_data_of ::
    "environment \<Rightarrow> string \<Rightarrow> datetime \<Rightarrow> post_data \<Rightarrow> post_actions option \<Rightarrow> status_data" where
  "status_data_of e base_url now d actions =
     \<lparr>st_id = pd_id d,
      st_uri = (case pd_object_id d of
          Some object_id \<Rightarrow> object_id
        | None \<Rightarrow> local_object_id (en_show_uuid e) (en_instance_url e) (pd_id d)),
      st_created_at = pd_created_at d, st_edited_at = pd_updated_at d,
      st_account = account_from_profile e base_url now (pd_author d),
      st_content = pd_content d, st_in_reply_to_id = pd_in_reply_to_id d,
      st_visibility = visibility_name (pd_visibility d), st_is_sensitive = pd_is_sensitive d,
      st_spoiler_text = None, st_replies_count = pd_reply_count d,
      st_favourites_count = pd_reaction_count d, st_reblogs_count = pd_repost_count d,
      st_media_attachments = map (attachment_from_db base_url) (pd_attachments d),
      st_mentions = map (mention_from_profile e) (pd_mentions d),
      st_tags = map (tag_from_name e) (pd_tags d),
      st_emojis = map (custom_emoji_from_db base_url) (pd_emojis d),
      st_favourited = (case actions of Some a \<Rightarrow> pa_favourited a | None \<Rightarrow> False),
      st_reblogged = (case actions of Some a \<Rightarrow> pa_reposted a | None \<Rightarrow> False),
      st_ipfs_cid = pd_ipfs_cid d, st_token_id = pd_token_id d, st_token_tx_id = pd_token_tx_id d\<rparr>"

primrec status_from_post :: "environment \<Rightarrow> string \<Rightarrow> datetime \<Rightarrow> post \<Rightarrow> status" where
  "status_from_post e base_url now (Post d actions in_reply_to repost_of linked) =
     Status (status_data_of e base_url now d actions)
       (map_option (status_from_post e base_url now) repost_of)
       (map (status_from_post e base_url now) linked)"

lemma status_from_post_data:
  "status_of (status_from_post e base_url now p) = status_data_of e base_url now (data_of p) (actions_of p)"
  by (cases p) simp

lemma status_from_post_id [simp]: "st_id (status_of (status_from_post e base_url now p)) = post_id_of p"
  by (simp add: status_from_post_data status_data_of_def post_id_of_def)

section \<open>Notifications\<close>

record api_notification =
  an_id :: string
  an_event_type :: string
  an_created_at :: datetime
  an_account :: account
  an_status :: "status option"

fun event_type_name :: "event_type \<Rightarrow> string" where
  "event_type_name Event_Follow = ''follow''"
| "event_type_name Event_FollowRequest = ''follow_request''"
| "event_type_name Event_Reply = ''reply''"
| "event_type_name Event_Reaction = ''favourite''"
| "event_type_name Event_Mention = ''mention''"
| "event_type_name Event_Repost = ''reblog''"
| "event_type_name Event_Subscription = ''subscription''"
| "event_type_name Event_SubscriptionStart = ''''"
| "event_type_name Event_SubscriptionExpiration = ''subscription_expiration''"
| "event_type_name Event_Move = ''move''"

definition show_int :: "int \<Rightarrow> string" where
  "show_int n = (if n < 0 then CHR ''-'' # show_nat (nat (- n)) else show_nat (nat n))"

definition notification_from_db :: "environment \<Rightarrow> string \<Rightarrow> datetime \<Rightarrow> notification \<Rightarrow> api_notification" where
  "notification_from_db e base_url now n =
     \<lparr>an_id = show_int (notification.no_id n), an_event_type = event_type_name (no_event_type n),
      an_created_at = no_created_at n, an_account = account_from_profile e base_url now (no_sender n),
      an_status = map_option (status_from_post e base_url now) (no_post n)\<rparr>"

section \<open>Runs\<close>

lemma keeps_api [keeps_intro]:
  "keeps Q m \<Longrightarrow> keeps (\<lambda>w. Q (fst w)) (api_db m)"
  by (auto simp: api_db_def db_call_def keeps_def split: prod.splits sum.splits)

end
