(* ===== verification/Statuses.thy ===== *)
theory Statuses
  imports Microsyntax Api_Types
begin

text \<open>
  Posts in the client API: \<open>src/mastodon_api/statuses/views.rs\<close> and \<open>helpers.rs\<close>. A view takes the
  environment, the base URL of the request, the access token and the parameters, and returns the
  value of its answer. Removing the media files of deleted posts happens in a task of its own.
\<close>

section \<open>Building statuses\<close>

definition build_status_list :: "environment \<Rightarrow> string \<Rightarrow> user option \<Rightarrow> post list \<Rightarrow> status list mm" where
  "build_status_list e base_url maybe_user posts =
     bind (api_db (add_related_posts posts)) (\<lambda>posts.
     bind (case maybe_user of
             Some u \<Rightarrow> api_db (add_user_actions (us_id u) posts)
           | None \<Rightarrow> ret posts) (\<lambda>posts.
     bind (draw (en_now e)) (\<lambda>now.
     ret (map (status_from_post e base_url now) posts))))"

definition build_status :: "environment \<Rightarrow> string \<Rightarrow> user option \<Rightarrow> post \<Rightarrow> status mm" where
  "build_status e base_url maybe_user post =
     bind (build_status_list e base_url maybe_user [post]) (\<lambda>statuses. ret (hd statuses))"

text \<open>Changes to a post in memory.\<close>

fun with_data :: "(post_data \<Rightarrow> post_data) \<Rightarrow> post \<Rightarrow> post" where
  "with_data f (Post d actions in_reply_to repost_of linked) = Post (f d) actions in_reply_to repost_of linked"

fun with_context :: "post option \<Rightarrow> post list \<Rightarrow> post \<Rightarrow> post" where
  "with_context parent links (Post d actions in_reply_to repost_of linked) = Post d actions parent repost_of links"

fun with_repost :: "post \<Rightarrow> post \<Rightarrow> post" where
  "with_repost original (Post d actions in_reply_to repost_of linked) =
     Post d actions in_reply_to (Some original) linked"

section \<open>Creating\<close>

record status_input =
  si_status :: string
  si_media_ids :: "uuid list option"
  si_in_reply_to_id :: "uuid option"
  si_visibility :: "string option"
  si_is_sensitive :: bool
  si_mentions :: "uuid list option"
  si_content_type :: string

definition default_post_content_type :: string where
  "default_post_content_type = ''text/html''"

definition requested_visibility :: "string option \<Rightarrow> visibility mm" where
  "requested_visibility v =
     (case v of
        None \<Rightarrow> ret Public
      | Some name \<Rightarrow>
          if name = ''public'' then ret Public
          else if name = ''direct'' then ret Direct
          else if name = ''private'' then ret Followers
          else if name = ''subscribers'' then ret Subscribers
          else api_invalid ''invalid visibility parameter'')"

definition status_html :: "environment \<Rightarrow> string \<Rightarrow> string \<Rightarrow> string mm" where
  "status_html e content_type status_text =
     (if content_type = ''text/html'' then ret status_text
      else if content_type = ''text/markdown''
      then api_require (en_markdown_lite e status_text) (Api_ValidationError ''invalid markdown'')
      else api_invalid ''unsupported content type'')"

text \<open>Mentions from the text, from the request and, for subscribers, of every subscriber.\<close>

definition status_mentions :: "user \<Rightarrow> visibility \<Rightarrow> uuid list \<Rightarrow> uuid list option \<Rightarrow> uuid list mm" where
  "status_mentions u v found requested =
     bind (if v = Subscribers
           then bind (api_db (get_subscribers (us_id u))) (\<lambda>profiles. ret (map ap_id profiles))
           else ret []) (\<lambda>subscribers.
     let mentions = remdups_adj (sort (found @ (case requested of Some ids \<Rightarrow> ids | None \<Rightarrow> []) @ subscribers)) in
     if MENTION_LIMIT < length mentions then api_invalid ''too many mentions'' else ret mentions)"

definition status_parent :: "visibility \<Rightarrow> uuid list \<Rightarrow> uuid option \<Rightarrow> post option mm" where
  "status_parent v mentions maybe_id =
     (case maybe_id of
        None \<Rightarrow> ret None
      | Some in_reply_to_id \<Rightarrow>
          db_match (get_post_by_id in_reply_to_id)
            (\<lambda>err. if is_not_found err then api_invalid ''parent post does not exist''
               else fail (mastodon_error_of err))
            (\<lambda>in_reply_to.
               let d = data_of in_reply_to in
               if pd_repost_of_id d \<noteq> None then api_invalid ''can't reply to repost''
               else if pd_visibility d \<noteq> Public \<and> v \<noteq> Direct then api_invalid ''reply must have direct visibility''
               else if v \<noteq> Public \<and>
                 \<not> list_all (\<lambda>i. i \<in> set (map ap_id (pd_mentions d) @ [ap_id (pd_author d)])) mentions
               then api_invalid ''audience can't be expanded''
               else ret (Some in_reply_to)))"

definition save_status :: "environment \<Rightarrow> user \<Rightarrow> post_create_data \<Rightarrow> post option \<Rightarrow> post list \<Rightarrow> post mm" where
  "save_status e u d maybe_parent linked =
     bind (draw (en_uuid e)) (\<lambda>post_id.
     bind (draw (en_now e)) (\<lambda>now.
     bind (api_db (create_post now post_id (us_id u) d)) (\<lambda>post.
     let post = with_context
       (map_option (with_data (\<lambda>p. p\<lparr>pd_reply_count := pd_reply_count p + 1\<rparr>)) maybe_parent) linked post in
     bind (api_run (prepare_create_note e u post)) (\<lambda>activity.
     bind (api_run (enqueue e activity)) (\<lambda>_.
     ret post)))))"

definition create_status :: "environment \<Rightarrow> string \<Rightarrow> string \<Rightarrow> status_input \<Rightarrow> status mm" where
  "create_status e base_url token d =
     bind (get_current_user e token) (\<lambda>u.
     if \<not> can_create_post u then fail PermissionError
     else
       bind (requested_visibility (si_visibility d)) (\<lambda>v.
       bind (status_html e (si_content_type d) (si_status d)) (\<lambda>html.
       bind (api_db (parse_microsyntaxes e html)) (\<lambda>parsed.
       bind (api_check (clean_content e (mc_content parsed))) (\<lambda>content.
       bind (status_mentions u v (mc_mentions parsed) (si_mentions d)) (\<lambda>mentions.
       if mc_links parsed \<noteq> [] \<and> v \<noteq> Public then api_invalid ''can't add links to non-public posts''
       else if LINK_LIMIT < length (mc_links parsed) then api_invalid ''too many links''
       else if EMOJI_LIMIT < length (mc_emoji_rows parsed) then api_invalid ''too many emojis''
       else
         bind (status_parent v mentions (si_in_reply_to_id d)) (\<lambda>maybe_parent.
         let attachments = (case si_media_ids d of Some ids \<Rightarrow> ids | None \<Rightarrow> []) in
         if ATTACHMENT_LIMIT < length attachments then api_invalid ''too many attachments''
         else
           bind (draw (en_now e)) (\<lambda>created_at.
           bind (save_status e u
             \<lparr>pcd_content = content, pcd_in_reply_to_id = si_in_reply_to_id d, pcd_repost_of_id = None,
              pcd_visibility = v, pcd_is_sensitive = si_is_sensitive d, pcd_attachments = attachments,
              pcd_mentions = mentions, pcd_tags = mc_hashtags parsed, pcd_links = mc_links parsed,
              pcd_emojis = map em_id (mc_emoji_rows parsed), pcd_object_id = None,
              pcd_created_at = created_at\<rparr> maybe_parent (mc_linked parsed)) (\<lambda>post.
           bind (draw (en_now e)) (\<lambda>now.
           ret (status_from_post e base_url now post)))))))))))"

text \<open>The preview shows emojis by the URL of the instance.\<close>

definition preview_status :: "environment \<Rightarrow> string \<Rightarrow> string \<Rightarrow> string \<Rightarrow> (string \<times> custom_emoji list) mm" where
  "preview_status e token status_text content_type =
     bind (get_current_user e token) (\<lambda>_.
     bind (status_html e content_type status_text) (\<lambda>html.
     bind (api_db (parse_microsyntaxes e html)) (\<lambda>parsed.
     bind (api_check (clean_content e (mc_content parsed))) (\<lambda>content.
     ret (content, map (custom_emoji_from_db (en_instance_url e)) (mc_emoji_rows parsed))))))"

section \<open>Reading\<close>

definition get_status :: "environment \<Rightarrow> string \<Rightarrow> string option \<Rightarrow> uuid \<Rightarrow> status mm" where
  "get_status e base_url auth status_id =
     bind (maybe_current_user e auth) (\<lambda>maybe_user.
     bind (api_db (get_post_by_id status_id)) (\<lambda>post.
     bind (api_db (can_view_post (map_option us_id maybe_user) post)) (\<lambda>visible.
     if \<not> visible then fail (NotFoundError ''post'')
     else build_status e base_url maybe_user post)))"

text \<open>
  \<open>get_thread\<close> is \<open>None\<close> when its query does not end: then there is no answer, which is written as a
  panic. \<open>reads_always_answer\<close> shows that this does not happen.
\<close>

definition run_thread :: "uuid \<Rightarrow> uuid option \<Rightarrow> post list mm" where
  "run_thread status_id viewer w =
     (case get_thread status_id viewer (fst w) of
        None \<Rightarrow> panic w
      | Some result \<Rightarrow> api_db (\<lambda>_. result) w)"

definition thread_statuses :: "environment \<Rightarrow> string \<Rightarrow> string option \<Rightarrow> uuid \<Rightarrow> status list mm" where
  "thread_statuses e base_url auth status_id =
     bind (maybe_current_user e auth) (\<lambda>maybe_user.
     bind (run_thread status_id (map_option us_id maybe_user)) (\<lambda>posts.
     build_status_list e base_url maybe_user posts))"

definition get_thread_view :: "environment \<Rightarrow> string \<Rightarrow> string option \<Rightarrow> uuid \<Rightarrow> status list mm" where
  "get_thread_view e base_url auth status_id = thread_statuses e base_url auth status_id"

fun split_context :: "uuid \<Rightarrow> bool \<Rightarrow> status list \<Rightarrow> status list \<times> status list" where
  "split_context status_id is_ancestor [] = ([], [])"
| "split_context status_id is_ancestor (s # ss) =
     (if is_ancestor then
        if st_id (status_of s) = status_id then split_context status_id False ss
        else (case split_context status_id True ss of (older, newer) \<Rightarrow> (s # older, newer))
      else (case split_context status_id False ss of (older, newer) \<Rightarrow> (older, s # newer)))"

definition get_context :: "environment \<Rightarrow> string \<Rightarrow> string option \<Rightarrow> uuid \<Rightarrow> (status list \<times> status list) mm" where
  "get_context e base_url auth status_id =
     bind (thread_statuses e base_url auth status_id) (\<lambda>statuses.
     ret (split_context status_id True statuses))"

section \<open>Deleting\<close>

definition delete_status :: "environment \<Rightarrow> string \<Rightarrow> uuid \<Rightarrow> unit mm" where
  "delete_status e token status_id =
     bind (get_current_user e token) (\<lambda>u.
     bind (api_db (get_post_by_id status_id)) (\<lambda>post.
     if ap_id (pd_author (data_of post)) \<noteq> us_id u then fail PermissionError
     else
       bind (api_run (prepare_delete_note e u post)) (\<lambda>delete_note.
       bind (api_db (delete_post status_id)) (\<lambda>_.
       api_run (enqueue e delete_note)))))"

section \<open>Reactions and reposts\<close>

definition favourite :: "environment \<Rightarrow> string \<Rightarrow> string \<Rightarrow> uuid \<Rightarrow> status mm" where
  "favourite e base_url token status_id =
     bind (get_current_user e token) (\<lambda>u.
     bind (api_db (get_post_by_id status_id)) (\<lambda>post.
     if pd_repost_of_id (data_of post) \<noteq> None then fail (NotFoundError ''post'')
     else
       bind (draw (en_now e)) (\<lambda>now.
       bind (draw (en_uuid e)) (\<lambda>reaction_id.
       bind (db_match (create_reaction now reaction_id (us_id u) status_id None)
           (\<lambda>err. if is_already_exists err then ret post else fail (mastodon_error_of err))
           (\<lambda>reaction.
              let post = with_data (\<lambda>d. d\<lparr>pd_reaction_count := pd_reaction_count d + 1\<rparr>) post in
              bind (api_run (prepare_like e u post (pr_id reaction))) (\<lambda>activity.
              bind (api_run (enqueue e activity)) (\<lambda>_. ret post)))) (\<lambda>post.
       build_status e base_url (Some u) post)))))"

definition unfavourite :: "environment \<Rightarrow> string \<Rightarrow> string \<Rightarrow> uuid \<Rightarrow> status mm" where
  "unfavourite e base_url token status_id =
     bind (get_current_user e token) (\<lambda>u.
     bind (api_db (get_post_by_id status_id)) (\<lambda>post.
     bind (db_match (delete_reaction (us_id u) status_id)
         (\<lambda>err. if is_not_found err then ret post else fail (mastodon_error_of err))
         (\<lambda>reaction_id.
            let post = with_data (\<lambda>d. d\<lparr>pd_reaction_count := pd_reaction_count d - 1\<rparr>) post in
            bind (api_run (prepare_undo_like e u post reaction_id)) (\<lambda>activity.
            bind (api_run (enqueue e activity)) (\<lambda>_. ret post)))) (\<lambda>post.
     build_status e base_url (Some u) post)))"

definition reblog :: "environment \<Rightarrow> string \<Rightarrow> string \<Rightarrow> uuid \<Rightarrow> status mm" where
  "reblog e base_url token status_id =
     bind (get_current_user e token) (\<lambda>u.
     if \<not> can_create_post u then fail PermissionError
     else
       bind (api_db (get_post_by_id status_id)) (\<lambda>post.
       if \<not> post_is_public post \<or> pd_repost_of_id (data_of post) \<noteq> None then fail (NotFoundError ''post'')
       else
         bind (draw (en_now e)) (\<lambda>now.
         bind (draw (en_uuid e)) (\<lambda>repost_id.
         bind (api_db (create_post now repost_id (us_id u) (post_create_data_repost now status_id None))) (\<lambda>repost.
         let repost = with_repost (with_data (\<lambda>d. d\<lparr>pd_repost_count := pd_repost_count d + 1\<rparr>) post) repost in
         bind (api_run (prepare_announce e u repost)) (\<lambda>activity.
         bind (api_run (enqueue e activity)) (\<lambda>_.
         build_status e base_url (Some u) repost)))))))"

definition unreblog :: "environment \<Rightarrow> string \<Rightarrow> string \<Rightarrow> uuid \<Rightarrow> status mm" where
  "unreblog e base_url token status_id =
     bind (get_current_user e token) (\<lambda>u.
     bind (api_db (find_reposts_by_user (us_id u) [status_id])) (\<lambda>reposts.
     case reposts of
       [] \<Rightarrow> fail (NotFoundError ''post'')
     | repost_id # _ \<Rightarrow>
         bind (api_db (delete_post repost_id)) (\<lambda>_.
         bind (api_db (get_post_by_id status_id)) (\<lambda>post.
         bind (api_run (prepare_undo_announce e u post repost_id)) (\<lambda>activity.
         bind (api_run (enqueue e activity)) (\<lambda>_.
         build_status e base_url (Some u) post))))))"

section \<open>Archiving\<close>

definition IPFS_LOGO :: string where
  "IPFS_LOGO = ''bafybeihc4hti5ix4ds2tefhy35qd4c7n5as5cazdmksrxj7ipvcxm64h54''"

definition get_ipfs_url :: "string \<Rightarrow> string" where
  "get_ipfs_url cid = ''ipfs://'' @ cid"

text \<open>\<open>PostMetadata::new\<close> of \<open>ipfs/posts.rs\<close>, as it is serialized.\<close>

definition post_metadata :: "environment \<Rightarrow> uuid \<Rightarrow> string \<Rightarrow> string \<Rightarrow> datetime \<Rightarrow> string option \<Rightarrow> json" where
  "post_metadata e post_id post_url content created_at image_cid = JObject
     [(''name'', JString (''Post '' @ en_show_uuid e post_id)),
      (''description'', JString content),
      (''image'', JString (get_ipfs_url (case image_cid of Some cid \<Rightarrow> cid | None \<Rightarrow> IPFS_LOGO))),
      (''external_url'', JString post_url),
      (''attributes'', JArray [JObject
        [(''trait_type'', JString ''Created at''), (''value'', JNumber (created_at div 1000000)),
         (''display_type'', JString ''date'')]])]"

definition ipfs_add :: "environment \<Rightarrow> string \<Rightarrow> string mm" where
  "ipfs_add e data = bind (draw (\<lambda>n. en_ipfs_add e n data)) (\<lambda>cid. api_require cid InternalError)"

definition add_attachment :: "environment \<Rightarrow> db_media_attachment \<Rightarrow> db_media_attachment mm" where
  "add_attachment e a =
     bind (draw (\<lambda>n. en_read_media e n (ma_file_name a))) (\<lambda>image_data.
     bind (api_require image_data InternalError) (\<lambda>image_data.
     bind (ipfs_add e image_data) (\<lambda>image_cid.
     ret (a\<lparr>ma_ipfs_cid := Some image_cid\<rparr>))))"

definition make_permanent :: "environment \<Rightarrow> string \<Rightarrow> string \<Rightarrow> uuid \<Rightarrow> status mm" where
  "make_permanent e base_url token status_id =
     bind (get_current_user e token) (\<lambda>u.
     bind (api_db (get_post_by_id status_id)) (\<lambda>post.
     let d = data_of post in
     if pd_ipfs_cid d \<noteq> None then fail (OperationError ''post already saved to IPFS'')
     else if ap_id (pd_author d) \<noteq> us_id u \<or> \<not> post_is_public post \<or> pd_repost_of_id d \<noteq> None
     then fail PermissionError
     else if \<not> en_ipfs_api e then fail NotSupported
     else
       bind (collect (pd_attachments d) (add_attachment e)) (\<lambda>attachments.
       if \<not> post_is_local post then panic
       else
         let post_url = local_object_id (en_show_uuid e) (en_instance_url e) (pd_id d);
           maybe_image_cid = (case attachments of [] \<Rightarrow> None | a # _ \<Rightarrow> ma_ipfs_cid a);
           metadata = post_metadata e (pd_id d) post_url (pd_content d) (pd_created_at d) maybe_image_cid in
         bind (ipfs_add e (en_show_json e metadata)) (\<lambda>post_metadata_cid.
         bind (api_db (set_post_ipfs_cid (pd_id d) post_metadata_cid
           (map (\<lambda>a. (ma_id a, the (ma_ipfs_cid a))) attachments))) (\<lambda>_.
         build_status e base_url (Some u)
           (with_data (\<lambda>d. d\<lparr>pd_attachments := attachments, pd_ipfs_cid := Some post_metadata_cid\<rparr>) post))))))"

end
