(* ===== verification/Accounts_Api.thy ===== *)
theory Accounts_Api
  imports Statuses Signatures Payments "HOL-Library.List_Lexorder" "HOL-Library.Char_ord" "HOL-Library.Product_Lexorder"
begin

text \<open>
  Accounts in the client API: \<open>src/mastodon_api/accounts\<close>, the search for accounts
  (\<open>search/helpers.rs\<close>) and the settings of an account (\<open>src/mastodon_api/settings\<close>).
\<close>

section \<open>Relationships\<close>

record relationship_map =
  rm_id :: uuid
  rm_following :: bool
  rm_followed_by :: bool
  rm_requested :: bool
  rm_subscription_to :: bool
  rm_subscription_from :: bool
  rm_showing_reblogs :: bool
  rm_showing_replies :: bool
  rm_muting :: bool

definition default_relationship_map :: "uuid \<Rightarrow> relationship_map" where
  "default_relationship_map target_id =
     \<lparr>rm_id = target_id, rm_following = False, rm_followed_by = False, rm_requested = False,
      rm_subscription_to = False, rm_subscription_from = False, rm_showing_reblogs = True,
      rm_showing_replies = True, rm_muting = False\<rparr>"

fun set_relationship :: "relationship_type \<Rightarrow> bool \<Rightarrow> relationship_map \<Rightarrow> relationship_map" where
  "set_relationship Follow direct m =
     (if direct then m\<lparr>rm_following := True\<rparr> else m\<lparr>rm_followed_by := True\<rparr>)"
| "set_relationship FollowRequest direct m = (if direct then m\<lparr>rm_requested := True\<rparr> else m)"
| "set_relationship Subscription direct m =
     (if direct then m\<lparr>rm_subscription_to := True\<rparr> else m\<lparr>rm_subscription_from := True\<rparr>)"
| "set_relationship HideReposts direct m = (if direct then m\<lparr>rm_showing_reblogs := False\<rparr> else m)"
| "set_relationship HideReplies direct m = (if direct then m\<lparr>rm_showing_replies := False\<rparr> else m)"
| "set_relationship Mute direct m = (if direct then m\<lparr>rm_muting := True\<rparr> else m)"

definition get_relationship :: "uuid \<Rightarrow> uuid \<Rightarrow> relationship_map dbm" where
  "get_relationship source_id target_id =
     bind (get_relationships source_id target_id) (\<lambda>relationships.
     fold_m (\<lambda>r m. bind (lift_result (is_direct r source_id target_id)) (\<lambda>direct.
         ret (set_relationship (rel_type r) direct m)))
       relationships (default_relationship_map target_id))"

definition get_aliases :: "environment \<Rightarrow> string \<Rightarrow> db_actor_profile \<Rightarrow> (account list \<times> account list) mm" where
  "get_aliases e base_url profile =
     bind (api_db (find_declared_aliases profile)) (\<lambda>declared.
     bind (answer_profiles e base_url declared) (\<lambda>declared.
     bind (api_db (find_verified_aliases (en_encode_base58 e) profile)) (\<lambda>verified.
     bind (answer_profiles e base_url verified) (\<lambda>verified.
     ret (declared, verified)))))"

section \<open>Search for accounts\<close>

text \<open>\<open>^(@|!)?(?P<username>[\w\.-]+)(@(?P<hostname>[\w\.-]+))?$\<close>\<close>

definition parse_profile_query :: "environment \<Rightarrow> string \<Rightarrow> (string \<times> string option) validated" where
  "parse_profile_query e q =
     (let s = (case q of c # cs \<Rightarrow> if c = CHR ''@'' \<or> c = CHR ''!'' then cs else q | [] \<Rightarrow> []);
        username = takeWhile (\<lambda>c. c \<noteq> CHR ''@'') s; rest = dropWhile (\<lambda>c. c \<noteq> CHR ''@'') s in
      if \<not> address_part (en_word_chars e) username then invalid ''invalid profile query''
      else if rest = [] then Inr (username, None)
      else if address_part (en_word_chars e) (List.tl rest) then Inr (username, Some (List.tl rest))
      else invalid ''invalid profile query'')"

definition search_profiles_or_import ::
    "environment \<Rightarrow> string \<Rightarrow> string option \<Rightarrow> bool \<Rightarrow> nat \<Rightarrow> (db_error, db_actor_profile list) app_m" where
  "search_profiles_or_import e username maybe_hostname0 resolve limit =
     (let maybe_hostname = (if maybe_hostname0 = Some (en_hostname e) then None else maybe_hostname0) in
      bind (db_call id (search_profiles username maybe_hostname limit)) (\<lambda>profiles.
      case maybe_hostname of
        None \<Rightarrow> ret profiles
      | Some hostname \<Rightarrow>
          if profiles = [] \<and> resolve then
            catching (import_profile_by_actor_address e \<lparr>aa_username = username, aa_hostname = hostname\<rparr>)
              (\<lambda>err. case err of DatabaseError db_error \<Rightarrow> fail db_error | _ \<Rightarrow> ret profiles)
              (\<lambda>profile. ret (profiles @ [profile]))
          else ret profiles))"

definition search_profiles_only ::
    "environment \<Rightarrow> string \<Rightarrow> bool \<Rightarrow> nat \<Rightarrow> (db_error, db_actor_profile list) app_m" where
  "search_profiles_only e search_query resolve limit =
     (case parse_profile_query e search_query of
        Inl _ \<Rightarrow> ret []
      | Inr (username, maybe_hostname) \<Rightarrow> search_profiles_or_import e username maybe_hostname resolve limit)"

section \<open>Views of accounts\<close>

record account_create_input =
  ci_username :: string
  ci_password :: "string option"
  ci_message :: "string option"
  ci_invite_code :: "string option"

definition check_invite :: "environment \<Rightarrow> string option \<Rightarrow> unit mm" where
  "check_invite e maybe_code =
     (if \<not> en_invite_only e then ret ()
      else
        bind (api_require maybe_code (Api_ValidationError ''invite code is required'')) (\<lambda>invite_code.
        bind (api_db (is_valid_invite_code invite_code)) (\<lambda>valid.
        if valid then ret () else api_invalid ''invalid invite code'')))"

definition create_account :: "environment \<Rightarrow> string \<Rightarrow> account_create_input \<Rightarrow> account mm" where
  "create_account e base_url d =
     bind (check_invite e (ci_invite_code d)) (\<lambda>_.
     bind (api_check (validate_local_username (ci_username d))) (\<lambda>_.
     if ci_password d = None \<and> ci_message d = None
     then api_invalid ''password or EIP-4361 message is required''
     else
       bind (case ci_password d of
               Some password \<Rightarrow>
                 bind (draw (\<lambda>n. en_password_hash e n password)) (\<lambda>maybe_hash.
                 bind (api_require maybe_hash InternalError) (\<lambda>h. ret (Some h)))
             | None \<Rightarrow> ret None) (\<lambda>maybe_password_hash.
       bind (draw (en_rsa_key_pem e)) (\<lambda>maybe_key.
       bind (api_require maybe_key InternalError) (\<lambda>private_key_pem.
       bind (draw (en_uuid e)) (\<lambda>i.
       bind (draw (en_now e)) (\<lambda>now.
       or_panic (create_user i now
           \<lparr>uc_username = ci_username d, uc_password_hash = maybe_password_hash,
            uc_private_key_pem = private_key_pem, uc_wallet_address = None,
            uc_invite_code = ci_invite_code d,
            uc_role = (if en_read_only_users e then ReadOnlyUser else NormalUser)\<rparr>) (\<lambda>m.
       bind (db_match m
           (\<lambda>err. if is_already_exists err then api_invalid ''user already exists''
              else fail (mastodon_error_of err)) ret) (\<lambda>u.
       answer_account e base_url u)))))))))"

definition verify_credentials :: "environment \<Rightarrow> string \<Rightarrow> string \<Rightarrow> account mm" where
  "verify_credentials e base_url token =
     bind (get_current_user e token) (answer_account e base_url)"

record account_update_input =
  ui_display_name :: "string option"
  ui_note :: "string option"
  ui_avatar :: "string option"
  ui_avatar_media_type :: "string option"
  ui_header :: "string option"
  ui_header_media_type :: "string option"
  ui_fields :: "(string \<times> string) list option"

definition process_b64_image ::
    "environment \<Rightarrow> string option \<Rightarrow> string option \<Rightarrow> profile_image option \<Rightarrow> profile_image option mm" where
  "process_b64_image e form_value form_media_type db_value =
     (case form_value of
        Some b64_data \<Rightarrow>
          if b64_data = [] then ret None
          else
            bind (map_failure upload_failure
                (save_b64_file e b64_data form_media_type ACTOR_IMAGE_MAX_SIZE (Some ''image/'')))
              (\<lambda>(file_name, file_size, media_type).
            ret (Some (profile_image_new file_name file_size (Some media_type))))
      | None \<Rightarrow> ret db_value)"

definition markdown_basic :: "environment \<Rightarrow> string \<Rightarrow> string mm" where
  "markdown_basic e s = api_require (en_markdown_basic e s) (Api_ValidationError ''invalid markdown'')"

definition into_profile_data :: "environment \<Rightarrow> account_update_input \<Rightarrow> db_actor_profile \<Rightarrow> profile_update_data mm" where
  "into_profile_data e d profile =
     bind (case ui_note d of
             Some bio_source \<Rightarrow> bind (markdown_basic e bio_source) (\<lambda>bio. ret (Some bio))
           | None \<Rightarrow> ret None) (\<lambda>maybe_bio.
     bind (process_b64_image e (ui_avatar d) (ui_avatar_media_type d) (ap_avatar profile)) (\<lambda>avatar.
     bind (process_b64_image e (ui_header d) (ui_header_media_type d) (ap_banner profile)) (\<lambda>banner.
     bind (collect (case ui_fields d of Some fs \<Rightarrow> fs | None \<Rightarrow> []) (\<lambda>(name, source).
         bind (markdown_basic e source) (\<lambda>v.
         ret \<lparr>ef_name = name, ef_value = v, ef_value_source = Some source\<rparr>))) (\<lambda>extra_fields.
     ret \<lparr>pu_display_name = ui_display_name d, pu_bio = maybe_bio, pu_bio_source = ui_note d,
       pu_avatar = avatar, pu_banner = banner, pu_manually_approves_followers = False,
       pu_identity_proofs = ap_identity_proofs profile, pu_payment_options = ap_payment_options profile,
       pu_extra_fields = extra_fields, pu_aliases = [], pu_emojis = [], pu_actor_json = None\<rparr>))))"

text \<open>Saving the profile of the current user and telling the followers.\<close>

definition save_own_profile :: "environment \<Rightarrow> user \<Rightarrow> profile_update_data \<Rightarrow> user mm" where
  "save_own_profile e u d =
     bind (draw (en_now e)) (\<lambda>now.
     bind (api_db (update_profile now (us_id u) d)) (\<lambda>profile.
     let u = u\<lparr>us_profile := profile\<rparr> in
     bind (api_run (prepare_update_person e u None)) (\<lambda>activity.
     bind (api_run (enqueue e activity)) (\<lambda>_. ret u))))"

definition update_credentials :: "environment \<Rightarrow> string \<Rightarrow> string \<Rightarrow> account_update_input \<Rightarrow> account mm" where
  "update_credentials e base_url token d =
     bind (get_current_user e token) (\<lambda>u.
     bind (into_profile_data e d (us_profile u)) (\<lambda>profile_data.
     bind (api_check (clean_profile_update_data e profile_data)) (\<lambda>profile_data.
     bind (save_own_profile e u profile_data) (answer_account e base_url))))"

definition get_unsigned_update :: "environment \<Rightarrow> string \<Rightarrow> (uuid \<times> string) mm" where
  "get_unsigned_update e token =
     bind (get_current_user e token) (\<lambda>u.
     bind (draw (en_uuid e)) (\<lambda>internal_activity_id.
     case build_update_person e u internal_activity_id of
       Inl Panic \<Rightarrow> panic
     | Inl (Error _) \<Rightarrow> fail InternalError
     | Inr activity \<Rightarrow>
         bind (api_require (en_canonicalize e activity) InternalError) (\<lambda>canonical_json.
         ret (internal_activity_id, canonical_json))))"

definition get_relationships_view :: "environment \<Rightarrow> string \<Rightarrow> uuid \<Rightarrow> relationship_map list mm" where
  "get_relationships_view e token target_id =
     bind (get_current_user e token) (\<lambda>u.
     bind (api_db (get_relationship (us_id u) target_id)) (\<lambda>m. ret [m]))"

definition lookup_acct :: "environment \<Rightarrow> string \<Rightarrow> string \<Rightarrow> account mm" where
  "lookup_acct e base_url acct =
     bind (api_db (get_profile_by_acct acct)) (\<lambda>profile.
     bind (draw (en_now e)) (\<lambda>now. ret (account_from_profile e base_url now profile)))"

definition search_by_acct :: "environment \<Rightarrow> string \<Rightarrow> string option \<Rightarrow> string \<Rightarrow> bool \<Rightarrow> nat \<Rightarrow> account list mm" where
  "search_by_acct e base_url auth q resolve limit =
     bind (case auth of
             Some token \<Rightarrow> bind (get_current_user e token) (\<lambda>_. ret ())
           | None \<Rightarrow> if resolve then fail PermissionError else ret ()) (\<lambda>_.
     bind (api_run (search_profiles_only e q resolve limit)) (answer_profiles e base_url))"

definition search_by_did :: "environment \<Rightarrow> string \<Rightarrow> string \<Rightarrow> account list mm" where
  "search_by_did e base_url v =
     (case did_from_str (en_decode_base58 e) v of
        Inl _ \<Rightarrow> api_invalid ''invalid DID''
      | Inr did \<Rightarrow>
          bind (api_db (search_profiles_by_did (en_encode_base58 e) did False)) (answer_profiles e base_url))"

definition get_account :: "environment \<Rightarrow> string \<Rightarrow> uuid \<Rightarrow> account mm" where
  "get_account e base_url account_id =
     bind (api_db (get_profile_by_id account_id)) (\<lambda>profile.
     bind (draw (en_now e)) (\<lambda>now. ret (account_from_profile e base_url now profile)))"

text \<open>The current user and the account of the request.\<close>

definition user_and_target :: "environment \<Rightarrow> string \<Rightarrow> uuid \<Rightarrow> (user \<times> db_actor_profile) mm" where
  "user_and_target e token account_id =
     bind (get_current_user e token) (\<lambda>u.
     bind (api_db (get_profile_by_id account_id)) (\<lambda>target. ret (u, target)))"

definition follow_account :: "environment \<Rightarrow> string \<Rightarrow> uuid \<Rightarrow> bool \<Rightarrow> bool \<Rightarrow> relationship_map mm" where
  "follow_account e token account_id reblogs replies =
     bind (user_and_target e token account_id) (\<lambda>(u, target).
     bind (api_run (follow_or_create_request e u target)) (\<lambda>_.
     bind (api_db (if reblogs then show_reposts (us_id u) (ap_id target)
       else hide_reposts (us_id u) (ap_id target))) (\<lambda>_.
     bind (api_db (if replies then show_replies (us_id u) (ap_id target)
       else hide_replies (us_id u) (ap_id target))) (\<lambda>_.
     api_db (get_relationship (us_id u) (ap_id target))))))"

definition unfollow_account :: "environment \<Rightarrow> string \<Rightarrow> uuid \<Rightarrow> relationship_map mm" where
  "unfollow_account e token account_id =
     bind (user_and_target e token account_id) (\<lambda>(u, target).
     bind (db_match (unfollow (us_id u) (ap_id target))
         (\<lambda>err. if is_not_found err then ret () else fail (mastodon_error_of err))
         (\<lambda>deleted. case deleted of
            Some follow_request_id \<Rightarrow>
              bind (api_require (ap_actor_json target) InternalError) (\<lambda>remote.
              api_run (enqueue e (prepare_undo_follow e u remote follow_request_id)))
          | None \<Rightarrow> ret ())) (\<lambda>_.
     api_db (get_relationship (us_id u) (ap_id target))))"

definition mute_account :: "environment \<Rightarrow> string \<Rightarrow> uuid \<Rightarrow> relationship_map mm" where
  "mute_account e token account_id =
     bind (user_and_target e token account_id) (\<lambda>(u, target).
     bind (api_db (mute_posts (us_id u) (ap_id target))) (\<lambda>_.
     api_db (get_relationship (us_id u) (ap_id target))))"

definition unmute_account :: "environment \<Rightarrow> string \<Rightarrow> uuid \<Rightarrow> relationship_map mm" where
  "unmute_account e token account_id =
     bind (user_and_target e token account_id) (\<lambda>(u, target).
     bind (db_match (unmute_posts (us_id u) (ap_id target))
         (\<lambda>err. if is_not_found err then ret () else fail (mastodon_error_of err)) ret) (\<lambda>_.
     api_db (get_relationship (us_id u) (ap_id target))))"

definition get_account_statuses ::
    "environment \<Rightarrow> string \<Rightarrow> string option \<Rightarrow> uuid \<Rightarrow> bool \<Rightarrow> bool \<Rightarrow> uuid option \<Rightarrow> nat \<Rightarrow> status list mm" where
  "get_account_statuses e base_url auth account_id pinned exclude_replies max_id limit =
     bind (maybe_current_user e auth) (\<lambda>maybe_user.
     if pinned then ret []
     else
       bind (api_db (get_profile_by_id account_id)) (\<lambda>profile.
       bind (api_db (get_posts_by_author (ap_id profile) (map_option us_id maybe_user) (\<not> exclude_replies) True
         max_id limit)) (\<lambda>posts.
       build_status_list e base_url maybe_user posts)))"

text \<open>The lists of followers and followed accounts are shown to their owner only.\<close>

definition related_accounts ::
    "environment \<Rightarrow> string \<Rightarrow> string \<Rightarrow> string \<Rightarrow> uuid \<Rightarrow> nat \<Rightarrow> (uuid \<Rightarrow> related_actor_profile list dbm) \<Rightarrow>
     (account list \<times> string option) mm" where
  "related_accounts e base_url token path account_id limit get =
     bind (user_and_target e token account_id) (\<lambda>(u, profile).
     if ap_id profile \<noteq> us_id u then ret ([], None)
     else
       bind (api_db (get (ap_id profile))) (\<lambda>items.
       bind (answer_profiles e base_url (map rap_profile items)) (\<lambda>accounts.
       ret (get_paginated_response (en_instance_url e) path accounts
         (map_option (\<lambda>item. show_int (rap_relationship_id item)) (last_of_page limit items))))))"

definition get_account_followers ::
    "environment \<Rightarrow> string \<Rightarrow> string \<Rightarrow> string \<Rightarrow> uuid \<Rightarrow> int option \<Rightarrow> nat \<Rightarrow> (account list \<times> string option) mm" where
  "get_account_followers e base_url token path account_id max_id limit =
     related_accounts e base_url token path account_id limit (\<lambda>i. get_followers_paginated i max_id limit)"

definition get_account_following ::
    "environment \<Rightarrow> string \<Rightarrow> string \<Rightarrow> string \<Rightarrow> uuid \<Rightarrow> int option \<Rightarrow> nat \<Rightarrow> (account list \<times> string option) mm" where
  "get_account_following e base_url token path account_id max_id limit =
     related_accounts e base_url token path account_id limit (\<lambda>i. get_following_paginated i max_id limit)"

record api_subscription =
  as_id :: int
  as_sender :: account
  as_sender_address :: "string option"
  as_expires_at :: datetime

definition get_account_subscribers ::
    "environment \<Rightarrow> string \<Rightarrow> string \<Rightarrow> uuid \<Rightarrow> int option \<Rightarrow> nat \<Rightarrow> api_subscription list mm" where
  "get_account_subscribers e base_url token account_id max_id limit =
     bind (user_and_target e token account_id) (\<lambda>(u, profile).
     if ap_id profile \<noteq> us_id u then ret []
     else
       bind (api_db (get_incoming_subscriptions (ap_id profile) max_id limit)) (\<lambda>subscriptions.
       bind (draw (en_now e)) (\<lambda>now.
       ret (map (\<lambda>s. \<lparr>as_id = su_id s, as_sender = account_from_profile e base_url now (su_sender s),
         as_sender_address = su_sender_address s, as_expires_at = su_expires_at s\<rparr>) subscriptions))))"

definition get_account_aliases :: "environment \<Rightarrow> string \<Rightarrow> uuid \<Rightarrow> account list mm" where
  "get_account_aliases e base_url account_id =
     bind (api_db (get_profile_by_id account_id)) (\<lambda>profile.
     bind (api_db (find_verified_aliases (en_encode_base58 e) profile)) (answer_profiles e base_url))"

definition get_all_account_aliases :: "environment \<Rightarrow> string \<Rightarrow> uuid \<Rightarrow> (account list \<times> account list) mm" where
  "get_all_account_aliases e base_url account_id =
     bind (api_db (get_profile_by_id account_id)) (get_aliases e base_url)"

section \<open>Lists of addresses\<close>

text \<open>An address that \<open>from_profile\<close> cannot make is a panic.\<close>

definition export_profiles_to_csv :: "environment \<Rightarrow> db_actor_profile list \<Rightarrow> string option" where
  "export_profiles_to_csv e profiles =
     map_option concat (traverse (\<lambda>profile.
       map_option (\<lambda>a. address_to_string a @ [char_of (10 :: nat)]) (address_from_profile (en_hostname e) profile))
       profiles)"

definition export_followers :: "environment \<Rightarrow> uuid \<Rightarrow> string mm" where
  "export_followers e user_id =
     bind (api_db (get_followers user_id)) (\<lambda>followers. or_panic (export_profiles_to_csv e followers) ret)"

definition export_follows :: "environment \<Rightarrow> uuid \<Rightarrow> string mm" where
  "export_follows e user_id =
     bind (api_db (get_following user_id)) (\<lambda>following. or_panic (export_profiles_to_csv e following) ret)"

fun addresses_of :: "environment \<Rightarrow> string list \<Rightarrow> actor_address list validated" where
  "addresses_of e [] = Inr []"
| "addresses_of e (line # ls) =
     and_then (address_from_mention (en_word_chars e) line) (\<lambda>a.
     and_then (addresses_of e ls) (\<lambda>rest. Inr (a # rest)))"

definition parse_address_list :: "environment \<Rightarrow> string \<Rightarrow> actor_address list validated" where
  "parse_address_list e csv =
     and_then (addresses_of e (filter (\<lambda>line. line \<noteq> []) (map (en_trim e) (split_on (char_of (10 :: nat)) csv))))
       (\<lambda>addresses.
     let sorted_addresses = remdups_adj (sort_key (\<lambda>a. (aa_username a, aa_hostname a)) addresses) in
     if 50 < length sorted_addresses then invalid ''can't process more than 50 items at once''
     else Inr sorted_addresses)"

text \<open>Both tasks skip addresses that cannot be found and stop at any other error.\<close>

definition found_address :: "environment \<Rightarrow> actor_address \<Rightarrow> (db_actor_profile \<Rightarrow> 'a hm) \<Rightarrow> 'a hm \<Rightarrow> 'a hm" where
  "found_address e address k skip =
     catching (get_or_import_profile_by_actor_address e address)
       (\<lambda>err. case err of
          FetchError _ \<Rightarrow> skip
        | DatabaseError (NotFound _) \<Rightarrow> skip
        | _ \<Rightarrow> fail err)
       k"

definition import_follows_task :: "environment \<Rightarrow> user \<Rightarrow> actor_address list \<Rightarrow> unit hm" where
  "import_follows_task e u address_list =
     for_each address_list (\<lambda>address.
       found_address e address
         (\<lambda>profile. map_failure DatabaseError (follow_or_create_request e u profile)) (ret ()))"

text \<open>A local follower of the old profile follows the current user from now on.\<close>

definition move_local_follower :: "environment \<Rightarrow> user \<Rightarrow> db_actor_profile \<Rightarrow> db_actor_profile \<Rightarrow> unit hm" where
  "move_local_follower e u from_profile follower =
     db_match (unfollow (ap_id follower) (ap_id from_profile))
       (\<lambda>err. if is_not_found err then ret () else fail (DatabaseError err))
       (\<lambda>maybe_follow_request_id.
          or_panic (ap_actor_json from_profile) (\<lambda>remote.
          or_panic maybe_follow_request_id (\<lambda>follow_request_id.
          bind (map_failure DatabaseError
            (enqueue e (prepare_undo_follow e u remote follow_request_id))) (\<lambda>_.
          bind (draw (en_now e)) (\<lambda>now.
          db_match (follow now (ap_id follower) (us_id u))
            (\<lambda>err. if is_already_exists err then ret () else fail (DatabaseError err))
            (\<lambda>_. ret ()))))))"

definition move_listed_follower ::
    "environment \<Rightarrow> user \<Rightarrow> db_actor_profile option \<Rightarrow> actor_address \<Rightarrow> db_actor list \<Rightarrow> db_actor list hm" where
  "move_listed_follower e u maybe_from_profile address remote_followers =
     found_address e address
       (\<lambda>follower. case ap_actor_json follower of
          Some remote \<Rightarrow> ret (remote_followers @ [remote])
        | None \<Rightarrow>
            (case maybe_from_profile of
               Some from_profile \<Rightarrow>
                 bind (move_local_follower e u from_profile follower) (\<lambda>_. ret remote_followers)
             | None \<Rightarrow> ret remote_followers))
       (ret remote_followers)"

definition move_followers_task ::
    "environment \<Rightarrow> user \<Rightarrow> string \<Rightarrow> db_actor_profile option \<Rightarrow> actor_address list \<Rightarrow> unit hm" where
  "move_followers_task e u from_actor_id maybe_from_profile address_list =
     bind (fold_m (move_listed_follower e u maybe_from_profile) address_list []) (\<lambda>remote_followers.
     bind (draw (en_uuid e)) (\<lambda>internal_activity_id.
     map_failure DatabaseError
       (enqueue e (prepare_move_person e u from_actor_id remote_followers internal_activity_id))))"

section \<open>Views of settings\<close>

definition client_config_view :: "environment \<Rightarrow> string \<Rightarrow> string \<Rightarrow> (string \<times> json) list \<Rightarrow> account mm" where
  "client_config_view e base_url token entries =
     bind (get_current_user e token) (\<lambda>u.
     case entries of
       [(client_name, v)] \<Rightarrow>
         bind (api_db (update_client_config (us_id u) client_name v)) (\<lambda>client_config.
         answer_account e base_url (u\<lparr>us_client_config := client_config\<rparr>))
     | _ \<Rightarrow> api_invalid ''can't update more than one config'')"

definition change_password_view :: "environment \<Rightarrow> string \<Rightarrow> string \<Rightarrow> string \<Rightarrow> account mm" where
  "change_password_view e base_url token new_password =
     bind (get_current_user e token) (\<lambda>u.
     bind (draw (\<lambda>n. en_password_hash e n new_password)) (\<lambda>maybe_hash.
     bind (api_require maybe_hash InternalError) (\<lambda>password_hash.
     bind (api_db (set_user_password (us_id u) password_hash)) (\<lambda>_.
     answer_account e base_url u))))"

definition add_alias_view :: "environment \<Rightarrow> string \<Rightarrow> string \<Rightarrow> string \<Rightarrow> (account list \<times> account list) mm" where
  "add_alias_view e base_url token acct =
     bind (get_current_user e token) (\<lambda>u.
     bind (api_db (get_profile_by_acct acct)) (\<lambda>other.
     let alias_id = profile_actor_id (en_instance_url e) other;
       d = profile_update_data_from (us_profile u);
       d = d\<lparr>pu_aliases := push_new alias_id (pu_aliases d)\<rparr> in
     bind (save_own_profile e u d) (\<lambda>u.
     get_aliases e base_url (us_profile u))))"

definition export_followers_view :: "environment \<Rightarrow> string \<Rightarrow> string mm" where
  "export_followers_view e token = bind (get_current_user e token) (\<lambda>u. export_followers e (us_id u))"

definition export_follows_view :: "environment \<Rightarrow> string \<Rightarrow> string mm" where
  "export_follows_view e token = bind (get_current_user e token) (\<lambda>u. export_follows e (us_id u))"

text \<open>The answer is sent before the task runs: the result is what the task is started with.\<close>

definition import_follows_view :: "environment \<Rightarrow> string \<Rightarrow> string \<Rightarrow> (user \<times> actor_address list) mm" where
  "import_follows_view e token follows_csv =
     bind (get_current_user e token) (\<lambda>u.
     bind (api_check (parse_address_list e follows_csv)) (\<lambda>address_list. ret (u, address_list)))"

definition move_followers ::
    "environment \<Rightarrow> string \<Rightarrow> string \<Rightarrow> string \<Rightarrow> (user \<times> db_actor_profile option \<times> actor_address list) mm" where
  "move_followers e token from_actor_id followers_csv =
     bind (get_current_user e token) (\<lambda>u.
     if ap_identity_proofs (us_profile u) = [] then api_invalid ''identity proof is required''
     else if strip_prefix (en_instance_url e) from_actor_id \<noteq> None then api_invalid ''can't move from local actor''
     else
       bind (db_match (get_profile_by_remote_actor_id from_actor_id)
           (\<lambda>err. if is_not_found err then ret None else fail (mastodon_error_of err))
           (\<lambda>profile. ret (Some profile))) (\<lambda>maybe_from_profile.
       bind (case maybe_from_profile of
               None \<Rightarrow> ret ()
             | Some _ \<Rightarrow>
                 bind (api_db (find_verified_aliases (en_encode_base58 e) (us_profile u))) (\<lambda>aliases.
                 if list_ex (\<lambda>a. profile_actor_id (en_instance_url e) a = from_actor_id) aliases
                 then ret () else api_invalid ''old profile is not an alias'')) (\<lambda>_.
       bind (api_check (parse_address_list e followers_csv)) (\<lambda>address_list.
       ret (u, maybe_from_profile, address_list)))))"

end
