(* ===== verification/Client_Api.thy ===== *)
theory Client_Api
  imports Accounts_Api Import Markers
begin

text \<open>
  The rest of the client API (\<open>src/mastodon_api\<close>): authorization (\<open>oauth\<close>), applications (\<open>apps\<close>),
  timelines, notifications, markers, media, the directory, custom emojis, subscriptions and the
  search.
\<close>

section \<open>Authorization\<close>

definition AUTHORIZATION_CODE_EXPIRES_IN :: nat where "AUTHORIZATION_CODE_EXPIRES_IN = 86400 * 30"
definition ACCESS_TOKEN_EXPIRES_IN :: nat where "ACCESS_TOKEN_EXPIRES_IN = 86400 * 7"

definition check_password :: "environment \<Rightarrow> user \<Rightarrow> string \<Rightarrow> unit mm" where
  "check_password e u password =
     bind (api_require (us_password_hash u) (Api_ValidationError ''password auth is disabled'')) (\<lambda>password_hash.
     bind (api_require (en_verify_password e password_hash password) InternalError) (\<lambda>password_correct.
     if password_correct then ret () else api_invalid ''incorrect password''))"

record authorization_input =
  zi_username :: string
  zi_password :: string
  zi_response_type :: string
  zi_client_id :: uuid
  zi_redirect_uri :: string
  zi_scope :: string

text \<open>The answer redirects the client to the URL that is returned.\<close>

definition authorize_view :: "environment \<Rightarrow> authorization_input \<Rightarrow> string mm" where
  "authorize_view e d =
     bind (api_db (get_user_by_name (zi_username d))) (\<lambda>u.
     bind (check_password e u (zi_password d)) (\<lambda>_.
     if zi_response_type d \<noteq> ''code'' then api_invalid ''invalid response type''
     else
       bind (api_db (get_oauth_app_by_client_id (zi_client_id d))) (\<lambda>oauth_app.
       if oa_redirect_uri oauth_app \<noteq> zi_redirect_uri d then api_invalid ''invalid redirect_uri parameter''
       else
         bind (draw (en_secret e)) (\<lambda>authorization_code.
         bind (draw (en_now e)) (\<lambda>created_at.
         bind (api_db (create_oauth_authorization authorization_code (us_id u) (oa_id oauth_app)
           (map (\<lambda>c. if c = CHR ''+'' then CHR '' '' else c) (zi_scope d)) created_at
           (created_at + seconds AUTHORIZATION_CODE_EXPIRES_IN))) (\<lambda>_.
         ret (oa_redirect_uri oauth_app @ ''?code='' @ authorization_code)))))))"

record token_input =
  ti_grant_type :: string
  ti_code :: "string option"
  ti_username :: "string option"
  ti_password :: "string option"

record token_response =
  tr_access_token :: string
  tr_token_type :: string
  tr_scope :: string
  tr_created_at :: int

definition token_response_new :: "string \<Rightarrow> int \<Rightarrow> token_response" where
  "token_response_new access_token created_at =
     \<lparr>tr_access_token = access_token, tr_token_type = ''Bearer'', tr_scope = ''read write follow'',
      tr_created_at = created_at\<rparr>"

definition token_user :: "environment \<Rightarrow> token_input \<Rightarrow> user mm" where
  "token_user e d =
     (if ti_grant_type d = ''authorization_code'' then
        bind (api_require (ti_code d) (Api_ValidationError ''authorization code is required'')) (\<lambda>code.
        bind (draw (en_now e)) (\<lambda>now.
        api_db (get_user_by_authorization_code now code)))
      else if ti_grant_type d = ''password'' then
        bind (api_require (ti_username d) (Api_ValidationError ''username is required'')) (\<lambda>username.
        api_db (get_user_by_name username))
      else api_invalid ''unsupported grant type'')"

definition token_view :: "environment \<Rightarrow> token_input \<Rightarrow> token_response mm" where
  "token_view e d =
     bind (token_user e d) (\<lambda>u.
     bind (if ti_grant_type d = ''password'' \<or> ti_grant_type d = ''ethereum''
           then bind (api_require (ti_password d) (Api_ValidationError ''password is required''))
             (check_password e u)
           else ret ()) (\<lambda>_.
     bind (draw (en_secret e)) (\<lambda>access_token.
     bind (draw (en_now e)) (\<lambda>created_at.
     bind (api_db (save_oauth_token (us_id u) access_token created_at
       (created_at + seconds ACCESS_TOKEN_EXPIRES_IN))) (\<lambda>_.
     ret (token_response_new access_token (created_at div 1000000)))))))"

definition revoke_token_view :: "environment \<Rightarrow> string \<Rightarrow> string \<Rightarrow> unit mm" where
  "revoke_token_view e token revoked =
     bind (get_current_user e token) (\<lambda>u.
     db_match (delete_oauth_token (us_id u) revoked)
       (\<lambda>err. fail (if is_not_found err then PermissionError else mastodon_error_of err)) ret)"

section \<open>Applications\<close>

record app_input =
  pi_client_name :: string
  pi_redirect_uris :: string
  pi_scopes :: string
  pi_website :: "string option"

text \<open>The answer is the stored application; its client identifier is random.\<close>

definition create_app_view :: "environment \<Rightarrow> app_input \<Rightarrow> db_oauth_app mm" where
  "create_app_view e d =
     bind (draw (en_uuid e)) (\<lambda>client_id.
     bind (draw (en_secret e)) (\<lambda>client_secret.
     bind (draw (en_now e)) (\<lambda>now.
     api_db (create_oauth_app now
       \<lparr>od_app_name = pi_client_name d, od_website = pi_website d, od_scopes = pi_scopes d,
        od_redirect_uri = pi_redirect_uris d, od_client_id = client_id, od_client_secret = client_secret\<rparr>))))"

section \<open>Timelines\<close>

definition home_timeline :: "environment \<Rightarrow> string \<Rightarrow> string \<Rightarrow> uuid option \<Rightarrow> nat \<Rightarrow> status list mm" where
  "home_timeline e base_url token max_id limit =
     bind (get_current_user e token) (\<lambda>u.
     bind (api_db (get_home_timeline (us_id u) max_id limit)) (\<lambda>posts.
     build_status_list e base_url (Some u) posts))"

definition public_timeline :: "environment \<Rightarrow> string \<Rightarrow> string \<Rightarrow> uuid option \<Rightarrow> nat \<Rightarrow> status list mm" where
  "public_timeline e base_url token max_id limit =
     bind (get_current_user e token) (\<lambda>u.
     bind (api_db (get_local_timeline (us_id u) max_id limit)) (\<lambda>posts.
     build_status_list e base_url (Some u) posts))"

definition hashtag_timeline ::
    "environment \<Rightarrow> string \<Rightarrow> string option \<Rightarrow> string \<Rightarrow> uuid option \<Rightarrow> nat \<Rightarrow> status list mm" where
  "hashtag_timeline e base_url auth hashtag max_id limit =
     bind (maybe_current_user e auth) (\<lambda>maybe_user.
     bind (api_db (get_posts_by_tag hashtag (map_option us_id maybe_user) max_id limit)) (\<lambda>posts.
     build_status_list e base_url maybe_user posts))"

section \<open>Notifications and markers\<close>

definition get_notifications_view ::
    "environment \<Rightarrow> string \<Rightarrow> string \<Rightarrow> string \<Rightarrow> int option \<Rightarrow> nat \<Rightarrow> (api_notification list \<times> string option) mm"
where
  "get_notifications_view e base_url token path max_id limit =
     bind (get_current_user e token) (\<lambda>u.
     bind (api_db (get_notifications (us_id u) max_id limit)) (\<lambda>items.
     bind (draw (en_now e)) (\<lambda>now.
     let notifications = map (notification_from_db e base_url now) items in
     ret (get_paginated_response (en_instance_url e) path notifications
       (map_option an_id (last_of_page limit notifications))))))"

definition to_timeline :: "string \<Rightarrow> timeline mm" where
  "to_timeline name =
     (if name = ''home'' then ret Home
      else if name = ''notifications'' then ret Notifications
      else api_invalid ''invalid timeline name'')"

record api_marker =
  mk_last_read_id :: string
  mk_version :: int
  mk_updated_at :: datetime

definition marker_from_db :: "db_timeline_marker \<Rightarrow> api_marker" where
  "marker_from_db m = \<lparr>mk_last_read_id = tm_last_read_id m, mk_version = 0, mk_updated_at = tm_updated_at m\<rparr>"

text \<open>The answer has the marker as the one of the notifications, also for the home timeline.\<close>

definition get_marker_view :: "environment \<Rightarrow> string \<Rightarrow> string \<Rightarrow> api_marker option mm" where
  "get_marker_view e token name =
     bind (get_current_user e token) (\<lambda>u.
     bind (to_timeline name) (\<lambda>tml.
     bind (api_db (get_marker_opt (us_id u) tml)) (\<lambda>maybe_marker.
     ret (map_option marker_from_db maybe_marker))))"

definition update_marker_view :: "environment \<Rightarrow> string \<Rightarrow> string \<Rightarrow> api_marker mm" where
  "update_marker_view e token last_read_id =
     bind (get_current_user e token) (\<lambda>u.
     bind (draw (en_now e)) (\<lambda>now.
     bind (api_db (create_or_update_marker now (us_id u) Notifications last_read_id)) (\<lambda>m.
     ret (marker_from_db m))))"

section \<open>Media, directory, emojis\<close>

definition create_attachment_view :: "environment \<Rightarrow> string \<Rightarrow> string \<Rightarrow> string option \<Rightarrow> api_attachment mm" where
  "create_attachment_view e token file media_type =
     bind (get_current_user e token) (\<lambda>u.
     bind (map_failure upload_failure (save_b64_file e file media_type (en_file_size_limit e) None))
       (\<lambda>(file_name, file_size, media_type).
     bind (draw (en_now e)) (\<lambda>now.
     bind (draw (en_uuid e)) (\<lambda>attachment_id.
     or_panic (create_attachment now attachment_id (us_id u) file_name file_size (Some media_type)) (\<lambda>m.
     bind (api_db m) (\<lambda>db_attachment.
     ret (attachment_from_db (en_instance_url e) db_attachment)))))))"

definition profile_directory :: "environment \<Rightarrow> string \<Rightarrow> string \<Rightarrow> bool \<Rightarrow> nat \<Rightarrow> nat \<Rightarrow> account list mm" where
  "profile_directory e base_url token only_local offset limit =
     bind (get_current_user e token) (\<lambda>_.
     bind (api_db (get_profiles only_local offset limit)) (answer_profiles e base_url))"

definition custom_emoji_list :: "string \<Rightarrow> custom_emoji list mm" where
  "custom_emoji_list base_url =
     bind (api_db get_local_emojis) (\<lambda>emojis. ret (map (custom_emoji_from_db base_url) emojis))"

section \<open>Subscriptions\<close>

datatype subscription_option = Subscription_Ethereum | Subscription_Monero nat string

fun from_payment_option :: "payment_option \<Rightarrow> subscription_option option" where
  "from_payment_option (Option_Link _) = None"
| "from_payment_option (Option_EthereumSubscription _) = Some Subscription_Ethereum"
| "from_payment_option (Option_MoneroSubscription info) =
     Some (Subscription_Monero (ms_price info) (ms_payout_address info))"

definition authorize_subscription :: "environment \<Rightarrow> string \<Rightarrow> unit mm" where
  "authorize_subscription e token = bind (get_current_user e token) (\<lambda>_. fail PermissionError)"

definition get_subscription_options :: "environment \<Rightarrow> string \<Rightarrow> subscription_option list mm" where
  "get_subscription_options e token =
     bind (get_current_user e token) (\<lambda>u.
     ret (concat (map (\<lambda>p. opt_list (from_payment_option p)) (ap_payment_options (us_profile u)))))"

definition register_subscription_option :: "environment \<Rightarrow> string \<Rightarrow> string \<Rightarrow> account mm" where
  "register_subscription_option e base_url token =
     bind (get_current_user e token) (\<lambda>u.
     if \<not> has_permission (us_role u) ManageSubscriptionOptions then fail PermissionError
     else answer_account e base_url u)"

definition find_subscription :: "uuid \<Rightarrow> uuid \<Rightarrow> (int \<times> datetime) mm" where
  "find_subscription sender_id recipient_id =
     bind (api_db (get_subscription_by_participants sender_id recipient_id)) (\<lambda>s.
     ret (sb_id s, sb_expires_at s))"

fun invoice_status_name :: "invoice_status \<Rightarrow> string" where
  "invoice_status_name Open = ''open''"
| "invoice_status_name Paid = ''paid''"
| "invoice_status_name Forwarded = ''forwarded''"
| "invoice_status_name Timeout = ''timeout''"

record api_invoice =
  ai_id :: uuid
  ai_sender_id :: uuid
  ai_recipient_id :: uuid
  ai_payment_address :: string
  ai_amount :: int
  ai_status :: string
  ai_expires_at :: datetime

definition invoice_from_db :: "db_invoice \<Rightarrow> api_invoice" where
  "invoice_from_db v =
     \<lparr>ai_id = iv_id v, ai_sender_id = iv_sender_id v, ai_recipient_id = iv_recipient_id v,
      ai_payment_address = iv_payment_address v, ai_amount = iv_amount v,
      ai_status = invoice_status_name (iv_invoice_status v), ai_expires_at = 0\<rparr>"

definition get_invoice :: "uuid \<Rightarrow> api_invoice mm" where
  "get_invoice invoice_id = bind (api_db (get_invoice_by_id invoice_id)) (\<lambda>v. ret (invoice_from_db v))"

section \<open>Search\<close>

datatype search_query =
    ProfileQuery string "string option"
  | TagQuery string
  | UrlQuery string
  | DidQuery did
  | UnknownQuery

definition parse_tag_query :: "environment \<Rightarrow> string \<Rightarrow> string validated" where
  "parse_tag_query e q =
     (case strip_prefix ''#'' q of
        Some tag \<Rightarrow> if tag \<noteq> [] \<and> en_word_chars e tag then Inr tag else invalid ''invalid tag query''
      | None \<Rightarrow> invalid ''invalid tag query'')"

definition parse_search_query :: "environment \<Rightarrow> string \<Rightarrow> search_query" where
  "parse_search_query e untrimmed =
     (let q = en_trim e untrimmed in
      case did_from_str (en_decode_base58 e) q of
        Inr d \<Rightarrow> DidQuery d
      | Inl _ \<Rightarrow>
          if en_url_parses e q then UrlQuery q
          else case parse_tag_query e q of
            Inr tag \<Rightarrow> TagQuery tag
          | Inl _ \<Rightarrow>
              (case parse_profile_query e q of
                 Inr (username, maybe_hostname) \<Rightarrow> ProfileQuery username maybe_hostname
               | Inl _ \<Rightarrow> UnknownQuery))"

definition found_or_none :: "'a dbm \<Rightarrow> ('a \<Rightarrow> 'b) \<Rightarrow> (db_error, 'b option) app_m" where
  "found_or_none m f =
     db_match m (\<lambda>err. if is_not_found err then ret None else fail err) (\<lambda>x. ret (Some (f x)))"

definition find_post_by_url :: "environment \<Rightarrow> string \<Rightarrow> (db_error, post option) app_m" where
  "find_post_by_url e url =
     (case parse_local_object_id (en_parse_uuid e) (en_instance_url e) url of
        Inr post_id \<Rightarrow> found_or_none (get_local_post_by_id post_id) id
      | Inl _ \<Rightarrow> catching (import_post e url None) (\<lambda>_. ret None) (\<lambda>post. ret (Some post)))"

definition find_profile_by_url :: "environment \<Rightarrow> string \<Rightarrow> (db_error, db_actor_profile option) app_m" where
  "find_profile_by_url e url =
     (case parse_local_actor_id (en_instance_url e) url of
        Inr username \<Rightarrow> found_or_none (get_user_by_name username) us_profile
      | Inl _ \<Rightarrow>
          catching (get_or_import_profile_by_actor_id e url) (\<lambda>_. ret None) (\<lambda>profile. ret (Some profile)))"

definition search ::
    "environment \<Rightarrow> user \<Rightarrow> string \<Rightarrow> nat \<Rightarrow>
     (db_error, db_actor_profile list \<times> post list \<times> string list) app_m" where
  "search e u q limit =
     (case parse_search_query e q of
        ProfileQuery username maybe_hostname \<Rightarrow>
          bind (search_profiles_or_import e username maybe_hostname True limit) (\<lambda>profiles.
          ret (profiles, [], []))
      | TagQuery tag \<Rightarrow> bind (db_call id (search_tags tag limit)) (\<lambda>tags. ret ([], [], tags))
      | UrlQuery url \<Rightarrow>
          bind (find_post_by_url e url) (\<lambda>maybe_post.
          case maybe_post of
            Some post \<Rightarrow>
              bind (db_call id (can_view_post (Some (us_id u)) post)) (\<lambda>visible.
              ret ([], if visible then [post] else [], []))
          | None \<Rightarrow>
              bind (find_profile_by_url e url) (\<lambda>maybe_profile.
              ret (opt_list maybe_profile, [], [])))
      | DidQuery d \<Rightarrow>
          bind (db_call id (search_profiles_by_did_only (en_encode_base58 e) d)) (\<lambda>profiles.
          ret (profiles, [], []))
      | UnknownQuery \<Rightarrow> ret ([], [], []))"

definition search_view ::
    "environment \<Rightarrow> string \<Rightarrow> string \<Rightarrow> string \<Rightarrow> nat \<Rightarrow> (account list \<times> status list \<times> api_tag list) mm" where
  "search_view e base_url token q limit =
     bind (get_current_user e token) (\<lambda>u.
     bind (api_run (search e u (en_trim e q) limit)) (\<lambda>(profiles, posts, tags).
     bind (answer_profiles e base_url profiles) (\<lambda>accounts.
     bind (build_status_list e base_url (Some u) posts) (\<lambda>statuses.
     ret (accounts, statuses, map (tag_from_name e) tags)))))"

end
