(* ===== verification/Ap_Views.thy ===== *)
theory Ap_Views
  imports Builders Receiver
begin

text \<open>
  What the server answers to other servers: actors, the inbox, collections, objects
  (\<open>activitypub/views.rs\<close>, \<open>collections.rs\<close>), webfinger (\<open>webfinger/views.rs\<close>), and the pages of the
  web client that browsers are sent to (\<open>web_client/urls.rs\<close>).
\<close>

section \<open>Errors and answers\<close>

datatype http_error =
    Http_DatabaseError db_error
  | Http_ValidationError string
  | Http_AuthError string
  | Http_PermissionError
  | Http_NotFoundError string
  | Http_InternalError

definition http_error_of :: "db_error \<Rightarrow> http_error" where
  "http_error_of err =
     (case err of
        NotFound name \<Rightarrow> Http_NotFoundError name
      | AlreadyExists name \<Rightarrow> Http_ValidationError (name @ '' already exists'')
      | _ \<Rightarrow> Http_DatabaseError err)"

fun http_status_code :: "http_error \<Rightarrow> nat" where
  "http_status_code (Http_ValidationError _) = 400"
| "http_status_code (Http_AuthError _) = 401"
| "http_status_code Http_PermissionError = 403"
| "http_status_code (Http_NotFoundError _) = 404"
| "http_status_code _ = 500"

datatype http_answer = Redirect string | Document json | Accepted_Answer

type_synonym 'a vm = "(http_error, 'a) app_m"

definition view_db :: "'a dbm \<Rightarrow> 'a vm" where
  "view_db = db_call http_error_of"

definition view_check :: "'a validated \<Rightarrow> 'a vm" where
  "view_check r =
     (case r of
        Inl Panic \<Rightarrow> panic
      | Inl (Error msg) \<Rightarrow> fail (Http_ValidationError msg)
      | Inr x \<Rightarrow> ret x)"

section \<open>Pages of the web client\<close>

definition get_profile_page_url :: "string \<Rightarrow> string \<Rightarrow> string" where
  "get_profile_page_url instance_url username = instance_url @ ''/@'' @ username"

definition get_post_page_url :: "(uuid \<Rightarrow> string) \<Rightarrow> string \<Rightarrow> uuid \<Rightarrow> string" where
  "get_post_page_url show_uuid instance_url post_id = instance_url @ ''/post/'' @ show_uuid post_id"

definition get_tag_page_url :: "string \<Rightarrow> string \<Rightarrow> string" where
  "get_tag_page_url instance_url name = instance_url @ ''/tag/'' @ name"

section \<open>Collections\<close>

definition ordered_collection :: "string \<Rightarrow> string option \<Rightarrow> i32 option \<Rightarrow> json" where
  "ordered_collection collection_id first_page_id total_items = JObject
     ([(''@context'', build_default_context), (''id'', JString collection_id),
       (''type'', JString ''OrderedCollection'')] @ ser_optional ''first'' first_page_id @
      ser_some ''totalItems'' JNumber total_items)"

definition ordered_collection_page :: "string \<Rightarrow> json list \<Rightarrow> json" where
  "ordered_collection_page collection_page_id items = JObject
     [(''@context'', build_default_context), (''id'', JString collection_page_id),
      (''type'', JString ''OrderedCollectionPage''), (''orderedItems'', JArray items)]"

section \<open>Views\<close>

fun contains :: "string \<Rightarrow> string \<Rightarrow> bool" where
  "contains pat [] = (pat = [])"
| "contains pat (c # cs) = (strip_prefix pat (c # cs) \<noteq> None \<or> contains pat cs)"

definition is_activitypub_request :: "(string \<times> string) list \<Rightarrow> bool" where
  "is_activitypub_request headers =
     ((case Option.bind (map_of headers ''user-agent'') header_str of
         Some user_agent \<Rightarrow> contains ''THIS. IS. GNU social!!!!'' user_agent
       | None \<Rightarrow> False) \<or>
      (case map_of headers ''accept'' of
         Some content_type \<Rightarrow>
           (case header_str content_type of Some s \<Rightarrow> takeWhile (\<lambda>c. c \<noteq> CHR '','') s | None \<Rightarrow> [])
           \<in> set [AP_MEDIA_TYPE, AS_MEDIA_TYPE, ''application/ld+json'', ''application/json'']
       | None \<Rightarrow> False))"

definition actor_view :: "environment \<Rightarrow> (string \<times> string) list \<Rightarrow> string \<Rightarrow> http_answer vm" where
  "actor_view e headers username =
     bind (view_db (get_user_by_name username)) (\<lambda>u.
     if \<not> is_activitypub_request headers
     then ret (Redirect (get_profile_page_url (en_instance_url e) (ap_username (us_profile u))))
     else
       case get_local_actor e u of
         Inl Panic \<Rightarrow> panic
       | Inl (Error _) \<Rightarrow> fail Http_InternalError
       | Inr a \<Rightarrow> ret (Document (ser_actor a)))"

text \<open>
  The inbox. A \<open>HandlerError\<close> becomes an answer by its kind; the lock that is held during the call makes
  requests to the inbox run one after the other.
\<close>

fun inbox_error :: "environment \<Rightarrow> handler_error \<Rightarrow> http_error" where
  "inbox_error e LocalObject = Http_InternalError"
| "inbox_error e (FetchError err) = Http_ValidationError (en_show_fetch_error e err)"
| "inbox_error e (ValidationError msg) = Http_ValidationError msg"
| "inbox_error e (DatabaseError err) = http_error_of err"
| "inbox_error e (AuthError _) = Http_AuthError ''invalid signature''"

definition inbox :: "environment \<Rightarrow> http_request \<Rightarrow> json \<Rightarrow> http_answer vm" where
  "inbox e rq activity =
     (if \<not> en_federation_enabled e then fail Http_PermissionError
      else
        bind (map_failure (inbox_error e) (receive_activity e rq activity)) (\<lambda>_. ret Accepted_Answer))"

definition COLLECTION_PAGE_SIZE :: nat where "COLLECTION_PAGE_SIZE = 20"

definition outbox_activity :: "environment \<Rightarrow> post \<Rightarrow> json option" where
  "outbox_activity e post =
     (if pd_repost_of_id (data_of post) \<noteq> None then build_announce e post else build_create_note e post)"

definition outbox :: "environment \<Rightarrow> string \<Rightarrow> bool option \<Rightarrow> http_answer vm" where
  "outbox e username maybe_page =
     (let collection_id = local_actor_outbox (en_instance_url e) username;
        first_page_id = collection_id @ ''?page=true'' in
      if maybe_page = None then ret (Document (ordered_collection collection_id (Some first_page_id) None))
      else
        bind (view_db (get_user_by_name username)) (\<lambda>u.
        bind (view_db (get_posts_by_author (us_id u) None True True None COLLECTION_PAGE_SIZE)) (\<lambda>posts.
        bind (view_db (add_related_posts posts)) (\<lambda>posts.
        or_panic (traverse (outbox_activity e) posts) (\<lambda>activities.
        ret (Document (ordered_collection_page first_page_id activities)))))))"

definition count_collection ::
    "environment \<Rightarrow> (string \<Rightarrow> string \<Rightarrow> string) \<Rightarrow> (db_actor_profile \<Rightarrow> i32) \<Rightarrow> string \<Rightarrow> bool option \<Rightarrow> http_answer vm"
where
  "count_collection e collection_url counter username maybe_page =
     (if maybe_page \<noteq> None then fail Http_PermissionError
      else
        bind (view_db (get_user_by_name username)) (\<lambda>u.
        ret (Document (ordered_collection (collection_url (en_instance_url e) username) None
          (Some (counter (us_profile u)))))))"

definition followers_collection :: "environment \<Rightarrow> string \<Rightarrow> bool option \<Rightarrow> http_answer vm" where
  "followers_collection e = count_collection e local_actor_followers ap_follower_count"

definition following_collection :: "environment \<Rightarrow> string \<Rightarrow> bool option \<Rightarrow> http_answer vm" where
  "following_collection e = count_collection e local_actor_following ap_following_count"

definition subscribers_collection :: "environment \<Rightarrow> string \<Rightarrow> bool option \<Rightarrow> http_answer vm" where
  "subscribers_collection e = count_collection e local_actor_subscribers ap_subscriber_count"

definition instance_actor_view :: "environment \<Rightarrow> http_answer vm" where
  "instance_actor_view e =
     (case get_instance_actor e of
        None \<Rightarrow> fail Http_InternalError
      | Some a \<Rightarrow> ret (Document (ser_actor a)))"

definition instance_actor_inbox :: "environment \<Rightarrow> json \<Rightarrow> http_answer vm" where
  "instance_actor_inbox e activity =
     (if \<not> en_federation_enabled e then fail Http_PermissionError else ret Accepted_Answer)"

definition object_view :: "environment \<Rightarrow> (string \<times> string) list \<Rightarrow> uuid \<Rightarrow> http_answer vm" where
  "object_view e headers internal_object_id =
     bind (view_db (get_post_by_id internal_object_id)) (\<lambda>post.
     bind (if post_is_local post then view_db (can_view_post None post) else ret False) (\<lambda>visible.
     if \<not> visible then fail (Http_NotFoundError ''post'')
     else if \<not> is_activitypub_request headers
     then ret (Redirect (get_post_page_url (en_show_uuid e) (en_instance_url e) (pd_id (data_of post))))
     else
       bind (view_db (add_related_posts [post])) (\<lambda>posts.
       or_panic (build_note e (hd posts)) (\<lambda>n. ret (Document (ser_note e n))))))"

definition emoji_view :: "environment \<Rightarrow> string \<Rightarrow> http_answer vm" where
  "emoji_view e emoji_name =
     bind (view_db (get_local_emoji_by_name emoji_name)) (\<lambda>emoji.
     ret (Document (build_emoji_tag e emoji)))"

definition tag_view :: "environment \<Rightarrow> string \<Rightarrow> http_answer vm" where
  "tag_view e name = ret (Redirect (get_tag_page_url (en_instance_url e) name))"

section \<open>Webfinger\<close>

definition parse_acct_uri :: "environment \<Rightarrow> string \<Rightarrow> actor_address validated" where
  "parse_acct_uri e uri =
     (case strip_prefix ''acct:'' uri of
        None \<Rightarrow> invalid ''invalid query target''
      | Some s \<Rightarrow> address_from_str (en_word_chars e) s)"

definition resource_address :: "environment \<Rightarrow> string \<Rightarrow> actor_address vm" where
  "resource_address e resource =
     (if strip_prefix ''acct:'' resource \<noteq> None then view_check (parse_acct_uri e resource)
      else
        bind (if resource = local_instance_actor_id (en_instance_url e) then ret (en_hostname e)
              else view_check (parse_local_actor_id (en_instance_url e) resource)) (\<lambda>username.
        ret \<lparr>aa_username = username, aa_hostname = en_hostname e\<rparr>))"

definition ser_link :: "jrd_link \<Rightarrow> json" where
  "ser_link l = JObject
     ([(''rel'', JString (jl_rel l))] @ ser_optional ''type'' (jl_media_type l) @
      [(''href'', ser_option (jl_href l))] @
      (if jl_properties l = [] then []
       else [(''properties'', JObject (map (\<lambda>(name, v). (name, JString v)) (jl_properties l)))]))"

definition actor_links :: "string \<Rightarrow> jrd_link list" where
  "actor_links actor_id =
     [\<lparr>jl_rel = ''http://webfinger.net/rel/profile-page'', jl_media_type = Some ''text/html'',
       jl_href = Some actor_id, jl_properties = []\<rparr>,
      \<lparr>jl_rel = ''self'', jl_media_type = Some AP_MEDIA_TYPE, jl_href = Some actor_id, jl_properties = []\<rparr>]"

definition get_jrd :: "environment \<Rightarrow> string \<Rightarrow> json vm" where
  "get_jrd e resource =
     bind (resource_address e resource) (\<lambda>address.
     if aa_hostname address \<noteq> en_hostname e then fail (Http_NotFoundError ''user'')
     else
       bind (if aa_username address = en_hostname e then ret (local_instance_actor_id (en_instance_url e))
             else
               bind (view_db (is_registered_user (aa_username address))) (\<lambda>registered.
               if \<not> registered then fail (Http_NotFoundError ''user'')
               else ret (local_actor_id (en_instance_url e) (aa_username address)))) (\<lambda>actor_id.
       ret (JObject
         [(''subject'', JString (''acct:'' @ address_to_string address)),
          (''links'', JArray (map ser_link (actor_links actor_id)))])))"

text \<open>A movie that is asked for gets an account.\<close>

definition webfinger_view :: "environment \<Rightarrow> string \<Rightarrow> http_answer vm" where
  "webfinger_view e resource =
     catching (get_jrd e resource)
       (\<lambda>_. bind (case en_tmdb_api_key e of
               Some api_key \<Rightarrow>
                 bind (view_check (parse_acct_uri e resource)) (\<lambda>movie_account.
                 bind (map_failure (\<lambda>_. Http_InternalError)
                   (lookup_and_create_movie_user e api_key (aa_username movie_account))) (\<lambda>_. ret ()))
             | None \<Rightarrow> ret ()) (\<lambda>_.
          bind (get_jrd e resource) (\<lambda>jrd. ret (Document jrd))))
       (\<lambda>jrd. ret (Document jrd))"

end
