(* ===== verification/Config.thy ===== *)
theory Config
  imports Identifiers "HOL-Library.Word"
begin

text \<open>
  The configuration (\<open>fedimovies-config/src\<close>). The YAML parser is not in the repository: the model
  starts from the values that it delivers. \<open>None\<close> in \<open>parse_config\<close> is a panic at the start.
\<close>

section \<open>File sizes\<close>

definition config_error :: "string \<Rightarrow> string + 'a" where
  "config_error msg = Inl msg"

text \<open>
  \<open>^(?i)(?P<size>\d+)(?P<unit>[kmg]?)b?$\<close>. Letters are matched without regard to case, which in
  Unicode makes the Kelvin sign a \<open>k\<close>. Digits of other scripts match \<open>\d\<close> too, but do not parse as
  a number; both are the same error.
\<close>

datatype size_unit = Unit_Bytes | Unit_Kilo | Unit_Mega | Unit_Giga

definition kelvin_sign :: string where
  "kelvin_sign = map char_of [0xE2 :: nat, 0x84, 0xAA]"

definition size_unit_of :: "string \<Rightarrow> size_unit option" where
  "size_unit_of s =
     (if s = [] then Some Unit_Bytes
      else if s \<in> {''k'', ''K'', kelvin_sign} then Some Unit_Kilo
      else if s \<in> {''m'', ''M''} then Some Unit_Mega
      else if s \<in> {''g'', ''G''} then Some Unit_Giga else None)"

definition without_b :: "string \<Rightarrow> string" where
  "without_b s = (if s \<noteq> [] \<and> last s \<in> {CHR ''b'', CHR ''B''} then butlast s else s)"

fun multiplier :: "size_unit \<Rightarrow> 64 word" where
  "multiplier Unit_Kilo = 1000"
| "multiplier Unit_Mega = 1000000"
| "multiplier Unit_Giga = 1000000000"
| "multiplier Unit_Bytes = 1"

text \<open>\<open>usize\<close> has 64 bits; the product wraps around, as in a release build.\<close>

definition parse_file_size :: "string \<Rightarrow> string + 64 word" where
  "parse_file_size s =
     (let digits = takeWhile is_digit s in
      if digits = [] then config_error ''invalid file size''
      else
        case size_unit_of (without_b (dropWhile is_digit s)) of
          None \<Rightarrow> config_error ''invalid file size''
        | Some u \<Rightarrow>
            (case digits_value 0 digits of
               None \<Rightarrow> config_error ''invalid file size''
             | Some n \<Rightarrow>
                 if 2 ^ 64 \<le> n then config_error ''invalid file size''
                 else Inr (of_nat n * multiplier u)))"

section \<open>Limits\<close>

record media_limits =
  ml_file_size_limit :: "64 word"
  ml_emoji_size_limit :: "64 word"

definition default_media_limits :: media_limits where
  "default_media_limits = \<lparr>ml_file_size_limit = 20000000, ml_emoji_size_limit = 500000\<rparr>"

record post_limits =
  pl_character_limit :: nat

definition default_post_limits :: post_limits where
  "default_post_limits = \<lparr>pl_character_limit = 2000\<rparr>"

record limits =
  li_media :: media_limits
  li_posts :: post_limits

section \<open>Registration, federation and retention\<close>

datatype registration_type = Open | Invite

definition registration_type_of :: "string \<Rightarrow> string + registration_type" where
  "registration_type_of s =
     (if s = ''open'' then Inr Open
      else if s = ''invite'' then Inr Invite
      else config_error ''unknown registration type'')"

datatype default_role = Default_NormalUser | Default_ReadOnlyUser

definition default_role_of :: "string \<Rightarrow> string + default_role" where
  "default_role_of s =
     (if s = ''user'' then Inr Default_NormalUser
      else if s = ''read_only_user'' then Inr Default_ReadOnlyUser
      else config_error ''unknown role name'')"

record registration_config =
  rg_registration_type :: registration_type
  rg_default_role_read_only_user :: "bool option"
  rg_default_role :: default_role

definition default_registration :: registration_config where
  "default_registration = \<lparr>rg_registration_type = Invite, rg_default_role_read_only_user = None,
     rg_default_role = Default_NormalUser\<rparr>"

record federation_config =
  fe_enabled :: bool
  fe_fetcher_timeout :: nat
  fe_deliverer_timeout :: nat
  fe_proxy_url :: "string option"
  fe_onion_proxy_url :: "string option"
  fe_i2p_proxy_url :: "string option"

definition default_federation :: federation_config where
  "default_federation = \<lparr>fe_enabled = True, fe_fetcher_timeout = 300, fe_deliverer_timeout = 30,
     fe_proxy_url = None, fe_onion_proxy_url = None, fe_i2p_proxy_url = None\<rparr>"

record retention_config =
  re_extraneous_posts :: "nat option"
  re_empty_profiles :: "nat option"

definition default_retention :: retention_config where
  "default_retention = \<lparr>re_extraneous_posts = None, re_empty_profiles = None\<rparr>"

datatype deployment = Development | Production

definition deployment_of :: "string \<Rightarrow> string + deployment" where
  "deployment_of s =
     (if s = ''development'' then Inr Development
      else if s = ''production'' then Inr Production
      else config_error ''invalid environment type'')"

section \<open>The configuration\<close>

record config =
  cf_environment :: deployment
  cf_config_path :: string
  cf_database_url :: string
  cf_tls_ca_file :: "string option"
  cf_storage_dir :: string
  cf_web_client_dir :: "string option"
  cf_http_host :: string
  cf_http_port :: nat
  cf_http_cors_allowlist :: "string list"
  cf_instance_uri :: string
  cf_instance_title :: string
  cf_instance_short_description :: string
  cf_instance_description :: string
  cf_tmdb_api_key :: "string option"
  cf_movie_user_password :: "string option"
  cf_instance_rsa_key :: "string option"
  cf_registrations_open :: "bool option"
  cf_registration :: registration_config
  cf_login_message :: string
  cf_post_character_limit :: "nat option"
  cf_limits :: limits
  cf_retention :: retention_config
  cf_proxy_url :: "string option"
  cf_federation :: federation_config
  cf_blocked_instances :: "string list"
  cf_ipfs_api_url :: "string option"
  cf_ipfs_gateway_url :: "string option"

text \<open>The deprecated settings, in the order of the code, and their warnings.\<close>

definition deprecated :: "string \<Rightarrow> string \<Rightarrow> string" where
  "deprecated old new =
     CHR 0x27 # old @ CHR 0x27 # '' setting is deprecated, use '' @ CHR 0x27 # new @ CHR 0x27 # '' instead''"

definition use_registrations_open :: "config \<Rightarrow> config \<times> string list" where
  "use_registrations_open c =
     (case cf_registrations_open c of
        None \<Rightarrow> (c, [])
      | Some registrations_open \<Rightarrow>
          (c\<lparr>cf_registration := (cf_registration c)
             \<lparr>rg_registration_type := (if registrations_open then Open else Invite)\<rparr>\<rparr>,
           [deprecated ''registrations_open'' ''registration.type'']))"

definition use_default_role :: "config \<Rightarrow> config \<times> string list" where
  "use_default_role c =
     (case rg_default_role_read_only_user (cf_registration c) of
        None \<Rightarrow> (c, [])
      | Some read_only_user \<Rightarrow>
          (c\<lparr>cf_registration := (cf_registration c)
             \<lparr>rg_default_role := (if read_only_user then Default_ReadOnlyUser else Default_NormalUser)\<rparr>\<rparr>,
           [deprecated ''default_role_read_only_user'' ''registration.default_role'']))"

definition use_post_character_limit :: "config \<Rightarrow> config \<times> string list" where
  "use_post_character_limit c =
     (case cf_post_character_limit c of
        None \<Rightarrow> (c, [])
      | Some limit \<Rightarrow>
          (c\<lparr>cf_limits := (cf_limits c)\<lparr>li_posts := (li_posts (cf_limits c))\<lparr>pl_character_limit := limit\<rparr>\<rparr>\<rparr>,
           [deprecated ''post_character_limit'' ''limits.posts.character_limit'']))"

definition use_proxy_url :: "config \<Rightarrow> config \<times> string list" where
  "use_proxy_url c =
     (case cf_proxy_url c of
        None \<Rightarrow> (c, [])
      | Some url \<Rightarrow>
          (c\<lparr>cf_federation := (cf_federation c)\<lparr>fe_proxy_url := Some url\<rparr>\<rparr>,
           [deprecated ''proxy_url'' ''federation.proxy_url'']))"

definition migrate :: "(config \<Rightarrow> config \<times> string list) list \<Rightarrow> config \<Rightarrow> config \<times> string list" where
  "migrate steps c =
     fold (\<lambda>f (c, warnings). case f c of (c', ws) \<Rightarrow> (c', warnings @ ws)) steps (c, [])"

text \<open>
  The file system and the URL parser are arguments: whether the storage directory is there and
  belongs to the user, whether the URI of the instance parses, and the key that is read or made.
\<close>

definition parse_config ::
    "(string \<Rightarrow> bool) \<Rightarrow> (string \<Rightarrow> bool) \<Rightarrow> (string \<Rightarrow> bool) \<Rightarrow> (string \<Rightarrow> string option) \<Rightarrow>
     string \<Rightarrow> deployment option \<Rightarrow> config \<Rightarrow> (config \<times> string list) option" where
  "parse_config dir_exists is_owner url_parses read_rsa_key path env c =
     (let c = c\<lparr>cf_config_path := path\<rparr>;
        c = (case env of Some env' \<Rightarrow> c\<lparr>cf_environment := env'\<rparr> | None \<Rightarrow> c) in
      if \<not> dir_exists (cf_storage_dir c) then None
      else if \<not> is_owner (cf_storage_dir c) then None
      else if \<not> url_parses (cf_instance_uri c) then None
      else if (cf_ipfs_api_url c \<noteq> None) \<noteq> (cf_ipfs_gateway_url c \<noteq> None) then None
      else
        case migrate [use_registrations_open, use_default_role, use_post_character_limit, use_proxy_url] c of
          (c, warnings) \<Rightarrow>
            (case read_rsa_key (cf_storage_dir c) of
               None \<Rightarrow> None
             | Some key \<Rightarrow> Some (c\<lparr>cf_instance_rsa_key := Some key\<rparr>, warnings)))"

section \<open>Laws\<close>

lemma digits_value_digits: "digits_value acc ds = Some n \<Longrightarrow> list_all is_digit ds"
  by (induction ds arbitrary: acc) (auto split: if_splits)

lemma takeWhile_digits:
  assumes "list_all is_digit ds" and "cs = [] \<or> \<not> is_digit (hd cs)"
  shows "takeWhile is_digit (ds @ cs) = ds" and "dropWhile is_digit (ds @ cs) = cs"
proof -
  have "takeWhile is_digit cs = []" "dropWhile is_digit cs = cs"
    using assms(2) by (cases cs; simp)+
  then show "takeWhile is_digit (ds @ cs) = ds" "dropWhile is_digit (ds @ cs) = cs"
    using assms(1) by (simp_all add: list_all_iff takeWhile_append2 dropWhile_append2)
qed



end
