(* ===== verification/Public_Views.thy ===== *)
theory Public_Views
  imports Ap_Views Config Api_Types
begin

text \<open>
  What everybody can ask the server about itself and its users: the Atom feeds (\<open>src/src/atom\<close>),
  nodeinfo (\<open>src/src/nodeinfo\<close>), the description of the instance
  (\<open>src/src/mastodon_api/instance\<close>) and the redirects of the web client
  (\<open>src/src/web_client/views.rs\<close>).
\<close>

section \<open>Feeds\<close>

definition ENTRY_TITLE_MAX_LENGTH :: nat where "ENTRY_TITLE_MAX_LENGTH = 75"

text \<open>The title is cut by characters, but its length is counted in bytes.\<close>

definition entry_title :: "environment \<Rightarrow> string \<Rightarrow> string" where
  "entry_title e content_cleaned =
     (let title = concat (take ENTRY_TITLE_MAX_LENGTH (en_chars e content_cleaned)) in
      if length title = ENTRY_TITLE_MAX_LENGTH \<and> length content_cleaned \<noteq> ENTRY_TITLE_MAX_LENGTH
      then title @ ''...'' else title)"

definition newline :: string where "newline = [char_of (10 :: nat)]"

definition make_entry :: "environment \<Rightarrow> post \<Rightarrow> string" where
  "make_entry e post =
     (let d = data_of post;
        url = local_object_id (en_show_uuid e) (en_instance_url e) (pd_id d) in
      join_with newline
        [''<entry>'',
         ''    <id>'' @ url @ ''</id>'',
         ''    <title>'' @ entry_title e (en_html_text e (pd_content d)) @ ''</title>'',
         ''    <updated>'' @ en_show_rfc3339 e (pd_created_at d) @ ''</updated>'',
         ''    <author><name>'' @ ap_username (pd_author d) @ ''</name></author>'',
         ''    <content type=\"html\">'' @ en_escape_html e (pd_content d) @ ''</content>'',
         ''    <link rel=\"alternate\" href=\"'' @ url @ ''\"/>'',
         ''</entry>''])"

definition get_feed_url :: "string \<Rightarrow> string \<Rightarrow> string" where
  "get_feed_url instance_url username = instance_url @ ''/feeds/users/'' @ username"

text \<open>\<open>None\<close> is the panic of \<open>from_profile\<close>; the newest date is found from the beginning of time on.\<close>

definition make_feed :: "environment \<Rightarrow> db_actor_profile \<Rightarrow> post list \<Rightarrow> string option" where
  "make_feed e profile posts =
     map_option (\<lambda>address.
       let actor_name = (case ap_display_name profile of Some n \<Rightarrow> n | None \<Rightarrow> ap_username profile) in
       join_with newline
        [''<?xml version=\"1.0\" encoding=\"utf-8\"?>'',
         ''<feed xmlns=\"http://www.w3.org/2005/Atom\">'',
         ''<id>'' @ local_actor_id (en_instance_url e) (ap_username profile) @ ''</id>'',
         ''<link rel=\"self\" href=\"'' @ get_feed_url (en_instance_url e) (ap_username profile) @ ''\"/>'',
         ''<title>'' @ actor_name @ '' (@'' @ address_to_string address @ '')'' @ ''</title>'',
         ''<updated>'' @ en_show_rfc3339 e (fold (\<lambda>p t. max t (pd_created_at (data_of p))) posts 0) @
           ''</updated>'',
         join_with newline (map (make_entry e) posts),
         ''</feed>''])
       (address_from_profile (en_hostname e) profile)"

definition FEED_SIZE :: nat where "FEED_SIZE = 10"

definition get_atom_feed :: "environment \<Rightarrow> string \<Rightarrow> string vm" where
  "get_atom_feed e username =
     bind (view_db (get_user_by_name username)) (\<lambda>u.
     bind (view_db (get_posts_by_author (us_id u) None False False None FEED_SIZE)) (\<lambda>posts.
     or_panic (make_feed e (us_profile u) posts) ret))"

section \<open>Nodeinfo\<close>

definition REEF_VERSION :: string where "REEF_VERSION = ''1.22.0''"

definition software_20 :: json where
  "software_20 = JObject [(''name'', JString ''reef''), (''version'', JString REEF_VERSION)]"

definition software_21 :: json where
  "software_21 = JObject [(''name'', JString ''reef''), (''version'', JString REEF_VERSION),
     (''repository'', JString ''https://code.caric.io/reef/reef'')]"

definition node_services :: json where
  "node_services = JObject [(''inbound'', JArray []), (''outbound'', JArray [JString ''atom1.0''])]"

record usage =
  ug_users_total :: int
  ug_local_posts :: int

definition ser_usage :: "usage \<Rightarrow> json" where
  "ser_usage u = JObject
     [(''users'', JObject [(''total'', JNumber (ug_users_total u))]),
      (''localPosts'', JNumber (ug_local_posts u))]"

definition get_usage :: "usage dbm" where
  "get_usage =
     bind get_user_count (\<lambda>user_count.
     bind get_local_post_count (\<lambda>post_count.
     ret \<lparr>ug_users_total = user_count, ug_local_posts = post_count\<rparr>))"

definition node_metadata :: "config \<Rightarrow> json" where
  "node_metadata c = JObject
     [(''nodeName'', JString (cf_instance_title c)),
      (''nodeDescription'', JString (cf_instance_short_description c)),
      (''federation'', JObject [(''enabled'', JBool (fe_enabled (cf_federation c)))])]"

definition has_open_registrations :: "config \<Rightarrow> bool" where
  "has_open_registrations c \<longleftrightarrow> rg_registration_type (cf_registration c) \<noteq> Invite"

definition node_info :: "string \<Rightarrow> json \<Rightarrow> config \<Rightarrow> usage \<Rightarrow> json" where
  "node_info version software c u = JObject
     [(''version'', JString version), (''software'', software),
      (''protocols'', JArray [JString ''activitypub'']), (''services'', node_services),
      (''openRegistrations'', JBool (has_open_registrations c)),
      (''usage'', ser_usage u), (''metadata'', node_metadata c)]"

definition node_info_20 :: "config \<Rightarrow> usage \<Rightarrow> json" where
  "node_info_20 = node_info ''2.0'' software_20"

definition node_info_21 :: "config \<Rightarrow> usage \<Rightarrow> json" where
  "node_info_21 = node_info ''2.1'' software_21"

definition nodeinfo_link :: "string \<Rightarrow> string \<Rightarrow> jrd_link" where
  "nodeinfo_link instance_url version =
     \<lparr>jl_rel = ''http://nodeinfo.diaspora.software/ns/schema/'' @ version, jl_media_type = None,
      jl_href = Some (instance_url @ ''/nodeinfo/'' @ version), jl_properties = []\<rparr>"

definition get_nodeinfo_jrd :: "environment \<Rightarrow> http_answer vm" where
  "get_nodeinfo_jrd e = ret (Document (JObject
     [(''subject'', JString (en_instance_url e)),
      (''links'', JArray (map ser_link
        [nodeinfo_link (en_instance_url e) ''2.0'', nodeinfo_link (en_instance_url e) ''2.1'']))]))"

definition get_nodeinfo_2_0 :: "config \<Rightarrow> http_answer vm" where
  "get_nodeinfo_2_0 c = bind (view_db get_usage) (\<lambda>u. ret (Document (node_info_20 c u)))"

definition get_nodeinfo_2_1 :: "config \<Rightarrow> http_answer vm" where
  "get_nodeinfo_2_1 c = bind (view_db get_usage) (\<lambda>u. ret (Document (node_info_21 c u)))"

section \<open>The instance\<close>

definition get_full_api_version :: "string \<Rightarrow> string" where
  "get_full_api_version version = ''4.0.0 (compatible; FediMovies '' @ version @ '')''"

text \<open>The limits are counters of the configuration; a missing value is \<open>null\<close>.\<close>

definition instance_configuration :: "config \<Rightarrow> json" where
  "instance_configuration c = JObject
     [(''statuses'', JObject
        [(''max_characters'', JNumber (int (pl_character_limit (li_posts (cf_limits c))))),
         (''max_media_attachments'', JNumber (int ATTACHMENT_LIMIT)),
         (''characters_reserved_per_url'', JNumber 32)]),
      (''media_attachments'', JObject
        [(''supported_mime_types'', strings supported_media_types),
         (''image_size_limit'', JNumber (uint (ml_file_size_limit (li_media (cf_limits c)))))]),
      (''polls'', JObject
        [(''max_options'', JNumber 0), (''max_option_characters_per_option'', JNumber 0),
         (''min_expiration'', JNumber 0), (''max_expiration'', JNumber 0)])]"

definition instance_info :: "environment \<Rightarrow> config \<Rightarrow> int \<Rightarrow> int \<Rightarrow> int \<Rightarrow> json" where
  "instance_info e c user_count post_count peer_count = JObject
     [(''uri'', JString (en_hostname e)),
      (''title'', JString (cf_instance_title c)),
      (''short_description'', JString (cf_instance_short_description c)),
      (''description'', JString (en_markdown_to_html e (cf_instance_description c))),
      (''description_source'', JString (cf_instance_description c)),
      (''version'', JString (get_full_api_version REEF_VERSION)),
      (''registrations'', JBool (rg_registration_type (cf_registration c) \<noteq> Invite)),
      (''approval_required'', JBool False),
      (''invites_enabled'', JBool (rg_registration_type (cf_registration c) = Invite)),
      (''stats'', JObject
        [(''user_count'', JNumber user_count), (''status_count'', JNumber post_count),
         (''domain_count'', JNumber peer_count)]),
      (''configuration'', instance_configuration c),
      (''thumbnail'', JNull),
      (''email'', JString ''''),
      (''languages'', strings [''en'']),
      (''rules'', JArray []),
      (''urls'', JNull),
      (''login_message'', JString (cf_login_message c)),
      (''post_character_limit'', JNumber (int (pl_character_limit (li_posts (cf_limits c))))),
      (''ipfs_gateway_url'', ser_option (cf_ipfs_gateway_url c))]"

definition instance_view :: "environment \<Rightarrow> config \<Rightarrow> json mm" where
  "instance_view e c =
     bind (api_db get_user_count) (\<lambda>user_count.
     bind (api_db get_local_post_count) (\<lambda>post_count.
     bind (api_db get_peer_count) (\<lambda>peer_count.
     ret (instance_info e c user_count post_count peer_count))))"

definition instance_peers_view :: "string list mm" where
  "instance_peers_view = api_db get_peers"

section \<open>Redirects\<close>

text \<open>They are there for clients that ask for ActivityPub; other requests get the web client.\<close>

definition profile_page_redirect_view :: "environment \<Rightarrow> uuid \<Rightarrow> http_answer vm" where
  "profile_page_redirect_view e profile_id =
     bind (view_db (get_profile_by_id profile_id)) (\<lambda>profile.
     ret (Redirect (profile_actor_id (en_instance_url e) profile)))"

definition profile_acct_page_redirect_view :: "environment \<Rightarrow> string \<Rightarrow> http_answer vm" where
  "profile_acct_page_redirect_view e acct =
     bind (view_db (get_profile_by_acct acct)) (\<lambda>profile.
     ret (Redirect (profile_actor_id (en_instance_url e) profile)))"

definition post_page_redirect_view :: "environment \<Rightarrow> uuid \<Rightarrow> http_answer vm" where
  "post_page_redirect_view e post_id =
     bind (view_db (get_post_by_id post_id)) (\<lambda>post.
     ret (Redirect (post_object_id (en_show_uuid e) (en_instance_url e) post)))"

end
