(* ===== verification/Periodic.thy ===== *)
theory Periodic
  imports Statuses Receiver
begin

text \<open>
  What the server does by itself (\<open>src/src/job_queue\<close>): the tasks of \<open>periodic_tasks.rs\<close> and the
  scheduler that runs them. The files of deleted rows (\<open>remove_media\<close>) and the log are left out.
\<close>

section \<open>Errors\<close>

text \<open>\<open>anyhow::Error\<close> holds any error; these are the ones that occur.\<close>

datatype task_error =
    Task_Database db_error
  | Task_Client pg_error
  | Task_Handler handler_error
  | Task_Failure string

type_synonym 'a tm = "(task_error, 'a) app_m"

definition task_db :: "'a dbm \<Rightarrow> 'a tm" where
  "task_db = db_call Task_Database"

definition task_run :: "(db_error, 'a) app_m \<Rightarrow> 'a tm" where
  "task_run = map_failure Task_Database"

definition days_before_now :: "environment \<Rightarrow> nat \<Rightarrow> datetime tm" where
  "days_before_now e days = bind (draw (en_now e)) (\<lambda>now. ret (now - int days * one_day))"

section \<open>Retention\<close>

definition delete_posts_before :: "datetime \<Rightarrow> unit tm" where
  "delete_posts_before updated_before =
     bind (task_db (find_extraneous_posts updated_before)) (\<lambda>posts.
     for_each posts (\<lambda>post_id. bind (task_db (delete_post post_id)) (\<lambda>_. ret ())))"

definition delete_profiles_before :: "datetime \<Rightarrow> unit tm" where
  "delete_profiles_before updated_before =
     bind (task_db (find_empty_profiles updated_before)) (\<lambda>profiles.
     for_each profiles (\<lambda>profile_id.
       bind (task_db (get_profile_by_id profile_id)) (\<lambda>profile.
       bind (task_db (delete_profile (ap_id profile))) (\<lambda>_. ret ()))))"

definition delete_extraneous_posts :: "environment \<Rightarrow> unit tm" where
  "delete_extraneous_posts e =
     (case en_keep_posts_days e of
        None \<Rightarrow> ret ()
      | Some days \<Rightarrow> bind (days_before_now e days) delete_posts_before)"

definition delete_empty_profiles :: "environment \<Rightarrow> unit tm" where
  "delete_empty_profiles e =
     (case en_keep_profiles_days e of
        None \<Rightarrow> ret ()
      | Some days \<Rightarrow> bind (days_before_now e days) delete_profiles_before)"

definition prune_remote_emojis :: "unit tm" where
  "prune_remote_emojis =
     bind (task_db find_unused_remote_emojis) (\<lambda>emojis.
     for_each emojis (\<lambda>emoji_id. bind (task_db (delete_emoji emoji_id)) (\<lambda>_. ret ())))"

section \<open>Reviews by mention\<close>

text \<open>
  A transaction around calls that also read the clock and the random generator: an error restores
  the database, not what was asked.
\<close>

definition in_transaction :: "('e, 'a) app_m \<Rightarrow> ('e, 'a) app_m" where
  "in_transaction m w =
     (case m w of (Inl err, w') \<Rightarrow> (Inl err, (fst w, snd w')) | (Inr x, w') \<Rightarrow> (Inr x, w'))"

definition review_by_mention :: "environment \<Rightarrow> notification \<Rightarrow> unit tm" where
  "review_by_mention e mention_notification =
     (case no_post mention_notification of
        None \<Rightarrow> ret ()
      | Some post \<Rightarrow>
          if \<not> post_is_public post \<or> pd_repost_of_id (data_of post) \<noteq> None then ret ()
          else
            bind (task_db (get_user_by_id (ap_id (no_recipient mention_notification)))) (\<lambda>current_user.
            bind (draw (en_now e)) (\<lambda>now.
            bind (draw (en_uuid e)) (\<lambda>repost_id.
            db_match (create_post now repost_id (us_id current_user)
                (post_create_data_repost now (pd_id (data_of post)) None))
              (\<lambda>err. if is_already_exists err
                 then task_db (delete_notification (notification.no_id mention_notification))
                 else fail (Task_Database err))
              (\<lambda>repost.
                 let post = with_data (\<lambda>d. d\<lparr>pd_repost_count := pd_repost_count d + 1\<rparr>) post;
                   repost = with_repost post repost in
                 bind (task_run (prepare_announce e current_user repost)) (\<lambda>activity.
                 bind (task_run (enqueue e activity)) (\<lambda>_.
                 task_db (delete_notification (notification.no_id mention_notification)))))))))"

definition handle_movies_mentions :: "environment \<Rightarrow> unit tm" where
  "handle_movies_mentions e = in_transaction (
     bind (map_failure (\<lambda>err. case err of DatabaseClientError pg \<Rightarrow> Task_Client pg | _ \<Rightarrow> Task_Database err)
         (db_call id (get_mention_notifications 50))) (\<lambda>mention_notifications.
     for_each mention_notifications (review_by_mention e)))"

section \<open>The scheduler\<close>

datatype periodic_task =
    SubscriptionExpirationMonitor
  | IncomingActivityQueueExecutor
  | OutgoingActivityQueueExecutor
  | DeleteExtraneousPosts
  | DeleteEmptyProfiles
  | PruneRemoteEmojis
  | HandleMoviesMentions

text \<open>In seconds.\<close>

fun period :: "periodic_task \<Rightarrow> int" where
  "period SubscriptionExpirationMonitor = 300"
| "period IncomingActivityQueueExecutor = 5"
| "period OutgoingActivityQueueExecutor = 5"
| "period DeleteExtraneousPosts = 3600"
| "period DeleteEmptyProfiles = 3600"
| "period PruneRemoteEmojis = 3600"
| "period HandleMoviesMentions = 5"

text \<open>\<open>num_seconds\<close> rounds towards zero; the periods are positive.\<close>

definition is_ready :: "periodic_task \<Rightarrow> datetime option \<Rightarrow> datetime \<Rightarrow> bool" where
  "is_ready task last_run now =
     (case last_run of
        None \<Rightarrow> True
      | Some t \<Rightarrow> period task * 1000000 \<le> now - t)"

type_synonym scheduler_state = "(periodic_task \<times> datetime option) list"

text \<open>Rust leaves the order of a \<open>HashMap\<close> open; the theorems hold for every order.\<close>

definition initial_tasks :: "environment \<Rightarrow> scheduler_state" where
  "initial_tasks e = map (\<lambda>task. (task, None))
     ([SubscriptionExpirationMonitor, IncomingActivityQueueExecutor, OutgoingActivityQueueExecutor,
       PruneRemoteEmojis, HandleMoviesMentions] @
      (if en_keep_posts_days e \<noteq> None then [DeleteExtraneousPosts] else []) @
      (if en_keep_profiles_days e \<noteq> None then [DeleteEmptyProfiles] else []))"

text \<open>The two queues are those of \<open>Queues\<close>, arguments here.\<close>

fun perform :: "environment \<Rightarrow> unit tm \<Rightarrow> unit tm \<Rightarrow> periodic_task \<Rightarrow> unit tm" where
  "perform e incoming outgoing IncomingActivityQueueExecutor = incoming"
| "perform e incoming outgoing OutgoingActivityQueueExecutor = outgoing"
| "perform e incoming outgoing DeleteExtraneousPosts = delete_extraneous_posts e"
| "perform e incoming outgoing DeleteEmptyProfiles = delete_empty_profiles e"
| "perform e incoming outgoing PruneRemoteEmojis = prune_remote_emojis"
| "perform e incoming outgoing SubscriptionExpirationMonitor = ret ()"
| "perform e incoming outgoing HandleMoviesMentions = handle_movies_mentions e"

text \<open>One pass of the loop: an error of a task is logged, a panic ends the scheduler.\<close>

definition run_task ::
    "environment \<Rightarrow> (periodic_task \<Rightarrow> unit tm) \<Rightarrow> periodic_task \<times> datetime option \<Rightarrow> (periodic_task \<times> datetime option) tm"
where
  "run_task e tasks entry =
     (case entry of (task, last_run) \<Rightarrow>
        bind (case last_run of None \<Rightarrow> ret True
              | Some _ \<Rightarrow> bind (draw (en_now e)) (\<lambda>now. ret (is_ready task last_run now))) (\<lambda>ready.
        if \<not> ready then ret entry
        else
          bind (catching (tasks task) (\<lambda>_. ret ()) ret) (\<lambda>_.
          bind (draw (en_now e)) (\<lambda>now. ret (task, Some now)))))"

definition scheduler_tick ::
    "environment \<Rightarrow> (periodic_task \<Rightarrow> unit tm) \<Rightarrow> scheduler_state \<Rightarrow> scheduler_state tm" where
  "scheduler_tick e tasks st = collect st (run_task e tasks)"

end
