(* ===== verification/Cli.thy ===== *)
theory Cli
  imports Periodic Payments
begin

text \<open>
  The commands of the administrator (\<open>fedimovies-cli/src/cli.rs\<close>) and \<open>src/src/admin/roles.rs\<close>. A
  command is what its \<open>execute\<close> does to the database and asks of the network; the result is what it
  prints about the data. Files are arguments and results. Commands that only print are left out.
\<close>

section \<open>Roles\<close>

definition allowed_roles :: "string list" where
  "allowed_roles = [''admin'', ''user'', ''read_only_user'']"

definition role_from_str :: "string \<Rightarrow> role validated" where
  "role_from_str role_str =
     (if role_str = ''user'' then Inr NormalUser
      else if role_str = ''admin'' then Inr Admin
      else if role_str = ''read_only_user'' then Inr ReadOnlyUser
      else invalid ''unknown role'')"

definition task_check :: "'a validated \<Rightarrow> 'a tm" where
  "task_check r =
     (case r of Inl Panic \<Rightarrow> panic | Inl (Error msg) \<Rightarrow> fail (Task_Failure msg) | Inr x \<Rightarrow> ret x)"

definition task_require :: "'a option \<Rightarrow> string \<Rightarrow> 'a tm" where
  "task_require x what = (case x of None \<Rightarrow> fail (Task_Failure what) | Some y \<Rightarrow> ret y)"

section \<open>Invite codes and users\<close>

definition generate_invite_code_command :: "environment \<Rightarrow> string option \<Rightarrow> string tm" where
  "generate_invite_code_command e note' =
     bind (draw (en_secret e)) (\<lambda>code.
     bind (draw (en_now e)) (\<lambda>now. task_db (create_invite_code code now note')))"

definition invite_code_line :: "db_invite_code \<Rightarrow> string" where
  "invite_code_line invite_code =
     (case ic_note invite_code of
        Some note' \<Rightarrow> ic_code invite_code @ '' ('' @ note' @ '')''
      | None \<Rightarrow> ic_code invite_code)"

definition list_invite_codes :: "string list tm" where
  "list_invite_codes =
     bind (task_db get_invite_codes) (\<lambda>invite_codes.
     ret (if invite_codes = [] then [''no invite codes found''] else map invite_code_line invite_codes))"

definition create_user_command :: "environment \<Rightarrow> string \<Rightarrow> string \<Rightarrow> string \<Rightarrow> unit tm" where
  "create_user_command e username password role_name =
     bind (task_check (validate_local_username username)) (\<lambda>_.
     bind (draw (\<lambda>n. en_password_hash e n password)) (\<lambda>maybe_hash.
     bind (task_require maybe_hash ''password hash'') (\<lambda>password_hash.
     bind (draw (en_rsa_key_pem e)) (\<lambda>maybe_key.
     bind (task_require maybe_key ''private key'') (\<lambda>private_key_pem.
     bind (task_check (role_from_str role_name)) (\<lambda>r.
     bind (draw (en_uuid e)) (\<lambda>i.
     bind (draw (en_now e)) (\<lambda>now.
     or_panic (create_user i now
         \<lparr>uc_username = username, uc_password_hash = Some password_hash,
          uc_private_key_pem = private_key_pem, uc_wallet_address = None,
          uc_invite_code = None, uc_role = r\<rparr>) (\<lambda>m.
     bind (task_db m) (\<lambda>_. ret ()))))))))))"

definition set_password_command :: "environment \<Rightarrow> uuid \<Rightarrow> string \<Rightarrow> unit tm" where
  "set_password_command e user_id password =
     bind (draw (\<lambda>n. en_password_hash e n password)) (\<lambda>maybe_hash.
     bind (task_require maybe_hash ''password hash'') (\<lambda>password_hash.
     bind (task_db (set_user_password user_id password_hash)) (\<lambda>_.
     task_db (delete_oauth_tokens user_id))))"

definition set_role_command :: "uuid \<Rightarrow> string \<Rightarrow> unit tm" where
  "set_role_command user_id role_name =
     bind (task_check (role_from_str role_name)) (\<lambda>r. task_db (set_user_role user_id r))"

section \<open>Remote actors\<close>

definition refetch_actor :: "environment \<Rightarrow> string \<Rightarrow> unit tm" where
  "refetch_actor e actor_id =
     bind (task_db (get_profile_by_remote_actor_id actor_id)) (\<lambda>profile.
     bind (map_failure (\<lambda>err. Task_Handler (FetchError err)) (fetch_actor e actor_id)) (\<lambda>a.
     bind (map_failure Task_Handler (update_remote_profile e profile a)) (\<lambda>_. ret ())))"

definition read_outbox :: "environment \<Rightarrow> string \<Rightarrow> nat \<Rightarrow> unit tm" where
  "read_outbox e actor_id limit = map_failure Task_Handler (import_from_outbox e actor_id limit)"

definition list_unreachable_actors :: "environment \<Rightarrow> nat \<Rightarrow> (string \<times> datetime \<times> datetime) list tm" where
  "list_unreachable_actors e days =
     bind (days_before_now e days) (\<lambda>unreachable_since.
     bind (task_db (find_unreachable unreachable_since)) (\<lambda>profiles.
     collect profiles (\<lambda>profile.
       or_panic (ap_actor_id profile) (\<lambda>actor_id.
       or_panic (ap_unreachable_since profile) (\<lambda>since.
       ret (actor_id, since, ap_updated_at profile))))))"

section \<open>Deleting\<close>

definition delete_profile_command :: "environment \<Rightarrow> uuid \<Rightarrow> unit tm" where
  "delete_profile_command e profile_id =
     bind (task_db (get_profile_by_id profile_id)) (\<lambda>profile.
     bind (if is_local profile
           then
             bind (task_db (get_user_by_id (ap_id profile))) (\<lambda>u.
             bind (task_run (prepare_delete_person e u)) (\<lambda>activity. ret (Some activity)))
           else ret None) (\<lambda>maybe_delete_person.
     bind (task_db (delete_profile (ap_id profile))) (\<lambda>_.
     case maybe_delete_person of
       Some activity \<Rightarrow> task_run (enqueue e activity)
     | None \<Rightarrow> ret ())))"

definition delete_post_command :: "environment \<Rightarrow> uuid \<Rightarrow> unit tm" where
  "delete_post_command e post_id =
     bind (task_db (get_post_by_id post_id)) (\<lambda>post.
     bind (if is_local (pd_author (data_of post))
           then
             bind (task_db (get_user_by_id (ap_id (pd_author (data_of post))))) (\<lambda>author.
             bind (task_run (prepare_delete_note e author post)) (\<lambda>activity. ret (Some activity)))
           else ret None) (\<lambda>maybe_delete_note.
     bind (task_db (delete_post (pd_id (data_of post)))) (\<lambda>_.
     case maybe_delete_note of
       Some activity \<Rightarrow> task_run (enqueue e activity)
     | None \<Rightarrow> ret ())))"

definition delete_emoji_command :: "string \<Rightarrow> string option \<Rightarrow> unit tm" where
  "delete_emoji_command emoji_name hostname =
     bind (task_db (get_emoji_by_name emoji_name hostname)) (\<lambda>emoji.
     bind (task_db (delete_emoji (em_id emoji))) (\<lambda>_. ret ()))"

definition delete_extraneous_posts_command :: "environment \<Rightarrow> nat \<Rightarrow> unit tm" where
  "delete_extraneous_posts_command e days = bind (days_before_now e days) delete_posts_before"

definition delete_unused_attachments_command :: "environment \<Rightarrow> nat \<Rightarrow> unit tm" where
  "delete_unused_attachments_command e days =
     bind (days_before_now e days) (\<lambda>created_before.
     bind (task_db (delete_unused_attachments created_before)) (\<lambda>_. ret ()))"

text \<open>The names of the files that are there; the result are those that are removed.\<close>

definition delete_orphaned_files :: "string list \<Rightarrow> string list tm" where
  "delete_orphaned_files files = task_db (find_orphaned_files files)"

definition delete_empty_profiles_command :: "environment \<Rightarrow> nat \<Rightarrow> unit tm" where
  "delete_empty_profiles_command e days = bind (days_before_now e days) delete_profiles_before"

definition prune_remote_emojis_command :: "unit tm" where
  "prune_remote_emojis_command =
     bind (task_db find_unused_remote_emojis) (\<lambda>emojis.
     for_each emojis (\<lambda>emoji_id. bind (task_db (delete_emoji emoji_id)) (\<lambda>_. ret ())))"

section \<open>Emojis and subscriptions\<close>

definition get_min_datetime :: datetime where "get_min_datetime = 0"

text \<open>Whether the emoji was small enough.\<close>

definition import_emoji :: "environment \<Rightarrow> string \<Rightarrow> string \<Rightarrow> bool tm" where
  "import_emoji e emoji_name hostname =
     bind (task_db (get_emoji_by_name_and_hostname emoji_name hostname)) (\<lambda>emoji.
     if EMOJI_LOCAL_MAX_SIZE < ei_file_size (em_image emoji) then ret False
     else
       bind (draw (en_uuid e)) (\<lambda>i.
       bind (task_db (create_emoji i (em_emoji_name emoji) None (em_image emoji) None get_min_datetime)) (\<lambda>_.
       ret True)))"

definition reset_subscriptions_command :: "bool \<Rightarrow> unit tm" where
  "reset_subscriptions_command ethereum_contract_replaced =
     task_db (reset_subscriptions ethereum_contract_replaced)"

end
