(* ===== verification/Api_Laws.thy ===== *)
theory Api_Laws
  imports Federation_Laws Client_Api Public_Views Cli
begin

text \<open>
  Requests of clients and other servers, periodic tasks and commands change the database only by the
  steps of \<open>System\<close>: what the steps keep is kept by everything the server does.
\<close>

section \<open>Reads\<close>

lemma keeps_query_posts [keeps_intro]: "keeps P (query_posts f)"
  unfolding query_posts_def by (intro keeps_intro)

lemma keeps_post_reads [keeps_intro]:
  "keeps P (get_posts_by_author i u b c m l)" "keeps P (get_home_timeline i m l)"
  "keeps P (get_local_timeline i m l)" "keeps P (get_posts_by_tag t' u m l)"
  "keeps P (find_reposts_by_user i is)" "keeps P (find_reposted_by_user i is)"
  "keeps P (find_favourited_by_user i is)" "keeps P (find_extraneous_posts d)"
  "keeps P get_local_post_count" "keeps P (search_tags q l)" "keeps P (get_related_posts is)"
  unfolding get_posts_by_author_def get_home_timeline_def get_local_timeline_def get_posts_by_tag_def
    find_reposts_by_user_def find_reposted_by_user_def find_favourited_by_user_def
    find_extraneous_posts_def get_local_post_count_def search_tags_def get_related_posts_def
  by (intro keeps_intro)+

lemma keeps_attach_related [keeps_intro]: "keeps P (attach_related others post)"
  by (cases post) (auto simp: get_post_def intro!: keeps_intro split: option.split)

lemma keeps_post_helpers [keeps_intro]:
  "keeps P (add_related_posts posts)" "keeps P (add_user_actions i posts)"
  unfolding add_related_posts_def add_user_actions_def Let_def by (intro keeps_intro)+

lemma keeps_has_relationship [keeps_intro]: "keeps P (has_relationship s t ty)"
  unfolding has_relationship_def by (intro keeps_intro)

lemma keeps_can_view_post [keeps_intro]: "keeps P (can_view_post u post)"
  unfolding can_view_post_def by (auto intro!: keeps_intro split: visibility.split option.split)

lemma keeps_notification_reads [keeps_intro]:
  "keeps P (get_notifications i m l)" "keeps P (get_mention_notifications l)"
  unfolding get_notifications_def get_mention_notifications_def
  by (auto intro!: keeps_intro split: sum.split option.split)

lemma keeps_find_aliases [keeps_intro]: "keeps P (find_aliases_by_ids ids)"
proof (induction ids)
  case (Cons actor_id ids)
  have look: "keeps P (get_profile_by_remote_actor_id actor_id)" by (rule keeps_profile_lookups)
  show ?case
  proof (rule keepsI)
    fix db r db'
    assume P: "P db" and run: "find_aliases_by_ids (actor_id # ids) db = (r, db')"
    obtain out db1 where first: "get_profile_by_remote_actor_id actor_id db = (out, db1)"
      by (cases "get_profile_by_remote_actor_id actor_id db")
    have P1: "P db1" by (rule keepsD [OF look P first])
    have more: "keeps P (bind (find_aliases_by_ids ids) (\<lambda>rest. ret (profile # rest)))" for profile
      by (intro keeps_bind Cons keeps_ret)
    from run first P1 show "P db'"
      by (auto split: sum.splits db_error.splits dest: keepsD [OF Cons] keepsD [OF more])
  qed
qed (simp add: keeps_ret)

lemma keeps_profile_reads [keeps_intro]:
  "keeps P (get_profile_by_id i)" "keeps P (get_profiles_by_accts as)"
  "keeps P (get_profiles b l k)" "keeps P (search_profiles q h l)" "keeps P (search_profiles_by_did_only enc d)"
  "keeps P (find_declared_aliases ap)" "keeps P (find_empty_profiles t1)" "keeps P (find_unreachable t2)"
  unfolding get_profile_by_id_def get_profiles_by_accts_def get_profiles_def search_profiles_def
    search_profiles_by_did_only_def find_declared_aliases_def find_empty_profiles_def find_unreachable_def Let_def
  by (intro keeps_intro)+

lemma keeps_search_by_did [keeps_intro]: "keeps P (search_profiles_by_did enc d b)"
  unfolding search_profiles_by_did_def by (auto intro!: keeps_intro split: option.split)

lemma keeps_emoji_reads [keeps_intro]:
  "keeps P get_local_emojis" "keeps P (get_local_emoji_by_name n)" "keeps P (get_emoji_by_name_and_hostname n h)"
  "keeps P (get_local_emojis_by_names ns)" "keeps P find_unused_remote_emojis"
  unfolding get_local_emojis_def get_local_emoji_by_name_def get_emoji_by_name_and_hostname_def
    get_local_emojis_by_names_def find_unused_remote_emojis_def
  by (intro keeps_intro)+

lemma keeps_get_emoji_by_name [keeps_intro]: "keeps P (get_emoji_by_name n h)"
  unfolding get_emoji_by_name_def by (auto intro!: keeps_intro split: option.split)

lemma keeps_user_reads [keeps_intro]:
  "keeps P (is_registered_user n)" "keeps P (is_valid_invite_code c)" "keeps P get_invite_codes"
  "keeps P get_user_count" "keeps P (get_user_by_oauth_token now tok)"
  "keeps P (get_user_by_authorization_code now c)" "keeps P (get_oauth_app_by_client_id i)"
  unfolding is_registered_user_def is_valid_invite_code_def get_invite_codes_def get_user_count_def
    get_user_by_oauth_token_def get_user_by_authorization_code_def get_oauth_app_by_client_id_def
  by (auto intro!: keeps_intro split: prod.split)

lemma keeps_instance_reads [keeps_intro]: "keeps P get_peers" "keeps P get_peer_count" "keeps P get_usage"
  unfolding get_peers_def get_peer_count_def get_usage_def by (intro keeps_intro)+

lemma keeps_payment_reads [keeps_intro]:
  "keeps P (get_invoice_by_id i)" "keeps P (get_subscription_by_participants s r)"
  "keeps P (get_incoming_subscriptions i m l)" "keeps P (get_marker_opt i tml)"
  unfolding get_invoice_by_id_def get_subscription_by_participants_def get_incoming_subscriptions_def
    get_marker_opt_def
  by (intro keeps_intro)+

lemma keeps_get_relationship [keeps_intro]: "keeps P (get_relationship s t)"
  unfolding get_relationship_def get_relationships_def by (intro keeps_intro)

lemma keeps_linked_posts_loop [keeps_intro]: "keeps P (linked_posts_loop e urls n m)"
  by (induction e urls n m rule: linked_posts_loop.induct) (auto intro!: keeps_intro)

lemma keeps_parse_microsyntaxes [keeps_intro]: "keeps P (parse_microsyntaxes e t)"
  unfolding parse_microsyntaxes_def find_mentioned_profiles_def find_linked_posts_def find_emojis_def Let_def
  by (intro keeps_intro)

lemma keeps_recipients [keeps_intro]:
  "keeps P (get_note_recipients u post)" "keeps P (get_announce_recipients e u post)"
  "keeps P (get_like_recipients post)" "keeps P (get_update_person_recipients i)"
  "keeps P (get_delete_person_recipients i)"
  unfolding get_note_recipients_def get_announce_recipients_def get_like_recipients_def
    get_update_person_recipients_def get_delete_person_recipients_def Let_def
  by (auto intro!: keeps_intro split: option.split visibility.split)

lemma get_thread_reads:
  assumes "get_thread i u db = Some result"
  shows "snd result = db"
proof -
  from assms obtain thread where "result = bind (query_posts (\<lambda>db. thread_page u db thread))
      (\<lambda>posts. if posts = [] then throw (NotFound ''post'') else ret posts) db"
    by (auto simp: get_thread_def split: option.splits)
  moreover have "keeps (\<lambda>d. d = db) (bind (query_posts (\<lambda>db. thread_page u db thread))
      (\<lambda>posts. if posts = [] then throw (NotFound ''post'') else ret posts))"
    by (intro keeps_intro)
  ultimately show ?thesis by (simp add: keeps_def)
qed

section \<open>Calls and checks\<close>

lemma keeps_calls [keeps_intro]:
  "keeps P m \<Longrightarrow> db_keeps P (view_db m)" "keeps P m \<Longrightarrow> db_keeps P (task_db m)"
  "keeps Q m' \<Longrightarrow> keeps Q (api_run m')" "keeps Q m' \<Longrightarrow> keeps Q (task_run m')"
  unfolding view_db_def task_db_def api_run_def task_run_def by (rule keeps_intro; assumption)+

lemma keeps_checks [keeps_intro]:
  "keeps Q (api_invalid msg)" "keeps Q (api_check r)" "keeps Q (api_require x err)" "keeps Q (view_check r')"
  "keeps Q (task_check r'')" "keeps Q (task_require y what)"
  unfolding api_invalid_def api_check_def api_require_def view_check_def task_check_def task_require_def
  by (auto intro!: keeps_intro split: sum.split failure.split option.split)

lemma keeps_in_transaction [keeps_intro]: "db_keeps P m \<Longrightarrow> db_keeps P (in_transaction m)"
proof (rule keepsI)
  fix w r w'
  assume m: "db_keeps P m" and P: "P (fst w)" and run: "in_transaction m w = (r, w')"
  obtain r1 w1 where first: "m w = (r1, w1)" by (cases "m w")
  have "P (fst w1)" using keepsD [OF m P first] .
  with run first P show "P (fst w')" by (auto simp: in_transaction_def split: sum.splits)
qed

context step_closed
begin

lemma keeps_user_steps [keeps_intro]:
  "keeps P (set_user_password i h)" "keeps P (set_user_role i r)" "keeps P (update_client_config i n v)"
  "keeps P (create_invite_code c now note')"
  by (rule keeps_step, rule db_step.intros)+

lemma keeps_oauth_steps [keeps_intro]:
  "keeps P (create_oauth_app now od)" "keeps P (create_oauth_authorization c i a s t1 t2)"
  "keeps P (save_oauth_token i tok t1 t2)" "keeps P (delete_oauth_token i tok)" "keeps P (delete_oauth_tokens i)"
  by (rule keeps_step, rule db_step.intros)+

lemma keeps_preference_steps [keeps_intro]:
  "keeps P (show_reposts s t)" "keeps P (hide_reposts s t)" "keeps P (show_replies s t)"
  "keeps P (hide_replies s t)" "keeps P (mute_posts s t)" "keeps P (unmute_posts s t)"
  "keeps P (create_or_update_marker now i tml l)"
  by (rule keeps_step, rule db_step.intros)+

lemma keeps_cleanup_steps [keeps_intro]:
  "keeps P (delete_emoji i)" "keeps P (delete_unused_attachments t1)" "keeps P (delete_notification n)"
  "keeps P (set_post_ipfs_cid i c cs)" "keeps P (reset_subscriptions b)"
  by (rule keeps_step, rule db_step.intros)+

subsection \<open>Answers\<close>

lemma keeps_current_user [keeps_intro]: "keeps W (get_current_user e token)" "keeps W (maybe_current_user e auth)"
  unfolding maybe_current_user_def get_current_user_def
  by (auto intro!: keeps_intro split: option.split)

lemma keeps_answers [keeps_intro]:
  "keeps W (answer_account e b u)" "keeps W (answer_profiles e b ps)" "keeps W (build_status_list e b mu posts)"
  "keeps W (build_status e b mu post)" "keeps W (get_aliases e b ap)"
  unfolding answer_account_def answer_profiles_def build_status_def build_status_list_def get_aliases_def
  by (auto intro!: keeps_intro split: option.split)

lemma keeps_prepare [keeps_intro]:
  "keeps W (prepare_create_note e u post)" "keeps W (prepare_delete_note e u post)"
  "keeps W (prepare_announce e u post)" "keeps W (prepare_undo_announce e u post i)"
  "keeps W (prepare_like e u post i)" "keeps W (prepare_undo_like e u post i)"
  "keeps W (prepare_delete_person e u)"
  unfolding prepare_create_note_def prepare_delete_note_def prepare_announce_def prepare_undo_announce_def
    prepare_like_def prepare_undo_like_def prepare_delete_person_def
  by (auto intro!: keeps_intro keeps_case_prod)

lemma keeps_prepare_update [keeps_intro]: "keeps W (prepare_update_person e u mi)"
  unfolding prepare_update_person_def
  by (auto intro!: keeps_intro split: option.split sum.split failure.split)

lemma keeps_save_b64_file [keeps_intro]: "keeps W (save_b64_file e data t n pre)"
  unfolding save_b64_file_def save_file_def Let_def
  by (auto intro!: keeps_intro split: option.split)

subsection \<open>Statuses\<close>

lemma keeps_status_input [keeps_intro]:
  "keeps W (requested_visibility v)" "keeps W (status_html e ct t)" "keeps W (status_mentions u v' found req)"
  unfolding requested_visibility_def status_html_def status_mentions_def Let_def
  by (auto intro!: keeps_intro split: option.split)

lemma leads_then: "leads Q R m \<Longrightarrow> (\<And>x. keeps R (f x)) \<Longrightarrow> leads Q R (bind m f)"
  by (fastforce simp: leads_def keeps_def bind_def split: prod.splits sum.splits)

lemma leads_api: "leads (\<lambda>w. with_parent (pcd_in_reply_to_id d) (fst w)) W (api_db (create_post now i a d))"
  by (auto simp: leads_def api_db_def db_call_def split: prod.splits sum.splits dest: step_reply)

lemma leads_save_status:
  "leads (\<lambda>w. with_parent (pcd_in_reply_to_id d) (fst w)) W (save_status e u d parent linked)"
  unfolding save_status_def Let_def
  by (intro leads_bind keeps_draw leads_then leads_api keeps_intro) auto

text \<open>The parent was looked up just before: it is there.\<close>

lemma status_parent_okD:
  "status_parent v mentions maybe_id w = (Inr parent, w') \<Longrightarrow>
     w' = w \<and> (\<forall>i. maybe_id = Some i \<longrightarrow> i \<in> post_ids (fst w))"
  by (cases w) (auto simp: status_parent_def db_match_def catching_def attempt_def db_call_def ret_def
      api_invalid_def fail_def throw_def get_post_by_id_def Let_def
      split: option.splits prod.splits sum.splits if_splits dest!: query_post_okD)

lemma keeps_status_parent: "keeps W (status_parent v mentions maybe_id)"
  unfolding status_parent_def Let_def by (auto intro!: keeps_intro split: option.split)

lemma keeps_reply:
  assumes save: "\<And>parent. leads (\<lambda>w. with_parent maybe_id (fst w)) W (f parent)"
  shows "keeps W (bind (status_parent v mentions maybe_id) f)"
proof (rule keepsI)
  fix w r w'
  assume P: "W w" and run: "bind (status_parent v mentions maybe_id) f w = (r, w')"
  obtain out w1 where first: "status_parent v mentions maybe_id w = (out, w1)"
    by (cases "status_parent v mentions maybe_id w")
  show "W w'"
  proof (cases out)
    case (Inl err)
    with run first keepsD [OF keeps_status_parent P first] show ?thesis by (simp add: bind_Inl)
  next
    case (Inr parent)
    with first have "with_parent maybe_id (fst w1)" using status_parent_okD P by fastforce
    with run first Inr show ?thesis using leadsD [OF save] by (simp add: bind_Inr)
  qed
qed

lemma leads_if: "leads Q R m \<Longrightarrow> leads Q R m' \<Longrightarrow> leads Q R (if b then m else m')"
  by simp

lemma leads_invalid: "leads (\<lambda>w. with_parent i (fst w)) W (api_invalid msg)"
  by (simp add: leads_def api_invalid_def fail_def throw_def)

lemma leads_draw:
  "(\<And>x. leads (\<lambda>w. with_parent i (fst w)) W (f x)) \<Longrightarrow>
    leads (\<lambda>w. with_parent i (fst w)) W (bind (draw tape) f)"
  by (rule leads_bind [OF keeps_draw]) auto

lemma leads_save_reply:
  "pcd_in_reply_to_id d = i \<Longrightarrow> leads (\<lambda>w. with_parent i (fst w)) W (save_status e u d parent linked)"
  using leads_save_status by blast

lemma keeps_create_status [keeps_intro]: "keeps W (create_status e b token d)"
  unfolding create_status_def Let_def
  by (intro keeps_reply keeps_bind keeps_current_user keeps_if keeps_fail keeps_status_input keeps_api
      keeps_parse_microsyntaxes keeps_checks leads_if leads_invalid leads_draw leads_then leads_save_reply
      keeps_draw keeps_ret) simp_all

lemma keeps_preview_status [keeps_intro]: "keeps W (preview_status e token t ct)"
  unfolding preview_status_def by (intro keeps_intro)

lemma keeps_run_thread [keeps_intro]: "keeps W (run_thread i u)"
proof (rule keepsI)
  fix w r w'
  assume P: "W w" and run: "run_thread i u w = (r, w')"
  show "W w'"
  proof (cases "get_thread i u (fst w)")
    case None
    with run P show ?thesis by (simp add: run_thread_def panic_def throw_def)
  next
    case (Some result)
    then have "snd result = fst w" by (rule get_thread_reads)
    with run P Some show ?thesis
      by (cases w) (auto simp: run_thread_def api_db_def db_call_def split: prod.splits sum.splits)
  qed
qed

lemma keeps_status_views [keeps_intro]:
  "keeps W (get_status e b auth i)" "keeps W (get_thread_view e b auth i)" "keeps W (get_context e b auth i)"
  "keeps W (delete_status e token i)" "keeps W (favourite e b token i)" "keeps W (unfavourite e b token i)"
  "keeps W (reblog e b token i)"
  unfolding get_status_def get_thread_view_def get_context_def thread_statuses_def delete_status_def
    favourite_def unfavourite_def reblog_def Let_def
  by (intro keeps_intro)+

lemma keeps_unreblog [keeps_intro]: "keeps W (unreblog e b token i)"
  unfolding unreblog_def by (auto intro!: keeps_intro split: list.split)

lemma keeps_make_permanent [keeps_intro]: "keeps W (make_permanent e b token i)"
  unfolding make_permanent_def add_attachment_def ipfs_add_def Let_def
  by (auto intro!: keeps_intro split: option.split)

subsection \<open>Accounts\<close>

lemma keeps_account_search [keeps_intro]:
  "keeps W (search_profiles_or_import e n h b l)" "keeps W (search_profiles_only e q b l)"
  unfolding search_profiles_only_def search_profiles_or_import_def import_profile_by_actor_address_def Let_def
  by (auto intro!: keeps_intro split: option.split sum.split handler_error.split)

lemma keeps_check_invite [keeps_intro]: "keeps W (check_invite e c)"
  unfolding check_invite_def by (intro keeps_intro)

lemma keeps_create_account [keeps_intro]: "keeps W (create_account e b d)"
proof -
  have create: "keeps W (or_panic (create_user i now \<lparr>uc_username = ci_username d, uc_password_hash = h,
        uc_private_key_pem = k, uc_wallet_address = None, uc_invite_code = ci_invite_code d, uc_role = r\<rparr>) (\<lambda>m.
      bind (db_match m (\<lambda>err. if is_already_exists err then api_invalid msg
         else fail (mastodon_error_of err)) ret) (\<lambda>u. answer_account e b u)))"
    if "username_ok (ci_username d)" for i now h k r msg
    using that
    by (intro keeps_or_panic keeps_bind keeps_db_match keeps_if keeps_fail keeps_ret keeps_answers keeps_checks)
      (rule keeps_create_user, assumption, simp)
  show ?thesis
  proof (cases "validate_local_username (ci_username d)")
    case (Inr v)
    then have ok: "username_ok (ci_username d)" by (simp add: validate_local_username_ok word_username_ok)
    show ?thesis
      unfolding create_account_def
      by (intro keeps_bind keeps_check_invite keeps_checks keeps_if keeps_case_option keeps_draw keeps_ret
          create [OF ok])
  next
    case (Inl err)
    show ?thesis
      unfolding create_account_def Inl
      by (cases err) (auto simp: api_check_def panic_def api_invalid_def fail_def bind_throw
          intro!: keeps_bind keeps_check_invite keeps_throw)
  qed
qed

lemma keeps_profile_input [keeps_intro]:
  "keeps W (process_b64_image e f t old)" "keeps W (markdown_basic e t1)" "keeps W (into_profile_data e ui ap)"
  unfolding into_profile_data_def process_b64_image_def markdown_basic_def
  by (auto intro!: keeps_intro split: option.split)

lemma keeps_save_own_profile [keeps_intro]: "keeps W (save_own_profile e u d)"
  unfolding save_own_profile_def Let_def by (intro keeps_intro)

lemma keeps_user_and_target [keeps_intro]: "keeps W (user_and_target e token i)"
  unfolding user_and_target_def by (intro keeps_intro)

lemma keeps_account_views [keeps_intro]:
  "keeps W (verify_credentials e b token)" "keeps W (update_credentials e b token ui)"
  "keeps W (get_relationships_view e token i)" "keeps W (lookup_acct e b c)"
  "keeps W (get_account e b i)" "keeps W (follow_account e token i b1 b2)"
  "keeps W (mute_account e token i)" "keeps W (unmute_account e token i)"
  unfolding verify_credentials_def update_credentials_def get_relationships_view_def lookup_acct_def
    get_account_def follow_account_def mute_account_def unmute_account_def
  by (intro keeps_intro keeps_case_prod)+

lemma keeps_unfollow_account [keeps_intro]: "keeps W (unfollow_account e token i)"
  unfolding unfollow_account_def by (intro keeps_intro keeps_case_prod)

lemma keeps_unsigned_update [keeps_intro]: "keeps W (get_unsigned_update e token)"
  unfolding get_unsigned_update_def
  by (auto intro!: keeps_intro split: sum.split failure.split)

lemma keeps_account_searches [keeps_intro]:
  "keeps W (search_by_acct e b auth q r l)" "keeps W (search_by_did e b v)"
  unfolding search_by_acct_def search_by_did_def
  by (auto intro!: keeps_intro split: option.split sum.split)

lemma keeps_related_accounts [keeps_intro]:
  "(\<And>i. keeps P (get i)) \<Longrightarrow> keeps W (related_accounts e b token path i l get)"
  unfolding related_accounts_def by (intro keeps_intro keeps_case_prod)

lemma keeps_paginated [keeps_intro]: "keeps P (get_followers_paginated i m l)" "keeps P (get_following_paginated i m l)"
  unfolding get_followers_paginated_def get_following_paginated_def by (intro keeps_intro)+

lemma keeps_account_lists [keeps_intro]:
  "keeps W (get_account_statuses e b auth i b1 b2 m l)" "keeps W (get_account_followers e b token path i m1 l)"
  "keeps W (get_account_following e b token path i m1 l)" "keeps W (get_account_subscribers e b token i m1 l)"
  "keeps W (get_account_aliases e b i)" "keeps W (get_all_account_aliases e b i)"
  unfolding get_account_statuses_def get_account_followers_def get_account_following_def
    get_account_subscribers_def get_account_aliases_def get_all_account_aliases_def
  by (intro keeps_intro keeps_case_prod)+

subsection \<open>Settings\<close>

lemma keeps_exports [keeps_intro]:
  "keeps W (export_followers_view e token)" "keeps W (export_follows_view e token)"
  unfolding export_followers_view_def export_follows_view_def export_followers_def export_follows_def
  by (intro keeps_intro)+

lemma keeps_settings [keeps_intro]:
  "keeps W (client_config_view e b token es)" "keeps W (change_password_view e b token pw)"
  "keeps W (add_alias_view e b token c)" "keeps W (import_follows_view e token csv)"
  unfolding client_config_view_def change_password_view_def add_alias_view_def import_follows_view_def Let_def
  by (auto intro!: keeps_intro split: list.split prod.split)

lemma keeps_move_followers_view [keeps_intro]: "keeps W (move_followers e token i csv)"
  unfolding move_followers_def by (auto intro!: keeps_intro split: option.split)

lemma keeps_found_address [keeps_intro]:
  "(\<And>ap. keeps W (k ap)) \<Longrightarrow> keeps W skip \<Longrightarrow> keeps W (found_address e a k skip)"
  unfolding found_address_def
  by (auto intro!: keeps_intro split: handler_error.split db_error.split)

lemma keeps_import_follows_task [keeps_intro]: "keeps W (import_follows_task e u as)"
  unfolding import_follows_task_def by (intro keeps_intro)

lemma keeps_move_local_follower [keeps_intro]: "keeps W (move_local_follower e u ap f)"
  unfolding move_local_follower_def by (intro keeps_intro)

lemma keeps_move_followers_task [keeps_intro]: "keeps W (move_followers_task e u i mp as)"
  unfolding move_followers_task_def move_listed_follower_def
  by (auto intro!: keeps_intro split: option.split)

subsection \<open>The rest of the client API\<close>

lemma keeps_check_password [keeps_intro]: "keeps W (check_password e u pw)"
  unfolding check_password_def by (intro keeps_intro)

lemma keeps_oauth_views [keeps_intro]:
  "keeps W (authorize_view e zi)" "keeps W (token_view e ti)" "keeps W (revoke_token_view e token tok)"
  "keeps W (create_app_view e pi)"
  unfolding authorize_view_def token_view_def token_user_def revoke_token_view_def create_app_view_def
  by (intro keeps_intro)+

lemma keeps_timeline_views [keeps_intro]:
  "keeps W (home_timeline e b token m l)" "keeps W (public_timeline e b token m l)"
  "keeps W (hashtag_timeline e b auth h m l)" "keeps W (get_notifications_view e b token path m1 l)"
  unfolding home_timeline_def public_timeline_def hashtag_timeline_def get_notifications_view_def Let_def
  by (intro keeps_intro)+

lemma keeps_to_timeline [keeps_intro]: "keeps W (to_timeline n)"
  unfolding to_timeline_def by (intro keeps_intro)

lemma keeps_marker_views [keeps_intro]:
  "keeps W (get_marker_view e token n)" "keeps W (update_marker_view e token l)"
  unfolding get_marker_view_def update_marker_view_def by (intro keeps_intro)+

lemma keeps_create_attachment_view [keeps_intro]: "keeps W (create_attachment_view e token f t)"
proof -
  have save: "keeps W (or_panic (create_attachment now i a n sz ty) (\<lambda>m.
      bind (api_db m) (\<lambda>x. ret (attachment_from_db url x))))" for now i a n sz ty url
    by (intro keeps_or_panic keeps_bind keeps_api keeps_ret) (rule keeps_create_attachment)
  show ?thesis
    unfolding create_attachment_view_def
    by (intro keeps_bind keeps_current_user keeps_map_failure keeps_save_b64_file keeps_case_prod keeps_draw save)
qed

lemma keeps_lists [keeps_intro]:
  "keeps W (profile_directory e b token only n l)" "keeps W (custom_emoji_list b)"
  "keeps W (authorize_subscription e token)" "keeps W (get_subscription_options e token)"
  "keeps W (register_subscription_option e b token)" "keeps W (find_subscription i j)" "keeps W (get_invoice i)"
  unfolding profile_directory_def custom_emoji_list_def authorize_subscription_def get_subscription_options_def
    register_subscription_option_def find_subscription_def get_invoice_def
  by (intro keeps_intro)+

lemma keeps_found_or_none [keeps_intro]: "keeps P m \<Longrightarrow> keeps W (found_or_none m f)"
  unfolding found_or_none_def by (intro keeps_intro)

lemma keeps_find_by_url [keeps_intro]: "keeps W (find_post_by_url e url)" "keeps W (find_profile_by_url e url)"
  unfolding find_post_by_url_def find_profile_by_url_def
  by (auto intro!: keeps_intro split: sum.split)

lemma keeps_search [keeps_intro]: "keeps W (search e u q l)"
  unfolding search_def
  by (auto intro!: keeps_intro split: search_query.split option.split)

lemma keeps_search_view [keeps_intro]: "keeps W (search_view e b token q l)"
  unfolding search_view_def by (intro keeps_intro keeps_case_prod)

subsection \<open>Other servers and browsers\<close>

lemma keeps_public_views [keeps_intro]:
  "keeps W (instance_view e c)" "keeps W instance_peers_view" "keeps W (get_atom_feed e n)"
  "keeps W (get_nodeinfo_jrd e)" "keeps W (get_nodeinfo_2_0 c)" "keeps W (get_nodeinfo_2_1 c)"
  "keeps W (profile_page_redirect_view e i)" "keeps W (profile_acct_page_redirect_view e n)"
  "keeps W (post_page_redirect_view e i)"
  unfolding instance_view_def instance_peers_view_def get_atom_feed_def get_nodeinfo_jrd_def get_nodeinfo_2_0_def
    get_nodeinfo_2_1_def profile_page_redirect_view_def profile_acct_page_redirect_view_def
    post_page_redirect_view_def
  by (intro keeps_intro)+

lemma keeps_inbox_views [keeps_intro]: "keeps W (inbox e rq v)" "keeps W (instance_actor_inbox e v)"
  unfolding inbox_def instance_actor_inbox_def by (intro keeps_intro)+

lemma keeps_case_failure [keeps_intro]:
  "keeps Q g \<Longrightarrow> (\<And>err. keeps Q (f err)) \<Longrightarrow> (\<And>x. keeps Q (h x)) \<Longrightarrow>
    keeps Q (case r of Inl Panic \<Rightarrow> g | Inl (Error err) \<Rightarrow> f err | Inr x \<Rightarrow> h x)"
  by (simp split: sum.split failure.split)

lemma keeps_actor_views [keeps_intro]:
  "keeps W (actor_view e hs n)" "keeps W (instance_actor_view e)"
  unfolding actor_view_def instance_actor_view_def by (intro keeps_intro)+

lemma keeps_object_views [keeps_intro]:
  "keeps W (object_view e hs i)" "keeps W (emoji_view e n)" "keeps W (tag_view e n)" "keeps W (outbox e n mp)"
  unfolding object_view_def emoji_view_def tag_view_def outbox_def Let_def by (intro keeps_intro)+

lemma keeps_collections [keeps_intro]:
  "keeps W (followers_collection e n mp)" "keeps W (following_collection e n mp)"
  "keeps W (subscribers_collection e n mp)"
  unfolding followers_collection_def following_collection_def subscribers_collection_def count_collection_def
  by (intro keeps_intro)+

lemma keeps_webfinger [keeps_intro]: "keeps W (get_jrd e r)" "keeps W (webfinger_view e r)"
proof -
  show jrd: "keeps W (get_jrd e r)" for r
    unfolding get_jrd_def resource_address_def by (intro keeps_intro)
  show "keeps W (webfinger_view e r)"
    unfolding webfinger_view_def by (intro keeps_intro jrd)
qed

subsection \<open>Tasks and commands\<close>

lemma keeps_deletions [keeps_intro]: "keeps W (delete_posts_before t1)" "keeps W (delete_profiles_before t1)"
  unfolding delete_posts_before_def delete_profiles_before_def by (intro keeps_intro)+

lemma keeps_days_before_now [keeps_intro]: "keeps W (days_before_now e n)"
  unfolding days_before_now_def by (intro keeps_intro)

lemma keeps_review [keeps_intro]: "keeps W (review_by_mention e n)"
  unfolding review_by_mention_def Let_def by (intro keeps_intro)

lemma keeps_tasks [keeps_intro]:
  "keeps W (delete_extraneous_posts e)" "keeps W (delete_empty_profiles e)" "keeps W prune_remote_emojis"
  "keeps W (handle_movies_mentions e)"
  unfolding delete_extraneous_posts_def delete_empty_profiles_def prune_remote_emojis_def
    handle_movies_mentions_def
  by (intro keeps_intro)+

lemma keeps_perform [keeps_intro]:
  "keeps W incoming \<Longrightarrow> keeps W outgoing \<Longrightarrow> keeps W (perform e incoming outgoing task)"
  by (cases task) (simp_all add: keeps_intro)

lemma keeps_scheduler_tick:
  "keeps W incoming \<Longrightarrow> keeps W outgoing \<Longrightarrow> keeps W (scheduler_tick e (perform e incoming outgoing) st)"
  unfolding scheduler_tick_def run_task_def by (intro keeps_intro keeps_case_prod)

lemma keeps_commands [keeps_intro]:
  "keeps W (generate_invite_code_command e nt)" "keeps W list_invite_codes"
  "keeps W (set_password_command e i pw)" "keeps W (set_role_command i r)" "keeps W (refetch_actor e a)"
  "keeps W (read_outbox e a n)" "keeps W (list_unreachable_actors e n)"
  "keeps W (delete_emoji_command n1 h)" "keeps W (delete_extraneous_posts_command e n)"
  "keeps W (delete_unused_attachments_command e n)" "keeps W (delete_orphaned_files fs)"
  "keeps W (delete_empty_profiles_command e n)" "keeps W prune_remote_emojis_command"
  "keeps W (import_emoji e n1 n2)" "keeps W (reset_subscriptions_command b)"
  unfolding generate_invite_code_command_def list_invite_codes_def set_password_command_def
    set_role_command_def refetch_actor_def read_outbox_def list_unreachable_actors_def delete_emoji_command_def
    delete_extraneous_posts_command_def delete_unused_attachments_command_def delete_orphaned_files_def
    delete_empty_profiles_command_def prune_remote_emojis_command_def import_emoji_def
    reset_subscriptions_command_def
  by (intro keeps_intro)+

lemma keeps_deletion_commands [keeps_intro]:
  "keeps W (delete_profile_command e i)" "keeps W (delete_post_command e i)"
  unfolding delete_profile_command_def delete_post_command_def
  by (auto intro!: keeps_intro split: option.split)

lemma keeps_create_user_command [keeps_intro]: "keeps W (create_user_command e n pw r)"
proof (cases "validate_local_username n")
  case (Inr v)
  then have ok: "username_ok n" by (simp add: validate_local_username_ok word_username_ok)
  then have create: "keeps W (or_panic (create_user i now \<lparr>uc_username = n, uc_password_hash = h,
      uc_private_key_pem = k, uc_wallet_address = None, uc_invite_code = None, uc_role = ro\<rparr>) (\<lambda>m.
      bind (task_db m) (\<lambda>_. ret ())))" for i now h k ro
    by (intro keeps_or_panic keeps_bind keeps_calls keeps_ret) (rule keeps_create_user, assumption, simp)
  show ?thesis
    unfolding create_user_command_def by (intro keeps_bind keeps_checks keeps_draw create)
next
  case (Inl err)
  then show ?thesis
    unfolding create_user_command_def
    by (cases err) (auto simp: task_check_def panic_def fail_def bind_throw intro!: keeps_throw)
qed

end

end
