(* ===== verification/Server.thy ===== *)
theory Server
  imports Api_Laws Import_Laws
begin

text \<open>
  The whole server: the requests of the client API as values, what answers them, and the state
  machine in which requests of clients, requests of other servers, the loops of the queues,
  periodic tasks and commands of the administrator take turns.
\<close>

section \<open>Requests that need a token\<close>

text \<open>One constructor for each view that begins with \<open>get_current_user\<close>, with its parameters.\<close>

datatype token_request =
    Create_status status_input
  | Preview_status string string
  | Delete_status uuid
  | Favourite uuid
  | Unfavourite uuid
  | Reblog uuid
  | Unreblog uuid
  | Make_permanent uuid
  | Verify_credentials
  | Update_credentials account_update_input
  | Get_unsigned_update
  | Get_relationships uuid
  | Follow_account uuid bool bool
  | Unfollow_account uuid
  | Mute_account uuid
  | Unmute_account uuid
  | Get_account_followers string uuid "int option" nat
  | Get_account_following string uuid "int option" nat
  | Get_account_subscribers uuid "int option" nat
  | Client_config "(string \<times> json) list"
  | Change_password string
  | Add_alias string
  | Export_followers
  | Export_follows
  | Import_follows string
  | Move_followers string string
  | Revoke_token string
  | Home_timeline "uuid option" nat
  | Public_timeline "uuid option" nat
  | Get_notifications string "int option" nat
  | Get_marker string
  | Update_marker string
  | Create_attachment string "string option"
  | Profile_directory bool nat nat
  | Authorize_subscription
  | Get_subscription_options
  | Register_subscription_option
  | Search_request string nat

text \<open>What a view does, without its answer.\<close>

definition silent :: "('e, 'a) app_m \<Rightarrow> ('e, unit) app_m" where
  "silent m = bind m (\<lambda>_. ret ())"

fun answer :: "environment \<Rightarrow> string \<Rightarrow> string \<Rightarrow> token_request \<Rightarrow> unit mm" where
  "answer e b t (Create_status d) = silent (create_status e b t d)"
| "answer e b t (Preview_status s ct) = silent (preview_status e t s ct)"
| "answer e b t (Delete_status i) = silent (delete_status e t i)"
| "answer e b t (Favourite i) = silent (favourite e b t i)"
| "answer e b t (Unfavourite i) = silent (unfavourite e b t i)"
| "answer e b t (Reblog i) = silent (reblog e b t i)"
| "answer e b t (Unreblog i) = silent (unreblog e b t i)"
| "answer e b t (Make_permanent i) = silent (make_permanent e b t i)"
| "answer e b t Verify_credentials = silent (verify_credentials e b t)"
| "answer e b t (Update_credentials d) = silent (update_credentials e b t d)"
| "answer e b t Get_unsigned_update = silent (get_unsigned_update e t)"
| "answer e b t (Get_relationships i) = silent (get_relationships_view e t i)"
| "answer e b t (Follow_account i reblogs replies) = silent (follow_account e t i reblogs replies)"
| "answer e b t (Unfollow_account i) = silent (unfollow_account e t i)"
| "answer e b t (Mute_account i) = silent (mute_account e t i)"
| "answer e b t (Unmute_account i) = silent (unmute_account e t i)"
| "answer e b t (Get_account_followers path i m l) = silent (get_account_followers e b t path i m l)"
| "answer e b t (Get_account_following path i m l) = silent (get_account_following e b t path i m l)"
| "answer e b t (Get_account_subscribers i m l) = silent (get_account_subscribers e b t i m l)"
| "answer e b t (Client_config es) = silent (client_config_view e b t es)"
| "answer e b t (Change_password pw) = silent (change_password_view e b t pw)"
| "answer e b t (Add_alias a) = silent (add_alias_view e b t a)"
| "answer e b t Export_followers = silent (export_followers_view e t)"
| "answer e b t Export_follows = silent (export_follows_view e t)"
| "answer e b t (Import_follows csv) = silent (import_follows_view e t csv)"
| "answer e b t (Move_followers i csv) = silent (move_followers e t i csv)"
| "answer e b t (Revoke_token tok) = silent (revoke_token_view e t tok)"
| "answer e b t (Home_timeline m l) = silent (home_timeline e b t m l)"
| "answer e b t (Public_timeline m l) = silent (public_timeline e b t m l)"
| "answer e b t (Get_notifications path m l) = silent (get_notifications_view e b t path m l)"
| "answer e b t (Get_marker n) = silent (get_marker_view e t n)"
| "answer e b t (Update_marker i) = silent (update_marker_view e t i)"
| "answer e b t (Create_attachment f ty) = silent (create_attachment_view e t f ty)"
| "answer e b t (Profile_directory only n l) = silent (profile_directory e b t only n l)"
| "answer e b t Authorize_subscription = silent (authorize_subscription e t)"
| "answer e b t Get_subscription_options = silent (get_subscription_options e t)"
| "answer e b t Register_subscription_option = silent (register_subscription_option e b t)"
| "answer e b t (Search_request q l) = silent (search_view e b t q l)"

section \<open>Requests that everybody can send\<close>

datatype public_request =
    Create_account account_create_input
  | Get_status "string option" uuid
  | Get_context "string option" uuid
  | Get_thread "string option" uuid
  | Lookup_acct string
  | Search_by_acct "string option" string bool nat
  | Search_by_did string
  | Get_account uuid
  | Get_account_statuses "string option" uuid bool bool "uuid option" nat
  | Get_account_aliases uuid
  | Get_all_account_aliases uuid
  | Authorize authorization_input
  | Get_token token_input
  | Create_app app_input
  | Hashtag_timeline "string option" string "uuid option" nat
  | Custom_emojis
  | Find_subscription uuid uuid
  | Get_invoice uuid
  | Instance_info config
  | Instance_peers

fun answer_public :: "environment \<Rightarrow> string \<Rightarrow> public_request \<Rightarrow> unit mm" where
  "answer_public e b (Create_account d) = silent (create_account e b d)"
| "answer_public e b (Get_status auth i) = silent (get_status e b auth i)"
| "answer_public e b (Get_context auth i) = silent (get_context e b auth i)"
| "answer_public e b (Get_thread auth i) = silent (get_thread_view e b auth i)"
| "answer_public e b (Lookup_acct a) = silent (lookup_acct e b a)"
| "answer_public e b (Search_by_acct auth q r l) = silent (search_by_acct e b auth q r l)"
| "answer_public e b (Search_by_did v) = silent (search_by_did e b v)"
| "answer_public e b (Get_account i) = silent (get_account e b i)"
| "answer_public e b (Get_account_statuses auth i p ex m l) = silent (get_account_statuses e b auth i p ex m l)"
| "answer_public e b (Get_account_aliases i) = silent (get_account_aliases e b i)"
| "answer_public e b (Get_all_account_aliases i) = silent (get_all_account_aliases e b i)"
| "answer_public e b (Authorize d) = silent (authorize_view e d)"
| "answer_public e b (Get_token d) = silent (token_view e d)"
| "answer_public e b (Create_app d) = silent (create_app_view e d)"
| "answer_public e b (Hashtag_timeline auth h m l) = silent (hashtag_timeline e b auth h m l)"
| "answer_public e b Custom_emojis = silent (custom_emoji_list b)"
| "answer_public e b (Find_subscription i j) = silent (find_subscription i j)"
| "answer_public e b (Get_invoice i) = silent (get_invoice i)"
| "answer_public e b (Instance_info c) = silent (instance_view e c)"
| "answer_public e b Instance_peers = silent instance_peers_view"

text \<open>Requests of other servers and of browsers.\<close>

datatype server_request =
    Actor "(string \<times> string) list" string
  | Inbox http_request json
  | Outbox string "bool option"
  | Followers_collection string "bool option"
  | Following_collection string "bool option"
  | Subscribers_collection string "bool option"
  | Instance_actor
  | Instance_inbox json
  | Object "(string \<times> string) list" uuid
  | Emoji string
  | Tag string
  | Webfinger string
  | Atom_feed string
  | Nodeinfo_index
  | Nodeinfo_20 config
  | Nodeinfo_21 config
  | Profile_redirect uuid
  | Acct_redirect string
  | Post_redirect uuid

fun answer_server :: "environment \<Rightarrow> server_request \<Rightarrow> unit vm" where
  "answer_server e (Actor hs n) = silent (actor_view e hs n)"
| "answer_server e (Inbox rq v) = silent (inbox e rq v)"
| "answer_server e (Outbox n p) = silent (outbox e n p)"
| "answer_server e (Followers_collection n p) = silent (followers_collection e n p)"
| "answer_server e (Following_collection n p) = silent (following_collection e n p)"
| "answer_server e (Subscribers_collection n p) = silent (subscribers_collection e n p)"
| "answer_server e Instance_actor = silent (instance_actor_view e)"
| "answer_server e (Instance_inbox v) = silent (instance_actor_inbox e v)"
| "answer_server e (Object hs i) = silent (object_view e hs i)"
| "answer_server e (Emoji n) = silent (emoji_view e n)"
| "answer_server e (Tag n) = silent (tag_view e n)"
| "answer_server e (Webfinger r) = silent (webfinger_view e r)"
| "answer_server e (Atom_feed n) = silent (get_atom_feed e n)"
| "answer_server e Nodeinfo_index = silent (get_nodeinfo_jrd e)"
| "answer_server e (Nodeinfo_20 c) = silent (get_nodeinfo_2_0 c)"
| "answer_server e (Nodeinfo_21 c) = silent (get_nodeinfo_2_1 c)"
| "answer_server e (Profile_redirect i) = silent (profile_page_redirect_view e i)"
| "answer_server e (Acct_redirect n) = silent (profile_acct_page_redirect_view e n)"
| "answer_server e (Post_redirect i) = silent (post_page_redirect_view e i)"

section \<open>Commands of the administrator\<close>

datatype command =
    Generate_invite_code "string option"
  | List_invite_codes
  | Create_user string string string
  | Set_password uuid string
  | Set_role uuid string
  | Refetch_actor string
  | Read_outbox string nat
  | Delete_profile uuid
  | Delete_post uuid
  | Delete_emoji string "string option"
  | Delete_extraneous_posts nat
  | Delete_unused_attachments nat
  | Delete_orphaned_files "string list"
  | Delete_empty_profiles nat
  | Prune_remote_emojis
  | List_unreachable_actors nat
  | Import_emoji string string
  | Reset_subscriptions bool

fun run_command :: "environment \<Rightarrow> command \<Rightarrow> unit tm" where
  "run_command e (Generate_invite_code n) = silent (generate_invite_code_command e n)"
| "run_command e List_invite_codes = silent list_invite_codes"
| "run_command e (Create_user n pw r) = create_user_command e n pw r"
| "run_command e (Set_password i pw) = set_password_command e i pw"
| "run_command e (Set_role i r) = set_role_command i r"
| "run_command e (Refetch_actor i) = refetch_actor e i"
| "run_command e (Read_outbox i n) = read_outbox e i n"
| "run_command e (Delete_profile i) = delete_profile_command e i"
| "run_command e (Delete_post i) = delete_post_command e i"
| "run_command e (Delete_emoji n h) = delete_emoji_command n h"
| "run_command e (Delete_extraneous_posts n) = delete_extraneous_posts_command e n"
| "run_command e (Delete_unused_attachments n) = delete_unused_attachments_command e n"
| "run_command e (Delete_orphaned_files fs) = silent (delete_orphaned_files fs)"
| "run_command e (Delete_empty_profiles n) = delete_empty_profiles_command e n"
| "run_command e Prune_remote_emojis = prune_remote_emojis_command"
| "run_command e (List_unreachable_actors n) = silent (list_unreachable_actors e n)"
| "run_command e (Import_emoji n h) = silent (import_emoji e n h)"
| "run_command e (Reset_subscriptions b) = reset_subscriptions_command b"

section \<open>What keeps a property of the steps\<close>

context step_closed
begin

lemma keeps_silent [keeps_intro]: "keeps Q m \<Longrightarrow> keeps Q (silent m)"
  unfolding silent_def by (intro keeps_intro)

lemma keeps_answer: "keeps W (answer e b t r)"
  by (cases r) (simp_all only: answer.simps, (intro keeps_intro)+)

lemma keeps_answer_public: "keeps W (answer_public e b r)"
  by (cases r) (simp_all only: answer_public.simps, (intro keeps_intro)+)

lemma keeps_answer_server: "keeps W (answer_server e r)"
  by (cases r) (simp_all only: answer_server.simps, (intro keeps_intro)+)

lemma keeps_run_command: "keeps W (run_command e c)"
  by (cases c) (simp_all only: run_command.simps, (intro keeps_intro)+)

end

section \<open>Requests without a valid token\<close>

lemma get_current_user_refused:
  assumes "\<forall>r \<in> set (t_oauth_token db). ot_token r = t \<longrightarrow> ot_expires_at r \<le> en_now e n"
  shows "get_current_user e t (db, n) = (Inl (Error (Api_AuthError ''access token is invalid'')), (db, Suc n))"
proof -
  have none: "filter (\<lambda>r. ot_token r = t \<and> ot_expires_at r > en_now e n) (t_oauth_token db) = []"
    using assms by (auto simp: filter_empty_conv)
  have "get_user_by_oauth_token (en_now e n) t db = (Inl (NotFound ''user''), db)"
    by (simp add: get_user_by_oauth_token_def none join_accounts_def bind_def db_run)
  then show ?thesis
    by (simp add: get_current_user_def bind_def draw_def db_match_def catching_def attempt_def db_call_def
        fail_def throw_def)
qed

text \<open>
  C5: A request of the client API that needs a token is refused when the token is unknown or has
  expired: whatever it asks for, the answer is the error 401 and the database stays as it is.
\<close>

theorem invalid_token_refused:
  assumes "\<forall>r \<in> set (t_oauth_token db). ot_token r = t \<longrightarrow> ot_expires_at r \<le> en_now e n"
  shows "answer e b t request (db, n) = (Inl (Error (Api_AuthError ''access token is invalid'')), (db, Suc n)) \<and>
    status_code (Api_AuthError ''access token is invalid'') = 401"
proof -
  note refused = get_current_user_refused [OF assms]
  show ?thesis
    by (cases request)
      (simp_all add: refused bind_Inl silent_def create_status_def preview_status_def delete_status_def favourite_def
        unfavourite_def reblog_def unreblog_def make_permanent_def verify_credentials_def update_credentials_def
        get_unsigned_update_def get_relationships_view_def follow_account_def unfollow_account_def
        mute_account_def unmute_account_def get_account_followers_def get_account_following_def related_accounts_def
        get_account_subscribers_def user_and_target_def client_config_view_def change_password_view_def
        add_alias_view_def export_followers_view_def export_follows_view_def import_follows_view_def
        move_followers_def revoke_token_view_def home_timeline_def public_timeline_def get_notifications_view_def
        get_marker_view_def update_marker_view_def create_attachment_view_def profile_directory_def
        authorize_subscription_def get_subscription_options_def register_subscription_option_def search_view_def)
qed

lemma invalid_token_refused_witness:
  "answer sample_env ''https://l.example'' ''secret'' (Delete_status 11) (sample_db, 0) =
     (Inl (Error (Api_AuthError ''access token is invalid'')), (sample_db, 1))"
proof -
  have "t_oauth_token sample_db = []" by (simp add: sample_db_def empty_database_def)
  with invalid_token_refused [of sample_db "''secret''" sample_env 0 "''https://l.example''" "Delete_status 11"]
  show ?thesis by simp
qed

section \<open>The state machine\<close>

text \<open>
  The steps of \<open>Import_Laws\<close> are requests of other servers, imports and the operations of the
  database, of which the loops of the queues consist. The two tasks that a request starts run later.
\<close>

inductive full_step :: "environment \<Rightarrow> world \<Rightarrow> world \<Rightarrow> bool" for e where
  federated: "server_step e w w' \<Longrightarrow> full_step e w w'"
| requested: "full_step e w (snd (answer e b t r w))"
| requested_publicly: "full_step e w (snd (answer_public e b p w))"
| requested_by_server: "full_step e w (snd (answer_server e q w))"
| commanded: "full_step e w (snd (run_command e c w))"
| performed: "full_step e w (snd (perform e (ret ()) (ret ()) task w))"
| follows_imported: "full_step e w (snd (import_follows_task e u addresses w))"
| followers_moved: "full_step e w (snd (move_followers_task e u actor_id maybe_profile addresses w))"

inductive full_reaches :: "environment \<Rightarrow> world \<Rightarrow> bool" for e where
  start: "full_reaches e (empty_database, 0)"
| step: "full_reaches e w \<Longrightarrow> full_step e w w' \<Longrightarrow> full_reaches e w'"

lemma full_step_reachable: "full_step e w w' \<Longrightarrow> reachable (fst w) \<Longrightarrow> reachable (fst w')"
proof (induction rule: full_step.induct)
  case (federated w w')
  then show ?case by (rule server_step_reachable)
next
  case (performed w task)
  then show ?case
    by (intro keeps_snd [of "\<lambda>w. reachable (fst w)"] federation.keeps_perform keeps_ret)
qed (rule keeps_snd [of "\<lambda>w. reachable (fst w)"], rule federation.keeps_answer
    federation.keeps_answer_public federation.keeps_answer_server federation.keeps_run_command
    federation.keeps_import_follows_task federation.keeps_move_followers_task, assumption)+

text \<open>
  C2: Whatever clients, other servers and the administrator ask for, whatever the network answers,
  and in whatever order this happens between the tasks of the server, the database is one that the
  operations can reach: the constraints and the invariant of the tables hold, and every list of
  posts can be read.
\<close>

theorem whole_server_stays_consistent:
  assumes "full_reaches e w"
  shows "reachable (fst w) \<and> db_inv (fst w) \<and> readable (fst w)"
proof -
  from assms have "reachable (fst w)"
    by (induction rule: full_reaches.induct) (simp_all add: reachable.start full_step_reachable)
  then show ?thesis using reachable_serves by (simp add: serves_def readable_reads)
qed

lemma whole_server_stays_consistent_witness:
  "let w = snd (run_command sample_env (Create_user ''user_1'' ''secret'' ''admin'') (empty_database, 0)) in
   reachable (fst w) \<and> db_inv (fst w) \<and> length (t_user_account (fst w)) = 1"
proof -
  have "length (t_user_account (fst (snd (run_command sample_env (Create_user ''user_1'' ''secret'' ''admin'')
      (empty_database, 0))))) = 1"
    by code_simp
  with whole_server_stays_consistent [OF full_reaches.step [OF full_reaches.start full_step.commanded]]
  show ?thesis unfolding Let_def by blast
qed

end
