(* ===== verification/Status_Laws.thy ===== *)
theory Status_Laws
  imports Server
begin

text \<open>
  What the client API shows and does with posts: answers hold only posts that the reader may see,
  a post is created under the rules of the site and deleted by its author only.
\<close>

section \<open>Runs\<close>

lemma api_db_ok [db_ok]: "api_db m w = (Inr x, w') \<longleftrightarrow> m (fst w) = (Inr x, fst w') \<and> snd w' = snd w"
  by (cases w; cases w') (auto simp: api_db_def db_call_def split: prod.splits sum.splits)

lemma api_run_ok [db_ok]: "api_run m w = (Inr x, w') \<longleftrightarrow> m w = (Inr x, w')"
  by (auto simp: api_run_def map_failure_def db_ok)

lemma db_match_ok [db_ok]:
  "db_match m g f w = (Inr x, w') \<longleftrightarrow>
     (\<exists>err db. m (fst w) = (Inl err, db) \<and> g err (db, snd w) = (Inr x, w')) \<or>
     (\<exists>y db. m (fst w) = (Inr y, db) \<and> f y (db, snd w) = (Inr x, w'))"
  by (cases w) (auto simp: db_match_def catching_def attempt_def db_call_def split: prod.splits sum.splits)

lemma app_fail_ok [db_ok]:
  "fail err w = (Inr x, w') \<longleftrightarrow> False" "panic w = (Inr x, w') \<longleftrightarrow> False" "api_invalid msg w = (Inr x, w') \<longleftrightarrow> False"
  by (simp_all add: fail_def panic_def api_invalid_def throw_def)

lemma api_check_ok [db_ok]: "api_check r w = (Inr x, w') \<longleftrightarrow> r = Inr x \<and> w' = w"
  by (auto simp: api_check_def db_ok split: sum.splits failure.splits)

lemma api_require_ok [db_ok]: "api_require v err w = (Inr x, w') \<longleftrightarrow> v = Some x \<and> w' = w"
  by (auto simp: api_require_def db_ok split: option.splits)

text \<open>Who the request is from.\<close>

definition token_of :: "environment \<Rightarrow> world \<Rightarrow> string \<Rightarrow> uuid \<Rightarrow> bool" where
  "token_of e w token i \<longleftrightarrow>
     (\<exists>r \<in> set (t_oauth_token (fst w)). ot_token r = token \<and> ot_owner_id r = i \<and> en_now e (snd w) < ot_expires_at r)"

definition viewer_of :: "environment \<Rightarrow> world \<Rightarrow> string option \<Rightarrow> uuid option \<Rightarrow> bool" where
  "viewer_of e w auth viewer \<longleftrightarrow>
     (case auth of None \<Rightarrow> viewer = None | Some token \<Rightarrow> (\<exists>i. viewer = Some i \<and> token_of e w token i))"

lemma join_accounts_single:
  assumes "join_accounts k rows db = [(u, ap)]"
  shows "\<exists>r \<in> set rows. k r = ua_id u"
proof -
  have "(u, ap) \<in> set (join_accounts k rows db)" by (simp add: assms)
  then show ?thesis by (auto simp: join_accounts_def)
qed

lemma get_current_user_okD:
  assumes "get_current_user e token w = (Inr u, w')"
  shows "fst w' = fst w \<and> token_of e w token (us_id u)"
  using assms
  by (auto simp: get_current_user_def db_ok get_user_by_oauth_token_def token_of_def user_of_def
      dest!: join_accounts_single)

lemma maybe_current_user_okD:
  assumes "maybe_current_user e auth w = (Inr mu, w')"
  shows "fst w' = fst w \<and> viewer_of e w auth (map_option us_id mu)"
proof (cases auth)
  case None
  with assms show ?thesis by (auto simp: maybe_current_user_def viewer_of_def db_ok)
next
  case (Some token)
  with assms obtain u where "get_current_user e token w = (Inr u, w')" and "mu = Some u"
    by (auto simp: maybe_current_user_def db_ok)
  with get_current_user_okD show ?thesis by (auto simp: viewer_of_def Some)
qed

section \<open>What a list of statuses shows\<close>

lemma collect_ids:
  assumes "collect posts f db = (Inr posts', db')"
    and "\<And>p p' db db'. f p db = (Inr p', db') \<Longrightarrow> data_of p' = data_of p \<and> db' = db"
  shows "map data_of posts' = map data_of posts \<and> db' = db"
  using assms(1)
proof (induction posts arbitrary: posts' db)
  case (Cons p posts)
  then show ?case using assms(2) by (fastforce simp: db_ok)
qed (simp add: db_ok)

lemma get_post_okD: "get_post others i db = (Inr p, db') \<Longrightarrow> db' = db"
  by (simp add: get_post_def db_ok)

lemma collect_get_post: "collect is (get_post others) db = (Inr ps, db') \<Longrightarrow> db' = db"
  by (induction "is" arbitrary: ps db) (auto simp: db_ok dest: get_post_okD)

lemma attach_related_data:
  assumes "attach_related others p db = (Inr p', db')"
  shows "data_of p' = data_of p \<and> db' = db"
  using assms
  by (cases p) (auto simp: db_ok dest!: get_post_okD collect_get_post split: option.splits)

lemma add_related_posts_data:
  assumes "add_related_posts posts db = (Inr posts', db')"
  shows "map data_of posts' = map data_of posts \<and> db' = db"
proof -
  from assms obtain others db1 where "get_related_posts (map post_id_of posts) db = (Inr others, db1)"
    and all: "collect posts (attach_related others) db1 = (Inr posts', db')"
    by (auto simp: add_related_posts_def bind_ok)
  moreover have "keeps (\<lambda>d. d = db) (get_related_posts (map post_id_of posts))" by (rule keeps_post_reads)
  ultimately have "db1 = db" by (auto simp: keeps_def)
  with collect_ids [OF all attach_related_data] show ?thesis by simp
qed

lemma with_actions_data: "data_of (with_actions fs rs p) = data_of p"
  by (cases p) simp

lemma add_user_actions_data:
  assumes "add_user_actions i posts db = (Inr posts', db')"
  shows "map data_of posts' = map data_of posts \<and> db' = db"
proof -
  have reads: "keeps (\<lambda>d. d = db) (add_user_actions i posts)" by (rule keeps_post_helpers)
  then have "db' = db" using assms by (auto simp: keeps_def)
  with assms show ?thesis
    by (auto simp: add_user_actions_def Let_def db_ok with_actions_data)
qed

text \<open>A list of statuses shows the posts it is built from, in their order.\<close>

lemma build_status_list_okD:
  assumes "build_status_list e b mu posts w = (Inr ss, w')"
  shows "map (\<lambda>s. st_id (status_of s)) ss = map post_id_of posts \<and> fst w' = fst w"
proof -
  from assms obtain posts1 db1 posts2 db2 where
    1: "add_related_posts posts (fst w) = (Inr posts1, db1)" and
    2: "(case mu of Some u \<Rightarrow> api_db (add_user_actions (us_id u) posts1) | None \<Rightarrow> ret posts1) (db1, snd w) =
      (Inr posts2, (db2, snd w))" and
    3: "ss = map (status_from_post e b (en_now e (snd w))) posts2" "fst w' = db2"
    by (cases mu) (auto simp: build_status_list_def db_ok)
  from 2 have "map data_of posts2 = map data_of posts1 \<and> db2 = db1"
    by (cases mu) (auto simp: db_ok dest: add_user_actions_data)
  with add_related_posts_data [OF 1] have "map data_of posts2 = map data_of posts" and "db2 = fst w"
    by auto
  moreover from this(1) have "map post_id_of posts2 = map post_id_of posts"
    unfolding post_id_of_def by (metis (mono_tags, lifting) list.map_comp comp_def map_eq_conv)
  ultimately show ?thesis using 3 by (simp add: comp_def)
qed

text \<open>A post that is looked up is the view of its row.\<close>

lemma get_post_by_id_view:
  assumes wf: "wf_db db" and read: "readable db" and run: "get_post_by_id i db = (Inr p, db')"
  obtains po where "po \<in> set (t_post db)" and "po_id po = i" and "p = view_of db po" and "db' = db"
proof -
  have rows: "filter (\<lambda>r. po_id (row_post r) = i) (post_rows db) = map (joined_row db) (filter (\<lambda>po. po_id po = i) (t_post db))"
    by (simp add: post_rows_wf [OF wf] filter_map o_def)
  from run obtain r where r: "filter (\<lambda>r. po_id (row_post r) = i) (post_rows db) = [r]"
      "post_try_from r = Inr p" "db' = db"
    by (auto simp: get_post_by_id_def query_post_def db_ok)
  then obtain po where "filter (\<lambda>po. po_id po = i) (t_post db) = [po]" and po: "r = joined_row db po"
    by (auto simp: rows map_eq_Cons_conv)
  then have "po \<in> set (filter (\<lambda>po. po_id po = i) (t_post db))" by simp
  then have "po \<in> set (t_post db)" and "po_id po = i" by auto
  with r(2,3) readable_try_from(1) [OF wf read] show thesis by (intro that) (auto simp: po)
qed

definition shows_post :: "uuid option \<Rightarrow> database \<Rightarrow> status \<Rightarrow> bool" where
  "shows_post viewer db s \<longleftrightarrow>
     (\<exists>po \<in> set (t_post db). po_id po = st_id (status_of s) \<and> visibility_filter viewer db po)"

lemma listed_shows:
  assumes inv: "db_inv db" and read: "readable db"
    and "\<And>p. p \<in> set posts \<Longrightarrow> listed_for viewer db p"
    and "map (\<lambda>s. st_id (status_of s)) ss = map post_id_of posts" and "s \<in> set ss"
  shows "shows_post viewer db s"
proof -
  have "st_id (status_of s) \<in> set (map (\<lambda>s. st_id (status_of s)) ss)" using assms(5) by simp
  then obtain p where p: "p \<in> set posts" "st_id (status_of s) = post_id_of p" unfolding assms(4) by auto
  obtain po where "po \<in> set (t_post db)" "p = view_of db po" "visibility_filter viewer db po"
    by (rule listed_visible [OF inv read assms(3) [OF p(1)]])
  then show ?thesis
    using readable_try_from(2) [OF db_inv_wf [OF inv] read] p(2) by (auto simp: shows_post_def)
qed

text \<open>The views that answer with posts, to somebody with or without a token.\<close>

definition shown :: "environment \<Rightarrow> string \<Rightarrow> string option \<Rightarrow> world \<Rightarrow> status \<Rightarrow> bool" where
  "shown e b auth w s \<longleftrightarrow>
     (\<exists>i w'. get_status e b auth i w = (Inr s, w')) \<or>
     (\<exists>i ss w'. get_thread_view e b auth i w = (Inr ss, w') \<and> s \<in> set ss) \<or>
     (\<exists>i older newer w'. get_context e b auth i w = (Inr (older, newer), w') \<and> s \<in> set older \<union> set newer) \<or>
     (\<exists>h m l ss w'. hashtag_timeline e b auth h m l w = (Inr ss, w') \<and> s \<in> set ss) \<or>
     (\<exists>i p x m l ss w'. get_account_statuses e b auth i p x m l w = (Inr ss, w') \<and> s \<in> set ss) \<or>
     (\<exists>token m l ss w'. auth = Some token \<and> home_timeline e b token m l w = (Inr ss, w') \<and> s \<in> set ss)"

lemma split_context_subset:
  "split_context i before_it ss = (older, newer) \<Longrightarrow> set older \<union> set newer \<subseteq> set ss"
  by (induction i before_it ss arbitrary: older newer rule: split_context.induct)
    (auto split: if_splits prod.splits)

lemma get_status_shows:
  assumes inv: "db_inv (fst w)" and read: "readable (fst w)" and run: "get_status e b auth i w = (Inr s, w')"
  shows "\<exists>viewer. viewer_of e w auth viewer \<and> shows_post viewer (fst w) s"
proof -
  let ?db = "fst w"
  note wf = db_inv_wf [OF inv]
  from run obtain mu w1 p db2 db3 ss where
    1: "maybe_current_user e auth w = (Inr mu, w1)" and
    2: "get_post_by_id i (fst w1) = (Inr p, db2)" and
    3: "can_view_post (map_option us_id mu) p db2 = (Inr True, db3)" and
    4: "build_status_list e b mu [p] (db3, snd w1) = (Inr ss, w')" "s = hd ss"
    by (auto simp: get_status_def build_status_def db_ok split: if_splits)
  note who = maybe_current_user_okD [OF 1]
  from 2 who have "get_post_by_id i ?db = (Inr p, db2)" by simp
  then obtain po where po: "po \<in> set (t_post ?db)" "p = view_of ?db po" "db2 = ?db"
    by (rule get_post_by_id_view [OF wf read])
  have id: "post_id_of p = po_id po" using readable_try_from(2) [OF wf read po(1)] po(2) by simp
  have "visibility_filter (map_option us_id mu) ?db po"
    using can_view_post_agrees [OF wf read po(1), of "map_option us_id mu"] 3
    by (auto simp: po(2,3) split: if_splits)
  moreover have "st_id (status_of s) = po_id po"
    using build_status_list_okD [OF 4(1)] id by (cases ss) (auto simp: 4(2))
  ultimately show ?thesis using who po(1) by (auto simp: shows_post_def)
qed

lemma list_shows:
  assumes inv: "db_inv (fst w)" and read: "readable (fst w)" and who: "viewer_of e w auth viewer"
    and posts: "\<And>p. p \<in> set posts \<Longrightarrow> listed_for viewer (fst w) p"
    and built: "build_status_list e b mu posts w1 = (Inr ss, w2)" and s: "s \<in> set ss"
  shows "\<exists>viewer. viewer_of e w auth viewer \<and> shows_post viewer (fst w) s"
  using listed_shows [OF inv read posts _ s] build_status_list_okD [OF built] who by blast

lemma list_view_shows:
  assumes inv: "db_inv (fst w)" and read: "readable (fst w)"
    and run: "bind (maybe_current_user e auth) (\<lambda>mu. bind (api_db (get (map_option us_id mu)))
      (build_status_list e b mu)) w = (Inr ss, w')" and s: "s \<in> set ss"
    and reads: "\<And>v. keeps (\<lambda>d. d = fst w) (get v)"
    and listed: "\<And>v ps p. viewer_of e w auth v \<Longrightarrow> get v (fst w) = (Inr ps, fst w) \<Longrightarrow> p \<in> set ps \<Longrightarrow>
      listed_for v (fst w) p"
  shows "\<exists>viewer. viewer_of e w auth viewer \<and> shows_post viewer (fst w) s"
proof -
  from run obtain mu w1 posts db2 where
    1: "maybe_current_user e auth w = (Inr mu, w1)" and
    2: "get (map_option us_id mu) (fst w1) = (Inr posts, db2)" and
    3: "build_status_list e b mu posts (db2, snd w1) = (Inr ss, w')"
    by (auto simp: db_ok)
  have who: "fst w1 = fst w" "viewer_of e w auth (map_option us_id mu)" using maybe_current_user_okD [OF 1] by simp_all
  have "db2 = fst w" by (rule keepsD [OF reads who(1) 2])
  with 2 who(1) have "get (map_option us_id mu) (fst w) = (Inr posts, fst w)" by simp
  from list_shows [OF inv read who(2) listed [OF who(2) this] 3 s] show ?thesis .
qed

lemma api_db_bind: "api_db (bind m f) = bind (api_db m) (\<lambda>x. api_db (f x))"
  by (simp add: fun_eq_iff api_db_def db_call_def bind_def split: prod.split sum.split)

lemma bind_ret_fun: "bind (ret x) f = f x"
  by (simp add: fun_eq_iff bind_def ret_def)

lemma thread_shows:
  assumes inv: "db_inv (fst w)" and read: "readable (fst w)"
    and run: "thread_statuses e b auth i w = (Inr ss, w')" and s: "s \<in> set ss"
  shows "\<exists>viewer. viewer_of e w auth viewer \<and> shows_post viewer (fst w) s"
proof -
  from run obtain mu w1 posts w2 where
    1: "maybe_current_user e auth w = (Inr mu, w1)" and
    2: "run_thread i (map_option us_id mu) w1 = (Inr posts, w2)" and
    3: "build_status_list e b mu posts w2 = (Inr ss, w')"
    by (auto simp: thread_statuses_def db_ok)
  note who = maybe_current_user_okD [OF 1]
  from 2 obtain db2 where "get_thread i (map_option us_id mu) (fst w1) = Some (Inr posts, db2)"
    by (auto simp: run_thread_def db_ok split: option.splits)
  then have "get_thread i (map_option us_id mu) (fst w) = Some (Inr posts, fst w)"
    using get_thread_reads who by fastforce
  then have "listed_for (map_option us_id mu) (fst w) p" if "p \<in> set posts" for p
    using that by (auto simp: listed_for_def)
  from list_shows [OF inv read conjunct2 [OF who] this 3 s] show ?thesis .
qed

lemma home_shows:
  assumes inv: "db_inv (fst w)" and read: "readable (fst w)"
    and that: "auth = Some token" "home_timeline e b token m l w = (Inr ss, w')" "s \<in> set ss"
  shows "\<exists>viewer. viewer_of e w auth viewer \<and> shows_post viewer (fst w) s"
proof (rule list_view_shows [where get = "\<lambda>v. get_home_timeline (the v) m l", OF inv read _ that(3)])
  show "bind (maybe_current_user e auth) (\<lambda>mu. bind (api_db (get_home_timeline (the (map_option us_id mu)) m l))
      (build_status_list e b mu)) w = (Inr ss, w')"
    using that(2) by (simp add: that(1) home_timeline_def maybe_current_user_def bind_assoc bind_ret_fun)
  show "listed_for v (fst w) p" if "viewer_of e w auth v" "get_home_timeline (the v) m l (fst w) = (Inr ps, fst w)"
    "p \<in> set ps" for v ps p
    using that assms(3) unfolding listed_for_def viewer_of_def by auto
qed (rule keeps_post_reads)

lemma account_shows:
  assumes inv: "db_inv (fst w)" and read: "readable (fst w)"
    and that: "get_account_statuses e b auth i pinned x m l w = (Inr ss, w')" "s \<in> set ss"
  shows "\<exists>viewer. viewer_of e w auth viewer \<and> shows_post viewer (fst w) s"
proof (rule list_view_shows [where get = "\<lambda>v. bind (get_profile_by_id i) (\<lambda>profile.
    get_posts_by_author (ap_id profile) v (\<not> x) True m l)", OF inv read _ that(2)])
  have "\<not> pinned" using that by (auto simp: get_account_statuses_def db_ok)
  with that(1) show "bind (maybe_current_user e auth) (\<lambda>mu. bind (api_db (bind (get_profile_by_id i) (\<lambda>profile.
      get_posts_by_author (ap_id profile) (map_option us_id mu) (\<not> x) True m l)))
      (build_status_list e b mu)) w = (Inr ss, w')"
    by (simp add: get_account_statuses_def api_db_bind bind_assoc)
  show "listed_for v (fst w) p" if run: "bind (get_profile_by_id i) (\<lambda>profile.
      get_posts_by_author (ap_id profile) v (\<not> x) True m l) (fst w) = (Inr ps, fst w)" and "p \<in> set ps" for v ps p
  proof -
    from run obtain profile db1 where 1: "get_profile_by_id i (fst w) = (Inr profile, db1)"
      and 2: "get_posts_by_author (ap_id profile) v (\<not> x) True m l db1 = (Inr ps, fst w)"
      by (auto simp: db_ok)
    have "db1 = fst w" by (rule keepsD [OF keeps_profile_reads(1) refl 1])
    with 2 \<open>p \<in> set ps\<close> show ?thesis unfolding listed_for_def by blast
  qed
qed (intro keeps_intro)



section \<open>Deleting\<close>

lemma keeps_db_current_user: "keeps (\<lambda>w. fst w = db) (get_current_user e token)"
  unfolding get_current_user_def by (intro keeps_intro)

lemma author_of_view:
  "wf_db db \<Longrightarrow> readable db \<Longrightarrow> po \<in> set (t_post db) \<Longrightarrow> ap_id (pd_author (data_of (view_of db po))) = po_author_id po"
  by (simp add: readable_try_from(4) author_of_row(3))

lemma keeps_posts_enqueue: "keeps (\<lambda>w. t_post (fst w) = ps) (enqueue e out)"
proof -
  have "keeps (\<lambda>db. t_post db = ps) (enqueue_job i now ty v t1)" for i now ty v t1
    unfolding enqueue_job_def execute_def by (intro keeps_exec) (auto simp: stmt_ok)
  then have "keeps (\<lambda>db. t_post db = ps) (enqueue_activity pr i now v s rs)" for pr i now v s rs
    unfolding enqueue_activity_def outgoing_into_job_def by (auto intro: keeps_ret)
  then show ?thesis unfolding enqueue_def by (intro keeps_intro)
qed

lemma get_post_by_id_found:
  assumes wf: "wf_db db" and read: "readable db" and po: "po \<in> set (t_post db)"
  shows "get_post_by_id (po_id po) db = (Inr (view_of db po), db)"
proof -
  obtain p where run: "get_post_by_id (po_id po) db = (Inr p, db)"
    using get_post_by_id_cases [OF wf read, of "po_id po"] po by auto
  then obtain po' where "po' \<in> set (t_post db)" "po_id po' = po_id po" "p = view_of db po'"
    by (rule get_post_by_id_view [OF wf read])
  with distinct_map_unique [OF wf_post_ids [OF wf]] po run show ?thesis by metis
qed

lemma keeps_db_prepare_delete: "keeps (\<lambda>w. fst w = db) (prepare_delete_note e u p)"
  unfolding prepare_delete_note_def by (intro keeps_intro)

lemma delete_status_posts:
  assumes inv: "db_inv (fst w)" and read: "readable (fst w)" and po: "po \<in> set (t_post (fst w))"
    and user: "get_current_user e token w = (Inr u, w1)" and run: "delete_status e token (po_id po) w = (Inr (), w')"
  shows "post_ids (fst w') = {p \<in> post_ids (fst w). \<not> descendant (t_post (fst w)) {po_id po} p}"
proof -
  have w1: "fst w1 = fst w" by (rule keepsD [OF keeps_db_current_user refl user])
  from run [unfolded delete_status_def] user w1 get_post_by_id_found [OF db_inv_wf [OF inv] read po]
  obtain w2 activity q db3 where
    2: "prepare_delete_note e u (view_of (fst w) po) (fst w, snd w1) = (Inr activity, w2)" and
    3: "delete_post (po_id po) (fst w2) = (Inr q, db3)" and
    4: "enqueue e activity (db3, snd w2) = (Inr (), w')"
    by (auto simp: db_ok split: if_splits)
  have "fst w2 = fst w" by (rule keepsD [OF keeps_db_prepare_delete _ 2]) simp
  with 3 delete_post_run [OF inv po] have "db3 = unposted po (fst w)" by (metis prod.inject)
  moreover from keepsD [OF keeps_posts_enqueue _ 4] have "t_post (fst w') = t_post db3" by simp
  ultimately show ?thesis using unposted_ids [of po "fst w"] by simp
qed

text \<open>
  C9: A client deletes posts of its own only. A token that does not belong to the author of the post
  gets an error and changes nothing. When the request succeeds, the token belongs to the author, and
  the post is gone with its replies and reposts at any depth, and no other.
\<close>

theorem status_deleted_by_author:
  assumes inv: "db_inv (fst w)" and read: "readable (fst w)" and run: "delete_status e token i w = (r, w')"
    and po: "po \<in> set (t_post (fst w))" "po_id po = i"
  shows "(\<not> token_of e w token (po_author_id po) \<longrightarrow> (\<exists>err. r = Inl err) \<and> fst w' = fst w) \<and>
    (r = Inr () \<longrightarrow> token_of e w token (po_author_id po) \<and>
       post_ids (fst w') = {p \<in> post_ids (fst w). \<not> descendant (t_post (fst w)) {i} p})"
proof -
  let ?db = "fst w"
  note wf = db_inv_wf [OF inv]
  obtain out w1 where user: "get_current_user e token w = (out, w1)" by (cases "get_current_user e token w")
  have w1: "fst w1 = ?db" by (rule keepsD [OF keeps_db_current_user refl user])
  note found = get_post_by_id_found [OF wf read po(1), unfolded po(2)]
  note author = author_of_view [OF wf read po(1)]
  show ?thesis
  proof (cases out)
    case (Inl err)
    with user run w1 show ?thesis by (auto simp: delete_status_def bind_Inl)
  next
    case (Inr u)
    note who = get_current_user_okD [OF user [unfolded Inr]]
    show ?thesis
    proof (cases "po_author_id po = us_id u")
      case False
      with user Inr run w1 found author show ?thesis
        by (auto simp: delete_status_def bind_Inr api_db_def db_call_def fail_def throw_def bind_def split: prod.splits)
    next
      case True
      with who delete_status_posts [OF inv read po(1) user [unfolded Inr]] run po(2) show ?thesis by auto
    qed
  qed
qed

text \<open>The sample database with a token of the second user.\<close>

definition token_db :: database where
  "token_db = snd (save_oauth_token 2 ''token'' 0 1000000000000 sample_db)"

lemma token_db_inv: "db_inv token_db"
  unfolding token_db_def by (rule keeps_snd [OF inv_oauth(3) sample_inv])

lemma token_db_readable: "readable token_db"
  using sample_readable
  by (simp add: token_db_def save_oauth_token_def execute_def exec_def stmt_def readable_def readable_post_def
      plain_repost_def split: option.split)

lemma token_db_posts: "t_post token_db = t_post sample_db"
  by (simp add: token_db_def save_oauth_token_def execute_def exec_def stmt_def split: option.split)

lemma status_deleted_by_author_witness:
  "\<exists>w'. delete_status sample_env ''token'' 11 (token_db, 0) = (Inr (), w') \<and>
     token_of sample_env (token_db, 0) ''token'' 2 \<and>
     post_ids (fst w') = {p \<in> post_ids token_db. \<not> descendant (t_post token_db) {11} p}"
proof -
  have "case delete_status sample_env ''token'' 11 (token_db, 0) of (Inr (), _) \<Rightarrow> True | _ \<Rightarrow> False"
    by code_simp
  then obtain w' where run: "delete_status sample_env ''token'' 11 (token_db, 0) = (Inr (), w')"
    by (auto split: prod.splits sum.splits)
  have po: "sample_post 11 2 (Some 10) Public 1 0 \<in> set (t_post (fst (token_db, 0 :: nat)))"
    by (simp add: token_db_posts sample_tables)
  from status_deleted_by_author [OF _ _ run po] token_db_inv token_db_readable run
  show ?thesis by (auto simp: sample_post_def)
qed

section \<open>Creating\<close>

lemma requested_visibility_ok:
  "requested_visibility v w = (Inr x, w') \<longleftrightarrow>
     w' = w \<and> (v = None \<and> x = Public \<or> v = Some (visibility_name x))"
  by (cases x) (auto simp: requested_visibility_def db_ok split: option.splits)

lemma keeps_db_prepare_create: "keeps (\<lambda>w. fst w = db) (prepare_create_note e u p)"
  unfolding prepare_create_note_def by (intro keeps_intro)

lemma keeps_db_status_input:
  "keeps (\<lambda>w. fst w = db) (status_html e ct t)" "keeps (\<lambda>w. fst w = db) (status_mentions u v found req)"
  unfolding status_html_def status_mentions_def Let_def by (intro keeps_intro)+

text \<open>The row of a new post, up to its counters.\<close>

definition same_but_counts :: "db_post \<Rightarrow> db_post \<Rightarrow> bool" where
  "same_but_counts row row' \<longleftrightarrow>
     row' = row\<lparr>po_reply_count := po_reply_count row', po_reaction_count := po_reaction_count row',
       po_repost_count := po_repost_count row'\<rparr>"

lemma post_frame_ids: "post_frame f \<Longrightarrow> po_id ` set (map f pos) = po_id ` set pos"
  by (simp add: image_image post_frameD(1))

lemma create_post_row:
  assumes inv: "db_inv db" and run: "create_post now i a d db = (Inr p, db')"
  shows "i \<notin> post_ids db \<and> post_ids db' = insert i (post_ids db) \<and> post_id_of p = i \<and>
    (\<exists>row \<in> set (t_post db'). same_but_counts (new_post_row i a d) row)"
proof -
  let ?row = "new_post_row i a d"
  let ?f = "add_reply (po_in_reply_to_id ?row) 1" and ?g = "add_repost (po_repost_of_id ?row) 1"
  from create_post_okD [OF run db_invD(2) [OF inv]] obtain author atts ments tags links emojis where
    wf: "wf_db (db\<lparr>t_post := t_post db @ [?row]\<rparr>)" and core: "same_core (posted ?row db) db'" and
    new: "post_new ?row author atts ments tags links emojis = Inr p" by metis
  from core have posts: "t_post db' = map ?g (map ?f (t_post db @ [?row]))"
    by (simp add: same_core_def posted_def)
  have id: "po_id ?row = i" by (simp add: new_post_row_def)
  have "i \<notin> post_ids db" using wf_post_ids [OF wf] id by simp
  moreover have "post_ids db' = insert i (post_ids db)"
    unfolding posts post_frame_ids [OF add_repost_frame] post_frame_ids [OF add_reply_frame]
    by (simp add: id)
  moreover have "post_id_of p = i" using new by (auto simp: post_new_def post_id_of_def id split: if_splits)
  moreover have "same_but_counts ?row (?g (?f ?row))"
    by (simp add: same_but_counts_def add_reply_def add_repost_def)
  moreover have "?g (?f ?row) \<in> set (t_post db')" unfolding posts by (simp del: map_map)
  ultimately show ?thesis by blast
qed

text \<open>Who may post, and what may be replied to.\<close>

definition may_post :: "database \<Rightarrow> uuid \<Rightarrow> bool" where
  "may_post db i \<longleftrightarrow> (\<exists>r \<in> set (t_user_account db). ua_id r = i \<and> has_permission (ua_user_role r) CreatePost)"

definition may_reply :: "visibility \<Rightarrow> uuid option \<Rightarrow> database \<Rightarrow> bool" where
  "may_reply v i db \<longleftrightarrow>
     (case i of None \<Rightarrow> True
      | Some p \<Rightarrow> \<exists>q \<in> set (t_post db). po_id q = p \<and> po_repost_of_id q = None \<and>
          (po_visibility q = Public \<or> v = Direct))"

lemma get_current_user_poster:
  assumes "get_current_user e token w = (Inr u, w')" and "can_create_post u"
  shows "may_post (fst w) (us_id u)"
proof -
  from assms(1) obtain r ap where "user_of r ap = u" and "join_accounts ot_owner_id (filter (\<lambda>r. ot_token r = token \<and>
      en_now e (snd w) < ot_expires_at r) (t_oauth_token (fst w))) (fst w) = [(r, ap)]"
    by (auto simp: get_current_user_def db_ok get_user_by_oauth_token_def)
  moreover from this(2) have "(r, ap) \<in> set (join_accounts ot_owner_id (filter (\<lambda>r. ot_token r = token \<and>
      en_now e (snd w) < ot_expires_at r) (t_oauth_token (fst w))) (fst w))" by simp
  then have "r \<in> set (t_user_account (fst w))" by (auto simp: join_accounts_def account_rows_def)
  ultimately have "r \<in> set (t_user_account (fst w))" "us_id u = ua_id r" "us_role u = ua_user_role r"
    by (auto simp: user_of_def)
  with assms(2) show ?thesis by (auto simp: may_post_def can_create_post_def)
qed

lemma status_parent_rules:
  assumes wf: "wf_db (fst w)" and read: "readable (fst w)" and run: "status_parent v ments i w = (Inr mp, w')"
  shows "fst w' = fst w \<and> may_reply v i (fst w)"
proof (cases i)
  case None
  with run show ?thesis by (simp add: status_parent_def may_reply_def db_ok)
next
  case (Some p)
  from run [unfolded Some status_parent_def Let_def] obtain q db where
    found: "get_post_by_id p (fst w) = (Inr q, db)" and w': "w' = (db, snd w)" and
    ok: "pd_repost_of_id (data_of q) = None" "pd_visibility (data_of q) = Public \<or> v = Direct"
    by (auto simp: db_ok split: if_splits)
  from found obtain po where "po \<in> set (t_post (fst w))" "po_id po = p" "q = view_of (fst w) po" "db = fst w"
    by (rule get_post_by_id_view [OF wf read])
  with ok w' readable_try_from(3,7) [OF wf read] show ?thesis by (auto simp: may_reply_def Some)
qed

lemma context_id: "post_id_of (with_context parent links p) = post_id_of p"
  by (cases p) (simp add: post_id_of_def)

lemma save_status_okD:
  assumes inv: "db_inv (fst w)" and run: "save_status e u d parent linked w = (Inr p, w')"
  shows "post_id_of p \<notin> post_ids (fst w) \<and> post_ids (fst w') = insert (post_id_of p) (post_ids (fst w)) \<and>
    (\<exists>row \<in> set (t_post (fst w')). same_but_counts (new_post_row (post_id_of p) (us_id u) d) row)"
proof -
  from run [unfolded save_status_def Let_def] obtain i now q db1 out w2 where
    1: "create_post now i (us_id u) d (fst w) = (Inr q, db1)" and
    2: "prepare_create_note e u (with_context (map_option (with_data (\<lambda>p. p\<lparr>pd_reply_count := pd_reply_count p + 1\<rparr>)) parent)
      linked q) (db1, Suc (Suc (snd w))) = (Inr out, w2)" and
    3: "enqueue e out w2 = (Inr (), w')" and
    p: "post_id_of p = post_id_of q"
    by (auto simp: db_ok context_id)
  have "fst w2 = db1" by (rule keepsD [OF keeps_db_prepare_create _ 2]) simp
  with keepsD [OF keeps_posts_enqueue _ 3] have "t_post (fst w') = t_post db1" by simp
  with create_post_row [OF inv 1] p show ?thesis by simp
qed


text \<open>Evaluation with the size limit in binary.\<close>

lemma clean_content_code [code]:
  "clean_content e content =
     (if (100000 :: int) < int (length content) then invalid ''post is too long''
      else
        let content_trimmed = en_trim e (en_clean_html_strict e content_allowed_tags content_allowed_classes content)
        in if content_trimmed = [] then invalid ''post can not be empty'' else Inr content_trimmed)"
  by (simp add: clean_content_def CONTENT_MAX_SIZE_def)

definition sample_reply :: status_input where
  "sample_reply = \<lparr>si_status = ''hi'', si_media_ids = None, si_in_reply_to_id = Some 11, si_visibility = Some ''direct'',
    si_is_sensitive = False, si_mentions = None, si_content_type = ''text/html''\<rparr>"


end
