(* ===== verification/Scheduler_Laws.thy ===== *)
theory Scheduler_Laws
  imports Status_Laws
begin

text \<open>
  Why the scheduler goes on: its tasks do not panic, so each pass over them returns and leaves none
  of them overdue, even when tasks fail.
\<close>

section \<open>Computations that do not panic\<close>

text \<open>Neither a panic nor a step back on the tape of the outside world.\<close>

definition steady :: "('e, 'a) app_m \<Rightarrow> bool" where
  "steady m \<longleftrightarrow> (\<forall>w. fst (m w) \<noteq> Inl Panic \<and> snd w \<le> snd (snd (m w)))"

named_theorems steady_intro

lemma steadyI: "(\<And>w r w'. m w = (r, w') \<Longrightarrow> r \<noteq> Inl Panic \<and> snd w \<le> snd w') \<Longrightarrow> steady m"
  unfolding steady_def by (metis prod.collapse)

lemma steadyD: "steady m \<Longrightarrow> m w = (r, w') \<Longrightarrow> r \<noteq> Inl Panic \<and> snd w \<le> snd w'"
  unfolding steady_def by (metis fst_conv snd_conv)

lemma steady_ret [steady_intro]: "steady (ret x)"
  and steady_fail [steady_intro]: "steady (fail err)"
  and steady_draw [steady_intro]: "steady (draw tape)"
  and steady_db_call [steady_intro]: "steady (db_call f m)"
  by (simp_all add: steady_def ret_def fail_def throw_def draw_def db_call_def split: prod.split sum.split)

lemma steady_attempt:
  assumes m: "steady m" and g: "\<And>err. steady (g err)" and f: "\<And>x w w'. m w = (Inr x, w') \<Longrightarrow> steady (f x)"
  shows "steady (catching m g f)"
proof (rule steadyI)
  fix w r2 w2
  assume all: "catching m g f w = (r2, w2)"
  obtain r w' where run: "m w = (r, w')" by (cases "m w")
  note w' = steadyD [OF m run]
  show "r2 \<noteq> Inl Panic \<and> snd w \<le> snd w2"
  proof (cases r)
    case (Inl x)
    with w' obtain err where "x = Error err" by (cases x) auto
    with Inl run all have "g err w' = (r2, w2)" by (simp add: catching_def attempt_def)
    with steadyD [OF g] w' show ?thesis by fastforce
  next
    case (Inr x)
    with run all have "f x w' = (r2, w2)" by (simp add: catching_def attempt_def)
    with steadyD [OF f [OF run [unfolded Inr]]] w' show ?thesis by fastforce
  qed
qed

lemma bind_catching: "bind m f = catching m fail f"
  by (auto simp: fun_eq_iff bind_def catching_def attempt_def fail_def throw_def
      split: prod.split sum.split failure.split)

lemma steady_bind_run: "steady m \<Longrightarrow> (\<And>x w w'. m w = (Inr x, w') \<Longrightarrow> steady (f x)) \<Longrightarrow> steady (bind m f)"
  unfolding bind_catching by (intro steady_attempt steady_fail)

lemma steady_bind [steady_intro]: "steady m \<Longrightarrow> (\<And>x. steady (f x)) \<Longrightarrow> steady (bind m f)"
  by (intro steady_bind_run)

lemma steady_db_match_run:
  "(\<And>err. steady (g err)) \<Longrightarrow> (\<And>x db db'. m db = (Inr x, db') \<Longrightarrow> steady (f x)) \<Longrightarrow> steady (db_match m g f)"
  unfolding db_match_def
  by (intro steady_attempt steady_db_call) (auto simp: db_call_def split: prod.splits sum.splits)

lemma steady_map_failure [steady_intro]: "steady m \<Longrightarrow> steady (map_failure g m)"
  by (rule steadyI) (auto simp: map_failure_def map_err_def dest!: steadyD split: prod.splits sum.splits failure.splits)

lemma steady_for_each [steady_intro]: "(\<And>x. steady (f x)) \<Longrightarrow> steady (for_each xs f)"
  by (induction xs) (auto intro: steady_intro)

lemma steady_in_transaction [steady_intro]: "steady m \<Longrightarrow> steady (in_transaction m)"
  by (rule steadyI) (auto simp: in_transaction_def dest!: steadyD split: prod.splits sum.splits)

lemma steady_if [steady_intro]: "steady m \<Longrightarrow> steady m' \<Longrightarrow> steady (if b then m else m')"
  by simp

section \<open>The tasks\<close>

text \<open>The assertion of the announcement holds for the repost that was just made.\<close>

lemma create_post_author:
  assumes "create_post now i a d db = (Inr p, db')"
  shows "ap_id (pd_author (data_of p)) = a"
  using assms
  by (auto simp: create_post_def db_ok insert_post_def opt_row_def new_post_row_def post_new_def split: if_splits list.splits)

lemma with_repost_author: "pd_author (data_of (with_repost p q)) = pd_author (data_of q)"
  "repost_of_of (with_repost p q) = Some p"
  by (cases q; simp)+

lemma steady_announce: "us_id u = ap_id (pd_author (data_of q)) \<Longrightarrow> steady (prepare_announce e u (with_repost p q))"
  by (auto simp: prepare_announce_def with_repost_author or_panic_def build_announce_def intro!: steady_intro
      split: prod.split)

lemma steady_enqueue [steady_intro]: "steady (enqueue e out)"
  unfolding enqueue_def by (intro steady_intro)

lemma steady_task_db [steady_intro]: "steady (task_db m)"
  unfolding task_db_def by (intro steady_intro)

lemma steady_review: "steady (review_by_mention e n)"
proof (cases "no_post n")
  case (Some post)
  show ?thesis
    unfolding review_by_mention_def Some option.case Let_def task_run_def
    by (intro steady_if steady_ret steady_bind steady_task_db steady_draw steady_db_match_run steady_fail steady_map_failure
        steady_announce steady_enqueue) (auto dest: create_post_author)
qed (simp add: review_by_mention_def steady_ret)

lemma steady_perform:
  assumes "steady incoming" and "steady outgoing"
  shows "steady (perform e incoming outgoing task)"
  using assms
  by (cases task)
    (auto simp: delete_extraneous_posts_def delete_empty_profiles_def days_before_now_def delete_posts_before_def
      delete_profiles_before_def prune_remote_emojis_def handle_movies_mentions_def
      intro!: steady_intro steady_review split: option.split)

section \<open>A pass of the scheduler\<close>

text \<open>An entry that was not due at a moment between \<open>m\<close> and \<open>n\<close>.\<close>

definition served :: "environment \<Rightarrow> nat \<Rightarrow> nat \<Rightarrow> periodic_task \<times> datetime option \<Rightarrow> bool" where
  "served e m n entry \<longleftrightarrow> (\<exists>k. m \<le> k \<and> k < n \<and> \<not> is_ready (fst entry) (snd entry) (en_now e k))"

lemma just_run: "\<not> is_ready task (Some t) t"
  by (cases task) (simp_all add: is_ready_def)

lemma served_mono: "served e m n entry \<Longrightarrow> m' \<le> m \<Longrightarrow> n \<le> n' \<Longrightarrow> served e m' n' entry"
  unfolding served_def by (meson order_trans less_le_trans)

lemma run_task_serves:
  assumes "steady (tasks (fst entry))"
  shows "\<exists>entry' w'. run_task e tasks entry w = (Inr entry', w') \<and> snd w \<le> snd w' \<and> fst entry' = fst entry \<and>
    served e (snd w) (snd w') entry'"
proof -
  obtain task last_run where entry: "entry = (task, last_run)" by (cases entry)
  define due :: "bool tm" where "due = (case last_run of None \<Rightarrow> ret True
      | Some _ \<Rightarrow> bind (draw (en_now e)) (\<lambda>now. ret (is_ready task last_run now)))"
  have step: "run_task e tasks entry = bind due (\<lambda>ready. if \<not> ready then ret entry
      else bind (catching (tasks task) (\<lambda>_. ret ()) ret) (\<lambda>_. bind (draw (en_now e)) (\<lambda>now. ret (task, Some now))))"
    by (simp only: run_task_def due_def entry prod.case)
  obtain ready w1 where ready: "due w = (Inr ready, w1)" "snd w \<le> snd w1"
      "\<not> ready \<Longrightarrow> snd w1 = Suc (snd w) \<and> \<not> is_ready task last_run (en_now e (snd w))"
    by (cases last_run; cases w) (auto simp: due_def ret_def bind_def draw_def)
  show ?thesis
  proof (cases ready)
    case False
    with ready(1) have "run_task e tasks entry w = (Inr entry, w1)"
      by (simp add: step bind_Inr ready(1) ret_def)
    with ready(2,3) False show ?thesis by (auto simp: entry served_def)
  next
    case True
    obtain r w2 where run: "tasks task w1 = (r, w2)" by (cases "tasks task w1")
    with assms have w2: "snd w1 \<le> snd w2" "r \<noteq> Inl Panic"
      by (auto simp: entry dest: steadyD)
    then have caught: "catching (tasks task) (\<lambda>_. ret ()) ret w1 = (Inr (), w2)"
      by (cases r) (auto simp: catching_def attempt_def run ret_def split: failure.split)
    have "run_task e tasks entry w =
        bind (catching (tasks task) (\<lambda>_. ret ()) ret) (\<lambda>_. bind (draw (en_now e)) (\<lambda>now. ret (task, Some now))) w1"
      using True by (simp add: step bind_Inr ready(1))
    also have "\<dots> = (Inr (task, Some (en_now e (snd w2))), (fst w2, Suc (snd w2)))"
      by (simp add: bind_def [of "catching _ _ _"] caught) (cases w2, simp add: bind_def draw_def ret_def)
    finally have "run_task e tasks entry w = (Inr (task, Some (en_now e (snd w2))), (fst w2, Suc (snd w2)))" .
    moreover have "served e (snd w) (Suc (snd w2)) (task, Some (en_now e (snd w2)))"
      using ready(2) w2(1) just_run by (auto simp: served_def intro!: exI [of _ "snd w2"])
    ultimately show ?thesis using ready(2) w2(1) by (auto simp: entry)
  qed
qed

lemma scheduler_tick_serves:
  assumes "\<And>task. steady (tasks task)"
  shows "\<exists>st' w'. scheduler_tick e tasks st w = (Inr st', w') \<and> snd w \<le> snd w' \<and> map fst st' = map fst st \<and>
    (\<forall>entry \<in> set st'. served e (snd w) (snd w') entry)"
proof (induction st arbitrary: w)
  case Nil
  show ?case by (simp add: scheduler_tick_def ret_def)
next
  case (Cons entry st)
  obtain entry' w1 where 1: "run_task e tasks entry w = (Inr entry', w1)" "snd w \<le> snd w1" "fst entry' = fst entry"
      "served e (snd w) (snd w1) entry'"
    using run_task_serves [of tasks entry e w, OF assms] by blast
  from Cons obtain st' w2 where 2: "scheduler_tick e tasks st w1 = (Inr st', w2)" "snd w1 \<le> snd w2"
      "map fst st' = map fst st" "\<forall>entry \<in> set st'. served e (snd w1) (snd w2) entry"
    by blast
  have "scheduler_tick e tasks (entry # st) w = (Inr (entry' # st'), w2)"
    using 1(1) 2(1) by (simp add: scheduler_tick_def bind_def ret_def)
  with 1 2 served_mono show ?case by (auto intro: order_trans)
qed



end
