(* ===== verification/Microsyntax_Laws.thy ===== *)
theory Microsyntax_Laws
  imports Scheduler_Laws
begin

text \<open>
  What the small syntax of posts refers to: profiles that are mentioned by their address, public posts
  and the emojis of the instance.
\<close>

section \<open>Association lists\<close>

lemma set_alist_update: "set (AList.update k v m) \<subseteq> insert (k, v) (set m)"
  by (induction m) auto

lemma length_alist_update: "length (AList.update k v m) \<le> Suc (length m)"
  by (induction m) auto

lemma set_fold_update:
  "set (fold (\<lambda>x. AList.update (k x) x) xs m) \<subseteq> (\<lambda>x. (k x, x)) ` set xs \<union> set m"
proof (induction xs arbitrary: m)
  case (Cons x xs)
  from Cons [of "AList.update (k x) x m"] set_alist_update [of "k x" x m] show ?case by auto
qed simp

section \<open>Lookups\<close>

lemma query_post_view:
  assumes wf: "wf_db db" and read: "readable db" and run: "query_post q db = (Inr p, db')"
  obtains po where "po \<in> set (t_post db)" and "p = view_of db po" and "db' = db"
proof -
  from run obtain r where r: "r \<in> set (post_rows db)" "post_try_from r = Inr p" "db' = db"
    by (auto simp: query_post_def db_ok dest!: arg_cong [of _ _ set]) blast
  then obtain po where po: "po \<in> set (t_post db)" "r = joined_row db po"
    by (auto simp: post_rows_wf [OF wf])
  with r(2,3) readable_try_from(1) [OF wf read] show thesis by (intro that) auto
qed

lemma get_post_by_object_id_view:
  assumes wf: "wf_db db" and read: "readable db" and run: "get_post_by_object_id e url db = (Inr p, db')"
  obtains po where "po \<in> set (t_post db)" and "p = view_of db po" and "db' = db"
  using run query_post_view [OF wf read]
  by (auto simp: get_post_by_object_id_def get_local_post_by_id_def get_post_by_id_def
      get_post_by_remote_object_id_def db_ok split: sum.splits if_splits)

text \<open>A post that everybody may link to.\<close>

definition linkable :: "database \<Rightarrow> post \<Rightarrow> bool" where
  "linkable db p \<longleftrightarrow>
     (\<exists>po \<in> set (t_post db). p = view_of db po \<and> po_id po = pd_id (data_of p) \<and>
        po_visibility po = Public \<and> po_repost_of_id po = None)"

lemma linked_posts_loop_okD:
  assumes wf: "wf_db db" and read: "readable db"
  shows "linked_posts_loop e urls k m db = (Inr m', db') \<Longrightarrow> length m \<le> k \<Longrightarrow> k \<le> Suc LINK_LIMIT \<Longrightarrow>
    (\<forall>(u, p) \<in> set m. linkable db p) \<Longrightarrow>
    db' = db \<and> length m' \<le> Suc LINK_LIMIT \<and> (\<forall>(u, p) \<in> set m'. linkable db p)"
proof (induction e urls k m rule: linked_posts_loop.induct)
  case (1 e k m)
  then show ?case by (auto simp: db_ok)
next
  case (2 e url urls k m)
  show ?case
  proof (cases "LINK_LIMIT < k")
    case True
    with 2(5-8) show ?thesis by (auto simp: db_ok)
  next
    case False
    have reads: "keeps (\<lambda>d. d = db) (get_post_by_object_id e url)"
      by (intro keeps_intro)
    obtain r db1 where found: "get_post_by_object_id e url db = (r, db1)"
      by (cases "get_post_by_object_id e url db")
    have db1: "db1 = db" by (rule keepsD [OF reads refl found])
    show ?thesis
    proof (cases r)
      case (Inl err)
      with 2 False found db1 show ?thesis by (auto simp: attempt_def db_ok split: if_splits)
    next
      case (Inr p)
      from found [unfolded Inr] obtain po where po: "po \<in> set (t_post db)" "p = view_of db po"
        by (rule get_post_by_object_id_view [OF wf read])
      let ?skip = "pd_repost_of_id (data_of p) \<noteq> None \<or> pd_visibility (data_of p) \<noteq> Public"
      show ?thesis
      proof (cases ?skip)
        case True
        with 2(5) False found [unfolded Inr] db1 have "linked_posts_loop e urls k m db = (Inr m', db')"
          by (auto simp: attempt_def split: if_splits)
        with 2(2,3) [OF False, of p] True 2(6-8) show ?thesis by blast
      next
        case skip: False
        have "linkable db p"
          using po skip readable_try_from(2,3,7) [OF wf read po(1)]
          by (auto simp: linkable_def post_id_of_def)
        then have "\<forall>(u, p) \<in> set (AList.update url p m). linkable db p"
          using 2(8) set_alist_update [of url p m] by auto
        moreover have "length (AList.update url p m) \<le> k + 1"
          using 2(6) length_alist_update [of url p m] by simp
        moreover have "linked_posts_loop e urls (k + 1) (AList.update url p m) db = (Inr m', db')"
          using 2(5) False found [unfolded Inr] db1 skip by (auto simp: attempt_def)
        ultimately show ?thesis using 2(4) [OF False, of p] skip False by (simp add: not_less_eq_eq)
      qed
    qed
  qed
qed

lemma find_mentioned_profiles_okD:
  assumes "find_mentioned_profiles e t db = (Inr m, db')"
  shows "db' = db \<and> (\<forall>(acct, ap) \<in> set m. acct = ap_acct ap \<and> acct \<in> set (find_mentions e t) \<and> ap \<in> set (t_actor_profile db))"
proof -
  from assms have db': "db' = db" and m: "m = fold (\<lambda>ap. AList.update (ap_acct ap) ap)
      (filter (\<lambda>ap. ap_acct ap \<in> set (find_mentions e t)) (t_actor_profile db)) []"
    by (auto simp: find_mentioned_profiles_def get_profiles_by_accts_def db_ok)
  with set_fold_update [of ap_acct "filter (\<lambda>ap. ap_acct ap \<in> set (find_mentions e t)) (t_actor_profile db)" "[]"]
  show ?thesis by auto
qed

lemma find_emojis_okD:
  assumes "find_emojis e t db = (Inr m, db')"
  shows "db' = db \<and> (\<forall>(name, em) \<in> set m. name = em_emoji_name em \<and> name \<in> set (find_shortcodes e t) \<and>
    em \<in> set (t_emoji db) \<and> em_hostname em = None)"
proof -
  let ?ems = "filter (\<lambda>em. em_hostname em = None \<and> em_emoji_name em \<in> set (find_shortcodes e t)) (t_emoji db)"
  from assms have "db' = db" and "m = fold (\<lambda>em. AList.update (em_emoji_name em) em) ?ems []"
    by (auto simp: find_emojis_def get_local_emojis_by_names_def db_ok)
  with set_fold_update [of em_emoji_name ?ems "[]"] show ?thesis by auto
qed

text \<open>
  C16: What the text of a post can refer to. Parsing changes nothing. Mentioned are only profiles of
  the database whose address the text names, linked are only public posts that are no reposts, at
  most one more than the limit (which the caller refuses), and the emojis are those of the instance.
\<close>

theorem microsyntax_sound:
  assumes inv: "db_inv db" and read: "readable db" and run: "parse_microsyntaxes e t db = (Inr c, db')"
  shows "db' = db \<and>
    (\<forall>i \<in> set (mc_mentions c). \<exists>ap \<in> set (t_actor_profile db). ap_id ap = i \<and> ap_acct ap \<in> set (find_mentions e t)) \<and>
    mc_links c = map (\<lambda>p. pd_id (data_of p)) (mc_linked c) \<and>
    length (mc_links c) \<le> LINK_LIMIT + 1 \<and> (\<forall>p \<in> set (mc_linked c). linkable db p) \<and>
    (\<forall>em \<in> set (mc_emoji_rows c). em \<in> set (t_emoji db) \<and> em_hostname em = None)"
proof -
  from run [unfolded parse_microsyntaxes_def Let_def find_linked_posts_def] obtain ments db1 t2 links db2 t3 ems db3 where
    1: "find_mentioned_profiles e t db = (Inr ments, db1)" and
    2: "linked_posts_loop e (find_object_links e t2) 0 [] db1 = (Inr links, db2)" and
    3: "find_emojis e t3 db2 = (Inr ems, db')" and
    c: "mc_mentions c = map (\<lambda>kv. ap_id (snd kv)) ments" "mc_links c = map (\<lambda>kv. pd_id (data_of (snd kv))) links"
      "mc_linked c = map snd links" "mc_emoji_rows c = map snd ems"
    by (auto simp: bind_ok ret_ok)
  note ments = find_mentioned_profiles_okD [OF 1]
  have links: "db2 = db" "length links \<le> Suc LINK_LIMIT" "\<forall>(u, p) \<in> set links. linkable db p"
    using linked_posts_loop_okD [OF db_inv_wf [OF inv] read, of e "find_object_links e t2" 0 "[]" links db2] 2 ments
    by auto
  have "db' = db" "\<forall>em \<in> set (mc_emoji_rows c). em \<in> set (t_emoji db) \<and> em_hostname em = None"
    using find_emojis_okD [OF 3] links(1) by (auto simp: c)
  moreover have "\<forall>i \<in> set (mc_mentions c). \<exists>ap \<in> set (t_actor_profile db). ap_id ap = i \<and>
      ap_acct ap \<in> set (find_mentions e t)"
    using ments by (fastforce simp: c)
  moreover have "mc_links c = map (\<lambda>p. pd_id (data_of p)) (mc_linked c)" by (simp add: c)
  moreover have "length (mc_links c) \<le> LINK_LIMIT + 1" using links(2) by (simp add: c)
  moreover have "\<forall>p \<in> set (mc_linked c). linkable db p" using links(3) by (auto simp: c)
  ultimately show ?thesis by simp
qed

text \<open>A link to a local post.\<close>

lemma microsyntax_sound_witness:
  "\<exists>c. parse_microsyntaxes sample_env ''[[https://l.example/objects/-11111111111]]'' sample_db = (Inr c, sample_db) \<and>
     mc_links c = [11] \<and> (\<forall>p \<in> set (mc_linked c). linkable sample_db p)"
proof -
  have "case parse_microsyntaxes sample_env ''[[https://l.example/objects/-11111111111]]'' sample_db of
      (Inr c, _) \<Rightarrow> mc_links c = [11] | _ \<Rightarrow> False"
    by code_simp
  then obtain c db' where "parse_microsyntaxes sample_env ''[[https://l.example/objects/-11111111111]]'' sample_db =
      (Inr c, db')" "mc_links c = [11]"
    by (auto split: prod.splits sum.splits)
  with microsyntax_sound [OF sample_inv sample_readable] show ?thesis by blast
qed

end
