(* ===== verification/Account_Laws.thy ===== *)
theory Account_Laws
  imports Microsyntax_Laws
begin

text \<open>
  How clients get into an account: signing up and tokens. And how another server finds it: the
  answer to a webfinger query is read back as the identifier of the actor.
\<close>

section \<open>Tokens\<close>

lemma check_password_ok [db_ok]:
  "check_password e u pw w = (Inr x, w') \<longleftrightarrow>
     w' = w \<and> (\<exists>h. us_password_hash u = Some h \<and> en_verify_password e h pw = Some True)"
  by (auto simp: check_password_def db_ok split: if_splits)

text \<open>What shows that a request for a token comes from the owner of the account.\<close>

definition knows_password :: "environment \<Rightarrow> database \<Rightarrow> token_input \<Rightarrow> uuid \<Rightarrow> bool" where
  "knows_password e db d i \<longleftrightarrow>
     ti_grant_type d = ''password'' \<and>
     (\<exists>r ap name pw h. (r, ap) \<in> set (account_rows db) \<and> ua_id r = i \<and>
        ti_username d = Some name \<and> to_lowercase (ap_username ap) = to_lowercase name \<and>
        ua_password_hash r = Some h \<and> ti_password d = Some pw \<and> en_verify_password e h pw = Some True)"

definition has_code :: "environment \<Rightarrow> world \<Rightarrow> token_input \<Rightarrow> uuid \<Rightarrow> bool" where
  "has_code e w d i \<longleftrightarrow>
     ti_grant_type d = ''authorization_code'' \<and>
     (\<exists>z \<in> set (t_oauth_authorization (fst w)).
        ti_code d = Some (oz_code z) \<and> oz_user_id z = i \<and> en_now e (snd w) < oz_expires_at z)"

lemma find_user_okD:
  assumes "find_user p db = (Inr u, db')"
  shows "db' = db \<and> (\<exists>r ap. (r, ap) \<in> set (account_rows db) \<and> p (r, ap) \<and> u = user_of r ap)"
proof -
  from assms obtain row where "filter p (account_rows db) = [row]" "u = user_of (fst row) (snd row)" "db' = db"
    by (auto simp: find_user_def db_ok)
  moreover from this(1) have "row \<in> set (filter p (account_rows db))" by simp
  then have "row \<in> set (account_rows db)" "p row" by simp_all
  ultimately show ?thesis by (cases row) auto
qed

lemma token_user_okD:
  assumes "token_user e d w = (Inr u, w')"
  shows "fst w' = fst w \<and>
    (ti_grant_type d = ''authorization_code'' \<and> has_code e w d (us_id u) \<or>
     ti_grant_type d = ''password'' \<and>
     (\<exists>r ap name. (r, ap) \<in> set (account_rows (fst w)) \<and> u = user_of r ap \<and>
        ti_username d = Some name \<and> to_lowercase (ap_username ap) = to_lowercase name))"
proof (cases "ti_grant_type d = ''authorization_code''")
  case True
  with assms obtain code r ap where "ti_code d = Some code" "u = user_of r ap" "fst w' = fst w"
    "join_accounts oz_user_id (filter (\<lambda>z. oz_code z = code \<and> oz_expires_at z > en_now e (snd w))
      (t_oauth_authorization (fst w))) (fst w) = [(r, ap)]"
    by (auto simp: token_user_def db_ok get_user_by_authorization_code_def)
  with True show ?thesis by (auto simp: has_code_def user_of_def dest!: join_accounts_single)
next
  case False
  with assms obtain name where "ti_grant_type d = ''password''" "ti_username d = Some name"
    "get_user_by_name name (fst w) = (Inr u, fst w')"
    by (auto simp: token_user_def db_ok split: if_splits)
  with find_user_okD show ?thesis by (fastforce simp: get_user_by_name_def)
qed

text \<open>
  C11: Who gets a token. A request that succeeds shows the password of the account, or a code that the
  owner of the account was given and that has not expired. It adds one token, for this account, that
  is valid for seven days, and changes nothing else of what authorizes: the code, which could be used
  once only, stays valid.
\<close>

theorem token_for_owner_only:
  assumes "token_view e d w = (Inr t, w')"
  shows "\<exists>row. (knows_password e (fst w) d (ot_owner_id row) \<or> has_code e w d (ot_owner_id row)) \<and>
    t_oauth_token (fst w') = t_oauth_token (fst w) @ [row] \<and> ot_token row = tr_access_token t \<and>
    ot_expires_at row = ot_created_at row + 7 * one_day \<and>
    t_oauth_authorization (fst w') = t_oauth_authorization (fst w)"
proof -
  from assms obtain u w1 k where user: "token_user e d w = (Inr u, w1)" and
    pw: "ti_grant_type d = ''password'' \<longrightarrow>
      (\<exists>pw h. ti_password d = Some pw \<and> us_password_hash u = Some h \<and> en_verify_password e h pw = Some True)" and
    save: "save_oauth_token (us_id u) (tr_access_token t) (en_now e k) (en_now e k + seconds ACCESS_TOKEN_EXPIRES_IN)
      (fst w1) = (Inr (), fst w')"
    by (auto simp: token_view_def db_ok token_response_new_def split: if_splits)
  note owner = token_user_okD [OF user]
  with pw have "knows_password e (fst w) d (us_id u) \<or> has_code e w d (us_id u)"
    unfolding knows_password_def by (auto simp: user_of_def) blast
  moreover have "fst w' = fst w\<lparr>t_oauth_token := t_oauth_token (fst w) @
      [\<lparr>ot_id = next_id (fst w), ot_owner_id = us_id u, ot_token = tr_access_token t, ot_created_at = en_now e k,
        ot_expires_at = en_now e k + 7 * one_day\<rparr>], next_id := next_id (fst w) + 1\<rparr>"
    using save owner by (auto simp: save_oauth_token_def db_ok seconds_def ACCESS_TOKEN_EXPIRES_IN_def one_day_def)
  ultimately show ?thesis
    by (intro exI [of _ "\<lparr>ot_id = next_id (fst w), ot_owner_id = us_id u, ot_token = tr_access_token t,
        ot_created_at = en_now e k, ot_expires_at = en_now e k + 7 * one_day\<rparr>"]) simp
qed

text \<open>Evaluation with the lifetime in binary.\<close>

lemma token_view_code [code]:
  "token_view e d =
     bind (token_user e d) (\<lambda>u.
     bind (if ti_grant_type d = ''password'' \<or> ti_grant_type d = ''ethereum''
           then bind (api_require (ti_password d) (Api_ValidationError ''password is required'')) (check_password e u)
           else ret ()) (\<lambda>_.
     bind (draw (en_secret e)) (\<lambda>access_token.
     bind (draw (en_now e)) (\<lambda>created_at.
     bind (api_db (save_oauth_token (us_id u) access_token created_at (created_at + 604800000000))) (\<lambda>_.
     ret (token_response_new access_token (created_at div 1000000)))))))"
  by (simp add: token_view_def seconds_def ACCESS_TOKEN_EXPIRES_IN_def)

text \<open>The second user of the sample database logs in with a password.\<close>

definition sample_login :: token_input where
  "sample_login = \<lparr>ti_grant_type = ''password'', ti_code = None, ti_username = Some ''BOB'', ti_password = Some ''key''\<rparr>"

definition login_db :: database where
  "login_db = sample_db\<lparr>t_user_account := map (\<lambda>r. r\<lparr>ua_password_hash := Some ''key''\<rparr>) (t_user_account sample_db)\<rparr>"

lemma token_for_owner_only_witness:
  "\<exists>t w' row. token_view sample_env sample_login (login_db, 0) = (Inr t, w') \<and>
     knows_password sample_env login_db sample_login (ot_owner_id row) \<and>
     t_oauth_token (fst w') = t_oauth_token login_db @ [row]"
proof -
  have "case token_view sample_env sample_login (login_db, 0) of (Inr _, _) \<Rightarrow> True | _ \<Rightarrow> False"
    by code_simp
  then obtain t w' where run: "token_view sample_env sample_login (login_db, 0) = (Inr t, w')"
    by (auto split: prod.splits sum.splits)
  have "\<not> has_code sample_env (login_db, 0) sample_login i" for i
    by (simp add: has_code_def sample_login_def)
  with token_for_owner_only [OF run] run show ?thesis by auto
qed

section \<open>Signing up\<close>

text \<open>
  C36: The check before an account is made does not protect the assertion behind it. Signing up with
  a wallet message but without a password passes the validation, and then the request panics in
  \<open>create_user\<close>, with the database as it was.
\<close>

theorem signup_without_password_panics:
  assumes "ci_password d = None" and "ci_message d \<noteq> None"
    and "check_invite e (ci_invite_code d) w = (Inr (), w1)" and "validate_local_username (ci_username d) = Inr ()"
    and "en_rsa_key_pem e (snd w1) = Some key"
  shows "fst (create_account e b d w) = Inl Panic \<and> fst (snd (create_account e b d w)) = fst w"
proof -
  have "fst w1 = fst w" using assms(3)
    by (auto simp: check_invite_def db_ok is_valid_invite_code_def split: if_splits)
  moreover have "create_account e b d w = (Inl Panic, (fst w1, snd w1 + 3))"
    using assms
    by (cases w1) (auto simp: create_account_def bind_def ret_def api_check_def api_require_def draw_def create_user_def
        or_panic_def panic_def throw_def)
  ultimately show ?thesis by simp
qed

lemma signup_without_password_panics_witness:
  "fst (create_account sample_env ''https://l.example'' \<lparr>ci_username = ''carol'', ci_password = None,
     ci_message = Some ''message'', ci_invite_code = None\<rparr> (sample_db, 0)) = Inl Panic"
proof -
  have "check_invite sample_env None (sample_db, 0) = (Inr (), (sample_db, 0))"
    by (simp add: check_invite_def sample_env_def ret_def)
  moreover have "validate_local_username ''carol'' = Inr ()" by code_simp
  moreover have "en_rsa_key_pem sample_env 0 = Some ''key''" by (simp add: sample_env_def)
  ultimately show ?thesis
    using signup_without_password_panics [of "\<lparr>ci_username = ''carol'', ci_password = None,
       ci_message = Some ''message'', ci_invite_code = None\<rparr>" sample_env
       "(sample_db, 0)" "(sample_db, 0)" "''key''"]
    by simp
qed

section \<open>Webfinger\<close>

lemma address_round_trip:
  assumes "address_part wc (aa_username a)" and "address_part wc (aa_hostname a)"
  shows "address_from_str wc (address_to_string a) = Inr a"
proof -
  have "\<forall>c \<in> set (aa_username a). c \<noteq> CHR ''@''" using assms(1) by (auto simp: address_part_def)
  then have "takeWhile (\<lambda>c. c \<noteq> CHR ''@'') (address_to_string a) = aa_username a"
    "dropWhile (\<lambda>c. c \<noteq> CHR ''@'') (address_to_string a) = CHR ''@'' # aa_hostname a"
    by (simp_all add: address_to_string_def takeWhile_append2 dropWhile_append2)
  with assms show ?thesis by (simp add: address_from_str_def)
qed

definition actor_jrd :: "string \<Rightarrow> actor_address \<Rightarrow> json" where
  "actor_jrd actor_id a = JObject
     [(''subject'', JString (''acct:'' @ address_to_string a)), (''links'', JArray (map ser_link (actor_links actor_id)))]"

text \<open>The document that one server writes is read by another.\<close>

lemma actor_link_round_trip:
  "\<exists>links link. de_jrd (actor_jrd actor_id a) = Some links \<and> actor_link links = Some link \<and> jl_href link = Some actor_id"
  by (simp add: actor_jrd_def de_jrd_def actor_links_def ser_link_def de_jrd_link_def ser_optional_def ser_option_def
      de_required_def de_option_def de_default_def actor_link_def)

lemma get_jrd_registered:
  assumes "resource_address e resource w = (Inr a, w)" and "aa_hostname a = en_hostname e"
    and "aa_username a \<noteq> en_hostname e" and "is_registered_user (aa_username a) (fst w) = (Inr True, fst w)"
  shows "get_jrd e resource w = (Inr (actor_jrd (local_actor_id (en_instance_url e) (aa_username a)) a), w)"
  using assms
  by (cases w) (simp add: get_jrd_def bind_def view_db_def db_call_def ret_def actor_jrd_def)

text \<open>
  C25: Webfinger between two servers. The server answers a query for the address of a local user, and
  one for its identifier, with the same document. When another server looks the address up and the
  network delivers this document, it gets the identifier of the actor, and this parses back to the
  name of the user.
\<close>

theorem webfinger_finds_actor:
  assumes "valid_username u" and "en_word_chars e u" and "address_part (en_word_chars e) (en_hostname e)"
    and "u \<noteq> en_hostname e" and "take 4 (en_instance_url e) = ''http''" and "is_registered_user u db = (Inr True, db)"
    and "f_url = en_query_url f (guess_protocol f (en_hostname e) @ ''://'' @ en_hostname e @ ''/.well-known/webfinger'')
      (''acct:'' @ address_to_string \<lparr>aa_username = u, aa_hostname = en_hostname e\<rparr>)"
  shows "\<exists>doc. webfinger_view e (''acct:'' @ u @ ''@'' @ en_hostname e) (db, n) = (Inr (Document doc), (db, n)) \<and>
    webfinger_view e (local_actor_id (en_instance_url e) u) (db, n) = (Inr (Document doc), (db, n)) \<and>
    (\<forall>w response. en_http_get f (snd w) f_url = Inr response \<longrightarrow> en_parse_json f (hr_body response) = Some doc \<longrightarrow>
      perform_webfinger_query f \<lparr>aa_username = u, aa_hostname = en_hostname e\<rparr> w =
        (Inr (local_actor_id (en_instance_url e) u), (fst w, Suc (snd w)))) \<and>
    parse_local_actor_id (en_instance_url e) (local_actor_id (en_instance_url e) u) = Inr u"
proof -
  let ?a = "\<lparr>aa_username = u, aa_hostname = en_hostname e\<rparr>"
  let ?id = "local_actor_id (en_instance_url e) u"
  let ?doc = "actor_jrd ?id ?a"
  have chars: "\<not> is_word CHR ''@''" "\<not> is_word CHR ''.''" "\<not> is_word CHR ''-''" by code_simp+
  have word: "CHR ''@'' \<notin> set u" "filter (\<lambda>c. c \<noteq> CHR ''.'' \<and> c \<noteq> CHR ''-'') u = u" "u \<noteq> []"
    using assms(1) chars by (auto simp: valid_username_def list_all_iff filter_id_conv)
  then have "address_from_str (en_word_chars e) (u @ ''@'' @ en_hostname e) = Inr ?a"
    using assms(2,3) address_round_trip [of "en_word_chars e" ?a] by (simp add: address_part_def address_to_string_def)
  then have 1: "resource_address e (''acct:'' @ u @ ''@'' @ en_hostname e) (db, n) = (Inr ?a, (db, n))"
    by (simp add: resource_address_def parse_acct_uri_def view_check_def ret_def)
  obtain rest where "en_instance_url e = CHR ''h'' # rest" using assms(5) by (cases "en_instance_url e") auto
  then have "strip_prefix ''acct:'' ?id = None" by (simp add: local_actor_id_def)
  moreover have id: "parse_local_actor_id (en_instance_url e) ?id = Inr u"
    by (rule actor_ids.parse_build [OF assms(1)])
  moreover have "?id \<noteq> local_instance_actor_id (en_instance_url e)"
    by (simp add: local_actor_id_def local_instance_actor_id_def)
  ultimately have 2: "resource_address e ?id (db, n) = (Inr ?a, (db, n))"
    by (simp add: resource_address_def view_check_def bind_def ret_def)
  have "get_jrd e r (db, n) = (Inr ?doc, (db, n))" if "resource_address e r (db, n) = (Inr ?a, (db, n))" for r
    using get_jrd_registered [OF that] assms(4,6) by simp
  then have served: "webfinger_view e r (db, n) = (Inr (Document ?doc), (db, n))"
    if "resource_address e r (db, n) = (Inr ?a, (db, n))" for r
    using that by (simp add: webfinger_view_def catching_def attempt_def ret_def)
  obtain links link where read: "de_jrd ?doc = Some links" "actor_link links = Some link" "jl_href link = Some ?id"
    using actor_link_round_trip by blast
  have "perform_webfinger_query f ?a w = (Inr ?id, (fst w, Suc (snd w)))"
    if "en_http_get f (snd w) f_url = Inr response" "en_parse_json f (hr_body response) = Some ?doc" for w response
    using that read unfolding assms(7)
    by (cases w) (simp add: perform_webfinger_query_def Let_def fetch_json_def http_get_def parsed_def bind_def draw_def ret_def)
  with served [OF 1] served [OF 2] id show ?thesis by blast
qed

text \<open>Another server that gets the document of the first user.\<close>

definition asking_env :: environment where
  "asking_env = sample_env\<lparr>
     en_http_get := (\<lambda>n url. Inr \<lparr>hr_content_length = None, hr_body = ''jrd''\<rparr>),
     en_parse_json := (\<lambda>s. Some (actor_jrd ''https://l.example/users/alice''
       \<lparr>aa_username = ''alice'', aa_hostname = ''l.example''\<rparr>))\<rparr>"

lemma webfinger_finds_actor_witness:
  "perform_webfinger_query asking_env \<lparr>aa_username = ''alice'', aa_hostname = ''l.example''\<rparr> (remote_db, 0) =
     (Inr ''https://l.example/users/alice'', (remote_db, 1))"
proof -
  let ?doc = "actor_jrd ''https://l.example/users/alice'' \<lparr>aa_username = ''alice'', aa_hostname = ''l.example''\<rparr>"
  have host: "en_hostname sample_env = ''l.example''" "en_instance_url sample_env = ''https://l.example''"
    by (simp_all add: sample_env_def)
  have "valid_username ''alice''" "en_word_chars sample_env ''alice''"
    "address_part (en_word_chars sample_env) (en_hostname sample_env)"
    by code_simp+
  moreover have "is_registered_user ''alice'' sample_db = (Inr True, sample_db)"
  proof -
    have "case is_registered_user ''alice'' sample_db of (Inr True, _) \<Rightarrow> True | _ \<Rightarrow> False" by code_simp
    moreover have "keeps (\<lambda>d. d = sample_db) (is_registered_user ''alice'')" by (intro keeps_intro)
    ultimately show ?thesis by (auto simp: keeps_def split: prod.splits sum.splits bool.splits)
  qed
  moreover have "address_from_str (en_word_chars sample_env) ''alice@l.example'' =
      Inr \<lparr>aa_username = ''alice'', aa_hostname = ''l.example''\<rparr>"
    by code_simp
  moreover from calculation have "get_jrd sample_env ''acct:alice@l.example'' (sample_db, 0) = (Inr ?doc, (sample_db, 0))"
    using get_jrd_registered [of sample_env "''acct:alice@l.example''" "(sample_db, 0)"
        "\<lparr>aa_username = ''alice'', aa_hostname = ''l.example''\<rparr>"]
    by (simp add: host local_actor_id_def resource_address_def parse_acct_uri_def view_check_def ret_def)
  ultimately show ?thesis
    using webfinger_finds_actor [of "''alice''" sample_env sample_db _ asking_env 0]
    by (auto simp: host asking_env_def webfinger_view_def catching_def attempt_def ret_def local_actor_id_def)
qed

end
