(* ===== verification/Spec2Isabelle.thy ===== *)
theory Spec2Isabelle
  imports Identifiers Readability User_Laws Import_Laws
    Import_Types Signature_Laws Federation_Roundtrips Account_Laws
begin

text \<open>
  FediMovies is a server of the Fediverse for movie reviews: accounts, posts, follows and reactions
  in a PostgreSQL database, exchanged with other servers over ActivityPub. This library models its
  core, with the theorems that make it correct. Paths are relative to the repository: \<open>models\<close> is
  \<open>fedimovies-models/src\<close>, \<open>utils\<close> is \<open>fedimovies-utils/src\<close>, other paths are below \<open>src\<close>.

  \<^bold>\<open>The state.\<close> The server keeps its state in the database. \<open>Schema\<close> has one record for each row type
  of \<open>migrations/schema.sql\<close>, the record \<open>database\<close> of all tables, and the constraints (\<open>CHECK\<close>,
  \<open>UNIQUE\<close>, foreign keys with \<open>ON DELETE CASCADE\<close>) as the executable predicate \<open>wf_db\<close>. A query
  function of \<open>models\<close> is a value of type \<open>'a dbm\<close>: a function from a database to a \<open>DatabaseError\<close> or
  a result, and the new database. A statement that would break a constraint fails and changes
  nothing (\<open>execute\<close>, \<open>execute_catching\<close>), \<open>transaction\<close> restores the database on an error
  (\<open>Prelude\<close>). The federation code runs in \<open>hm\<close> (\<open>Federation\<close>): its state, a \<open>world\<close>, is the
  database and the number of questions asked so far to the clock, the random generator and the
  network, which are tapes in the record \<open>environment\<close>. A panic is the value \<open>Panic\<close>, which no \<open>match\<close>
  of the code catches; in pure functions it is \<open>None\<close>.

  \<^bold>\<open>Values.\<close> \<open>Identifiers\<close> (\<open>utils/caip2.rs\<close>, \<open>did.rs\<close>, \<open>did_pkh.rs\<close>, \<open>did_key.rs\<close>,
  \<open>currencies.rs\<close>, \<open>multibase.rs\<close>), \<open>Int_Enums\<close> (the \<open>i16\<close> encodings of the enumerations, one
  interpretation of the locale \<open>int_enum\<close> for each), \<open>Profile_Types\<close> (\<open>models/profiles/types.rs\<close>,
  \<open>emojis/types.rs\<close>).

  \<^bold>\<open>The database layer.\<close> \<open>Sql\<close> (\<open>LIKE\<close>, ordering, pages, \<open>models/cleanup.rs\<close>), \<open>Cascade\<close> (the
  recursive query of the deletions), \<open>Profiles\<close> (\<open>instances\<close>, \<open>emojis\<close>, \<open>profiles\<close>),
  \<open>Notifications\<close>, \<open>Relationships\<close>, \<open>Attachments\<close>, \<open>Posts\<close> (values and writes), \<open>Reactions\<close>,
  \<open>Post_Queries\<close> (every read of posts, notifications and tags), \<open>Users\<close>, \<open>Oauth\<close>, \<open>Jobs\<close>, \<open>Payments\<close>
  (\<open>invoices\<close>, \<open>subscriptions\<close>) and \<open>Markers\<close> (\<open>markers\<close>, \<open>properties\<close>) have one definition for
  each function of \<open>queries.rs\<close> and \<open>types.rs\<close> of the directory, under its name.

  \<^bold>\<open>Its laws.\<close> \<open>Invariants\<close> states \<open>db_inv\<close>: the constraints, cached counters equal to the numbers of
  rows they count, reply threads without cycles, accounts that belong to local profiles. Each
  operation keeps it (\<open>Profile_Laws\<close>, \<open>Deletion\<close>, \<open>Profile_Deletion\<close>, \<open>Post_Laws\<close>,
  \<open>Relationship_Laws\<close>, \<open>Reactions\<close>, \<open>User_Laws\<close>), and each is described on its branches: what it does
  when it succeeds and when and how it fails. \<open>System\<close> makes the operations the steps of a state
  machine, and \<open>Readability\<close> proves of every reachable database that every row can be read.
  \<open>Pagination\<close>, \<open>Post_Views\<close>, \<open>Threads\<close> and \<open>Timelines\<close> are about reads: lists show exactly what their
  filters describe and respect the visibility of posts, pages compose to the whole list, the thread
  query ends and returns the visible part of the tree in an order with no reply before its parent.

  \<^bold>\<open>Queues.\<close> \<open>Queues\<close> has the processing loops of \<open>activitypub/queues.rs\<close> and the delivery of
  \<open>activitypub/deliverer.rs\<close>; \<open>Queue_Laws\<close> bounds the attempts and shows that a round of the loop
  refines an abstract one, in which the recipients are a set still to be reached.

  \<^bold>\<open>Federation.\<close> \<open>Ap_Identifiers\<close> (\<open>activitypub/identifiers.rs\<close>, \<open>webfinger/types.rs\<close>),
  \<open>Validators\<close> (\<open>validators\<close>), \<open>Ap_Objects\<close> (\<open>activitypub/types.rs\<close>, the pure parts of
  \<open>handlers/create.rs\<close>), \<open>Actors\<close> (\<open>activitypub/actors\<close>), \<open>Fetchers\<close> (\<open>activitypub/fetcher\<close>,
  \<open>media.rs\<close>), \<open>Movies\<close> (\<open>tmdb/service.rs\<close>), \<open>Import\<close> (\<open>handlers/create.rs\<close>, \<open>import_post\<close>),
  \<open>Builders\<close> (\<open>activitypub/builders\<close>), \<open>Signatures\<close> (\<open>http_signatures\<close>, \<open>json_signatures\<close>,
  \<open>authentication.rs\<close>), \<open>Handlers\<close> (\<open>activitypub/handlers\<close>) and \<open>Receiver\<close> (\<open>receiver.rs\<close>, the import
  of an outbox). The handlers call the database layer, so the locale \<open>step_closed\<close> of
  \<open>Federation_Laws\<close>, whose contract is a property that the steps of \<open>System\<close> keep, carries such a
  property through every handler; its interpretation gives the reachable databases.
  \<open>Federation_Safety\<close> says what an activity can change and who has to have sent it, \<open>Import_Laws\<close>
  bounds an import and runs the whole server as a state machine, \<open>Import_Types\<close> is about the sizes of
  imported profiles, and \<open>Signature_Laws\<close> and \<open>Federation_Roundtrips\<close> about what one server writes and
  another reads. \<open>Sample\<close> and \<open>Federation_Sample\<close> hold the small database and environment that the
  witnesses use.

  \<^bold>\<open>The client API.\<close> \<open>Microsyntax\<close> (\<open>mastodon_api/statuses/microsyntax\<close>), \<open>Api_Types\<close> (errors, the
  current user, uploads, pages, the values of the answers), \<open>Statuses\<close> (\<open>mastodon_api/statuses\<close>),
  \<open>Accounts_Api\<close> (\<open>mastodon_api/accounts\<close>, \<open>settings\<close>) and \<open>Client_Api\<close> (\<open>oauth\<close>, \<open>apps\<close>, timelines,
  notifications, markers, media, directory, subscriptions, search) have one definition for each view:
  its parameters are those of the request, its result is the value that is serialized or a
  \<open>MastodonError\<close>. \<open>Ap_Views\<close> has the views of \<open>activitypub/views.rs\<close>, \<open>collections.rs\<close> and
  \<open>webfinger\<close>, \<open>Public_Views\<close> the feeds, \<open>nodeinfo\<close>, the instance and the redirects of \<open>web_client\<close>.
  \<open>Periodic\<close> (\<open>job_queue\<close>) holds the tasks and the scheduler, \<open>Cli\<close> the commands of
  \<open>fedimovies-cli/src/cli.rs\<close>, \<open>Config\<close> the configuration (\<open>fedimovies-config/src\<close>).

  \<^bold>\<open>The whole server.\<close> \<open>Api_Laws\<close> continues the context of \<open>step_closed\<close> for every view, task and
  command. \<open>Server\<close> has the requests as datatypes, the functions that answer them, and the step
  relation \<open>full_step\<close> in which clients, other servers, tasks and commands take turns; every state
  that it reaches is consistent and readable. \<open>Status_Laws\<close> shows what clients see, create and
  delete, \<open>Microsyntax_Laws\<close> what the text of a post can refer to, \<open>Account_Laws\<close> who gets a token and
  how another server finds an account, \<open>Scheduler_Laws\<close> that the scheduler keeps up.

  \<^bold>\<open>Bounds and fuel.\<close> The loops of the code that can be proved to end are functions with a
  termination proof: \<open>import_loop\<close> by the fetches left (at most \<open>RECURSION_DEPTH_MAX\<close>, 50), the object
  held and the length of the queue. The recursive SQL queries run on fuel, the number of posts:
  \<open>Cascade\<close> and \<open>Threads\<close> prove this to be enough on every database that satisfies the invariant, so
  that \<open>None\<close> never occurs there. The ranges of the \<open>INTEGER\<close> columns are part of \<open>wf_db\<close>: a statement
  that would leave them fails. File sizes are \<open>64 word\<close>, where the product with the unit wraps around.

  \<^bold>\<open>Assumptions.\<close> Strings are the bytes of their UTF-8 encoding. Dates are microseconds. Identifiers
  are numbers in the order of \<open>Uuid\<close>. The URL of the instance is an origin with no character that
  has a meaning in regular expressions but the dot. SQL statements are atomic and run one after the
  other; a step of the state machine is a whole call, so that interleavings within one call are not
  covered. What is not in the repository (RSA, base64, base58, URL and HTML parsing, Unicode
  tables, JSON text, the HTTP client) is a field of \<open>environment\<close>; the laws a theorem needs of it are
  its hypotheses, and its witness has an environment that satisfies them.

  \<^bold>\<open>Not modelled.\<close> What only configures or calls a library: Markdown and the HTML sanitizer
  (\<open>utils/markdown.rs\<close>, \<open>html.rs\<close>), RSA, hashes, passwords and random numbers, the HTTP client and the
  IPFS client. The glue of the HTTP server: routes, extractors, CORS, the log, the HTML of the
  authorization page, static files. Connections, the pool and migrations. The removal of files from
  the disk, whose names the deletions return. Timeouts that drop a delivery half way, and the
  interleaving of two requests between their statements.
\<close>

end
